(* ===== verification/Js_Prelude.thy ===== *)
theory Js_Prelude
  imports Main "HOL-Library.Multiset" "HOL-Library.Sublist" "HOL-Library.List_Lexorder"
    "HOL-Library.Char_ord"
begin

text \<open>
  The fragment of JavaScript the dashboard code is written in, shared by every other theory:
  strings as lists of characters (with the ASCII case maps, \<open>trim\<close>, \<open>startsWith\<close>,
  \<open>includes\<close>, \<open>split\<close> and \<open>join\<close>), decimal rendering of numbers, objects used as
  dictionaries (association lists in insertion order), \<open>Array.prototype\<close> operations that are
  not already list functions of HOL, JSON values with \<open>String(...)\<close> and truthiness, and errors
  as values.  The lemmas below are the ones several components use; those that drive
  simplification are declared so, the others are collected in \<open>js_simps\<close>.

  A character is an 8-bit code unit; case mapping and white space follow the ASCII part of the
  ECMAScript tables, every other unit is left as it is.  Names inherited from
  \<open>Object.prototype\<close> are not entries of a dictionary.
\<close>

named_theorems js_simps \<open>definitional equations of the JavaScript library fragment\<close>

section \<open>Strings\<close>

definition js_char_upper :: "char \<Rightarrow> char" where
  "js_char_upper c = (if 97 \<le> (of_char c :: nat) \<and> (of_char c :: nat) \<le> 122
     then char_of ((of_char c :: nat) - 32) else c)"

definition js_char_lower :: "char \<Rightarrow> char" where
  "js_char_lower c = (if 65 \<le> (of_char c :: nat) \<and> (of_char c :: nat) \<le> 90
     then char_of ((of_char c :: nat) + 32) else c)"

definition toUpperCase :: "string \<Rightarrow> string" where
  "toUpperCase s = map js_char_upper s"

definition toLowerCase :: "string \<Rightarrow> string" where
  "toLowerCase s = map js_char_lower s"

text \<open>White space and line terminators of ECMAScript in the range of a code unit: tab to carriage
  return, the space and the no-break space.\<close>

definition js_space :: "char \<Rightarrow> bool" where
  "js_space c \<longleftrightarrow> (let n = (of_char c :: nat) in (9 \<le> n \<and> n \<le> 13) \<or> n = 32 \<or> n = 160)"

definition trim :: "string \<Rightarrow> string" where
  "trim s = rev (dropWhile js_space (rev (dropWhile js_space s)))"

definition startsWith :: "string \<Rightarrow> string \<Rightarrow> bool" where
  "startsWith s p \<longleftrightarrow> prefix p s"

fun str_includes :: "string \<Rightarrow> string \<Rightarrow> bool" where
  "str_includes [] t = (t = [])"
| "str_includes (c # s) t = (prefix t (c # s) \<or> str_includes s t)"

text \<open>\<open>s.split(sep)\<close> for a separator of one character.\<close>

fun split_on :: "char \<Rightarrow> string \<Rightarrow> string list" where
  "split_on d [] = [[]]"
| "split_on d (c # s) =
     (if c = d then [] # split_on d s
      else (case split_on d s of [] \<Rightarrow> [[c]] | w # ws \<Rightarrow> (c # w) # ws))"

fun join :: "string \<Rightarrow> string list \<Rightarrow> string" where
  "join sep [] = []"
| "join sep [x] = x"
| "join sep (x # y # zs) = x @ sep @ join sep (y # zs)"

definition newline :: char where
  "newline = CHR 0x0A"

definition quote :: char where
  "quote = CHR 0x22"

section \<open>Numbers in decimal\<close>

definition digit_char :: "nat \<Rightarrow> char" where
  "digit_char d = char_of (48 + d)"

definition is_digit :: "char \<Rightarrow> bool" where
  "is_digit c \<longleftrightarrow> 48 \<le> (of_char c :: nat) \<and> (of_char c :: nat) \<le> 57"

fun nat_to_string :: "nat \<Rightarrow> string" where
  "nat_to_string n =
     (if n < 10 then [digit_char n] else nat_to_string (n div 10) @ [digit_char (n mod 10)])"

declare nat_to_string.simps [simp del]

definition int_to_string :: "int \<Rightarrow> string" where
  "int_to_string i = (if i < 0 then ''-'' @ nat_to_string (nat (- i)) else nat_to_string (nat i))"

text \<open>Reading a decimal numeral back, the left inverse of \<^const>\<open>nat_to_string\<close>.\<close>

definition digits_value :: "string \<Rightarrow> nat" where
  "digits_value s = foldl (\<lambda>n c. 10 * n + ((of_char c :: nat) - 48)) 0 s"

section \<open>Dictionaries\<close>

type_synonym 'v js_obj = "(string \<times> 'v) list"

abbreviation obj_get :: "'v js_obj \<Rightarrow> string \<Rightarrow> 'v option" where
  "obj_get \<equiv> map_of"

fun obj_set :: "'v js_obj \<Rightarrow> string \<Rightarrow> 'v \<Rightarrow> 'v js_obj" where
  "obj_set [] k v = [(k, v)]"
| "obj_set ((k', v') # o') k v = (if k = k' then (k, v) # o' else (k', v') # obj_set o' k v)"

definition obj_keys :: "'v js_obj \<Rightarrow> string list" where
  "obj_keys ob = map fst ob"

section \<open>Arrays\<close>

text \<open>\<open>xs.slice(a, b)\<close> for non-negative bounds.\<close>

definition slice :: "nat \<Rightarrow> nat \<Rightarrow> 'a list \<Rightarrow> 'a list" where
  "slice a b xs = take (b - a) (drop a xs)"

text \<open>\<open>xs.findIndex(p)\<close>: the first index, or \<open>-1\<close>.\<close>

fun findIndex_from :: "nat \<Rightarrow> ('a \<Rightarrow> bool) \<Rightarrow> 'a list \<Rightarrow> int" where
  "findIndex_from i p [] = - 1"
| "findIndex_from i p (x # xs) = (if p x then int i else findIndex_from (Suc i) p xs)"

definition findIndex :: "('a \<Rightarrow> bool) \<Rightarrow> 'a list \<Rightarrow> int" where
  "findIndex p xs = findIndex_from 0 p xs"

text \<open>\<open>xs.splice(i, 1)\<close> on a copy.\<close>

definition remove_nth :: "nat \<Rightarrow> 'a list \<Rightarrow> 'a list" where
  "remove_nth i xs = take i xs @ drop (Suc i) xs"

text \<open>\<open>Math.max(...xs)\<close> of a non-empty list.\<close>

definition math_max :: "int \<Rightarrow> int list \<Rightarrow> int" where
  "math_max x xs = foldl max x xs"

section \<open>JSON values, errors\<close>

datatype json =
    JNull
  | JBool bool
  | JNum int
  | JDec int nat
  | JStr string
  | JArr "json list"
  | JObj "(string \<times> json) list"

text \<open>A number with a fraction is \<open>JDec m k\<close>, the decimal \<open>m\<close> divided by the \<open>k\<close>-th power of ten; its text has no
  zeros at the end of the fraction.\<close>

definition dec_to_string :: "int \<Rightarrow> nat \<Rightarrow> string" where
  "dec_to_string m k =
     (let a = nat \<bar>m\<bar>;
          frac = nat_to_string (a mod 10 ^ k);
          digits = rev (dropWhile (\<lambda>c. c = CHR ''0'') (rev (replicate (k - length frac) (CHR ''0'') @ frac)))
      in (if m < 0 then ''-'' else []) @ nat_to_string (a div 10 ^ k) @
         (if digits = [] then [] else CHR ''.'' # digits))"

text \<open>\<open>String(v)\<close>; an array is joined with commas and its null elements are empty.\<close>

fun js_String :: "json \<Rightarrow> string" where
  "js_String JNull = ''null''"
| "js_String (JBool b) = (if b then ''true'' else ''false'')"
| "js_String (JNum n) = int_to_string n"
| "js_String (JDec m k) = dec_to_string m k"
| "js_String (JStr s) = s"
| "js_String (JArr xs) = join '','' (map (\<lambda>x. if x = JNull then [] else js_String x) xs)"
| "js_String (JObj _) = ''[object Object]''"

fun truthy :: "json \<Rightarrow> bool" where
  "truthy JNull = False"
| "truthy (JBool b) = b"
| "truthy (JNum n) = (n \<noteq> 0)"
| "truthy (JDec m k) = (m \<noteq> 0)"
| "truthy (JStr s) = (s \<noteq> [])"
| "truthy (JArr _) = True"
| "truthy (JObj _) = True"

text \<open>What a \<open>catch\<close> clause receives: an instance of \<open>Error\<close> with its message, or a thrown
  value that is none.\<close>

datatype js_error = Js_Error string | Js_Thrown_Value

text \<open>\<open>x || d\<close> on optional strings.\<close>

definition str_or :: "string option \<Rightarrow> string \<Rightarrow> string" where
  "str_or x d = (case x of None \<Rightarrow> d | Some s \<Rightarrow> if s = [] then d else s)"

section \<open>Lemmas on strings\<close>

lemma length_toUpperCase [simp]: "length (toUpperCase s) = length s"
  by (simp add: toUpperCase_def)

lemma length_toLowerCase [simp]: "length (toLowerCase s) = length s"
  by (simp add: toLowerCase_def)

lemma js_char_lower_idem [simp]: "js_char_lower (js_char_lower c) = js_char_lower c"
  by (auto simp: js_char_lower_def)

lemma js_char_upper_idem [simp]: "js_char_upper (js_char_upper c) = js_char_upper c"
  by (auto simp: js_char_upper_def)

lemma toLowerCase_idem [simp]: "toLowerCase (toLowerCase s) = toLowerCase s"
  by (simp add: toLowerCase_def)

lemma toUpperCase_idem [simp]: "toUpperCase (toUpperCase s) = toUpperCase s"
  by (simp add: toUpperCase_def)

lemma toLowerCase_append [simp]: "toLowerCase (s @ t) = toLowerCase s @ toLowerCase t"
  by (simp add: toLowerCase_def)

lemma str_includes_iff: "str_includes s t \<longleftrightarrow> sublist t s"
proof (induction s)
  case (Cons c s)
  then show ?case by (simp add: sublist_Cons_right)
qed simp

lemma str_includes_Nil [simp]: "str_includes s []"
  by (simp add: str_includes_iff)

lemma trim_no_spaces: "\<forall>c \<in> set s. \<not> js_space c \<Longrightarrow> trim s = s"
proof -
  assume "\<forall>c \<in> set s. \<not> js_space c"
  then have "dropWhile js_space s = s" and "dropWhile js_space (rev s) = rev s"
    by (auto simp: dropWhile_eq_self_iff hd_rev)
  then show "trim s = s" by (simp add: trim_def)
qed

lemma dropWhile_suffix_hd: "dropWhile P s = [] \<or> \<not> P (hd (dropWhile P s))"
  using hd_dropWhile by blast

lemma dropWhile_rev_keeps_hd:
  assumes "s \<noteq> []" and "\<not> P (hd s)"
  shows "rev (dropWhile P (rev s)) \<noteq> [] \<and> hd (rev (dropWhile P (rev s))) = hd s"
proof -
  obtain c t where s: "s = c # t" using assms(1) by (cases s) auto
  have c: "\<not> P c" using assms(2) s by simp
  have "dropWhile P (rev t @ [c]) = (if \<exists>x \<in> set t. \<not> P x then dropWhile P (rev t) @ [c] else [c])"
    using c by (auto simp: dropWhile_append)
  then show ?thesis using s by auto
qed

lemma trim_ends:
  assumes "trim s \<noteq> []"
  shows "\<not> js_space (hd (trim s)) \<and> \<not> js_space (last (trim s))"
proof -
  let ?t = "dropWhile js_space s"
  have ne: "?t \<noteq> []" using assms unfolding trim_def by (metis dropWhile.simps(1) rev.simps(1))
  have h: "\<not> js_space (hd ?t)" using ne hd_dropWhile by blast
  have "hd (trim s) = hd ?t"
    using dropWhile_rev_keeps_hd [OF ne, of js_space] h by (simp add: trim_def)
  moreover have "\<not> js_space (last (trim s))"
    using assms hd_dropWhile [of js_space "rev ?t"] by (simp add: trim_def last_rev)
  ultimately show ?thesis using h by simp
qed

lemma trim_idem [simp]: "trim (trim s) = trim s"
proof (cases "trim s = []")
  case False
  let ?u = "trim s"
  have "dropWhile js_space ?u = ?u" and "dropWhile js_space (rev ?u) = rev ?u"
    using False trim_ends [OF False] by (auto simp: dropWhile_eq_self_iff hd_rev)
  then show ?thesis by (subst trim_def) simp
next
  case True
  then show ?thesis by (simp only: True) (simp add: trim_def)
qed

lemma split_on_ne [simp]: "split_on d s \<noteq> []"
  by (induction s) (auto split: list.splits)

lemma split_on_no_sep: "w \<in> set (split_on d s) \<Longrightarrow> d \<notin> set w"
proof (induction s arbitrary: w)
  case (Cons c s)
  then show ?case by (auto split: if_splits list.splits)
qed simp

lemma join_split_on: "join [d] (split_on d s) = s"
proof (induction s)
  case (Cons c s)
  obtain w ws where sp: "split_on d s = w # ws" using split_on_ne by (cases "split_on d s") auto
  show ?case
  proof (cases "c = d")
    case True
    then show ?thesis using Cons sp by simp
  next
    case False
    then show ?thesis using Cons sp by (cases ws) auto
  qed
qed simp

lemma split_on_append_sep: "d \<notin> set w \<Longrightarrow> split_on d (w @ d # s) = w # split_on d s"
  by (induction w) auto

lemma split_on_single: "d \<notin> set w \<Longrightarrow> split_on d w = [w]"
  by (induction w) auto

lemma split_on_join:
  "ws \<noteq> [] \<Longrightarrow> \<forall>w \<in> set ws. d \<notin> set w \<Longrightarrow> split_on d (join [d] ws) = ws"
proof (induction "[d]" ws rule: join.induct)
  case (2 x)
  then show ?case by (simp add: split_on_single)
next
  case (3 x y zs)
  then show ?case by (simp add: split_on_append_sep)
qed simp

lemma join_Cons: "ys \<noteq> [] \<Longrightarrow> join sep (x # ys) = x @ sep @ join sep ys"
  by (cases ys) auto

lemma join_append: "xs \<noteq> [] \<Longrightarrow> ys \<noteq> [] \<Longrightarrow> join sep (xs @ ys) = join sep xs @ sep @ join sep ys"
proof (induction xs)
  case (Cons x xs)
  then show ?case by (cases "xs = []") (auto simp: join_Cons)
qed simp

section \<open>Lemmas on numbers\<close>

lemma digit_char_value: "d < 10 \<Longrightarrow> (of_char (digit_char d) :: nat) = 48 + d"
  by (simp add: digit_char_def)

lemma digit_char_is_digit: "d < 10 \<Longrightarrow> is_digit (digit_char d)"
  by (simp add: is_digit_def digit_char_value)

lemma nat_to_string_digits: "c \<in> set (nat_to_string n) \<Longrightarrow> is_digit c"
proof (induction n rule: nat_to_string.induct)
  case (1 n)
  then show ?case
    by (cases "n < 10") (auto simp: nat_to_string.simps [of n] digit_char_is_digit)
qed

lemma nat_to_string_ne [simp]: "nat_to_string n \<noteq> []"
  by (subst nat_to_string.simps) simp

lemma digits_value_snoc: "digits_value (s @ [c]) = 10 * digits_value s + ((of_char c :: nat) - 48)"
  by (simp add: digits_value_def)

lemma digits_value_nat_to_string [simp]: "digits_value (nat_to_string n) = n"
proof (induction n rule: nat_to_string.induct)
  case (1 n)
  show ?case
  proof (cases "n < 10")
    case True
    then show ?thesis
      by (simp add: nat_to_string.simps [of n] digits_value_def digit_char_value)
  next
    case False
    then show ?thesis
      using 1 by (simp add: nat_to_string.simps [of n] digits_value_snoc digit_char_value)
  qed
qed

lemma nat_to_string_inj: "nat_to_string m = nat_to_string n \<longleftrightarrow> m = n"
  by (metis digits_value_nat_to_string)

lemma minus_not_digit: "\<not> is_digit (CHR ''-'')"
  by (simp add: is_digit_def)

lemma int_to_string_inj: "int_to_string i = int_to_string j \<longleftrightarrow> i = j"
proof
  assume eq: "int_to_string i = int_to_string j"
  have no: "nat_to_string n \<noteq> CHR ''-'' # s" for n s
    using nat_to_string_digits [of "CHR ''-''" n] minus_not_digit by auto
  show "i = j"
    using eq no no [symmetric]
    by (auto simp: int_to_string_def nat_to_string_inj eq_nat_nat_iff split: if_splits)
qed simp

lemma int_to_string_chars: "c \<in> set (int_to_string i) \<Longrightarrow> is_digit c \<or> c = CHR ''-''"
  by (auto simp: int_to_string_def nat_to_string_digits split: if_splits)

lemma int_to_string_ne [simp]: "int_to_string i \<noteq> []"
  by (simp add: int_to_string_def)

section \<open>Lemmas on dictionaries and arrays\<close>

lemma obj_get_set [simp]:
  "obj_get (obj_set ob k v) k' = (if k' = k then Some v else obj_get ob k')"
  by (induction ob k v rule: obj_set.induct) auto

lemma obj_keys_set: "set (obj_keys (obj_set ob k v)) = insert k (set (obj_keys ob))"
  by (induction ob k v rule: obj_set.induct) (auto simp: obj_keys_def)

lemma obj_set_distinct: "distinct (obj_keys ob) \<Longrightarrow> distinct (obj_keys (obj_set ob k v))"
proof (induction ob k v rule: obj_set.induct)
  case (2 k' v' o' k v)
  then show ?case using obj_keys_set [of o' k v] by (auto simp: obj_keys_def)
qed (simp add: obj_keys_def)

lemma obj_get_None_iff: "obj_get ob k = None \<longleftrightarrow> k \<notin> set (obj_keys ob)"
  by (force simp: map_of_eq_None_iff obj_keys_def)

lemma findIndex_from_bounds:
  "findIndex_from i p xs = - 1 \<and> (\<forall>x \<in> set xs. \<not> p x) \<or>
   (\<exists>k < length xs. findIndex_from i p xs = int (i + k) \<and> p (xs ! k) \<and> (\<forall>j < k. \<not> p (xs ! j)))"
proof (induction i p xs rule: findIndex_from.induct)
  case (2 i p x xs)
  show ?case
  proof (cases "p x")
    case True
    then show ?thesis by (intro disjI2 exI [of _ 0]) simp
  next
    case False
    from 2 [OF False] show ?thesis
    proof
      assume "\<exists>k<length xs. findIndex_from (Suc i) p xs = int (Suc i + k) \<and> p (xs ! k) \<and>
        (\<forall>j<k. \<not> p (xs ! j))"
      then obtain k where "k < length xs" "findIndex_from (Suc i) p xs = int (Suc i + k)"
        "p (xs ! k)" "\<forall>j<k. \<not> p (xs ! j)" by blast
      then show ?thesis using False
        by (intro disjI2 exI [of _ "Suc k"]) (auto simp: less_Suc_eq_0_disj nth_Cons split: nat.splits)
    qed (use False in simp)
  qed
qed simp

lemma findIndex_found:
  assumes "x \<in> set xs" and "p x"
  shows "\<exists>k < length xs. findIndex p xs = int k \<and> p (xs ! k) \<and> (\<forall>j < k. \<not> p (xs ! j))"
  using findIndex_from_bounds [of 0 p xs] assms by (auto simp: findIndex_def)

lemma math_max_ge: "x \<le> math_max x xs \<and> (\<forall>y \<in> set xs. y \<le> math_max x xs)"
proof (induction xs arbitrary: x)
  case (Cons z zs)
  have "max x z \<le> math_max (max x z) zs" and "\<forall>y \<in> set zs. y \<le> math_max (max x z) zs"
    using Cons [of "max x z"] by auto
  then show ?case by (auto simp: math_max_def)
qed (simp add: math_max_def)

lemma math_max_in: "math_max x xs \<in> insert x (set xs)"
proof (induction xs arbitrary: x)
  case (Cons z zs)
  have "math_max (max x z) zs \<in> insert (max x z) (set zs)" by (rule Cons)
  then show ?case by (auto simp: math_max_def max_def split: if_splits)
qed (simp add: math_max_def)

lemma find_SomeD: "find P xs = Some x \<Longrightarrow> x \<in> set xs \<and> P x"
  by (induction xs) (auto split: if_splits)

lemmas [js_simps] = toUpperCase_def toLowerCase_def js_char_upper_def js_char_lower_def
  startsWith_def newline_def quote_def int_to_string_def nat_to_string.simps digit_char_def
  is_digit_def obj_keys_def slice_def findIndex_def remove_nth_def str_or_def

lemma upper_actions: "toUpperCase ''block'' = ''BLOCK''" "toUpperCase ''challenge'' = ''CHALLENGE''"
  by code_simp+

end
