(* ===== verification/Field_Metadata.thy ===== *)
theory Field_Metadata
  imports Js_Prelude
begin

text \<open>
  The field catalogue behind the rule builder.  \<open>frontend/src/lib/field-metadata.ts\<close> fetches the
  field definitions of the rule language from the backend once, classifies them and keeps them in
  the module variable \<open>cachedFields\<close>; \<open>frontend/src/lib/fields.ts\<close> is the static catalogue.
  The cache is explicit state here, and the answer of \<open>fetch\<close> is an argument, so that a first
  call, a repeated call and a failed call are all branches of \<open>fetchFieldMetadata\<close>.

  The lemmas show that the cache is filled exactly by a successful fetch and then answers without
  the network, that the catalogue never contains a \<open>device.\<close> field, and that the categories shown
  in the selector split the catalogue without loss or repetition.
\<close>

section \<open>Data\<close>

datatype field_type = FT_string | FT_number | FT_boolean

record operator_metadata =
  op_value :: string
  op_label :: string
  op_symbol :: string
  op_description :: "string option"

text \<open>The backend's description of a field; its type is sent as a string.\<close>

record field_metadata =
  fm_name :: string
  fm_type :: string
  fm_allowed_operators :: "operator_metadata list"
  fm_description :: string

record field_definition =
  fd_label :: string
  fd_type :: field_type
  fd_category :: string
  fd_description :: "string option"
  fd_allowedOperators :: "operator_metadata list"

type_synonym fields = "field_definition js_obj"

section \<open>Classification\<close>

definition mapBackendTypeToFrontend :: "string \<Rightarrow> field_type" where
  "mapBackendTypeToFrontend ty =
     (if ty = ''int'' then FT_number
      else if ty = ''bool'' then FT_boolean
      else if ty = ''string'' \<or> ty = ''ip'' then FT_string
      else FT_string)"

definition getCategoryForField :: "string \<Rightarrow> string" where
  "getCategoryForField fieldName =
     (if startsWith fieldName ''ip.'' \<or> fieldName = ''asn'' \<or> fieldName = ''country''
      then ''IP & Network''
      else if startsWith fieldName ''http.'' \<and> \<not> str_includes fieldName ''ua'' \<and>
        \<not> str_includes fieldName ''cookie'' \<and> \<not> str_includes fieldName ''referer'' \<and>
        \<not> str_includes fieldName ''accept''
      then ''HTTP Request''
      else if startsWith fieldName ''http.'' \<and>
        (str_includes fieldName ''ua'' \<or> str_includes fieldName ''cookie'' \<or>
         str_includes fieldName ''referer'' \<or> str_includes fieldName ''accept'')
      then ''Headers''
      else if startsWith fieldName ''client.'' \<or> startsWith fieldName ''device.''
      then ''Device''
      else if startsWith fieldName ''req.'' then ''Rate''
      else ''Other'')"

definition field_labels :: "string js_obj" where
  "field_labels =
     [(''ip.src'', ''IP Source''),
      (''ip.version'', ''IP Version''),
      (''ip.is_datacenter'', ''Is Datacenter IP''),
      (''asn'', ''ASN''),
      (''country'', ''Country''),
      (''http.host'', ''Host''),
      (''http.path'', ''Path''),
      (''http.query'', ''Query String''),
      (''http.scheme'', ''Scheme''),
      (''http.version'', ''Protocol Version''),
      (''http.method'', ''Request Method''),
      (''http.ua'', ''User Agent''),
      (''http.cookie'', ''Cookie''),
      (''http.referer'', ''Referer''),
      (''http.accept'', ''Accept Header''),
      (''client.os'', ''Operating System''),
      (''client.browser'', ''Browser''),
      (''client.is_mobile'', ''Is Mobile''),
      (''client.is_desktop'', ''Is Desktop''),
      (''client.is_tablet'', ''Is Tablet''),
      (''req.rate'', ''Request Rate'')]"

definition getLabelForField :: "string \<Rightarrow> string" where
  "getLabelForField fieldName = str_or (obj_get field_labels fieldName) fieldName"

section \<open>Fetching and caching\<close>

text \<open>What \<open>fetch\<close> and \<open>response.json()\<close> can do: reject, or answer with the \<open>ok\<close> flag and a
  body that is either not the expected JSON document or a list of field descriptions.\<close>

datatype fields_response =
    Fields_Fetch_Rejects js_error
  | Fields_Response bool "js_error + field_metadata list"

definition convert_field :: "field_metadata \<Rightarrow> field_definition" where
  "convert_field f = \<lparr> fd_label = getLabelForField (fm_name f),
     fd_type = mapBackendTypeToFrontend (fm_type f),
     fd_category = getCategoryForField (fm_name f),
     fd_description = Some (fm_description f),
     fd_allowedOperators = fm_allowed_operators f \<rparr>"

text \<open>The body of the \<open>forEach\<close> over the backend's list.\<close>

definition add_field :: "fields \<Rightarrow> field_metadata \<Rightarrow> fields" where
  "add_field acc f =
     (if startsWith (fm_name f) ''device.'' then acc
      else obj_set acc (fm_name f) (convert_field f))"

definition convert_fields :: "field_metadata list \<Rightarrow> fields" where
  "convert_fields fs = foldl add_field [] fs"

text \<open>The result of the promise, the new value of \<open>cachedFields\<close> and whether the network was
  used.\<close>

definition fetchFieldMetadata ::
  "fields option \<Rightarrow> fields_response \<Rightarrow> (js_error + fields) \<times> fields option \<times> bool" where
  "fetchFieldMetadata cachedFields answer =
     (case cachedFields of
        Some fs \<Rightarrow> (Inr fs, Some fs, False)
      | None \<Rightarrow>
         (case answer of
            Fields_Fetch_Rejects e \<Rightarrow> (Inl e, None, True)
          | Fields_Response okay body \<Rightarrow>
             (if \<not> okay then (Inl (Js_Error ''Failed to fetch field metadata''), None, True)
              else (case body of
                  Inl e \<Rightarrow> (Inl e, None, True)
                | Inr data \<Rightarrow> (let fs = convert_fields data in (Inr fs, Some fs, True))))))"

definition clearFieldCache :: "fields option \<Rightarrow> fields option" where
  "clearFieldCache cachedFields = None"

section \<open>Queries on a catalogue\<close>

definition getCategories :: "fields \<Rightarrow> string list" where
  "getCategories fs = sort (remdups (map (fd_category \<circ> snd) fs))"

definition getFieldsByCategory :: "fields \<Rightarrow> string \<Rightarrow> (string \<times> field_definition) list" where
  "getFieldsByCategory fs category = filter (\<lambda>(_, f). fd_category f = category) fs"

definition getAllowedOperators :: "fields \<Rightarrow> string \<Rightarrow> operator_metadata list" where
  "getAllowedOperators fs fieldName =
     (case obj_get fs fieldName of None \<Rightarrow> [] | Some f \<Rightarrow> fd_allowedOperators f)"

section \<open>The static catalogue\<close>

record static_field =
  sf_label :: string
  sf_type :: field_type
  sf_category :: string
  sf_description :: "string option"

definition mk_static :: "string \<Rightarrow> field_type \<Rightarrow> string \<Rightarrow> string \<Rightarrow> static_field" where
  "mk_static l t c d = \<lparr> sf_label = l, sf_type = t, sf_category = c, sf_description = Some d \<rparr>"

definition FIELDS :: "static_field js_obj" where
  "FIELDS =
     [(''ip.src'', mk_static ''IP Source'' FT_string ''IP & Network'' ''Client IP address''),
      (''ip.version'', mk_static ''IP Version'' FT_number ''IP & Network'' ''IP version (4 or 6)''),
      (''ip.is_datacenter'', mk_static ''Is Datacenter IP'' FT_boolean ''IP & Network'' ''IP from datacenter''),
      (''asn'', mk_static ''ASN'' FT_number ''IP & Network'' ''Autonomous System Number''),
      (''country'', mk_static ''Country'' FT_string ''IP & Network'' ''Country code (e.g., US, ID)''),
      (''http.host'', mk_static ''Host'' FT_string ''HTTP Request'' ''Request host header''),
      (''http.path'', mk_static ''Path'' FT_string ''HTTP Request'' ''Request URI path''),
      (''http.request.uri.path'', mk_static ''Path'' FT_string ''HTTP Request'' ''Request URI path''),
      (''http.query'', mk_static ''Query String'' FT_string ''HTTP Request'' ''Request query string''),
      (''http.request.uri.query'', mk_static ''Query String'' FT_string ''HTTP Request'' ''Request query string''),
      (''http.request.scheme'', mk_static ''Scheme'' FT_string ''HTTP Request'' ''HTTP or HTTPS''),
      (''http.request.version'', mk_static ''Protocol Version'' FT_string ''HTTP Request'' ''HTTP version (e.g., HTTP/1.1)''),
      (''http.request.method'', mk_static ''Request Method'' FT_string ''HTTP Request'' ''HTTP method (GET, POST, etc)''),
      (''http.ua'', mk_static ''User Agent'' FT_string ''Headers'' ''User-Agent header''),
      (''http.user_agent'', mk_static ''User Agent'' FT_string ''Headers'' ''User-Agent header''),
      (''http.cookie'', mk_static ''Cookie'' FT_string ''Headers'' ''Cookie header''),
      (''http.referer'', mk_static ''Referer'' FT_string ''Headers'' ''Referer header''),
      (''http.accept'', mk_static ''Accept Header'' FT_string ''Headers'' ''Accept header''),
      (''device.os'', mk_static ''Operating System'' FT_string ''Device'' ''OS name (Windows, macOS, etc)''),
      (''device.browser'', mk_static ''Browser'' FT_string ''Device'' ''Browser name (Chrome, Firefox, etc)''),
      (''device.is_mobile'', mk_static ''Is Mobile'' FT_boolean ''Device'' ''Mobile device''),
      (''device.is_desktop'', mk_static ''Is Desktop'' FT_boolean ''Device'' ''Desktop device''),
      (''device.is_tablet'', mk_static ''Is Tablet'' FT_boolean ''Device'' ''Tablet device''),
      (''request_rate'', mk_static ''Request Rate'' FT_number ''Rate'' ''Requests per second'')]"

definition CATEGORIES :: "string list" where
  "CATEGORIES = sort (remdups (map (sf_category \<circ> snd) FIELDS))"

definition static_getFieldsByCategory :: "string \<Rightarrow> (string \<times> static_field) list" where
  "static_getFieldsByCategory category = filter (\<lambda>(_, f). sf_category f = category) FIELDS"

section \<open>Lemmas\<close>

lemma getCategoryForField_range:
  "getCategoryForField n \<in> {''IP & Network'', ''HTTP Request'', ''Headers'', ''Device'', ''Rate'', ''Other''}"
  by (simp add: getCategoryForField_def)

lemma add_field_lookup:
  "obj_get (add_field acc f) k =
     (if k = fm_name f \<and> \<not> startsWith k ''device.'' then Some (convert_field f) else obj_get acc k)"
  by (auto simp: add_field_def)

lemma add_field_distinct: "distinct (obj_keys acc) \<Longrightarrow> distinct (obj_keys (add_field acc f))"
  by (simp add: add_field_def obj_set_distinct)

lemma foldl_add_field_distinct:
  "distinct (obj_keys acc) \<Longrightarrow> distinct (obj_keys (foldl add_field acc fs))"
  by (induction fs arbitrary: acc) (auto simp: add_field_distinct)

lemma foldl_add_field_lookup:
  "obj_get (foldl add_field acc fs) k =
     (case find (\<lambda>f. fm_name f = k \<and> \<not> startsWith k ''device.'') (rev fs) of
        Some f \<Rightarrow> Some (convert_field f) | None \<Rightarrow> obj_get acc k)"
proof (induction fs rule: rev_induct)
  case (snoc f fs)
  then show ?case by (auto simp: add_field_lookup split: option.splits)
qed simp

lemma convert_fields_lookup:
  "obj_get (convert_fields fs) k =
     map_option convert_field (find (\<lambda>f. fm_name f = k \<and> \<not> startsWith k ''device.'') (rev fs))"
  by (simp add: convert_fields_def foldl_add_field_lookup split: option.splits)

lemma convert_fields_distinct: "distinct (obj_keys (convert_fields fs))"
  unfolding convert_fields_def by (rule foldl_add_field_distinct) (simp add: obj_keys_def)

lemma convert_fields_entry:
  assumes "obj_get (convert_fields fs) k = Some d"
  shows "\<exists>f \<in> set fs. fm_name f = k \<and> d = convert_field f \<and> \<not> startsWith k ''device.''"
proof -
  from assms obtain f where
    f: "find (\<lambda>f. fm_name f = k \<and> \<not> startsWith k ''device.'') (rev fs) = Some f"
    and d: "d = convert_field f" by (auto simp: convert_fields_lookup)
  then show ?thesis using find_SomeD [OF f] by auto
qed

lemma mset_concat_filter_partition:
  assumes "distinct cs" and "\<forall>x \<in> set xs. g x \<in> set cs"
  shows "mset (concat (map (\<lambda>c. filter (\<lambda>x. g x = c) xs) cs)) = mset xs"
  using assms
proof (induction cs arbitrary: xs)
  case (Cons c cs)
  let ?ys = "filter (\<lambda>x. g x \<noteq> c) xs"
  have rest: "filter (\<lambda>x. g x = d) xs = filter (\<lambda>x. g x = d) ?ys" if "d \<in> set cs" for d
    using Cons.prems(1) that by (auto simp: filter_filter intro: filter_cong)
  have "mset (concat (map (\<lambda>d. filter (\<lambda>x. g x = d) ?ys) cs)) = mset ?ys"
    using Cons.prems by (intro Cons.IH) auto
  then have "mset (concat (map (\<lambda>d. filter (\<lambda>x. g x = d) xs) cs)) = mset ?ys"
    using rest by (simp cong: map_cong)
  then show ?case by (simp add: multiset_partition [symmetric])
qed simp

section \<open>Properties\<close>

text \<open>The module cache of field definitions.  A successful call leaves its result in the
  cache, and every later call, whatever the network would answer, returns that very result
  without using the network; a failed call leaves the cache empty, so the next call asks again.\<close>

theorem fetchFieldMetadata_cache:
  assumes "fetchFieldMetadata c a = (r, c', net)"
  shows "case r of
      Inr fs \<Rightarrow> c' = Some fs \<and> fetchFieldMetadata c' b = (Inr fs, Some fs, False)
    | Inl e \<Rightarrow> c = None \<and> c' = None \<and> net"
  using assms
  by (auto simp: fetchFieldMetadata_def Let_def
      split: option.splits fields_response.splits if_splits sum.splits)

theorem fetchFieldMetadata_cache_witness:
  "case fst (fetchFieldMetadata None (Fields_Response True (Inr []))) of
      Inr fs \<Rightarrow> snd (snd (fetchFieldMetadata (Some fs) (Fields_Fetch_Rejects Js_Thrown_Value))) = False
    | Inl e \<Rightarrow> False"
proof -
  have h: "fetchFieldMetadata None (Fields_Response True (Inr [])) = (Inr [], Some [], True)"
    by (simp add: fetchFieldMetadata_def convert_fields_def Let_def)
  show ?thesis
    using fetchFieldMetadata_cache [OF h, of "Fields_Fetch_Rejects Js_Thrown_Value"] h by simp
qed

text \<open>What a catalogue built from the backend's list contains: a name is present exactly when
  some description of that name is in the list and the name does not start with \<open>device.\<close>, and the
  entry is the conversion of the last such description.  Keys are distinct.\<close>

theorem convert_fields_catalogue:
  "distinct (obj_keys (convert_fields fs)) \<and>
   obj_get (convert_fields fs) k =
     (if startsWith k ''device.'' then None
      else map_option convert_field (find (\<lambda>f. fm_name f = k) (rev fs)))"
proof -
  have "find (\<lambda>f. fm_name f = k \<and> \<not> startsWith k ''device.'') (rev fs) =
      (if startsWith k ''device.'' then None else find (\<lambda>f. fm_name f = k) (rev fs))"
    by (auto simp: find_None_iff)
  then show ?thesis using convert_fields_distinct by (simp add: convert_fields_lookup)
qed

text \<open>The category groups of the field selector are a partition of the catalogue: going
  through the categories in the order shown lists every field exactly once, and the category list
  itself is sorted and free of repetitions.\<close>

theorem category_groups_partition:
  "mset (concat (map (getFieldsByCategory fs) (getCategories fs))) = mset fs \<and>
   sorted (getCategories fs) \<and> distinct (getCategories fs)"
proof -
  have "mset (concat (map (\<lambda>c. filter (\<lambda>x. (fd_category \<circ> snd) x = c) fs) (getCategories fs))) = mset fs"
    by (rule mset_concat_filter_partition) (auto simp: getCategories_def)
  moreover have "getFieldsByCategory fs = (\<lambda>c. filter (\<lambda>x. (fd_category \<circ> snd) x = c) fs)"
    by (simp add: getFieldsByCategory_def fun_eq_iff case_prod_unfold)
  ultimately show ?thesis by (simp add: getCategories_def)
qed

end
