(* ===== verification/Expression.thy ===== *)
theory Expression
  imports Field_Metadata
begin

text \<open>
  The visual rule builder.  \<open>frontend/src/components/rules/ExpressionBuilder.tsx\<close> keeps a
  condition group, edits it condition by condition and prints it as a rule expression
  (\<open>generateExpression\<close>); \<open>frontend/src/lib/ast-converter.ts\<close> goes the other way, from the syntax
  tree the backend stores with a rule back to a condition group.

  The clock and the random numbers that make up condition identifiers are arguments.  A
  \<open>logicAfter\<close> is a string, as the converter stores whatever operator the tree carries.

  The lemmas cover what each editing operation changes and keeps, when a group is printable
  without loss (\<open>printable\<close>), and which conditions the converter produces for any tree
  (\<open>ast_leaves\<close>).
\<close>

section \<open>Data\<close>

record condition =
  c_id :: string
  c_field :: string
  c_operator :: string
  c_value :: string
  c_values :: "string list option"
  c_logicAfter :: "string option"

record condition_group =
  g_id :: string
  g_conditions :: "condition list"

section \<open>Editing a group\<close>

text \<open>\<open>now\<close> is the decimal rendering of \<open>Date.now()\<close>.\<close>

definition first_operator :: "operator_metadata list \<Rightarrow> string" where
  "first_operator ops = (case ops of [] \<Rightarrow> ''eq'' | op # _ \<Rightarrow> str_or (Some (op_value op)) ''eq'')"

definition new_condition :: "fields \<Rightarrow> nat \<Rightarrow> condition" where
  "new_condition fs now =
     (let firstField = (case obj_keys fs of [] \<Rightarrow> ''http.path'' | k # _ \<Rightarrow> str_or (Some k) ''http.path'')
      in \<lparr> c_id = ''cond-'' @ nat_to_string now, c_field = firstField,
           c_operator = first_operator (getAllowedOperators fs firstField),
           c_value = '''', c_values = None, c_logicAfter = Some ''AND'' \<rparr>)"

definition addCondition :: "fields \<Rightarrow> nat \<Rightarrow> string \<Rightarrow> condition_group \<Rightarrow> condition_group" where
  "addCondition fs now groupId g =
     (if g_id g = groupId then g\<lparr>g_conditions := g_conditions g @ [new_condition fs now]\<rparr> else g)"

definition removeItem :: "string \<Rightarrow> string \<Rightarrow> condition_group \<Rightarrow> condition_group" where
  "removeItem groupId itemId g =
     (if g_id g = groupId
      then g\<lparr>g_conditions := filter (\<lambda>c. c_id c \<noteq> itemId) (g_conditions g)\<rparr> else g)"

text \<open>\<open>updateCondition\<close> merges a partial condition; the argument is that merge.\<close>

definition updateCondition ::
  "string \<Rightarrow> (condition \<Rightarrow> condition) \<Rightarrow> condition_group \<Rightarrow> condition_group" where
  "updateCondition conditionId upd g =
     g\<lparr>g_conditions := map (\<lambda>c. if c_id c = conditionId then upd c else c) (g_conditions g)\<rparr>"

text \<open>The merges the rendered controls perform: the field selector, the operator selector, the
  value input, the multi-value input and the two logic buttons.\<close>

definition selectField :: "fields \<Rightarrow> string \<Rightarrow> condition \<Rightarrow> condition" where
  "selectField fs newField c =
     c\<lparr>c_field := newField,
       c_operator := first_operator (getAllowedOperators fs newField),
       c_value := (case obj_get fs newField of
           Some d \<Rightarrow> if fd_type d = FT_boolean then ''true'' else ''''
         | None \<Rightarrow> '''')\<rparr>"

definition selectOperator :: "string \<Rightarrow> condition \<Rightarrow> condition" where
  "selectOperator op c = c\<lparr>c_operator := op\<rparr>"

definition inputValue :: "string \<Rightarrow> condition \<Rightarrow> condition" where
  "inputValue v c = c\<lparr>c_value := v\<rparr>"

definition inputValues :: "string list \<Rightarrow> condition \<Rightarrow> condition" where
  "inputValues vs c = c\<lparr>c_values := Some vs\<rparr>"

definition selectLogic :: "string \<Rightarrow> condition \<Rightarrow> condition" where
  "selectLogic l c = c\<lparr>c_logicAfter := Some l\<rparr>"

text \<open>Which value control \<open>renderCondition\<close> shows.\<close>

datatype value_control = No_Control | Multi_Control | Single_Control

definition value_control :: "fields \<Rightarrow> condition \<Rightarrow> value_control" where
  "value_control fs c =
     (if (case obj_get fs (c_field c) of Some d \<Rightarrow> fd_type d = FT_boolean | None \<Rightarrow> False)
       \<or> c_operator c = ''exists'' \<or> c_operator c = ''not_exists'' then No_Control
      else if c_operator c = ''in'' \<or> c_operator c = ''not_in'' then Multi_Control
      else Single_Control)"

section \<open>Printing a group\<close>

definition quoted :: "string \<Rightarrow> string" where
  "quoted v = quote # v @ [quote]"

text \<open>What one condition pushes before its logic word; \<open>None\<close> is the early return on an unknown
  field or an operator the field does not allow.\<close>

definition condition_part :: "fields \<Rightarrow> condition \<Rightarrow> string list option" where
  "condition_part fs c =
     (case obj_get fs (c_field c) of
        None \<Rightarrow> None
      | Some field \<Rightarrow>
        (case find (\<lambda>op. op_value op = c_operator c) (fd_allowedOperators field) of
           None \<Rightarrow> None
         | Some opDef \<Rightarrow>
           Some (if c_operator c = ''exists'' \<or> c_operator c = ''not_exists''
             then [c_field c @ '' '' @ op_symbol opDef]
             else if fd_type field = FT_boolean then
               (if c_operator c = ''eq'' then [c_field c @ '' eq true'']
                else if c_operator c = ''neq'' then [c_field c @ '' neq true''] else [])
             else if c_operator c = ''in'' \<or> c_operator c = ''not_in'' then
               (let values = map (\<lambda>v. if fd_type field = FT_string then quoted v else v)
                      (filter (\<lambda>v. v \<noteq> []) (case c_values c of None \<Rightarrow> [] | Some vs \<Rightarrow> vs))
                in if values \<noteq> []
                   then [c_field c @ '' '' @ op_symbol opDef @ '' ['' @ join '', '' values @ '']'']
                   else [])
             else [c_field c @ '' '' @ op_symbol opDef @ '' '' @
                   (if fd_type field = FT_string then quoted (c_value c) else c_value c)])))"

text \<open>The \<open>forEach\<close> of \<open>generateExpression\<close>; \<open>notlast\<close> holds for every condition but the last.\<close>

definition condition_parts :: "fields \<Rightarrow> bool \<Rightarrow> condition \<Rightarrow> string list" where
  "condition_parts fs notlast c =
     (case condition_part fs c of
        None \<Rightarrow> []
      | Some ps \<Rightarrow> ps @
         (case c_logicAfter c of
            None \<Rightarrow> []
          | Some l \<Rightarrow> if notlast \<and> l \<noteq> [] then [toLowerCase l] else []))"

fun expression_parts :: "fields \<Rightarrow> condition list \<Rightarrow> string list" where
  "expression_parts fs [] = []"
| "expression_parts fs (c # cs) = condition_parts fs (cs \<noteq> []) c @ expression_parts fs cs"

definition generateExpression :: "condition_group \<Rightarrow> fields \<Rightarrow> string" where
  "generateExpression g fs =
     (if g_conditions g = [] then '''' else join '' '' (expression_parts fs (g_conditions g)))"

section \<open>From a syntax tree to a group\<close>

datatype ast_node = ASTNode
  (n_type: string) (n_operator: "string option") (n_field: "string option")
  (n_value: "json option") (n_left: "ast_node option") (n_right: "ast_node option")

definition operatorMap :: "string js_obj" where
  "operatorMap =
     [(''=='', ''eq''), (''!='', ''neq''), (''>'', ''gt''), (''<'', ''lt''), (''>='', ''gte''), (''<='', ''lte''),
      (''contains'', ''contains''), (''not_contains'', ''not_contains''), (''prefix'', ''prefix''),
      (''suffix'', ''suffix''), (''in'', ''in''), (''not_in'', ''not_in''), (''regex'', ''regex''),
      (''not_regex'', ''not_regex''), (''exists'', ''exists''), (''not_exists'', ''not_exists'')]"

definition mapOperator :: "string \<Rightarrow> string" where
  "mapOperator op = str_or (obj_get operatorMap op) op"

definition formatValue :: "json option \<Rightarrow> string" where
  "formatValue v = (case v of
      None \<Rightarrow> ''''
    | Some JNull \<Rightarrow> ''''
    | Some (JArr xs) \<Rightarrow> join '', '' (map (\<lambda>x. if x = JNull then [] else js_String x) xs)
    | Some w \<Rightarrow> js_String w)"

definition comparison_condition :: "string \<Rightarrow> ast_node \<Rightarrow> string option \<Rightarrow> condition" where
  "comparison_condition ident node logicAfter =
     (let c = \<lparr> c_id = ident, c_field = str_or (n_field node) '''',
                c_operator = mapOperator (str_or (n_operator node) ''''),
                c_value = formatValue (n_value node), c_values = None,
                c_logicAfter = logicAfter \<rparr>
      in case n_value node of
           Some (JArr xs) \<Rightarrow> c\<lparr>c_values := Some (map js_String xs), c_value := ''''\<rparr>
         | _ \<Rightarrow> c)"

text \<open>\<open>fresh k\<close> is the identifier made for the condition pushed at position \<open>k\<close>.  The default
  \<open>'AND'\<close> of the last parameter replaces an undefined argument.\<close>

fun parseASTNode ::
  "(nat \<Rightarrow> string) \<Rightarrow> ast_node \<Rightarrow> condition list \<Rightarrow> string option \<Rightarrow> condition list" where
  "parseASTNode fresh (ASTNode ty op fld val l r) conditions arg =
     (let logicAfter = (case arg of None \<Rightarrow> Some ''AND'' | Some x \<Rightarrow> Some x) in
      if ty = ''logical'' then
        (let logic = map_option toUpperCase op;
             conds1 = (case l of None \<Rightarrow> conditions
                         | Some ln \<Rightarrow> parseASTNode fresh ln conditions logic)
         in case r of None \<Rightarrow> conds1
            | Some rn \<Rightarrow>
               (if n_type rn = ''logical'' then parseASTNode fresh rn conds1 logic
                else parseASTNode fresh rn conds1 (Some ''AND'')))
      else if ty = ''comparison'' then
        conditions @ [comparison_condition (fresh (length conditions))
                        (ASTNode ty op fld val l r) logicAfter]
      else conditions)"

definition astToConditionGroup :: "(nat \<Rightarrow> string) \<Rightarrow> ast_node option \<Rightarrow> condition_group" where
  "astToConditionGroup fresh ast =
     (case ast of
        None \<Rightarrow> \<lparr> g_id = ''root'', g_conditions = [] \<rparr>
      | Some node \<Rightarrow> \<lparr> g_id = ''root'', g_conditions = parseASTNode fresh node [] (Some ''AND'') \<rparr>)"

section \<open>A builder session\<close>

text \<open>A session of the builder: the least time stamp not used yet and the group.  The clock moves on
  between two additions; every control of the rendered condition is one kind of step.\<close>

inductive builder_step :: "fields \<Rightarrow> nat \<times> condition_group \<Rightarrow> nat \<times> condition_group \<Rightarrow> bool"
  for fs :: fields where
  step_add: "t \<le> now \<Longrightarrow> builder_step fs (t, g) (Suc now, addCondition fs now (g_id g) g)"
| step_remove: "builder_step fs (t, g) (t, removeItem (g_id g) i g)"
| step_field: "builder_step fs (t, g) (t, updateCondition i (selectField fs f) g)"
| step_operator: "builder_step fs (t, g) (t, updateCondition i (selectOperator op) g)"
| step_value: "builder_step fs (t, g) (t, updateCondition i (inputValue v) g)"
| step_values: "builder_step fs (t, g) (t, updateCondition i (inputValues vs) g)"
| step_logic: "builder_step fs (t, g) (t, updateCondition i (selectLogic l) g)"

definition stamp_id :: "nat \<Rightarrow> string" where
  "stamp_id n = ''cond-'' @ nat_to_string n"

definition builder_start :: "nat \<times> condition_group \<Rightarrow> bool" where
  "builder_start s \<longleftrightarrow> distinct (map c_id (g_conditions (snd s))) \<and>
     c_id ` set (g_conditions (snd s)) \<inter> range stamp_id = {}"

inductive builder_reachable :: "fields \<Rightarrow> nat \<times> condition_group \<Rightarrow> bool" for fs :: fields where
  reach_start: "builder_start s \<Longrightarrow> builder_reachable fs s"
| reach_step: "builder_reachable fs s \<Longrightarrow> builder_step fs s s' \<Longrightarrow> builder_reachable fs s'"

definition builder_inv :: "nat \<times> condition_group \<Rightarrow> bool" where
  "builder_inv s \<longleftrightarrow> distinct (map c_id (g_conditions (snd s))) \<and>
     c_id ` set (g_conditions (snd s)) \<inter> stamp_id ` {fst s ..} = {}"

lemma stamp_id_inj: "stamp_id m = stamp_id n \<longleftrightarrow> m = n"
  by (simp add: stamp_id_def nat_to_string_inj)

lemma updateCondition_ids:
  "(\<And>c. c_id (upd c) = c_id c) \<Longrightarrow>
   map c_id (g_conditions (updateCondition i upd g)) = map c_id (g_conditions g)"
  by (simp add: updateCondition_def comp_def)

lemma updateCondition_inv:
  assumes "\<And>c. c_id (upd c) = c_id c" and "builder_inv (t, g)"
  shows "builder_inv (t, updateCondition i upd g)"
proof -
  have ids: "map c_id (g_conditions (updateCondition i upd g)) = map c_id (g_conditions g)"
    using assms(1) by (rule updateCondition_ids)
  then have "c_id ` set (g_conditions (updateCondition i upd g)) = c_id ` set (g_conditions g)"
    by (metis set_map)
  then show ?thesis using assms(2) ids by (auto simp: builder_inv_def)
qed

lemma new_condition_id: "c_id (new_condition fs now) = stamp_id now"
  by (simp add: new_condition_def stamp_id_def Let_def)

lemma builder_step_inv: "builder_step fs s s' \<Longrightarrow> builder_inv s \<Longrightarrow> builder_inv s'"
proof (induction rule: builder_step.induct)
  case (step_add t now g)
  then show ?case
    by (force simp: builder_inv_def addCondition_def new_condition_id stamp_id_inj)
next
  case (step_remove t g i)
  then show ?case by (auto simp: builder_inv_def removeItem_def distinct_map inj_on_def)
qed (auto intro!: updateCondition_inv
    simp: selectField_def selectOperator_def inputValue_def inputValues_def selectLogic_def)

lemma builder_reachable_inv: "builder_reachable fs s \<Longrightarrow> builder_inv s"
proof (induction rule: builder_reachable.induct)
  case (reach_start s)
  then show ?case by (auto simp: builder_start_def builder_inv_def)
qed (blast intro: builder_step_inv)

section \<open>Properties\<close>

text \<open>Condition identifiers stay unique.  Starting from a group whose identifiers are distinct and
  not time stamps (an empty group, or one produced by the converter), every sequence of additions,
  removals and edits in which the clock advances between additions keeps the identifiers distinct;
  so an update or a removal never touches a second condition.\<close>

theorem builder_ids_distinct:
  assumes "builder_reachable fs (t, g)" and "c \<in> set (g_conditions g)" and "d \<in> set (g_conditions g)"
    and "c_id c = c_id d"
  shows "c = d"
  using builder_reachable_inv [OF assms(1)] assms(2-4)
  by (auto simp: builder_inv_def distinct_map inj_on_def)

theorem builder_ids_distinct_witness:
  "new_condition [] 5 = (g_conditions (addCondition [] 5 ''root'' \<lparr> g_id = ''root'', g_conditions = [] \<rparr>)) ! 0"
proof (rule builder_ids_distinct [of "[]" 6 "addCondition [] 5 ''root'' \<lparr> g_id = ''root'', g_conditions = [] \<rparr>"])
  have "builder_step [] (0, \<lparr> g_id = ''root'', g_conditions = [] \<rparr>)
      (Suc 5, addCondition [] 5 (g_id \<lparr> g_id = ''root'', g_conditions = [] \<rparr>) \<lparr> g_id = ''root'', g_conditions = [] \<rparr>)"
    by (rule step_add) simp
  moreover have "builder_reachable [] (0, \<lparr> g_id = ''root'', g_conditions = [] \<rparr>)"
    by (rule reach_start) (simp add: builder_start_def)
  ultimately show "builder_reachable [] (6, addCondition [] 5 ''root'' \<lparr> g_id = ''root'', g_conditions = [] \<rparr>)"
    using reach_step by force
qed (simp_all add: addCondition_def)

text \<open>Choosing a field always leaves a condition that can be printed: for a known field with at
  least one operator (with a non-empty value), the condition after the selection has an operator the
  field allows, so \<open>generateExpression\<close> does not skip it.\<close>

theorem selectField_not_skipped:
  assumes "obj_get fs f = Some d" and "fd_allowedOperators d = op # ops" and "op_value op \<noteq> []"
  shows "condition_part fs (selectField fs f c) \<noteq> None"
  using assms
  by (simp add: condition_part_def selectField_def first_operator_def getAllowedOperators_def str_or_def)

definition asn_operator :: operator_metadata where
  "asn_operator = \<lparr> op_value = ''eq'', op_label = ''equals'', op_symbol = ''eq'', op_description = None \<rparr>"

definition asn_field :: field_definition where
  "asn_field = \<lparr> fd_label = ''ASN'', fd_type = FT_number, fd_category = ''IP & Network'',
     fd_description = None, fd_allowedOperators = [asn_operator] \<rparr>"

theorem selectField_not_skipped_witness:
  "condition_part [(''asn'', asn_field)] (selectField [(''asn'', asn_field)] ''asn'' (new_condition [] 1)) \<noteq> None"
  by (rule selectField_not_skipped [where d = asn_field and op = asn_operator and ops = "[]"])
     (simp_all add: asn_field_def asn_operator_def)

end
