(* ===== verification/Api_Types.thy ===== *)
theory Api_Types
  imports Expression
begin

text \<open>
  The wire types of the dashboard, after \<open>src/frontend/src/lib/api/types.ts\<close>: one record per
  interface, in the order of the file, with the interface's fields under a prefix; a union of
  string literals is a datatype with a function to its literals; an optional field (\<open>f?: t\<close>) is
  an option; \<open>Record<string, number>\<close> is an association list in insertion order.  A \<open>number\<close> is
  an \<open>int\<close>, except the multiplier of a scoring category and the bounds of the trust levels, which are
  fractions and decimals here.

  For every type a request sends there is the value that \<open>JSON.stringify\<close> writes: the object
  with the fields in declaration order, in which an undefined field is absent.
\<close>

section \<open>Objects as \<open>JSON.stringify\<close> sees them\<close>

definition field :: "string \<Rightarrow> json \<Rightarrow> (string \<times> json) list" where
  "field k v = [(k, v)]"

definition opt_field :: "string \<Rightarrow> ('a \<Rightarrow> json) \<Rightarrow> 'a option \<Rightarrow> (string \<times> json) list" where
  "opt_field k f v = (case v of None \<Rightarrow> [] | Some x \<Rightarrow> [(k, f x)])"

text \<open>A number with a fraction: a mantissa and a number of decimals.\<close>

type_synonym decimal = "int \<times> nat"

definition dec_json :: "decimal \<Rightarrow> json" where
  "dec_json d = JDec (fst d) (snd d)"

definition json_numbers :: "int js_obj \<Rightarrow> json" where
  "json_numbers ob = JObj (map (\<lambda>(k, v). (k, JNum v)) ob)"

definition json_strings :: "string js_obj \<Rightarrow> json" where
  "json_strings ob = JObj (map (\<lambda>(k, v). (k, JStr v)) ob)"

text \<open>\<open>v.k\<close> on a JSON object; \<open>None\<close> is \<open>undefined\<close>.\<close>

fun json_get :: "json \<Rightarrow> string \<Rightarrow> json option" where
  "json_get (JObj fs) k = obj_get fs k"
| "json_get _ k = None"

text \<open>\<open>expression_structure\<close> has type \<open>any\<close>; its only reader takes it for a syntax tree.\<close>

fun ast_node_json :: "ast_node \<Rightarrow> json" where
  "ast_node_json (ASTNode ty op fld v l r) = JObj (concat [
     field ''type'' (JStr ty),
     opt_field ''operator'' JStr op,
     opt_field ''field'' JStr fld,
     opt_field ''value'' (\<lambda>x. x) v,
     (case l of None \<Rightarrow> [] | Some n \<Rightarrow> field ''left'' (ast_node_json n)),
     (case r of None \<Rightarrow> [] | Some n \<Rightarrow> field ''right'' (ast_node_json n))])"

section \<open>Unions of string literals\<close>

datatype scheme = Http | Https | Tcp | Udp

fun scheme_str :: "scheme \<Rightarrow> string" where
  "scheme_str Http = ''http''"
| "scheme_str Https = ''https''"
| "scheme_str Tcp = ''tcp''"
| "scheme_str Udp = ''udp''"

datatype lb_method = Round_Robin | Least_Conn | Ip_Hash

fun lb_method_str :: "lb_method \<Rightarrow> string" where
  "lb_method_str Round_Robin = ''round-robin''"
| "lb_method_str Least_Conn = ''least-conn''"
| "lb_method_str Ip_Hash = ''ip-hash''"

datatype rule_scope = Scope_App | Scope_Managed

fun rule_scope_str :: "rule_scope \<Rightarrow> string" where
  "rule_scope_str Scope_App = ''app''"
| "rule_scope_str Scope_Managed = ''managed''"

datatype rule_group = Bot_Protection | Rate_Limit | Custom_Group

fun rule_group_str :: "rule_group \<Rightarrow> string" where
  "rule_group_str Bot_Protection = ''bot_protection''"
| "rule_group_str Rate_Limit = ''rate_limit''"
| "rule_group_str Custom_Group = ''custom''"

datatype rule_action = Act_Allow | Act_Block | Act_Challenge | Act_Log | Act_Skip

fun rule_action_str :: "rule_action \<Rightarrow> string" where
  "rule_action_str Act_Allow = ''allow''"
| "rule_action_str Act_Block = ''block''"
| "rule_action_str Act_Challenge = ''challenge''"
| "rule_action_str Act_Log = ''log''"
| "rule_action_str Act_Skip = ''skip''"

datatype pattern_type = Good_Bot | Bad_Bot | Suspicious_Ua | Bad_Referer

fun pattern_type_str :: "pattern_type \<Rightarrow> string" where
  "pattern_type_str Good_Bot = ''good_bot''"
| "pattern_type_str Bad_Bot = ''bad_bot''"
| "pattern_type_str Suspicious_Ua = ''suspicious_ua''"
| "pattern_type_str Bad_Referer = ''bad_referer''"

datatype log_action = Log_Allow | Log_Block | Log_Challenge | Log_Solved | Log_Failed

fun log_action_str :: "log_action \<Rightarrow> string" where
  "log_action_str Log_Allow = ''allow''"
| "log_action_str Log_Block = ''block''"
| "log_action_str Log_Challenge = ''challenge''"
| "log_action_str Log_Solved = ''challenge_solved''"
| "log_action_str Log_Failed = ''challenge_failed''"

datatype access_action = Acc_Allow | Acc_Block | Acc_Challenge

fun access_action_str :: "access_action \<Rightarrow> string" where
  "access_action_str Acc_Allow = ''allow''"
| "access_action_str Acc_Block = ''block''"
| "access_action_str Acc_Challenge = ''challenge''"

datatype traffic_range = Range_1d | Range_7d | Range_30d

fun traffic_range_str :: "traffic_range \<Rightarrow> string" where
  "traffic_range_str Range_1d = ''1d''"
| "traffic_range_str Range_7d = ''7d''"
| "traffic_range_str Range_30d = ''30d''"

datatype source_type = Json_Url | Manual

fun source_type_str :: "source_type \<Rightarrow> string" where
  "source_type_str Json_Url = ''json_url''"
| "source_type_str Manual = ''manual''"

datatype entry_type = Entry_Ip | Entry_Asn

fun entry_type_str :: "entry_type \<Rightarrow> string" where
  "entry_type_str Entry_Ip = ''ip''"
| "entry_type_str Entry_Asn = ''asn''"

section \<open>Applications\<close>

record upstream =
  up_scheme  :: scheme
  up_host    :: string
  up_port    :: int
  up_weight  :: int
  up_enabled :: bool
  up_healthy :: "bool option"

definition upstream_json :: "upstream \<Rightarrow> json" where
  "upstream_json r = JObj (concat [
     field ''scheme'' (JStr (scheme_str (up_scheme r))),
     field ''host'' (JStr (up_host r)),
     field ''port'' (JNum (up_port r)),
     field ''weight'' (JNum (up_weight r)),
     field ''enabled'' (JBool (up_enabled r)),
     opt_field ''healthy'' JBool (up_healthy r)])"

record response_header =
  hdr_name  :: string
  hdr_value :: string

definition response_header_json :: "response_header \<Rightarrow> json" where
  "response_header_json r = JObj (concat [
     field ''name'' (JStr (hdr_name r)),
     field ''value'' (JStr (hdr_value r))])"

record cors_config =
  cors_enabled           :: bool
  cors_allow_origins     :: "string list"
  cors_allow_methods     :: "string list"
  cors_allow_headers     :: "string list"
  cors_expose_headers    :: "string list"
  cors_allow_credentials :: bool
  cors_max_age           :: int

definition cors_config_json :: "cors_config \<Rightarrow> json" where
  "cors_config_json r = JObj (concat [
     field ''enabled'' (JBool (cors_enabled r)),
     field ''allow_origins'' (JArr (map JStr (cors_allow_origins r))),
     field ''allow_methods'' (JArr (map JStr (cors_allow_methods r))),
     field ''allow_headers'' (JArr (map JStr (cors_allow_headers r))),
     field ''expose_headers'' (JArr (map JStr (cors_expose_headers r))),
     field ''allow_credentials'' (JBool (cors_allow_credentials r)),
     field ''max_age'' (JNum (cors_max_age r))])"

record cache_config =
  cache_enabled :: bool
  cache_ttl     :: int

definition cache_config_json :: "cache_config \<Rightarrow> json" where
  "cache_config_json r = JObj (concat [
     field ''enabled'' (JBool (cache_enabled r)),
     field ''ttl'' (JNum (cache_ttl r))])"

record advanced_config =
  adv_listen_ipv6            :: bool
  adv_allow_websocket        :: bool
  adv_modify_host_header     :: bool
  adv_host_header_value      :: string
  adv_pass_x_forwarded_host  :: bool
  adv_pass_x_forwarded_proto :: bool
  adv_allow_insecure_ssl     :: bool
  adv_trusted_proxies        :: "string list"
  adv_connect_timeout        :: int
  adv_read_timeout           :: int
  adv_send_timeout           :: int
  adv_proxy_buffering        :: bool
  adv_add_headers            :: "response_header list"
  adv_request_size_limit     :: int
  adv_upstream_path          :: "string option"
  adv_upstream_tls_sni       :: "string option"
  adv_cors                   :: cors_config
  adv_cache                  :: cache_config

definition advanced_config_json :: "advanced_config \<Rightarrow> json" where
  "advanced_config_json r = JObj (concat [
     field ''listen_ipv6'' (JBool (adv_listen_ipv6 r)),
     field ''allow_websocket'' (JBool (adv_allow_websocket r)),
     field ''modify_host_header'' (JBool (adv_modify_host_header r)),
     field ''host_header_value'' (JStr (adv_host_header_value r)),
     field ''pass_x_forwarded_host'' (JBool (adv_pass_x_forwarded_host r)),
     field ''pass_x_forwarded_proto'' (JBool (adv_pass_x_forwarded_proto r)),
     field ''allow_insecure_ssl'' (JBool (adv_allow_insecure_ssl r)),
     field ''trusted_proxies'' (JArr (map JStr (adv_trusted_proxies r))),
     field ''connect_timeout'' (JNum (adv_connect_timeout r)),
     field ''read_timeout'' (JNum (adv_read_timeout r)),
     field ''send_timeout'' (JNum (adv_send_timeout r)),
     field ''proxy_buffering'' (JBool (adv_proxy_buffering r)),
     field ''add_headers'' (JArr (map response_header_json (adv_add_headers r))),
     field ''request_size_limit'' (JNum (adv_request_size_limit r)),
     opt_field ''upstream_path'' JStr (adv_upstream_path r),
     opt_field ''upstream_tls_sni'' JStr (adv_upstream_tls_sni r),
     field ''cors'' (cors_config_json (adv_cors r)),
     field ''cache'' (cache_config_json (adv_cache r))])"

record health_check_config =
  hc_enabled   :: bool
  hc_path      :: string
  hc_interval  :: int
  hc_threshold :: int

definition health_check_config_json :: "health_check_config \<Rightarrow> json" where
  "health_check_config_json r = JObj (concat [
     field ''enabled'' (JBool (hc_enabled r)),
     field ''path'' (JStr (hc_path r)),
     field ''interval'' (JNum (hc_interval r)),
     field ''threshold'' (JNum (hc_threshold r))])"

record app_config =
  cfg_upstreams      :: "upstream list"
  cfg_lb_method      :: lb_method
  cfg_listen_port    :: "int option"
  cfg_backend_port   :: "int option"
  cfg_stream_config  :: "string option"
  cfg_redirect_https :: bool
  cfg_root_redirect  :: "string option"
  cfg_health_check   :: health_check_config
  cfg_advanced       :: "advanced_config option"

definition app_config_json :: "app_config \<Rightarrow> json" where
  "app_config_json r = JObj (concat [
     field ''upstreams'' (JArr (map upstream_json (cfg_upstreams r))),
     field ''lb_method'' (JStr (lb_method_str (cfg_lb_method r))),
     opt_field ''listen_port'' JNum (cfg_listen_port r),
     opt_field ''backend_port'' JNum (cfg_backend_port r),
     opt_field ''stream_config'' JStr (cfg_stream_config r),
     field ''redirect_https'' (JBool (cfg_redirect_https r)),
     opt_field ''root_redirect'' JStr (cfg_root_redirect r),
     field ''health_check'' (health_check_config_json (cfg_health_check r)),
     opt_field ''advanced'' advanced_config_json (cfg_advanced r)])"

record app_stats =
  stats_total_requests      :: int
  stats_clean_requests      :: int
  stats_blocked_requests    :: int
  stats_challenged_requests :: int
  stats_managed_requests    :: int

record app =
  app_id                :: string
  app_domain            :: string
  app_description       :: "string option"
  app_config            :: app_config
  app_under_attack_mode :: bool
  app_created_at        :: string
  app_updated_at        :: string
  app_stats             :: "app_stats option"

record app_create_request =
  acr_id          :: string
  acr_domain      :: string
  acr_description :: "string option"
  acr_config      :: app_config

definition app_create_request_json :: "app_create_request \<Rightarrow> json" where
  "app_create_request_json r = JObj (concat [
     field ''id'' (JStr (acr_id r)),
     field ''domain'' (JStr (acr_domain r)),
     opt_field ''description'' JStr (acr_description r),
     field ''config'' (app_config_json (acr_config r))])"

record app_update_request =
  aur_domain      :: string
  aur_description :: "string option"
  aur_config      :: app_config

definition app_update_request_json :: "app_update_request \<Rightarrow> json" where
  "app_update_request_json r = JObj (concat [
     field ''domain'' (JStr (aur_domain r)),
     opt_field ''description'' JStr (aur_description r),
     field ''config'' (app_config_json (aur_config r))])"

section \<open>Rules\<close>

record rule =
  rule_id                   :: int
  rule_app_id               :: "string option"
  rule_name                 :: string
  rule_scope                :: rule_scope
  rule_rule_group           :: rule_group
  rule_expression_raw       :: string
  rule_expression_structure :: "ast_node option"
  rule_action               :: rule_action
  rule_skip_modules         :: "string list option"
  rule_priority             :: int
  rule_enabled              :: bool
  rule_description          :: string

definition rule_json :: "rule \<Rightarrow> json" where
  "rule_json r = JObj (concat [
     field ''id'' (JNum (rule_id r)),
     opt_field ''app_id'' JStr (rule_app_id r),
     field ''name'' (JStr (rule_name r)),
     field ''scope'' (JStr (rule_scope_str (rule_scope r))),
     field ''rule_group'' (JStr (rule_group_str (rule_rule_group r))),
     field ''expression_raw'' (JStr (rule_expression_raw r)),
     opt_field ''expression_structure'' ast_node_json (rule_expression_structure r),
     field ''action'' (JStr (rule_action_str (rule_action r))),
     opt_field ''skip_modules'' (JArr \<circ> map JStr) (rule_skip_modules r),
     field ''priority'' (JNum (rule_priority r)),
     field ''enabled'' (JBool (rule_enabled r)),
     field ''description'' (JStr (rule_description r))])"

record rule_request =
  rr_name           :: string
  rr_scope          :: rule_scope
  rr_app_id         :: "string option"
  rr_rule_group     :: rule_group
  rr_expression_raw :: string
  rr_action         :: rule_action
  rr_skip_modules   :: "string list option"
  rr_priority       :: int
  rr_enabled        :: bool
  rr_description    :: string

definition rule_request_json :: "rule_request \<Rightarrow> json" where
  "rule_request_json r = JObj (concat [
     field ''name'' (JStr (rr_name r)),
     field ''scope'' (JStr (rule_scope_str (rr_scope r))),
     opt_field ''app_id'' JStr (rr_app_id r),
     field ''rule_group'' (JStr (rule_group_str (rr_rule_group r))),
     field ''expression_raw'' (JStr (rr_expression_raw r)),
     field ''action'' (JStr (rule_action_str (rr_action r))),
     opt_field ''skip_modules'' (JArr \<circ> map JStr) (rr_skip_modules r),
     field ''priority'' (JNum (rr_priority r)),
     field ''enabled'' (JBool (rr_enabled r)),
     field ''description'' (JStr (rr_description r))])"

record validate_response =
  vr_valid :: bool
  vr_error :: "string option"

section \<open>Bot detection\<close>

record bot_pattern =
  bp_id           :: int
  bp_pattern_type :: pattern_type
  bp_pattern      :: string
  bp_score        :: int
  bp_verify_ip    :: bool
  bp_enabled      :: bool
  bp_description  :: string
  bp_created_at   :: string
  bp_updated_at   :: string

record bot_pattern_request =
  bpr_pattern_type :: pattern_type
  bpr_pattern      :: string
  bpr_score        :: int
  bpr_verify_ip    :: bool
  bpr_enabled      :: bool
  bpr_description  :: string

definition bot_pattern_request_json :: "bot_pattern_request \<Rightarrow> json" where
  "bot_pattern_request_json r = JObj (concat [
     field ''pattern_type'' (JStr (pattern_type_str (bpr_pattern_type r))),
     field ''pattern'' (JStr (bpr_pattern r)),
     field ''score'' (JNum (bpr_score r)),
     field ''verify_ip'' (JBool (bpr_verify_ip r)),
     field ''enabled'' (JBool (bpr_enabled r)),
     field ''description'' (JStr (bpr_description r))])"

record bulk_create_request =
  bcr_patterns     :: "string list"
  bcr_pattern_type :: pattern_type
  bcr_score        :: int
  bcr_verify_ip    :: bool
  bcr_enabled      :: bool
  bcr_description  :: string

definition bulk_create_request_json :: "bulk_create_request \<Rightarrow> json" where
  "bulk_create_request_json r = JObj (concat [
     field ''patterns'' (JArr (map JStr (bcr_patterns r))),
     field ''pattern_type'' (JStr (pattern_type_str (bcr_pattern_type r))),
     field ''score'' (JNum (bcr_score r)),
     field ''verify_ip'' (JBool (bcr_verify_ip r)),
     field ''enabled'' (JBool (bcr_enabled r)),
     field ''description'' (JStr (bcr_description r))])"

record bulk_update_request =
  bur_ids          :: "int list"
  bur_pattern_type :: "pattern_type option"
  bur_score        :: "int option"
  bur_verify_ip    :: "bool option"
  bur_enabled      :: "bool option"

definition bulk_update_request_json :: "bulk_update_request \<Rightarrow> json" where
  "bulk_update_request_json r = JObj (concat [
     field ''ids'' (JArr (map JNum (bur_ids r))),
     opt_field ''pattern_type'' (JStr \<circ> pattern_type_str) (bur_pattern_type r),
     opt_field ''score'' JNum (bur_score r),
     opt_field ''verify_ip'' JBool (bur_verify_ip r),
     opt_field ''enabled'' JBool (bur_enabled r)])"

record challenge_config =
  chc_title       :: string
  chc_description :: string
  chc_footer      :: string
  chc_custom_html :: string
  chc_show_ray_id :: bool

definition challenge_config_json :: "challenge_config \<Rightarrow> json" where
  "challenge_config_json r = JObj (concat [
     field ''title'' (JStr (chc_title r)),
     field ''description'' (JStr (chc_description r)),
     field ''footer'' (JStr (chc_footer r)),
     field ''custom_html'' (JStr (chc_custom_html r)),
     field ''show_ray_id'' (JBool (chc_show_ray_id r))])"

record trust_level_config =
  tl_level0_max :: decimal
  tl_level1_max :: decimal
  tl_level2_max :: decimal
  tl_reductions :: "int \<times> int \<times> int \<times> int"

definition trust_level_config_json :: "trust_level_config \<Rightarrow> json" where
  "trust_level_config_json r = JObj (concat [
     field ''level0_max'' (dec_json (tl_level0_max r)),
     field ''level1_max'' (dec_json (tl_level1_max r)),
     field ''level2_max'' (dec_json (tl_level2_max r)),
     field ''reductions'' ((case tl_reductions r of (a, b, c, d) \<Rightarrow> JArr [JNum a, JNum b, JNum c, JNum d]))])"

record bot_config =
  bc_threshold          :: int
  bc_action             :: string
  bc_challenge_duration :: int
  bc_challenge_wait     :: int
  bc_rules              :: "int js_obj"
  bc_challenge          :: challenge_config
  bc_trust_levels       :: trust_level_config
  bc_dns_verification   :: bool

definition bot_config_json :: "bot_config \<Rightarrow> json" where
  "bot_config_json r = JObj (concat [
     field ''threshold'' (JNum (bc_threshold r)),
     field ''action'' (JStr (bc_action r)),
     field ''challenge_duration'' (JNum (bc_challenge_duration r)),
     field ''challenge_wait'' (JNum (bc_challenge_wait r)),
     field ''rules'' (json_numbers (bc_rules r)),
     field ''challenge'' (challenge_config_json (bc_challenge r)),
     field ''trust_levels'' (trust_level_config_json (bc_trust_levels r)),
     field ''dns_verification'' (JBool (bc_dns_verification r))])"

section \<open>Web application firewall\<close>

record waf_config =
  waf_paranoia_level             :: int
  waf_anomaly_threshold          :: int
  waf_outbound_anomaly_threshold :: int
  waf_allowed_methods            :: "string list"
  waf_disabled_rules             :: "int list"
  waf_custom_rules               :: string
  waf_modules                    :: "string js_obj option"

definition waf_config_json :: "waf_config \<Rightarrow> json" where
  "waf_config_json r = JObj (concat [
     field ''paranoia_level'' (JNum (waf_paranoia_level r)),
     field ''anomaly_threshold'' (JNum (waf_anomaly_threshold r)),
     field ''outbound_anomaly_threshold'' (JNum (waf_outbound_anomaly_threshold r)),
     field ''allowed_methods'' (JArr (map JStr (waf_allowed_methods r))),
     field ''disabled_rules'' (JArr (map JNum (waf_disabled_rules r))),
     field ''custom_rules'' (JStr (waf_custom_rules r)),
     opt_field ''modules'' json_strings (waf_modules r)])"

section \<open>Logs and generic responses\<close>

record log_entry =
  log_ts               :: string
  log_ip               :: string
  log_host             :: string
  log_path             :: string
  log_ua               :: string
  log_action           :: log_action
  log_reason           :: string
  log_status           :: int
  log_latency          :: int
  log_pipeline_latency :: int
  log_upstream_latency :: int
  log_app_id           :: string
  log_country          :: string
  log_asn              :: int
  log_asn_org          :: string
  log_device_type      :: string
  log_os               :: string
  log_pipeline_trace   :: "string option"

record log_query_params =
  lq_limit       :: "int option"
  lq_action      :: "access_action option"
  lq_app_id      :: "string option"
  lq_q           :: "string option"
  lq_days        :: "int option"
  lq_reason_like :: "string option"
  lq_trace_like  :: "string option"
  lq_offset      :: "int option"

record error_response =
  er_error   :: string
  er_message :: "string option"

record success_response =
  sr_success :: bool
  sr_message :: "string option"

record health_response =
  hr_status    :: string
  hr_demo      :: "bool option"
  hr_version   :: "string option"
  hr_demo_user :: "string option"
  hr_demo_pass :: "string option"
  hr_server_ip :: "string option"

section \<open>Rate limiting\<close>

record rate_limit_config =
  rl_enabled       :: bool
  rl_duration      :: int
  rl_count         :: int
  rl_action        :: string
  rl_challenge_sec :: int

definition rate_limit_config_json :: "rate_limit_config \<Rightarrow> json" where
  "rate_limit_config_json r = JObj (concat [
     field ''enabled'' (JBool (rl_enabled r)),
     field ''duration'' (JNum (rl_duration r)),
     field ''count'' (JNum (rl_count r)),
     field ''action'' (JStr (rl_action r)),
     field ''challenge_sec'' (JNum (rl_challenge_sec r))])"

record flood_exclude =
  fe_extensions :: "string list"
  fe_paths      :: "string list"

definition flood_exclude_json :: "flood_exclude \<Rightarrow> json" where
  "flood_exclude_json r = JObj (concat [
     field ''extensions'' (JArr (map JStr (fe_extensions r))),
     field ''paths'' (JArr (map JStr (fe_paths r)))])"

record rate_limit_response =
  rlr_basic   :: rate_limit_config
  rlr_attack  :: rate_limit_config
  rlr_error   :: rate_limit_config
  rlr_exclude :: flood_exclude

record rate_limit_update =
  rlu_basic   :: "rate_limit_config option"
  rlu_attack  :: "rate_limit_config option"
  rlu_error   :: "rate_limit_config option"
  rlu_exclude :: "flood_exclude option"

definition rate_limit_update_json :: "rate_limit_update \<Rightarrow> json" where
  "rate_limit_update_json r = JObj (concat [
     opt_field ''basic'' rate_limit_config_json (rlu_basic r),
     opt_field ''attack'' rate_limit_config_json (rlu_attack r),
     opt_field ''error'' rate_limit_config_json (rlu_error r),
     opt_field ''exclude'' flood_exclude_json (rlu_exclude r)])"

section \<open>Access rules\<close>

record ip_access_rule =
  ipa_id          :: int
  ipa_app_id      :: string
  ipa_ip_range    :: string
  ipa_description :: string
  ipa_action      :: access_action
  ipa_enabled     :: bool
  ipa_created_at  :: string
  ipa_updated_at  :: string

record ip_access_create =
  ipc_ip_range    :: string
  ipc_description :: string
  ipc_action      :: access_action
  ipc_enabled     :: bool
  ipc_app_id      :: "string option"

definition ip_access_create_json :: "ip_access_create \<Rightarrow> json" where
  "ip_access_create_json r = JObj (concat [
     field ''ip_range'' (JStr (ipc_ip_range r)),
     field ''description'' (JStr (ipc_description r)),
     field ''action'' (JStr (access_action_str (ipc_action r))),
     field ''enabled'' (JBool (ipc_enabled r)),
     opt_field ''app_id'' JStr (ipc_app_id r)])"

record ip_access_update =
  ipu_ip_range    :: "string option"
  ipu_description :: "string option"
  ipu_action      :: "access_action option"
  ipu_enabled     :: "bool option"

definition ip_access_update_json :: "ip_access_update \<Rightarrow> json" where
  "ip_access_update_json r = JObj (concat [
     opt_field ''ip_range'' JStr (ipu_ip_range r),
     opt_field ''description'' JStr (ipu_description r),
     opt_field ''action'' (JStr \<circ> access_action_str) (ipu_action r),
     opt_field ''enabled'' JBool (ipu_enabled r)])"

section \<open>Analytics\<close>

record traffic_params =
  tp_range  :: traffic_range
  tp_app_id :: "string option"

section \<open>Certificates\<close>

record certificate =
  cert_domain            :: string
  cert_status            :: string
  cert_issuer            :: string
  cert_expires_at        :: string
  cert_days_until_expiry :: int
  cert_auto_renew        :: bool
  cert_is_expiring_soon  :: bool
  cert_last_renew_at     :: "string option"
  cert_last_renew_status :: string
  cert_wildcard_enabled  :: bool
  cert_wildcard_status   :: string
  cert_wildcard_method   :: string

record certificate_log =
  clog_id         :: int
  clog_domain     :: string
  clog_action     :: string
  clog_status     :: string
  clog_message    :: string
  clog_created_at :: string

section \<open>Scoring\<close>

record scoring_thresholds =
  st_block     :: int
  st_challenge :: int

record category_weight =
  cw_enabled    :: bool
  cw_max_score  :: int
  cw_multiplier :: decimal

record scoring_weights =
  sw_ip_reputation    :: category_weight
  sw_bot_detection    :: category_weight
  sw_waf_anomaly      :: category_weight
  sw_protocol_anomaly :: category_weight

record trust_reduction =
  tr_trusted_history           :: int
  tr_trusted_history_threshold :: int
  tr_stable_session            :: int
  tr_good_bot                  :: int

record scoring_config =
  sc_thresholds :: scoring_thresholds
  sc_weights    :: scoring_weights
  sc_trust      :: trust_reduction

definition scoring_thresholds_json :: "scoring_thresholds \<Rightarrow> json" where
  "scoring_thresholds_json r = JObj (concat [
     field ''block'' (JNum (st_block r)),
     field ''challenge'' (JNum (st_challenge r))])"

definition category_weight_json :: "category_weight \<Rightarrow> json" where
  "category_weight_json r = JObj (concat [
     field ''enabled'' (JBool (cw_enabled r)),
     field ''max_score'' (JNum (cw_max_score r)),
     field ''multiplier'' (dec_json (cw_multiplier r))])"

definition scoring_weights_json :: "scoring_weights \<Rightarrow> json" where
  "scoring_weights_json r = JObj (concat [
     field ''ip_reputation'' (category_weight_json (sw_ip_reputation r)),
     field ''bot_detection'' (category_weight_json (sw_bot_detection r)),
     field ''waf_anomaly'' (category_weight_json (sw_waf_anomaly r)),
     field ''protocol_anomaly'' (category_weight_json (sw_protocol_anomaly r))])"

definition trust_reduction_json :: "trust_reduction \<Rightarrow> json" where
  "trust_reduction_json r = JObj (concat [
     field ''trusted_history'' (JNum (tr_trusted_history r)),
     field ''trusted_history_threshold'' (JNum (tr_trusted_history_threshold r)),
     field ''stable_session'' (JNum (tr_stable_session r)),
     field ''good_bot'' (JNum (tr_good_bot r))])"

definition scoring_config_json :: "scoring_config \<Rightarrow> json" where
  "scoring_config_json r = JObj (concat [
     field ''thresholds'' (scoring_thresholds_json (sc_thresholds r)),
     field ''weights'' (scoring_weights_json (sc_weights r)),
     field ''trust'' (trust_reduction_json (sc_trust r))])"

section \<open>Bot address ranges\<close>

record bot_ip_range =
  bir_id           :: int
  bir_name         :: string
  bir_source_type  :: source_type
  bir_url          :: string
  bir_ip_ranges    :: "string list"
  bir_enabled      :: bool
  bir_description  :: string
  bir_last_fetched :: "string option"
  bir_created_at   :: string
  bir_updated_at   :: string

record bot_ip_range_request =
  birr_name        :: string
  birr_source_type :: source_type
  birr_url         :: string
  birr_ip_ranges   :: "string list"
  birr_enabled     :: bool
  birr_description :: string

definition bot_ip_range_request_json :: "bot_ip_range_request \<Rightarrow> json" where
  "bot_ip_range_request_json r = JObj (concat [
     field ''name'' (JStr (birr_name r)),
     field ''source_type'' (JStr (source_type_str (birr_source_type r))),
     field ''url'' (JStr (birr_url r)),
     field ''ip_ranges'' (JArr (map JStr (birr_ip_ranges r))),
     field ''enabled'' (JBool (birr_enabled r)),
     field ''description'' (JStr (birr_description r))])"

record protocol_anomaly_config =
  pac_rules :: "int js_obj"

definition protocol_anomaly_config_json :: "protocol_anomaly_config \<Rightarrow> json" where
  "protocol_anomaly_config_json r = JObj (concat [
     field ''rules'' (json_numbers (pac_rules r))])"

section \<open>Reputation\<close>

record ip_reputation_entry =
  ipr_id          :: int
  ipr_entry_type  :: entry_type
  ipr_value       :: string
  ipr_score       :: int
  ipr_category    :: string
  ipr_description :: string
  ipr_enabled     :: bool
  ipr_created_at  :: string
  ipr_updated_at  :: string

record ip_reputation_request =
  iprr_entry_type           :: entry_type
  iprr_value                :: "string option"
  iprr_values               :: "string list option"
  iprr_score                :: int
  iprr_category             :: "string option"
  iprr_description          :: string
  iprr_enabled              :: bool
  iprr_auto_detect_provider :: "bool option"

definition ip_reputation_request_json :: "ip_reputation_request \<Rightarrow> json" where
  "ip_reputation_request_json r = JObj (concat [
     field ''entry_type'' (JStr (entry_type_str (iprr_entry_type r))),
     opt_field ''value'' JStr (iprr_value r),
     opt_field ''values'' (JArr \<circ> map JStr) (iprr_values r),
     field ''score'' (JNum (iprr_score r)),
     opt_field ''category'' JStr (iprr_category r),
     field ''description'' (JStr (iprr_description r)),
     field ''enabled'' (JBool (iprr_enabled r)),
     opt_field ''auto_detect_provider'' JBool (iprr_auto_detect_provider r)])"

record ip_reputation_config =
  ipc_cfg_maxmind_dc_score   :: int
  ipc_cfg_maxmind_asn_score  :: int
  ipc_cfg_spamhaus_ip_score  :: int
  ipc_cfg_spamhaus_asn_score :: int

definition ip_reputation_config_json :: "ip_reputation_config \<Rightarrow> json" where
  "ip_reputation_config_json r = JObj (concat [
     field ''maxmind_dc_score'' (JNum (ipc_cfg_maxmind_dc_score r)),
     field ''maxmind_asn_score'' (JNum (ipc_cfg_maxmind_asn_score r)),
     field ''spamhaus_ip_score'' (JNum (ipc_cfg_spamhaus_ip_score r)),
     field ''spamhaus_asn_score'' (JNum (ipc_cfg_spamhaus_asn_score r))])"

section \<open>Fingerprints and wildcard set-up\<close>

record ja4_entry =
  ja4_ja4        :: string
  ja4_count      :: int
  ja4_unique_ips :: int
  ja4_top_ua     :: string
  ja4_last_seen  :: string

record ja4_response =
  ja4r_data  :: "ja4_entry list"
  ja4r_total :: int

record wildcard_setup_response =
  wsr_domain          :: string
  wsr_txt_name        :: string
  wsr_txt_value       :: string
  wsr_wildcard_status :: string

record wildcard_verify_response =
  wvr_verified :: bool
  wvr_message  :: string

end
