(* ===== verification/Url.thy ===== *)
theory Url
  imports Js_Prelude
begin

text \<open>
  URLs as the client writes them and the server reads them.  The writing side is
  \<open>encodeURIComponent\<close>, \<open>URLSearchParams\<close> and the split of a target at its query (the
  JavaScript standard library as \<open>src/frontend/src/lib/api/client.ts\<close> uses it); the reading side
  is \<open>url.PathUnescape\<close>, \<open>url.QueryUnescape\<close>, \<open>url.ParseQuery\<close> and \<open>strconv.Atoi\<close> of the Go
  standard library.  A string of the server is a list of bytes, so a character of the client
  above 127 arrives as its two UTF-8 bytes (\<open>utf8\<close>).

  The lemmas show that what the client encodes is what the server decodes: for one component,
  for a whole list of query parameters, and for a decimal number.
\<close>

section \<open>Characters and bytes\<close>

definition is_alnum :: "char \<Rightarrow> bool" where
  "is_alnum c = (let n = (of_char c :: nat) in
     (48 \<le> n \<and> n \<le> 57) \<or> (65 \<le> n \<and> n \<le> 90) \<or> (97 \<le> n \<and> n \<le> 122))"

definition utf8_char :: "char \<Rightarrow> string" where
  "utf8_char c = (let n = (of_char c :: nat) in
     if n < 128 then [c] else [char_of (192 + n div 64), char_of (128 + n mod 64)])"

definition utf8 :: "string \<Rightarrow> string" where
  "utf8 s = concat (map utf8_char s)"

definition hex_digit :: "nat \<Rightarrow> char" where
  "hex_digit d = (if d < 10 then char_of (48 + d) else char_of (55 + d))"

definition hex_value :: "char \<Rightarrow> nat option" where
  "hex_value c = (let n = (of_char c :: nat) in
     if 48 \<le> n \<and> n \<le> 57 then Some (n - 48)
     else if 65 \<le> n \<and> n \<le> 70 then Some (n - 55)
     else if 97 \<le> n \<and> n \<le> 102 then Some (n - 87)
     else None)"

definition pct_byte :: "char \<Rightarrow> string" where
  "pct_byte b = [CHR ''%'', hex_digit (of_char b div 16), hex_digit (of_char b mod 16)]"

definition pct_char :: "char \<Rightarrow> string" where
  "pct_char c = concat (map pct_byte (utf8_char c))"

section \<open>Encoding\<close>

text \<open>The characters \<open>encodeURIComponent\<close> leaves alone, and those the form encoding of
  \<open>URLSearchParams\<close> does.\<close>

definition uri_unreserved :: "char \<Rightarrow> bool" where
  "uri_unreserved c \<longleftrightarrow> is_alnum c \<or> c \<in> set ''-_.!~*()'' \<or> c = CHR 0x27"

definition form_unreserved :: "char \<Rightarrow> bool" where
  "form_unreserved c \<longleftrightarrow> is_alnum c \<or> c \<in> set ''*-._''"

definition encodeURIComponent :: "string \<Rightarrow> string" where
  "encodeURIComponent s = concat (map (\<lambda>c. if uri_unreserved c then [c] else pct_char c) s)"

definition form_encode :: "string \<Rightarrow> string" where
  "form_encode s = concat (map (\<lambda>c.
     if form_unreserved c then [c] else if c = CHR '' '' then ''+'' else pct_char c) s)"

text \<open>\<open>new URLSearchParams()\<close> filled by \<open>append\<close>: the pairs in order, and \<open>toString\<close>.\<close>

type_synonym search_params = "(string \<times> string) list"

definition params_toString :: "search_params \<Rightarrow> string" where
  "params_toString ps = join ''&'' (map (\<lambda>(k, v). form_encode k @ ''='' @ form_encode v) ps)"

text \<open>A request target: a browser cuts the fragment; the query starts at the first question
  mark.\<close>

definition target_path :: "string \<Rightarrow> string" where
  "target_path t = takeWhile (\<lambda>c. c \<noteq> CHR ''?'' \<and> c \<noteq> CHR ''#'') t"

definition target_query :: "string \<Rightarrow> string" where
  "target_query t = drop 1 (dropWhile (\<lambda>c. c \<noteq> CHR ''?'') (takeWhile (\<lambda>c. c \<noteq> CHR ''#'') t))"

section \<open>Decoding\<close>

text \<open>Go's \<open>unescape\<close>; the flag is its \<open>encodeQueryComponent\<close> mode, in which a plus is a space.
  \<open>None\<close> is the \<open>EscapeError\<close>.\<close>

fun unescape :: "bool \<Rightarrow> string \<Rightarrow> string option" where
  "unescape q [] = Some []"
| "unescape q (c # s) =
     (if c = CHR ''%'' then
        (case s of
           a # b # r \<Rightarrow>
             (case (hex_value a, hex_value b) of
                (Some x, Some y) \<Rightarrow> map_option (Cons (char_of (16 * x + y))) (unescape q r)
              | _ \<Rightarrow> None)
         | _ \<Rightarrow> None)
      else map_option (Cons (if q \<and> c = CHR ''+'' then CHR '' '' else c)) (unescape q s))"

text \<open>\<open>strings.Cut(s, "=")\<close>.\<close>

definition cut_eq :: "string \<Rightarrow> string \<times> string" where
  "cut_eq s = (takeWhile (\<lambda>c. c \<noteq> CHR ''='') s, drop 1 (dropWhile (\<lambda>c. c \<noteq> CHR ''='') s))"

text \<open>\<open>url.ParseQuery\<close>: the pieces between ampersands, empty ones skipped; a piece with a
  semicolon or a bad escape is an error.\<close>

fun parse_pieces :: "string list \<Rightarrow> (string \<times> string) list option" where
  "parse_pieces [] = Some []"
| "parse_pieces (p # ps) =
     (if p = [] then parse_pieces ps
      else if CHR '';'' \<in> set p then None
      else (case (unescape True (fst (cut_eq p)), unescape True (snd (cut_eq p)), parse_pieces ps) of
              (Some k, Some v, Some r) \<Rightarrow> Some ((k, v) # r)
            | _ \<Rightarrow> None))"

definition parse_query :: "string \<Rightarrow> (string \<times> string) list option" where
  "parse_query s = parse_pieces (split_on (CHR ''&'') s)"

text \<open>\<open>strconv.Atoi\<close> on a 64-bit platform.\<close>

definition all_digits :: "string \<Rightarrow> bool" where
  "all_digits s \<longleftrightarrow> s \<noteq> [] \<and> (\<forall>c \<in> set s. is_digit c)"

definition atoi :: "string \<Rightarrow> int option" where
  "atoi s =
     (let neg = (s \<noteq> [] \<and> hd s = CHR ''-'');
          ds = (if s \<noteq> [] \<and> (hd s = CHR ''-'' \<or> hd s = CHR ''+'') then tl s else s);
          v = int (digits_value ds)
      in if \<not> all_digits ds then None
         else if neg then (if v \<le> 2 ^ 63 then Some (- v) else None)
         else (if v < 2 ^ 63 then Some v else None))"

section \<open>Lemmas\<close>

lemma hex_value_digit [simp]: "d < 16 \<Longrightarrow> hex_value (hex_digit d) = Some d"
  by (auto simp: hex_value_def hex_digit_def Let_def)

lemma hex_byte: "16 * (of_char b div 16) + of_char b mod 16 = (of_char b :: nat)"
  by simp

lemma of_char_less_256: "(of_char c :: nat) < 256"
proof -
  have "(of_char c :: nat) mod 256 = of_char c" by simp
  then show ?thesis by (metis mod_less_divisor zero_less_numeral)
qed

lemma unescape_pct_byte: "unescape q (pct_byte b @ r) = map_option (Cons b) (unescape q r)"
proof -
  have "of_char b div 16 < (16 :: nat)" using of_char_less_256 [of b] by linarith
  then show ?thesis by (simp add: pct_byte_def)
qed

lemma unescape_pct_char: "unescape q (pct_char c @ r) = map_option ((@) (utf8_char c)) (unescape q r)"
  by (cases "unescape q r") (simp_all add: pct_char_def utf8_char_def Let_def unescape_pct_byte)

lemma unreserved_ascii:
  assumes "uri_unreserved c \<or> form_unreserved c"
  shows "utf8_char c = [c] \<and> c \<noteq> CHR ''%'' \<and> c \<noteq> CHR ''+'' \<and> c \<noteq> CHR ''&'' \<and> c \<noteq> CHR ''='' \<and>
    c \<noteq> CHR '';'' \<and> c \<noteq> CHR ''?'' \<and> c \<noteq> CHR ''#'' \<and> c \<noteq> CHR ''/''"
  using assms
  by (auto simp: uri_unreserved_def form_unreserved_def is_alnum_def utf8_char_def Let_def)

lemma utf8_Cons: "utf8 (c # s) = utf8_char c @ utf8 s"
  by (simp add: utf8_def)

lemma unescape_encodeURIComponent: "unescape q (encodeURIComponent s) = Some (utf8 s)"
proof (induction s)
  case (Cons c s)
  have split: "encodeURIComponent (c # s) =
      (if uri_unreserved c then [c] else pct_char c) @ encodeURIComponent s"
    by (simp add: encodeURIComponent_def)
  show ?case
    using Cons unreserved_ascii [of c]
    by (simp add: split unescape_pct_char utf8_Cons)
qed (simp add: encodeURIComponent_def utf8_def)

lemma unescape_form_encode: "unescape True (form_encode s) = Some (utf8 s)"
proof (induction s)
  case (Cons c s)
  have split: "form_encode (c # s) =
      (if form_unreserved c then [c] else if c = CHR '' '' then ''+'' else pct_char c) @ form_encode s"
    by (simp add: form_encode_def)
  have sp: "utf8_char (CHR '' '') = '' ''" by (simp add: utf8_char_def)
  show ?case
    using Cons unreserved_ascii [of c]
    by (simp add: split unescape_pct_char utf8_Cons sp)
qed (simp add: form_encode_def utf8_def)

text \<open>UTF-8 loses nothing, so neither does an encoding: \<open>utf8_read\<close> is its left inverse.\<close>

fun utf8_read :: "string \<Rightarrow> string" where
  "utf8_read [] = []"
| "utf8_read [c] = [c]"
| "utf8_read (c # d # s) =
     (if (of_char c :: nat) < 128 then c # utf8_read (d # s)
      else char_of (((of_char c :: nat) - 192) * 64 + ((of_char d :: nat) - 128)) # utf8_read s)"

lemma utf8_read_char: "utf8_read (utf8_char c @ t) = c # utf8_read t"
proof (cases "(of_char c :: nat) < 128")
  case True
  then show ?thesis by (cases t) (simp_all add: utf8_char_def)
next
  case False
  define n where "n = (of_char c :: nat)"
  have b: "128 \<le> n" "n < 256" using False of_char_less_256 [of c] by (simp_all add: n_def)
  have "192 + n div 64 < 256" using b by linarith
  then have hi: "(of_char (char_of (192 + n div 64) :: char) :: nat) = 192 + n div 64" by simp
  have lo: "(of_char (char_of (128 + n mod 64) :: char) :: nat) = 128 + n mod 64" by simp
  have u: "utf8_char c = [char_of (192 + n div 64), char_of (128 + n mod 64)]"
    using False by (simp add: utf8_char_def Let_def n_def)
  have "\<not> 192 + n div 64 < (128 :: nat)" by simp
  then have "utf8_read (utf8_char c @ t) =
      char_of ((192 + n div 64 - 192) * 64 + (128 + n mod 64 - 128)) # utf8_read t"
    unfolding u append.simps utf8_read.simps hi lo by simp
  also have "(192 + n div 64 - 192) * 64 + (128 + n mod 64 - 128) = n" by simp
  finally show ?thesis by (simp add: n_def)
qed

lemma utf8_read_utf8 [simp]: "utf8_read (utf8 s) = s"
  by (induction s) (simp_all add: utf8_Cons utf8_read_char, simp add: utf8_def)

lemma utf8_inj: "utf8 s = utf8 t \<longleftrightarrow> s = t"
  by (metis utf8_read_utf8)

lemma encodeURIComponent_inj: "encodeURIComponent s = encodeURIComponent t \<longleftrightarrow> s = t"
  by (metis option.inject unescape_encodeURIComponent utf8_inj)

lemma utf8_ascii: "\<forall>c \<in> set s. (of_char c :: nat) < 128 \<Longrightarrow> utf8 s = s"
  by (induction s) (simp_all add: utf8_def utf8_char_def)

section \<open>Query strings round trip\<close>

lemma pct_byte_chars: "c \<in> set (pct_byte b) \<Longrightarrow> c = CHR ''%'' \<or> is_alnum c"
proof -
  have "is_alnum (hex_digit d)" if "d < 16" for d
    using that by (auto simp: hex_digit_def is_alnum_def Let_def)
  moreover have "of_char b div 16 < (16 :: nat)" using of_char_less_256 [of b] by linarith
  ultimately show "c \<in> set (pct_byte b) \<Longrightarrow> c = CHR ''%'' \<or> is_alnum c"
    by (auto simp: pct_byte_def)
qed

lemma pct_char_chars: "c \<in> set (pct_char d) \<Longrightarrow> c = CHR ''%'' \<or> is_alnum c"
  using pct_byte_chars by (auto simp: pct_char_def)

lemma alnum_not_delim:
  "is_alnum c \<Longrightarrow> c \<noteq> CHR ''&'' \<and> c \<noteq> CHR ''='' \<and> c \<noteq> CHR '';'' \<and> c \<noteq> CHR ''?'' \<and>
     c \<noteq> CHR ''#'' \<and> c \<noteq> CHR ''/''"
  by (auto simp: is_alnum_def Let_def)

definition delimiters :: string where
  "delimiters = ''&=;?#/''"

lemma form_encode_chars: "c \<in> set (form_encode s) \<Longrightarrow> c \<notin> set delimiters"
proof (induction s)
  case (Cons d s)
  then show ?case
    using unreserved_ascii [of d] pct_char_chars [of c d] alnum_not_delim [of c]
    by (auto simp: form_encode_def delimiters_def split: if_splits)
qed (simp add: form_encode_def)

lemma encodeURIComponent_chars: "c \<in> set (encodeURIComponent s) \<Longrightarrow> c \<notin> set delimiters"
proof (induction s)
  case (Cons d s)
  then show ?case
    using unreserved_ascii [of d] pct_char_chars [of c d] alnum_not_delim [of c]
    by (auto simp: encodeURIComponent_def delimiters_def split: if_splits)
qed (simp add: encodeURIComponent_def)

lemma cut_eq_append: "CHR ''='' \<notin> set k \<Longrightarrow> cut_eq (k @ ''='' @ v) = (k, v)"
proof -
  assume "CHR ''='' \<notin> set k"
  then have "\<forall>c \<in> set k. c \<noteq> CHR ''=''" by auto
  then show ?thesis by (simp add: cut_eq_def takeWhile_append2 dropWhile_append2)
qed

lemma parse_pieces_encoded:
  "parse_pieces (map (\<lambda>(k, v). form_encode k @ ''='' @ form_encode v) ps) =
     Some (map (\<lambda>(k, v). (utf8 k, utf8 v)) ps)"
proof (induction ps)
  case (Cons p ps)
  obtain k v where p: "p = (k, v)" by (cases p)
  have no: "CHR ''='' \<notin> set (form_encode k)"
    "CHR '';'' \<notin> set (form_encode k @ ''='' @ form_encode v)"
    using form_encode_chars by (auto simp: delimiters_def)
  show ?case
    using Cons no by (simp add: p cut_eq_append [OF no(1), simplified] unescape_form_encode)
qed simp

lemma parse_query_params: "parse_query (params_toString ps) = Some (map (\<lambda>(k, v). (utf8 k, utf8 v)) ps)"
proof (cases "ps = []")
  case False
  have "\<forall>w \<in> set (map (\<lambda>(k, v). form_encode k @ ''='' @ form_encode v) ps). CHR ''&'' \<notin> set w"
    using form_encode_chars by (fastforce simp: delimiters_def)
  then show ?thesis
    using False unfolding parse_query_def params_toString_def
    by (subst split_on_join) (simp_all only: parse_pieces_encoded map_is_Nil_conv not_False_eq_True)
qed (simp add: parse_query_def params_toString_def)

lemma join_chars: "c \<in> set (join sep ws) \<Longrightarrow> c \<in> set sep \<or> (\<exists>w \<in> set ws. c \<in> set w)"
  by (induction sep ws rule: join.induct) auto

lemma params_toString_chars: "c \<in> set (params_toString ps) \<Longrightarrow> c \<noteq> CHR ''#'' \<and> c \<noteq> CHR ''?''"
  using form_encode_chars join_chars by (fastforce simp: params_toString_def delimiters_def)

section \<open>Targets\<close>

definition plain_path :: "string \<Rightarrow> bool" where
  "plain_path p \<longleftrightarrow> (\<forall>c \<in> set p. c \<noteq> CHR ''?'' \<and> c \<noteq> CHR ''#'')"

lemma target_path_plain [simp]: "plain_path p \<Longrightarrow> target_path p = p"
  by (simp add: plain_path_def target_path_def)

lemma target_path_query [simp]: "plain_path p \<Longrightarrow> target_path (p @ CHR ''?'' # q) = p"
  by (simp add: plain_path_def target_path_def takeWhile_append2)

lemma target_query_query:
  "plain_path p \<Longrightarrow> CHR ''#'' \<notin> set q \<Longrightarrow> target_query (p @ CHR ''?'' # q) = q"
proof -
  assume p: "plain_path p" and q: "CHR ''#'' \<notin> set q"
  have "takeWhile (\<lambda>c. c \<noteq> CHR ''#'') (p @ CHR ''?'' # q) = p @ CHR ''?'' # q"
    using p q by (auto simp: takeWhile_eq_all_conv plain_path_def)
  then show ?thesis
    using p by (simp add: target_query_def plain_path_def dropWhile_append2)
qed

lemma plain_path_append [simp]: "plain_path (p @ q) \<longleftrightarrow> plain_path p \<and> plain_path q"
  by (auto simp: plain_path_def)

lemma unescape_no_pct: "CHR ''%'' \<notin> set p \<Longrightarrow> unescape False p = Some p"
  by (induction p) auto

section \<open>Numbers\<close>

lemma int_to_string_plain:
  "c \<in> set (int_to_string i) \<Longrightarrow> c \<noteq> CHR ''?'' \<and> c \<noteq> CHR ''#'' \<and> c \<noteq> CHR ''/'' \<and> c \<noteq> CHR ''%''"
  using int_to_string_chars [of c i] by (auto simp: is_digit_def)

lemma atoi_nat_to_string: "int n < 2 ^ 63 \<Longrightarrow> atoi (nat_to_string n) = Some (int n)"
proof -
  have "hd (nat_to_string n) \<in> set (nat_to_string n)" by simp
  then have d: "is_digit (hd (nat_to_string n))" by (rule nat_to_string_digits)
  then have ne: "hd (nat_to_string n) \<noteq> CHR ''-''" "hd (nat_to_string n) \<noteq> CHR ''+''"
    by (auto simp: is_digit_def)
  have "all_digits (nat_to_string n)"
    by (simp add: all_digits_def nat_to_string_digits)
  then show "int n < 2 ^ 63 \<Longrightarrow> atoi (nat_to_string n) = Some (int n)"
    using ne by (simp add: atoi_def Let_def)
qed

lemma atoi_int_to_string: "- (2 ^ 63) \<le> i \<Longrightarrow> i < 2 ^ 63 \<Longrightarrow> atoi (int_to_string i) = Some i"
proof (cases "i < 0")
  case True
  assume b: "- (2 ^ 63) \<le> i"
  have "all_digits (nat_to_string (nat (- i)))" by (simp add: all_digits_def nat_to_string_digits)
  then show ?thesis using True b by (simp add: atoi_def int_to_string_def Let_def)
next
  case False
  assume "i < 2 ^ 63"
  then show ?thesis using False atoi_nat_to_string [of "nat i"] by (simp add: int_to_string_def)
qed

end
