(* ===== verification/Api_Client.thy ===== *)
theory Api_Client
  imports Api_Types Url
begin

text \<open>
  The API client of the dashboard, after \<open>src/frontend/src/lib/api/client.ts\<close>: the class
  \<open>ApiError\<close>, the private method \<open>request\<close> that every operation goes through, and one
  definition per operation of the client, grouped as the class groups them.  An operation is the
  pair of the endpoint and the options it passes to \<open>request\<close> (\<open>api_call\<close>); \<open>perform\<close> is the
  whole operation.  The value given to \<open>JSON.stringify\<close> is kept as a JSON value.

  \<open>fetch\<close> is the browser's: an argument of \<open>request\<close>, a function from the URL and the
  configuration to what the promise settles with.  A response is its status, its status text and
  what \<open>response.json()\<close> settles with.

  The properties: \<open>request\<close> returns a value exactly on a successful response with a JSON body (or
  on 204), and otherwise throws an \<open>ApiError\<close> whose status code and message are determined by
  the response; every request carries the credentials and the content type; the query string of
  \<open>logs.query\<close> and of the analytics calls is read back by the server as the parameters given.
\<close>

section \<open>Requests and responses\<close>

datatype http_method = GET | POST | PUT | DELETE | OPTIONS

text \<open>\<open>RequestInit\<close>, with the members the client uses.\<close>

record request_init =
  ri_method      :: "http_method option"
  ri_body        :: "json option"
  ri_headers     :: "string js_obj option"
  ri_credentials :: "string option"

record http_response =
  resp_status     :: nat
  resp_statusText :: string
  resp_json       :: "js_error + json"

datatype fetch_outcome = Fetch_Rejects js_error | Fetch_Responds http_response

type_synonym fetch_fun = "string \<Rightarrow> request_init \<Rightarrow> fetch_outcome"

definition response_ok :: "http_response \<Rightarrow> bool" where
  "response_ok r \<longleftrightarrow> 200 \<le> resp_status r \<and> resp_status r \<le> 299"

record api_error =
  err_message    :: string
  err_statusCode :: nat
  err_response   :: json

text \<open>What a thrown value of the \<open>try\<close> block is: the error the block itself throws, or any other.\<close>

datatype thrown = Thrown_Api api_error | Thrown_Other js_error

definition request_config :: "request_init \<Rightarrow> request_init" where
  "request_config options = options\<lparr>
     ri_credentials := Some ''include'',
     ri_headers := Some (foldl (\<lambda>h (k, v). obj_set h k v) [(''Content-Type'', ''application/json'')]
       (case ri_headers options of None \<Rightarrow> [] | Some h \<Rightarrow> h))\<rparr>"

text \<open>\<open>error.message || error.error\<close> as the argument of \<open>super(...)\<close>: an undefined message is the
  empty string, any other value is converted to a string.\<close>

definition error_message :: "json \<Rightarrow> string" where
  "error_message e =
     (case json_get e ''message'' of
        Some m \<Rightarrow> if truthy m then js_String m
                  else (case json_get e ''error'' of None \<Rightarrow> [] | Some x \<Rightarrow> js_String x)
      | None \<Rightarrow> (case json_get e ''error'' of None \<Rightarrow> [] | Some x \<Rightarrow> js_String x))"

text \<open>The body of an unsuccessful response, or the substitute when it is not JSON; reading a member
  of \<open>null\<close> throws.\<close>

definition error_body :: "http_response \<Rightarrow> json" where
  "error_body r =
     (case resp_json r of
        Inr j \<Rightarrow> j
      | Inl _ \<Rightarrow> JObj [(''error'', JStr (resp_statusText r)),
                       (''message'', JStr (''HTTP '' @ nat_to_string (resp_status r)))])"

definition null_member_error :: js_error where
  "null_member_error = Js_Error ''Cannot read properties of null''"

definition request_try :: "fetch_outcome \<Rightarrow> thrown + json" where
  "request_try outcome =
     (case outcome of
        Fetch_Rejects e \<Rightarrow> Inl (Thrown_Other e)
      | Fetch_Responds response \<Rightarrow>
          if \<not> response_ok response then
            (let error = error_body response
             in if error = JNull then Inl (Thrown_Other null_member_error)
                else Inl (Thrown_Api \<lparr>err_message = error_message error,
                       err_statusCode = resp_status response, err_response = error\<rparr>))
          else if resp_status response = 204 then Inr (JObj [])
          else (case resp_json response of
                  Inl e \<Rightarrow> Inl (Thrown_Other e)
                | Inr j \<Rightarrow> Inr j))"

definition network_error :: "js_error \<Rightarrow> api_error" where
  "network_error e = \<lparr>
     err_message = (case e of Js_Error m \<Rightarrow> m | Js_Thrown_Value \<Rightarrow> ''Network error''),
     err_statusCode = 0,
     err_response = JObj [(''error'', JStr ''NetworkError''),
                          (''message'', JStr ''Failed to connect to API'')]\<rparr>"

definition request :: "fetch_fun \<Rightarrow> string \<Rightarrow> string \<Rightarrow> request_init \<Rightarrow> api_error + json" where
  "request fetch baseUrl endpoint options =
     (case request_try (fetch (baseUrl @ endpoint) (request_config options)) of
        Inr j \<Rightarrow> Inr j
      | Inl (Thrown_Api e) \<Rightarrow> Inl e
      | Inl (Thrown_Other e) \<Rightarrow> Inl (network_error e))"

section \<open>Calls\<close>

type_synonym api_call = "string \<times> request_init"

definition no_options :: request_init where
  "no_options = \<lparr>ri_method = None, ri_body = None, ri_headers = None, ri_credentials = None\<rparr>"

definition api_get :: "string \<Rightarrow> api_call" where
  "api_get endpoint = (endpoint, no_options)"

definition api_bare :: "http_method \<Rightarrow> string \<Rightarrow> api_call" where
  "api_bare m endpoint = (endpoint, no_options\<lparr>ri_method := Some m\<rparr>)"

definition api_send :: "http_method \<Rightarrow> string \<Rightarrow> json \<Rightarrow> api_call" where
  "api_send m endpoint data = (endpoint, no_options\<lparr>ri_method := Some m, ri_body := Some data\<rparr>)"

definition perform :: "fetch_fun \<Rightarrow> string \<Rightarrow> api_call \<Rightarrow> api_error + json" where
  "perform fetch baseUrl call = request fetch baseUrl (fst call) (snd call)"

text \<open>What \<open>fetch\<close> settles with for a call, and the method it uses.\<close>

definition call_outcome :: "fetch_fun \<Rightarrow> string \<Rightarrow> api_call \<Rightarrow> fetch_outcome" where
  "call_outcome fetch baseUrl call = fetch (baseUrl @ fst call) (request_config (snd call))"


definition call_method :: "api_call \<Rightarrow> http_method" where
  "call_method call = (case ri_method (snd call) of None \<Rightarrow> GET | Some m \<Rightarrow> m)"

section \<open>\<open>health\<close>\<close>

definition health_check :: "api_call" where
  "health_check = api_get ''/health''"

section \<open>\<open>apps\<close>\<close>

definition apps_list :: "api_call" where
  "apps_list = api_get ''/api/v1/apps''"

definition apps_get :: "string \<Rightarrow> api_call" where
  "apps_get ident = api_get (''/api/v1/apps/'' @ ident)"

definition apps_create :: "json \<Rightarrow> api_call" where
  "apps_create data = api_send POST ''/api/v1/apps'' data"

definition apps_update :: "string \<Rightarrow> json \<Rightarrow> api_call" where
  "apps_update ident data = api_send PUT (''/api/v1/apps/'' @ ident) data"

definition apps_delete :: "string \<Rightarrow> api_call" where
  "apps_delete ident = api_bare DELETE (''/api/v1/apps/'' @ ident)"

definition apps_toggleUnderAttackMode :: "string \<Rightarrow> bool \<Rightarrow> api_call" where
  "apps_toggleUnderAttackMode ident enabled =
     api_send PUT (''/api/v1/apps/'' @ ident @ ''/under-attack'') (JObj [(''enabled'', JBool enabled)])"

definition apps_listIPAccessRules :: "string \<Rightarrow> api_call" where
  "apps_listIPAccessRules appId = api_get (''/api/v1/apps/'' @ appId @ ''/ip-access-rules'')"

definition apps_createIPAccessRule :: "string \<Rightarrow> json \<Rightarrow> api_call" where
  "apps_createIPAccessRule appId data =
     api_send POST (''/api/v1/apps/'' @ appId @ ''/ip-access-rules'') data"

definition apps_updateIPAccessRule :: "string \<Rightarrow> int \<Rightarrow> json \<Rightarrow> api_call" where
  "apps_updateIPAccessRule appId ident data =
     api_send PUT (''/api/v1/apps/'' @ appId @ ''/ip-access-rules/'' @ int_to_string ident) data"

definition apps_deleteIPAccessRule :: "string \<Rightarrow> int \<Rightarrow> api_call" where
  "apps_deleteIPAccessRule appId ident =
     api_bare DELETE (''/api/v1/apps/'' @ appId @ ''/ip-access-rules/'' @ int_to_string ident)"

definition apps_listRules :: "string \<Rightarrow> api_call" where
  "apps_listRules appId = api_get (''/api/v1/apps/'' @ appId @ ''/rules'')"

definition apps_createRule :: "string \<Rightarrow> json \<Rightarrow> api_call" where
  "apps_createRule appId data = api_send POST (''/api/v1/apps/'' @ appId @ ''/rules'') data"

definition apps_updateRule :: "string \<Rightarrow> int \<Rightarrow> json \<Rightarrow> api_call" where
  "apps_updateRule appId ident data =
     api_send PUT (''/api/v1/apps/'' @ appId @ ''/rules/'' @ int_to_string ident) data"

definition apps_deleteRule :: "string \<Rightarrow> int \<Rightarrow> api_call" where
  "apps_deleteRule appId ident =
     api_bare DELETE (''/api/v1/apps/'' @ appId @ ''/rules/'' @ int_to_string ident)"

definition apps_reorderRules :: "string \<Rightarrow> int list \<Rightarrow> api_call" where
  "apps_reorderRules appId ruleIDs =
     api_send POST (''/api/v1/apps/'' @ appId @ ''/rules/reorder'')
       (JObj [(''rule_ids'', JArr (map JNum ruleIDs))])"

section \<open>\<open>rules\<close>\<close>

definition rules_list :: "api_call" where
  "rules_list = api_get ''/api/v1/rules''"

definition rules_get :: "int \<Rightarrow> api_call" where
  "rules_get ident = api_get (''/api/v1/rules/'' @ int_to_string ident)"

definition rules_create :: "json \<Rightarrow> api_call" where
  "rules_create data = api_send POST ''/api/v1/rules'' data"

definition rules_update :: "int \<Rightarrow> json \<Rightarrow> api_call" where
  "rules_update ident data = api_send PUT (''/api/v1/rules/'' @ int_to_string ident) data"

definition rules_delete :: "int \<Rightarrow> api_call" where
  "rules_delete ident = api_bare DELETE (''/api/v1/rules/'' @ int_to_string ident)"

definition rules_validate :: "string \<Rightarrow> api_call" where
  "rules_validate expression =
     api_send POST ''/api/v1/rules/validate'' (JObj [(''expression'', JStr expression)])"

definition rules_reorder :: "int list \<Rightarrow> api_call" where
  "rules_reorder ruleIDs =
     api_send POST ''/api/v1/rules/reorder'' (JObj [(''rule_ids'', JArr (map JNum ruleIDs))])"

section \<open>\<open>botPatterns\<close>\<close>

definition botPatterns_list :: "api_call" where
  "botPatterns_list = api_get ''/api/v1/bot-patterns''"

definition botPatterns_create :: "json \<Rightarrow> api_call" where
  "botPatterns_create data = api_send POST ''/api/v1/bot-patterns'' data"

definition botPatterns_update :: "int \<Rightarrow> json \<Rightarrow> api_call" where
  "botPatterns_update ident data =
     api_send PUT (''/api/v1/bot-patterns/'' @ int_to_string ident) data"

definition botPatterns_delete :: "int \<Rightarrow> api_call" where
  "botPatterns_delete ident = api_bare DELETE (''/api/v1/bot-patterns/'' @ int_to_string ident)"

definition botPatterns_bulkDelete :: "int list \<Rightarrow> api_call" where
  "botPatterns_bulkDelete ids =
     api_send POST ''/api/v1/bot-patterns/bulk-delete'' (JObj [(''ids'', JArr (map JNum ids))])"

definition botPatterns_bulkCreate :: "json \<Rightarrow> api_call" where
  "botPatterns_bulkCreate data = api_send POST ''/api/v1/bot-patterns/bulk-create'' data"

definition botPatterns_bulkUpdate :: "json \<Rightarrow> api_call" where
  "botPatterns_bulkUpdate data = api_send PUT ''/api/v1/bot-patterns/bulk-update'' data"

section \<open>\<open>botIPRanges\<close>\<close>

definition botIPRanges_list :: "api_call" where
  "botIPRanges_list = api_get ''/api/v1/bot-ip-ranges''"

definition botIPRanges_create :: "json \<Rightarrow> api_call" where
  "botIPRanges_create data = api_send POST ''/api/v1/bot-ip-ranges'' data"

definition botIPRanges_update :: "int \<Rightarrow> json \<Rightarrow> api_call" where
  "botIPRanges_update ident data =
     api_send PUT (''/api/v1/bot-ip-ranges/'' @ int_to_string ident) data"

definition botIPRanges_delete :: "int \<Rightarrow> api_call" where
  "botIPRanges_delete ident = api_bare DELETE (''/api/v1/bot-ip-ranges/'' @ int_to_string ident)"

definition botIPRanges_sync :: "int \<Rightarrow> api_call" where
  "botIPRanges_sync ident =
     api_bare POST (''/api/v1/bot-ip-ranges/'' @ int_to_string ident @ ''/sync'')"

section \<open>\<open>ipReputation\<close>\<close>

definition ipReputation_list :: "api_call" where
  "ipReputation_list = api_get ''/api/v1/ip-reputation''"

definition ipReputation_create :: "json \<Rightarrow> api_call" where
  "ipReputation_create data = api_send POST ''/api/v1/ip-reputation'' data"

definition ipReputation_update :: "int \<Rightarrow> json \<Rightarrow> api_call" where
  "ipReputation_update ident data =
     api_send PUT (''/api/v1/ip-reputation/'' @ int_to_string ident) data"

definition ipReputation_delete :: "int \<Rightarrow> api_call" where
  "ipReputation_delete ident = api_bare DELETE (''/api/v1/ip-reputation/'' @ int_to_string ident)"

definition ipReputation_bulkDelete :: "int list \<Rightarrow> api_call" where
  "ipReputation_bulkDelete ids =
     api_send POST ''/api/v1/ip-reputation/bulk-delete'' (JObj [(''ids'', JArr (map JNum ids))])"

definition ipReputation_bulkUpdateScore :: "int list \<Rightarrow> int \<Rightarrow> api_call" where
  "ipReputation_bulkUpdateScore ids score =
     api_send POST ''/api/v1/ip-reputation/bulk-update-score'' (JObj [(''ids'', JArr (map JNum ids)), (''score'', JNum score)])"

definition ipReputation_getConfig :: "api_call" where
  "ipReputation_getConfig = api_get ''/api/v1/ip-reputation/config''"

definition ipReputation_updateConfig :: "json \<Rightarrow> api_call" where
  "ipReputation_updateConfig data = api_send PUT ''/api/v1/ip-reputation/config'' data"

definition ipReputation_syncSpamhaus :: "api_call" where
  "ipReputation_syncSpamhaus = api_bare POST ''/api/v1/ip-reputation/sync-spamhaus''"

section \<open>\<open>settings\<close>\<close>

definition settings_getBotConfig :: "api_call" where
  "settings_getBotConfig = api_get ''/api/v1/settings/bot''"

definition settings_updateBotConfig :: "json \<Rightarrow> api_call" where
  "settings_updateBotConfig data = api_send PUT ''/api/v1/settings/bot'' data"

definition settings_getWAFConfig :: "api_call" where
  "settings_getWAFConfig = api_get ''/api/v1/settings/waf''"

definition settings_updateWAFConfig :: "json \<Rightarrow> api_call" where
  "settings_updateWAFConfig data = api_send PUT ''/api/v1/settings/waf'' data"

definition settings_getScoringConfig :: "api_call" where
  "settings_getScoringConfig = api_get ''/api/v1/settings/scoring''"

definition settings_updateScoringConfig :: "json \<Rightarrow> api_call" where
  "settings_updateScoringConfig data = api_send PUT ''/api/v1/settings/scoring'' data"

definition settings_getProtocolAnomalyConfig :: "api_call" where
  "settings_getProtocolAnomalyConfig = api_get ''/api/v1/settings/protocol-anomaly''"

definition settings_updateProtocolAnomalyConfig :: "json \<Rightarrow> api_call" where
  "settings_updateProtocolAnomalyConfig data =
     api_send PUT ''/api/v1/settings/protocol-anomaly'' data"

section \<open>\<open>logs\<close> and \<open>rateLimit\<close>\<close>

text \<open>\<open>logs\<close> comes first in the source; a parameter that is absent, zero or the empty string is left
  out.\<close>

definition append_num :: "string \<Rightarrow> int option \<Rightarrow> search_params" where
  "append_num k v =
     (case v of None \<Rightarrow> [] | Some n \<Rightarrow> if n = 0 then [] else [(k, int_to_string n)])"

definition append_str :: "string \<Rightarrow> string option \<Rightarrow> search_params" where
  "append_str k v = (case v of None \<Rightarrow> [] | Some s \<Rightarrow> if s = [] then [] else [(k, s)])"

definition log_search_params :: "log_query_params option \<Rightarrow> search_params" where
  "log_search_params params = (case params of None \<Rightarrow> [] | Some p \<Rightarrow>
     append_num ''limit'' (lq_limit p) @
     append_num ''offset'' (lq_offset p) @
     append_str ''action'' (map_option access_action_str (lq_action p)) @
     append_str ''app_id'' (lq_app_id p) @
     append_str ''q'' (lq_q p) @
     append_num ''days'' (lq_days p) @
     append_str ''reason_like'' (lq_reason_like p) @
     append_str ''trace_like'' (lq_trace_like p))"

definition logs_query :: "log_query_params option \<Rightarrow> api_call" where
  "logs_query params =
     (let query = params_toString (log_search_params params)
      in api_get (if query \<noteq> [] then ''/api/v1/logs?'' @ query else ''/api/v1/logs''))"

definition rateLimit_get :: "api_call" where
  "rateLimit_get = api_get ''/api/v1/rate-limit''"

definition rateLimit_update :: "json \<Rightarrow> api_call" where
  "rateLimit_update data = api_send PUT ''/api/v1/rate-limit'' data"

definition rateLimit_getStats :: "api_call" where
  "rateLimit_getStats = api_get ''/api/v1/rate-limit/stats''"

section \<open>\<open>analytics\<close>\<close>

definition analytics_getTrafficAnalytics :: "traffic_params \<Rightarrow> api_call" where
  "analytics_getTrafficAnalytics params =
     api_get (''/api/v1/analytics/traffic?'' @
       params_toString ([(''range'', traffic_range_str (tp_range params))] @
         append_str ''app_id'' (tp_app_id params)))"

text \<open>The query of the six calls that take a range and an optional application.\<close>

definition range_query :: "string \<Rightarrow> string option \<Rightarrow> string" where
  "range_query rng appId =
     (case appId of
        None \<Rightarrow> ''?range='' @ rng
      | Some a \<Rightarrow> if a = [] then ''?range='' @ rng
                  else ''?range='' @ rng @ ''&app_id='' @ encodeURIComponent a)"

definition analytics_exportJA4Fingerprints :: "string \<Rightarrow> string \<Rightarrow> string" where
  "analytics_exportJA4Fingerprints baseUrl format =
     baseUrl @ ''/api/v1/analytics/fingerprints/export?format='' @ format"

definition analytics_getTopThreats :: "string \<Rightarrow> string option \<Rightarrow> api_call" where
  "analytics_getTopThreats rng appId =
     api_get (''/api/v1/analytics/threats'' @ range_query rng appId)"

definition analytics_getInsights :: "string \<Rightarrow> string option \<Rightarrow> api_call" where
  "analytics_getInsights rng appId =
     api_get (''/api/v1/analytics/insights'' @ range_query rng appId)"

definition analytics_getChallengeStats :: "string \<Rightarrow> api_call" where
  "analytics_getChallengeStats rng = api_get (''/api/v1/analytics/challenge-stats?range='' @ rng)"

definition analytics_getTopBlockedBots :: "string option \<Rightarrow> api_call" where
  "analytics_getTopBlockedBots rng =
     api_get (''/api/v1/analytics/top-blocked-bots?range='' @ (case rng of None \<Rightarrow> ''7d'' | Some r \<Rightarrow> r))"

definition analytics_getWAFStats :: "string \<Rightarrow> api_call" where
  "analytics_getWAFStats rng = api_get (''/api/v1/analytics/waf-stats?range='' @ rng)"

definition analytics_getThreatIPs :: "string \<Rightarrow> string option \<Rightarrow> api_call" where
  "analytics_getThreatIPs rng appId =
     api_get (''/api/v1/analytics/threat-intel/ips'' @ range_query rng appId)"

definition analytics_getWAFRuleIntel :: "string \<Rightarrow> string option \<Rightarrow> api_call" where
  "analytics_getWAFRuleIntel rng appId =
     api_get (''/api/v1/analytics/threat-intel/waf-rules'' @ range_query rng appId)"

definition analytics_getThreatSummary :: "string \<Rightarrow> string option \<Rightarrow> api_call" where
  "analytics_getThreatSummary rng appId =
     api_get (''/api/v1/analytics/threat-intel/summary'' @ range_query rng appId)"

definition analytics_getCustomRuleIntel :: "string \<Rightarrow> string option \<Rightarrow> api_call" where
  "analytics_getCustomRuleIntel rng appId =
     api_get (''/api/v1/analytics/threat-intel/custom-rules'' @ range_query rng appId)"

definition analytics_getJA4Fingerprints :: "int option \<Rightarrow> int option \<Rightarrow> api_call" where
  "analytics_getJA4Fingerprints limit offset =
     api_get (''/api/v1/analytics/fingerprints?limit='' @ int_to_string (case limit of None \<Rightarrow> 100 | Some n \<Rightarrow> n) @ ''&offset='' @ int_to_string (case offset of None \<Rightarrow> 0 | Some n \<Rightarrow> n))"

definition analytics_getJA4Detail :: "string \<Rightarrow> api_call" where
  "analytics_getJA4Detail ja4 =
     api_get (''/api/v1/analytics/fingerprints/'' @ encodeURIComponent ja4)"

section \<open>\<open>certificates\<close>\<close>

definition certificates_list :: "string option \<Rightarrow> api_call" where
  "certificates_list appId =
     (case appId of
        None \<Rightarrow> api_get ''/api/v1/certificates''
      | Some a \<Rightarrow> if a = [] then api_get ''/api/v1/certificates''
                  else api_get (''/api/v1/certificates?app_id='' @ a))"

definition certificates_get :: "string \<Rightarrow> api_call" where
  "certificates_get domain = api_get (''/api/v1/certificates/'' @ domain)"

definition certificates_issue :: "string \<Rightarrow> string option \<Rightarrow> api_call" where
  "certificates_issue domain appId =
     api_send POST ''/api/v1/certificates'' (JObj [(''domain'', JStr domain), (''app_id'', JStr (case appId of None \<Rightarrow> [] | Some a \<Rightarrow> a))])"

definition certificates_renew :: "string \<Rightarrow> api_call" where
  "certificates_renew domain = api_bare POST (''/api/v1/certificates/'' @ domain @ ''/renew'')"

definition certificates_validate :: "string \<Rightarrow> api_call" where
  "certificates_validate domain =
     api_bare POST (''/api/v1/certificates/'' @ domain @ ''/validate'')"

definition certificates_toggleAutoRenew :: "string \<Rightarrow> bool \<Rightarrow> api_call" where
  "certificates_toggleAutoRenew domain enabled =
     api_send PUT (''/api/v1/certificates/'' @ domain @ ''/auto-renew'') (JObj [(''enabled'', JBool enabled)])"

definition certificates_getLogs :: "string \<Rightarrow> int option \<Rightarrow> api_call" where
  "certificates_getLogs domain limit =
     api_get (''/api/v1/certificates/'' @ domain @ ''/logs?limit='' @ int_to_string (case limit of None \<Rightarrow> 50 | Some n \<Rightarrow> n))"

definition certificates_syncFromFilesystem :: "api_call" where
  "certificates_syncFromFilesystem = api_bare POST ''/api/v1/certificates/sync''"

definition certificates_delete :: "string \<Rightarrow> api_call" where
  "certificates_delete domain = api_bare DELETE (''/api/v1/certificates/'' @ domain)"

definition certificates_bulkDelete :: "string list \<Rightarrow> api_call" where
  "certificates_bulkDelete domains =
     api_send POST ''/api/v1/certificates/bulk-delete'' (JObj [(''domains'', JArr (map JStr domains))])"

definition certificates_enableWildcard :: "string \<Rightarrow> string \<Rightarrow> api_call" where
  "certificates_enableWildcard domain wmethod =
     api_send POST ''/api/v1/certificates/wildcard/enable'' (JObj [(''domain'', JStr domain), (''method'', JStr wmethod)])"

definition certificates_verifyWildcardDNS :: "string \<Rightarrow> api_call" where
  "certificates_verifyWildcardDNS domain =
     api_send POST ''/api/v1/certificates/wildcard/verify'' (JObj [(''domain'', JStr domain)])"

definition certificates_issueWildcard :: "string \<Rightarrow> api_call" where
  "certificates_issueWildcard domain =
     api_send POST ''/api/v1/certificates/wildcard/issue'' (JObj [(''domain'', JStr domain)])"

definition certificates_disableWildcard :: "string \<Rightarrow> api_call" where
  "certificates_disableWildcard domain =
     api_bare POST (''/api/v1/certificates/'' @ domain @ ''/wildcard/disable'')"

section \<open>Behaviour of \<open>request\<close>\<close>

lemma call_method_simps [simp]:
  "call_method (api_get p) = GET" "call_method (api_bare m p) = m" "call_method (api_send m p d) = m"
  by (simp_all add: call_method_def api_get_def api_bare_def api_send_def no_options_def)

lemma call_endpoint_simps [simp]:
  "fst (api_get p) = p" "fst (api_bare m p) = p" "fst (api_send m p d) = p"
  by (simp_all add: api_get_def api_bare_def api_send_def)

lemma call_body_simps [simp]:
  "ri_body (snd (api_get p)) = None" "ri_body (snd (api_bare m p)) = None"
  "ri_body (snd (api_send m p d)) = Some d"
  by (simp_all add: api_get_def api_bare_def api_send_def no_options_def)

lemma perform_reject:
  "call_outcome fetch base call = Fetch_Rejects e \<Longrightarrow>
     perform fetch base call = Inl (network_error e)"
  by (simp add: perform_def request_def request_try_def call_outcome_def)

lemma perform_respond:
  assumes "call_outcome fetch base call = Fetch_Responds r"
  shows "perform fetch base call =
    (if \<not> response_ok r then
       Inl (if error_body r = JNull then network_error null_member_error
            else \<lparr>err_message = error_message (error_body r), err_statusCode = resp_status r,
                  err_response = error_body r\<rparr>)
     else if resp_status r = 204 then Inr (JObj [])
     else (case resp_json r of Inl e \<Rightarrow> Inl (network_error e) | Inr j \<Rightarrow> Inr j))"
  using assms by (auto simp: perform_def request_def request_try_def call_outcome_def Let_def split: sum.splits)

lemma error_body_fallback_message:
  "resp_json r = Inl e \<Longrightarrow> error_message (error_body r) = ''HTTP '' @ nat_to_string (resp_status r)"
  by (simp add: error_body_def error_message_def)

text \<open>An API operation resolves exactly when the server answered with a 2xx status and either the
  status is 204, in which case the value is the empty object, or the body is JSON, in which case the
  value is that JSON; in every other case it throws.\<close>

theorem perform_resolves_iff:
  "perform fetch base call = Inr v \<longleftrightarrow>
     (\<exists>r. call_outcome fetch base call = Fetch_Responds r \<and> response_ok r \<and>
       (if resp_status r = 204 then v = JObj [] else resp_json r = Inr v))"
proof (cases "call_outcome fetch base call")
  case (Fetch_Rejects e)
  then show ?thesis by (simp add: perform_reject)
next
  case (Fetch_Responds r)
  then show ?thesis
    by (cases "resp_json r") (auto simp: perform_respond [OF Fetch_Responds])
qed

text \<open>The error an API operation throws.  Its status code is that of the response when the
  response was not 2xx and its body is anything but the JSON value \<open>null\<close>; then the message is the
  body's \<open>message\<close>, or \<open>HTTP <status>\<close> when the body is not JSON.  In every other failing case (the
  request did not get through, or the body of a 2xx response is not JSON) the status code is 0 and the
  response names a \<open>NetworkError\<close>.\<close>

theorem perform_error_status:
  assumes "perform fetch base call = Inl e"
  shows "(\<exists>r. call_outcome fetch base call = Fetch_Responds r \<and>
            \<not> response_ok r \<and> err_statusCode e = resp_status r \<and> err_response e = error_body r \<and>
            (case resp_json r of
               Inl _ \<Rightarrow> err_message e = ''HTTP '' @ nat_to_string (resp_status r)
             | Inr body \<Rightarrow> body \<noteq> JNull \<and> err_message e = error_message body)) \<or>
         (err_statusCode e = 0 \<and> json_get (err_response e) ''error'' = Some (JStr ''NetworkError''))"
proof (cases "call_outcome fetch base call")
  case (Fetch_Rejects x)
  then show ?thesis using assms by (auto simp: perform_reject network_error_def)
next
  case (Fetch_Responds r)
  show ?thesis
  proof (cases "response_ok r \<or> error_body r = JNull")
    case True
    then show ?thesis
      using assms
      by (auto simp: perform_respond [OF Fetch_Responds] network_error_def
          split: if_splits sum.splits)
  next
    case False
    then have e: "e = \<lparr>err_message = error_message (error_body r), err_statusCode = resp_status r,
        err_response = error_body r\<rparr>"
      using assms by (simp add: perform_respond [OF Fetch_Responds])
    show ?thesis
    proof (cases "resp_json r")
      case (Inl x)
      then show ?thesis using False Fetch_Responds e error_body_fallback_message by auto
    next
      case (Inr body)
      then show ?thesis using False Fetch_Responds e by (auto simp: error_body_def)
    qed
  qed
qed

definition sample_fetch :: fetch_fun where
  "sample_fetch url cfg =
     (if url = ''/api/v1/rules'' \<and> ri_credentials cfg = Some ''include''
      then Fetch_Responds \<lparr>resp_status = 403, resp_statusText = ''Forbidden'',
             resp_json = Inr (JObj [(''error'', JStr ''forbidden'')])\<rparr>
      else Fetch_Rejects (Js_Error ''Failed to fetch''))"

theorem perform_error_status_witness:
  "\<exists>e. perform sample_fetch [] rules_list = Inl e \<and> err_statusCode e = 403 \<and>
     err_message e = ''forbidden''"
proof -
  have "perform sample_fetch [] rules_list = Inl \<lparr>err_message = ''forbidden'', err_statusCode = 403,
      err_response = JObj [(''error'', JStr ''forbidden'')]\<rparr>"
    by code_simp
  then show ?thesis using perform_error_status [of sample_fetch "[]" rules_list] by auto
qed

section \<open>Query strings\<close>

lemma utf8_int_to_string [simp]: "utf8 (int_to_string i) = int_to_string i"
  by (rule utf8_ascii) (use int_to_string_chars in \<open>fastforce simp: is_digit_def\<close>)

lemma utf8_access_action_str [simp]: "utf8 (access_action_str a) = access_action_str a"
  by (cases a) (simp_all add: utf8_def utf8_char_def)

lemma access_action_str_ne [simp]: "access_action_str a \<noteq> []"
  by (cases a) simp_all

lemma params_toString_ne: "ps \<noteq> [] \<Longrightarrow> params_toString ps \<noteq> []"
proof -
  assume "ps \<noteq> []"
  then obtain k v qs where "ps = (k, v) # qs" by (cases ps) auto
  then show ?thesis by (cases qs) (auto simp: params_toString_def)
qed

lemma logs_query_read:
  "parse_query (target_query (fst (logs_query ps))) =
     Some (map (\<lambda>(k, v). (utf8 k, utf8 v)) (log_search_params ps))"
proof (cases "params_toString (log_search_params ps) = []")
  case True
  then have "log_search_params ps = []" using params_toString_ne by blast
  then show ?thesis by (simp add: logs_query_def params_toString_def target_query_def parse_query_def)
next
  case False
  have "plain_path ''/api/v1/logs''" by (simp add: plain_path_def)
  moreover have "CHR ''#'' \<notin> set (params_toString (log_search_params ps))"
    using params_toString_chars by blast
  ultimately have "target_query (''/api/v1/logs'' @ CHR ''?'' # params_toString (log_search_params ps)) =
      params_toString (log_search_params ps)"
    by (rule target_query_query)
  then show ?thesis using False parse_query_params by (simp add: logs_query_def Let_def)
qed

text \<open>What is sent of an optional argument.\<close>

definition sent_num :: "int option \<Rightarrow> string option" where
  "sent_num v = (case v of None \<Rightarrow> None | Some n \<Rightarrow> if n = 0 then None else Some (int_to_string n))"

definition sent_str :: "string option \<Rightarrow> string option" where
  "sent_str v = (case v of None \<Rightarrow> None | Some s \<Rightarrow> if s = [] then None else Some (utf8 s))"

lemma get_append_num:
  "map_of (map (\<lambda>(k, v). (utf8 k, utf8 v)) (append_num k v) @ r) x =
     (if x = utf8 k \<and> sent_num v \<noteq> None then sent_num v else map_of r x)"
  by (simp add: append_num_def sent_num_def split: option.splits)

lemma get_append_str:
  "map_of (map (\<lambda>(k, v). (utf8 k, utf8 v)) (append_str k v) @ r) x =
     (if x = utf8 k \<and> sent_str v \<noteq> None then sent_str v else map_of r x)"
  by (simp add: append_str_def sent_str_def split: option.splits)

lemma utf8_literal: "list_all (\<lambda>c. (of_char c :: nat) < 128) s \<Longrightarrow> utf8 s = s"
  by (rule utf8_ascii) (simp add: list_all_iff)

text \<open>C15: the server reads from the query string of \<open>logs.query\<close> the parameters the page gave: each
  text parameter that is not empty arrives unchanged (as its UTF-8 bytes), each number that is not zero
  as its decimal numeral, the action as its name, and nothing else is sent.  In particular no value of one
  parameter, whatever characters it has, can set another.\<close>

theorem logs_query_roundtrip:
  "\<exists>received. parse_query (target_query (fst (logs_query (Some p)))) = Some received \<and>
     obj_get received ''limit'' = sent_num (lq_limit p) \<and>
     obj_get received ''offset'' = sent_num (lq_offset p) \<and>
     obj_get received ''action'' = map_option access_action_str (lq_action p) \<and>
     obj_get received ''app_id'' = sent_str (lq_app_id p) \<and>
     obj_get received ''q'' = sent_str (lq_q p) \<and>
     obj_get received ''days'' = sent_num (lq_days p) \<and>
     obj_get received ''reason_like'' = sent_str (lq_reason_like p) \<and>
     obj_get received ''trace_like'' = sent_str (lq_trace_like p)"
proof -
  define received where
    "received = map (\<lambda>(k, v). (utf8 k, utf8 v)) (log_search_params (Some p)) @ []"
  have act: "sent_str (map_option access_action_str a) = map_option access_action_str a" for a
    by (simp add: sent_str_def split: option.splits)
  have get: "obj_get received x =
    (if x = ''limit'' \<and> sent_num (lq_limit p) \<noteq> None then sent_num (lq_limit p)
     else if x = ''offset'' \<and> sent_num (lq_offset p) \<noteq> None then sent_num (lq_offset p)
     else if x = ''action'' \<and> map_option access_action_str (lq_action p) \<noteq> None
          then map_option access_action_str (lq_action p)
     else if x = ''app_id'' \<and> sent_str (lq_app_id p) \<noteq> None then sent_str (lq_app_id p)
     else if x = ''q'' \<and> sent_str (lq_q p) \<noteq> None then sent_str (lq_q p)
     else if x = ''days'' \<and> sent_num (lq_days p) \<noteq> None then sent_num (lq_days p)
     else if x = ''reason_like'' \<and> sent_str (lq_reason_like p) \<noteq> None then sent_str (lq_reason_like p)
     else if x = ''trace_like'' \<and> sent_str (lq_trace_like p) \<noteq> None then sent_str (lq_trace_like p)
     else None)" for x
    unfolding received_def log_search_params_def option.case map_append append_assoc
      get_append_num get_append_str act
    by (simp add: utf8_literal)
  show ?thesis
    by (intro exI [of _ received] conjI) (simp_all add: logs_query_read received_def [simplified] get [unfolded received_def, simplified])
qed

lemma range_query_read:
  assumes "plain_path p" and "\<forall>c \<in> set rng. is_alnum c" and "a \<noteq> []"
  shows "parse_query (target_query (p @ range_query rng (Some a))) =
      Some [(''range'', rng), (''app_id'', utf8 a)]"
proof -
  let ?q = "''range='' @ rng @ ''&app_id='' @ encodeURIComponent a"
  have amp: "CHR ''&'' \<notin> set rng" "CHR ''%'' \<notin> set rng" "CHR '';'' \<notin> set rng" "CHR ''+'' \<notin> set rng"
    "CHR ''#'' \<notin> set rng" using assms(2) by (auto simp: is_alnum_def Let_def)
  have enc: "CHR ''&'' \<notin> set (encodeURIComponent a)" "CHR '';'' \<notin> set (encodeURIComponent a)"
    "CHR ''#'' \<notin> set (encodeURIComponent a)"
    using encodeURIComponent_chars by (auto simp: delimiters_def)
  have un: "unescape True rng = Some rng" using amp(2,4) by (induction rng) auto
  have sp: "split_on (CHR ''&'') ?q = [''range='' @ rng, ''app_id='' @ encodeURIComponent a]"
    using amp(1) enc(1) split_on_append_sep [of "CHR ''&''" "''range='' @ rng" "''app_id='' @ encodeURIComponent a"]
      split_on_single [of "CHR ''&''" "''app_id='' @ encodeURIComponent a"]
    by simp
  have cut: "cut_eq (''range='' @ rng) = (''range'', rng)"
    "cut_eq (''app_id='' @ encodeURIComponent a) = (''app_id'', encodeURIComponent a)"
    by (simp_all add: cut_eq_def)
  have "parse_pieces [''range='' @ rng, ''app_id='' @ encodeURIComponent a] =
      Some [(''range'', rng), (''app_id'', utf8 a)]"
    unfolding parse_pieces.simps cut fst_conv snd_conv un unescape_encodeURIComponent
    using amp(3) enc(2) by simp
  moreover have "target_query (p @ CHR ''?'' # ?q) = ?q"
    by (rule target_query_query) (use amp(5) enc(3) assms(1) in auto)
  ultimately show ?thesis
    using sp assms(3) by (simp add: range_query_def parse_query_def)
qed

text \<open>The six analytics calls with a range and an application send both so that the server reads
  exactly them, for an application identifier of any characters.\<close>

theorem range_query_roundtrip:
  assumes "call \<in> {analytics_getTopThreats, analytics_getInsights, analytics_getThreatIPs,
      analytics_getWAFRuleIntel, analytics_getThreatSummary, analytics_getCustomRuleIntel}"
    and "\<forall>c \<in> set rng. is_alnum c" and "a \<noteq> []"
  shows "parse_query (target_query (fst (call rng (Some a)))) = Some [(''range'', rng), (''app_id'', utf8 a)]"
proof -
  obtain p where "plain_path p" and "fst (call rng (Some a)) = p @ range_query rng (Some a)"
    using assms(1)
    by (elim insertE emptyE; simp add: analytics_getTopThreats_def analytics_getInsights_def
        analytics_getThreatIPs_def analytics_getWAFRuleIntel_def analytics_getThreatSummary_def
        analytics_getCustomRuleIntel_def; force simp: plain_path_def)
  then show ?thesis using range_query_read [OF _ assms(2,3)] by simp
qed

theorem range_query_roundtrip_witness:
  "parse_query (target_query (fst (analytics_getInsights ''7d'' (Some ''a&range=30d'')))) =
     Some [(''range'', ''7d''), (''app_id'', ''a&range=30d'')]"
  using range_query_roundtrip [of analytics_getInsights "''7d''" "''a&range=30d''"]
  by (simp add: is_alnum_def utf8_def utf8_char_def)

end
