(* ===== verification/Auth.thy ===== *)
theory Auth
  imports Api_Client
begin

text \<open>
  Who may see what: the session of \<open>src/frontend/src/contexts/AuthContext.tsx\<close> (\<open>checkSetup\<close>,
  \<open>checkAuth\<close>, \<open>login\<close>, \<open>logout\<close>), the guard \<open>src/frontend/src/components/auth/ProtectedRoute.tsx\<close>, the
  choice of screen and the route table of \<open>src/frontend/src/App.tsx\<close>, and the two forms that change the session,
  \<open>src/frontend/src/pages/auth/Login.tsx\<close> and \<open>Setup.tsx\<close>.  The theme and demo contexts are modelled with
  them.  \<open>fetch\<close> is an argument, as in \<open>Api_Client\<close>.

  The session as the user drives it is a step relation: the check at start and after set-up, a login from the login
  screen, a logout from a screen with the sidebar.  The invariants are proved by induction on it.
\<close>

section \<open>The session\<close>

text \<open>\<open>user\<close> is the JSON value the server sent, \<open>JNull\<close> when there is none (also for \<open>undefined\<close>).\<close>

record auth_state =
  au_user       :: json
  au_loading    :: bool
  au_needsSetup :: bool

definition auth_initial :: auth_state where
  "auth_initial = \<lparr>au_user = JNull, au_loading = True, au_needsSetup = False\<rparr>"

definition auth_get :: request_init where
  "auth_get = no_options\<lparr>ri_credentials := Some ''include''\<rparr>"

definition auth_post :: "(string \<times> json) list \<Rightarrow> request_init" where
  "auth_post body = \<lparr>ri_method = Some POST, ri_body = Some (JObj body),
     ri_headers = Some [(''Content-Type'', ''application/json'')], ri_credentials = Some ''include''\<rparr>"

text \<open>\<open>v.k\<close>: reading a member of \<open>null\<close> throws (\<open>None\<close>), a missing member is \<open>undefined\<close>.\<close>

definition member_of :: "json \<Rightarrow> string \<Rightarrow> json option" where
  "member_of v k =
     (if v = JNull then None else Some (case json_get v k of None \<Rightarrow> JNull | Some x \<Rightarrow> x))"

definition checkSetup :: "fetch_fun \<Rightarrow> string \<Rightarrow> auth_state \<Rightarrow> auth_state \<times> bool" where
  "checkSetup fetch apiBase st =
     (case fetch (apiBase @ ''/api/v1/auth/setup'') auth_get of
        Fetch_Rejects _ \<Rightarrow> (st, False)
      | Fetch_Responds response \<Rightarrow>
          if \<not> response_ok response then (st, False)
          else (case resp_json response of
                  Inl _ \<Rightarrow> (st, False)
                | Inr data \<Rightarrow>
                    (case member_of data ''needs_setup'' of
                       None \<Rightarrow> (st, False)
                     | Some v \<Rightarrow> (st\<lparr>au_needsSetup := truthy v\<rparr>, truthy v))))"

definition checkAuth :: "fetch_fun \<Rightarrow> string \<Rightarrow> auth_state \<Rightarrow> auth_state" where
  "checkAuth fetch apiBase st =
     (let (st, setupNeeded) = checkSetup fetch apiBase st in
      if setupNeeded then st\<lparr>au_loading := False\<rparr>
      else
        (let st = (case fetch (apiBase @ ''/api/v1/auth/me'') auth_get of
               Fetch_Rejects _ \<Rightarrow> st\<lparr>au_user := JNull\<rparr>
             | Fetch_Responds response \<Rightarrow>
                 if response_ok response then
                   (case resp_json response of
                      Inl _ \<Rightarrow> st\<lparr>au_user := JNull\<rparr>
                    | Inr userData \<Rightarrow> st\<lparr>au_user := userData\<rparr>)
                 else st\<lparr>au_user := JNull\<rparr>)
         in st\<lparr>au_loading := False\<rparr>))"

text \<open>A login resolves with the new state and the path navigated to, or throws the message of an error; the state
  is then unchanged.\<close>

definition null_error_text :: string where
  "null_error_text = ''Cannot read properties of null''"

definition error_string :: "js_error \<Rightarrow> string" where
  "error_string e = (case e of Js_Error m \<Rightarrow> m | Js_Thrown_Value \<Rightarrow> [])"

definition login :: "fetch_fun \<Rightarrow> string \<Rightarrow> string \<Rightarrow> string \<Rightarrow> auth_state \<Rightarrow> string + (auth_state \<times> string)" where
  "login fetch apiBase username password st =
     (case fetch (apiBase @ ''/api/v1/auth/login'')
             (auth_post [(''username'', JStr username), (''password'', JStr password)]) of
        Fetch_Rejects e \<Rightarrow> Inl (error_string e)
      | Fetch_Responds response \<Rightarrow>
          (case resp_json response of
             Inl e \<Rightarrow> Inl (error_string e)
           | Inr data \<Rightarrow>
               if \<not> response_ok response then
                 (case member_of data ''error'' of
                    None \<Rightarrow> Inl null_error_text
                  | Some v \<Rightarrow> Inl (if truthy v then js_String v else ''Login failed''))
               else
                 (case member_of data ''user'' of
                    None \<Rightarrow> Inl null_error_text
                  | Some u \<Rightarrow> Inr (st\<lparr>au_user := u\<rparr>, ''/''))))"

definition logout :: "auth_state \<Rightarrow> auth_state \<times> string" where
  "logout st = (st\<lparr>au_user := JNull\<rparr>, ''/login'')"

section \<open>Screens\<close>

datatype screen =
    Setup_Screen
  | Login_Screen
  | Spinner
  | Redirect string
  | Page string
  | No_Match

text \<open>\<open>ProtectedRoute\<close> around a page.\<close>

definition ProtectedRoute :: "auth_state \<Rightarrow> string \<Rightarrow> screen" where
  "ProtectedRoute st page =
     (if au_loading st then Spinner
      else if \<not> truthy (au_user st) then Redirect ''/login''
      else Page page)"

text \<open>The route table: a path is one of the fixed ones or has a last segment for a parameter.\<close>

datatype route_element = Protected string | Redirect_To string

definition fixed_routes :: "(string \<times> route_element) list" where
  "fixed_routes = [
     (''/'', Protected ''Dashboard''),
     (''/applications'', Protected ''Applications''),
     (''/applications/create'', Protected ''AppForm''),
     (''/rules-engine'', Redirect_To ''/applications''),
     (''/rules-engine/create'', Redirect_To ''/applications''),
     (''/rate-limiter'', Protected ''RateLimiter''),
     (''/bot-detector'', Protected ''BotDetector''),
     (''/waf-engine'', Protected ''WAFEngine''),
     (''/ssl-manager'', Protected ''SSLManager''),
     (''/scoring-engine'', Protected ''ScoringEngine''),
     (''/ip-reputation'', Protected ''IPReputation''),
     (''/anomaly-behavior'', Protected ''AnomalyBehavior''),
     (''/security/challenged'', Protected ''Challenged''),
     (''/logs'', Protected ''Logs''),
     (''/threat-intelligence'', Protected ''ThreatIntelligence''),
     (''/fingerprints'', Protected ''Fingerprints'')]"

definition one_segment :: "string \<Rightarrow> bool" where
  "one_segment s \<longleftrightarrow> s \<noteq> [] \<and> CHR ''/'' \<notin> set s"

definition route_for :: "string \<Rightarrow> route_element option" where
  "route_for path =
     (case map_of fixed_routes path of
        Some e \<Rightarrow> Some e
      | None \<Rightarrow>
          if startsWith path ''/applications/edit/'' \<and> one_segment (drop (length ''/applications/edit/'') path)
          then Some (Protected ''AppForm'')
          else if startsWith path ''/rules-engine/edit/'' \<and> one_segment (drop (length ''/rules-engine/edit/'') path)
          then Some (Redirect_To ''/applications'')
          else None)"

definition AppContent :: "auth_state \<Rightarrow> string \<Rightarrow> screen" where
  "AppContent st path =
     (if au_needsSetup st then Setup_Screen
      else if path = ''/login'' then Login_Screen
      else (case route_for path of
              None \<Rightarrow> No_Match
            | Some (Protected page) \<Rightarrow> ProtectedRoute st page
            | Some (Redirect_To p) \<Rightarrow> Redirect p))"

section \<open>The forms\<close>

record login_form =
  lf_username :: string
  lf_password :: string
  lf_error    :: string
  lf_loading  :: bool

definition login_handleSubmit ::
  "fetch_fun \<Rightarrow> string \<Rightarrow> login_form \<Rightarrow> auth_state \<Rightarrow> login_form \<times> auth_state \<times> string option" where
  "login_handleSubmit fetch apiBase form st =
     (case login fetch apiBase (lf_username form) (lf_password form) st of
        Inr (st', path) \<Rightarrow> (form\<lparr>lf_error := [], lf_loading := False\<rparr>, st', Some path)
      | Inl m \<Rightarrow>
          (form\<lparr>lf_error := (if m = [] then ''Login failed. Please check your credentials.'' else m),
                lf_loading := False\<rparr>, st, None))"

record setup_form =
  sf_username        :: string
  sf_email           :: string
  sf_password        :: string
  sf_confirmPassword :: string
  sf_error           :: string
  sf_loading         :: bool
  sf_success         :: bool

text \<open>The result says whether a request was sent.\<close>

definition setup_handleSubmit :: "fetch_fun \<Rightarrow> string \<Rightarrow> setup_form \<Rightarrow> setup_form \<times> bool" where
  "setup_handleSubmit fetch apiBase form =
     (let form = form\<lparr>sf_error := []\<rparr> in
      if sf_password form \<noteq> sf_confirmPassword form then
        (form\<lparr>sf_error := ''Passwords do not match''\<rparr>, False)
      else if length (sf_password form) < 8 then
        (form\<lparr>sf_error := ''Password must be at least 8 characters''\<rparr>, False)
      else
        (let failed = (\<lambda>m. form\<lparr>sf_error := (if m = [] then ''Setup failed'' else m), sf_loading := False\<rparr>) in
         (case fetch (apiBase @ ''/api/v1/auth/setup'')
                 (auth_post [(''username'', JStr (sf_username form)), (''password'', JStr (sf_password form)),
                    (''email'', JStr (sf_email form))]) of
            Fetch_Rejects e \<Rightarrow> failed (error_string e)
          | Fetch_Responds response \<Rightarrow>
              if response_ok response then form\<lparr>sf_success := True, sf_loading := False\<rparr>
              else (case resp_json response of
                      Inl e \<Rightarrow> failed (error_string e)
                    | Inr data \<Rightarrow>
                        (case member_of data ''error'' of
                           None \<Rightarrow> failed null_error_text
                         | Some v \<Rightarrow> failed (if truthy v then js_String v else ''Setup failed''))),
          True)))"

section \<open>Theme and demo contexts\<close>

datatype theme = Light | Dark

fun theme_str :: "theme \<Rightarrow> string" where
  "theme_str Light = ''light''"
| "theme_str Dark = ''dark''"

text \<open>The local storage: \<open>None\<close> when access throws, else its contents.\<close>

type_synonym storage = "(string \<Rightarrow> string option) option"

definition THEME_STORAGE_KEY :: string where
  "THEME_STORAGE_KEY = ''vibeswaf-theme''"

definition getStoredTheme :: "storage \<Rightarrow> theme" where
  "getStoredTheme s =
     (case s of
        None \<Rightarrow> Dark
      | Some m \<Rightarrow> if m THEME_STORAGE_KEY = Some ''light'' then Light else Dark)"

definition setStoredTheme :: "storage \<Rightarrow> theme \<Rightarrow> storage" where
  "setStoredTheme s t = map_option (\<lambda>m. m(THEME_STORAGE_KEY \<mapsto> theme_str t)) s"

definition toggleTheme :: "storage \<times> theme \<Rightarrow> storage \<times> theme" where
  "toggleTheme = (\<lambda>(s, t). let newTheme = (if t = Light then Dark else Light)
     in (setStoredTheme s newTheme, newTheme))"

record demo_state =
  demo_isDemoMode :: bool
  demo_user       :: string
  demo_pass       :: string
  demo_serverIP   :: string

definition demo_initial :: demo_state where
  "demo_initial = \<lparr>demo_isDemoMode = False, demo_user = [], demo_pass = [], demo_serverIP = []\<rparr>"

definition DemoProvider :: "(api_error + health_response) \<Rightarrow> demo_state \<Rightarrow> demo_state" where
  "DemoProvider health st =
     (case health of
        Inl _ \<Rightarrow> st
      | Inr res \<Rightarrow>
          (let st = st\<lparr>demo_isDemoMode := (hr_demo res = Some True)\<rparr>;
               or_empty = (\<lambda>v. case v of None \<Rightarrow> [] | Some s \<Rightarrow> s)
           in if hr_demo res = Some True
              then st\<lparr>demo_user := or_empty (hr_demo_user res), demo_pass := or_empty (hr_demo_pass res),
                      demo_serverIP := or_empty (hr_server_ip res)\<rparr>
              else st))"

section \<open>The session as the user drives it\<close>

text \<open>A state of the running dashboard: the session and the current path.  The check runs once when the provider is
  mounted (the session is then loading) and again when the set-up screen completes; a login is submitted from the
  login screen; the logout button is in the sidebar, which is on every screen but the set-up and the login screen;
  navigation changes the path only, and so does a redirect.\<close>

inductive session_step :: "fetch_fun set \<Rightarrow> string \<Rightarrow> auth_state \<times> string \<Rightarrow> auth_state \<times> string \<Rightarrow> bool"
  for W :: "fetch_fun set" and base :: string where
  step_mount: "fetch \<in> W \<Longrightarrow> au_loading st \<Longrightarrow> session_step W base (st, path) (checkAuth fetch base st, path)"
| step_setup: "fetch \<in> W \<Longrightarrow> AppContent st path = Setup_Screen \<Longrightarrow>
    session_step W base (st, path) (checkAuth fetch base st, path)"
| step_login: "fetch \<in> W \<Longrightarrow> AppContent st path = Login_Screen \<Longrightarrow> login fetch base u p st = Inr (st', path') \<Longrightarrow>
    session_step W base (st, path) (st', path')"
| step_login_fails: "fetch \<in> W \<Longrightarrow> AppContent st path = Login_Screen \<Longrightarrow> login fetch base u p st = Inl m \<Longrightarrow>
    session_step W base (st, path) (st, path)"
| step_logout: "AppContent st path \<noteq> Setup_Screen \<Longrightarrow> AppContent st path \<noteq> Login_Screen \<Longrightarrow>
    session_step W base (st, path) (logout st)"
| step_navigate: "session_step W base (st, path) (st, path')"

inductive session_steps :: "fetch_fun set \<Rightarrow> string \<Rightarrow> auth_state \<times> string \<Rightarrow> auth_state \<times> string \<Rightarrow> bool"
  for W :: "fetch_fun set" and base :: string where
  steps_refl: "session_steps W base s s"
| steps_step: "session_steps W base s s' \<Longrightarrow> session_step W base s' s'' \<Longrightarrow> session_steps W base s s''"

inductive_cases session_stepE [elim]: "session_step W base (st, path) s'"

text \<open>When the server grants a session: \<open>/auth/me\<close> answers with a user, or the login does.\<close>

definition me_grants :: "fetch_fun \<Rightarrow> string \<Rightarrow> bool" where
  "me_grants fetch base =
     (case fetch (base @ ''/api/v1/auth/me'') auth_get of
        Fetch_Rejects _ \<Rightarrow> False
      | Fetch_Responds r \<Rightarrow> response_ok r \<and> (case resp_json r of Inl _ \<Rightarrow> False | Inr u \<Rightarrow> truthy u))"

definition login_grants :: "fetch_fun \<Rightarrow> string \<Rightarrow> string \<Rightarrow> string \<Rightarrow> bool" where
  "login_grants fetch base u p =
     (case fetch (base @ ''/api/v1/auth/login'') (auth_post [(''username'', JStr u), (''password'', JStr p)]) of
        Fetch_Rejects _ \<Rightarrow> False
      | Fetch_Responds r \<Rightarrow> response_ok r \<and>
          (case resp_json r of
             Inl _ \<Rightarrow> False
           | Inr data \<Rightarrow> (case json_get data ''user'' of None \<Rightarrow> False | Some v \<Rightarrow> truthy v)))"

text \<open>A set of server behaviours that grants nothing.\<close>

definition no_grants :: "fetch_fun set \<Rightarrow> string \<Rightarrow> bool" where
  "no_grants W base \<longleftrightarrow> (\<forall>fetch \<in> W. \<not> me_grants fetch base \<and> (\<forall>u p. \<not> login_grants fetch base u p))"

lemma checkSetup_user [simp]: "au_user (fst (checkSetup fetch base st)) = au_user st"
  by (simp add: checkSetup_def split: fetch_outcome.splits sum.splits option.splits)

lemma checkSetup_result:
  "snd (checkSetup fetch base st) \<Longrightarrow> au_needsSetup (fst (checkSetup fetch base st))"
  by (auto simp: checkSetup_def split: fetch_outcome.splits sum.splits option.splits if_splits)

lemma checkAuth_loading [simp]: "\<not> au_loading (checkAuth fetch base st)"
  by (simp add: checkAuth_def Let_def split: prod.splits)

lemma checkAuth_user:
  "truthy (au_user (checkAuth fetch base st)) \<Longrightarrow> truthy (au_user st) \<or> me_grants fetch base"
  using checkSetup_user [of fetch base st]
  by (auto simp: checkAuth_def me_grants_def Let_def simp del: checkSetup_user
      split: prod.splits fetch_outcome.splits sum.splits if_splits)

lemma login_result:
  "login fetch base u p st = Inr (st', path) \<Longrightarrow>
     path = ''/'' \<and> au_needsSetup st' = au_needsSetup st \<and> au_loading st' = au_loading st \<and>
     truthy (au_user st') = login_grants fetch base u p"
  by (auto simp: login_def login_grants_def member_of_def
      split: fetch_outcome.splits sum.splits option.splits if_splits)

lemma AppContent_setup_iff: "AppContent st path = Setup_Screen \<longleftrightarrow> au_needsSetup st"
  by (auto simp: AppContent_def ProtectedRoute_def split: option.splits route_element.splits)


lemma login_succeeds: "login_grants fetch base u p \<Longrightarrow> \<exists>st' path'. login fetch base u p st = Inr (st', path')"
proof -
  have "json_get JNull k = None" for k by simp
  then show "login_grants fetch base u p \<Longrightarrow> ?thesis"
    by (auto simp: login_def login_grants_def member_of_def
        split: fetch_outcome.splits sum.splits option.splits)
qed

lemma page_needs_user: "AppContent st path = Page q \<Longrightarrow> truthy (au_user st)"
  by (auto simp: AppContent_def ProtectedRoute_def split: option.splits route_element.splits if_splits)

lemma step_without_grant:
  assumes "session_step W base s s'" and "no_grants W base" and "\<not> truthy (au_user (fst s))"
  shows "\<not> truthy (au_user (fst s'))"
  using assms
proof cases
  case (step_login fetch st path u p st' path')
  then show ?thesis using assms(2) login_result [of fetch base u p st st' path'] by (auto simp: no_grants_def)
qed (auto simp: no_grants_def logout_def dest: checkAuth_user)

lemma steps_without_grant:
  "session_steps W base s s' \<Longrightarrow> no_grants W base \<Longrightarrow> \<not> truthy (au_user (fst s)) \<Longrightarrow> \<not> truthy (au_user (fst s'))"
  by (induction rule: session_steps.induct) (auto dest: step_without_grant)

text \<open>C19: no page of the dashboard is ever shown without the server's consent: from the start, and likewise from
  any logout on, no sequence of checks, logins, logouts and navigations shows a page on any path as long as the
  server answers neither \<open>/auth/me\<close> nor a login with a user.\<close>

theorem pages_need_server_grant:
  assumes "no_grants W base" and "s0 = (auth_initial, path0) \<or> s0 = logout st0"
    and "session_steps W base s0 (st, path)"
  shows "AppContent st path' \<noteq> Page q"
proof -
  have "\<not> truthy (au_user (fst s0))" using assms(2) by (auto simp: auth_initial_def logout_def)
  then have "\<not> truthy (au_user st)" using steps_without_grant [OF assms(3,1)] by simp
  then show ?thesis using page_needs_user by blast
qed

definition refusing :: fetch_fun where
  "refusing url cfg = Fetch_Responds \<lparr>resp_status = 401, resp_statusText = ''Unauthorized'',
     resp_json = Inr (JObj [(''error'', JStr ''unauthorized'')])\<rparr>"

theorem pages_need_server_grant_witness:
  "session_steps {refusing} [] (auth_initial, ''/logs'') (checkAuth refusing [] auth_initial, ''/logs'') \<and>
   AppContent (checkAuth refusing [] auth_initial) ''/logs'' \<noteq> Page ''Logs''"
proof -
  have g: "no_grants {refusing} []"
    by (simp add: no_grants_def me_grants_def login_grants_def refusing_def response_ok_def)
  have s: "session_steps {refusing} [] (auth_initial, ''/logs'') (checkAuth refusing [] auth_initial, ''/logs'')"
    by (rule steps_step [OF steps_refl], rule step_mount) (simp_all add: auth_initial_def)
  show ?thesis using s pages_need_server_grant [OF g _ s] by blast
qed

text \<open>A granted session works.  When the set-up check says no and \<open>/auth/me\<close> answers with a user, or a login
  succeeds in a session that is neither loading nor in set-up, then every protected route shows its page and the path
  after the login shows the dashboard.\<close>

theorem granted_session_shows_pages:
  "(me_grants fetch base \<and> \<not> au_needsSetup (checkAuth fetch base st) \<longrightarrow>
      route_for path = Some (Protected page) \<longrightarrow> path \<noteq> ''/login'' \<longrightarrow>
      AppContent (checkAuth fetch base st) path = Page page) \<and>
   (login_grants fetch base u p \<and> \<not> au_loading st \<and> \<not> au_needsSetup st \<longrightarrow>
      (\<exists>st'. login fetch base u p st = Inr (st', ''/'') \<and> AppContent st' ''/'' = Page ''Dashboard''))"
proof (intro conjI impI)
  assume g: "me_grants fetch base \<and> \<not> au_needsSetup (checkAuth fetch base st)"
    and r: "route_for path = Some (Protected page)" "path \<noteq> ''/login''"
  have "\<not> snd (checkSetup fetch base st)"
  proof
    assume sn: "snd (checkSetup fetch base st)"
    then have "au_needsSetup (checkAuth fetch base st)"
      using checkSetup_result [OF sn] by (cases "checkSetup fetch base st") (auto simp: checkAuth_def Let_def)
    then show False using g by simp
  qed
  then have "truthy (au_user (checkAuth fetch base st))"
    using g by (auto simp: checkAuth_def me_grants_def Let_def split: prod.splits fetch_outcome.splits sum.splits)
  then show "AppContent (checkAuth fetch base st) path = Page page"
    using g r by (simp add: AppContent_def ProtectedRoute_def)
next
  assume g: "login_grants fetch base u p \<and> \<not> au_loading st \<and> \<not> au_needsSetup st"
  then obtain st' path' where l: "login fetch base u p st = Inr (st', path')"
    using login_succeeds by blast
  note res = login_result [OF l]
  have "route_for ''/'' = Some (Protected ''Dashboard'')" by (simp add: route_for_def fixed_routes_def)
  then have "AppContent st' ''/'' = Page ''Dashboard''"
    using res g by (simp add: AppContent_def ProtectedRoute_def)
  then show "\<exists>st'. login fetch base u p st = Inr (st', ''/'') \<and> AppContent st' ''/'' = Page ''Dashboard''"
    using l res by blast
qed

definition granting :: fetch_fun where
  "granting url cfg = Fetch_Responds \<lparr>resp_status = 200, resp_statusText = ''OK'',
     resp_json = Inr (JObj [(''username'', JStr ''admin''), (''needs_setup'', JBool False)])\<rparr>"

theorem granted_session_shows_pages_witness:
  "AppContent (checkAuth granting [] auth_initial) ''/logs'' = Page ''Logs''"
proof -
  have "me_grants granting []" by code_simp
  moreover have "\<not> au_needsSetup (checkAuth granting [] auth_initial)" by code_simp
  moreover have "route_for ''/logs'' = Some (Protected ''Logs'')" by code_simp
  ultimately show ?thesis
    using granted_session_shows_pages [of granting "[]" auth_initial "''/logs''" "''Logs''"] by simp
qed

section \<open>Set-up and theme\<close>

text \<open>The set-up form sends a request only for a password of at least eight characters that was typed twice;
  whatever comes back, the button is free again, and the form reports either success or a message.\<close>

theorem setup_form_guard:
  "case setup_handleSubmit fetch base form of (form', sent) \<Rightarrow>
     sent = (sf_password form = sf_confirmPassword form \<and> 8 \<le> length (sf_password form)) \<and>
     (sent \<longrightarrow> \<not> sf_loading form' \<and> (sf_error form' = [] \<longleftrightarrow>
        (\<exists>r. fetch (base @ ''/api/v1/auth/setup'') (auth_post [(''username'', JStr (sf_username form)),
           (''password'', JStr (sf_password form)), (''email'', JStr (sf_email form))]) = Fetch_Responds r \<and> response_ok r))) \<and>
     (\<not> sent \<longrightarrow> sf_error form' \<noteq> [])"
  by (auto simp: setup_handleSubmit_def Let_def null_error_text_def
      split: fetch_outcome.splits sum.splits option.splits if_splits)

theorem setup_form_guard_witness:
  "snd (setup_handleSubmit refusing [] \<lparr>sf_username = ''admin'', sf_email = ''a@b.c'', sf_password = ''longenough'',
     sf_confirmPassword = ''longenough'', sf_error = [], sf_loading = False, sf_success = False\<rparr>)"
  using setup_form_guard [where fetch = refusing and base = "[]" and form = "\<lparr>sf_username = ''admin'', sf_email = ''a@b.c'', sf_password = ''longenough'',
     sf_confirmPassword = ''longenough'', sf_error = [], sf_loading = False, sf_success = False\<rparr>"]
  by (auto split: prod.splits)

lemma getStoredTheme_set [simp]: "getStoredTheme (setStoredTheme (Some m) t) = t"
  by (cases t) (simp_all add: getStoredTheme_def setStoredTheme_def)

text \<open>The stored theme is the one shown, from the first toggle on, and two toggles give the first theme back.\<close>

lemma toggleTheme_persistent:
  assumes "toggleTheme (Some m, t) = (s', t')"
  shows "getStoredTheme s' = t' \<and> t' \<noteq> t \<and> snd (toggleTheme (s', t')) = t"
  using assms by (cases t) (auto simp: toggleTheme_def)

end
