(* ===== verification/Rule_Language.thy ===== *)
theory Rule_Language
  imports Js_Prelude
begin

text \<open>
  The rule language of the backend, \<open>internal/domain/rule/lexer.go\<close>, \<open>parser.go\<close> and
  \<open>types.go\<close>: what a rule expression typed or generated in the dashboard means, and which syntax
  tree the backend sends back with a stored rule.

  The lexer works on bytes; its byte classes are those of Go's \<open>unicode\<close> package on the first
  256 code points.  The scanning position is the length of the input consumed so far, and the
  lexer is a recursion on the rest of the input.  The parser is the recursive descent of the
  source on the list of remaining tokens; it takes fuel, one unit per call, and
  \<open>parse_fuel_enough\<close> shows that \<open>parse_fuel\<close> units always suffice, so \<open>Parse\<close> never
  reports \<open>Out_Of_Fuel\<close>.
\<close>

section \<open>Tokens and nodes\<close>

datatype token =
    TokenEOF
  | TokenIdentifier string
  | TokenString string
  | TokenNumber string
  | TokenOperator string
  | TokenLogical string
  | TokenLeftParen
  | TokenRightParen
  | TokenComma
  | TokenLeftBracket
  | TokenRightBracket

datatype rule_error =
    Unexpected_Character char nat
  | Unterminated_String nat
  | Expected_Close_Paren token
  | Expected_Field token
  | Expected_Operator token
  | Expected_Value token
  | Expected_List_Value token
  | Expected_Comma_Or_Bracket token
  | Unexpected_EOF_In_List
  | Out_Of_Fuel

text \<open>A node value is absent, a token text or a list of token texts.\<close>

datatype node_value = NoValue | TextValue string | ListValue "string list"

datatype node =
    Comparison string string node_value
  | Logical string node "node option"

section \<open>Lexer\<close>

definition go_letter :: "char \<Rightarrow> bool" where
  "go_letter c \<longleftrightarrow> (let n = (of_char c :: nat) in
     (65 \<le> n \<and> n \<le> 90) \<or> (97 \<le> n \<and> n \<le> 122) \<or> n = 170 \<or> n = 181 \<or> n = 186 \<or>
     (192 \<le> n \<and> n \<le> 214) \<or> (216 \<le> n \<and> n \<le> 246) \<or> (248 \<le> n \<and> n \<le> 255))"

definition go_space :: "char \<Rightarrow> bool" where
  "go_space c \<longleftrightarrow> (let n = (of_char c :: nat) in (9 \<le> n \<and> n \<le> 13) \<or> n = 32 \<or> n = 133 \<or> n = 160)"

definition word_char :: "char \<Rightarrow> bool" where
  "word_char c \<longleftrightarrow> go_letter c \<or> is_digit c \<or> c = CHR ''.'' \<or> c = CHR ''_''"

definition rule_operators :: "string list" where
  "rule_operators =
     [''eq'', ''neq'', ''in'', ''not_in'', ''contains'', ''not_contains'', ''prefix'', ''suffix'',
      ''regex'', ''not_regex'', ''gt'', ''lt'', ''gte'', ''lte'', ''exists'', ''not_exists'']"

definition isOperator :: "string \<Rightarrow> bool" where
  "isOperator word \<longleftrightarrow> word \<in> set rule_operators"

text \<open>\<open>readString\<close> after the opening quote: the raw text up to the closing quote, a backslash
  protecting the next byte, and the rest of the input.\<close>

fun readString :: "string \<Rightarrow> (string \<times> string) option" where
  "readString [] = None"
| "readString [c] = (if c = quote then Some ([], []) else None)"
| "readString (c # d # s) =
     (if c = quote then Some ([], d # s)
      else if c = CHR 0x5C then map_option (apfst (\<lambda>v. c # d # v)) (readString s)
      else map_option (apfst (Cons c)) (readString (d # s)))"

definition word_token :: "string \<Rightarrow> token" where
  "word_token word =
     (let up = toUpperCase word in
      if up = ''AND'' then TokenLogical ''AND''
      else if up = ''OR'' then TokenLogical ''OR''
      else if up = ''NOT'' then TokenLogical ''NOT''
      else if up = ''TRUE'' \<or> up = ''FALSE'' then TokenString (toLowerCase word)
      else if isOperator word then TokenOperator word
      else TokenIdentifier word)"

definition number_token :: "string \<Rightarrow> token" where
  "number_token value =
     (if value = ''1'' then TokenString ''true''
      else if value = ''0'' then TokenString ''false''
      else TokenNumber value)"

definition punctuation :: "char \<Rightarrow> token option" where
  "punctuation c =
     (if c = CHR ''('' then Some TokenLeftParen
      else if c = CHR '')'' then Some TokenRightParen
      else if c = CHR '','' then Some TokenComma
      else if c = CHR ''['' then Some TokenLeftBracket
      else if c = CHR '']'' then Some TokenRightBracket
      else None)"

text \<open>One token: the length of the input consumed is the difference in length.  \<open>pos\<close> is the
  position of the first byte.\<close>

definition next_token :: "nat \<Rightarrow> char \<Rightarrow> string \<Rightarrow> rule_error + token \<times> string" where
  "next_token pos ch rest =
     (case punctuation ch of
        Some t \<Rightarrow> Inr (t, rest)
      | None \<Rightarrow>
         if ch = quote then
           (case readString rest of
              None \<Rightarrow> Inl (Unterminated_String (Suc pos))
            | Some (value, rest') \<Rightarrow> Inr (TokenString value, rest'))
         else if go_letter ch \<or> ch = CHR ''.'' then
           Inr (word_token (takeWhile word_char (ch # rest)), dropWhile word_char (ch # rest))
         else if is_digit ch then
           Inr (number_token (takeWhile is_digit (ch # rest)), dropWhile is_digit (ch # rest))
         else Inl (Unexpected_Character ch pos))"

lemma readString_shorter: "readString s = Some (v, r) \<Longrightarrow> length r < length s"
proof (induction s arbitrary: v r rule: readString.induct)
  case (3 c d s)
  then show ?case by (force split: if_splits)
qed (auto split: if_splits)

lemma next_token_shorter: "next_token pos ch rest = Inr (t, r) \<Longrightarrow> length r < Suc (length rest)"
proof -
  assume "next_token pos ch rest = Inr (t, r)"
  then show ?thesis
    using length_dropWhile_le [of word_char rest] length_dropWhile_le [of is_digit rest]
    by (auto simp: next_token_def word_char_def split: option.splits if_splits dest!: readString_shorter)
qed

text \<open>\<open>Tokenize\<close>, with the position and the rest of the input.\<close>

function tokenize :: "nat \<Rightarrow> string \<Rightarrow> rule_error + token list" where
  "tokenize pos s =
     (case s of
        [] \<Rightarrow> Inr [TokenEOF]
      | ch # rest \<Rightarrow>
         if go_space ch then tokenize (Suc pos) rest
         else (case next_token pos ch rest of
             Inl e \<Rightarrow> Inl e
           | Inr (t, rest') \<Rightarrow>
              (case tokenize (pos + (length s - length rest')) rest' of
                 Inl e \<Rightarrow> Inl e
               | Inr ts \<Rightarrow> Inr (t # ts))))"
  by pat_completeness auto
termination
  by (relation "measure (\<lambda>(pos, s). length s)") (auto dest: next_token_shorter)

declare tokenize.simps [simp del]

definition Tokenize :: "string \<Rightarrow> rule_error + token list" where
  "Tokenize input = tokenize 0 input"

section \<open>Parser\<close>

definition current :: "token list \<Rightarrow> token" where
  "current ts = (case ts of [] \<Rightarrow> TokenEOF | t # _ \<Rightarrow> t)"

definition advance :: "token list \<Rightarrow> token list" where
  "advance ts = tl ts"

text \<open>The loop of \<open>parseList\<close>, after the opening bracket.\<close>

fun parse_values :: "token list \<Rightarrow> rule_error + string list \<times> token list" where
  "parse_values [] = Inl Unexpected_EOF_In_List"
| "parse_values (t # ts) =
     (case t of
        TokenRightBracket \<Rightarrow> Inr ([], ts)
      | TokenEOF \<Rightarrow> Inl Unexpected_EOF_In_List
      | _ \<Rightarrow>
        (case (case t of TokenString v \<Rightarrow> Some v | TokenNumber v \<Rightarrow> Some v | _ \<Rightarrow> None) of
           None \<Rightarrow> Inl (Expected_List_Value t)
         | Some v \<Rightarrow>
           (case ts of
              TokenComma # ts' \<Rightarrow>
                (case parse_values ts' of Inl e \<Rightarrow> Inl e | Inr (vs, r) \<Rightarrow> Inr (v # vs, r))
            | TokenRightBracket # ts' \<Rightarrow> Inr ([v], ts')
            | _ \<Rightarrow> Inl (Expected_Comma_Or_Bracket (current ts)))))"

definition parseList :: "token list \<Rightarrow> rule_error + string list \<times> token list" where
  "parseList ts = parse_values (advance ts)"

definition parse_single_value :: "string \<Rightarrow> string \<Rightarrow> token list \<Rightarrow> rule_error + node \<times> token list" where
  "parse_single_value field operator ts =
     (case current ts of
        TokenString v \<Rightarrow> Inr (Comparison field operator (TextValue v), advance ts)
      | TokenNumber v \<Rightarrow> Inr (Comparison field operator (TextValue v), advance ts)
      | t \<Rightarrow> Inl (Expected_Value t))"

definition parseCondition :: "token list \<Rightarrow> rule_error + node \<times> token list" where
  "parseCondition ts =
     (case current ts of
        TokenIdentifier field \<Rightarrow>
          (let ts1 = advance ts in
           case current ts1 of
             TokenOperator operator \<Rightarrow>
               (let ts2 = advance ts1 in
                if operator = ''exists'' \<or> operator = ''not_exists''
                then Inr (Comparison field operator NoValue, ts2)
                else if (operator = ''in'' \<or> operator = ''not_in'') \<and> current ts2 = TokenLeftBracket
                then (case parseList ts2 of
                    Inl e \<Rightarrow> Inl e
                  | Inr (vs, r) \<Rightarrow> Inr (Comparison field operator (ListValue vs), r))
                else parse_single_value field operator ts2)
           | t \<Rightarrow> Inl (Expected_Operator t))
      | t \<Rightarrow> Inl (Expected_Field t))"

text \<open>The mutually recursive descent.  The two loops are separate functions that carry the node
  built so far.\<close>

function (sequential) parseExpression :: "nat \<Rightarrow> token list \<Rightarrow> rule_error + node \<times> token list"
and or_loop :: "nat \<Rightarrow> node \<Rightarrow> token list \<Rightarrow> rule_error + node \<times> token list"
and parseTerm :: "nat \<Rightarrow> token list \<Rightarrow> rule_error + node \<times> token list"
and and_loop :: "nat \<Rightarrow> node \<Rightarrow> token list \<Rightarrow> rule_error + node \<times> token list"
and parseFactor :: "nat \<Rightarrow> token list \<Rightarrow> rule_error + node \<times> token list" where
  "parseExpression 0 ts = Inl Out_Of_Fuel"
| "parseExpression (Suc n) ts =
     (case parseTerm n ts of Inl e \<Rightarrow> Inl e | Inr (left, r) \<Rightarrow> or_loop n left r)"
| "or_loop 0 left ts = Inl Out_Of_Fuel"
| "or_loop (Suc n) left ts =
     (if current ts = TokenLogical ''OR'' then
        (case parseTerm n (advance ts) of
           Inl e \<Rightarrow> Inl e
         | Inr (right, r) \<Rightarrow> or_loop n (Logical ''OR'' left (Some right)) r)
      else Inr (left, ts))"
| "parseTerm 0 ts = Inl Out_Of_Fuel"
| "parseTerm (Suc n) ts =
     (case parseFactor n ts of Inl e \<Rightarrow> Inl e | Inr (left, r) \<Rightarrow> and_loop n left r)"
| "and_loop 0 left ts = Inl Out_Of_Fuel"
| "and_loop (Suc n) left ts =
     (if current ts = TokenLogical ''AND'' then
        (case parseFactor n (advance ts) of
           Inl e \<Rightarrow> Inl e
         | Inr (right, r) \<Rightarrow> and_loop n (Logical ''AND'' left (Some right)) r)
      else Inr (left, ts))"
| "parseFactor 0 ts = Inl Out_Of_Fuel"
| "parseFactor (Suc n) ts =
     (if current ts = TokenLogical ''NOT'' then
        (case parseFactor n (advance ts) of
           Inl e \<Rightarrow> Inl e
         | Inr (nd, r) \<Rightarrow> Inr (Logical ''NOT'' nd None, r))
      else if current ts = TokenLeftParen then
        (case parseExpression n (advance ts) of
           Inl e \<Rightarrow> Inl e
         | Inr (nd, r) \<Rightarrow>
             if current r \<noteq> TokenRightParen then Inl (Expected_Close_Paren (current r))
             else Inr (nd, advance r))
      else parseCondition ts)"

  by pat_completeness auto
termination
  by (relation "measure (\<lambda>x. case x of Inl (Inl (n, _)) \<Rightarrow> n | Inl (Inr (n, _, _)) \<Rightarrow> n
      | Inr (Inl (n, _)) \<Rightarrow> n | Inr (Inr (Inl (n, _, _))) \<Rightarrow> n | Inr (Inr (Inr (n, _))) \<Rightarrow> n)")
     simp_all

definition parse_fuel :: "token list \<Rightarrow> nat" where
  "parse_fuel ts = 4 * length ts + 4"

text \<open>\<open>NewParser(tokens).Parse()\<close>; tokens after the expression are not looked at.\<close>

definition Parse :: "token list \<Rightarrow> rule_error + node" where
  "Parse ts = (case parseExpression (parse_fuel ts) ts of Inl e \<Rightarrow> Inl e | Inr (nd, _) \<Rightarrow> Inr nd)"

definition parse_rule :: "string \<Rightarrow> rule_error + node" where
  "parse_rule input = (case Tokenize input of Inl e \<Rightarrow> Inl e | Inr ts \<Rightarrow> Parse ts)"

section \<open>Meaning\<close>

text \<open>\<open>Evaluate\<close> and \<open>evaluateLogical\<close>, over a valuation of the comparisons (a request); the
  outcome is \<open>None\<close> where the source reports an error: an unknown logical operator, or a missing
  operand that has to be evaluated.\<close>

fun evaluate :: "(string \<Rightarrow> string \<Rightarrow> node_value \<Rightarrow> bool) \<Rightarrow> node \<Rightarrow> bool option" where
  "evaluate env (Comparison f op v) = Some (env f op v)"
| "evaluate env (Logical op l r) =
     (if op = ''AND'' then
        (case evaluate env l of
           None \<Rightarrow> None
         | Some b \<Rightarrow> if \<not> b then Some False
                     else (case r of None \<Rightarrow> None | Some r' \<Rightarrow> evaluate env r'))
      else if op = ''OR'' then
        (case evaluate env l of
           None \<Rightarrow> None
         | Some b \<Rightarrow> if b then Some True
                     else (case r of None \<Rightarrow> None | Some r' \<Rightarrow> evaluate env r'))
      else if op = ''NOT'' then map_option Not (evaluate env l)
      else None)"

section \<open>The parser consumes tokens and never runs out of fuel\<close>

lemma current_advance: "current ts \<noteq> TokenEOF \<Longrightarrow> Suc (length (advance ts)) = length ts"
  by (cases ts) (auto simp: current_def advance_def)

lemma parse_values_shorter: "parse_values ts = Inr (vs, r) \<Longrightarrow> length r < length ts"
proof (induction ts arbitrary: vs r rule: parse_values.induct)
  case (2 t ts)
  then show ?case
    by (fastforce split: token.splits option.splits list.splits sum.splits prod.splits)
qed simp

lemma parseCondition_shorter: "parseCondition ts = Inr (nd, r) \<Longrightarrow> length r < length ts"
  by (cases ts)
     (auto simp: parseCondition_def parseList_def parse_single_value_def Let_def current_def
       advance_def split: token.splits list.splits if_splits sum.splits prod.splits
       dest!: parse_values_shorter)

lemma parseCondition_fuel: "parseCondition ts \<noteq> Inl Out_Of_Fuel"
proof -
  have "parse_values us \<noteq> Inl Out_Of_Fuel" for us
    by (induction us rule: parse_values.induct)
       (auto split: token.splits option.splits list.splits sum.splits prod.splits)
  then show ?thesis
    by (auto simp: parseCondition_def parseList_def parse_single_value_def Let_def
        split: token.splits if_splits sum.splits prod.splits)
qed

lemma descent_shorter:
  "parseExpression n ts = Inr (nd, r) \<Longrightarrow> length r < length ts"
  "or_loop n left ts = Inr (nd, r) \<Longrightarrow> length r \<le> length ts"
  "parseTerm n ts = Inr (nd, r) \<Longrightarrow> length r < length ts"
  "and_loop n left ts = Inr (nd, r) \<Longrightarrow> length r \<le> length ts"
  "parseFactor n ts = Inr (nd, r) \<Longrightarrow> length r < length ts"
proof (induction n ts and n left ts and n ts and n left ts and n ts
    arbitrary: nd r and nd r and nd r and nd r and nd r
    rule: parseExpression_or_loop_parseTerm_and_loop_parseFactor.induct)
  case (2 n ts)
  then show ?case by (fastforce split: sum.splits prod.splits)
next
  case (4 n left ts)
  then show ?case
    using current_advance [of ts] by (fastforce split: sum.splits prod.splits if_splits)
next
  case (6 n ts)
  then show ?case by (fastforce split: sum.splits prod.splits)
next
  case (8 n left ts)
  then show ?case
    using current_advance [of ts] by (fastforce split: sum.splits prod.splits if_splits)
next
  case (10 n ts)
  show ?case
  proof (cases "current ts = TokenLogical ''NOT''")
    case True
    then show ?thesis
      using 10 current_advance [of ts] by (fastforce split: sum.splits prod.splits)
  next
    case False
    show ?thesis
    proof (cases "current ts = TokenLeftParen")
      case True
      then obtain nd' r' where "parseExpression n (advance ts) = Inr (nd', r')"
        and "r = advance r'"
        using "10.prems" by (auto split: sum.splits prod.splits if_splits)
      moreover have "length (advance r') \<le> length r'" by (simp add: advance_def)
      ultimately show ?thesis
        using "10.IH"(2) False True current_advance [of ts] by fastforce
    next
      case False
      then show ?thesis
        using "10.prems" \<open>current ts \<noteq> TokenLogical ''NOT''\<close> parseCondition_shorter by simp
    qed
  qed
qed simp_all

lemma parse_fuel_enough:
  "4 * length ts + 3 \<le> n \<Longrightarrow> parseExpression n ts \<noteq> Inl Out_Of_Fuel"
  "4 * length ts + 3 \<le> n \<Longrightarrow> or_loop n left ts \<noteq> Inl Out_Of_Fuel"
  "4 * length ts + 2 \<le> n \<Longrightarrow> parseTerm n ts \<noteq> Inl Out_Of_Fuel"
  "4 * length ts + 2 \<le> n \<Longrightarrow> and_loop n left ts \<noteq> Inl Out_Of_Fuel"
  "4 * length ts + 1 \<le> n \<Longrightarrow> parseFactor n ts \<noteq> Inl Out_Of_Fuel"
proof (induction n ts and n left ts and n ts and n left ts and n ts
    rule: parseExpression_or_loop_parseTerm_and_loop_parseFactor.induct)
  case (2 n ts)
  then show ?case by (fastforce split: sum.splits prod.splits dest: descent_shorter(3))
next
  case (4 n left ts)
  then show ?case
    using current_advance [of ts]
    by (fastforce split: sum.splits prod.splits if_splits dest: descent_shorter(3))
next
  case (6 n ts)
  then show ?case by (fastforce split: sum.splits prod.splits dest: descent_shorter(5))
next
  case (8 n left ts)
  then show ?case
    using current_advance [of ts]
    by (fastforce split: sum.splits prod.splits if_splits dest: descent_shorter(5))
next
  case (10 n ts)
  then show ?case
    using current_advance [of ts] parseCondition_fuel [of ts]
    by (fastforce split: sum.splits prod.splits if_splits)
qed simp_all

lemma Parse_total: "Parse ts \<noteq> Inl Out_Of_Fuel"
  using parse_fuel_enough(1) [of ts "parse_fuel ts"]
  by (auto simp: Parse_def parse_fuel_def split: sum.splits)

lemma tokenize_no_fuel: "tokenize pos s \<noteq> Inl Out_Of_Fuel"
proof (induction pos s rule: tokenize.induct)
  case (1 pos s)
  have "next_token p c r \<noteq> Inl Out_Of_Fuel" for p c r
    by (auto simp: next_token_def split: option.splits prod.splits)
  with 1 show ?case by (subst tokenize.simps) (auto split: list.splits sum.splits prod.splits)
qed

text \<open>C12: reading a rule always comes to an end.  Lexing is total; the descent of the parser, which the model runs with fuel
  linear in the number of tokens, never uses the fuel up, and neither would more of it be: every text is either read or
  refused with a syntax error.\<close>

theorem parser_terminates:
  "parse_rule input \<noteq> Inl Out_Of_Fuel \<and> parseExpression (parse_fuel ts + k) ts \<noteq> Inl Out_Of_Fuel"
  using Parse_total tokenize_no_fuel [of 0 input] parse_fuel_enough(1) [of ts "parse_fuel ts + k"]
  by (auto simp: parse_rule_def Tokenize_def parse_fuel_def split: sum.splits)

end
