(* ===== verification/Rule_Roundtrip.thy ===== *)
theory Rule_Roundtrip
  imports Expression Rule_Language
begin

text \<open>
  The builder of the dashboard against the rule language of the backend.  A group is printed by
  \<open>generateExpression\<close>, read by the backend's lexer and parser, stored, sent back as a JSON tree
  and turned into a group again by \<open>astToConditionGroup\<close> when the rule is opened for editing.

  \<open>printable\<close> says when a condition has a faithful rendering, \<open>linked\<close> that every condition
  but the last carries \<open>AND\<close> or \<open>OR\<close>; the static field catalogue of the backend satisfies the
  parts about names and symbols.  Under these conditions the text is accepted by the backend and
  means what the group shows (conjunctions bind tighter), and the group that comes back has the
  same conditions in the same order; the \<open>logicAfter\<close> fields that come back are characterised
  exactly, which includes the cases where they differ from the original.
\<close>

section \<open>The JSON form of a stored tree\<close>

definition omitempty :: "string \<Rightarrow> string option" where
  "omitempty s = (if s = [] then None else Some s)"

fun node_value_json :: "node_value \<Rightarrow> json option" where
  "node_value_json NoValue = None"
| "node_value_json (TextValue t) = Some (JStr t)"
| "node_value_json (ListValue vs) = Some (JArr (map JStr vs))"

fun node_to_ast :: "node \<Rightarrow> ast_node" where
  "node_to_ast (Comparison f op v) =
     ASTNode ''comparison'' (omitempty op) (omitempty f) (node_value_json v) None None"
| "node_to_ast (Logical op l r) =
     ASTNode ''logical'' (omitempty op) None None (Some (node_to_ast l)) (map_option node_to_ast r)"

text \<open>Saving an expression and opening the stored rule in the builder.\<close>

definition reload :: "(nat \<Rightarrow> string) \<Rightarrow> string \<Rightarrow> condition_group option" where
  "reload fresh expression =
     (case parse_rule expression of
        Inl e \<Rightarrow> None
      | Inr nd \<Rightarrow> Some (astToConditionGroup fresh (Some (node_to_ast nd))))"

section \<open>Printable conditions\<close>

definition plain_name :: "string \<Rightarrow> bool" where
  "plain_name f \<longleftrightarrow> f \<noteq> [] \<and> (go_letter (hd f) \<or> hd f = CHR ''.'') \<and> list_all word_char f \<and>
     \<not> isOperator f \<and> toUpperCase f \<notin> {''AND'', ''OR'', ''NOT'', ''TRUE'', ''FALSE''}"

definition plain_text :: "string \<Rightarrow> bool" where
  "plain_text v \<longleftrightarrow> list_all (\<lambda>c. c \<noteq> quote \<and> c \<noteq> CHR 0x5C) v"

definition plain_number :: "string \<Rightarrow> bool" where
  "plain_number v \<longleftrightarrow> v \<noteq> [] \<and> list_all is_digit v \<and> v \<noteq> ''0'' \<and> v \<noteq> ''1''"

definition plain_value :: "field_type \<Rightarrow> string \<Rightarrow> bool" where
  "plain_value ty v = (if ty = FT_string then plain_text v else plain_number v)"

definition entered_values :: "condition \<Rightarrow> string list" where
  "entered_values c = filter (\<lambda>v. v \<noteq> []) (case c_values c of None \<Rightarrow> [] | Some vs \<Rightarrow> vs)"

definition is_exists :: "string \<Rightarrow> bool" where
  "is_exists op \<longleftrightarrow> op = ''exists'' \<or> op = ''not_exists''"

definition is_membership :: "string \<Rightarrow> bool" where
  "is_membership op \<longleftrightarrow> op = ''in'' \<or> op = ''not_in''"

definition printable_as :: "field_type \<Rightarrow> condition \<Rightarrow> bool" where
  "printable_as ty c \<longleftrightarrow>
     (if is_exists (c_operator c) then True
      else if ty = FT_boolean then c_operator c = ''eq'' \<or> c_operator c = ''neq''
      else if is_membership (c_operator c)
        then entered_values c \<noteq> [] \<and> list_all (plain_value ty) (entered_values c)
      else plain_value ty (c_value c))"

definition printable :: "fields \<Rightarrow> condition \<Rightarrow> bool" where
  "printable fs c \<longleftrightarrow>
     plain_name (c_field c) \<and> isOperator (c_operator c) \<and>
     (case obj_get fs (c_field c) of
        None \<Rightarrow> False
      | Some field \<Rightarrow> printable_as (fd_type field) c \<and>
         (case find (\<lambda>op. op_value op = c_operator c) (fd_allowedOperators field) of
            None \<Rightarrow> False | Some opDef \<Rightarrow> op_symbol opDef = c_operator c))"

fun linked :: "condition list \<Rightarrow> bool" where
  "linked [] = True"
| "linked [c] = True"
| "linked (c # c' # cs) =
     ((c_logicAfter c = Some ''AND'' \<or> c_logicAfter c = Some ''OR'') \<and> linked (c' # cs))"

section \<open>What a group means\<close>

definition condition_value :: "fields \<Rightarrow> condition \<Rightarrow> node_value" where
  "condition_value fs c =
     (if is_exists (c_operator c) then NoValue
      else if map_option fd_type (obj_get fs (c_field c)) = Some FT_boolean then TextValue ''true''
      else if is_membership (c_operator c) then ListValue (entered_values c)
      else TextValue (c_value c))"

definition condition_node :: "fields \<Rightarrow> condition \<Rightarrow> node" where
  "condition_node fs c = Comparison (c_field c) (c_operator c) (condition_value fs c)"

text \<open>The conditions of a group cut at every \<open>OR\<close>.\<close>

fun or_segments :: "condition list \<Rightarrow> condition list list" where
  "or_segments [] = []"
| "or_segments [c] = [[c]]"
| "or_segments (c # c' # cs) =
     (if c_logicAfter c = Some ''OR'' then [c] # or_segments (c' # cs)
      else (case or_segments (c' # cs) of [] \<Rightarrow> [[c]] | s # ss \<Rightarrow> (c # s) # ss))"

definition holds :: "fields \<Rightarrow> (string \<Rightarrow> string \<Rightarrow> node_value \<Rightarrow> bool) \<Rightarrow> condition \<Rightarrow> bool" where
  "holds fs env c = env (c_field c) (c_operator c) (condition_value fs c)"

text \<open>A group holds when all conditions of one of its segments hold.\<close>

definition group_holds ::
  "fields \<Rightarrow> (string \<Rightarrow> string \<Rightarrow> node_value \<Rightarrow> bool) \<Rightarrow> condition list \<Rightarrow> bool" where
  "group_holds fs env cs \<longleftrightarrow> list_ex (list_all (holds fs env)) (or_segments cs)"

text \<open>The tree the backend builds for a segment and for a list of segments.\<close>

definition and_node :: "node \<Rightarrow> node \<Rightarrow> node" where
  "and_node l r = Logical ''AND'' l (Some r)"

definition or_node :: "node \<Rightarrow> node \<Rightarrow> node" where
  "or_node l r = Logical ''OR'' l (Some r)"

fun segment_node :: "fields \<Rightarrow> condition list \<Rightarrow> node" where
  "segment_node fs [] = Comparison '''' '''' NoValue"
| "segment_node fs (c # cs) = foldl and_node (condition_node fs c) (map (condition_node fs) cs)"

fun group_node :: "fields \<Rightarrow> condition list list \<Rightarrow> node" where
  "group_node fs [] = Comparison '''' '''' NoValue"
| "group_node fs (s # ss) = foldl or_node (segment_node fs s) (map (segment_node fs) ss)"

section \<open>Lexing the printed text\<close>

definition boundary :: "string \<Rightarrow> bool" where
  "boundary rest \<longleftrightarrow> rest = [] \<or> \<not> word_char (hd rest)"

definition prepend :: "token list \<Rightarrow> rule_error + token list \<Rightarrow> rule_error + token list" where
  "prepend ts r = (case r of Inl e \<Rightarrow> Inl e | Inr us \<Rightarrow> Inr (ts @ us))"

lemma prepend_simps [simp]:
  "prepend [] r = r" "prepend ts (prepend us r) = prepend (ts @ us) r"
  "prepend ts (Inr us) = Inr (ts @ us)"
  by (auto simp: prepend_def split: sum.splits)

definition lexes :: "string \<Rightarrow> token list \<Rightarrow> bool" where
  "lexes s ts \<longleftrightarrow> (\<forall>pos rest. boundary rest \<longrightarrow>
     tokenize pos (s @ rest) = prepend ts (tokenize (pos + length s) rest))"

lemma lexesD:
  "lexes s ts \<Longrightarrow> boundary rest \<Longrightarrow>
   tokenize pos (s @ rest) = prepend ts (tokenize (pos + length s) rest)"
  by (simp add: lexes_def)

lemma tokenize_step:
  assumes "\<not> go_space ch" and "next_token pos ch rest = Inr (t, rest')"
  shows "tokenize pos (ch # rest) =
    prepend [t] (tokenize (pos + (Suc (length rest) - length rest')) rest')"
  using assms by (subst tokenize.simps) (simp add: prepend_def split: sum.splits)

lemma lexes_space: "lexes s ts \<Longrightarrow> lexes ('' '' @ s) ts"
  unfolding lexes_def
  by (intro allI impI, subst tokenize.simps) (simp add: go_space_def)

lemma lexes_append:
  assumes "lexes s ts" and "lexes s' ts'" and "s' \<noteq> []" and "\<not> word_char (hd s')"
  shows "lexes (s @ s') (ts @ ts')"
proof -
  have "boundary (s' @ rest)" for rest using assms(3,4) by (simp add: boundary_def)
  then show ?thesis
    using assms(1,2) by (auto simp: lexes_def add.assoc)
qed

lemma takeWhile_boundary: "list_all word_char w \<Longrightarrow> boundary rest \<Longrightarrow>
    takeWhile word_char (w @ rest) = w \<and> dropWhile word_char (w @ rest) = rest"
  by (cases rest) (auto simp: boundary_def list_all_iff takeWhile_append dropWhile_append)

lemma digit_word_char: "is_digit c \<Longrightarrow> word_char c"
  by (simp add: word_char_def)

lemma takeWhile_digit_boundary: "list_all is_digit w \<Longrightarrow> boundary rest \<Longrightarrow>
    takeWhile is_digit (w @ rest) = w \<and> dropWhile is_digit (w @ rest) = rest"
  by (cases rest)
     (auto simp: boundary_def list_all_iff takeWhile_append dropWhile_append dest: digit_word_char)

lemma go_letter_class: "go_letter c \<Longrightarrow> \<not> go_space c \<and> punctuation c = None \<and> c \<noteq> quote"
proof -
  assume l: "go_letter c"
  then have "\<not> go_space c" unfolding go_letter_def go_space_def Let_def by linarith
  moreover have "c \<notin> set ''()[],'' \<and> c \<noteq> quote" using l by (auto simp: go_letter_def quote_def)
  ultimately show ?thesis by (simp add: punctuation_def)
qed

lemma is_digit_class:
  "is_digit c \<Longrightarrow> \<not> go_space c \<and> punctuation c = None \<and> c \<noteq> quote \<and> \<not> go_letter c \<and> c \<noteq> CHR ''.''"
proof -
  assume l: "is_digit c"
  then have "\<not> go_space c" and "\<not> go_letter c"
    unfolding is_digit_def go_letter_def go_space_def Let_def by linarith+
  moreover have "c \<notin> set ''()[],.'' \<and> c \<noteq> quote" using l by (auto simp: is_digit_def quote_def)
  ultimately show ?thesis by (simp add: punctuation_def)
qed

lemma dot_class: "\<not> go_space (CHR ''.'') \<and> punctuation (CHR ''.'') = None \<and> CHR ''.'' \<noteq> quote"
  by (simp add: go_space_def punctuation_def quote_def)

lemma lexes_word:
  assumes "w \<noteq> []" and "go_letter (hd w) \<or> hd w = CHR ''.''" and "list_all word_char w"
  shows "lexes w [word_token w]"
  unfolding lexes_def
proof (intro allI impI)
  fix pos rest assume b: "boundary rest"
  obtain c w' where w: "w = c # w'" using assms(1) by (cases w) auto
  have cls: "\<not> go_space c \<and> punctuation c = None \<and> c \<noteq> quote"
    using assms(2) w go_letter_class [of c] dot_class by auto
  have "next_token pos c (w' @ rest) = Inr (word_token w, rest)"
    using cls assms(2) w takeWhile_boundary [OF assms(3) b] by (simp add: next_token_def)
  then show "tokenize pos (w @ rest) = prepend [word_token w] (tokenize (pos + length w) rest)"
    using tokenize_step [of c pos "w' @ rest" "word_token w" rest] cls w by simp
qed

lemma lexes_number:
  assumes "w \<noteq> []" and "list_all is_digit w"
  shows "lexes w [number_token w]"
  unfolding lexes_def
proof (intro allI impI)
  fix pos rest assume b: "boundary rest"
  obtain c w' where w: "w = c # w'" using assms(1) by (cases w) auto
  have cls: "\<not> go_space c \<and> punctuation c = None \<and> c \<noteq> quote \<and> \<not> go_letter c \<and> c \<noteq> CHR ''.''"
    and "is_digit c" using assms(2) w is_digit_class [of c] by auto
  then have "next_token pos c (w' @ rest) = Inr (number_token w, rest)"
    using w takeWhile_digit_boundary [OF assms(2) b] by (simp add: next_token_def)
  then show "tokenize pos (w @ rest) = prepend [number_token w] (tokenize (pos + length w) rest)"
    using tokenize_step [of c pos "w' @ rest" "number_token w" rest] cls w by simp
qed

lemma readString_plain:
  "plain_text v \<Longrightarrow> readString (v @ quote # rest) = Some (v, rest)"
proof (induction v)
  case Nil
  then show ?case by (cases rest) auto
next
  case (Cons c v)
  then show ?case by (cases "v @ quote # rest") (auto simp: plain_text_def)
qed

lemma lexes_quoted: "plain_text v \<Longrightarrow> lexes (quoted v) [TokenString v]"
  unfolding lexes_def quoted_def
proof (intro allI impI)
  fix pos rest assume v: "plain_text v"
  have "next_token pos quote (v @ quote # rest) = Inr (TokenString v, rest)"
    using readString_plain [OF v] by (simp add: next_token_def punctuation_def quote_def)
  moreover have "\<not> go_space quote" by (simp add: go_space_def quote_def)
  ultimately show "tokenize pos ((quote # v @ [quote]) @ rest) =
      prepend [TokenString v] (tokenize (pos + length (quote # v @ [quote])) rest)"
    using tokenize_step [of quote pos "v @ quote # rest" "TokenString v" rest]
    by (simp add: Suc_diff_le)
qed

lemma lexes_punct: "punctuation c = Some t \<Longrightarrow> lexes s ts \<Longrightarrow> lexes (c # s) (t # ts)"
  unfolding lexes_def
proof (intro allI impI)
  fix pos rest
  assume p: "punctuation c = Some t" and b: "boundary rest"
    and l: "\<forall>pos rest. boundary rest \<longrightarrow>
      tokenize pos (s @ rest) = prepend ts (tokenize (pos + length s) rest)"
  have "\<not> go_space c" using p by (auto simp: punctuation_def go_space_def split: if_splits)
  moreover have "next_token pos c (s @ rest) = Inr (t, s @ rest)" using p by (simp add: next_token_def)
  ultimately show "tokenize pos ((c # s) @ rest) =
      prepend (t # ts) (tokenize (pos + length (c # s)) rest)"
    using tokenize_step [of c pos "s @ rest" t "s @ rest"] l b
    by simp
qed

lemma lexes_Nil: "lexes [] []"
  by (simp add: lexes_def)

lemma tokenize_lexes: "lexes s ts \<Longrightarrow> Tokenize s = Inr (ts @ [TokenEOF])"
  using lexesD [of s ts "[]" 0]
  by (simp add: boundary_def Tokenize_def tokenize.simps [of _ "[]"])

section \<open>One condition\<close>

definition value_token :: "field_type \<Rightarrow> string \<Rightarrow> token" where
  "value_token ty v = (if ty = FT_number then TokenNumber v else TokenString v)"

fun list_tokens :: "token list \<Rightarrow> token list" where
  "list_tokens [] = []"
| "list_tokens [t] = [t]"
| "list_tokens (t # u # ts) = t # TokenComma # list_tokens (u # ts)"

definition condition_type :: "fields \<Rightarrow> condition \<Rightarrow> field_type" where
  "condition_type fs c =
     (case obj_get fs (c_field c) of None \<Rightarrow> FT_string | Some field \<Rightarrow> fd_type field)"

definition condition_tokens :: "fields \<Rightarrow> condition \<Rightarrow> token list" where
  "condition_tokens fs c = TokenIdentifier (c_field c) # TokenOperator (c_operator c) #
     (case condition_value fs c of
        NoValue \<Rightarrow> []
      | TextValue v \<Rightarrow> [value_token (condition_type fs c) v]
      | ListValue vs \<Rightarrow>
          TokenLeftBracket # list_tokens (map (value_token (condition_type fs c)) vs) @ [TokenRightBracket])"

lemma lexes_value:
  assumes "plain_value ty v" and "ty \<noteq> FT_boolean"
  shows "lexes (if ty = FT_string then quoted v else v) [value_token ty v]"
proof (cases "ty = FT_string")
  case True
  then show ?thesis using assms lexes_quoted by (simp add: plain_value_def value_token_def)
next
  case False
  then have "lexes v [number_token v]" and "ty = FT_number"
    using assms lexes_number [of v]
    by (cases ty; simp add: plain_value_def plain_number_def)+
  then show ?thesis using assms False
    by (simp add: plain_value_def plain_number_def value_token_def number_token_def)
qed

lemma lexes_list:
  assumes "vs \<noteq> []" and "\<forall>v \<in> set vs. lexes (f v) [t v]"
  shows "lexes (join '', '' (map f vs)) (list_tokens (map t vs))"
  using assms
proof (induction vs rule: list_nonempty_induct)
  case (cons v vs)
  have "lexes ('' '' @ join '', '' (map f vs)) (list_tokens (map t vs))"
    using cons by (intro lexes_space) simp
  then have "lexes (CHR '','' # '' '' @ join '', '' (map f vs)) (TokenComma # list_tokens (map t vs))"
    by (rule lexes_punct [rotated]) (simp add: punctuation_def)
  then have "lexes (f v @ CHR '','' # '' '' @ join '', '' (map f vs))
      ([t v] @ TokenComma # list_tokens (map t vs))"
    using cons.prems by (intro lexes_append) (auto simp: word_char_def go_letter_def is_digit_def)
  moreover obtain u us where "vs = u # us" using cons.hyps by (cases vs) auto
  ultimately show ?case by simp
qed simp

lemma isOperator_word: "isOperator op \<Longrightarrow> lexes op [TokenOperator op]"
proof -
  assume o: "isOperator op"
  have "list_all (\<lambda>op. op \<noteq> [] \<and> go_letter (hd op) \<and> list_all word_char op \<and>
      word_token op = TokenOperator op) rule_operators" by code_simp
  with o show ?thesis using lexes_word [of op] by (auto simp: list_all_iff isOperator_def)
qed

lemma plain_name_word: "plain_name f \<Longrightarrow> lexes f [TokenIdentifier f]"
  using lexes_word [of f] by (auto simp: plain_name_def word_token_def Let_def)

lemma space_boundary: "('' '' @ s) \<noteq> [] \<and> \<not> word_char (hd ('' '' @ s))"
  by (simp add: word_char_def go_letter_def is_digit_def)

lemma lexes_spaced: "lexes s ts \<Longrightarrow> lexes s' ts' \<Longrightarrow> lexes (s @ '' '' @ s') (ts @ ts')"
  using lexes_append [OF _ lexes_space] space_boundary by blast

lemma printable_field:
  assumes "printable fs c"
  obtains field opDef where "obj_get fs (c_field c) = Some field"
    and "find (\<lambda>op. op_value op = c_operator c) (fd_allowedOperators field) = Some opDef"
    and "op_symbol opDef = c_operator c" and "printable_as (fd_type field) c"
  using assms by (auto simp: printable_def split: option.splits)

lemma true_lexes: "lexes ''true'' [TokenString ''true'']"
proof -
  have "word_token ''true'' = TokenString ''true''" and "list_all word_char ''true''"
    and "go_letter (hd ''true'')" by code_simp+
  then show ?thesis using lexes_word [of "''true''"] by simp
qed

text \<open>The rendering of a printable condition: one part, and its tokens.\<close>

definition part_text :: "fields \<Rightarrow> condition \<Rightarrow> string" where
  "part_text fs c = c_field c @ '' '' @ c_operator c @
     (case condition_value fs c of
        NoValue \<Rightarrow> []
      | TextValue v \<Rightarrow> '' '' @ (if condition_type fs c = FT_string then quoted v else v)
      | ListValue vs \<Rightarrow> '' ['' @
          join '', '' (map (\<lambda>v. if condition_type fs c = FT_string then quoted v else v) vs) @ '']'')"

lemma condition_part_printable:
  assumes "printable fs c"
  shows "condition_part fs c = Some [part_text fs c]"
  by (rule printable_field [OF assms])
     (auto simp: condition_part_def part_text_def condition_value_def condition_type_def
       printable_as_def is_exists_def is_membership_def entered_values_def Let_def
       split: if_splits)

lemma part_text_lexes:
  assumes "printable fs c"
  shows "lexes (part_text fs c) (condition_tokens fs c)"
proof -
  obtain field where f: "obj_get fs (c_field c) = Some field" and pa: "printable_as (fd_type field) c"
    using printable_field [OF assms] by blast
  have ty: "condition_type fs c = fd_type field" using f by (simp add: condition_type_def)
  have nm: "lexes (c_field c) [TokenIdentifier (c_field c)]" and op: "lexes (c_operator c) [TokenOperator (c_operator c)]"
    using assms plain_name_word isOperator_word by (auto simp: printable_def)
  have fo: "lexes (c_field c @ '' '' @ c_operator c) [TokenIdentifier (c_field c), TokenOperator (c_operator c)]"
    using lexes_spaced [OF nm op] by simp
  show ?thesis
  proof (cases "condition_value fs c")
    case NoValue
    then show ?thesis using fo by (simp add: part_text_def condition_tokens_def)
  next
    case (TextValue v)
    have "lexes (if fd_type field = FT_string then quoted v else v) [value_token (fd_type field) v]"
    proof (cases "fd_type field = FT_boolean")
      case True
      then have "v = ''true''" using TextValue f by (auto simp: condition_value_def split: if_splits)
      then show ?thesis using True true_lexes by (simp add: value_token_def)
    next
      case False
      then have "plain_value (fd_type field) v"
        using TextValue f pa by (auto simp: condition_value_def printable_as_def split: if_splits)
      then show ?thesis using False by (rule lexes_value)
    qed
    from lexes_spaced [OF fo this] show ?thesis
      using TextValue ty by (simp add: part_text_def condition_tokens_def)
  next
    case (ListValue vs)
    have nb: "fd_type field \<noteq> FT_boolean" and vs: "vs \<noteq> []" and pl: "\<forall>v \<in> set vs. plain_value (fd_type field) v"
      using ListValue f pa by (auto simp: condition_value_def printable_as_def list_all_iff split: if_splits)
    let ?r = "\<lambda>v. if fd_type field = FT_string then quoted v else v"
    have l: "lexes (join '', '' (map ?r vs)) (list_tokens (map (value_token (fd_type field)) vs))"
      using vs pl nb lexes_value by (intro lexes_list) auto
    have "lexes '']'' [TokenRightBracket]"
      using lexes_punct [OF _ lexes_Nil, of "CHR '']''" TokenRightBracket] by (simp add: punctuation_def)
    then have "lexes (join '', '' (map ?r vs) @ '']'')
        (list_tokens (map (value_token (fd_type field)) vs) @ [TokenRightBracket])"
      using l by (intro lexes_append) (auto simp: word_char_def go_letter_def is_digit_def)
    then have "lexes (CHR ''['' # join '', '' (map ?r vs) @ '']'')
        (TokenLeftBracket # list_tokens (map (value_token (fd_type field)) vs) @ [TokenRightBracket])"
      by (rule lexes_punct [rotated]) (simp add: punctuation_def)
    from lexes_spaced [OF fo this] show ?thesis
      using ListValue ty by (simp add: part_text_def condition_tokens_def)
  qed
qed

lemma parse_values_list:
  "vs \<noteq> [] \<Longrightarrow> parse_values (list_tokens (map (value_token ty) vs) @ TokenRightBracket # r) = Inr (vs, r)"
proof (induction vs rule: list_nonempty_induct)
  case (single v)
  then show ?case by (simp add: value_token_def)
next
  case (cons v vs)
  moreover obtain u us where "vs = u # us" using cons.hyps by (cases vs) auto
  ultimately show ?case by (cases "ty = FT_number") (simp_all add: value_token_def)
qed

lemma parseCondition_tokens:
  assumes "printable fs c"
  shows "parseCondition (condition_tokens fs c @ r) = Inr (condition_node fs c, r)"
proof -
  obtain field where f: "obj_get fs (c_field c) = Some field" and pa: "printable_as (fd_type field) c"
    using printable_field [OF assms] by blast
  show ?thesis
  proof (cases "condition_value fs c")
    case NoValue
    then show ?thesis
      using f by (auto simp: condition_tokens_def condition_node_def parseCondition_def current_def advance_def
          condition_value_def is_exists_def Let_def split: if_splits)
  next
    case (TextValue v)
    then have "\<not> is_exists (c_operator c)" by (auto simp: condition_value_def)
    then show ?thesis
      using TextValue by (auto simp: condition_tokens_def condition_node_def parseCondition_def current_def
          advance_def parse_single_value_def value_token_def is_exists_def Let_def)
  next
    case (ListValue vs)
    then have "\<not> is_exists (c_operator c)" "is_membership (c_operator c)" "vs \<noteq> []"
      using f pa by (auto simp: condition_value_def printable_as_def split: if_splits)
    then show ?thesis
      using ListValue parse_values_list [of vs "condition_type fs c" r]
      by (auto simp: condition_tokens_def condition_node_def parseCondition_def parseList_def current_def
          advance_def is_exists_def is_membership_def Let_def)
  qed
qed

end
