(* ===== verification/Builder_Reload.thy ===== *)
theory Builder_Reload
  imports Rule_Roundtrip
begin

text \<open>
  Whole groups: printing, parsing and reloading chains of conditions.  The first part lifts the
  one-condition facts of the previous theory to chains (tokens, segments, fuel), the second
  computes what \<open>astToConditionGroup\<close> makes of the parsed tree, and the last part states the
  properties of the builder that rest on both.
\<close>

section \<open>Tokens of a chain\<close>

definition logic_word :: "condition \<Rightarrow> string" where
  "logic_word c = (case c_logicAfter c of None \<Rightarrow> [] | Some l \<Rightarrow> l)"

fun chain_tokens :: "fields \<Rightarrow> condition list \<Rightarrow> token list" where
  "chain_tokens fs [] = []"
| "chain_tokens fs [c] = condition_tokens fs c"
| "chain_tokens fs (c # c' # cs) =
     condition_tokens fs c @ TokenLogical (logic_word c) # chain_tokens fs (c' # cs)"

fun segment_tokens :: "fields \<Rightarrow> condition list \<Rightarrow> token list" where
  "segment_tokens fs [] = []"
| "segment_tokens fs (c # cs) = condition_tokens fs c @
     concat (map (\<lambda>d. TokenLogical ''AND'' # condition_tokens fs d) cs)"

fun segments_tokens :: "fields \<Rightarrow> condition list list \<Rightarrow> token list" where
  "segments_tokens fs [] = []"
| "segments_tokens fs (s # ss) = segment_tokens fs s @
     concat (map (\<lambda>t. TokenLogical ''OR'' # segment_tokens fs t) ss)"

lemma or_segments_ne: "cs \<noteq> [] \<Longrightarrow> or_segments cs \<noteq> [] \<and> [] \<notin> set (or_segments cs)"
  by (induction cs rule: or_segments.induct) (auto split: list.splits)

lemma or_segments_Cons_ne: "or_segments (c # cs) \<noteq> []"
  using or_segments_ne by blast

lemma concat_or_segments: "concat (or_segments cs) = cs"
proof (induction cs rule: or_segments.induct)
  case (3 c c' cs)
  then show ?case
    using or_segments_Cons_ne [of c' cs]
    by (cases "c_logicAfter c = Some ''OR''") (auto split: list.splits)
qed simp_all

lemma logic_lexes:
  assumes "l = ''AND'' \<or> l = ''OR''"
  shows "lexes (toLowerCase l) [TokenLogical l]"
proof -
  have "list_all (\<lambda>l. toLowerCase l \<noteq> [] \<and> go_letter (hd (toLowerCase l)) \<and>
     list_all word_char (toLowerCase l) \<and> word_token (toLowerCase l) = TokenLogical l) [''AND'', ''OR'']"
    by code_simp
  then have "toLowerCase l \<noteq> [] \<and> go_letter (hd (toLowerCase l)) \<and>
     list_all word_char (toLowerCase l) \<and> word_token (toLowerCase l) = TokenLogical l"
    using assms by (auto simp: list_all_iff)
  then show ?thesis using lexes_word [of "toLowerCase l"] by auto
qed

lemma expression_parts_ne: "printable fs c \<Longrightarrow> expression_parts fs (c # cs) \<noteq> []"
  by (simp add: condition_parts_def condition_part_printable)

lemma expression_lexes:
  assumes "list_all (printable fs) cs" and "linked cs"
  shows "lexes (join '' '' (expression_parts fs cs)) (chain_tokens fs cs)"
  using assms
proof (induction cs rule: linked.induct)
  case 1
  then show ?case by (simp add: lexes_Nil)
next
  case (2 c)
  then have "condition_parts fs False c = [part_text fs c]"
    by (simp add: condition_parts_def condition_part_printable split: option.splits)
  then show ?case using 2 part_text_lexes by simp
next
  case (3 c c' cs)
  then obtain l where l: "c_logicAfter c = Some l" and lw: "l = ''AND'' \<or> l = ''OR''" by auto
  have parts: "condition_parts fs True c = [part_text fs c, toLowerCase l]"
    using 3 l lw by (auto simp: condition_parts_def condition_part_printable)
  let ?rest = "join '' '' (expression_parts fs (c' # cs))"
  have ne: "expression_parts fs (c' # cs) \<noteq> []" using 3 by (intro expression_parts_ne) simp
  have "join '' '' (expression_parts fs (c # c' # cs)) = part_text fs c @ '' '' @ toLowerCase l @ '' '' @ ?rest"
    using parts ne by (subst expression_parts.simps) (simp add: join_Cons del: expression_parts.simps(2))
  moreover have "lexes (part_text fs c @ '' '' @ toLowerCase l @ '' '' @ ?rest)
      (condition_tokens fs c @ [TokenLogical l] @ chain_tokens fs (c' # cs))"
    using 3 part_text_lexes logic_lexes [OF lw] by (intro lexes_spaced) auto
  ultimately show ?case using l by (simp add: logic_word_def)
qed

lemma generateExpression_tokens:
  assumes "list_all (printable fs) (g_conditions g)" and "linked (g_conditions g)"
  shows "Tokenize (generateExpression g fs) = Inr (chain_tokens fs (g_conditions g) @ [TokenEOF])"
proof (cases "g_conditions g = []")
  case True
  then show ?thesis using tokenize_lexes [OF lexes_Nil] by (simp add: generateExpression_def)
next
  case False
  then show ?thesis
    using tokenize_lexes [OF expression_lexes [OF assms]] by (simp add: generateExpression_def)
qed

lemma chain_segments:
  "linked cs \<Longrightarrow> chain_tokens fs cs = segments_tokens fs (or_segments cs)"
proof (induction cs rule: linked.induct)
  case (3 c c' cs)
  obtain s ss where seg: "or_segments (c' # cs) = s # ss" and "s \<noteq> []"
    using or_segments_ne [of "c' # cs"] by (cases "or_segments (c' # cs)") auto
  then obtain d ds where "s = d # ds" by (cases s) auto
  then show ?case using 3 seg by (auto simp: logic_word_def)
qed simp_all

section \<open>Parsing a chain\<close>

lemma condition_tokens_head: "current (condition_tokens fs c @ r) = TokenIdentifier (c_field c)"
  by (simp add: condition_tokens_def current_def)

lemma parseFactor_condition:
  assumes "printable fs c" and "n \<noteq> 0"
  shows "parseFactor n (condition_tokens fs c @ r) = Inr (condition_node fs c, r)"
proof -
  obtain m where "n = Suc m" using assms(2) by (cases n) auto
  then show ?thesis
    using parseCondition_tokens [OF assms(1)] by (simp add: condition_tokens_head)
qed

lemma and_loop_segment:
  assumes "list_all (printable fs) cs" and "length cs < n" and "current r \<noteq> TokenLogical ''AND''"
  shows "and_loop n acc (concat (map (\<lambda>d. TokenLogical ''AND'' # condition_tokens fs d) cs) @ r)
    = Inr (foldl and_node acc (map (condition_node fs) cs), r)"
  using assms
proof (induction cs arbitrary: acc n)
  case Nil
  then obtain m where "n = Suc m" by (cases n) auto
  then show ?case using Nil by simp
next
  case (Cons c cs)
  then obtain m where m: "n = Suc m" and "m \<noteq> 0" by (cases n) auto
  then have "parseFactor m (condition_tokens fs c @
      concat (map (\<lambda>d. TokenLogical ''AND'' # condition_tokens fs d) cs) @ r)
    = Inr (condition_node fs c, concat (map (\<lambda>d. TokenLogical ''AND'' # condition_tokens fs d) cs) @ r)"
    using Cons.prems by (intro parseFactor_condition) auto
  then show ?case
    using Cons.IH [of m "and_node acc (condition_node fs c)"] Cons.prems m
    by (simp add: current_def advance_def and_node_def)
qed

lemma parseTerm_segment:
  assumes "s \<noteq> []" and "list_all (printable fs) s" and "length s < n"
    and "current r \<noteq> TokenLogical ''AND''"
  shows "parseTerm n (segment_tokens fs s @ r) = Inr (segment_node fs s, r)"
proof -
  obtain c cs where s: "s = c # cs" using assms(1) by (cases s) auto
  obtain m where m: "n = Suc m" and m0: "m \<noteq> 0" and ml: "length cs < m"
    using assms(3) s by (cases n) auto
  show ?thesis
    using parseFactor_condition [of fs c m] and_loop_segment [of fs cs m r "condition_node fs c"]
      assms s m m0 ml by simp
qed

lemma or_loop_segments:
  assumes "\<forall>s \<in> set ss. s \<noteq> [] \<and> list_all (printable fs) s"
    and "length ss + length (concat ss) < n"
    and "current r \<noteq> TokenLogical ''AND''" and "current r \<noteq> TokenLogical ''OR''"
  shows "or_loop n acc (concat (map (\<lambda>t. TokenLogical ''OR'' # segment_tokens fs t) ss) @ r)
    = Inr (foldl or_node acc (map (segment_node fs) ss), r)"
  using assms
proof (induction ss arbitrary: acc n)
  case Nil
  then obtain m where "n = Suc m" by (cases n) auto
  then show ?case using Nil by simp
next
  case (Cons s ss)
  then obtain m where m: "n = Suc m" by (cases n) auto
  let ?rest = "concat (map (\<lambda>t. TokenLogical ''OR'' # segment_tokens fs t) ss) @ r"
  have "current ?rest \<noteq> TokenLogical ''AND''"
    using Cons.prems(3) by (cases ss) (auto simp: current_def)
  then have "parseTerm m (segment_tokens fs s @ ?rest) = Inr (segment_node fs s, ?rest)"
    using Cons.prems m by (intro parseTerm_segment) auto
  then show ?case
    using Cons.IH [of m "or_node acc (segment_node fs s)"] Cons.prems m
    by (simp add: current_def advance_def or_node_def)
qed

lemma condition_tokens_length: "2 \<le> length (condition_tokens fs c)"
  by (simp add: condition_tokens_def)

lemma chain_tokens_length: "2 * length cs \<le> length (chain_tokens fs cs)"
proof (induction fs cs rule: chain_tokens.induct)
  case (3 fs c c' cs)
  then show ?case using condition_tokens_length [of fs c] by simp
qed (use condition_tokens_length in auto)

lemma or_segments_length: "length (or_segments cs) \<le> length cs"
  by (induction cs rule: or_segments.induct) (auto split: list.splits)

lemma Parse_chain:
  assumes "cs \<noteq> []" and "list_all (printable fs) cs" and "linked cs"
  shows "Parse (chain_tokens fs cs @ [TokenEOF]) = Inr (group_node fs (or_segments cs))"
proof -
  obtain s ss where seg: "or_segments cs = s # ss"
    using or_segments_ne [OF assms(1)] by (cases "or_segments cs") auto
  have cat: "cs = s @ concat ss" using concat_or_segments [of cs] seg by simp
  have wf: "\<forall>t \<in> set (s # ss). t \<noteq> [] \<and> list_all (printable fs) t"
    using or_segments_ne [OF assms(1)] assms(2) seg cat by (auto simp: list_all_iff)
  let ?ts = "chain_tokens fs cs @ [TokenEOF]"
  let ?rest = "concat (map (\<lambda>t. TokenLogical ''OR'' # segment_tokens fs t) ss) @ [TokenEOF]"
  have ts: "?ts = segment_tokens fs s @ ?rest"
    using chain_segments [OF assms(3)] seg by simp
  obtain m where m: "parse_fuel ?ts = Suc m" and "8 * length cs + 7 \<le> m"
    using chain_tokens_length [of cs fs] by (simp add: parse_fuel_def)
  then have b: "length s < m" "length ss + length (concat ss) < m"
    using cat or_segments_length [of cs] seg by auto
  have "current ?rest \<noteq> TokenLogical ''AND''" by (cases ss) (auto simp: current_def)
  then have "parseTerm m ?ts = Inr (segment_node fs s, ?rest)"
    unfolding ts using wf b by (intro parseTerm_segment) auto
  moreover have "or_loop m (segment_node fs s) ?rest
      = Inr (foldl or_node (segment_node fs s) (map (segment_node fs) ss), [TokenEOF])"
    using wf b by (intro or_loop_segments) (auto simp: current_def)
  ultimately show ?thesis using m seg by (simp add: Parse_def)
qed

lemma parse_generate:
  assumes "g_conditions g \<noteq> []" and "list_all (printable fs) (g_conditions g)"
    and "linked (g_conditions g)"
  shows "parse_rule (generateExpression g fs) = Inr (group_node fs (or_segments (g_conditions g)))"
  using assms generateExpression_tokens Parse_chain by (simp add: parse_rule_def)

lemma evaluate_and_chain:
  "evaluate env n = Some b \<Longrightarrow>
   evaluate env (foldl and_node n (map (condition_node fs) cs)) = Some (b \<and> list_all (holds fs env) cs)"
proof (induction cs arbitrary: n b)
  case (Cons c cs)
  have "evaluate env (and_node n (condition_node fs c)) = Some (b \<and> holds fs env c)"
    using Cons.prems by (simp add: and_node_def condition_node_def holds_def)
  from Cons.IH [OF this] show ?case by simp
qed simp

lemma evaluate_segment: "s \<noteq> [] \<Longrightarrow> evaluate env (segment_node fs s) = Some (list_all (holds fs env) s)"
  by (cases s) (auto simp: evaluate_and_chain condition_node_def holds_def)

lemma evaluate_or_chain:
  "evaluate env n = Some b \<Longrightarrow> [] \<notin> set ss \<Longrightarrow>
   evaluate env (foldl or_node n (map (segment_node fs) ss)) =
     Some (b \<or> list_ex (list_all (holds fs env)) ss)"
proof (induction ss arbitrary: n b)
  case (Cons s ss)
  have "evaluate env (or_node n (segment_node fs s)) = Some (b \<or> list_all (holds fs env) s)"
    using Cons.prems evaluate_segment [of s env fs] by (auto simp: or_node_def)
  then show ?case using Cons by (auto simp: disj_assoc)
qed simp

lemma evaluate_group:
  assumes "cs \<noteq> []"
  shows "evaluate env (group_node fs (or_segments cs)) = Some (group_holds fs env cs)"
proof -
  obtain s ss where "or_segments cs = s # ss" and "s \<noteq> []" and "[] \<notin> set ss"
    using or_segments_ne [OF assms] by (cases "or_segments cs") auto
  then show ?thesis
    using evaluate_or_chain [OF evaluate_segment] by (simp add: group_holds_def)
qed

section \<open>Reloading a chain\<close>

text \<open>The condition the converter makes of a printed one: the comparison's own value, the
  identifier and the logic word it is given.\<close>

definition reload_condition :: "fields \<Rightarrow> string \<Rightarrow> string \<Rightarrow> condition \<Rightarrow> condition" where
  "reload_condition fs ident l c =
     \<lparr> c_id = ident, c_field = c_field c, c_operator = c_operator c,
       c_value = (case condition_value fs c of TextValue v \<Rightarrow> v | _ \<Rightarrow> ''''),
       c_values = (case condition_value fs c of ListValue vs \<Rightarrow> Some vs | _ \<Rightarrow> None),
       c_logicAfter = Some l \<rparr>"

fun reload_conditions ::
  "fields \<Rightarrow> (nat \<Rightarrow> string) \<Rightarrow> nat \<Rightarrow> (string \<times> condition) list \<Rightarrow> condition list" where
  "reload_conditions fs fresh k [] = []"
| "reload_conditions fs fresh k ((l, c) # lcs) =
     reload_condition fs (fresh k) l c # reload_conditions fs fresh (Suc k) lcs"

text \<open>All conditions carry \<open>AND\<close>, apart from the first one of a longer group, which keeps an
  \<open>OR\<close>.\<close>

definition reload_logic :: "condition list \<Rightarrow> string" where
  "reload_logic cs = (case cs of
      c # c' # cs' \<Rightarrow> if c_logicAfter c = Some ''OR'' then ''OR'' else ''AND''
    | _ \<Rightarrow> ''AND'')"

definition reload_chain :: "fields \<Rightarrow> (nat \<Rightarrow> string) \<Rightarrow> condition list \<Rightarrow> condition list" where
  "reload_chain fs fresh cs =
     reload_conditions fs fresh 0 (zip (reload_logic cs # replicate (length cs - 1) ''AND'') cs)"

abbreviation with_and :: "condition list \<Rightarrow> (string \<times> condition) list" where
  "with_and cs \<equiv> map (Pair ''AND'') cs"

lemma reload_conditions_append:
  "reload_conditions fs fresh k (xs @ ys) =
     reload_conditions fs fresh k xs @ reload_conditions fs fresh (k + length xs) ys"
  by (induction fs fresh k xs rule: reload_conditions.induct) auto

lemma length_reload_conditions [simp]: "length (reload_conditions fs fresh k xs) = length xs"
  by (induction fs fresh k xs rule: reload_conditions.induct) auto

lemma mapOperator_rule: "isOperator op \<Longrightarrow> mapOperator op = op"
proof -
  assume "isOperator op"
  moreover have "list_all (\<lambda>op. mapOperator op = op) rule_operators" by code_simp
  ultimately show ?thesis by (simp add: list_all_iff isOperator_def)
qed

lemma printable_names: "printable fs c \<Longrightarrow> c_field c \<noteq> [] \<and> c_operator c \<noteq> [] \<and> isOperator (c_operator c)"
  by (auto simp: printable_def plain_name_def isOperator_def rule_operators_def)

lemma parse_comparison:
  assumes "printable fs c"
  shows "parseASTNode fresh (node_to_ast (condition_node fs c)) conds (Some l) =
    conds @ [reload_condition fs (fresh (length conds)) l c]"
  using printable_names [OF assms] mapOperator_rule [of "c_operator c"]
  by (cases "condition_value fs c")
     (auto simp: condition_node_def omitempty_def comparison_condition_def reload_condition_def
       formatValue_def str_or_def comp_def Let_def)

lemma parse_and_chain:
  assumes "printable fs c" and "list_all (printable fs) cs"
  shows "parseASTNode fresh (node_to_ast (foldl and_node (condition_node fs c) (map (condition_node fs) cs)))
      conds (Some l) =
    conds @ reload_conditions fs fresh (length conds)
      ((if cs = [] then l else ''AND'', c) # with_and cs)"
  using assms
proof (induction cs arbitrary: l rule: rev_induct)
  case Nil
  then show ?case by (simp add: parse_comparison)
next
  case (snoc d cs)
  have up: "toUpperCase ''AND'' = ''AND''" by code_simp
  have "n_type (node_to_ast (condition_node fs d)) = ''comparison''"
    by (simp add: condition_node_def)
  then show ?case
    using snoc.IH [of "''AND''"] snoc.prems up
    by (simp add: and_node_def [of _ "condition_node fs d"] omitempty_def parse_comparison
        reload_conditions_append)
qed

lemma parse_segment:
  assumes "s \<noteq> []" and "list_all (printable fs) s"
  shows "parseASTNode fresh (node_to_ast (segment_node fs s)) conds (Some l) =
    conds @ reload_conditions fs fresh (length conds)
      ((if length s = 1 then l else ''AND'', hd s) # with_and (tl s))"
  using assms parse_and_chain [of fs "hd s" "tl s" fresh conds l] by (cases s) auto

lemma segment_node_type:
  assumes "s \<noteq> []"
  shows "n_type (node_to_ast (segment_node fs s)) = (if length s = 1 then ''comparison'' else ''logical'')"
proof -
  obtain c cs where "s = c # cs" using assms by (cases s) auto
  then show ?thesis by (cases cs rule: rev_cases) (simp_all add: condition_node_def and_node_def)
qed

lemma parse_or_chain:
  assumes "s \<noteq> []" and "list_all (printable fs) s"
    and "\<forall>t \<in> set ss. t \<noteq> [] \<and> list_all (printable fs) t"
  shows "parseASTNode fresh (node_to_ast (foldl or_node (segment_node fs s) (map (segment_node fs) ss)))
      conds (Some l) =
    conds @ reload_conditions fs fresh (length conds)
      ((if length s = 1 then (if ss = [] then l else ''OR'') else ''AND'', hd s) #
        with_and (tl s @ concat ss))"
  using assms
proof (induction ss arbitrary: l rule: rev_induct)
  case Nil
  then show ?case by (simp add: parse_segment)
next
  case (snoc t ss)
  have up: "toUpperCase ''OR'' = ''OR''" by code_simp
  have t: "t \<noteq> []" "list_all (printable fs) t" using snoc.prems by auto
  then have tw: "with_and t = (''AND'', hd t) # with_and (tl t)" by (cases t) auto
  have right: "(if n_type (node_to_ast (segment_node fs t)) = ''logical''
      then parseASTNode fresh (node_to_ast (segment_node fs t)) cnds (Some ''OR'')
      else parseASTNode fresh (node_to_ast (segment_node fs t)) cnds (Some ''AND'')) =
      cnds @ reload_conditions fs fresh (length cnds) (with_and t)" for cnds
    using parse_segment [OF t, of fresh cnds] segment_node_type [OF t(1), of fs] tw
    by (cases "length t = 1") simp_all
  show ?case
    using snoc.IH [of "''OR''"] snoc.prems up
    by (simp add: or_node_def [of _ "segment_node fs t"] omitempty_def right
        reload_conditions_append add.assoc)
qed

lemma with_and_zip: "with_and cs = zip (replicate (length cs) ''AND'') cs"
  by (induction cs) auto

lemma parse_group:
  assumes "cs \<noteq> []" and "list_all (printable fs) cs" and "linked cs"
  shows "parseASTNode fresh (node_to_ast (group_node fs (or_segments cs))) [] (Some ''AND'') =
    reload_chain fs fresh cs"
proof -
  obtain s ss where seg: "or_segments cs = s # ss" and s: "s \<noteq> []" and "[] \<notin> set ss"
    using or_segments_ne [OF assms(1)] by (cases "or_segments cs") auto
  have cat: "cs = s @ concat ss" using concat_or_segments [of cs] seg by simp
  then have wf: "list_all (printable fs) s" "\<forall>t \<in> set ss. t \<noteq> [] \<and> list_all (printable fs) t"
    using assms(2) \<open>[] \<notin> set ss\<close> by (auto simp: list_all_iff)
  obtain c cs' where cs: "cs = c # cs'" using assms(1) by (cases cs) auto
  have "(if length s = 1 then (if ss = [] then ''AND'' else ''OR'') else ''AND'') = reload_logic cs"
    using seg s cs assms(3) or_segments_ne [of cs']
    by (cases cs') (auto simp: reload_logic_def or_segments_Cons_ne split: if_splits list.splits)
  moreover have "hd s = c" and "tl s @ concat ss = cs'" using cat cs s by (cases s; simp)+
  ultimately show ?thesis
    using parse_or_chain [OF s wf, of fresh "[]" "''AND''"] seg cs
    by (simp add: reload_chain_def with_and_zip)
qed

lemma reload_chain_generate:
  assumes "g_conditions g \<noteq> []" and "list_all (printable fs) (g_conditions g)"
    and "linked (g_conditions g)"
  shows "reload fresh (generateExpression g fs) =
    Some \<lparr> g_id = ''root'', g_conditions = reload_chain fs fresh (g_conditions g) \<rparr>"
  using parse_generate [OF assms] parse_group [OF assms]
  by (simp add: reload_def astToConditionGroup_def)

section \<open>Reloaded conditions print as the originals\<close>

lemma reload_condition_value:
  assumes "printable fs c"
  shows "condition_value fs (reload_condition fs i l c) = condition_value fs c"
  using assms
  by (auto simp: reload_condition_def condition_value_def entered_values_def split: if_splits)

lemma reload_condition_printable:
  assumes "printable fs c"
  shows "printable fs (reload_condition fs i l c)"
proof -
  let ?d = "reload_condition fs i l c"
  have sel: "c_field ?d = c_field c" "c_operator ?d = c_operator c"
    by (simp_all add: reload_condition_def)
  obtain field where f: "obj_get fs (c_field c) = Some field" and pa: "printable_as (fd_type field) c"
    using printable_field [OF assms] by blast
  have "printable_as (fd_type field) ?d"
    using pa f by (auto simp: printable_as_def reload_condition_def condition_value_def entered_values_def
        split: if_splits)
  then show ?thesis using assms f unfolding printable_def sel by simp
qed

lemma reload_condition_part:
  assumes "printable fs c"
  shows "condition_part fs (reload_condition fs i l c) = Some [part_text fs c]"
proof -
  let ?d = "reload_condition fs i l c"
  have sel: "c_field ?d = c_field c" "c_operator ?d = c_operator c"
    by (simp_all add: reload_condition_def)
  have ty: "condition_type fs ?d = condition_type fs c" by (simp add: condition_type_def sel)
  have "part_text fs ?d = part_text fs c"
    unfolding part_text_def sel ty reload_condition_value [OF assms] ..
  then show ?thesis
    using condition_part_printable [OF reload_condition_printable [OF assms]] by simp
qed

lemma expression_parts_reload:
  assumes "list_all (printable fs) cs" and "length ls = length cs"
    and "\<forall>i < length cs - 1. c_logicAfter (cs ! i) = Some (ls ! i)"
  shows "expression_parts fs (reload_conditions fs fresh k (zip ls cs)) = expression_parts fs cs"
  using assms
proof (induction cs arbitrary: ls k)
  case (Cons c cs)
  obtain l ls' where ls: "ls = l # ls'" using Cons.prems(2) by (cases ls) auto
  have IH: "expression_parts fs (reload_conditions fs fresh (Suc k) (zip ls' cs)) = expression_parts fs cs"
  proof (rule Cons.IH)
    show "\<forall>i < length cs - 1. c_logicAfter (cs ! i) = Some (ls' ! i)"
    proof (intro allI impI)
      fix i assume "i < length cs - 1"
      then have "Suc i < length (c # cs) - 1" by simp
      from Cons.prems(3) [rule_format, OF this] ls show "c_logicAfter (cs ! i) = Some (ls' ! i)" by simp
    qed
  qed (use Cons.prems ls in auto)
  have nil: "reload_conditions fs fresh (Suc k) (zip ls' cs) = [] \<longleftrightarrow> cs = []"
    using Cons.prems(2) ls
    by (simp flip: length_0_conv)
  have "cs \<noteq> [] \<Longrightarrow> c_logicAfter c = Some l" using Cons.prems(3) ls by auto
  then have "condition_parts fs (cs \<noteq> []) (reload_condition fs (fresh k) l c) = condition_parts fs (cs \<noteq> []) c"
    using Cons.prems(1) reload_condition_part [of fs c "fresh k" l]
    by (auto simp: condition_parts_def condition_part_printable reload_condition_def split: option.splits)
  then show ?case using IH nil ls by simp
qed simp

lemma reload_same_text:
  assumes "g_conditions g = c # cs" and "list_all (printable fs) (c # cs)" and "linked (c # cs)"
    and "list_all (\<lambda>d. c_logicAfter d = Some ''AND'') (butlast cs)"
  shows "\<exists>g'. reload fresh (generateExpression g fs) = Some g' \<and>
    generateExpression g' fs = generateExpression g fs"
proof -
  let ?ls = "reload_logic (c # cs) # replicate (length cs) ''AND''"
  let ?g' = "\<lparr> g_id = ''root'', g_conditions = reload_chain fs fresh (c # cs) \<rparr>"
  have re: "reload fresh (generateExpression g fs) = Some ?g'"
    using reload_chain_generate [of g fs fresh] assms by simp
  have "c_logicAfter ((c # cs) ! i) = Some (?ls ! i)" if i: "i < length (c # cs) - 1" for i
  proof (cases i)
    case 0
    then obtain d ds where "cs = d # ds" using i by (cases cs) auto
    then show ?thesis using assms(3) 0 by (auto simp: reload_logic_def)
  next
    case (Suc j)
    then have "j < length (butlast cs)" using i by simp
    then have "c_logicAfter (butlast cs ! j) = Some ''AND''" using assms(4) by (auto simp: list_all_length)
    then show ?thesis using Suc i by (simp add: nth_butlast)
  qed
  then have "expression_parts fs (reload_conditions fs fresh 0 (zip ?ls (c # cs))) = expression_parts fs (c # cs)"
    using assms(2) by (intro expression_parts_reload) auto
  moreover have "reload_chain fs fresh (c # cs) \<noteq> []"
    using length_reload_conditions [of fs fresh 0 "zip ?ls (c # cs)"] by (auto simp: reload_chain_def)
  ultimately show ?thesis
    using re assms(1) by (auto simp: generateExpression_def reload_chain_def)
qed

lemma reload_three_or:
  assumes "g_conditions g = [a, b, c]" and "list_all (printable fs) [a, b, c]"
    and "c_logicAfter a = Some ''OR''" and "c_logicAfter b = Some ''OR''"
    and "distinct (map (condition_node fs) [a, b, c])"
  shows "\<exists>g'. reload fresh (generateExpression g fs) = Some g' \<and>
    map c_logicAfter (g_conditions g') = [Some ''OR'', Some ''AND'', Some ''AND''] \<and>
    list_all (printable fs) (g_conditions g') \<and> linked (g_conditions g') \<and>
    (\<exists>env. group_holds fs env (g_conditions g) \<and> \<not> group_holds fs env (g_conditions g'))"
proof -
  let ?g' = "\<lparr> g_id = ''root'', g_conditions = reload_chain fs fresh [a, b, c] \<rparr>"
  have re: "reload fresh (generateExpression g fs) = Some ?g'"
    using reload_chain_generate [of g fs fresh] assms by simp
  have chain: "reload_chain fs fresh [a, b, c] = [reload_condition fs (fresh 0) ''OR'' a,
      reload_condition fs (fresh (Suc 0)) ''AND'' b, reload_condition fs (fresh (Suc (Suc 0))) ''AND'' c]"
    using assms(3) by (simp add: reload_chain_def reload_logic_def)
  define env where "env = (\<lambda>f op v. Comparison f op v = condition_node fs b)"
  have h: "holds fs env d \<longleftrightarrow> condition_node fs d = condition_node fs b" for d
    by (simp add: holds_def env_def condition_node_def)
  have "condition_node fs (reload_condition fs i l d) = condition_node fs d" if "printable fs d" for i l d
    using reload_condition_value [OF that] by (simp add: condition_node_def reload_condition_def)
  then have "\<not> group_holds fs env (g_conditions ?g')" and "group_holds fs env (g_conditions g)"
    using assms chain h by (auto simp: group_holds_def reload_condition_def)
  moreover have "list_all (printable fs) (reload_chain fs fresh [a, b, c])"
    using assms(2) chain by (simp add: reload_condition_printable)
  ultimately show ?thesis using re chain by (auto simp: reload_condition_def)
qed

section \<open>A concrete catalogue\<close>

text \<open>Three fields as the backend describes them, and four conditions over them.\<close>

definition op_named :: "string \<Rightarrow> operator_metadata" where
  "op_named op = \<lparr> op_value = op, op_label = op, op_symbol = op, op_description = None \<rparr>"

definition sample_fields :: fields where
  "sample_fields = convert_fields
     [\<lparr> fm_name = ''http.path'', fm_type = ''string'',
        fm_allowed_operators = map op_named [''eq'', ''prefix'', ''in''], fm_description = ''URL path'' \<rparr>,
      \<lparr> fm_name = ''asn'', fm_type = ''int'',
        fm_allowed_operators = map op_named [''eq'', ''in''], fm_description = ''ASN'' \<rparr>,
      \<lparr> fm_name = ''country'', fm_type = ''string'',
        fm_allowed_operators = map op_named [''eq'', ''neq''], fm_description = ''Country code'' \<rparr>]"

definition sample_condition :: "string \<Rightarrow> string \<Rightarrow> string \<Rightarrow> string list option \<Rightarrow> string \<Rightarrow> condition" where
  "sample_condition f op v vs l =
     \<lparr> c_id = ''cond-'' @ f, c_field = f, c_operator = op, c_value = v, c_values = vs,
       c_logicAfter = Some l \<rparr>"

definition sample_path :: "string \<Rightarrow> condition" where
  "sample_path l = sample_condition ''http.path'' ''prefix'' ''/admin'' None l"

definition sample_asn :: "string \<Rightarrow> condition" where
  "sample_asn l = sample_condition ''asn'' ''in'' [] (Some [''64500'', ''64501'']) l"

definition sample_country :: "string \<Rightarrow> condition" where
  "sample_country l = sample_condition ''country'' ''neq'' ''ID'' None l"

definition sample_group :: "string \<Rightarrow> string \<Rightarrow> condition_group" where
  "sample_group l1 l2 =
     \<lparr> g_id = ''root'', g_conditions = [sample_path l1, sample_asn l2, sample_country ''AND''] \<rparr>"

lemma sample_text:
  "generateExpression (sample_group ''AND'' ''OR'') sample_fields =
   ''http.path prefix '' @ quoted ''/admin'' @ '' and asn in [64500, 64501] or country neq '' @ quoted ''ID''"
  by code_simp

lemma sample_conditions:
  "g_conditions (sample_group l1 l2) = [sample_path l1, sample_asn l2, sample_country ''AND'']"
  by (simp add: sample_group_def)

section \<open>Properties\<close>

text \<open>C1: The text the builder generates is accepted by the backend and means what the group shows.
  For a non-empty group whose conditions are all printable and linked by \<open>AND\<close>/\<open>OR\<close>, the backend's
  lexer and parser succeed on the generated expression, and evaluating the resulting tree on any
  request yields exactly the meaning of the group: some maximal run of \<open>AND\<close>-linked conditions
  holds entirely.\<close>

theorem generated_expression_meaning:
  assumes "g_conditions g \<noteq> []" and "list_all (printable fs) (g_conditions g)"
    and "linked (g_conditions g)"
  shows "\<exists>nd. parse_rule (generateExpression g fs) = Inr nd \<and>
    (\<forall>env. evaluate env nd = Some (group_holds fs env (g_conditions g)))"
  using parse_generate [OF assms] evaluate_group [OF assms(1)] by auto

theorem generated_expression_meaning_witness:
  "\<exists>nd. parse_rule (generateExpression (sample_group ''AND'' ''OR'') sample_fields) = Inr nd \<and>
    (\<forall>env. evaluate env nd =
      Some (group_holds sample_fields env (g_conditions (sample_group ''AND'' ''OR''))))"
  by (rule generated_expression_meaning) code_simp+

text \<open>Exactly what comes back when a saved builder rule is opened again: the same conditions in
  the same order with their own comparisons, under fresh identifiers, where every \<open>logicAfter\<close> is
  \<open>AND\<close> except that of the first condition of a longer group, which keeps its \<open>OR\<close>.\<close>

theorem reload_generated_group:
  assumes "g_conditions g \<noteq> []" and "list_all (printable fs) (g_conditions g)"
    and "linked (g_conditions g)"
  shows "reload fresh (generateExpression g fs) =
    Some \<lparr> g_id = ''root'', g_conditions = reload_chain fs fresh (g_conditions g) \<rparr>"
  using assms by (rule reload_chain_generate)

theorem reload_generated_group_witness:
  "reload nat_to_string (generateExpression (sample_group ''OR'' ''AND'') sample_fields) =
    Some \<lparr> g_id = ''root'', g_conditions =
      reload_chain sample_fields nat_to_string (g_conditions (sample_group ''OR'' ''AND'')) \<rparr>"
  by (rule reload_generated_group) code_simp+

text \<open>C2: Round trip of the builder.  If no condition after the first one is followed by \<open>OR\<close>
  (conjunctions, and two-way disjunctions at the front), saving a group and opening it again gives a
  group that generates the same expression text.\<close>

theorem reload_roundtrip:
  assumes "g_conditions g = c # cs" and "list_all (printable fs) (c # cs)" and "linked (c # cs)"
    and "list_all (\<lambda>d. c_logicAfter d = Some ''AND'') (butlast cs)"
  shows "\<exists>g'. reload fresh (generateExpression g fs) = Some g' \<and>
    generateExpression g' fs = generateExpression g fs"
  using assms by (rule reload_same_text)

theorem reload_roundtrip_witness:
  "\<exists>g'. reload nat_to_string (generateExpression (sample_group ''OR'' ''AND'') sample_fields) = Some g' \<and>
    generateExpression g' sample_fields = generateExpression (sample_group ''OR'' ''AND'') sample_fields"
  by (rule reload_roundtrip [OF sample_conditions]) code_simp+

text \<open>A disjunction of three is not preserved.  For three printable conditions with different
  comparisons joined by \<open>OR\<close>, opening the saved rule shows the first still followed by \<open>OR\<close> and the
  second followed by \<open>AND\<close>, and some request matches the original rule but not the one the reopened
  builder would save.\<close>

theorem reload_loses_or:
  assumes "g_conditions g = [a, b, c]" and "list_all (printable fs) [a, b, c]"
    and "c_logicAfter a = Some ''OR''" and "c_logicAfter b = Some ''OR''"
    and "distinct (map (condition_node fs) [a, b, c])"
  shows "\<exists>g'. reload fresh (generateExpression g fs) = Some g' \<and>
    map c_logicAfter (g_conditions g') = [Some ''OR'', Some ''AND'', Some ''AND''] \<and>
    (\<exists>env. group_holds fs env (g_conditions g) \<and> \<not> group_holds fs env (g_conditions g'))"
  by (rule exE [OF reload_three_or [OF assms, of fresh]]) (rule exI, elim conjE, intro conjI, assumption+)

theorem reload_loses_or_witness:
  "\<exists>g'. reload nat_to_string (generateExpression (sample_group ''OR'' ''OR'') sample_fields) = Some g' \<and>
    map c_logicAfter (g_conditions g') = [Some ''OR'', Some ''AND'', Some ''AND''] \<and>
    (\<exists>env. group_holds sample_fields env (g_conditions (sample_group ''OR'' ''OR'')) \<and>
      \<not> group_holds sample_fields env (g_conditions g'))"
  by (rule reload_loses_or [OF sample_conditions]) code_simp+

lemma not_lexes: "lexes ''not'' [TokenLogical ''NOT'']"
proof -
  have "word_token ''not'' = TokenLogical ''NOT''" and "list_all word_char ''not''"
    and "go_letter (hd ''not'')" by code_simp+
  then show ?thesis using lexes_word [of "''not''"] by simp
qed

lemma generate_single:
  assumes "g_conditions g = [c]" and "printable fs c"
  shows "generateExpression g fs = part_text fs c"
  using assms
  by (simp add: generateExpression_def condition_parts_def condition_part_printable split: option.splits)

lemma parse_not:
  assumes "printable fs c"
  shows "parse_rule (''not '' @ part_text fs c) = Inr (Logical ''NOT'' (condition_node fs c) None)"
proof -
  let ?ts = "TokenLogical ''NOT'' # condition_tokens fs c @ [TokenEOF]"
  have "lexes (''not'' @ '' '' @ part_text fs c) ([TokenLogical ''NOT''] @ condition_tokens fs c)"
    using not_lexes part_text_lexes [OF assms] by (rule lexes_spaced)
  then have tok: "Tokenize (''not '' @ part_text fs c) = Inr ?ts"
    using tokenize_lexes by fastforce
  obtain m where m: "parse_fuel ?ts = Suc (Suc (Suc (Suc m)))"
    by (simp add: parse_fuel_def numeral_eq_Suc)
  have "parseFactor (Suc m) (condition_tokens fs c @ [TokenEOF]) = Inr (condition_node fs c, [TokenEOF])"
    using assms by (intro parseFactor_condition) auto
  then have "parseFactor (Suc (Suc m)) ?ts = Inr (Logical ''NOT'' (condition_node fs c) None, [TokenEOF])"
    by (subst parseFactor.simps) (simp add: current_def advance_def del: parseFactor.simps)
  then have "Parse ?ts = Inr (Logical ''NOT'' (condition_node fs c) None)"
    using m by (simp add: Parse_def current_def del: parseFactor.simps)
  then show ?thesis using tok by (simp add: parse_rule_def)
qed

text \<open>A negation is dropped.  The backend reads \<open>not E\<close>, for a printed condition \<open>E\<close>, as a rule
  that matches exactly when the condition fails; opening that rule in the builder, which is the
  default editor for stored rules, shows the bare condition, and saving it again stores \<open>E\<close>, the
  opposite rule.\<close>

theorem reload_drops_not:
  assumes "g_conditions g = [c]" and "printable fs c"
  shows "\<exists>nd g'. parse_rule (''not '' @ generateExpression g fs) = Inr nd \<and>
    (\<forall>env. evaluate env nd = Some (\<not> holds fs env c)) \<and>
    reload fresh (''not '' @ generateExpression g fs) = Some g' \<and>
    generateExpression g' fs = generateExpression g fs"
proof -
  let ?d = "reload_condition fs (fresh 0) ''NOT'' c"
  have up: "toUpperCase ''NOT'' = ''NOT''" by code_simp
  have p: "parse_rule (''not '' @ generateExpression g fs) = Inr (Logical ''NOT'' (condition_node fs c) None)"
    using parse_not [OF assms(2)] generate_single [OF assms] by simp
  then have "reload fresh (''not '' @ generateExpression g fs) =
      Some \<lparr> g_id = ''root'', g_conditions = [?d] \<rparr>"
    using up by (simp add: reload_def astToConditionGroup_def omitempty_def parse_comparison [OF assms(2)])
  moreover have "generateExpression \<lparr> g_id = ''root'', g_conditions = [?d] \<rparr> fs = generateExpression g fs"
    using generate_single [OF assms] reload_condition_part [OF assms(2)]
    by (simp add: generateExpression_def condition_parts_def split: option.splits)
  ultimately show ?thesis
    using p by (auto simp: condition_node_def holds_def)
qed

theorem reload_drops_not_witness:
  "\<exists>nd g'. parse_rule (''not '' @ generateExpression
      \<lparr> g_id = ''root'', g_conditions = [sample_country ''AND''] \<rparr> sample_fields) = Inr nd \<and>
    (\<forall>env. evaluate env nd = Some (\<not> holds sample_fields env (sample_country ''AND''))) \<and>
    reload nat_to_string (''not '' @ generateExpression
      \<lparr> g_id = ''root'', g_conditions = [sample_country ''AND''] \<rparr> sample_fields) = Some g' \<and>
    generateExpression g' sample_fields =
      generateExpression \<lparr> g_id = ''root'', g_conditions = [sample_country ''AND''] \<rparr> sample_fields"
  by (rule reload_drops_not) (simp, code_simp)


text \<open>The numbers one and zero come back as Booleans.  The builder prints the number as typed, the
  backend's lexer turns the numerals \<open>1\<close> and \<open>0\<close> into \<open>true\<close> and \<open>false\<close>, so the stored comparison, and
  the value shown when the rule is opened again, is not the one entered.\<close>

theorem number_one_becomes_true:
  "parse_rule (generateExpression \<lparr> g_id = ''root'', g_conditions =
       [sample_condition ''asn'' ''eq'' ''1'' None ''AND''] \<rparr> sample_fields) =
     Inr (Comparison ''asn'' ''eq'' (TextValue ''true'')) \<and>
   map_option (map c_value \<circ> g_conditions) (reload nat_to_string
     (generateExpression \<lparr> g_id = ''root'', g_conditions =
       [sample_condition ''asn'' ''eq'' ''1'' None ''AND''] \<rparr> sample_fields)) = Some [''true'']"
  by code_simp

end
