(* ===== verification/Api_Router.thy ===== *)
theory Api_Router
  imports Api_Client
begin

text \<open>
  The server's side of the API client: the request router of \<open>src/internal/api/v1/router.go\<close>
  (\<open>handleAPIRoutes\<close> and the ten \<open>handle...Routes\<close> methods it dispatches to, condition by
  condition and in order) and the functions with which the handlers take an identifier from the
  path (\<open>extractIDFromPath\<close>, \<open>extractAppID\<close>, \<open>extractIDFromRuleAppPath\<close>,
  \<open>extractIDFromIPAccessPath\<close>, \<open>extractDomainFromPath\<close>).  A handler is named by a constructor;
  \<open>Authenticated\<close> marks the ones behind the authentication middleware.

  The properties show that every operation of the client reaches the handler it is meant for, with the
  identifiers the client was given, and for which application identifiers this fails.
\<close>

section \<open>Strings\<close>

definition hasSuffix :: "string \<Rightarrow> string \<Rightarrow> bool" where
  "hasSuffix s t \<longleftrightarrow> suffix t s"

definition trimPrefix :: "string \<Rightarrow> string \<Rightarrow> string" where
  "trimPrefix s p = (if prefix p s then drop (length p) s else s)"

text \<open>\<open>strings.Cut\<close>: what stands before and after the first occurrence of a separator.\<close>

fun cut_at :: "string \<Rightarrow> string \<Rightarrow> (string \<times> string) option" where
  "cut_at sep [] = (if sep = [] then Some ([], []) else None)"
| "cut_at sep (c # s) =
     (if prefix sep (c # s) then Some ([], drop (length sep) (c # s))
      else map_option (\<lambda>(b, a). (c # b, a)) (cut_at sep s))"

text \<open>\<open>strings.Split(s, sep)[1]\<close>, if there is one.\<close>

definition split_second :: "string \<Rightarrow> string \<Rightarrow> string option" where
  "split_second sep s =
     (case cut_at sep s of
        None \<Rightarrow> None
      | Some (_, r) \<Rightarrow> (case cut_at sep r of None \<Rightarrow> Some r | Some (b, _) \<Rightarrow> Some b))"

section \<open>Handlers and routes\<close>

datatype rule_op =
    Rule_GetFieldMetadata
  | Rule_ValidateExpression
  | Rule_GetRuleEvents
  | Rule_ReorderRules
  | Rule_CreateRule
  | Rule_ListRules
  | Rule_GetRule
  | Rule_UpdateRule
  | Rule_DeleteRule
  | Rule_ReorderForApp
  | Rule_ListByApp
  | Rule_CreateForApp
  | Rule_UpdateForApp
  | Rule_DeleteForApp

datatype app_op =
    App_CreateApp
  | App_ListApps
  | App_GetApp
  | App_ToggleUnderAttackMode
  | App_UpdateApp
  | App_DeleteApp

datatype ipaccess_op =
    IpAccess_List
  | IpAccess_Create
  | IpAccess_Update
  | IpAccess_Delete

datatype log_op =
    Log_ListLogs

datatype ratelimit_op =
    RateLimit_GetRateLimitConfig
  | RateLimit_UpdateRateLimitConfig
  | RateLimit_GetStats

datatype botpattern_op =
    BotPattern_List
  | BotPattern_Create
  | BotPattern_BulkDelete
  | BotPattern_BulkCreate
  | BotPattern_BulkUpdate
  | BotPattern_Update
  | BotPattern_Delete

datatype botiprange_op =
    BotIPRange_List
  | BotIPRange_Create
  | BotIPRange_Sync
  | BotIPRange_Update
  | BotIPRange_Delete

datatype ipreputation_op =
    IpReputation_GetConfig
  | IpReputation_UpdateConfig
  | IpReputation_SyncSpamhaus
  | IpReputation_List
  | IpReputation_Create
  | IpReputation_BulkDelete
  | IpReputation_BulkUpdateScore
  | IpReputation_Update
  | IpReputation_Delete

datatype settings_op =
    Settings_GetBotConfig
  | Settings_UpdateBotConfig
  | Settings_GetWAFConfig
  | Settings_UpdateWAFConfig
  | Settings_GetScoringConfig
  | Settings_UpdateScoringConfig
  | Settings_GetProtocolAnomalyConfig
  | Settings_UpdateProtocolAnomalyConfig

datatype analytics_op =
    Analytics_GetTrafficAnalytics
  | Analytics_GetTopThreats
  | Analytics_GetDashboardInsights
  | Analytics_GetChallengeStats
  | Analytics_GetTopBlockedBots
  | Analytics_GetWAFStats
  | Analytics_GetCacheAnalytics
  | Analytics_GetThreatIPs
  | Analytics_GetWAFRuleIntel
  | Analytics_GetThreatSummary
  | Analytics_GetCustomRuleIntel

datatype fingerprint_op =
    Fingerprint_GetJA4Fingerprints
  | Fingerprint_GetJA4Detail string
  | Fingerprint_ExportJA4Fingerprints

datatype auth_op =
    Auth_NeedsSetup
  | Auth_Setup
  | Auth_Login
  | Auth_Logout
  | Auth_Me
  | Auth_ChangePassword

datatype certificate_op =
    Certificate_ListCertificates
  | Certificate_IssueCertificate
  | Certificate_SyncFromFilesystem
  | Certificate_BulkDeleteCertificates
  | Certificate_EnableWildcard
  | Certificate_VerifyWildcardDNS
  | Certificate_IssueWildcardCert
  | Certificate_RenewCertificate
  | Certificate_ValidateCertificate
  | Certificate_ToggleAutoRenew
  | Certificate_GetCertificateLogs
  | Certificate_DisableWildcard
  | Certificate_GetCertificate
  | Certificate_DeleteCertificate

datatype handler =
    RuleHandler rule_op
  | AppHandler app_op
  | IpAccessHandler ipaccess_op
  | LogHandler log_op
  | RateLimitHandler ratelimit_op
  | BotPatternHandler botpattern_op
  | BotIPRangeHandler botiprange_op
  | IpReputationHandler ipreputation_op
  | SettingsHandler settings_op
  | AnalyticsHandler analytics_op
  | FingerprintHandler fingerprint_op
  | AuthHandler auth_op
  | CertificateHandler certificate_op
  | PerformanceHandler_GetStats
  | CacheHandler_GetStats
  | Method_Not_Allowed
  | Not_Found

definition handleAppIPAccessRoutes :: "http_method \<Rightarrow> string \<Rightarrow> handler" where
  "handleAppIPAccessRoutes m p =
     (if hasSuffix p ''/ip-access-rules'' \<and> m = GET then IpAccessHandler IpAccess_List
      else if hasSuffix p ''/ip-access-rules'' \<and> m = POST then IpAccessHandler IpAccess_Create
      else if str_includes p ''/ip-access-rules/'' \<and> m = PUT then IpAccessHandler IpAccess_Update
      else if str_includes p ''/ip-access-rules/'' \<and> m = DELETE then IpAccessHandler IpAccess_Delete
      else Method_Not_Allowed)"

definition handleAppRuleRoutes :: "http_method \<Rightarrow> string \<Rightarrow> handler" where
  "handleAppRuleRoutes m p =
     (if hasSuffix p ''/rules/reorder'' \<and> m = POST then RuleHandler Rule_ReorderForApp
      else if hasSuffix p ''/rules'' \<and> m = GET then RuleHandler Rule_ListByApp
      else if hasSuffix p ''/rules'' \<and> m = POST then RuleHandler Rule_CreateForApp
      else if str_includes p ''/rules/'' \<and> m = PUT then RuleHandler Rule_UpdateForApp
      else if str_includes p ''/rules/'' \<and> m = DELETE then RuleHandler Rule_DeleteForApp
      else Method_Not_Allowed)"

definition handleRuleRoutes :: "http_method \<Rightarrow> string \<Rightarrow> handler" where
  "handleRuleRoutes m p =
     (if p = ''/api/v1/rules/fields'' \<and> m = GET then RuleHandler Rule_GetFieldMetadata
      else if p = ''/api/v1/rules/validate'' \<and> m = POST then RuleHandler Rule_ValidateExpression
      else if p = ''/api/v1/rules/events'' \<and> m = GET then RuleHandler Rule_GetRuleEvents
      else if p = ''/api/v1/rules/reorder'' \<and> m = POST then RuleHandler Rule_ReorderRules
      else if p = ''/api/v1/rules'' \<and> m = POST then RuleHandler Rule_CreateRule
      else if p = ''/api/v1/rules'' \<and> m = GET then RuleHandler Rule_ListRules
      else if startsWith p ''/api/v1/rules/'' \<and> m = GET then RuleHandler Rule_GetRule
      else if startsWith p ''/api/v1/rules/'' \<and> m = PUT then RuleHandler Rule_UpdateRule
      else if startsWith p ''/api/v1/rules/'' \<and> m = DELETE then RuleHandler Rule_DeleteRule
      else Method_Not_Allowed)"

definition handleAppRoutes :: "http_method \<Rightarrow> string \<Rightarrow> handler" where
  "handleAppRoutes m p =
     (if p = ''/api/v1/apps'' \<and> m = POST then AppHandler App_CreateApp
      else if p = ''/api/v1/apps'' \<and> m = GET then AppHandler App_ListApps
      else if startsWith p ''/api/v1/apps/'' \<and> m = GET \<and> \<not> str_includes (drop (length ''/api/v1/apps/'') p) ''/'' then AppHandler App_GetApp
      else if hasSuffix p ''/under-attack'' \<and> m = PUT then AppHandler App_ToggleUnderAttackMode
      else if str_includes p ''/ip-access-rules'' then handleAppIPAccessRoutes m p
      else if str_includes p ''/rules'' then handleAppRuleRoutes m p
      else if startsWith p ''/api/v1/apps/'' \<and> m = GET then AppHandler App_GetApp
      else if startsWith p ''/api/v1/apps/'' \<and> m = PUT then AppHandler App_UpdateApp
      else if startsWith p ''/api/v1/apps/'' \<and> m = DELETE then AppHandler App_DeleteApp
      else Method_Not_Allowed)"

definition handleLogRoutes :: "http_method \<Rightarrow> string \<Rightarrow> handler" where
  "handleLogRoutes m p =
     (if p = ''/api/v1/logs'' \<and> m = GET then LogHandler Log_ListLogs
      else Method_Not_Allowed)"

definition handleRateLimitRoutes :: "http_method \<Rightarrow> string \<Rightarrow> handler" where
  "handleRateLimitRoutes m p =
     (if p = ''/api/v1/rate-limit'' \<and> m = GET then RateLimitHandler RateLimit_GetRateLimitConfig
      else if p = ''/api/v1/rate-limit'' \<and> m = PUT then RateLimitHandler RateLimit_UpdateRateLimitConfig
      else if p = ''/api/v1/rate-limit/stats'' \<and> m = GET then RateLimitHandler RateLimit_GetStats
      else Method_Not_Allowed)"

definition handleBotPatternRoutes :: "http_method \<Rightarrow> string \<Rightarrow> handler" where
  "handleBotPatternRoutes m p =
     (if p = ''/api/v1/bot-patterns'' \<and> m = GET then BotPatternHandler BotPattern_List
      else if p = ''/api/v1/bot-patterns'' \<and> m = POST then BotPatternHandler BotPattern_Create
      else if p = ''/api/v1/bot-patterns/bulk-delete'' \<and> m = POST then BotPatternHandler BotPattern_BulkDelete
      else if p = ''/api/v1/bot-patterns/bulk-create'' \<and> m = POST then BotPatternHandler BotPattern_BulkCreate
      else if p = ''/api/v1/bot-patterns/bulk-update'' \<and> m = PUT then BotPatternHandler BotPattern_BulkUpdate
      else if startsWith p ''/api/v1/bot-patterns/'' \<and> m = PUT then BotPatternHandler BotPattern_Update
      else if startsWith p ''/api/v1/bot-patterns/'' \<and> m = DELETE then BotPatternHandler BotPattern_Delete
      else Method_Not_Allowed)"

definition handleBotIPRangeRoutes :: "http_method \<Rightarrow> string \<Rightarrow> handler" where
  "handleBotIPRangeRoutes m p =
     (if p = ''/api/v1/bot-ip-ranges'' \<and> m = GET then BotIPRangeHandler BotIPRange_List
      else if p = ''/api/v1/bot-ip-ranges'' \<and> m = POST then BotIPRangeHandler BotIPRange_Create
      else if hasSuffix p ''/sync'' \<and> m = POST then BotIPRangeHandler BotIPRange_Sync
      else if startsWith p ''/api/v1/bot-ip-ranges/'' \<and> m = PUT then BotIPRangeHandler BotIPRange_Update
      else if startsWith p ''/api/v1/bot-ip-ranges/'' \<and> m = DELETE then BotIPRangeHandler BotIPRange_Delete
      else Method_Not_Allowed)"

definition handleIPReputationRoutes :: "http_method \<Rightarrow> string \<Rightarrow> handler" where
  "handleIPReputationRoutes m p =
     (if p = ''/api/v1/ip-reputation/config'' \<and> m = GET then IpReputationHandler IpReputation_GetConfig
      else if p = ''/api/v1/ip-reputation/config'' \<and> m = PUT then IpReputationHandler IpReputation_UpdateConfig
      else if p = ''/api/v1/ip-reputation/sync-spamhaus'' \<and> m = POST then IpReputationHandler IpReputation_SyncSpamhaus
      else if p = ''/api/v1/ip-reputation'' \<and> m = GET then IpReputationHandler IpReputation_List
      else if p = ''/api/v1/ip-reputation'' \<and> m = POST then IpReputationHandler IpReputation_Create
      else if p = ''/api/v1/ip-reputation/bulk-delete'' \<and> m = POST then IpReputationHandler IpReputation_BulkDelete
      else if p = ''/api/v1/ip-reputation/bulk-update-score'' \<and> m = POST then IpReputationHandler IpReputation_BulkUpdateScore
      else if startsWith p ''/api/v1/ip-reputation/'' \<and> m = PUT then IpReputationHandler IpReputation_Update
      else if startsWith p ''/api/v1/ip-reputation/'' \<and> m = DELETE then IpReputationHandler IpReputation_Delete
      else Method_Not_Allowed)"

definition handleSettingsRoutes :: "http_method \<Rightarrow> string \<Rightarrow> handler" where
  "handleSettingsRoutes m p =
     (if p = ''/api/v1/settings/bot'' \<and> m = GET then SettingsHandler Settings_GetBotConfig
      else if p = ''/api/v1/settings/bot'' \<and> m = PUT then SettingsHandler Settings_UpdateBotConfig
      else if p = ''/api/v1/settings/waf'' \<and> m = GET then SettingsHandler Settings_GetWAFConfig
      else if p = ''/api/v1/settings/waf'' \<and> m = PUT then SettingsHandler Settings_UpdateWAFConfig
      else if p = ''/api/v1/settings/scoring'' \<and> m = GET then SettingsHandler Settings_GetScoringConfig
      else if p = ''/api/v1/settings/scoring'' \<and> m = PUT then SettingsHandler Settings_UpdateScoringConfig
      else if p = ''/api/v1/settings/protocol-anomaly'' \<and> m = GET then SettingsHandler Settings_GetProtocolAnomalyConfig
      else if p = ''/api/v1/settings/protocol-anomaly'' \<and> m = PUT then SettingsHandler Settings_UpdateProtocolAnomalyConfig
      else Method_Not_Allowed)"

definition handleAnalyticsRoutes :: "http_method \<Rightarrow> string \<Rightarrow> handler" where
  "handleAnalyticsRoutes m p =
     (if p = ''/api/v1/analytics/traffic'' \<and> m = GET then AnalyticsHandler Analytics_GetTrafficAnalytics
      else if p = ''/api/v1/analytics/threats'' \<and> m = GET then AnalyticsHandler Analytics_GetTopThreats
      else if p = ''/api/v1/analytics/insights'' \<and> m = GET then AnalyticsHandler Analytics_GetDashboardInsights
      else if p = ''/api/v1/analytics/challenge-stats'' \<and> m = GET then AnalyticsHandler Analytics_GetChallengeStats
      else if p = ''/api/v1/analytics/top-blocked-bots'' \<and> m = GET then AnalyticsHandler Analytics_GetTopBlockedBots
      else if p = ''/api/v1/analytics/waf-stats'' \<and> m = GET then AnalyticsHandler Analytics_GetWAFStats
      else if p = ''/api/v1/analytics/cache'' \<and> m = GET then AnalyticsHandler Analytics_GetCacheAnalytics
      else if p = ''/api/v1/analytics/threat-intel/ips'' \<and> m = GET then AnalyticsHandler Analytics_GetThreatIPs
      else if p = ''/api/v1/analytics/threat-intel/waf-rules'' \<and> m = GET then AnalyticsHandler Analytics_GetWAFRuleIntel
      else if p = ''/api/v1/analytics/threat-intel/summary'' \<and> m = GET then AnalyticsHandler Analytics_GetThreatSummary
      else if p = ''/api/v1/analytics/threat-intel/custom-rules'' \<and> m = GET then AnalyticsHandler Analytics_GetCustomRuleIntel
      else if p = ''/api/v1/analytics/fingerprints'' \<and> m = GET then FingerprintHandler Fingerprint_GetJA4Fingerprints
      else Method_Not_Allowed)"

definition handleAuthRoutes :: "http_method \<Rightarrow> string \<Rightarrow> handler" where
  "handleAuthRoutes m p =
     (if p = ''/api/v1/auth/setup'' \<and> m = GET then AuthHandler Auth_NeedsSetup
      else if p = ''/api/v1/auth/setup'' \<and> m = POST then AuthHandler Auth_Setup
      else if p = ''/api/v1/auth/login'' \<and> m = POST then AuthHandler Auth_Login
      else if p = ''/api/v1/auth/logout'' \<and> m = POST then AuthHandler Auth_Logout
      else if p = ''/api/v1/auth/me'' \<and> m = GET then AuthHandler Auth_Me
      else if p = ''/api/v1/auth/change-password'' \<and> m = PUT then AuthHandler Auth_ChangePassword
      else Method_Not_Allowed)"

definition handleCertificateRoutes :: "http_method \<Rightarrow> string \<Rightarrow> handler" where
  "handleCertificateRoutes m p =
     (if p = ''/api/v1/certificates'' \<and> m = GET then CertificateHandler Certificate_ListCertificates
      else if p = ''/api/v1/certificates'' \<and> m = POST then CertificateHandler Certificate_IssueCertificate
      else if p = ''/api/v1/certificates/sync'' \<and> m = POST then CertificateHandler Certificate_SyncFromFilesystem
      else if p = ''/api/v1/certificates/bulk-delete'' \<and> m = POST then CertificateHandler Certificate_BulkDeleteCertificates
      else if p = ''/api/v1/certificates/wildcard/enable'' \<and> m = POST then CertificateHandler Certificate_EnableWildcard
      else if p = ''/api/v1/certificates/wildcard/verify'' \<and> m = POST then CertificateHandler Certificate_VerifyWildcardDNS
      else if p = ''/api/v1/certificates/wildcard/issue'' \<and> m = POST then CertificateHandler Certificate_IssueWildcardCert
      else if hasSuffix p ''/renew'' \<and> m = POST then CertificateHandler Certificate_RenewCertificate
      else if hasSuffix p ''/validate'' \<and> m = POST then CertificateHandler Certificate_ValidateCertificate
      else if hasSuffix p ''/auto-renew'' \<and> m = PUT then CertificateHandler Certificate_ToggleAutoRenew
      else if hasSuffix p ''/logs'' \<and> m = GET then CertificateHandler Certificate_GetCertificateLogs
      else if hasSuffix p ''/wildcard/disable'' \<and> m = POST then CertificateHandler Certificate_DisableWildcard
      else if startsWith p ''/api/v1/certificates/'' \<and> m = GET then CertificateHandler Certificate_GetCertificate
      else if startsWith p ''/api/v1/certificates/'' \<and> m = DELETE then CertificateHandler Certificate_DeleteCertificate
      else Method_Not_Allowed)"

datatype routed = Public handler | Authenticated handler

definition handleAPIRoutes :: "http_method \<Rightarrow> string \<Rightarrow> routed" where
  "handleAPIRoutes m p =
     (if startsWith p ''/api/v1/auth'' then Public (handleAuthRoutes m p)
      else if startsWith p ''/api/v1/rules'' then Authenticated (handleRuleRoutes m p)
      else if startsWith p ''/api/v1/apps'' then Authenticated (handleAppRoutes m p)
      else if startsWith p ''/api/v1/logs'' then Authenticated (handleLogRoutes m p)
      else if startsWith p ''/api/v1/rate-limit'' then Authenticated (handleRateLimitRoutes m p)
      else if startsWith p ''/api/v1/bot-ip-ranges'' then Authenticated (handleBotIPRangeRoutes m p)
      else if startsWith p ''/api/v1/bot-patterns'' then Authenticated (handleBotPatternRoutes m p)
      else if startsWith p ''/api/v1/ip-reputation'' then Authenticated (handleIPReputationRoutes m p)
      else if startsWith p ''/api/v1/settings'' then Authenticated (handleSettingsRoutes m p)
      else if startsWith p ''/api/v1/analytics'' then Authenticated (handleAnalyticsRoutes m p)
      else if startsWith p ''/api/v1/certificates'' then Authenticated (handleCertificateRoutes m p)
      else if p = ''/api/v1/performance/stats'' \<and> m = GET then Authenticated PerformanceHandler_GetStats
      else if p = ''/api/v1/cache/stats'' \<and> m = GET then Authenticated CacheHandler_GetStats
      else Public Not_Found)"

text \<open>The whole of it for one call of the client on the dashboard's host: the path is the part of the
  target before the query, percent-decoded; a malformed escape is refused before routing.\<close>

definition route_call :: "api_call \<Rightarrow> routed option" where
  "route_call call =
     map_option (handleAPIRoutes (call_method call)) (unescape False (target_path (fst call)))"

definition call_path :: "api_call \<Rightarrow> string" where
  "call_path call = (case unescape False (target_path (fst call)) of None \<Rightarrow> [] | Some p \<Rightarrow> p)"

section \<open>Identifiers from paths\<close>

definition extractIDFromPath :: "string \<Rightarrow> string \<Rightarrow> int option" where
  "extractIDFromPath path pre = atoi (trimPrefix path pre)"

definition extractAppID :: "string \<Rightarrow> string" where
  "extractAppID path =
     (let parts = split_on (CHR ''/'') (trimPrefix path ''/api/v1/apps/'')
      in if length parts > 0 then parts ! 0 else [])"

definition extractAppIDFromRulePath :: "string \<Rightarrow> string" where
  "extractAppIDFromRulePath path =
     (let parts = split_on (CHR ''/'') (trimPrefix path ''/api/v1/apps/'')
      in if length parts > 0 then parts ! 0 else [])"

definition extractIDFromIPAccessPath :: "string \<Rightarrow> int option" where
  "extractIDFromIPAccessPath path =
     (case split_second ''/ip-access-rules/'' path of
        None \<Rightarrow> None
      | Some r \<Rightarrow> atoi (split_on (CHR ''/'') r ! 0))"

definition extractIDFromRuleAppPath :: "string \<Rightarrow> int option" where
  "extractIDFromRuleAppPath path =
     (case split_second ''/rules/'' path of
        None \<Rightarrow> None
      | Some r \<Rightarrow> atoi (split_on (CHR ''/'') r ! 0))"

definition extractDomainFromPath :: "string \<Rightarrow> string \<Rightarrow> string" where
  "extractDomainFromPath path pre = split_on (CHR ''/'') (trimPrefix path pre) ! 0"

section \<open>Lemmas on path segments\<close>

text \<open>A segment that needs no escape: letters, digits, hyphens, underscores, dots.\<close>

definition plain_segment :: "string \<Rightarrow> bool" where
  "plain_segment s \<longleftrightarrow> s \<noteq> [] \<and> list_all (\<lambda>c. is_alnum c \<or> c \<in> set ''-_.'') s"

lemma plain_segment_chars:
  assumes "plain_segment s" and "c \<in> set s"
  shows "c \<noteq> CHR ''/'' \<and> c \<noteq> CHR ''?'' \<and> c \<noteq> CHR ''#'' \<and> c \<noteq> CHR ''%''"
  using assms by (auto simp: plain_segment_def list_all_iff is_alnum_def Let_def)

lemma plain_segment_int: "plain_segment (int_to_string i)"
proof -
  have "is_digit c \<Longrightarrow> is_alnum c" for c by (simp add: is_digit_def is_alnum_def Let_def)
  then show ?thesis
    using int_to_string_chars by (fastforce simp: plain_segment_def list_all_iff)
qed

lemma plain_segment_ne [simp]: "plain_segment s \<Longrightarrow> s \<noteq> []"
  by (simp add: plain_segment_def)

lemma target_plain:
  assumes "\<forall>c \<in> set p. c \<noteq> CHR ''?'' \<and> c \<noteq> CHR ''#'' \<and> c \<noteq> CHR ''%''"
  shows "unescape False (target_path p) = Some p"
proof -
  have "target_path p = p" using assms by (simp add: plain_path_def)
  moreover have "CHR ''%'' \<notin> set p" using assms by auto
  ultimately show ?thesis by (simp add: unescape_no_pct)
qed

lemma target_query_cut:
  assumes "\<forall>c \<in> set p. c \<noteq> CHR ''?'' \<and> c \<noteq> CHR ''#'' \<and> c \<noteq> CHR ''%''"
  shows "unescape False (target_path (p @ CHR ''?'' # q)) = Some p"
proof -
  have "target_path (p @ CHR ''?'' # q) = p" using assms by (simp add: plain_path_def)
  moreover have "CHR ''%'' \<notin> set p" using assms by auto
  ultimately show ?thesis by (simp add: unescape_no_pct)
qed

lemma includes_slash_segment [simp]:
  "CHR ''/'' \<notin> set s \<Longrightarrow> str_includes s (CHR ''/'' # t) = False"
  by (induction s) auto

lemma includes_slash_skip [simp]:
  "CHR ''/'' \<notin> set s \<Longrightarrow> str_includes (s @ r) (CHR ''/'' # t) = str_includes r (CHR ''/'' # t)"
  by (induction s) auto

lemma prefix_segment:
  "CHR ''/'' \<notin> set t \<Longrightarrow> prefix t (s @ CHR ''/'' # r) = prefix t s"
proof (induction t arbitrary: s)
  case (Cons c t)
  then show ?case by (cases s) auto
qed simp

lemma suffix_segment:
  assumes "CHR ''/'' \<notin> set s" and "CHR ''/'' \<notin> set t"
  shows "suffix (CHR ''/'' # t) (p @ CHR ''/'' # s) \<longleftrightarrow> t = s"
proof
  assume "suffix (CHR ''/'' # t) (p @ CHR ''/'' # s)"
  then obtain q where "p @ CHR ''/'' # s = q @ CHR ''/'' # t" by (auto simp: suffix_def)
  then show "t = s" using assms by (auto simp: append_eq_append_conv2 Cons_eq_append_conv append_eq_Cons_conv)
qed (simp add: suffix_def)

text \<open>The simplification set that decides a condition of the router on a path whose identifiers are
  plain segments.\<close>

lemmas route_defs = route_call_def handleAPIRoutes_def handleRuleRoutes_def handleAppRoutes_def
  handleAppIPAccessRoutes_def handleAppRuleRoutes_def handleLogRoutes_def handleRateLimitRoutes_def
  handleBotPatternRoutes_def handleBotIPRangeRoutes_def handleIPReputationRoutes_def
  handleSettingsRoutes_def handleAnalyticsRoutes_def handleCertificateRoutes_def startsWith_def

lemma int_to_string_not_literal:
  "\<not> (is_digit (hd w) \<or> hd w = CHR ''-'') \<Longrightarrow> w \<noteq> [] \<Longrightarrow> int_to_string i \<noteq> w"
  using int_to_string_chars [of "hd w" i] hd_in_set [of w] by auto

lemma trimPrefix_append [simp]: "trimPrefix (p @ s) p = s"
  by (simp add: trimPrefix_def)

lemma int_to_string_safe:
  "\<forall>c \<in> set (int_to_string i). c \<noteq> CHR ''?'' \<and> c \<noteq> CHR ''#'' \<and> c \<noteq> CHR ''%''"
  using int_to_string_plain by blast

section \<open>Rules\<close>

text \<open>Every operation on the global rules reaches its handler, behind authentication, and the
  handlers with an identifier in the path read the rule number the client was given.\<close>

theorem rule_endpoints_routed:
  assumes "- (2 ^ 63) \<le> i" and "i < 2 ^ 63"
  shows "route_call rules_list = Some (Authenticated (RuleHandler Rule_ListRules)) \<and>
    route_call (rules_get i) = Some (Authenticated (RuleHandler Rule_GetRule)) \<and>
    route_call (rules_create d) = Some (Authenticated (RuleHandler Rule_CreateRule)) \<and>
    route_call (rules_update i d) = Some (Authenticated (RuleHandler Rule_UpdateRule)) \<and>
    route_call (rules_delete i) = Some (Authenticated (RuleHandler Rule_DeleteRule)) \<and>
    route_call (rules_validate e) = Some (Authenticated (RuleHandler Rule_ValidateExpression)) \<and>
    route_call (rules_reorder ids) = Some (Authenticated (RuleHandler Rule_ReorderRules)) \<and>
    extractIDFromPath (call_path (rules_get i)) ''/api/v1/rules/'' = Some i \<and>
    extractIDFromPath (call_path (rules_update i d)) ''/api/v1/rules/'' = Some i \<and>
    extractIDFromPath (call_path (rules_delete i)) ''/api/v1/rules/'' = Some i"
proof -
  have safe: "\<forall>c \<in> set (''/api/v1/rules/'' @ int_to_string i). c \<noteq> CHR ''?'' \<and> c \<noteq> CHR ''#'' \<and> c \<noteq> CHR ''%''"
    using int_to_string_safe by auto
  have path: "unescape False (target_path (''/api/v1/rules/'' @ int_to_string i)) =
      Some (''/api/v1/rules/'' @ int_to_string i)"
    using safe by (rule target_plain)
  have lit: "int_to_string i \<noteq> ''fields''" "int_to_string i \<noteq> ''events''"
    by (rule int_to_string_not_literal; simp add: is_digit_def)+
  have fixed: "unescape False (target_path ''/api/v1/rules'') = Some ''/api/v1/rules''"
    "unescape False (target_path ''/api/v1/rules/validate'') = Some ''/api/v1/rules/validate''"
    "unescape False (target_path ''/api/v1/rules/reorder'') = Some ''/api/v1/rules/reorder''"
    by (simp_all add: target_path_def)
  have id: "extractIDFromPath (''/api/v1/rules/'' @ int_to_string i) ''/api/v1/rules/'' = Some i"
    using assms unfolding extractIDFromPath_def trimPrefix_append by (rule atoi_int_to_string)
  show ?thesis
    using path lit fixed id
    by (simp add: route_defs call_path_def rules_list_def rules_get_def rules_create_def rules_update_def
        rules_delete_def rules_validate_def rules_reorder_def)
qed

theorem rule_endpoints_routed_witness:
  "route_call (rules_update 7 (JObj [])) = Some (Authenticated (RuleHandler Rule_UpdateRule)) \<and>
   extractIDFromPath (call_path (rules_update 7 (JObj []))) ''/api/v1/rules/'' = Some 7"
  using rule_endpoints_routed [of 7 "JObj []"] by simp

section \<open>Applications\<close>

definition safe_path :: "string \<Rightarrow> bool" where
  "safe_path p \<longleftrightarrow> list_all (\<lambda>c. c \<noteq> CHR ''?'' \<and> c \<noteq> CHR ''#'' \<and> c \<noteq> CHR ''%'') p"

lemma safe_path_append [simp]: "safe_path (p @ q) \<longleftrightarrow> safe_path p \<and> safe_path q"
  by (simp add: safe_path_def)

lemma safe_path_segment [simp]: "plain_segment s \<Longrightarrow> safe_path s"
  using plain_segment_chars by (auto simp: safe_path_def list_all_iff)

lemma safe_path_int [simp]: "safe_path (int_to_string i)"
  by (simp add: plain_segment_int)

lemma target_safe: "safe_path p \<Longrightarrow> unescape False (target_path p) = Some p"
  by (rule target_plain) (auto simp: safe_path_def list_all_iff)

lemma route_safe: "safe_path (fst call) \<Longrightarrow> route_call call = Some (handleAPIRoutes (call_method call) (fst call))"
  by (simp add: route_call_def target_safe)

lemma call_path_safe: "safe_path (fst call) \<Longrightarrow> call_path call = fst call"
  by (simp add: call_path_def target_safe)

lemma safe_literal [simp]: "safe_path (c # s) \<longleftrightarrow> c \<noteq> CHR ''?'' \<and> c \<noteq> CHR ''#'' \<and> c \<noteq> CHR ''%'' \<and> safe_path s"
  "safe_path []"
  by (simp_all add: safe_path_def)

text \<open>Below \<open>/api/v1/apps\<close> the router goes to \<open>handleAppRoutes\<close>.\<close>

lemma handleAPIRoutes_apps:
  "handleAPIRoutes m (''/api/v1/apps'' @ r) = Authenticated (handleAppRoutes m (''/api/v1/apps'' @ r))"
  by (simp add: handleAPIRoutes_def startsWith_def)

text \<open>The identifiers for which the routes below an application are unambiguous.\<close>

definition routable_app :: "string \<Rightarrow> bool" where
  "routable_app a \<longleftrightarrow> plain_segment a \<and> \<not> prefix ''rules'' a \<and> \<not> prefix ''ip-access-rules'' a \<and>
     a \<noteq> ''under-attack''"

lemma routable_no_slash: "plain_segment a \<Longrightarrow> CHR ''/'' \<notin> set a"
  using plain_segment_chars by blast

lemma int_no_slash: "CHR ''/'' \<notin> set (int_to_string i)"
  using int_to_string_plain by blast

lemma hasSuffix_lit: "hasSuffix (p @ q @ t) t"
  by (auto simp: hasSuffix_def suffix_def)

lemma suffix_app:
  "plain_segment a \<Longrightarrow> CHR ''/'' \<notin> set t \<Longrightarrow> hasSuffix (''/api/v1/apps/'' @ a) (CHR ''/'' # t) \<longleftrightarrow> a = t"
  using suffix_segment [OF routable_no_slash, of a t "''/api/v1/apps''"] by (auto simp: hasSuffix_def)

lemma suffix_after_slash:
  "CHR ''/'' \<notin> set s \<Longrightarrow> CHR ''/'' \<notin> set t \<Longrightarrow> hasSuffix (p @ CHR ''/'' # s) (CHR ''/'' # t) \<longleftrightarrow> s = t"
  using suffix_segment [of s t p] by (auto simp: hasSuffix_def)

lemma app_routes_plain:
  assumes "routable_app a"
  shows "handleAppRoutes GET (''/api/v1/apps/'' @ a) = AppHandler App_GetApp"
    and "handleAppRoutes PUT (''/api/v1/apps/'' @ a) = AppHandler App_UpdateApp"
    and "handleAppRoutes DELETE (''/api/v1/apps/'' @ a) = AppHandler App_DeleteApp"
proof -
  have a: "plain_segment a" "CHR ''/'' \<notin> set a" "a \<noteq> []" "a \<noteq> ''under-attack''"
    "\<not> prefix ''rules'' a" "\<not> prefix ''ip-access-rules'' a"
    using assms routable_no_slash by (auto simp: routable_app_def)
  have suf: "\<not> hasSuffix (''/api/v1/apps/'' @ a) ''/under-attack''"
    using suffix_app [of a "''under-attack''"] a by simp
  show "handleAppRoutes GET (''/api/v1/apps/'' @ a) = AppHandler App_GetApp"
    and "handleAppRoutes PUT (''/api/v1/apps/'' @ a) = AppHandler App_UpdateApp"
    and "handleAppRoutes DELETE (''/api/v1/apps/'' @ a) = AppHandler App_DeleteApp"
    using a suf by (simp_all add: handleAppRoutes_def startsWith_def)
qed

lemma app_under_attack_route:
  assumes "plain_segment a"
  shows "handleAppRoutes PUT (''/api/v1/apps/'' @ a @ ''/under-attack'') = AppHandler App_ToggleUnderAttackMode"
proof -
  have "hasSuffix (''/api/v1/apps/'' @ a @ ''/under-attack'') ''/under-attack''"
    by (rule hasSuffix_lit)
  then show ?thesis by (simp add: handleAppRoutes_def startsWith_def)
qed

text \<open>A path below an application: neither the collection nor one application.\<close>

lemma app_routes_below:
  assumes "routable_app a"
  shows "handleAppRoutes m (''/api/v1/apps/'' @ a @ CHR ''/'' # r) =
    (if hasSuffix (''/api/v1/apps/'' @ a @ CHR ''/'' # r) ''/under-attack'' \<and> m = PUT
     then AppHandler App_ToggleUnderAttackMode
     else if str_includes (CHR ''/'' # r) ''/ip-access-rules''
     then handleAppIPAccessRoutes m (''/api/v1/apps/'' @ a @ CHR ''/'' # r)
     else if str_includes (CHR ''/'' # r) ''/rules''
     then handleAppRuleRoutes m (''/api/v1/apps/'' @ a @ CHR ''/'' # r)
     else if m = GET then AppHandler App_GetApp
     else if m = PUT then AppHandler App_UpdateApp
     else if m = DELETE then AppHandler App_DeleteApp
     else Method_Not_Allowed)"
proof -
  have a: "CHR ''/'' \<notin> set a" "\<not> prefix ''rules'' a" "\<not> prefix ''ip-access-rules'' a" "a \<noteq> []"
    using assms routable_no_slash by (auto simp: routable_app_def)
  have p: "prefix ''rules'' (a @ CHR ''/'' # r) = False" "prefix ''ip-access-rules'' (a @ CHR ''/'' # r) = False"
    using a by (simp_all add: prefix_segment)
  have "str_includes (a @ CHR ''/'' # r) ''/''" using a by simp
  then show ?thesis
    using a p by (simp add: handleAppRoutes_def startsWith_def del: str_includes.simps)
      (simp add: handleAppRoutes_def startsWith_def)
qed

lemma split_on_first: "CHR ''/'' \<notin> set a \<Longrightarrow> split_on (CHR ''/'') (a @ CHR ''/'' # r) ! 0 = a"
  by (simp add: split_on_append_sep)

lemma extractAppID_below:
  assumes "plain_segment a"
  shows "extractAppID (''/api/v1/apps/'' @ a @ CHR ''/'' # r) = a"
    and "extractAppIDFromRulePath (''/api/v1/apps/'' @ a @ CHR ''/'' # r) = a"
  using split_on_first [OF routable_no_slash [OF assms]] split_on_ne
  unfolding extractAppID_def extractAppIDFromRulePath_def trimPrefix_append Let_def by simp_all

lemma cut_at_skip:
  "CHR ''/'' \<notin> set b \<Longrightarrow>
     cut_at (CHR ''/'' # t) (b @ s) = map_option (\<lambda>(x, y). (b @ x, y)) (cut_at (CHR ''/'' # t) s)"
proof (induction b)
  case Nil
  then show ?case by (simp add: option.map_ident case_prod_beta)
next
  case (Cons c b)
  then show ?case by (auto simp: option.map_comp comp_def case_prod_beta)
qed

lemma cut_at_none: "CHR ''/'' \<notin> set b \<Longrightarrow> cut_at (CHR ''/'' # t) b = None"
  by (induction b) auto

lemma cut_at_here: "cut_at (c # t) ((c # t) @ s) = Some ([], s)"
  by (simp add: cut_at.simps [of "c # t"])

lemma split_second_number:
  assumes a: "CHR ''/'' \<notin> set a" "\<not> prefix w a" and n: "CHR ''/'' \<notin> set n"
    and w: "w \<noteq> []" "hd w \<noteq> CHR ''a''" "hd w \<noteq> CHR ''v''" "CHR ''/'' \<notin> set w"
  shows "split_second (CHR ''/'' # w @ ''/'') (''/api/v1/apps/'' @ a @ CHR ''/'' # w @ CHR ''/'' # n) = Some n"
proof -
  let ?s = "CHR ''/'' # w @ ''/''"
  obtain c w' where cw: "w = c # w'" using w(1) by (cases w) auto
  have "prefix w (a @ CHR ''/'' # w @ CHR ''/'' # n) = prefix w a" using w(4) by (rule prefix_segment)
  then have "\<not> prefix (w @ ''/'') (a @ CHR ''/'' # w @ CHR ''/'' # n)"
    using a(2) append_prefixD by blast
  then have "cut_at ?s (''/api/v1/apps/'' @ a @ CHR ''/'' # w @ CHR ''/'' # n) =
      Some (''/api/v1/apps/'' @ a, n)"
    using cut_at_skip [OF a(1), of "w @ ''/''" "CHR ''/'' # w @ CHR ''/'' # n"]
      cut_at_here [of "CHR ''/''" "w @ ''/''" n] w(2,3) cw
    by simp
  then show ?thesis using cut_at_none [OF n] by (simp add: split_second_def)
qed

lemma hasSuffix_last: "hasSuffix s t \<Longrightarrow> t \<noteq> [] \<Longrightarrow> last s = last t"
  by (auto simp: hasSuffix_def suffix_def)

lemma not_under_attack_number:
  "\<not> hasSuffix (p @ CHR ''/'' # int_to_string i) ''/under-attack''"
  using suffix_after_slash [OF int_no_slash, of "''under-attack''" p i]
    int_to_string_not_literal [of "''under-attack''" i] by (simp add: is_digit_def)

lemma ip_access_routes:
  assumes "routable_app a"
  shows "handleAppRoutes GET (''/api/v1/apps/'' @ a @ ''/ip-access-rules'') = IpAccessHandler IpAccess_List"
    and "handleAppRoutes POST (''/api/v1/apps/'' @ a @ ''/ip-access-rules'') = IpAccessHandler IpAccess_Create"
    and "handleAppRoutes PUT (''/api/v1/apps/'' @ a @ ''/ip-access-rules/'' @ int_to_string i) =
      IpAccessHandler IpAccess_Update"
    and "handleAppRoutes DELETE (''/api/v1/apps/'' @ a @ ''/ip-access-rules/'' @ int_to_string i) =
      IpAccessHandler IpAccess_Delete"
proof -
  note col = app_routes_below [OF assms, of _ "''ip-access-rules''"]
  note one = app_routes_below [OF assms, of _ "''ip-access-rules/'' @ int_to_string i"]
  have suf: "hasSuffix (''/api/v1/apps/'' @ a @ ''/ip-access-rules'') ''/ip-access-rules''"
    by (rule hasSuffix_lit)
  have num: "\<not> hasSuffix ((''/api/v1/apps/'' @ a @ ''/ip-access-rules'') @ CHR ''/'' # int_to_string i) ''/under-attack''"
    by (rule not_under_attack_number)
  have inc: "str_includes (''/api/v1/apps/'' @ a @ ''/ip-access-rules/'' @ int_to_string i) ''/ip-access-rules/''"
    using assms routable_no_slash by (auto simp: routable_app_def)
  show "handleAppRoutes GET (''/api/v1/apps/'' @ a @ ''/ip-access-rules'') = IpAccessHandler IpAccess_List"
    and "handleAppRoutes POST (''/api/v1/apps/'' @ a @ ''/ip-access-rules'') = IpAccessHandler IpAccess_Create"
    using col suf by (simp_all add: handleAppIPAccessRoutes_def del: includes_slash_skip)
  show "handleAppRoutes PUT (''/api/v1/apps/'' @ a @ ''/ip-access-rules/'' @ int_to_string i) =
      IpAccessHandler IpAccess_Update"
    and "handleAppRoutes DELETE (''/api/v1/apps/'' @ a @ ''/ip-access-rules/'' @ int_to_string i) =
      IpAccessHandler IpAccess_Delete"
    using one num inc by (simp_all add: handleAppIPAccessRoutes_def del: includes_slash_skip)
qed

lemma app_rule_routes:
  assumes "routable_app a"
  shows "handleAppRoutes GET (''/api/v1/apps/'' @ a @ ''/rules'') = RuleHandler Rule_ListByApp"
    and "handleAppRoutes POST (''/api/v1/apps/'' @ a @ ''/rules'') = RuleHandler Rule_CreateForApp"
    and "handleAppRoutes PUT (''/api/v1/apps/'' @ a @ ''/rules/'' @ int_to_string i) =
      RuleHandler Rule_UpdateForApp"
    and "handleAppRoutes DELETE (''/api/v1/apps/'' @ a @ ''/rules/'' @ int_to_string i) =
      RuleHandler Rule_DeleteForApp"
    and "handleAppRoutes POST (''/api/v1/apps/'' @ a @ ''/rules/reorder'') = RuleHandler Rule_ReorderForApp"
proof -
  note col = app_routes_below [OF assms, of _ "''rules''"]
  note one = app_routes_below [OF assms, of _ "''rules/'' @ int_to_string i"]
  note reo = app_routes_below [OF assms, of _ "''rules/reorder''"]
  have ns: "CHR ''/'' \<notin> set a" using assms routable_no_slash by (simp add: routable_app_def)
  have suf: "hasSuffix (''/api/v1/apps/'' @ a @ ''/rules'') ''/rules''"
    "hasSuffix (''/api/v1/apps/'' @ a @ ''/rules/reorder'') ''/rules/reorder''"
    by (rule hasSuffix_lit)+
  have nre: "\<not> hasSuffix (''/api/v1/apps/'' @ a @ ''/rules'') ''/rules/reorder''"
    using hasSuffix_last [of "''/api/v1/apps/'' @ a @ ''/rules''" "''/rules/reorder''"] by auto
  have num: "\<not> hasSuffix ((''/api/v1/apps/'' @ a @ ''/rules'') @ CHR ''/'' # int_to_string i) ''/under-attack''"
    by (rule not_under_attack_number)
  have inc: "str_includes (''/api/v1/apps/'' @ a @ ''/rules/'' @ int_to_string i) ''/rules/''"
    using ns by simp
  have nip: "\<not> str_includes (''/rules/'' @ int_to_string i) ''/ip-access-rules''"
  proof -
    have "\<not> prefix ''ip-access-rules'' (int_to_string i)"
      using int_to_string_chars [of "CHR ''i''" i] by (auto simp: prefix_def is_digit_def)
    then show ?thesis using int_no_slash by simp
  qed
  show "handleAppRoutes GET (''/api/v1/apps/'' @ a @ ''/rules'') = RuleHandler Rule_ListByApp"
    and "handleAppRoutes POST (''/api/v1/apps/'' @ a @ ''/rules'') = RuleHandler Rule_CreateForApp"
    using col suf(1) nre by (simp_all add: handleAppRuleRoutes_def del: includes_slash_skip)
  show "handleAppRoutes PUT (''/api/v1/apps/'' @ a @ ''/rules/'' @ int_to_string i) =
      RuleHandler Rule_UpdateForApp"
    and "handleAppRoutes DELETE (''/api/v1/apps/'' @ a @ ''/rules/'' @ int_to_string i) =
      RuleHandler Rule_DeleteForApp"
    using one num inc nip by (simp_all add: handleAppRuleRoutes_def del: includes_slash_skip)
  show "handleAppRoutes POST (''/api/v1/apps/'' @ a @ ''/rules/reorder'') = RuleHandler Rule_ReorderForApp"
    using reo suf(2) by (simp add: handleAppRuleRoutes_def del: includes_slash_skip)
qed

lemma app_id_extraction:
  assumes "routable_app a" and "- (2 ^ 63) \<le> i" and "i < 2 ^ 63"
  shows "extractIDFromRuleAppPath (''/api/v1/apps/'' @ a @ ''/rules/'' @ int_to_string i) = Some i"
    and "extractIDFromIPAccessPath (''/api/v1/apps/'' @ a @ ''/ip-access-rules/'' @ int_to_string i) = Some i"
proof -
  have a: "CHR ''/'' \<notin> set a" "\<not> prefix ''rules'' a" "\<not> prefix ''ip-access-rules'' a"
    using assms(1) routable_no_slash by (auto simp: routable_app_def)
  have n: "split_on (CHR ''/'') (int_to_string i) ! 0 = int_to_string i"
    using int_no_slash by (simp add: split_on_single)
  have "split_second ''/rules/'' (''/api/v1/apps/'' @ a @ ''/rules/'' @ int_to_string i) = Some (int_to_string i)"
    using split_second_number [OF a(1,2) int_no_slash] by simp
  then show "extractIDFromRuleAppPath (''/api/v1/apps/'' @ a @ ''/rules/'' @ int_to_string i) = Some i"
    using n atoi_int_to_string [OF assms(2,3)] unfolding extractIDFromRuleAppPath_def by simp
  have "split_second ''/ip-access-rules/'' (''/api/v1/apps/'' @ a @ ''/ip-access-rules/'' @ int_to_string i) =
      Some (int_to_string i)"
    using split_second_number [OF a(1,3) int_no_slash] by simp
  then show "extractIDFromIPAccessPath (''/api/v1/apps/'' @ a @ ''/ip-access-rules/'' @ int_to_string i) = Some i"
    using n atoi_int_to_string [OF assms(2,3)] unfolding extractIDFromIPAccessPath_def by simp
qed

lemma route_app:
  "fst call = ''/api/v1/apps'' @ r \<Longrightarrow> safe_path r \<Longrightarrow>
     route_call call = Some (Authenticated (handleAppRoutes (call_method call) (fst call)))"
  by (simp add: route_safe handleAPIRoutes_apps [simplified])

lemmas app_call_defs = apps_list_def apps_get_def apps_create_def apps_update_def apps_delete_def
  apps_toggleUnderAttackMode_def apps_listIPAccessRules_def apps_createIPAccessRule_def
  apps_updateIPAccessRule_def apps_deleteIPAccessRule_def apps_listRules_def apps_createRule_def
  apps_updateRule_def apps_deleteRule_def apps_reorderRules_def



text \<open>An application whose identifier begins with \<open>rules\<close> can be created and read but neither changed nor
  deleted: the router takes its path for a path of the application's rules and answers 405.\<close>

lemma app_named_rules_unroutable:
  assumes "plain_segment a" and "prefix ''rules'' a"
  shows "route_call (apps_get a) = Some (Authenticated (AppHandler App_GetApp)) \<and>
    route_call (apps_update a d) = Some (Authenticated Method_Not_Allowed) \<and>
    route_call (apps_delete a) = Some (Authenticated Method_Not_Allowed)"
proof -
  obtain r where a: "a = ''rules'' @ r" using assms(2) by (auto simp: prefix_def)
  have ns: "CHR ''/'' \<notin> set a" using assms(1) by (rule routable_no_slash)
  then have nr: "CHR ''/'' \<notin> set r" using a by simp
  have npr: "\<not> prefix ''/'' r" using nr by (auto simp: prefix_def)
  have "a \<noteq> ''under-attack''" using a by auto
  then have nu: "\<not> hasSuffix (''/api/v1/apps/'' @ a) ''/under-attack''"
    using suffix_app [OF assms(1), of "''under-attack''"] by simp
  have "handleAppRoutes GET (''/api/v1/apps/'' @ a) = AppHandler App_GetApp"
    using ns by (simp add: handleAppRoutes_def startsWith_def)
  moreover have "handleAppRoutes m (''/api/v1/apps/'' @ a) = Method_Not_Allowed" if "m = PUT \<or> m = DELETE" for m
    using nu nr npr that unfolding a
    by (auto simp: handleAppRoutes_def handleAppRuleRoutes_def startsWith_def)
  ultimately show ?thesis
    using assms(1) by (simp add: app_call_defs route_app)
qed

section \<open>The other resources\<close>

text \<open>The operations with a fixed path or a number in it, each with the handler it is meant for.\<close>

definition fixed_endpoints :: "json \<Rightarrow> int list \<Rightarrow> int \<Rightarrow> (api_call \<times> handler) list" where
  "fixed_endpoints d ids n = [
     (botPatterns_list, BotPatternHandler BotPattern_List),
     (botPatterns_create d, BotPatternHandler BotPattern_Create),
     (botPatterns_bulkDelete ids, BotPatternHandler BotPattern_BulkDelete),
     (botPatterns_bulkCreate d, BotPatternHandler BotPattern_BulkCreate),
     (botPatterns_bulkUpdate d, BotPatternHandler BotPattern_BulkUpdate),
     (botIPRanges_list, BotIPRangeHandler BotIPRange_List),
     (botIPRanges_create d, BotIPRangeHandler BotIPRange_Create),
     (ipReputation_list, IpReputationHandler IpReputation_List),
     (ipReputation_create d, IpReputationHandler IpReputation_Create),
     (ipReputation_bulkDelete ids, IpReputationHandler IpReputation_BulkDelete),
     (ipReputation_bulkUpdateScore ids n, IpReputationHandler IpReputation_BulkUpdateScore),
     (ipReputation_getConfig, IpReputationHandler IpReputation_GetConfig),
     (ipReputation_updateConfig d, IpReputationHandler IpReputation_UpdateConfig),
     (ipReputation_syncSpamhaus, IpReputationHandler IpReputation_SyncSpamhaus),
     (settings_getBotConfig, SettingsHandler Settings_GetBotConfig),
     (settings_updateBotConfig d, SettingsHandler Settings_UpdateBotConfig),
     (settings_getWAFConfig, SettingsHandler Settings_GetWAFConfig),
     (settings_updateWAFConfig d, SettingsHandler Settings_UpdateWAFConfig),
     (settings_getScoringConfig, SettingsHandler Settings_GetScoringConfig),
     (settings_updateScoringConfig d, SettingsHandler Settings_UpdateScoringConfig),
     (settings_getProtocolAnomalyConfig, SettingsHandler Settings_GetProtocolAnomalyConfig),
     (settings_updateProtocolAnomalyConfig d, SettingsHandler Settings_UpdateProtocolAnomalyConfig),
     (rateLimit_get, RateLimitHandler RateLimit_GetRateLimitConfig),
     (rateLimit_update d, RateLimitHandler RateLimit_UpdateRateLimitConfig),
     (rateLimit_getStats, RateLimitHandler RateLimit_GetStats),
     (certificates_syncFromFilesystem, CertificateHandler Certificate_SyncFromFilesystem)]"

definition numbered_endpoints :: "int \<Rightarrow> json \<Rightarrow> (api_call \<times> handler) list" where
  "numbered_endpoints i d = [
     (botPatterns_update i d, BotPatternHandler BotPattern_Update),
     (botPatterns_delete i, BotPatternHandler BotPattern_Delete),
     (botIPRanges_update i d, BotIPRangeHandler BotIPRange_Update),
     (botIPRanges_delete i, BotIPRangeHandler BotIPRange_Delete),
     (botIPRanges_sync i, BotIPRangeHandler BotIPRange_Sync),
     (ipReputation_update i d, IpReputationHandler IpReputation_Update),
     (ipReputation_delete i, IpReputationHandler IpReputation_Delete)]"

definition analytics_endpoints :: "string \<Rightarrow> string option \<Rightarrow> (api_call \<times> handler) list" where
  "analytics_endpoints rng a = [
     (analytics_getTopThreats rng a, AnalyticsHandler Analytics_GetTopThreats),
     (analytics_getInsights rng a, AnalyticsHandler Analytics_GetDashboardInsights),
     (analytics_getChallengeStats rng, AnalyticsHandler Analytics_GetChallengeStats),
     (analytics_getTopBlockedBots (Some rng), AnalyticsHandler Analytics_GetTopBlockedBots),
     (analytics_getWAFStats rng, AnalyticsHandler Analytics_GetWAFStats),
     (analytics_getThreatIPs rng a, AnalyticsHandler Analytics_GetThreatIPs),
     (analytics_getWAFRuleIntel rng a, AnalyticsHandler Analytics_GetWAFRuleIntel),
     (analytics_getThreatSummary rng a, AnalyticsHandler Analytics_GetThreatSummary),
     (analytics_getCustomRuleIntel rng a, AnalyticsHandler Analytics_GetCustomRuleIntel)]"

lemma fixed_endpoints_routed:
  "list_all (\<lambda>(call, h). route_call call = Some (Authenticated h)) (fixed_endpoints d ids n)"
  unfolding fixed_endpoints_def list.pred_inject prod.case
  by (intro conjI; simp add: route_safe handleAPIRoutes_def startsWith_def handleBotPatternRoutes_def
      handleBotIPRangeRoutes_def handleIPReputationRoutes_def handleSettingsRoutes_def handleRateLimitRoutes_def
      handleCertificateRoutes_def hasSuffix_def
      botPatterns_list_def botPatterns_create_def botPatterns_bulkDelete_def botPatterns_bulkCreate_def
      botPatterns_bulkUpdate_def botIPRanges_list_def botIPRanges_create_def ipReputation_list_def
      ipReputation_create_def ipReputation_bulkDelete_def ipReputation_bulkUpdateScore_def
      ipReputation_getConfig_def ipReputation_updateConfig_def ipReputation_syncSpamhaus_def
      settings_getBotConfig_def settings_updateBotConfig_def settings_getWAFConfig_def
      settings_updateWAFConfig_def settings_getScoringConfig_def settings_updateScoringConfig_def
      settings_getProtocolAnomalyConfig_def settings_updateProtocolAnomalyConfig_def rateLimit_get_def
      rateLimit_update_def rateLimit_getStats_def certificates_syncFromFilesystem_def)

lemma numbered_endpoints_routed:
  "list_all (\<lambda>(call, h). route_call call = Some (Authenticated h)) (numbered_endpoints i d)"
proof -
  have lit: "int_to_string i \<noteq> ''bulk-update''" "int_to_string i \<noteq> ''config''"
    by (rule int_to_string_not_literal; simp add: is_digit_def)+
  have "hasSuffix (''/api/v1/bot-ip-ranges/'' @ int_to_string i @ ''/sync'') ''/sync''"
    by (rule hasSuffix_lit)
  then show ?thesis
    using lit unfolding numbered_endpoints_def list.pred_inject prod.case
    by (intro conjI; simp add: route_safe handleAPIRoutes_def startsWith_def handleBotPatternRoutes_def
        handleBotIPRangeRoutes_def handleIPReputationRoutes_def botPatterns_update_def botPatterns_delete_def
        botIPRanges_update_def botIPRanges_delete_def botIPRanges_sync_def ipReputation_update_def
        ipReputation_delete_def)
qed

text \<open>A target with a query: the path is what stands before it.\<close>

lemma route_query:
  "fst call = p @ CHR ''?'' # q \<Longrightarrow> safe_path p \<Longrightarrow>
     route_call call = Some (handleAPIRoutes (call_method call) p)"
  using target_query_cut [of p q] by (simp add: route_call_def safe_path_def list_all_iff)

lemma range_query_shape: "\<exists>q. range_query rng a = CHR ''?'' # q"
  by (auto simp: range_query_def split: option.splits)

lemma analytics_route:
  assumes "fst call = ''/api/v1/analytics'' @ p @ CHR ''?'' # q" "safe_path p" "call_method call = GET"
    "handleAnalyticsRoutes GET (''/api/v1/analytics'' @ p) = h"
  shows "route_call call = Some (Authenticated h)"
  using route_query [of call "''/api/v1/analytics'' @ p" q] assms
  by (simp add: handleAPIRoutes_def startsWith_def)

lemma analytics_endpoints_routed:
  "list_all (\<lambda>(call, h). route_call call = Some (Authenticated h)) (analytics_endpoints rng a)"
proof -
  obtain q where q: "range_query rng a = CHR ''?'' # q" using range_query_shape by blast
  note defs = q handleAnalyticsRoutes_def analytics_getTopThreats_def analytics_getInsights_def
    analytics_getChallengeStats_def analytics_getTopBlockedBots_def analytics_getWAFStats_def
    analytics_getThreatIPs_def analytics_getWAFRuleIntel_def analytics_getThreatSummary_def
    analytics_getCustomRuleIntel_def
  have "route_call (analytics_getTopThreats rng a) = Some (Authenticated (AnalyticsHandler Analytics_GetTopThreats))"
    by (rule analytics_route [of _ "''/threats''" q]) (simp_all add: defs)
  moreover have "route_call (analytics_getInsights rng a) = Some (Authenticated (AnalyticsHandler Analytics_GetDashboardInsights))"
    by (rule analytics_route [of _ "''/insights''" q]) (simp_all add: defs)
  moreover have "route_call (analytics_getChallengeStats rng) = Some (Authenticated (AnalyticsHandler Analytics_GetChallengeStats))"
    by (rule analytics_route [of _ "''/challenge-stats''" "''range='' @ rng"]) (simp_all add: defs)
  moreover have "route_call (analytics_getTopBlockedBots (Some rng)) = Some (Authenticated (AnalyticsHandler Analytics_GetTopBlockedBots))"
    by (rule analytics_route [of _ "''/top-blocked-bots''" "''range='' @ rng"]) (simp_all add: defs)
  moreover have "route_call (analytics_getWAFStats rng) = Some (Authenticated (AnalyticsHandler Analytics_GetWAFStats))"
    by (rule analytics_route [of _ "''/waf-stats''" "''range='' @ rng"]) (simp_all add: defs)
  moreover have "route_call (analytics_getThreatIPs rng a) = Some (Authenticated (AnalyticsHandler Analytics_GetThreatIPs))"
    by (rule analytics_route [of _ "''/threat-intel/ips''" q]) (simp_all add: defs)
  moreover have "route_call (analytics_getWAFRuleIntel rng a) = Some (Authenticated (AnalyticsHandler Analytics_GetWAFRuleIntel))"
    by (rule analytics_route [of _ "''/threat-intel/waf-rules''" q]) (simp_all add: defs)
  moreover have "route_call (analytics_getThreatSummary rng a) = Some (Authenticated (AnalyticsHandler Analytics_GetThreatSummary))"
    by (rule analytics_route [of _ "''/threat-intel/summary''" q]) (simp_all add: defs)
  moreover have "route_call (analytics_getCustomRuleIntel rng a) = Some (Authenticated (AnalyticsHandler Analytics_GetCustomRuleIntel))"
    by (rule analytics_route [of _ "''/threat-intel/custom-rules''" q]) (simp_all add: defs)
  ultimately show ?thesis by (simp add: analytics_endpoints_def)
qed

text \<open>Every operation of the client on bot patterns, bot address ranges, reputation entries, settings
  and rate limits, and every analytics call with a range, reaches the handler it is meant for, behind
  authentication, whatever numbers, lists and application identifiers it is given.\<close>

theorem resource_endpoints_routed:
  "(call, h) \<in> set (fixed_endpoints d ids n) \<union> set (numbered_endpoints i d) \<union> set (analytics_endpoints rng a) \<Longrightarrow>
     route_call call = Some (Authenticated h)"
  using fixed_endpoints_routed [of d ids n] numbered_endpoints_routed [of i d] analytics_endpoints_routed [of rng a]
  by (fastforce simp: list_all_iff)

theorem resource_endpoints_routed_witness:
  "route_call (ipReputation_delete 12) = Some (Authenticated (IpReputationHandler IpReputation_Delete))"
  by (rule resource_endpoints_routed [where d = JNull and ids = "[]" and n = 0 and i = 12 and rng = "[]" and a = None])
    (simp add: numbered_endpoints_def)

section \<open>Certificates\<close>

text \<open>A host name as the certificate calls use it: at least one dot, no character that needs an escape.\<close>

definition host_name :: "string \<Rightarrow> bool" where
  "host_name d \<longleftrightarrow> plain_segment d \<and> CHR ''.'' \<in> set d"

lemma dotted_not_literal: "CHR ''.'' \<in> set d \<Longrightarrow> CHR ''.'' \<notin> set w \<Longrightarrow> d @ r \<noteq> w"
  by auto

lemma certificate_routes:
  assumes "host_name d"
  shows "handleCertificateRoutes GET (''/api/v1/certificates/'' @ d) = CertificateHandler Certificate_GetCertificate"
    and "handleCertificateRoutes DELETE (''/api/v1/certificates/'' @ d) =
      CertificateHandler Certificate_DeleteCertificate"
    and "handleCertificateRoutes POST (''/api/v1/certificates/'' @ d @ ''/renew'') =
      CertificateHandler Certificate_RenewCertificate"
    and "handleCertificateRoutes POST (''/api/v1/certificates/'' @ d @ ''/validate'') =
      CertificateHandler Certificate_ValidateCertificate"
    and "handleCertificateRoutes PUT (''/api/v1/certificates/'' @ d @ ''/auto-renew'') =
      CertificateHandler Certificate_ToggleAutoRenew"
    and "handleCertificateRoutes GET (''/api/v1/certificates/'' @ d @ ''/logs'') =
      CertificateHandler Certificate_GetCertificateLogs"
    and "handleCertificateRoutes POST (''/api/v1/certificates/'' @ d @ ''/wildcard/disable'') =
      CertificateHandler Certificate_DisableWildcard"
proof -
  have dot: "CHR ''.'' \<in> set d" and ns: "CHR ''/'' \<notin> set d"
    using assms routable_no_slash by (auto simp: host_name_def)
  have ne: "d @ r \<noteq> ''sync''" "d @ r \<noteq> ''bulk-delete''" "d @ r \<noteq> ''wildcard/enable''"
    "d @ r \<noteq> ''wildcard/verify''" "d @ r \<noteq> ''wildcard/issue''" "d \<noteq> ''logs''" "d \<noteq> []" for r
    using dot dotted_not_literal [OF dot, of _ r] by auto
  have seg: "hasSuffix (''/api/v1/certificates/'' @ d @ CHR ''/'' # s) (CHR ''/'' # t) \<longleftrightarrow> s = t"
    if "CHR ''/'' \<notin> set s" "CHR ''/'' \<notin> set t" for s t
    using suffix_after_slash [OF that, of "''/api/v1/certificates/'' @ d"] by simp
  have top: "hasSuffix (''/api/v1/certificates/'' @ d) (CHR ''/'' # t) \<longleftrightarrow> d = t" if "CHR ''/'' \<notin> set t" for t
    using suffix_after_slash [OF ns that, of "''/api/v1/certificates''"] by simp
  have dis: "hasSuffix ((''/api/v1/certificates/'' @ d @ ''/wildcard'') @ CHR ''/'' # ''disable'') (CHR ''/'' # t) \<longleftrightarrow>
      ''disable'' = t" if "CHR ''/'' \<notin> set t" for t
    by (rule suffix_after_slash) (use that in simp_all)
  have dis2: "hasSuffix (''/api/v1/certificates/'' @ d @ ''/wildcard/disable'') ''/wildcard/disable''"
    by (rule hasSuffix_lit)
  note rules = handleCertificateRoutes_def startsWith_def ne ne(1-5) [of "[]", simplified] seg [simplified]
    top [simplified] dis [simplified] dis2 [simplified]
  show "handleCertificateRoutes GET (''/api/v1/certificates/'' @ d) = CertificateHandler Certificate_GetCertificate"
    "handleCertificateRoutes DELETE (''/api/v1/certificates/'' @ d) =
      CertificateHandler Certificate_DeleteCertificate"
    "handleCertificateRoutes POST (''/api/v1/certificates/'' @ d @ ''/renew'') =
      CertificateHandler Certificate_RenewCertificate"
    "handleCertificateRoutes POST (''/api/v1/certificates/'' @ d @ ''/validate'') =
      CertificateHandler Certificate_ValidateCertificate"
    "handleCertificateRoutes PUT (''/api/v1/certificates/'' @ d @ ''/auto-renew'') =
      CertificateHandler Certificate_ToggleAutoRenew"
    "handleCertificateRoutes GET (''/api/v1/certificates/'' @ d @ ''/logs'') =
      CertificateHandler Certificate_GetCertificateLogs"
    "handleCertificateRoutes POST (''/api/v1/certificates/'' @ d @ ''/wildcard/disable'') =
      CertificateHandler Certificate_DisableWildcard"
    by (simp_all add: rules)
qed

lemma handleAPIRoutes_certificates:
  "handleAPIRoutes m (''/api/v1/certificates'' @ r) =
     Authenticated (handleCertificateRoutes m (''/api/v1/certificates'' @ r))"
  by (simp add: handleAPIRoutes_def startsWith_def)

lemma route_certificate:
  "fst call = ''/api/v1/certificates'' @ r \<Longrightarrow> safe_path r \<Longrightarrow>
     route_call call = Some (Authenticated (handleCertificateRoutes (call_method call) (fst call)))"
  by (simp add: route_safe handleAPIRoutes_certificates [simplified])

text \<open>Every certificate operation on a host name reaches its handler, behind authentication, and the
  handler reads that host name from the path.\<close>

theorem certificate_endpoints_routed:
  assumes "host_name d"
  shows "route_call (certificates_get d) = Some (Authenticated (CertificateHandler Certificate_GetCertificate)) \<and>
    route_call (certificates_issue d app) = Some (Authenticated (CertificateHandler Certificate_IssueCertificate)) \<and>
    route_call (certificates_renew d) = Some (Authenticated (CertificateHandler Certificate_RenewCertificate)) \<and>
    route_call (certificates_validate d) = Some (Authenticated (CertificateHandler Certificate_ValidateCertificate)) \<and>
    route_call (certificates_toggleAutoRenew d e) = Some (Authenticated (CertificateHandler Certificate_ToggleAutoRenew)) \<and>
    route_call (certificates_getLogs d n) = Some (Authenticated (CertificateHandler Certificate_GetCertificateLogs)) \<and>
    route_call (certificates_delete d) = Some (Authenticated (CertificateHandler Certificate_DeleteCertificate)) \<and>
    route_call (certificates_bulkDelete ds) = Some (Authenticated (CertificateHandler Certificate_BulkDeleteCertificates)) \<and>
    route_call (certificates_enableWildcard d w) = Some (Authenticated (CertificateHandler Certificate_EnableWildcard)) \<and>
    route_call (certificates_verifyWildcardDNS d) = Some (Authenticated (CertificateHandler Certificate_VerifyWildcardDNS)) \<and>
    route_call (certificates_issueWildcard d) = Some (Authenticated (CertificateHandler Certificate_IssueWildcardCert)) \<and>
    route_call (certificates_disableWildcard d) = Some (Authenticated (CertificateHandler Certificate_DisableWildcard)) \<and>
    extractDomainFromPath (call_path (certificates_renew d)) ''/api/v1/certificates/'' = d \<and>
    extractDomainFromPath (call_path (certificates_delete d)) ''/api/v1/certificates/'' = d"
proof -
  have seg: "plain_segment d" and ns: "CHR ''/'' \<notin> set d"
    using assms routable_no_slash by (auto simp: host_name_def)
  have dom: "extractDomainFromPath (''/api/v1/certificates/'' @ d) ''/api/v1/certificates/'' = d"
    "extractDomainFromPath (''/api/v1/certificates/'' @ d @ CHR ''/'' # r) ''/api/v1/certificates/'' = d" for r
    unfolding extractDomainFromPath_def trimPrefix_append
    using ns by (simp_all add: split_on_single split_on_append_sep)
  note routes = certificate_routes [OF assms]
  have logs: "route_call (certificates_getLogs d n) =
      Some (Authenticated (CertificateHandler Certificate_GetCertificateLogs))"
    using route_query [of "certificates_getLogs d n" "''/api/v1/certificates'' @ CHR ''/'' # d @ ''/logs''"] seg
    by (simp add: certificates_getLogs_def handleAPIRoutes_certificates [simplified] routes [simplified])
  have fixed: "handleCertificateRoutes POST ''/api/v1/certificates'' = CertificateHandler Certificate_IssueCertificate"
    "handleCertificateRoutes POST ''/api/v1/certificates/bulk-delete'' = CertificateHandler Certificate_BulkDeleteCertificates"
    "handleCertificateRoutes POST ''/api/v1/certificates/wildcard/enable'' = CertificateHandler Certificate_EnableWildcard"
    "handleCertificateRoutes POST ''/api/v1/certificates/wildcard/verify'' = CertificateHandler Certificate_VerifyWildcardDNS"
    "handleCertificateRoutes POST ''/api/v1/certificates/wildcard/issue'' = CertificateHandler Certificate_IssueWildcardCert"
    by (simp_all add: handleCertificateRoutes_def)
  show ?thesis
    using seg fixed logs
    by (simp add: route_certificate call_path_safe routes [simplified] dom [simplified] certificates_get_def
        certificates_issue_def certificates_renew_def certificates_validate_def certificates_toggleAutoRenew_def
        certificates_delete_def certificates_bulkDelete_def certificates_enableWildcard_def
        certificates_verifyWildcardDNS_def certificates_issueWildcard_def certificates_disableWildcard_def)
qed

theorem certificate_endpoints_routed_witness:
  "route_call (certificates_renew ''shop.example.com'') =
     Some (Authenticated (CertificateHandler Certificate_RenewCertificate)) \<and>
   extractDomainFromPath (call_path (certificates_renew ''shop.example.com'')) ''/api/v1/certificates/'' =
     ''shop.example.com''"
proof -
  have "host_name ''shop.example.com''" by code_simp
  then show ?thesis using certificate_endpoints_routed [of "''shop.example.com''"] by simp
qed

end
