(* ===== verification/Query_Hooks.thy ===== *)
theory Query_Hooks
  imports Api_Router
begin

text \<open>
  The query and mutation hooks of \<open>src/frontend/src/hooks\<close>: for every \<open>useQuery\<close> its key, the
  request of its \<open>queryFn\<close>, its \<open>enabled\<close> condition and its times; for every \<open>useMutation\<close> the
  request and the keys its \<open>onSuccess\<close> invalidates.  (The two reordering hooks, which also write the
  cache, are in \<open>Rule_Reorder\<close>.)  The library that runs the hooks (TanStack Query) enters through two
  documented facts: a cache entry is found by the JSON text of its key (\<open>hash_key\<close>: \<open>undefined\<close> in a
  key is written \<open>null\<close>), and an invalidation reaches the entries whose key begins with the given one.

  The properties: equal cache entries belong to equal requests; every mutation refreshes the queries
  that show what it changed, and the rule and application mutations refresh nothing else; the request of
  \<open>useAppStats\<close> has no route of its own.
\<close>

section \<open>Keys and options\<close>

datatype key_part = KStr string | KNum int | KNull | KUndefined

type_synonym query_key = "key_part list"

definition key_opt :: "string option \<Rightarrow> key_part" where
  "key_opt v = (case v of None \<Rightarrow> KUndefined | Some s \<Rightarrow> KStr s)"

definition key_null :: "string option \<Rightarrow> key_part" where
  "key_null v = (case v of None \<Rightarrow> KNull | Some s \<Rightarrow> KStr s)"

definition hash_part :: "key_part \<Rightarrow> key_part" where
  "hash_part p = (if p = KUndefined then KNull else p)"

definition hash_key :: "query_key \<Rightarrow> query_key" where
  "hash_key k = map hash_part k"

text \<open>A query function: an operation of the client, the member of its response, or a bare \<open>fetch\<close> with
  credentials, with the message of the error thrown when the response is not ok, if that is checked.\<close>

datatype query_fn = Api api_call | Api_Member api_call string | Raw_Fetch string "string option"

record query_options =
  qo_key             :: query_key
  qo_fn              :: query_fn
  qo_enabled         :: bool
  qo_staleTime       :: nat
  qo_refetchInterval :: "nat option"

record mutation_options =
  mu_call        :: api_call
  mu_invalidates :: "query_key list"

definition refreshes :: "mutation_options \<Rightarrow> query_options \<Rightarrow> bool" where
  "refreshes mu q \<longleftrightarrow> list_ex (\<lambda>k. prefix (hash_key k) (hash_key (qo_key q))) (mu_invalidates mu)"

section \<open>Queries\<close>

definition appRuleKeys_byApp :: "string \<Rightarrow> query_key" where
  "appRuleKeys_byApp appId = [KStr ''app-rules'', KStr appId]"

definition ipAccessKeys_byApp :: "string \<Rightarrow> query_key" where
  "ipAccessKeys_byApp appId = [KStr ''ip-access-rules'', KStr appId]"

definition days_or_default :: "int option \<Rightarrow> int" where
  "days_or_default days = (case days of None \<Rightarrow> 30 | Some d \<Rightarrow> d)"

definition useApps :: "query_options" where
  "useApps = \<lparr>
     qo_key = [KStr ''apps''],
     qo_fn = Api apps_list,
     qo_enabled = True, qo_staleTime = 0, qo_refetchInterval = None\<rparr>"

definition useApp :: "string \<Rightarrow> query_options" where
  "useApp ident = \<lparr>
     qo_key = [KStr ''apps'', KStr ident],
     qo_fn = Api (apps_get ident),
     qo_enabled = (ident \<noteq> []), qo_staleTime = 0, qo_refetchInterval = None\<rparr>"

definition useAppStats :: "string \<Rightarrow> query_options" where
  "useAppStats appId = \<lparr>
     qo_key = [KStr ''app-stats'', KStr appId],
     qo_fn = Raw_Fetch (''/api/v1/apps/'' @ appId @ ''/stats'') (Some ''Failed to fetch app stats''),
     qo_enabled = True, qo_staleTime = 0, qo_refetchInterval = Some 30000\<rparr>"

definition useAppRules :: "string \<Rightarrow> query_options" where
  "useAppRules appId = \<lparr>
     qo_key = appRuleKeys_byApp appId,
     qo_fn = Api (apps_listRules appId),
     qo_enabled = (appId \<noteq> []), qo_staleTime = 0, qo_refetchInterval = None\<rparr>"

definition useIPAccessRules :: "string \<Rightarrow> query_options" where
  "useIPAccessRules appId = \<lparr>
     qo_key = ipAccessKeys_byApp appId,
     qo_fn = Api_Member (apps_listIPAccessRules appId) ''rules'',
     qo_enabled = (appId \<noteq> []), qo_staleTime = 0, qo_refetchInterval = None\<rparr>"

definition useRules :: "query_options" where
  "useRules = \<lparr>
     qo_key = [KStr ''rules''],
     qo_fn = Api rules_list,
     qo_enabled = True, qo_staleTime = 0, qo_refetchInterval = None\<rparr>"

definition useRule :: "int \<Rightarrow> query_options" where
  "useRule ident = \<lparr>
     qo_key = [KStr ''rules'', KNum ident],
     qo_fn = Api (rules_get ident),
     qo_enabled = (ident \<noteq> 0), qo_staleTime = 0, qo_refetchInterval = None\<rparr>"

definition useRuleEvents :: "int option \<Rightarrow> query_options" where
  "useRuleEvents days = \<lparr>
     qo_key = [KStr ''ruleEvents'', KNum (days_or_default days)],
     qo_fn = Raw_Fetch (''/api/v1/rules/events?days='' @ int_to_string (days_or_default days))
       (Some ''Failed to fetch rule events''),
     qo_enabled = True, qo_staleTime = 0, qo_refetchInterval = Some 30000\<rparr>"

definition useBotPatterns :: "query_options" where
  "useBotPatterns = \<lparr>
     qo_key = [KStr ''botPatterns''],
     qo_fn = Api botPatterns_list,
     qo_enabled = True, qo_staleTime = 0, qo_refetchInterval = None\<rparr>"

definition useBotIPRanges :: "query_options" where
  "useBotIPRanges = \<lparr>
     qo_key = [KStr ''botIPRanges''],
     qo_fn = Api botIPRanges_list,
     qo_enabled = True, qo_staleTime = 0, qo_refetchInterval = None\<rparr>"

definition useIPReputationEntries :: "query_options" where
  "useIPReputationEntries = \<lparr>
     qo_key = [KStr ''ipReputationEntries''],
     qo_fn = Api ipReputation_list,
     qo_enabled = True, qo_staleTime = 0, qo_refetchInterval = None\<rparr>"

definition useIPReputationConfig :: "query_options" where
  "useIPReputationConfig = \<lparr>
     qo_key = [KStr ''ipReputationConfig''],
     qo_fn = Api ipReputation_getConfig,
     qo_enabled = True, qo_staleTime = 0, qo_refetchInterval = None\<rparr>"

definition useBotConfig :: "query_options" where
  "useBotConfig = \<lparr>
     qo_key = [KStr ''botConfig''],
     qo_fn = Api settings_getBotConfig,
     qo_enabled = True, qo_staleTime = 0, qo_refetchInterval = None\<rparr>"

definition useWAFConfig :: "query_options" where
  "useWAFConfig = \<lparr>
     qo_key = [KStr ''wafConfig''],
     qo_fn = Api settings_getWAFConfig,
     qo_enabled = True, qo_staleTime = 0, qo_refetchInterval = None\<rparr>"

definition useScoringConfig :: "query_options" where
  "useScoringConfig = \<lparr>
     qo_key = [KStr ''scoringConfig''],
     qo_fn = Api settings_getScoringConfig,
     qo_enabled = True, qo_staleTime = 0, qo_refetchInterval = None\<rparr>"

definition useProtocolAnomalyConfig :: "query_options" where
  "useProtocolAnomalyConfig = \<lparr>
     qo_key = [KStr ''protocolAnomalyConfig''],
     qo_fn = Api settings_getProtocolAnomalyConfig,
     qo_enabled = True, qo_staleTime = 0, qo_refetchInterval = None\<rparr>"

definition useRateLimit :: "query_options" where
  "useRateLimit = \<lparr>
     qo_key = [KStr ''rateLimit''],
     qo_fn = Api rateLimit_get,
     qo_enabled = True, qo_staleTime = 0, qo_refetchInterval = None\<rparr>"

definition useRateLimitStats :: "query_options" where
  "useRateLimitStats = \<lparr>
     qo_key = [KStr ''rateLimitStats''],
     qo_fn = Api rateLimit_getStats,
     qo_enabled = True, qo_staleTime = 0, qo_refetchInterval = Some 30000\<rparr>"

definition useTrafficAnalytics :: "traffic_range \<Rightarrow> string option \<Rightarrow> query_options" where
  "useTrafficAnalytics rng appId = \<lparr>
     qo_key = [KStr ''analytics'', KStr ''traffic'', KStr (traffic_range_str rng), key_opt appId],
     qo_fn = Api (analytics_getTrafficAnalytics \<lparr>tp_range = rng, tp_app_id = appId\<rparr>),
     qo_enabled = True, qo_staleTime = 30000, qo_refetchInterval = Some 60000\<rparr>"

definition useTopThreats :: "string \<Rightarrow> string option \<Rightarrow> query_options" where
  "useTopThreats rng appId = \<lparr>
     qo_key = [KStr ''analytics'', KStr ''threats'', KStr rng, key_opt appId],
     qo_fn = Api (analytics_getTopThreats rng appId),
     qo_enabled = True, qo_staleTime = 30000, qo_refetchInterval = Some 60000\<rparr>"

definition useDashboardInsights :: "string \<Rightarrow> string option \<Rightarrow> query_options" where
  "useDashboardInsights rng appId = \<lparr>
     qo_key = [KStr ''analytics'', KStr ''insights'', KStr rng, key_opt appId],
     qo_fn = Api (analytics_getInsights rng appId),
     qo_enabled = True, qo_staleTime = 30000, qo_refetchInterval = Some 60000\<rparr>"

definition useChallengeStats :: "string \<Rightarrow> query_options" where
  "useChallengeStats rng = \<lparr>
     qo_key = [KStr ''analytics'', KStr ''challenge-stats'', KStr rng],
     qo_fn = Api (analytics_getChallengeStats rng),
     qo_enabled = True, qo_staleTime = 30000, qo_refetchInterval = Some 60000\<rparr>"

definition useTopBlockedBots :: "string option \<Rightarrow> query_options" where
  "useTopBlockedBots rng = \<lparr>
     qo_key = [KStr ''analytics'', KStr ''top-blocked-bots'', KStr (case rng of None \<Rightarrow> ''7d'' | Some r \<Rightarrow> r)],
     qo_fn = Api (analytics_getTopBlockedBots (Some (case rng of None \<Rightarrow> ''7d'' | Some r \<Rightarrow> r))),
     qo_enabled = True, qo_staleTime = 30000, qo_refetchInterval = Some 60000\<rparr>"

definition useWAFStats :: "string \<Rightarrow> query_options" where
  "useWAFStats rng = \<lparr>
     qo_key = [KStr ''analytics'', KStr ''waf-stats'', KStr rng],
     qo_fn = Api (analytics_getWAFStats rng),
     qo_enabled = True, qo_staleTime = 30000, qo_refetchInterval = Some 60000\<rparr>"

definition useJA4Fingerprints :: "int \<Rightarrow> int \<Rightarrow> query_options" where
  "useJA4Fingerprints limit offset = \<lparr>
     qo_key = [KStr ''analytics'', KStr ''fingerprints'', KNum limit, KNum offset],
     qo_fn = Api (analytics_getJA4Fingerprints (Some limit) (Some offset)),
     qo_enabled = True, qo_staleTime = 60000, qo_refetchInterval = Some 120000\<rparr>"

definition useJA4Detail :: "string option \<Rightarrow> query_options" where
  "useJA4Detail ja4 = \<lparr>
     qo_key = [KStr ''analytics'', KStr ''fingerprint-detail'', key_null ja4],
     qo_fn = Api (analytics_getJA4Detail (case ja4 of None \<Rightarrow> ''null'' | Some j \<Rightarrow> j)),
     qo_enabled = (ja4 \<noteq> None \<and> ja4 \<noteq> Some []), qo_staleTime = 60000, qo_refetchInterval = None\<rparr>"

definition useThreatIPs :: "string \<Rightarrow> string option \<Rightarrow> query_options" where
  "useThreatIPs rng appId = \<lparr>
     qo_key = [KStr ''analytics'', KStr ''threat-intel'', KStr ''ips'', KStr rng, key_opt appId],
     qo_fn = Api (analytics_getThreatIPs rng appId),
     qo_enabled = True, qo_staleTime = 30000, qo_refetchInterval = Some 60000\<rparr>"

definition useWAFRuleIntel :: "string \<Rightarrow> string option \<Rightarrow> query_options" where
  "useWAFRuleIntel rng appId = \<lparr>
     qo_key = [KStr ''analytics'', KStr ''threat-intel'', KStr ''waf-rules'', KStr rng, key_opt appId],
     qo_fn = Api (analytics_getWAFRuleIntel rng appId),
     qo_enabled = True, qo_staleTime = 30000, qo_refetchInterval = Some 60000\<rparr>"

definition useThreatSummary :: "string \<Rightarrow> string option \<Rightarrow> query_options" where
  "useThreatSummary rng appId = \<lparr>
     qo_key = [KStr ''analytics'', KStr ''threat-intel'', KStr ''summary'', KStr rng, key_opt appId],
     qo_fn = Api (analytics_getThreatSummary rng appId),
     qo_enabled = True, qo_staleTime = 30000, qo_refetchInterval = Some 60000\<rparr>"

definition useCustomRuleIntel :: "string \<Rightarrow> string option \<Rightarrow> query_options" where
  "useCustomRuleIntel rng appId = \<lparr>
     qo_key = [KStr ''analytics'', KStr ''threat-intel'', KStr ''custom-rules'', KStr rng, key_opt appId],
     qo_fn = Api (analytics_getCustomRuleIntel rng appId),
     qo_enabled = True, qo_staleTime = 30000, qo_refetchInterval = Some 60000\<rparr>"

definition useCacheStats :: "query_options" where
  "useCacheStats = \<lparr>
     qo_key = [KStr ''cache-stats''],
     qo_fn = Raw_Fetch ''/api/v1/cache/stats'' None,
     qo_enabled = True, qo_staleTime = 4000, qo_refetchInterval = Some 5000\<rparr>"

definition useCacheAnalytics :: "string \<Rightarrow> query_options" where
  "useCacheAnalytics rng = \<lparr>
     qo_key = [KStr ''cache-analytics'', KStr rng],
     qo_fn = Raw_Fetch (''/api/v1/analytics/cache?range='' @ rng) None,
     qo_enabled = True, qo_staleTime = 25000, qo_refetchInterval = Some 30000\<rparr>"

definition usePerformanceStats :: "query_options" where
  "usePerformanceStats = \<lparr>
     qo_key = [KStr ''performance-stats''],
     qo_fn = Raw_Fetch ''/api/v1/performance/stats'' None,
     qo_enabled = True, qo_staleTime = 4000, qo_refetchInterval = Some 5000\<rparr>"

text \<open>All of them, with their arguments.\<close>

datatype query_hook =
    UseApps
  | UseApp string
  | UseAppStats string
  | UseAppRules string
  | UseIPAccessRules string
  | UseRules
  | UseRule int
  | UseRuleEvents "int option"
  | UseBotPatterns
  | UseBotIPRanges
  | UseIPReputationEntries
  | UseIPReputationConfig
  | UseBotConfig
  | UseWAFConfig
  | UseScoringConfig
  | UseProtocolAnomalyConfig
  | UseRateLimit
  | UseRateLimitStats
  | UseTrafficAnalytics traffic_range "string option"
  | UseTopThreats string "string option"
  | UseDashboardInsights string "string option"
  | UseChallengeStats string
  | UseTopBlockedBots "string option"
  | UseWAFStats string
  | UseJA4Fingerprints int int
  | UseJA4Detail "string option"
  | UseThreatIPs string "string option"
  | UseWAFRuleIntel string "string option"
  | UseThreatSummary string "string option"
  | UseCustomRuleIntel string "string option"
  | UseCacheStats
  | UseCacheAnalytics string
  | UsePerformanceStats

fun query_of :: "query_hook \<Rightarrow> query_options" where
  "query_of UseApps = useApps"
| "query_of (UseApp ident) = useApp ident"
| "query_of (UseAppStats appId) = useAppStats appId"
| "query_of (UseAppRules appId) = useAppRules appId"
| "query_of (UseIPAccessRules appId) = useIPAccessRules appId"
| "query_of UseRules = useRules"
| "query_of (UseRule ident) = useRule ident"
| "query_of (UseRuleEvents days) = useRuleEvents days"
| "query_of UseBotPatterns = useBotPatterns"
| "query_of UseBotIPRanges = useBotIPRanges"
| "query_of UseIPReputationEntries = useIPReputationEntries"
| "query_of UseIPReputationConfig = useIPReputationConfig"
| "query_of UseBotConfig = useBotConfig"
| "query_of UseWAFConfig = useWAFConfig"
| "query_of UseScoringConfig = useScoringConfig"
| "query_of UseProtocolAnomalyConfig = useProtocolAnomalyConfig"
| "query_of UseRateLimit = useRateLimit"
| "query_of UseRateLimitStats = useRateLimitStats"
| "query_of (UseTrafficAnalytics rng appId) = useTrafficAnalytics rng appId"
| "query_of (UseTopThreats rng appId) = useTopThreats rng appId"
| "query_of (UseDashboardInsights rng appId) = useDashboardInsights rng appId"
| "query_of (UseChallengeStats rng) = useChallengeStats rng"
| "query_of (UseTopBlockedBots rng) = useTopBlockedBots rng"
| "query_of (UseWAFStats rng) = useWAFStats rng"
| "query_of (UseJA4Fingerprints limit offset) = useJA4Fingerprints limit offset"
| "query_of (UseJA4Detail ja4) = useJA4Detail ja4"
| "query_of (UseThreatIPs rng appId) = useThreatIPs rng appId"
| "query_of (UseWAFRuleIntel rng appId) = useWAFRuleIntel rng appId"
| "query_of (UseThreatSummary rng appId) = useThreatSummary rng appId"
| "query_of (UseCustomRuleIntel rng appId) = useCustomRuleIntel rng appId"
| "query_of UseCacheStats = useCacheStats"
| "query_of (UseCacheAnalytics rng) = useCacheAnalytics rng"
| "query_of UsePerformanceStats = usePerformanceStats"

section \<open>Mutations\<close>

definition useCreateApp :: "json \<Rightarrow> mutation_options" where
  "useCreateApp data = \<lparr>mu_call = apps_create data,
     mu_invalidates = [[KStr ''apps'']]\<rparr>"

definition useUpdateApp :: "string \<Rightarrow> json \<Rightarrow> mutation_options" where
  "useUpdateApp ident data = \<lparr>mu_call = apps_update ident data,
     mu_invalidates = [[KStr ''apps''], [KStr ''apps'', KStr ident]]\<rparr>"

definition useDeleteApp :: "string \<Rightarrow> mutation_options" where
  "useDeleteApp ident = \<lparr>mu_call = apps_delete ident,
     mu_invalidates = [[KStr ''apps'']]\<rparr>"

definition useToggleUnderAttackMode :: "string \<Rightarrow> bool \<Rightarrow> mutation_options" where
  "useToggleUnderAttackMode appId enabled = \<lparr>mu_call = apps_toggleUnderAttackMode appId enabled,
     mu_invalidates = [[KStr ''apps'']]\<rparr>"

definition useCreateRule :: "json \<Rightarrow> mutation_options" where
  "useCreateRule data = \<lparr>mu_call = rules_create data,
     mu_invalidates = [[KStr ''rules''], [KStr ''ruleEvents'']]\<rparr>"

definition useUpdateRule :: "int \<Rightarrow> json \<Rightarrow> mutation_options" where
  "useUpdateRule ident data = \<lparr>mu_call = rules_update ident data,
     mu_invalidates = [[KStr ''rules''], [KStr ''rules'', KNum ident], [KStr ''ruleEvents'']]\<rparr>"

definition useDeleteRule :: "int \<Rightarrow> mutation_options" where
  "useDeleteRule ident = \<lparr>mu_call = rules_delete ident,
     mu_invalidates = [[KStr ''rules''], [KStr ''ruleEvents'']]\<rparr>"

definition useValidateExpression :: "string \<Rightarrow> mutation_options" where
  "useValidateExpression expression = \<lparr>mu_call = rules_validate expression,
     mu_invalidates = []\<rparr>"

definition useCreateAppRule :: "string \<Rightarrow> json \<Rightarrow> mutation_options" where
  "useCreateAppRule appId data = \<lparr>mu_call = apps_createRule appId data,
     mu_invalidates = [appRuleKeys_byApp appId]\<rparr>"

definition useUpdateAppRule :: "string \<Rightarrow> int \<Rightarrow> json \<Rightarrow> mutation_options" where
  "useUpdateAppRule appId ident data = \<lparr>mu_call = apps_updateRule appId ident data,
     mu_invalidates = [appRuleKeys_byApp appId]\<rparr>"

definition useDeleteAppRule :: "string \<Rightarrow> int \<Rightarrow> mutation_options" where
  "useDeleteAppRule appId ident = \<lparr>mu_call = apps_deleteRule appId ident,
     mu_invalidates = [appRuleKeys_byApp appId]\<rparr>"

definition useCreateIPAccessRule :: "string \<Rightarrow> json \<Rightarrow> mutation_options" where
  "useCreateIPAccessRule appId data = \<lparr>mu_call = apps_createIPAccessRule appId data,
     mu_invalidates = [ipAccessKeys_byApp appId]\<rparr>"

definition useUpdateIPAccessRule :: "string \<Rightarrow> int \<Rightarrow> json \<Rightarrow> mutation_options" where
  "useUpdateIPAccessRule appId ident data = \<lparr>mu_call = apps_updateIPAccessRule appId ident data,
     mu_invalidates = [ipAccessKeys_byApp appId]\<rparr>"

definition useDeleteIPAccessRule :: "string \<Rightarrow> int \<Rightarrow> mutation_options" where
  "useDeleteIPAccessRule appId ident = \<lparr>mu_call = apps_deleteIPAccessRule appId ident,
     mu_invalidates = [ipAccessKeys_byApp appId]\<rparr>"

definition useCreateBotPattern :: "json \<Rightarrow> mutation_options" where
  "useCreateBotPattern data = \<lparr>mu_call = botPatterns_create data,
     mu_invalidates = [[KStr ''botPatterns'']]\<rparr>"

definition useUpdateBotPattern :: "int \<Rightarrow> json \<Rightarrow> mutation_options" where
  "useUpdateBotPattern ident data = \<lparr>mu_call = botPatterns_update ident data,
     mu_invalidates = [[KStr ''botPatterns'']]\<rparr>"

definition useDeleteBotPattern :: "int \<Rightarrow> mutation_options" where
  "useDeleteBotPattern ident = \<lparr>mu_call = botPatterns_delete ident,
     mu_invalidates = [[KStr ''botPatterns'']]\<rparr>"

definition useBulkDeleteBotPatterns :: "int list \<Rightarrow> mutation_options" where
  "useBulkDeleteBotPatterns ids = \<lparr>mu_call = botPatterns_bulkDelete ids,
     mu_invalidates = [[KStr ''botPatterns'']]\<rparr>"

definition useBulkCreateBotPatterns :: "json \<Rightarrow> mutation_options" where
  "useBulkCreateBotPatterns data = \<lparr>mu_call = botPatterns_bulkCreate data,
     mu_invalidates = [[KStr ''botPatterns'']]\<rparr>"

definition useBulkUpdateBotPatterns :: "json \<Rightarrow> mutation_options" where
  "useBulkUpdateBotPatterns data = \<lparr>mu_call = botPatterns_bulkUpdate data,
     mu_invalidates = [[KStr ''botPatterns'']]\<rparr>"

definition useCreateBotIPRange :: "json \<Rightarrow> mutation_options" where
  "useCreateBotIPRange data = \<lparr>mu_call = botIPRanges_create data,
     mu_invalidates = [[KStr ''botIPRanges'']]\<rparr>"

definition useUpdateBotIPRange :: "int \<Rightarrow> json \<Rightarrow> mutation_options" where
  "useUpdateBotIPRange ident data = \<lparr>mu_call = botIPRanges_update ident data,
     mu_invalidates = [[KStr ''botIPRanges'']]\<rparr>"

definition useDeleteBotIPRange :: "int \<Rightarrow> mutation_options" where
  "useDeleteBotIPRange ident = \<lparr>mu_call = botIPRanges_delete ident,
     mu_invalidates = [[KStr ''botIPRanges'']]\<rparr>"

definition useSyncBotIPRange :: "int \<Rightarrow> mutation_options" where
  "useSyncBotIPRange ident = \<lparr>mu_call = botIPRanges_sync ident,
     mu_invalidates = [[KStr ''botIPRanges'']]\<rparr>"

definition useCreateIPReputationEntry :: "json \<Rightarrow> mutation_options" where
  "useCreateIPReputationEntry data = \<lparr>mu_call = ipReputation_create data,
     mu_invalidates = [[KStr ''ipReputationEntries'']]\<rparr>"

definition useUpdateIPReputationEntry :: "int \<Rightarrow> json \<Rightarrow> mutation_options" where
  "useUpdateIPReputationEntry ident data = \<lparr>mu_call = ipReputation_update ident data,
     mu_invalidates = [[KStr ''ipReputationEntries'']]\<rparr>"

definition useDeleteIPReputationEntry :: "int \<Rightarrow> mutation_options" where
  "useDeleteIPReputationEntry ident = \<lparr>mu_call = ipReputation_delete ident,
     mu_invalidates = [[KStr ''ipReputationEntries'']]\<rparr>"

definition useBulkDeleteIPReputationEntries :: "int list \<Rightarrow> mutation_options" where
  "useBulkDeleteIPReputationEntries ids = \<lparr>mu_call = ipReputation_bulkDelete ids,
     mu_invalidates = [[KStr ''ipReputationEntries'']]\<rparr>"

definition useBulkUpdateScoreIPReputationEntries :: "int list \<Rightarrow> int \<Rightarrow> mutation_options" where
  "useBulkUpdateScoreIPReputationEntries ids score = \<lparr>mu_call = ipReputation_bulkUpdateScore ids score,
     mu_invalidates = [[KStr ''ipReputationEntries'']]\<rparr>"

definition useUpdateIPReputationConfig :: "json \<Rightarrow> mutation_options" where
  "useUpdateIPReputationConfig data = \<lparr>mu_call = ipReputation_updateConfig data,
     mu_invalidates = [[KStr ''ipReputationConfig'']]\<rparr>"

definition useSyncSpamhaus :: "mutation_options" where
  "useSyncSpamhaus = \<lparr>mu_call = ipReputation_syncSpamhaus,
     mu_invalidates = [[KStr ''ipReputationEntries'']]\<rparr>"

definition useUpdateBotConfig :: "json \<Rightarrow> mutation_options" where
  "useUpdateBotConfig data = \<lparr>mu_call = settings_updateBotConfig data,
     mu_invalidates = [[KStr ''botConfig'']]\<rparr>"

definition useUpdateWAFConfig :: "json \<Rightarrow> mutation_options" where
  "useUpdateWAFConfig data = \<lparr>mu_call = settings_updateWAFConfig data,
     mu_invalidates = [[KStr ''wafConfig'']]\<rparr>"

definition useUpdateScoringConfig :: "json \<Rightarrow> mutation_options" where
  "useUpdateScoringConfig data = \<lparr>mu_call = settings_updateScoringConfig data,
     mu_invalidates = [[KStr ''scoringConfig'']]\<rparr>"

definition useUpdateProtocolAnomalyConfig :: "json \<Rightarrow> mutation_options" where
  "useUpdateProtocolAnomalyConfig data = \<lparr>mu_call = settings_updateProtocolAnomalyConfig data,
     mu_invalidates = [[KStr ''protocolAnomalyConfig'']]\<rparr>"

definition useUpdateRateLimit :: "json \<Rightarrow> mutation_options" where
  "useUpdateRateLimit data = \<lparr>mu_call = rateLimit_update data,
     mu_invalidates = [[KStr ''rateLimit'']]\<rparr>"

lemmas query_defs = useApps_def
  useApp_def
  useAppStats_def
  useAppRules_def
  useIPAccessRules_def
  useRules_def
  useRule_def
  useRuleEvents_def
  useBotPatterns_def
  useBotIPRanges_def
  useIPReputationEntries_def
  useIPReputationConfig_def
  useBotConfig_def
  useWAFConfig_def
  useScoringConfig_def
  useProtocolAnomalyConfig_def
  useRateLimit_def
  useRateLimitStats_def
  useTrafficAnalytics_def
  useTopThreats_def
  useDashboardInsights_def
  useChallengeStats_def
  useTopBlockedBots_def
  useWAFStats_def
  useJA4Fingerprints_def
  useJA4Detail_def
  useThreatIPs_def
  useWAFRuleIntel_def
  useThreatSummary_def
  useCustomRuleIntel_def
  useCacheStats_def
  useCacheAnalytics_def
  usePerformanceStats_def

lemmas mutation_defs = useCreateApp_def
  useUpdateApp_def
  useDeleteApp_def
  useToggleUnderAttackMode_def
  useCreateRule_def
  useUpdateRule_def
  useDeleteRule_def
  useValidateExpression_def
  useCreateAppRule_def
  useUpdateAppRule_def
  useDeleteAppRule_def
  useCreateIPAccessRule_def
  useUpdateIPAccessRule_def
  useDeleteIPAccessRule_def
  useCreateBotPattern_def
  useUpdateBotPattern_def
  useDeleteBotPattern_def
  useBulkDeleteBotPatterns_def
  useBulkCreateBotPatterns_def
  useBulkUpdateBotPatterns_def
  useCreateBotIPRange_def
  useUpdateBotIPRange_def
  useDeleteBotIPRange_def
  useSyncBotIPRange_def
  useCreateIPReputationEntry_def
  useUpdateIPReputationEntry_def
  useDeleteIPReputationEntry_def
  useBulkDeleteIPReputationEntries_def
  useBulkUpdateScoreIPReputationEntries_def
  useUpdateIPReputationConfig_def
  useSyncSpamhaus_def
  useUpdateBotConfig_def
  useUpdateWAFConfig_def
  useUpdateScoringConfig_def
  useUpdateProtocolAnomalyConfig_def
  useUpdateRateLimit_def

section \<open>Equal keys, equal requests\<close>

lemma hash_part_simps [simp]:
  "hash_part (KStr s) = KStr s" "hash_part (KNum n) = KNum n" "hash_part KNull = KNull"
  by (simp_all add: hash_part_def)

lemma hash_key_simps [simp]: "hash_key [] = []" "hash_key (p # k) = hash_part p # hash_key k"
  by (simp_all add: hash_key_def)

lemma hash_key_opt [simp]: "hash_part (key_opt v) = (case v of None \<Rightarrow> KNull | Some s \<Rightarrow> KStr s)"
  by (simp add: key_opt_def hash_part_def split: option.splits)

lemma hash_key_null [simp]: "hash_part (key_null v) = (case v of None \<Rightarrow> KNull | Some s \<Rightarrow> KStr s)"
  by (simp add: key_null_def hash_part_def split: option.splits)

lemma hash_opt_inj [simp]:
  "((case v of None \<Rightarrow> KNull | Some s \<Rightarrow> KStr s) = (case w of None \<Rightarrow> KNull | Some s \<Rightarrow> KStr s)) = (v = w)"
  by (auto split: option.splits)

lemma traffic_range_str_inj [simp]: "(traffic_range_str a = traffic_range_str b) = (a = b)"
  by (cases a; cases b) simp_all

text \<open>The request a cache key stands for: what the query functions fetch, read off the key.\<close>

definition str_part :: "key_part \<Rightarrow> string" where
  "str_part p = (case p of KStr s \<Rightarrow> s | _ \<Rightarrow> [])"

definition num_part :: "key_part \<Rightarrow> int" where
  "num_part p = (case p of KNum n \<Rightarrow> n | _ \<Rightarrow> 0)"

definition opt_part :: "key_part \<Rightarrow> string option" where
  "opt_part p = (case p of KStr s \<Rightarrow> Some s | _ \<Rightarrow> None)"

definition range_part :: "key_part \<Rightarrow> traffic_range" where
  "range_part p = (if p = KStr ''1d'' then Range_1d else if p = KStr ''7d'' then Range_7d else Range_30d)"

definition key_request :: "query_key \<Rightarrow> query_fn" where
  "key_request k =
     (if length k = 1 \<and> k ! 0 = KStr ''apps'' then Api apps_list
      else if length k = 2 \<and> k ! 0 = KStr ''apps'' then Api (apps_get (str_part (k ! 1)))
      else if length k = 2 \<and> k ! 0 = KStr ''app-stats'' then Raw_Fetch (''/api/v1/apps/'' @ (str_part (k ! 1)) @ ''/stats'') (Some ''Failed to fetch app stats'')
      else if length k = 2 \<and> k ! 0 = KStr ''app-rules'' then Api (apps_listRules (str_part (k ! 1)))
      else if length k = 2 \<and> k ! 0 = KStr ''ip-access-rules'' then Api_Member (apps_listIPAccessRules (str_part (k ! 1))) ''rules''
      else if length k = 1 \<and> k ! 0 = KStr ''rules'' then Api rules_list
      else if length k = 2 \<and> k ! 0 = KStr ''rules'' then Api (rules_get (num_part (k ! 1)))
      else if length k = 2 \<and> k ! 0 = KStr ''ruleEvents'' then Raw_Fetch (''/api/v1/rules/events?days='' @ int_to_string (days_or_default (Some (num_part (k ! 1)))))
          (Some ''Failed to fetch rule events'')
      else if length k = 1 \<and> k ! 0 = KStr ''botPatterns'' then Api botPatterns_list
      else if length k = 1 \<and> k ! 0 = KStr ''botIPRanges'' then Api botIPRanges_list
      else if length k = 1 \<and> k ! 0 = KStr ''ipReputationEntries'' then Api ipReputation_list
      else if length k = 1 \<and> k ! 0 = KStr ''ipReputationConfig'' then Api ipReputation_getConfig
      else if length k = 1 \<and> k ! 0 = KStr ''botConfig'' then Api settings_getBotConfig
      else if length k = 1 \<and> k ! 0 = KStr ''wafConfig'' then Api settings_getWAFConfig
      else if length k = 1 \<and> k ! 0 = KStr ''scoringConfig'' then Api settings_getScoringConfig
      else if length k = 1 \<and> k ! 0 = KStr ''protocolAnomalyConfig'' then Api settings_getProtocolAnomalyConfig
      else if length k = 1 \<and> k ! 0 = KStr ''rateLimit'' then Api rateLimit_get
      else if length k = 1 \<and> k ! 0 = KStr ''rateLimitStats'' then Api rateLimit_getStats
      else if length k = 4 \<and> k ! 0 = KStr ''analytics'' \<and> k ! 1 = KStr ''traffic'' then Api (analytics_getTrafficAnalytics \<lparr>tp_range = (range_part (k ! 2)), tp_app_id = (opt_part (k ! 3))\<rparr>)
      else if length k = 4 \<and> k ! 0 = KStr ''analytics'' \<and> k ! 1 = KStr ''threats'' then Api (analytics_getTopThreats (str_part (k ! 2)) (opt_part (k ! 3)))
      else if length k = 4 \<and> k ! 0 = KStr ''analytics'' \<and> k ! 1 = KStr ''insights'' then Api (analytics_getInsights (str_part (k ! 2)) (opt_part (k ! 3)))
      else if length k = 3 \<and> k ! 0 = KStr ''analytics'' \<and> k ! 1 = KStr ''challenge-stats'' then Api (analytics_getChallengeStats (str_part (k ! 2)))
      else if length k = 3 \<and> k ! 0 = KStr ''analytics'' \<and> k ! 1 = KStr ''top-blocked-bots'' then Api (analytics_getTopBlockedBots (Some (case (Some (str_part (k ! 2))) of None \<Rightarrow> ''7d'' | Some r \<Rightarrow> r)))
      else if length k = 3 \<and> k ! 0 = KStr ''analytics'' \<and> k ! 1 = KStr ''waf-stats'' then Api (analytics_getWAFStats (str_part (k ! 2)))
      else if length k = 4 \<and> k ! 0 = KStr ''analytics'' \<and> k ! 1 = KStr ''fingerprints'' then Api (analytics_getJA4Fingerprints (Some (num_part (k ! 2))) (Some (num_part (k ! 3))))
      else if length k = 3 \<and> k ! 0 = KStr ''analytics'' \<and> k ! 1 = KStr ''fingerprint-detail'' then Api (analytics_getJA4Detail (case (opt_part (k ! 2)) of None \<Rightarrow> ''null'' | Some j \<Rightarrow> j))
      else if length k = 5 \<and> k ! 0 = KStr ''analytics'' \<and> k ! 1 = KStr ''threat-intel'' \<and> k ! 2 = KStr ''ips'' then Api (analytics_getThreatIPs (str_part (k ! 3)) (opt_part (k ! 4)))
      else if length k = 5 \<and> k ! 0 = KStr ''analytics'' \<and> k ! 1 = KStr ''threat-intel'' \<and> k ! 2 = KStr ''waf-rules'' then Api (analytics_getWAFRuleIntel (str_part (k ! 3)) (opt_part (k ! 4)))
      else if length k = 5 \<and> k ! 0 = KStr ''analytics'' \<and> k ! 1 = KStr ''threat-intel'' \<and> k ! 2 = KStr ''summary'' then Api (analytics_getThreatSummary (str_part (k ! 3)) (opt_part (k ! 4)))
      else if length k = 5 \<and> k ! 0 = KStr ''analytics'' \<and> k ! 1 = KStr ''threat-intel'' \<and> k ! 2 = KStr ''custom-rules'' then Api (analytics_getCustomRuleIntel (str_part (k ! 3)) (opt_part (k ! 4)))
      else if length k = 1 \<and> k ! 0 = KStr ''cache-stats'' then Raw_Fetch ''/api/v1/cache/stats'' None
      else if length k = 2 \<and> k ! 0 = KStr ''cache-analytics'' then Raw_Fetch (''/api/v1/analytics/cache?range='' @ (str_part (k ! 1))) None
      else if length k = 1 \<and> k ! 0 = KStr ''performance-stats'' then Raw_Fetch ''/api/v1/performance/stats'' None
      else Raw_Fetch [] None)"

lemma part_simps [simp]:
  "str_part (KStr s) = s" "num_part (KNum n) = n"
  "opt_part (case v of None \<Rightarrow> KNull | Some s \<Rightarrow> KStr s) = v"
  "range_part (KStr (traffic_range_str r)) = r"
  by (simp_all add: str_part_def num_part_def opt_part_def range_part_def split: option.splits)
    (cases r, simp_all)

lemma key_request_query: "key_request (hash_key (qo_key (query_of h))) = qo_fn (query_of h)"
  by (cases h) (simp_all add: key_request_def query_defs appRuleKeys_byApp_def ipAccessKeys_byApp_def
      days_or_default_def)

text \<open>The cache never mixes two requests: two query hooks, with whatever arguments, whose keys are
  the same for the cache fetch the same resource in the same way.\<close>

theorem query_key_determines_request:
  assumes "hash_key (qo_key (query_of h)) = hash_key (qo_key (query_of h'))"
  shows "qo_fn (query_of h) = qo_fn (query_of h')"
  using assms key_request_query by metis

theorem query_key_determines_request_witness:
  "hash_key (qo_key (query_of (UseRuleEvents None))) = hash_key (qo_key (query_of (UseRuleEvents (Some 30)))) \<and>
   qo_fn (query_of (UseRuleEvents None)) = qo_fn (query_of (UseRuleEvents (Some 30)))"
  using query_key_determines_request [of "UseRuleEvents None" "UseRuleEvents (Some 30)"]
  by (simp add: useRuleEvents_def days_or_default_def)

section \<open>What a mutation refreshes\<close>

text \<open>The contract between the queries of a resource and its mutations: the queries live below one key
  and every mutation invalidates that key or one above it.\<close>

locale resource_hooks =
  fixes root :: query_key
    and queries :: "query_options set"
    and mutations :: "mutation_options set"
  assumes query_below_root: "q \<in> queries \<Longrightarrow> prefix (hash_key root) (hash_key (qo_key q))"
    and mutation_above_root: "mu \<in> mutations \<Longrightarrow>
      \<exists>k \<in> set (mu_invalidates mu). prefix (hash_key k) (hash_key root)"
begin

lemma mutation_refreshes:
  assumes "mu \<in> mutations" and "q \<in> queries"
  shows "refreshes mu q"
proof -
  obtain k where k: "k \<in> set (mu_invalidates mu)" and p: "prefix (hash_key k) (hash_key root)"
    using mutation_above_root [OF assms(1)] by blast
  have "prefix (hash_key k) (hash_key (qo_key q))"
    using p query_below_root [OF assms(2)] by (rule prefix_order.trans)
  then show ?thesis using k by (auto simp: refreshes_def list_ex_iff)
qed

end

definition app_mutations :: "mutation_options set" where
  "app_mutations = range useCreateApp \<union> {useUpdateApp i d | i d. True} \<union> range useDeleteApp \<union>
     {useToggleUnderAttackMode i e | i e. True}"

definition rule_mutations :: "mutation_options set" where
  "rule_mutations = range useCreateRule \<union> {useUpdateRule i d | i d. True} \<union> range useDeleteRule"

definition app_rule_mutations :: "string \<Rightarrow> mutation_options set" where
  "app_rule_mutations a = range (useCreateAppRule a) \<union> {useUpdateAppRule a i d | i d. True} \<union>
     range (useDeleteAppRule a)"

definition ip_access_mutations :: "string \<Rightarrow> mutation_options set" where
  "ip_access_mutations a = range (useCreateIPAccessRule a) \<union> {useUpdateIPAccessRule a i d | i d. True} \<union>
     range (useDeleteIPAccessRule a)"

definition bot_pattern_mutations :: "mutation_options set" where
  "bot_pattern_mutations = range useCreateBotPattern \<union> {useUpdateBotPattern i d | i d. True} \<union>
     range useDeleteBotPattern \<union> range useBulkDeleteBotPatterns \<union> range useBulkCreateBotPatterns \<union>
     range useBulkUpdateBotPatterns"

definition bot_range_mutations :: "mutation_options set" where
  "bot_range_mutations = range useCreateBotIPRange \<union> {useUpdateBotIPRange i d | i d. True} \<union>
     range useDeleteBotIPRange \<union> range useSyncBotIPRange"

definition reputation_mutations :: "mutation_options set" where
  "reputation_mutations = range useCreateIPReputationEntry \<union> {useUpdateIPReputationEntry i d | i d. True} \<union>
     range useDeleteIPReputationEntry \<union> range useBulkDeleteIPReputationEntries \<union>
     {useBulkUpdateScoreIPReputationEntries is s | is s. True} \<union> {useSyncSpamhaus}"

interpretation app_hooks: resource_hooks "[KStr ''apps'']" "{useApps} \<union> range useApp" app_mutations
  by unfold_locales (auto simp: app_mutations_def query_defs mutation_defs)

interpretation rule_hooks: resource_hooks "[KStr ''rules'']" "{useRules} \<union> range useRule" rule_mutations
  by unfold_locales (auto simp: rule_mutations_def query_defs mutation_defs)

interpretation rule_event_hooks: resource_hooks "[KStr ''ruleEvents'']" "range useRuleEvents" rule_mutations
  by unfold_locales (auto simp: rule_mutations_def query_defs mutation_defs)

interpretation app_rule_hooks: resource_hooks "appRuleKeys_byApp a" "{useAppRules a}" "app_rule_mutations a" for a
  by unfold_locales (auto simp: app_rule_mutations_def query_defs mutation_defs)

interpretation ip_access_hooks: resource_hooks "ipAccessKeys_byApp a" "{useIPAccessRules a}" "ip_access_mutations a" for a
  by unfold_locales (auto simp: ip_access_mutations_def query_defs mutation_defs)

interpretation bot_pattern_hooks: resource_hooks "[KStr ''botPatterns'']" "{useBotPatterns}" bot_pattern_mutations
  by unfold_locales (auto simp: bot_pattern_mutations_def query_defs mutation_defs)

interpretation bot_range_hooks: resource_hooks "[KStr ''botIPRanges'']" "{useBotIPRanges}" bot_range_mutations
  by unfold_locales (auto simp: bot_range_mutations_def query_defs mutation_defs)

interpretation reputation_hooks: resource_hooks "[KStr ''ipReputationEntries'']" "{useIPReputationEntries}"
    reputation_mutations
  by unfold_locales (auto simp: reputation_mutations_def query_defs mutation_defs)



text \<open>A mutation refreshes no more than it has to: among all queries of the dashboard, a changed
  application refreshes the application queries only, a changed rule the rule and rule-event queries only, and
  a changed rule or access rule of one application only the list of that application.\<close>

theorem mutation_scope:
  "(refreshes (useUpdateApp x data) (query_of h) \<longleftrightarrow> h = UseApps \<or> (\<exists>y. h = UseApp y)) \<and>
   (refreshes (useUpdateRule i data) (query_of h) \<longleftrightarrow>
      h = UseRules \<or> (\<exists>j. h = UseRule j) \<or> (\<exists>d. h = UseRuleEvents d)) \<and>
   (refreshes (useUpdateAppRule a i data) (query_of h) \<longleftrightarrow> h = UseAppRules a) \<and>
   (refreshes (useUpdateIPAccessRule a i data) (query_of h) \<longleftrightarrow> h = UseIPAccessRules a)"
  by (cases h) (auto simp: refreshes_def query_defs mutation_defs appRuleKeys_byApp_def ipAccessKeys_byApp_def)

section \<open>Application statistics\<close>

definition raw_get :: "string \<Rightarrow> api_call" where
  "raw_get endpoint = (endpoint, no_options\<lparr>ri_credentials := Some ''include''\<rparr>)"

text \<open>The server has no route for the request of \<open>useAppStats\<close>: it is answered by the handler for one
  application.\<close>

theorem app_stats_not_served:
  assumes "routable_app a"
  shows "\<exists>endpoint msg. qo_fn (useAppStats a) = Raw_Fetch endpoint msg \<and>
    route_call (raw_get endpoint) = Some (Authenticated (AppHandler App_GetApp))"
proof -
  have seg: "plain_segment a" using assms by (simp add: routable_app_def)
  have "handleAppRoutes GET (''/api/v1/apps/'' @ a @ ''/stats'') = AppHandler App_GetApp"
    using app_routes_below [OF assms, of GET "''stats''"] by simp
  then have "route_call (raw_get (''/api/v1/apps/'' @ a @ ''/stats'')) =
      Some (Authenticated (AppHandler App_GetApp))"
    using route_app [of "raw_get (''/api/v1/apps/'' @ a @ ''/stats'')" "CHR ''/'' # a @ ''/stats''"] seg
    by (simp add: raw_get_def call_method_def no_options_def)
  then show ?thesis by (auto simp: useAppStats_def)
qed

theorem app_stats_not_served_witness:
  "\<exists>endpoint msg. qo_fn (useAppStats ''shop'') = Raw_Fetch endpoint msg \<and>
     route_call (raw_get endpoint) = Some (Authenticated (AppHandler App_GetApp))"
proof -
  have "routable_app ''shop''" by code_simp
  then show ?thesis by (rule app_stats_not_served)
qed

end
