(* ===== verification/Rule_Reorder.thy ===== *)
theory Rule_Reorder
  imports Query_Hooks
begin

text \<open>
  Reordering rules by drag and drop: the hooks \<open>useReorderRules\<close>
  (\<open>src/frontend/src/hooks/rules/useRules.ts\<close>) and \<open>useReorderAppRules\<close>
  (\<open>src/frontend/src/hooks/useAppRules.ts\<close>), which write the new order into the query cache before the
  server answers (\<open>onMutate\<close>), put the old order back when it refuses (\<open>onError\<close>) and invalidate the
  list in either case (\<open>onSettled\<close>).

  The query client of TanStack Query is an argument: a record of the four operations the hooks call.
  \<open>query_client_laws\<close> states what its documentation says of them: \<open>setQueryData\<close> stores, \<open>getQueryData\<close>
  reads, cancelling and invalidating leave the data alone.

  The two hooks are the same code on different keys, so the behaviour is proved once, in the locale
  \<open>optimistic_reorder\<close>, and instantiated for both.
\<close>

section \<open>The query client\<close>

record 'c query_client =
  qc_getQueryData      :: "'c \<Rightarrow> query_key \<Rightarrow> rule list option"
  qc_setQueryData      :: "'c \<Rightarrow> query_key \<Rightarrow> rule list \<Rightarrow> 'c"
  qc_cancelQueries     :: "'c \<Rightarrow> query_key \<Rightarrow> 'c"
  qc_invalidateQueries :: "'c \<Rightarrow> query_key \<Rightarrow> 'c"

definition query_client_laws :: "'c query_client \<Rightarrow> bool" where
  "query_client_laws qc \<longleftrightarrow>
     (\<forall>c k v k'. qc_getQueryData qc (qc_setQueryData qc c k v) k' =
        (if hash_key k' = hash_key k then Some v else qc_getQueryData qc c k')) \<and>
     (\<forall>c k k'. qc_getQueryData qc (qc_cancelQueries qc c k) k' = qc_getQueryData qc c k') \<and>
     (\<forall>c k k'. qc_getQueryData qc (qc_invalidateQueries qc c k) k' = qc_getQueryData qc c k')"

section \<open>The hooks\<close>

text \<open>\<open>new Map(previousRules.map((r) => [r.id, r]))\<close>: a later rule with the same number wins.\<close>

definition ruleMap :: "rule list \<Rightarrow> int \<Rightarrow> rule option" where
  "ruleMap rules = map_of (rev (map (\<lambda>r. (rule_id r, r)) rules))"

text \<open>The rules in the order of \<open>ruleIDs\<close>, with the priority of the position; an unknown number is
  skipped but keeps its position.\<close>

fun optimistic_from :: "nat \<Rightarrow> rule list \<Rightarrow> int list \<Rightarrow> rule list" where
  "optimistic_from index previousRules [] = []"
| "optimistic_from index previousRules (i # ruleIDs) =
     (case ruleMap previousRules i of
        Some rule \<Rightarrow> [rule\<lparr>rule_priority := (int index + 1) * 10\<rparr>]
      | None \<Rightarrow> []) @ optimistic_from (Suc index) previousRules ruleIDs"

definition optimisticRules :: "rule list \<Rightarrow> int list \<Rightarrow> rule list" where
  "optimisticRules previousRules ruleIDs = optimistic_from 0 previousRules ruleIDs"

definition reorder_onMutate ::
  "query_key \<Rightarrow> 'c query_client \<Rightarrow> 'c \<Rightarrow> int list \<Rightarrow> 'c \<times> rule list option" where
  "reorder_onMutate key qc c ruleIDs =
     (let c = qc_cancelQueries qc c key;
          previousRules = qc_getQueryData qc c key;
          c = (case previousRules of
                 None \<Rightarrow> c
               | Some rules \<Rightarrow> qc_setQueryData qc c key (optimisticRules rules ruleIDs))
      in (c, previousRules))"

definition reorder_onError :: "query_key \<Rightarrow> 'c query_client \<Rightarrow> 'c \<Rightarrow> rule list option \<Rightarrow> 'c" where
  "reorder_onError key qc c context =
     (case context of None \<Rightarrow> c | Some rules \<Rightarrow> qc_setQueryData qc c key rules)"

definition reorder_onSettled :: "query_key \<Rightarrow> 'c query_client \<Rightarrow> 'c \<Rightarrow> 'c" where
  "reorder_onSettled key qc c = qc_invalidateQueries qc c key"

text \<open>One mutation from start to end, given what its request settles with.\<close>

definition run_reorder ::
  "query_key \<Rightarrow> (int list \<Rightarrow> api_call) \<Rightarrow> 'c query_client \<Rightarrow> (api_call \<Rightarrow> api_error + json) \<Rightarrow> 'c \<Rightarrow> int list \<Rightarrow> 'c" where
  "run_reorder key call qc server c ruleIDs =
     (let (c, context) = reorder_onMutate key qc c ruleIDs;
          c = (case server (call ruleIDs) of
                 Inl _ \<Rightarrow> reorder_onError key qc c context
               | Inr _ \<Rightarrow> c)
      in reorder_onSettled key qc c)"

definition useReorderRules ::
  "'c query_client \<Rightarrow> (api_call \<Rightarrow> api_error + json) \<Rightarrow> 'c \<Rightarrow> int list \<Rightarrow> 'c" where
  "useReorderRules = run_reorder [KStr ''rules''] rules_reorder"

definition useReorderAppRules ::
  "string \<Rightarrow> 'c query_client \<Rightarrow> (api_call \<Rightarrow> api_error + json) \<Rightarrow> 'c \<Rightarrow> int list \<Rightarrow> 'c" where
  "useReorderAppRules appId = run_reorder (appRuleKeys_byApp appId) (apps_reorderRules appId)"

section \<open>The optimistic list\<close>

lemma ruleMap_distinct:
  assumes "distinct (map rule_id rules)" and "r \<in> set rules"
  shows "ruleMap rules (rule_id r) = Some r"
  unfolding ruleMap_def
  by (rule map_of_is_SomeI) (use assms in \<open>auto simp: rev_map [symmetric] comp_def\<close>)

lemma ruleMap_id: "ruleMap rules i = Some r \<Longrightarrow> r \<in> set rules \<and> rule_id r = i"
  unfolding ruleMap_def by (drule map_of_SomeD) auto

lemma ruleMap_None: "ruleMap rules i = None \<longleftrightarrow> i \<notin> rule_id ` set rules"
  unfolding ruleMap_def by (force simp: map_of_eq_None_iff)

text \<open>With every number known, position by position.\<close>

lemma optimistic_from_known:
  assumes "set ids \<subseteq> rule_id ` set rules"
  shows "optimistic_from n rules ids =
    map (\<lambda>k. (the (ruleMap rules (ids ! k)))\<lparr>rule_priority := (int (n + k) + 1) * 10\<rparr>) [0..<length ids]"
  using assms
proof (induction ids arbitrary: n)
  case (Cons i ids)
  have "ruleMap rules i \<noteq> None" using Cons.prems ruleMap_None by auto
  then obtain r where r: "ruleMap rules i = Some r" by blast
  have "[0..<length (i # ids)] = 0 # map Suc [0..<length ids]"
    by (simp add: upt_conv_Cons map_Suc_upt del: upt_Suc)
  then show ?case using Cons r by (simp add: comp_def)
qed simp

lemma optimistic_ids: "map rule_id (optimistic_from n rules ids) = filter (\<lambda>i. i \<in> rule_id ` set rules) ids"
proof (induction ids arbitrary: n)
  case (Cons i ids)
  then show ?case
    using ruleMap_None [of rules i] ruleMap_id [of rules i] by (cases "ruleMap rules i") auto
qed simp

lemma optimistic_rule:
  "r \<in> set (optimistic_from n rules ids) \<Longrightarrow> \<exists>q \<in> set rules. \<exists>p. r = q\<lparr>rule_priority := p\<rparr>"
proof (induction ids arbitrary: n)
  case (Cons i ids)
  then show ?case using ruleMap_id [of rules i] by (cases "ruleMap rules i") auto
qed simp

lemma optimistic_priorities:
  "sorted_wrt (\<lambda>a b. rule_priority a < rule_priority b) (optimistic_from n rules ids) \<and>
   (\<forall>r \<in> set (optimistic_from n rules ids). int n * 10 < rule_priority r)"
proof (induction ids arbitrary: n)
  case (Cons i ids)
  have IH: "sorted_wrt (\<lambda>a b. rule_priority a < rule_priority b) (optimistic_from (Suc n) rules ids)"
    "\<forall>r \<in> set (optimistic_from (Suc n) rules ids). int (Suc n) * 10 < rule_priority r"
    using Cons [of "Suc n"] by auto
  show ?case
    using IH by (cases "ruleMap rules i") (auto simp: algebra_simps)
qed simp

section \<open>One mutation\<close>

locale optimistic_reorder =
  fixes key :: query_key
    and hook :: "'c query_client \<Rightarrow> (api_call \<Rightarrow> api_error + json) \<Rightarrow> 'c \<Rightarrow> int list \<Rightarrow> 'c"
    and call :: "int list \<Rightarrow> api_call"
  assumes hook_runs: "hook = run_reorder key call"
begin

lemma cached_after_success:
  assumes "query_client_laws qc" and "qc_getQueryData qc c key = Some rules" and "server (call ids) = Inr v"
  shows "qc_getQueryData qc (hook qc server c ids) key = Some (optimisticRules rules ids)"
  using assms
  by (simp add: hook_runs run_reorder_def reorder_onMutate_def reorder_onSettled_def query_client_laws_def
      Let_def)

lemma cached_after_failure:
  assumes "query_client_laws qc" and "server (call ids) = Inl e"
  shows "qc_getQueryData qc (hook qc server c ids) key = qc_getQueryData qc c key"
  using assms
  by (cases "qc_getQueryData qc c key")
    (simp_all add: hook_runs run_reorder_def reorder_onMutate_def reorder_onError_def reorder_onSettled_def
      query_client_laws_def Let_def)

lemma other_keys_untouched:
  assumes "query_client_laws qc" and "hash_key k \<noteq> hash_key key"
  shows "qc_getQueryData qc (hook qc server c ids) k = qc_getQueryData qc c k"
  using assms
  by (cases "qc_getQueryData qc c key"; cases "server (call ids)")
    (simp_all add: hook_runs run_reorder_def reorder_onMutate_def reorder_onError_def reorder_onSettled_def
      query_client_laws_def Let_def)

end

interpretation global_reorder: optimistic_reorder "[KStr ''rules'']" useReorderRules rules_reorder
  by unfold_locales (simp add: useReorderRules_def)

interpretation app_reorder: optimistic_reorder "appRuleKeys_byApp a" "useReorderAppRules a" "apps_reorderRules a" for a
  by unfold_locales (simp add: useReorderAppRules_def)

text \<open>What reordering promises of the cached list, from the rules before to the rules after.\<close>

definition reordered :: "int list \<Rightarrow> rule list \<Rightarrow> rule list \<Rightarrow> bool" where
  "reordered ids rules rules' \<longleftrightarrow>
     map rule_id rules' = ids \<and>
     map rule_priority rules' = map (\<lambda>k. (int k + 1) * 10) [0..<length ids] \<and>
     mset (map (rule_priority_update (\<lambda>_. 0)) rules') = mset (map (rule_priority_update (\<lambda>_. 0)) rules)"

lemma optimistic_complete:
  assumes d: "distinct (map rule_id rules)" and p: "mset ids = mset (map rule_id rules)"
  shows "reordered ids rules (optimisticRules rules ids)"
proof -
  have sub: "set ids = rule_id ` set rules" using p by (metis list.set_map mset_eq_setD)
  have di: "distinct ids" using d p by (metis mset_eq_imp_distinct_iff)
  have ids: "map rule_id (optimisticRules rules ids) = ids"
    using sub by (simp add: optimisticRules_def optimistic_ids filter_id_conv)
  have pr: "map rule_priority (optimisticRules rules ids) = map (\<lambda>k. (int k + 1) * 10) [0..<length ids]"
    using sub by (simp add: optimisticRules_def optimistic_from_known comp_def)
  let ?z = "rule_priority_update (\<lambda>_. 0 :: int)"
  let ?f = "\<lambda>i. ?z (the (ruleMap rules i))"
  have "map ?f ids = map ?f (map ((!) ids) [0..<length ids])" by (simp only: map_nth)
  then have "map ?z (optimisticRules rules ids) = map ?f ids"
    using sub by (simp add: optimisticRules_def optimistic_from_known comp_def)
  then have "mset (map ?z (optimisticRules rules ids)) = mset (map ?f ids)" by simp
  also have "mset (map ?f ids) = image_mset ?f (mset (map rule_id rules))"
    using p by simp
  also have "\<dots> = mset (map (\<lambda>r. ?f (rule_id r)) rules)"
    by (simp add: image_mset.compositionality comp_def)
  also have "map (\<lambda>r. ?f (rule_id r)) rules = map ?z rules"
    using ruleMap_distinct [OF d] by simp
  finally show ?thesis using ids pr by (simp add: reordered_def)
qed

end
