(* ===== verification/Rules_Page.thy ===== *)
theory Rules_Page
  imports Builder_Reload Rule_Reorder
begin

text \<open>
  The three screens on which rules are edited: the list of global rules
  (\<open>src/frontend/src/pages/security/RulesEngine.tsx\<close>), the form for one of them
  (\<open>src/frontend/src/pages/security/RuleForm.tsx\<close>) and the rules of one application
  (\<open>src/frontend/src/components/rules/AppRulesSection.tsx\<close>).  The \<open>useState\<close> variables of a component
  are a record, a handler maps the state to the new state and the list of its effects in order: the
  mutations it runs, the toasts, the navigation.  What the server answers to a call is an argument
  (\<open>server\<close>), and so is \<open>arrayMove\<close> of the drag-and-drop library, with the laws its documentation gives
  (\<open>array_move_laws\<close>).
\<close>

section \<open>Effects\<close>

datatype toast_kind = Toast_Success | Toast_Error | Toast_Info

datatype ui_effect =
    Mutate mutation_options
  | Send_Order "int list"
  | Toast string toast_kind
  | Navigate string

type_synonym server = "api_call \<Rightarrow> api_error + json"

text \<open>\<open>error?.message || text\<close>.\<close>

definition error_text :: "api_error \<Rightarrow> string \<Rightarrow> string" where
  "error_text e d = (if err_message e = [] then d else err_message e)"

text \<open>\<open>await mutation.mutateAsync(...)\<close> followed by a toast, with the failure caught.\<close>

definition mutate_toast :: "server \<Rightarrow> mutation_options \<Rightarrow> string \<Rightarrow> string \<Rightarrow> ui_effect list" where
  "mutate_toast server mu ok_text fail_text =
     [Mutate mu, (case server (mu_call mu) of
                    Inr _ \<Rightarrow> Toast ok_text Toast_Success
                  | Inl e \<Rightarrow> Toast (error_text e fail_text) Toast_Error)]"

definition enabled_word :: "bool \<Rightarrow> string" where
  "enabled_word b = (if b then ''enabled'' else ''disabled'')"

definition next_priority :: "rule list option \<Rightarrow> int" where
  "next_priority rules =
     (case rules of
        Some (r # rs) \<Rightarrow> math_max (rule_priority r) (map rule_priority rs) + 10
      | _ \<Rightarrow> 10)"

section \<open>Drag and drop\<close>

definition array_move_laws :: "(rule list \<Rightarrow> int \<Rightarrow> int \<Rightarrow> rule list) \<Rightarrow> bool" where
  "array_move_laws mv \<longleftrightarrow>
     (\<forall>xs i j. i < length xs \<longrightarrow> j < length xs \<longrightarrow>
        mset (mv xs (int i) (int j)) = mset xs \<and> mv xs (int i) (int j) ! j = xs ! i)"

definition dragged_ids :: "(rule list \<Rightarrow> int \<Rightarrow> int \<Rightarrow> rule list) \<Rightarrow> rule list \<Rightarrow> int \<Rightarrow> int \<Rightarrow> int list" where
  "dragged_ids mv xs active over =
     (let oldIndex = findIndex (\<lambda>r. rule_id r = active) xs;
          newIndex = findIndex (\<lambda>r. rule_id r = over) xs
      in map rule_id (mv xs oldIndex newIndex))"

section \<open>The list of global rules\<close>

datatype status_filter = Status_All | Status_Active | Status_Disabled

record rules_engine =
  re_isDeleteOpen :: bool
  re_selectedRule :: "rule option"
  re_actionFilter :: "rule_action option"
  re_statusFilter :: status_filter
  re_searchQuery  :: string

definition re_handleToggleEnabled :: "server \<Rightarrow> rule \<Rightarrow> ui_effect list" where
  "re_handleToggleEnabled server rl =
     mutate_toast server (useUpdateRule (rule_id rl) (rule_json (rl\<lparr>rule_enabled := \<not> rule_enabled rl\<rparr>)))
       (''Rule '' @ enabled_word (\<not> rule_enabled rl)) ''Failed to toggle rule''"

definition re_handleDeleteConfirm :: "server \<Rightarrow> rules_engine \<Rightarrow> rules_engine \<times> ui_effect list" where
  "re_handleDeleteConfirm server st =
     (case re_selectedRule st of
        None \<Rightarrow> (st, [])
      | Some rl \<Rightarrow>
          (let mu = useDeleteRule (rule_id rl)
           in (case server (mu_call mu) of
                 Inr _ \<Rightarrow> st\<lparr>re_isDeleteOpen := False, re_selectedRule := None\<rparr>
               | Inl _ \<Rightarrow> st,
               mutate_toast server mu ''Rule deleted successfully'' ''Failed to delete rule'')))"

definition rule_shown :: "rules_engine \<Rightarrow> rule \<Rightarrow> bool" where
  "rule_shown st rl \<longleftrightarrow>
     \<not> (re_actionFilter st \<noteq> None \<and> Some (rule_action rl) \<noteq> re_actionFilter st) \<and>
     \<not> (re_statusFilter st = Status_Active \<and> \<not> rule_enabled rl) \<and>
     \<not> (re_statusFilter st = Status_Disabled \<and> rule_enabled rl) \<and>
     \<not> (re_searchQuery st \<noteq> [] \<and>
        \<not> str_includes (toLowerCase (rule_name rl)) (toLowerCase (re_searchQuery st)) \<and>
        \<not> str_includes (toLowerCase (rule_expression_raw rl)) (toLowerCase (re_searchQuery st)))"

definition filteredRules :: "rules_engine \<Rightarrow> rule list option \<Rightarrow> rule list" where
  "filteredRules st rules =
     (case rules of
        None \<Rightarrow> []
      | Some rs \<Rightarrow> sort_key rule_priority (filter (rule_shown st) rs))"

definition reorder_toast :: "server \<Rightarrow> api_call \<Rightarrow> string \<Rightarrow> ui_effect" where
  "reorder_toast server call ok_text =
     (case server call of
        Inr _ \<Rightarrow> Toast ok_text Toast_Success
      | Inl e \<Rightarrow> Toast (error_text e ''Failed to reorder rules'') Toast_Error)"

definition re_handleDragEnd ::
  "(rule list \<Rightarrow> int \<Rightarrow> int \<Rightarrow> rule list) \<Rightarrow> 'c query_client \<Rightarrow> server \<Rightarrow> rules_engine \<Rightarrow> 'c \<Rightarrow>
     int \<Rightarrow> int option \<Rightarrow> 'c \<times> ui_effect list" where
  "re_handleDragEnd mv qc server st c active over =
     (case over of
        None \<Rightarrow> (c, [])
      | Some ov \<Rightarrow>
          if active = ov then (c, [])
          else
            (let shown = filteredRules st (qc_getQueryData qc c [KStr ''rules'']);
                 ruleIDs = dragged_ids mv shown active ov
             in (useReorderRules qc server c ruleIDs,
                 [Send_Order ruleIDs, reorder_toast server (rules_reorder ruleIDs) ''Rules reordered successfully''])))"

section \<open>The rules of one application\<close>

datatype builder_mode = Visual | Raw

datatype section_view = View_List | View_Form

record app_rules_section =
  ars_view             :: section_view
  ars_editingRule      :: "rule option"
  ars_isDeleteOpen     :: bool
  ars_ruleToDelete     :: "rule option"
  ars_formData         :: rule_request
  ars_builderMode      :: builder_mode
  ars_expressionGroup  :: condition_group
  ars_rawExpression    :: string
  ars_validationResult :: "validate_response option"
  ars_fields           :: fields

definition DEFAULT_FORM :: rule_request where
  "DEFAULT_FORM = \<lparr>rr_name = [], rr_scope = Scope_App, rr_app_id = None, rr_rule_group = Custom_Group,
     rr_expression_raw = [], rr_action = Act_Block, rr_skip_modules = Some [], rr_priority = 10,
     rr_enabled = True, rr_description = []\<rparr>"

definition DEFAULT_GROUP :: condition_group where
  "DEFAULT_GROUP = \<lparr>g_id = ''root'', g_conditions = []\<rparr>"

definition sortedRules :: "rule list option \<Rightarrow> rule list" where
  "sortedRules rules = (case rules of None \<Rightarrow> [] | Some rs \<Rightarrow> sort_key rule_priority rs)"

definition ars_openCreate :: "rule list option \<Rightarrow> app_rules_section \<Rightarrow> app_rules_section" where
  "ars_openCreate rules st = st\<lparr>
     ars_formData := DEFAULT_FORM\<lparr>rr_priority := next_priority rules\<rparr>,
     ars_expressionGroup := DEFAULT_GROUP,
     ars_rawExpression := [],
     ars_builderMode := Visual,
     ars_validationResult := None,
     ars_editingRule := None,
     ars_view := View_Form\<rparr>"

definition or_empty :: "'a list option \<Rightarrow> 'a list" where
  "or_empty v = (case v of None \<Rightarrow> [] | Some xs \<Rightarrow> xs)"

definition ars_openEdit :: "(nat \<Rightarrow> string) \<Rightarrow> rule \<Rightarrow> app_rules_section \<Rightarrow> app_rules_section" where
  "ars_openEdit fresh rl st = st\<lparr>
     ars_formData := \<lparr>rr_name = rule_name rl, rr_scope = Scope_App, rr_app_id = None,
       rr_rule_group = rule_rule_group rl, rr_expression_raw = rule_expression_raw rl,
       rr_action = rule_action rl, rr_skip_modules = Some (or_empty (rule_skip_modules rl)),
       rr_priority = rule_priority rl, rr_enabled = rule_enabled rl, rr_description = rule_description rl\<rparr>,
     ars_rawExpression := rule_expression_raw rl,
     ars_expressionGroup := (case rule_expression_structure rl of
         Some ast \<Rightarrow> astToConditionGroup fresh (Some ast) | None \<Rightarrow> DEFAULT_GROUP),
     ars_builderMode := (case rule_expression_structure rl of Some _ \<Rightarrow> Visual | None \<Rightarrow> Raw),
     ars_validationResult := None,
     ars_editingRule := Some rl,
     ars_view := View_Form\<rparr>"

definition current_expression :: "builder_mode \<Rightarrow> condition_group \<Rightarrow> fields \<Rightarrow> string \<Rightarrow> string" where
  "current_expression mode g fs raw = (if mode = Visual then generateExpression g fs else raw)"

definition ars_getCurrentExpression :: "app_rules_section \<Rightarrow> string" where
  "ars_getCurrentExpression st =
     current_expression (ars_builderMode st) (ars_expressionGroup st) (ars_fields st) (ars_rawExpression st)"

text \<open>The response of the validation endpoint, as the page reads it.\<close>

definition validation_of_json :: "json \<Rightarrow> validate_response" where
  "validation_of_json j = \<lparr>
     vr_valid = (case json_get j ''valid'' of Some v \<Rightarrow> truthy v | None \<Rightarrow> False),
     vr_error = (case json_get j ''error'' of Some (JStr e) \<Rightarrow> Some e | _ \<Rightarrow> None)\<rparr>"

definition ars_handleValidate :: "server \<Rightarrow> app_rules_section \<Rightarrow> app_rules_section \<times> ui_effect list" where
  "ars_handleValidate server st =
     (let expression = ars_getCurrentExpression st in
      if expression = [] then
        (st\<lparr>ars_validationResult := Some \<lparr>vr_valid = False, vr_error = Some ''Expression is required''\<rparr>\<rparr>, [])
      else
        (let mu = useValidateExpression expression
         in (case server (mu_call mu) of
               Inr result \<Rightarrow> st\<lparr>ars_validationResult := Some (validation_of_json result)\<rparr>
             | Inl _ \<Rightarrow> st\<lparr>ars_validationResult := Some \<lparr>vr_valid = False, vr_error = Some ''Validation failed''\<rparr>\<rparr>,
             [Mutate mu])))"

definition ars_payload :: "string \<Rightarrow> app_rules_section \<Rightarrow> string \<Rightarrow> rule_request" where
  "ars_payload appId st expression = (ars_formData st)\<lparr>
     rr_scope := Scope_App, rr_app_id := Some appId, rr_expression_raw := expression\<rparr>"

definition ars_handleSubmit :: "server \<Rightarrow> string \<Rightarrow> app_rules_section \<Rightarrow> app_rules_section \<times> ui_effect list" where
  "ars_handleSubmit server appId st =
     (let expression = ars_getCurrentExpression st in
      if rr_name (ars_formData st) = [] \<or> expression = [] then
        (st, [Toast ''Name and expression are required'' Toast_Error])
      else
        (let payload = rule_request_json (ars_payload appId st expression);
             mu = (case ars_editingRule st of
                     Some rl \<Rightarrow> useUpdateAppRule appId (rule_id rl) payload
                   | None \<Rightarrow> useCreateAppRule appId payload);
             text = (case ars_editingRule st of
                     Some _ \<Rightarrow> ''Rule updated successfully''
                   | None \<Rightarrow> ''Rule created successfully'')
         in (case server (mu_call mu) of
               Inr _ \<Rightarrow> st\<lparr>ars_view := View_List, ars_editingRule := None\<rparr>
             | Inl _ \<Rightarrow> st,
             mutate_toast server mu text ''Failed to save rule'')))"

definition ars_handleToggle :: "server \<Rightarrow> string \<Rightarrow> rule \<Rightarrow> ui_effect list" where
  "ars_handleToggle server appId rl =
     mutate_toast server
       (useUpdateAppRule appId (rule_id rl) (rule_request_json
          \<lparr>rr_name = rule_name rl, rr_scope = Scope_App, rr_app_id = Some appId,
           rr_rule_group = rule_rule_group rl, rr_expression_raw = rule_expression_raw rl,
           rr_action = rule_action rl, rr_skip_modules = Some (or_empty (rule_skip_modules rl)),
           rr_priority = rule_priority rl, rr_enabled = (\<not> rule_enabled rl),
           rr_description = rule_description rl\<rparr>))
       (''Rule '' @ enabled_word (\<not> rule_enabled rl)) ''Failed to toggle rule''"

definition ars_handleDeleteConfirm ::
  "server \<Rightarrow> string \<Rightarrow> app_rules_section \<Rightarrow> app_rules_section \<times> ui_effect list" where
  "ars_handleDeleteConfirm server appId st =
     (case ars_ruleToDelete st of
        None \<Rightarrow> (st, [])
      | Some rl \<Rightarrow>
          (let mu = useDeleteAppRule appId (rule_id rl)
           in (case server (mu_call mu) of
                 Inr _ \<Rightarrow> st\<lparr>ars_isDeleteOpen := False, ars_ruleToDelete := None\<rparr>
               | Inl _ \<Rightarrow> st,
               mutate_toast server mu ''Rule deleted successfully'' ''Failed to delete rule'')))"

definition ars_handleDragEnd ::
  "(rule list \<Rightarrow> int \<Rightarrow> int \<Rightarrow> rule list) \<Rightarrow> 'c query_client \<Rightarrow> server \<Rightarrow> string \<Rightarrow> 'c \<Rightarrow>
     int \<Rightarrow> int option \<Rightarrow> 'c \<times> ui_effect list" where
  "ars_handleDragEnd mv qc server appId c active over =
     (case over of
        None \<Rightarrow> (c, [])
      | Some ov \<Rightarrow>
          if active = ov then (c, [])
          else
            (let ruleIDs = dragged_ids mv (sortedRules (qc_getQueryData qc c (appRuleKeys_byApp appId))) active ov
             in (useReorderAppRules appId qc server c ruleIDs,
                 [Send_Order ruleIDs, reorder_toast server (apps_reorderRules appId ruleIDs) ''Rules reordered''])))"

section \<open>The form of one global rule\<close>

record rule_form =
  rf_fields           :: fields
  rf_builderMode      :: builder_mode
  rf_expressionGroup  :: condition_group
  rf_rawExpression    :: string
  rf_validationResult :: "validate_response option"
  rf_formData         :: rule_request

definition rf_initial :: rule_form where
  "rf_initial = \<lparr>rf_fields = [], rf_builderMode = Visual, rf_expressionGroup = DEFAULT_GROUP,
     rf_rawExpression = [], rf_validationResult = None,
     rf_formData = DEFAULT_FORM\<lparr>rr_priority := 100\<rparr>\<rparr>"

definition rf_loadRule :: "(nat \<Rightarrow> string) \<Rightarrow> rule option \<Rightarrow> rule_form \<Rightarrow> rule_form" where
  "rf_loadRule fresh existingRule st =
     (case existingRule of
        None \<Rightarrow> st
      | Some rl \<Rightarrow>
          (let st = st\<lparr>rf_formData := \<lparr>rr_name = rule_name rl, rr_scope = rule_scope rl,
                   rr_app_id = Some (str_or (rule_app_id rl) []), rr_rule_group = rule_rule_group rl,
                   rr_expression_raw = rule_expression_raw rl, rr_action = rule_action rl,
                   rr_skip_modules = Some (or_empty (rule_skip_modules rl)), rr_priority = rule_priority rl,
                   rr_enabled = rule_enabled rl, rr_description = rule_description rl\<rparr>,
                 rf_rawExpression := rule_expression_raw rl\<rparr>
           in (case rule_expression_structure rl of
                 Some ast \<Rightarrow> st\<lparr>rf_expressionGroup := astToConditionGroup fresh (Some ast)\<rparr>
               | None \<Rightarrow> st\<lparr>rf_builderMode := Raw\<rparr>)))"

definition rf_suggestPriority :: "bool \<Rightarrow> rule list option \<Rightarrow> rule_form \<Rightarrow> rule_form" where
  "rf_suggestPriority isEdit rules st =
     (case rules of
        Some (r # rs) \<Rightarrow>
          if isEdit then st
          else st\<lparr>rf_formData := (rf_formData st)\<lparr>rr_priority :=
                 math_max (rule_priority r) (map rule_priority rs @ [0]) + 10\<rparr>\<rparr>
      | _ \<Rightarrow> st)"

definition rf_getCurrentExpression :: "rule_form \<Rightarrow> string" where
  "rf_getCurrentExpression st =
     current_expression (rf_builderMode st) (rf_expressionGroup st) (rf_fields st) (rf_rawExpression st)"

definition rf_handleValidate :: "server \<Rightarrow> rule_form \<Rightarrow> rule_form \<times> ui_effect list" where
  "rf_handleValidate server st =
     (let expression = rf_getCurrentExpression st in
      if expression = [] then
        (st\<lparr>rf_validationResult := Some \<lparr>vr_valid = False, vr_error = Some ''Expression is required''\<rparr>\<rparr>, [])
      else
        (let mu = useValidateExpression expression
         in (case server (mu_call mu) of
               Inr j \<Rightarrow>
                 (let result = validation_of_json j
                  in (st\<lparr>rf_validationResult := Some result\<rparr>,
                      [Mutate mu,
                       if vr_valid result then Toast ''Expression is valid'' Toast_Success
                       else Toast (str_or (vr_error result) ''Invalid expression'') Toast_Error]))
             | Inl _ \<Rightarrow>
                 (st\<lparr>rf_validationResult := Some \<lparr>vr_valid = False, vr_error = Some ''Validation failed''\<rparr>\<rparr>,
                  [Mutate mu, Toast ''Validation failed'' Toast_Error]))))"

definition rf_handleSubmit :: "server \<Rightarrow> int option \<Rightarrow> rule_form \<Rightarrow> ui_effect list" where
  "rf_handleSubmit server ident st =
     (let expression = rf_getCurrentExpression st in
      if rr_name (rf_formData st) = [] \<or> expression = [] then
        [Toast ''Name and expression are required'' Toast_Error]
      else
        (let payload = rule_request_json ((rf_formData st)\<lparr>rr_expression_raw := expression\<rparr>);
             mu = (case ident of Some i \<Rightarrow> useUpdateRule i payload | None \<Rightarrow> useCreateRule payload)
         in Mutate mu #
            (case server (mu_call mu) of
               Inr _ \<Rightarrow>
                 [Toast (if ident = None then ''Rule created successfully'' else ''Rule updated successfully'')
                    Toast_Success,
                  Navigate ''/rules-engine'']
             | Inl _ \<Rightarrow>
                 [Toast (''Failed to '' @ (if ident = None then ''create'' else ''update'') @ '' rule'') Toast_Error])))"

section \<open>Dragging\<close>

lemma findIndex_id:
  assumes "distinct (map rule_id xs)" and "r \<in> set xs"
  shows "\<exists>k < length xs. findIndex (\<lambda>q. rule_id q = rule_id r) xs = int k \<and> xs ! k = r"
proof -
  obtain k where k: "k < length xs" "findIndex (\<lambda>q. rule_id q = rule_id r) xs = int k" "rule_id (xs ! k) = rule_id r"
    using findIndex_found [of r xs "\<lambda>q. rule_id q = rule_id r"] assms(2) by auto
  obtain j where j: "j < length xs" "xs ! j = r" using assms(2) by (auto simp: in_set_conv_nth)
  have "map rule_id xs ! k = map rule_id xs ! j" using k j by simp
  then have "k = j" using assms(1) k(1) j(1) nth_eq_iff_index_eq [of "map rule_id xs" k j] by simp
  then show ?thesis using k j by blast
qed

lemma dragged_ids_perm:
  assumes "array_move_laws mv" and "distinct (map rule_id xs)" and "a \<in> set xs" and "b \<in> set xs"
  shows "mset (dragged_ids mv xs (rule_id a) (rule_id b)) = mset (map rule_id xs) \<and>
    (\<exists>k < length xs. xs ! k = b \<and> dragged_ids mv xs (rule_id a) (rule_id b) ! k = rule_id a)"
proof -
  obtain i where i: "i < length xs" "findIndex (\<lambda>q. rule_id q = rule_id a) xs = int i" "xs ! i = a"
    using findIndex_id [OF assms(2,3)] by blast
  obtain j where j: "j < length xs" "findIndex (\<lambda>q. rule_id q = rule_id b) xs = int j" "xs ! j = b"
    using findIndex_id [OF assms(2,4)] by blast
  have m: "mset (mv xs (int i) (int j)) = mset xs" "mv xs (int i) (int j) ! j = a"
    using assms(1) i j by (auto simp: array_move_laws_def)
  have l: "length (mv xs (int i) (int j)) = length xs" using m(1) by (metis size_mset)
  show ?thesis
    using i j m l by (auto simp: dragged_ids_def mset_map)
qed

lemma sortedRules_perm: "mset (sortedRules (Some rs)) = mset rs" "set (sortedRules (Some rs)) = set rs"
  by (simp_all add: sortedRules_def)

lemma sortedRules_distinct: "distinct (map rule_id (sortedRules (Some rs))) = distinct (map rule_id rs)"
  by (metis mset_eq_imp_distinct_iff mset_map sortedRules_perm(1))

text \<open>C9: dragging a rule of an application over another one.  When the server accepts the order, the cached
  list has every rule of the list, unchanged but for its priority; the priorities are 10, 20, 30 and so on in
  list order, the request carries exactly the numbers of that list, and the dragged rule stands where the rule
  it was dropped on stood.\<close>

theorem app_drag_reorders:
  assumes "query_client_laws qc" and "array_move_laws mv"
    and "qc_getQueryData qc c (appRuleKeys_byApp app) = Some rules" and "distinct (map rule_id rules)"
    and "a \<in> set rules" and "b \<in> set rules" and "rule_id a \<noteq> rule_id b"
    and "server (apps_reorderRules app (dragged_ids mv (sortedRules (Some rules)) (rule_id a) (rule_id b))) = Inr v"
  shows "\<exists>c' ids rules' k. ars_handleDragEnd mv qc server app c (rule_id a) (Some (rule_id b)) =
      (c', [Send_Order ids, Toast ''Rules reordered'' Toast_Success]) \<and>
    qc_getQueryData qc c' (appRuleKeys_byApp app) = Some rules' \<and> reordered ids rules rules' \<and>
    k < length ids \<and> sortedRules (Some rules) ! k = b \<and> ids ! k = rule_id a"
proof -
  define ids where "ids = dragged_ids mv (sortedRules (Some rules)) (rule_id a) (rule_id b)"
  have d: "distinct (map rule_id (sortedRules (Some rules)))" using assms(4) by (simp add: sortedRules_distinct)
  have in_s: "a \<in> set (sortedRules (Some rules))" "b \<in> set (sortedRules (Some rules))"
    using assms(5,6) by (simp_all add: sortedRules_perm)
  note perm = dragged_ids_perm [OF assms(2) d in_s, folded ids_def]
  then have m: "mset ids = mset (map rule_id rules)" by (simp add: sortedRules_perm)
  have len: "length ids = length (sortedRules (Some rules))"
    using perm by (metis length_map size_mset)
  have "reordered ids rules (optimisticRules rules ids)" using assms(4) m by (rule optimistic_complete)
  moreover have "qc_getQueryData qc (useReorderAppRules app qc server c ids) (appRuleKeys_byApp app) =
      Some (optimisticRules rules ids)"
    using app_reorder.cached_after_success [OF assms(1,3)] assms(8) by (simp add: ids_def)
  moreover have "ars_handleDragEnd mv qc server app c (rule_id a) (Some (rule_id b)) =
      (useReorderAppRules app qc server c ids, [Send_Order ids, Toast ''Rules reordered'' Toast_Success])"
    using assms(3,7,8) by (simp add: ars_handleDragEnd_def reorder_toast_def ids_def Let_def)
  ultimately show ?thesis using perm len by auto
qed

text \<open>A query client and a move that satisfy the laws, for concrete inputs.\<close>

definition map_client :: "(query_key \<Rightarrow> rule list option) query_client" where
  "map_client = \<lparr>
     qc_getQueryData = (\<lambda>c k. c (hash_key k)),
     qc_setQueryData = (\<lambda>c k v. c(hash_key k := Some v)),
     qc_cancelQueries = (\<lambda>c k. c),
     qc_invalidateQueries = (\<lambda>c k. c)\<rparr>"

definition move_item :: "rule list \<Rightarrow> int \<Rightarrow> int \<Rightarrow> rule list" where
  "move_item xs i j =
     (let rest = remove_nth (nat i) xs in take (nat j) rest @ [xs ! nat i] @ drop (nat j) rest)"

lemma map_client_laws: "query_client_laws map_client"
  by (simp add: query_client_laws_def map_client_def)

lemma move_item_laws: "array_move_laws move_item"
proof -
  have "mset (move_item xs (int i) (int j)) = mset xs \<and> move_item xs (int i) (int j) ! j = xs ! i"
    if "i < length xs" "j < length xs" for xs i j
  proof -
    have "mset (take i xs @ [xs ! i] @ drop (Suc i) xs) = mset xs"
      using that(1) id_take_nth_drop [OF that(1)] by simp
    then have m: "add_mset (xs ! i) (mset (remove_nth i xs)) = mset xs"
      by (simp add: remove_nth_def)
    have "length (remove_nth i xs) = length xs - 1" using that(1) by (simp add: remove_nth_def)
    then have "length (take j (remove_nth i xs)) = j" using that(2) by simp
    moreover have "mset (take j (remove_nth i xs)) + mset (drop j (remove_nth i xs)) = mset (remove_nth i xs)"
      by (metis append_take_drop_id mset_append)
    ultimately show ?thesis
      using m by (auto simp: move_item_def Let_def nth_append)
  qed
  then show ?thesis by (simp add: array_move_laws_def)
qed

definition sample_rule :: "int \<Rightarrow> string \<Rightarrow> bool \<Rightarrow> int \<Rightarrow> rule" where
  "sample_rule i n e p = \<lparr>rule_id = i, rule_app_id = None, rule_name = n, rule_scope = Scope_App,
     rule_rule_group = Custom_Group, rule_expression_raw = ''x'', rule_expression_structure = None,
     rule_action = Act_Block, rule_skip_modules = None, rule_priority = p, rule_enabled = e,
     rule_description = []\<rparr>"

definition accepting :: server where
  "accepting call = Inr (JObj [(''success'', JBool True)])"

theorem app_drag_reorders_witness:
  "\<exists>c' ids rules' k. ars_handleDragEnd move_item map_client accepting ''shop''
       [appRuleKeys_byApp ''shop'' \<mapsto> [sample_rule 1 ''a'' True 10, sample_rule 2 ''b'' True 20]] 2 (Some 1) =
      (c', [Send_Order ids, Toast ''Rules reordered'' Toast_Success]) \<and>
    qc_getQueryData map_client c' (appRuleKeys_byApp ''shop'') = Some rules' \<and>
    reordered ids [sample_rule 1 ''a'' True 10, sample_rule 2 ''b'' True 20] rules' \<and>
    k < length ids \<and> sortedRules (Some [sample_rule 1 ''a'' True 10, sample_rule 2 ''b'' True 20]) ! k =
      sample_rule 1 ''a'' True 10 \<and> ids ! k = 2"
  using app_drag_reorders [OF map_client_laws move_item_laws,
      where app = "''shop''" and rules = "[sample_rule 1 ''a'' True 10, sample_rule 2 ''b'' True 20]"
        and a = "sample_rule 2 ''b'' True 20" and b = "sample_rule 1 ''a'' True 10" and server = accepting
        and c = "[appRuleKeys_byApp ''shop'' \<mapsto> [sample_rule 1 ''a'' True 10, sample_rule 2 ''b'' True 20]]"]
  by (simp add: sample_rule_def accepting_def map_client_def appRuleKeys_byApp_def)

text \<open>Dragging in the list of global rules while a filter hides rules.  The request carries only the rules
  that are shown, and when the server accepts it the cached list holds only these: a hidden rule is gone from the
  screen until the list is fetched again.\<close>

theorem filtered_drag_drops_hidden:
  assumes "query_client_laws qc" and "array_move_laws mv"
    and "qc_getQueryData qc c [KStr ''rules''] = Some rules" and "distinct (map rule_id rules)"
    and "a \<in> set rules" and "b \<in> set rules" and "rule_shown st a" and "rule_shown st b" and "rule_id a \<noteq> rule_id b"
    and "h \<in> set rules" and "\<not> rule_shown st h"
    and "\<And>call. \<exists>v. server call = Inr v"
  shows "\<exists>c' ids rules' t. re_handleDragEnd mv qc server st c (rule_id a) (Some (rule_id b)) =
      (c', [Send_Order ids, t]) \<and>
    qc_getQueryData qc c' [KStr ''rules''] = Some rules' \<and>
    mset (map rule_id rules') = mset ids \<and> mset ids = mset (map rule_id (filter (rule_shown st) rules)) \<and>
    rule_id h \<notin> rule_id ` set rules'"
proof -
  let ?shown = "filteredRules st (Some rules)"
  define ids where "ids = dragged_ids mv ?shown (rule_id a) (rule_id b)"
  have ms: "mset ?shown = mset (filter (rule_shown st) rules)" by (simp add: filteredRules_def)
  have st: "set ?shown = {r \<in> set rules. rule_shown st r}" by (auto simp: filteredRules_def)
  have df: "distinct (map rule_id (filter (rule_shown st) rules))"
    using assms(4) by (simp add: distinct_map_filter)
  then have d: "distinct (map rule_id ?shown)"
    using ms by (metis mset_eq_imp_distinct_iff mset_map)
  have in_s: "a \<in> set ?shown" "b \<in> set ?shown" using assms(5-8) st by auto
  have m: "mset ids = mset (map rule_id (filter (rule_shown st) rules))"
    using dragged_ids_perm [OF assms(2) d in_s] ms by (simp add: ids_def mset_map)
  obtain v where v: "server (rules_reorder ids) = Inr v" using assms(12) by blast
  have cached: "qc_getQueryData qc (useReorderRules qc server c ids) [KStr ''rules''] = Some (optimisticRules rules ids)"
    using v by (rule global_reorder.cached_after_success [OF assms(1,3)])
  have set_ids: "set ids = rule_id ` {r \<in> set rules. rule_shown st r}"
    using arg_cong [OF m, of set_mset] by simp
  then have known: "set ids \<subseteq> rule_id ` set rules" by auto
  then have ids': "map rule_id (optimisticRules rules ids) = ids"
    by (auto simp: optimisticRules_def optimistic_ids filter_id_conv)
  have "rule_id h \<notin> set ids"
  proof
    assume "rule_id h \<in> set ids"
    then obtain r where "r \<in> set rules" "rule_shown st r" "rule_id r = rule_id h"
      using set_ids by auto
    moreover have "inj_on rule_id (set rules)" using assms(4) by (simp add: distinct_map)
    ultimately show False using assms(10,11) by (auto dest: inj_onD)
  qed
  then have "rule_id h \<notin> rule_id ` set (optimisticRules rules ids)" using ids' by (metis list.set_map)
  moreover have "re_handleDragEnd mv qc server st c (rule_id a) (Some (rule_id b)) =
      (useReorderRules qc server c ids,
       [Send_Order ids, reorder_toast server (rules_reorder ids) ''Rules reordered successfully''])"
    using assms(3,9) by (simp add: re_handleDragEnd_def ids_def Let_def)
  moreover have "mset (map rule_id (optimisticRules rules ids)) = mset ids" by (simp only: ids')
  ultimately show ?thesis using cached m by blast
qed

definition sample_engine :: rules_engine where
  "sample_engine = \<lparr>re_isDeleteOpen = False, re_selectedRule = None, re_actionFilter = None,
     re_statusFilter = Status_Active, re_searchQuery = []\<rparr>"

definition sample_rules :: "rule list" where
  "sample_rules = [sample_rule 1 ''a'' True 10, sample_rule 2 ''b'' False 20, sample_rule 3 ''c'' True 30]"

theorem filtered_drag_drops_hidden_witness:
  "\<exists>c' ids rules' t. re_handleDragEnd move_item map_client accepting sample_engine
       [[KStr ''rules''] \<mapsto> sample_rules] 1 (Some 3) = (c', [Send_Order ids, t]) \<and>
    qc_getQueryData map_client c' [KStr ''rules''] = Some rules' \<and>
    mset (map rule_id rules') = mset ids \<and>
    mset ids = mset (map rule_id (filter (rule_shown sample_engine) sample_rules)) \<and> 2 \<notin> rule_id ` set rules'"
proof -
  have "qc_getQueryData map_client [[KStr ''rules''] \<mapsto> sample_rules] [KStr ''rules''] = Some sample_rules"
    by (simp add: map_client_def)
  moreover have "distinct (map rule_id sample_rules)" by code_simp
  moreover have "sample_rule 1 ''a'' True 10 \<in> set sample_rules" "sample_rule 3 ''c'' True 30 \<in> set sample_rules"
    by (simp_all add: sample_rules_def)
  moreover have "rule_shown sample_engine (sample_rule 1 ''a'' True 10)"
    "rule_shown sample_engine (sample_rule 3 ''c'' True 30)" by code_simp+
  moreover have "rule_id (sample_rule 1 ''a'' True 10) \<noteq> rule_id (sample_rule 3 ''c'' True 30)" by code_simp
  moreover have "sample_rule 2 ''b'' False 20 \<in> set sample_rules" by (simp add: sample_rules_def)
  moreover have "\<not> rule_shown sample_engine (sample_rule 2 ''b'' False 20)" by code_simp
  moreover have "\<exists>v. accepting call = Inr v" for call by (simp add: accepting_def)
  ultimately have "\<exists>c' ids rules' t. re_handleDragEnd move_item map_client accepting sample_engine
       [[KStr ''rules''] \<mapsto> sample_rules] (rule_id (sample_rule 1 ''a'' True 10))
         (Some (rule_id (sample_rule 3 ''c'' True 30))) = (c', [Send_Order ids, t]) \<and>
    qc_getQueryData map_client c' [KStr ''rules''] = Some rules' \<and>
    mset (map rule_id rules') = mset ids \<and>
    mset ids = mset (map rule_id (filter (rule_shown sample_engine) sample_rules)) \<and>
    rule_id (sample_rule 2 ''b'' False 20) \<notin> rule_id ` set rules'"
    by (rule filtered_drag_drops_hidden [OF map_client_laws move_item_laws])
  then show ?thesis by (simp add: sample_rule_def)
qed

lemma hash_part_string: "hash_part p = KStr s \<longleftrightarrow> p = KStr s"
  by (simp add: hash_part_def)

lemma hash_key_string:
  "hash_key k = [KStr s] \<longleftrightarrow> k = [KStr s]" "hash_key k = [KStr s, KStr t] \<longleftrightarrow> k = [KStr s, KStr t]"
  by (auto simp: hash_key_def map_eq_Cons_conv hash_part_string)

text \<open>C17: when the server refuses a new order, the cached list is what it was before the drag, in the global list
  and in the list of an application, and the user is told.\<close>

theorem refused_drag_restores:
  assumes "query_client_laws qc" and "\<And>call. \<exists>e. server call = Inl e"
  shows "qc_getQueryData qc (fst (re_handleDragEnd mv qc server st c active over)) k = qc_getQueryData qc c k \<and>
    qc_getQueryData qc (fst (ars_handleDragEnd mv qc server app c active over)) k = qc_getQueryData qc c k"
proof -
  have g: "qc_getQueryData qc (useReorderRules qc server c ids) k = qc_getQueryData qc c k" for ids
  proof (cases "hash_key k = hash_key [KStr ''rules'']")
    case False
    then show ?thesis by (rule global_reorder.other_keys_untouched [OF assms(1)])
  next
    case True
    then have k: "k = [KStr ''rules'']" by (simp add: hash_key_string)
    obtain e where "server (rules_reorder ids) = Inl e" using assms(2) by blast
    then show ?thesis unfolding k by (rule global_reorder.cached_after_failure [OF assms(1)])
  qed
  have a: "qc_getQueryData qc (useReorderAppRules app qc server c ids) k = qc_getQueryData qc c k" for ids
  proof (cases "hash_key k = hash_key (appRuleKeys_byApp app)")
    case False
    then show ?thesis by (rule app_reorder.other_keys_untouched [OF assms(1)])
  next
    case True
    then have k: "k = appRuleKeys_byApp app" by (simp add: hash_key_string appRuleKeys_byApp_def)
    obtain e where "server (apps_reorderRules app ids) = Inl e" using assms(2) by blast
    then show ?thesis unfolding k by (rule app_reorder.cached_after_failure [OF assms(1)])
  qed
  show ?thesis
    using g a by (simp add: re_handleDragEnd_def ars_handleDragEnd_def Let_def split: option.splits)
qed

theorem refused_drag_restores_witness:
  "qc_getQueryData map_client (fst (re_handleDragEnd move_item map_client (\<lambda>_. Inl (network_error Js_Thrown_Value))
     sample_engine [[KStr ''rules''] \<mapsto> sample_rules] 1 (Some 3))) [KStr ''rules''] = Some sample_rules"
  using refused_drag_restores [OF map_client_laws, of "\<lambda>_. Inl (network_error Js_Thrown_Value)" move_item
      sample_engine "[[KStr ''rules''] \<mapsto> sample_rules]" 1 "Some 3" "[KStr ''rules'']"]
  by (simp add: map_client_def)

section \<open>The requests among the effects\<close>

definition mutations :: "ui_effect list \<Rightarrow> mutation_options list" where
  "mutations es = List.map_filter (\<lambda>e. case e of Mutate mu \<Rightarrow> Some mu | _ \<Rightarrow> None) es"

lemma mutations_simps [simp]:
  "mutations [] = []" "mutations (Mutate mu # es) = mu # mutations es" "mutations (Toast s k # es) = mutations es"
  "mutations (Send_Order is # es) = mutations es" "mutations (Navigate s # es) = mutations es"
  by (simp_all add: mutations_def List.map_filter_def)

lemma mutations_mutate_toast [simp]: "mutations (mutate_toast server mu a b) = [mu]"
  by (simp add: mutate_toast_def split: sum.splits)

section \<open>Editing a rule\<close>

text \<open>The stored rule: the server keeps beside the text the syntax tree it parsed from it.\<close>

definition stored_rule :: "rule \<Rightarrow> bool" where
  "stored_rule rl \<longleftrightarrow>
     (case parse_rule (rule_expression_raw rl) of
        Inl _ \<Rightarrow> False
      | Inr nd \<Rightarrow> rule_expression_structure rl = Some (node_to_ast nd))"

text \<open>What saving without a change should send.\<close>

definition rule_as_request :: "rule \<Rightarrow> rule_request" where
  "rule_as_request rl = \<lparr>rr_name = rule_name rl, rr_scope = rule_scope rl,
     rr_app_id = Some (str_or (rule_app_id rl) []), rr_rule_group = rule_rule_group rl,
     rr_expression_raw = rule_expression_raw rl, rr_action = rule_action rl,
     rr_skip_modules = Some (or_empty (rule_skip_modules rl)), rr_priority = rule_priority rl,
     rr_enabled = rule_enabled rl, rr_description = rule_description rl\<rparr>"

lemma stored_rule_reload:
  assumes "stored_rule rl"
  shows "\<exists>ast. rule_expression_structure rl = Some ast \<and>
    reload fresh (rule_expression_raw rl) = Some (astToConditionGroup fresh (Some ast))"
  using assms by (auto simp: stored_rule_def reload_def split: sum.splits)

lemma parse_rule_empty: "isl (parse_rule [])"
  by code_simp

lemma stored_rule_ne: "stored_rule rl \<Longrightarrow> rule_expression_raw rl \<noteq> []"
proof
  assume "stored_rule rl" and "rule_expression_raw rl = []"
  then show False using parse_rule_empty by (auto simp: stored_rule_def split: sum.splits)
qed

lemma submit_loaded:
  assumes "stored_rule rl" and "rf_builderMode st = Visual" and "rule_name rl \<noteq> []"
    and "reload fresh (rule_expression_raw rl) = Some g'" and "generateExpression g' (rf_fields st) \<noteq> []"
  shows "\<exists>effects. rf_handleSubmit server (Some (rule_id rl)) (rf_loadRule fresh (Some rl) st) =
    Mutate (useUpdateRule (rule_id rl) (rule_request_json
      ((rule_as_request rl)\<lparr>rr_expression_raw := generateExpression g' (rf_fields st)\<rparr>))) # effects"
proof -
  obtain ast where ast: "rule_expression_structure rl = Some ast" "astToConditionGroup fresh (Some ast) = g'"
    using stored_rule_reload [OF assms(1), of fresh] assms(4) by auto
  have loaded: "rf_getCurrentExpression (rf_loadRule fresh (Some rl) st) = generateExpression g' (rf_fields st)"
    "rf_formData (rf_loadRule fresh (Some rl) st) = rule_as_request rl"
    using ast assms(2)
    by (simp_all add: rf_loadRule_def rf_getCurrentExpression_def current_expression_def rule_as_request_def Let_def)
  show ?thesis
    unfolding rf_handleSubmit_def loaded Let_def
    using assms(3,5) by (simp add: rule_as_request_def)
qed

text \<open>The same in the section of an application, whose requests carry the application.\<close>

definition rule_as_app_request :: "string \<Rightarrow> rule \<Rightarrow> rule_request" where
  "rule_as_app_request app rl = (rule_as_request rl)\<lparr>rr_scope := Scope_App, rr_app_id := Some app\<rparr>"

lemma submit_opened:
  assumes "stored_rule rl" and "rule_name rl \<noteq> []"
    and "reload fresh (rule_expression_raw rl) = Some g'" and "generateExpression g' (ars_fields sec) \<noteq> []"
  shows "mutations (snd (ars_handleSubmit server app (ars_openEdit fresh rl sec))) =
    [useUpdateAppRule app (rule_id rl) (rule_request_json
      ((rule_as_app_request app rl)\<lparr>rr_expression_raw := generateExpression g' (ars_fields sec)\<rparr>))]"
proof -
  obtain ast where ast: "rule_expression_structure rl = Some ast" "astToConditionGroup fresh (Some ast) = g'"
    using stored_rule_reload [OF assms(1), of fresh] assms(3) by auto
  have opened: "ars_getCurrentExpression (ars_openEdit fresh rl sec) = generateExpression g' (ars_fields sec)"
    "ars_editingRule (ars_openEdit fresh rl sec) = Some rl" "rr_name (ars_formData (ars_openEdit fresh rl sec)) = rule_name rl"
    "ars_payload app (ars_openEdit fresh rl sec) x = (rule_as_app_request app rl)\<lparr>rr_expression_raw := x\<rparr>" for x
    using ast
    by (simp_all add: ars_openEdit_def ars_getCurrentExpression_def current_expression_def ars_payload_def
        rule_as_app_request_def rule_as_request_def)
  show ?thesis
    unfolding ars_handleSubmit_def opened Let_def using assms(2,4) by simp
qed


definition sample_stored :: "condition_group \<Rightarrow> rule" where
  "sample_stored g = (sample_rule 7 ''block'' True 10)\<lparr>
     rule_expression_raw := generateExpression g sample_fields,
     rule_expression_structure := (case parse_rule (generateExpression g sample_fields) of
        Inl _ \<Rightarrow> None | Inr nd \<Rightarrow> Some (node_to_ast nd))\<rparr>"

definition sample_form :: rule_form where
  "sample_form = rf_initial\<lparr>rf_fields := sample_fields\<rparr>"

definition sample_section :: "fields \<Rightarrow> app_rules_section" where
  "sample_section fs = \<lparr>ars_view = View_List, ars_editingRule = None, ars_isDeleteOpen = False, ars_ruleToDelete = None,
     ars_formData = DEFAULT_FORM, ars_builderMode = Raw, ars_expressionGroup = DEFAULT_GROUP,
     ars_rawExpression = [], ars_validationResult = None, ars_fields = fs\<rparr>"

lemma sample_form_simps [simp]:
  "rf_fields sample_form = sample_fields" "rf_builderMode sample_form = Visual"
  by (simp_all add: sample_form_def rf_initial_def)

lemma sample_stored_simps [simp]:
  "rule_expression_raw (sample_stored g) = generateExpression g sample_fields"
  "rule_name (sample_stored g) = ''block''" "rule_id (sample_stored g) = 7"
  by (simp_all add: sample_stored_def sample_rule_def)

lemma sample_stored_rule:
  "g_conditions g \<noteq> [] \<Longrightarrow> list_all (printable sample_fields) (g_conditions g) \<Longrightarrow> linked (g_conditions g) \<Longrightarrow>
     stored_rule (sample_stored g)"
  using parse_generate [of g sample_fields] by (simp add: stored_rule_def sample_stored_def)


text \<open>The same action changes a rule of three alternatives.  Opening the rule in the form, or in the section
  of an application, and saving it untouched sends an expression that some request does not match although it matched the stored one.\<close>

theorem edit_save_changes_alternatives:
  assumes "stored_rule rl" and "rule_expression_raw rl = generateExpression g (rf_fields st)"
    and "g_conditions g = [a, b, c]" and "list_all (printable (rf_fields st)) [a, b, c]"
    and "c_logicAfter a = Some ''OR''" and "c_logicAfter b = Some ''OR''"
    and "distinct (map (condition_node (rf_fields st)) [a, b, c])"
    and "rf_builderMode st = Visual" and "rule_name rl \<noteq> []" and "ars_fields sec = rf_fields st"
  shows "\<exists>sent effects nd nd' env.
    rf_handleSubmit server (Some (rule_id rl)) (rf_loadRule fresh (Some rl) st) =
      Mutate (useUpdateRule (rule_id rl) (rule_request_json ((rule_as_request rl)\<lparr>rr_expression_raw := sent\<rparr>))) # effects \<and>
    mutations (snd (ars_handleSubmit server app (ars_openEdit fresh rl sec))) =
      [useUpdateAppRule app (rule_id rl) (rule_request_json ((rule_as_app_request app rl)\<lparr>rr_expression_raw := sent\<rparr>))] \<and>
    parse_rule (rule_expression_raw rl) = Inr nd \<and> parse_rule sent = Inr nd' \<and>
    evaluate env nd = Some True \<and> evaluate env nd' = Some False"
proof -
  let ?fs = "rf_fields st"
  obtain g' env where g': "reload fresh (rule_expression_raw rl) = Some g'"
    and pr: "list_all (printable ?fs) (g_conditions g')" "linked (g_conditions g')"
    and lg: "map c_logicAfter (g_conditions g') = [Some ''OR'', Some ''AND'', Some ''AND'']"
    and env: "group_holds ?fs env (g_conditions g)" "\<not> group_holds ?fs env (g_conditions g')"
    using reload_three_or [OF assms(3-7), of fresh] assms(2) by (elim exE conjE) metis
  have ne: "g_conditions g' \<noteq> []" "g_conditions g \<noteq> []" using lg assms(3) by auto
  have conn: "linked (g_conditions g)" using assms(3,5,6) by simp
  have prg: "list_all (printable ?fs) (g_conditions g)" using assms(3,4) by simp
  let ?nd' = "group_node ?fs (or_segments (g_conditions g'))" and ?nd = "group_node ?fs (or_segments (g_conditions g))"
  have sent: "parse_rule (generateExpression g' ?fs) = Inr ?nd'" using ne(1) pr by (rule parse_generate)
  have orig: "parse_rule (rule_expression_raw rl) = Inr ?nd"
    unfolding assms(2) using ne(2) prg conn by (rule parse_generate)
  have nonempty: "generateExpression g' ?fs \<noteq> []"
  proof
    assume "generateExpression g' ?fs = []"
    then show False using sent parse_rule_empty by simp
  qed
  from submit_loaded [OF assms(1,8,9) g' nonempty, of server] obtain effects where
    eff: "rf_handleSubmit server (Some (rule_id rl)) (rf_loadRule fresh (Some rl) st) =
      Mutate (useUpdateRule (rule_id rl) (rule_request_json
        ((rule_as_request rl)\<lparr>rr_expression_raw := generateExpression g' ?fs\<rparr>))) # effects" by blast
  note app = submit_opened [OF assms(1,9) g', of sec server app, unfolded assms(10), OF nonempty]
  show ?thesis
    by (intro exI conjI, rule eff, rule app, rule orig, rule sent)
      (use evaluate_group [OF ne(2), of env ?fs] evaluate_group [OF ne(1), of env ?fs] env in simp_all)
qed

theorem edit_save_changes_alternatives_witness:
  "\<exists>sent effects nd nd' env.
    rf_handleSubmit accepting (Some 7)
      (rf_loadRule nat_to_string (Some (sample_stored (sample_group ''OR'' ''OR''))) sample_form) =
      Mutate (useUpdateRule 7 (rule_request_json
        ((rule_as_request (sample_stored (sample_group ''OR'' ''OR'')))\<lparr>rr_expression_raw := sent\<rparr>))) # effects \<and>
    parse_rule (generateExpression (sample_group ''OR'' ''OR'') sample_fields) = Inr nd \<and> parse_rule sent = Inr nd' \<and>
    evaluate env nd = Some True \<and> evaluate env nd' = Some False"
proof -
  have "stored_rule (sample_stored (sample_group ''OR'' ''OR''))" by (rule sample_stored_rule) code_simp+
  moreover have "list_all (printable sample_fields) (g_conditions (sample_group ''OR'' ''OR''))"
    "distinct (map (condition_node sample_fields) (g_conditions (sample_group ''OR'' ''OR'')))" by code_simp+
  moreover obtain a b c where abc: "g_conditions (sample_group ''OR'' ''OR'') = [a, b, c]"
    "c_logicAfter a = Some ''OR''" "c_logicAfter b = Some ''OR''"
    by (simp add: sample_group_def sample_path_def sample_asn_def sample_country_def sample_condition_def)
  ultimately show ?thesis
    using edit_save_changes_alternatives [of "sample_stored (sample_group ''OR'' ''OR'')" "sample_group ''OR'' ''OR''"
        sample_form a b c "sample_section sample_fields" accepting nat_to_string "''shop''"]
    by (auto simp: sample_section_def)
qed

section \<open>New rules, toggles, submission\<close>

lemma next_priority_greater: "r \<in> set rules \<Longrightarrow> rule_priority r < next_priority (Some rules)"
proof -
  assume r: "r \<in> set rules"
  then obtain q qs where rules: "rules = q # qs" by (cases rules) auto
  have "rule_priority r \<le> math_max (rule_priority q) (map rule_priority qs)"
    using r rules math_max_ge [of "rule_priority q" "map rule_priority qs"] by auto
  then show ?thesis by (simp add: rules next_priority_def)
qed

text \<open>The form for a new rule, of an application or global, proposes a priority above that of every
  existing rule, so a rule saved as proposed is evaluated after all of them.\<close>

theorem new_rule_goes_last:
  assumes "r \<in> set rules"
  shows "rule_priority r < rr_priority (ars_formData (ars_openCreate (Some rules) st)) \<and>
    rule_priority r < rr_priority (rf_formData (rf_suggestPriority False (Some rules) form))"
proof -
  obtain q qs where rules: "rules = q # qs" using assms by (cases rules) auto
  have "rule_priority r \<le> math_max (rule_priority q) (map rule_priority qs @ [0])"
    using assms rules math_max_ge [of "rule_priority q" "map rule_priority qs @ [0]"] by auto
  then show ?thesis
    using next_priority_greater [OF assms] by (simp add: ars_openCreate_def rf_suggestPriority_def rules)
qed

theorem new_rule_goes_last_witness:
  "rule_priority (sample_rule 3 ''c'' True 30) <
     rr_priority (rf_formData (rf_suggestPriority False (Some sample_rules) rf_initial))"
  using new_rule_goes_last [of "sample_rule 3 ''c'' True 30" sample_rules _ rf_initial]
  by (simp add: sample_rules_def)

lemma obj_get_concat_field:
  "obj_get (concat (field k v # fs)) x = (if x = k then Some v else obj_get (concat fs) x)"
  "obj_get (concat (opt_field k f w # fs)) x = (if x = k \<and> w \<noteq> None then map_option f w else obj_get (concat fs) x)"
  by (simp_all add: field_def opt_field_def split: option.splits)

text \<open>The switch of a rule in the global list sends the whole rule with the \<open>enabled\<close> member negated and
  every other member as it is.\<close>

theorem toggle_changes_only_enabled:
  "\<exists>body t. re_handleToggleEnabled server rl = [Mutate (useUpdateRule (rule_id rl) body), t] \<and>
     (\<forall>k. json_get body k =
        (if k = ''enabled'' then Some (JBool (\<not> rule_enabled rl)) else json_get (rule_json rl) k))"
proof -
  let ?body = "rule_json (rl\<lparr>rule_enabled := \<not> rule_enabled rl\<rparr>)"
  have "json_get ?body k = (if k = ''enabled'' then Some (JBool (\<not> rule_enabled rl)) else json_get (rule_json rl) k)" for k
    unfolding rule_json_def json_get.simps obj_get_concat_field by simp
  then show ?thesis by (auto simp: re_handleToggleEnabled_def mutate_toast_def)
qed

text \<open>The routes the saving buttons need, from the route lemmas of the server.\<close>

lemma app_rule_save_routes:
  assumes "routable_app a"
  shows "route_call (mu_call (useCreateAppRule a d)) = Some (Authenticated (RuleHandler Rule_CreateForApp))"
    and "route_call (mu_call (useUpdateAppRule a i d)) = Some (Authenticated (RuleHandler Rule_UpdateForApp))"
proof -
  have "plain_segment a" using assms by (simp add: routable_app_def)
  then show "route_call (mu_call (useCreateAppRule a d)) = Some (Authenticated (RuleHandler Rule_CreateForApp))"
    and "route_call (mu_call (useUpdateAppRule a i d)) = Some (Authenticated (RuleHandler Rule_UpdateForApp))"
    by (simp_all add: useCreateAppRule_def useUpdateAppRule_def app_call_defs route_app
        app_rule_routes [OF assms, simplified])
qed

text \<open>Saving a rule of an application.  Without a name or an expression nothing is sent and nothing
  changes.  Otherwise exactly one request is sent; it reaches the handler that updates the edited rule, or the one
  that creates a rule; when it fails the form keeps everything that was entered, and when it succeeds the section
  goes back to the list.\<close>

theorem app_rule_submit:
  assumes "routable_app app"
  shows "if rr_name (ars_formData st) = [] \<or> ars_getCurrentExpression st = [] then
      fst (ars_handleSubmit server app st) = st \<and> mutations (snd (ars_handleSubmit server app st)) = []
    else \<exists>mu. mutations (snd (ars_handleSubmit server app st)) = [mu] \<and>
      route_call (mu_call mu) = Some (Authenticated (RuleHandler
        (if ars_editingRule st = None then Rule_CreateForApp else Rule_UpdateForApp))) \<and>
      fst (ars_handleSubmit server app st) =
        (if isl (server (mu_call mu)) then st else st\<lparr>ars_view := View_List, ars_editingRule := None\<rparr>)"
proof (cases "rr_name (ars_formData st) = [] \<or> ars_getCurrentExpression st = []")
  case True
  then show ?thesis by (simp add: ars_handleSubmit_def)
next
  case False
  then show ?thesis
    using app_rule_save_routes [OF assms]
    by (cases "ars_editingRule st") (auto simp: ars_handleSubmit_def Let_def isl_def split: sum.splits)
qed

theorem app_rule_submit_witness:
  "\<exists>st mu. mutations (snd (ars_handleSubmit accepting ''shop'' st)) = [mu] \<and>
     route_call (mu_call mu) = Some (Authenticated (RuleHandler Rule_CreateForApp))"
proof -
  define st :: app_rules_section where
    "st = \<lparr>ars_view = View_Form, ars_editingRule = None, ars_isDeleteOpen = False, ars_ruleToDelete = None,
       ars_formData = DEFAULT_FORM\<lparr>rr_name := ''r''\<rparr>, ars_builderMode = Raw, ars_expressionGroup = DEFAULT_GROUP,
       ars_rawExpression = ''ip.src == 1'', ars_validationResult = None, ars_fields = []\<rparr>"
  have "routable_app ''shop''" by code_simp
  from app_rule_submit [OF this, of st accepting] show ?thesis
    by (auto simp: st_def DEFAULT_FORM_def ars_getCurrentExpression_def current_expression_def)
qed

end
