(* ===== verification/Form_Input.thy ===== *)
theory Form_Input
  imports Rules_Page
begin

text \<open>
  Input fields several pages share: numbers read with \<open>parseInt\<close>, the list of tags
  (\<open>TagInput\<close> of \<open>src/frontend/src/pages/applications/tabs/BasicTab.tsx\<close>) and text areas that hold one
  item per line.  Lists of tags and lists of exclusions promise the same thing, a set of cleaned items without
  repetitions; the promise is the locale \<open>item_list\<close>, and what follows from it for a whole editing session is
  proved there once.
\<close>

text \<open>The body a mutation sends.\<close>

abbreviation sent_body :: "mutation_options \<Rightarrow> json option" where
  "sent_body mu \<equiv> ri_body (snd (mu_call mu))"

section \<open>Numbers\<close>

text \<open>\<open>parseInt(s)\<close> on the contents of a number field (decimal, no hexadecimal prefix); \<open>None\<close> is \<open>NaN\<close>.
  Integers are exact, which JavaScript's are up to \<open>2\<^sup>5\<^sup>3\<close>.\<close>

definition parseInt :: "string \<Rightarrow> int option" where
  "parseInt s =
     (let t = dropWhile js_space s;
          u = (if take 1 t = ''-'' \<or> take 1 t = ''+'' then drop 1 t else t);
          ds = takeWhile is_digit u
      in if ds = [] then None
         else Some (if take 1 t = ''-'' then - int (digits_value ds) else int (digits_value ds)))"

text \<open>\<open>parseInt(s) || d\<close>.\<close>

definition parseInt_or :: "int \<Rightarrow> string \<Rightarrow> int" where
  "parseInt_or d s = (case parseInt s of None \<Rightarrow> d | Some n \<Rightarrow> if n = 0 then d else n)"

lemma takeWhile_all: "list_all p s \<Longrightarrow> takeWhile p s = s"
  by (simp add: list_all_iff)

lemma parseInt_int_to_string: "parseInt (int_to_string i) = Some i"
proof -
  have ds: "list_all is_digit (nat_to_string n)" for n by (simp add: list_all_iff nat_to_string_digits)
  have ne: "nat_to_string n \<noteq> []" for n by (rule nat_to_string_ne)
  have hd: "is_digit (hd (nat_to_string n))" for n using ds [of n] ne [of n] by (cases "nat_to_string n") auto
  have nosp: "\<not> js_space c" if "is_digit c" for c using that by (auto simp: is_digit_def js_space_def Let_def)
  have nosign: "c \<noteq> CHR ''-'' \<and> c \<noteq> CHR ''+''" if "is_digit c" for c using that by (auto simp: is_digit_def)
  obtain c s where cs: "nat_to_string (nat \<bar>i\<bar>) = c # s" using ne [of "nat \<bar>i\<bar>"] by (cases "nat_to_string (nat \<bar>i\<bar>)") auto
  have c: "is_digit c" using hd [of "nat \<bar>i\<bar>"] cs by simp
  have all: "takeWhile is_digit (c # s) = c # s" using ds [of "nat \<bar>i\<bar>"] cs by (metis takeWhile_all)
  have val: "digits_value (c # s) = nat \<bar>i\<bar>" using digits_value_nat_to_string [of "nat \<bar>i\<bar>"] cs by simp
  show ?thesis
  proof (cases "i < 0")
    case True
    then have "int_to_string i = CHR ''-'' # c # s" using cs by (simp add: int_to_string_def abs_if)
    then show ?thesis using True all val by (simp add: parseInt_def Let_def js_space_def takeWhile_all list_all_iff)
  next
    case False
    then have "int_to_string i = c # s" using cs by (simp add: int_to_string_def abs_if)
    then show ?thesis using False all val c nosp [OF c] nosign [OF c]
      by (simp add: parseInt_def Let_def takeWhile_all list_all_iff)
  qed
qed

section \<open>Lists of items\<close>

text \<open>What a field holding a list of items promises: adding an entry puts the cleaned entry into the list unless
  nothing is left of it, removing an item takes it out, and no item is ever held twice.\<close>

datatype item_edit = Add_Item string | Remove_Item string

primrec list_edit :: "(string \<Rightarrow> string list \<Rightarrow> string list) \<Rightarrow> (string \<Rightarrow> string list \<Rightarrow> string list) \<Rightarrow>
    string list \<Rightarrow> item_edit \<Rightarrow> string list" where
  "list_edit add remove ts (Add_Item raw) = add raw ts"
| "list_edit add remove ts (Remove_Item t) = remove t ts"

primrec set_edit :: "(string \<Rightarrow> string) \<Rightarrow> string set \<Rightarrow> item_edit \<Rightarrow> string set" where
  "set_edit clean S (Add_Item raw) = (if trim raw = [] then S else insert (clean raw) S)"
| "set_edit clean S (Remove_Item t) = S - {t}"

locale item_list =
  fixes clean :: "string \<Rightarrow> string"
    and add :: "string \<Rightarrow> string list \<Rightarrow> string list"
    and remove :: "string \<Rightarrow> string list \<Rightarrow> string list"
  assumes set_add: "set (add raw ts) = (if trim raw = [] then set ts else insert (clean raw) (set ts))"
    and distinct_add: "distinct ts \<Longrightarrow> distinct (add raw ts)"
    and set_remove: "set (remove t ts) = set ts - {t}"
    and distinct_remove: "distinct ts \<Longrightarrow> distinct (remove t ts)"
begin

lemma edit_refines: "set (list_edit add remove ts e) = set_edit clean (set ts) e"
  by (cases e) (simp_all add: set_add set_remove)

lemma edit_distinct: "distinct ts \<Longrightarrow> distinct (list_edit add remove ts e)"
  by (cases e) (simp_all add: distinct_add distinct_remove)

lemma session_refines: "set (foldl (list_edit add remove) ts es) = foldl (set_edit clean) (set ts) es"
  by (induction es arbitrary: ts) (simp_all add: edit_refines)

lemma session_distinct: "distinct ts \<Longrightarrow> distinct (foldl (list_edit add remove) ts es)"
  by (induction es arbitrary: ts) (simp_all add: edit_distinct)

lemma session_items:
  assumes "\<And>raw. trim raw \<noteq> [] \<Longrightarrow> P (clean raw)" and "list_all P ts"
  shows "list_all P (foldl (list_edit add remove) ts es)"
  using assms(2)
proof (induction es arbitrary: ts)
  case (Cons e es)
  have "list_all P (list_edit add remove ts e)"
    using Cons.prems assms(1) by (cases e) (auto simp: set_add set_remove list_all_iff split: if_splits)
  then show ?case using Cons.IH [of "list_edit add remove ts e"] by simp
qed simp

end

section \<open>Tags\<close>

definition tag_value :: "bool \<Rightarrow> string \<Rightarrow> string" where
  "tag_value uppercase raw = (if uppercase then toUpperCase (trim raw) else trim raw)"

definition addTag :: "bool \<Rightarrow> string \<Rightarrow> string list \<Rightarrow> string list" where
  "addTag uppercase raw tags =
     (let val = tag_value uppercase raw in if val \<noteq> [] \<and> val \<notin> set tags then tags @ [val] else tags)"

definition removeTag :: "string \<Rightarrow> string list \<Rightarrow> string list" where
  "removeTag tag tags = filter (\<lambda>t. t \<noteq> tag) tags"

text \<open>The text being typed and the tags.  Both the Enter key and the comma add what was typed.\<close>

type_synonym tag_field = "string \<times> string list"

definition tag_handleKeyDown :: "bool \<Rightarrow> string \<Rightarrow> tag_field \<Rightarrow> tag_field" where
  "tag_handleKeyDown uppercase key st =
     (let (input, tags) = st in
      if key = ''Enter'' \<or> key = '','' then ([], addTag uppercase input tags)
      else if key = ''Backspace'' \<and> input = [] \<and> tags \<noteq> [] then (input, removeTag (last tags) tags)
      else st)"

definition tag_onBlur :: "bool \<Rightarrow> tag_field \<Rightarrow> tag_field" where
  "tag_onBlur uppercase st =
     (let (input, tags) = st in if trim input \<noteq> [] then ([], addTag uppercase input tags) else st)"

lemma tag_value_ne: "tag_value u raw = [] \<longleftrightarrow> trim raw = []"
  by (simp add: tag_value_def toUpperCase_def)

interpretation tags: item_list "tag_value u" "addTag u" removeTag for u
  by unfold_locales (auto simp: addTag_def removeTag_def Let_def tag_value_ne)

text \<open>With distinct tags the Backspace key drops exactly the last one.\<close>

lemma removeTag_last: "distinct (ts @ [t]) \<Longrightarrow> removeTag t (ts @ [t]) = ts"
  by (auto simp: removeTag_def filter_id_conv)

section \<open>One item per line\<close>

definition split_lines :: "string \<Rightarrow> string list" where
  "split_lines s = split_on newline s"

definition clean_lines :: "string \<Rightarrow> string list" where
  "clean_lines s = filter (\<lambda>l. l \<noteq> []) (map trim (split_lines s))"

lemma newline_space: "js_space newline"
  by (simp add: newline_def js_space_def)

lemma trim_set: "c \<in> set (trim w) \<Longrightarrow> c \<in> set w"
  by (simp add: trim_def) (metis set_dropWhileD set_rev)

lemma clean_lines_join:
  assumes "list_all (\<lambda>l. l \<noteq> [] \<and> trim l = l \<and> newline \<notin> set l) ls"
  shows "clean_lines (join [newline] ls) = ls"
proof (cases "ls = []")
  case True
  then show ?thesis by (simp add: clean_lines_def split_lines_def trim_def)
next
  case False
  then have "split_lines (join [newline] ls) = ls"
    using assms split_on_join by (simp add: split_lines_def list_all_iff)
  moreover have "map trim ls = ls" and "filter (\<lambda>l. l \<noteq> []) ls = ls"
    using assms by (auto simp: list_all_iff map_idI filter_id_conv)
  ultimately show ?thesis by (simp add: clean_lines_def)
qed

lemma clean_lines_no_newline: "l \<in> set (clean_lines s) \<Longrightarrow> newline \<notin> set l"
  using split_on_no_sep trim_set by (fastforce simp: clean_lines_def split_lines_def)

lemma clean_lines_trimmed: "l \<in> set (clean_lines s) \<Longrightarrow> l \<noteq> [] \<and> trim l = l"
  by (auto simp: clean_lines_def trim_idem)

end
