(* ===== verification/Js_Regex.thy ===== *)
theory Js_Regex
  imports Js_Prelude
begin

text \<open>
  The regular expressions the forms validate with: character classes, concatenation and the
  repetitions \<open>{lo,hi}\<close> (\<open>?\<close> is \<open>{0,1}\<close>) and \<open>*\<close>, anchored at both ends as every use in the forms is.  \<open>rests\<close> runs
  an expression and lists what each way of matching leaves over, as a backtracking matcher enumerates them;
  \<open>lang\<close> is the set of strings an expression describes, and \<open>re_test_lang\<close> relates the two.
\<close>

datatype js_regex =
    Cls "char \<Rightarrow> bool"
  | Seq js_regex js_regex
  | Rep js_regex nat nat
  | Star js_regex

abbreviation Opt :: "js_regex \<Rightarrow> js_regex" where
  "Opt r \<equiv> Rep r 0 1"

abbreviation Lit :: "char \<Rightarrow> js_regex" where
  "Lit c \<equiv> Cls (\<lambda>d. d = c)"

primrec iter_rests :: "(string \<Rightarrow> string list) \<Rightarrow> nat \<Rightarrow> string \<Rightarrow> string list" where
  "iter_rests f 0 s = [s]"
| "iter_rests f (Suc k) s = concat (map (iter_rests f k) (f s))"

primrec rests :: "js_regex \<Rightarrow> string \<Rightarrow> string list" where
  "rests (Cls p) s = (case s of [] \<Rightarrow> [] | c # s' \<Rightarrow> if p c then [s'] else [])"
| "rests (Seq a b) s = concat (map (rests b) (rests a s))"
| "rests (Rep a lo hi) s = concat (map (\<lambda>k. iter_rests (rests a) k s) [lo..<Suc hi])"
| "rests (Star a) s = concat (map (\<lambda>k. iter_rests (rests a) k s) [0..<Suc (length s)])"

text \<open>\<open>/^...$/.test(s)\<close>.\<close>

definition re_test :: "js_regex \<Rightarrow> string \<Rightarrow> bool" where
  "re_test r s \<longleftrightarrow> list_ex (\<lambda>t. t = []) (rests r s)"

primrec lang :: "js_regex \<Rightarrow> string set" where
  "lang (Cls p) = {[c] | c. p c}"
| "lang (Seq a b) = {u @ v | u v. u \<in> lang a \<and> v \<in> lang b}"
| "lang (Rep a lo hi) = {concat ws | ws. lo \<le> length ws \<and> length ws \<le> hi \<and> set ws \<subseteq> lang a}"
| "lang (Star a) = {concat ws | ws. set ws \<subseteq> lang a}"

lemma iter_rests_lang:
  assumes "\<And>s t. t \<in> set (f s) \<longleftrightarrow> (\<exists>w\<in>L. s = w @ t)"
  shows "t \<in> set (iter_rests f k s) \<longleftrightarrow> (\<exists>ws. length ws = k \<and> set ws \<subseteq> L \<and> s = concat ws @ t)"
proof (induction k arbitrary: s)
  case (Suc k)
  have "t \<in> set (iter_rests f (Suc k) s) \<longleftrightarrow>
      (\<exists>w ws. w \<in> L \<and> length ws = k \<and> set ws \<subseteq> L \<and> s = w @ concat ws @ t)"
    unfolding iter_rests.simps set_concat set_map UN_iff bex_simps by (simp add: Suc assms Bex_def) blast
  also have "\<dots> \<longleftrightarrow> (\<exists>ws. length ws = Suc k \<and> set ws \<subseteq> L \<and> s = concat ws @ t)"
  proof
    assume "\<exists>w ws. w \<in> L \<and> length ws = k \<and> set ws \<subseteq> L \<and> s = w @ concat ws @ t"
    then obtain w ws where "w \<in> L" "length ws = k" "set ws \<subseteq> L" "s = w @ concat ws @ t" by blast
    then show "\<exists>ws. length ws = Suc k \<and> set ws \<subseteq> L \<and> s = concat ws @ t" by (intro exI [of _ "w # ws"]) simp
  next
    assume "\<exists>ws. length ws = Suc k \<and> set ws \<subseteq> L \<and> s = concat ws @ t"
    then obtain ws where "length ws = Suc k" "set ws \<subseteq> L" "s = concat ws @ t" by blast
    then show "\<exists>w ws. w \<in> L \<and> length ws = k \<and> set ws \<subseteq> L \<and> s = w @ concat ws @ t"
      by (cases ws) auto
  qed
  finally show ?case .
qed auto

lemma rests_lang: "t \<in> set (rests r s) \<longleftrightarrow> (\<exists>w\<in>lang r. s = w @ t)"
proof (induction r arbitrary: s t)
  case (Cls p)
  then show ?case by (cases s) auto
next
  case (Seq a b)
  have "t \<in> set (rests (Seq a b) s) \<longleftrightarrow> (\<exists>u\<in>lang a. \<exists>v\<in>lang b. s = u @ v @ t)"
    by (simp add: Seq.IH Bex_def) blast
  also have "\<dots> \<longleftrightarrow> (\<exists>w\<in>lang (Seq a b). s = w @ t)"
  proof
    assume "\<exists>u\<in>lang a. \<exists>v\<in>lang b. s = u @ v @ t"
    then obtain u v where "u \<in> lang a" "v \<in> lang b" "s = (u @ v) @ t" by auto
    then show "\<exists>w\<in>lang (Seq a b). s = w @ t" by (intro bexI [of _ "u @ v"]) auto
  qed (auto, blast)
  finally show ?case .
next
  case (Rep a lo hi)
  have "t \<in> set (rests (Rep a lo hi) s) \<longleftrightarrow>
      (\<exists>k. lo \<le> k \<and> k \<le> hi \<and> t \<in> set (iter_rests (rests a) k s))" by auto
  then show ?case using iter_rests_lang [OF Rep] by auto
next
  case (Star a)
  have "t \<in> set (rests (Star a) s) \<longleftrightarrow> (\<exists>ws. length ws \<le> length s \<and> set ws \<subseteq> lang a \<and> s = concat ws @ t)"
  proof -
    have "t \<in> set (rests (Star a) s) \<longleftrightarrow> (\<exists>k. k \<le> length s \<and> t \<in> set (iter_rests (rests a) k s))"
      by (simp only: rests.simps set_concat set_map set_upt UN_iff atLeastLessThan_iff less_Suc_eq_le bex_simps image_iff)
        (auto simp: less_Suc_eq_le Bex_def)
    then show ?thesis unfolding iter_rests_lang [OF Star] by blast
  qed
  also have "\<dots> \<longleftrightarrow> (\<exists>ws. set ws \<subseteq> lang a \<and> s = concat ws @ t)"
  proof
    assume "\<exists>ws. set ws \<subseteq> lang a \<and> s = concat ws @ t"
    then obtain ws where ws: "set ws \<subseteq> lang a" "s = concat ws @ t" by blast
    let ?vs = "filter (\<lambda>w. w \<noteq> []) ws"
    have c: "concat ?vs = concat ws" by (induction ws) auto
    have "length vs \<le> length (concat vs)" if "\<forall>v\<in>set vs. v \<noteq> []" for vs :: "string list"
      using that
    proof (induction vs)
      case (Cons v vs)
      then have "length vs \<le> length (concat vs)" and "1 \<le> length v" by (simp_all add: Suc_le_eq)
      then show ?case unfolding concat.simps length_append list.size by linarith
    qed simp
    from this [of ?vs] have "length ?vs \<le> length (concat ws)" unfolding c by simp
    then have "length ?vs \<le> length s" using ws(2) by simp
    moreover have "set ?vs \<subseteq> lang a" using ws(1) by auto
    ultimately show "\<exists>ws. length ws \<le> length s \<and> set ws \<subseteq> lang a \<and> s = concat ws @ t"
      using ws(2) c by (intro exI [of _ ?vs]) simp
  qed blast
  finally show ?case by auto
qed

theorem re_test_lang: "re_test r s \<longleftrightarrow> s \<in> lang r"
  by (auto simp: re_test_def list_ex_iff rests_lang)

text \<open>A class repeated describes the words of its length over it.\<close>

lemma lang_Rep_Cls: "lang (Rep (Cls p) lo hi) = {w. lo \<le> length w \<and> length w \<le> hi \<and> list_all p w}"
proof (intro subset_antisym subsetI)
  fix w assume "w \<in> lang (Rep (Cls p) lo hi)"
  then obtain ws where ws: "w = concat ws" "lo \<le> length ws" "length ws \<le> hi" "set ws \<subseteq> {[c] | c. p c}"
    by auto
  from ws(4) have "list_all p (concat ws) \<and> length (concat ws) = length ws"
    by (induction ws) auto
  with ws show "w \<in> {w. lo \<le> length w \<and> length w \<le> hi \<and> list_all p w}" by simp
next
  fix w assume w: "w \<in> {w. lo \<le> length w \<and> length w \<le> hi \<and> list_all p w}"
  have "concat (map (\<lambda>c. [c]) w) = w" by simp
  with w show "w \<in> lang (Rep (Cls p) lo hi)"
    by (auto simp: list_all_iff intro!: exI [of _ "map (\<lambda>c. [c]) w"])
qed

lemma lang_Opt: "lang (Opt r) = insert [] (lang r)"
proof (intro subset_antisym subsetI)
  fix w assume "w \<in> lang (Opt r)"
  then obtain ws where "w = concat ws" "length ws \<le> 1" "set ws \<subseteq> lang r" by auto
  then show "w \<in> insert [] (lang r)" by (cases ws) auto
next
  fix w assume "w \<in> insert [] (lang r)"
  then consider "w = []" | "w \<in> lang r" by blast
  then show "w \<in> lang (Opt r)"
  proof cases
    case 1
    then have "w = concat []" and "length ([] :: string list) \<le> 1" and "set [] \<subseteq> lang r" by simp_all
    then show ?thesis unfolding lang.simps by blast
  next
    case 2
    then have "w = concat [w]" and "length [w] \<le> 1" and "set [w] \<subseteq> lang r" by simp_all
    then show ?thesis unfolding lang.simps by blast
  qed
qed

text \<open>A separated sequence: \<open>lo\<close> to \<open>hi\<close> items each followed by the separator, then one more item.\<close>

lemma join_snoc: "join [d] (ps @ [q]) = concat (map (\<lambda>p. p @ [d]) ps) @ q"
proof (induction ps)
  case (Cons p ps)
  then show ?case by (cases ps) simp_all
qed simp

lemma lang_separated:
  "lang (Seq (Rep (Seq a (Lit d)) lo hi) a) =
     {join [d] ps | ps. lo < length ps \<and> length ps \<le> Suc hi \<and> set ps \<subseteq> lang a}"
proof (intro subset_antisym subsetI)
  fix s assume "s \<in> lang (Seq (Rep (Seq a (Lit d)) lo hi) a)"
  then obtain ws q where s: "s = concat ws @ q" and q: "q \<in> lang a"
    and n: "lo \<le> length ws" "length ws \<le> hi" and ws: "set ws \<subseteq> {u @ [d] | u. u \<in> lang a}" by auto
  from ws have "\<exists>ps. set ps \<subseteq> lang a \<and> ws = map (\<lambda>p. p @ [d]) ps"
  proof (induction ws)
    case (Cons w ws)
    then obtain ps u where "set ps \<subseteq> lang a" "ws = map (\<lambda>p. p @ [d]) ps" "u \<in> lang a" "w = u @ [d]" by auto
    then show ?case by (intro exI [of _ "u # ps"]) simp
  qed simp
  then obtain ps where ps: "set ps \<subseteq> lang a" "ws = map (\<lambda>p. p @ [d]) ps" by blast
  show "s \<in> {join [d] ps | ps. lo < length ps \<and> length ps \<le> Suc hi \<and> set ps \<subseteq> lang a}"
    using s q n ps by (auto simp: join_snoc intro!: exI [of _ "ps @ [q]"])
next
  fix s assume "s \<in> {join [d] ps | ps. lo < length ps \<and> length ps \<le> Suc hi \<and> set ps \<subseteq> lang a}"
  then obtain ps where s: "s = join [d] ps" and n: "lo < length ps" "length ps \<le> Suc hi" and ps: "set ps \<subseteq> lang a"
    by blast
  from n have "ps \<noteq> []" by auto
  then obtain qs q where psq: "ps = qs @ [q]" by (metis rev_exhaust)
  let ?ws = "map (\<lambda>p. p @ [d]) qs"
  have q: "q \<in> lang a" and ws: "set ?ws \<subseteq> lang (Seq a (Lit d))" using ps psq by auto
  have "lo \<le> length ?ws" and "length ?ws \<le> hi" using n psq by simp_all
  with ws have "concat ?ws \<in> lang (Rep (Seq a (Lit d)) lo hi)" unfolding lang.simps(3) by blast
  with q have "concat ?ws @ q \<in> lang (Seq (Rep (Seq a (Lit d)) lo hi) a)" unfolding lang.simps(2) by blast
  then show "s \<in> lang (Seq (Rep (Seq a (Lit d)) lo hi) a)" using s psq by (simp add: join_snoc)
qed

end
