(* ===== verification/Ip_Access.thy ===== *)
theory Ip_Access
  imports Form_Input Js_Regex
begin

text \<open>
  The access rules of one application
  (\<open>src/frontend/src/components/ip-access/IPAccessSection.tsx\<close>): the list and the form, the check of an
  address or range before it is sent, and the four operations.
\<close>

section \<open>The section\<close>

record ip_section =
  ips_view         :: section_view
  ips_editingRule  :: "ip_access_rule option"
  ips_formData     :: ip_access_create
  ips_ipRangeError :: string
  ips_isDeleteOpen :: bool
  ips_ruleToDelete :: "int option"

definition IP_DEFAULT_FORM :: ip_access_create where
  "IP_DEFAULT_FORM = \<lparr>ipc_ip_range = [], ipc_description = [], ipc_action = Acc_Block, ipc_enabled = True,
     ipc_app_id = None\<rparr>"

definition ip_section_initial :: ip_section where
  "ip_section_initial = \<lparr>ips_view = View_List, ips_editingRule = None, ips_formData = IP_DEFAULT_FORM,
     ips_ipRangeError = [], ips_isDeleteOpen = False, ips_ruleToDelete = None\<rparr>"

definition ips_openCreate :: "ip_section \<Rightarrow> ip_section" where
  "ips_openCreate st = st\<lparr>
     ips_formData := IP_DEFAULT_FORM,
     ips_ipRangeError := [],
     ips_editingRule := None,
     ips_view := View_Form\<rparr>"

definition ips_openEdit :: "ip_access_rule \<Rightarrow> ip_section \<Rightarrow> ip_section" where
  "ips_openEdit rl st = st\<lparr>
     ips_formData := \<lparr>ipc_ip_range = ipa_ip_range rl, ipc_description = ipa_description rl,
       ipc_action = ipa_action rl, ipc_enabled = ipa_enabled rl, ipc_app_id = None\<rparr>,
     ips_ipRangeError := [],
     ips_editingRule := Some rl,
     ips_view := View_Form\<rparr>"

section \<open>The check of a range\<close>

definition is_hex_digit :: "char \<Rightarrow> bool" where
  "is_hex_digit c \<longleftrightarrow> (let n = (of_char c :: nat)
     in is_digit c \<or> (97 \<le> n \<and> n \<le> 102) \<or> (65 \<le> n \<and> n \<le> 70))"

definition ipv4Regex :: js_regex where
  "ipv4Regex = Seq (Seq (Rep (Seq (Rep (Cls is_digit) 1 3) (Lit (CHR ''.''))) 3 3) (Rep (Cls is_digit) 1 3))
     (Opt (Seq (Lit (CHR ''/'')) (Rep (Cls is_digit) 1 2)))"

definition ipv6Regex :: js_regex where
  "ipv6Regex = Seq (Seq (Rep (Seq (Rep (Cls is_hex_digit) 0 4) (Lit (CHR '':''))) 2 7) (Rep (Cls is_hex_digit) 0 4))
     (Opt (Seq (Lit (CHR ''/'')) (Rep (Cls is_digit) 1 3)))"

text \<open>The verdict and the message put under the field.\<close>

definition validateIPRange :: "string \<Rightarrow> bool \<times> string" where
  "validateIPRange v =
     (if trim v = [] then (False, ''IP address or CIDR is required'')
      else if \<not> re_test ipv4Regex v \<and> \<not> re_test ipv6Regex v then (False, ''Invalid IP address or CIDR notation'')
      else (True, []))"

definition ips_handleSubmit :: "server \<Rightarrow> string \<Rightarrow> ip_section \<Rightarrow> ip_section \<times> ui_effect list" where
  "ips_handleSubmit server appId st =
     (let (valid, message) = validateIPRange (ipc_ip_range (ips_formData st));
          st1 = st\<lparr>ips_ipRangeError := message\<rparr>
      in if \<not> valid then (st1, [])
         else
           (let payload = ip_access_create_json (ips_formData st);
                mu = (case ips_editingRule st of
                        Some rl \<Rightarrow> useUpdateIPAccessRule appId (ipa_id rl) payload
                      | None \<Rightarrow> useCreateIPAccessRule appId payload);
                text = (case ips_editingRule st of
                        Some _ \<Rightarrow> ''IP access rule updated successfully''
                      | None \<Rightarrow> ''IP access rule created successfully'')
            in (case server (mu_call mu) of
                  Inr _ \<Rightarrow> st1\<lparr>ips_view := View_List, ips_editingRule := None\<rparr>
                | Inl _ \<Rightarrow> st1,
                mutate_toast server mu text ''Failed to save IP access rule'')))"

definition ips_handleToggle :: "server \<Rightarrow> string \<Rightarrow> int \<Rightarrow> bool \<Rightarrow> ui_effect list" where
  "ips_handleToggle server appId ident enabled =
     mutate_toast server
       (useUpdateIPAccessRule appId ident (ip_access_update_json
          \<lparr>ipu_ip_range = None, ipu_description = None, ipu_action = None, ipu_enabled = Some enabled\<rparr>))
       (''IP access rule '' @ enabled_word enabled) ''Failed to toggle IP access rule''"

text \<open>\<open>if (!ruleToDelete) return\<close> also returns for the number 0.\<close>

definition ips_handleDeleteConfirm :: "server \<Rightarrow> string \<Rightarrow> ip_section \<Rightarrow> ip_section \<times> ui_effect list" where
  "ips_handleDeleteConfirm server appId st =
     (case ips_ruleToDelete st of
        None \<Rightarrow> (st, [])
      | Some ident \<Rightarrow>
          if ident = 0 then (st, [])
          else
            (let mu = useDeleteIPAccessRule appId ident
             in (case server (mu_call mu) of
                   Inr _ \<Rightarrow> st\<lparr>ips_isDeleteOpen := False, ips_ruleToDelete := None\<rparr>
                 | Inl _ \<Rightarrow> st,
                 mutate_toast server mu ''IP access rule deleted successfully'' ''Failed to delete IP access rule'')))"

section \<open>What the check accepts\<close>

text \<open>The two notations, written from their parts.\<close>

definition range_text :: "string \<Rightarrow> string list \<Rightarrow> string option \<Rightarrow> string" where
  "range_text sep parts len = join sep parts @ (case len of None \<Rightarrow> [] | Some n \<Rightarrow> ''/'' @ n)"

definition word_of :: "(char \<Rightarrow> bool) \<Rightarrow> nat \<Rightarrow> nat \<Rightarrow> string \<Rightarrow> bool" where
  "word_of p lo hi w \<longleftrightarrow> lo \<le> length w \<and> length w \<le> hi \<and> list_all p w"

definition ipv4_parts :: "string list \<Rightarrow> string option \<Rightarrow> bool" where
  "ipv4_parts ps len \<longleftrightarrow> length ps = 4 \<and> list_all (word_of is_digit 1 3) ps \<and>
     (case len of None \<Rightarrow> True | Some n \<Rightarrow> word_of is_digit 1 2 n)"

definition ipv6_parts :: "string list \<Rightarrow> string option \<Rightarrow> bool" where
  "ipv6_parts ps len \<longleftrightarrow> 3 \<le> length ps \<and> length ps \<le> 8 \<and> list_all (word_of is_hex_digit 0 4) ps \<and>
     (case len of None \<Rightarrow> True | Some n \<Rightarrow> word_of is_digit 1 3 n)"

lemma range_regex_lang:
  "s \<in> lang (Seq (Seq (Rep (Seq (Rep (Cls p) l h) (Lit d)) lo hi) (Rep (Cls p) l h)) (Opt (Seq (Lit (CHR ''/'')) (Rep (Cls q) 1 m))))
   \<longleftrightarrow> (\<exists>ps len. s = range_text [d] ps len \<and> lo < length ps \<and> length ps \<le> Suc hi \<and> list_all (word_of p l h) ps \<and>
          (case len of None \<Rightarrow> True | Some n \<Rightarrow> word_of q 1 m n))"
  (is "s \<in> lang (Seq ?A ?B) \<longleftrightarrow> ?R")
proof -
  have A: "u \<in> lang ?A \<longleftrightarrow> (\<exists>ps. u = join [d] ps \<and> lo < length ps \<and> length ps \<le> Suc hi \<and> list_all (word_of p l h) ps)" for u
    unfolding lang_separated lang_Rep_Cls by (auto simp: word_of_def list_all_iff subset_iff)
  have B: "v \<in> lang ?B \<longleftrightarrow> (\<exists>len. v = (case len of None \<Rightarrow> [] | Some n \<Rightarrow> ''/'' @ n) \<and>
      (case len of None \<Rightarrow> True | Some n \<Rightarrow> word_of q 1 m n))" for v
    unfolding lang_Opt lang.simps(2) lang_Rep_Cls by (auto simp: word_of_def split_option_ex)
  have "s \<in> lang (Seq ?A ?B) \<longleftrightarrow> (\<exists>u v. s = u @ v \<and> u \<in> lang ?A \<and> v \<in> lang ?B)"
    by auto
  then show ?thesis unfolding A B range_text_def by blast
qed

lemma ipv4_test: "re_test ipv4Regex s \<longleftrightarrow> (\<exists>ps len. s = range_text ''.'' ps len \<and> ipv4_parts ps len)"
proof -
  have "3 < length ps \<and> length ps \<le> Suc 3 \<and> Q \<longleftrightarrow> length ps = 4 \<and> Q" for ps :: "string list" and Q by auto
  then show ?thesis unfolding re_test_lang ipv4Regex_def range_regex_lang ipv4_parts_def by simp
qed

lemma ipv6_test: "re_test ipv6Regex s \<longleftrightarrow> (\<exists>ps len. s = range_text '':'' ps len \<and> ipv6_parts ps len)"
proof -
  have "2 < length ps \<and> length ps \<le> Suc 7 \<and> Q \<longleftrightarrow> 3 \<le> length ps \<and> length ps \<le> 8 \<and> Q"
    for ps :: "string list" and Q by auto
  then show ?thesis unfolding re_test_lang ipv6Regex_def range_regex_lang ipv6_parts_def by simp
qed

lemma trim_empty:
  assumes "trim s = []" and "c \<in> set s"
  shows "js_space c"
proof -
  have "\<forall>x\<in>set (dropWhile js_space s). js_space x" using assms(1) by (simp add: trim_def)
  moreover have "\<forall>x\<in>set (takeWhile js_space s). js_space x" using set_takeWhileD by fastforce
  moreover have "c \<in> set (takeWhile js_space s @ dropWhile js_space s)" using assms(2) by simp
  ultimately show ?thesis unfolding set_append by blast
qed

lemma join_sep_in: "2 \<le> length ps \<Longrightarrow> c \<in> set sep \<Longrightarrow> c \<in> set (join sep ps)"
  by (cases "(sep, ps)" rule: join.cases) auto

lemma range_text_trim:
  assumes "2 \<le> length ps" and "\<not> js_space d"
  shows "trim (range_text [d] ps len) \<noteq> []"
proof
  assume "trim (range_text [d] ps len) = []"
  moreover have "d \<in> set (range_text [d] ps len)" using join_sep_in [OF assms(1), of d "[d]"] by (simp add: range_text_def)
  ultimately show False using trim_empty assms(2) by blast
qed

lemma validateIPRange_shape:
  "fst (validateIPRange v) \<longleftrightarrow> (\<exists>ps len. v = range_text ''.'' ps len \<and> ipv4_parts ps len) \<or>
     (\<exists>ps len. v = range_text '':'' ps len \<and> ipv6_parts ps len)"
proof -
  have "trim v \<noteq> []" if "re_test ipv4Regex v \<or> re_test ipv6Regex v"
    using that range_text_trim by (auto simp: ipv4_test ipv6_test ipv4_parts_def ipv6_parts_def js_space_def)
  then show ?thesis by (auto simp: validateIPRange_def ipv4_test [symmetric] ipv6_test [symmetric])
qed

lemma validateIPRange_message: "snd (validateIPRange v) = [] \<longleftrightarrow> fst (validateIPRange v)"
  by (simp add: validateIPRange_def)

text \<open>No blank passes the check, so a range pasted with one is refused as it stands.\<close>

lemma range_text_chars:
  assumes "c \<in> set (range_text [d] ps len)" and "list_all (word_of p l h) ps"
    and "case len of None \<Rightarrow> True | Some n \<Rightarrow> word_of q 1 m n"
  shows "c = d \<or> p c \<or> q c \<or> c = CHR ''/''"
  using assms join_chars [of c "[d]" ps]
  by (fastforce simp: range_text_def word_of_def list_all_iff split: option.splits)

lemma accepted_no_blank:
  assumes "fst (validateIPRange v)" and "c \<in> set v"
  shows "\<not> js_space c"
proof -
  have "is_digit c \<or> is_hex_digit c \<or> c \<in> {CHR ''.'', CHR '':'', CHR ''/''}"
    using assms range_text_chars [of c "CHR ''.''" _ _ is_digit 1 3 is_digit 2]
      range_text_chars [of c "CHR '':''" _ _ is_hex_digit 0 4 is_digit 3]
    unfolding validateIPRange_shape ipv4_parts_def ipv6_parts_def by blast
  then show ?thesis by (auto simp: js_space_def is_digit_def is_hex_digit_def Let_def)
qed

text \<open>The check of a range accepts exactly two shapes: four groups of one to three digits between dots, and three to
  eight groups of at most four hexadecimal digits between colons, either with an optional prefix length of at most two,
  or three, digits.  Every other value is refused with a message, and a value with a blank in it is one of them.\<close>

theorem accepted_range_shape:
  "fst (validateIPRange v) = ((\<exists>ps len. v = range_text ''.'' ps len \<and> ipv4_parts ps len) \<or>
     (\<exists>ps len. v = range_text '':'' ps len \<and> ipv6_parts ps len)) \<and>
   (snd (validateIPRange v) = []) = fst (validateIPRange v) \<and>
   \<not> fst (validateIPRange (u @ '' '' @ v))"
  using validateIPRange_shape validateIPRange_message accepted_no_blank [of "u @ '' '' @ v" "CHR '' ''"]
  by (auto simp: js_space_def)

lemma length_nat_to_string: "n < 10 ^ Suc k \<Longrightarrow> length (nat_to_string n) \<le> Suc k"
proof (induction k arbitrary: n)
  case 0
  then show ?case by (subst nat_to_string.simps) simp
next
  case (Suc k)
  have "n div 10 < 10 ^ Suc k" using Suc.prems by (simp add: less_mult_imp_div_less mult.commute)
  from Suc.IH [OF this] show ?case by (subst nat_to_string.simps) simp
qed

lemma number_word: "n < 10 ^ k \<Longrightarrow> 0 < k \<Longrightarrow> word_of is_digit 1 k (nat_to_string n)"
  using length_nat_to_string [of n "k - 1"] nat_to_string_ne [of n]
  by (auto simp: word_of_def list_all_iff nat_to_string_digits Suc_le_eq)

text \<open>Every IPv4 network in the usual notation, four numbers below 256 and a prefix length of at most 32, passes the
  check, with or without the prefix length.\<close>

theorem ipv4_cidr_accepted:
  assumes "a < 256" and "b < 256" and "c < 256" and "d < 256" and "n \<le> 32"
  shows "validateIPRange (range_text ''.'' (map nat_to_string [a, b, c, d]) (Some (nat_to_string n))) = (True, []) \<and>
    validateIPRange (range_text ''.'' (map nat_to_string [a, b, c, d]) None) = (True, [])"
proof -
  let ?ps = "map nat_to_string [a, b, c, d]"
  have w: "ipv4_parts ?ps len" if "len = None \<or> len = Some (nat_to_string n)" for len
    using assms that number_word [of _ 3] number_word [of n 2] by (auto simp: ipv4_parts_def)
  have "validateIPRange (range_text ''.'' ?ps len) = (True, [])" if "len = None \<or> len = Some (nat_to_string n)" for len
  proof (rule prod_eqI)
    show ok: "fst (validateIPRange (range_text ''.'' ?ps len)) = fst (True, [])"
      using w [OF that] validateIPRange_shape by auto
    show "snd (validateIPRange (range_text ''.'' ?ps len)) = snd (True, [])"
      using ok validateIPRange_message by simp
  qed
  then show ?thesis by blast
qed

theorem ipv4_cidr_accepted_witness: "validateIPRange ''10.0.0.0/8'' = (True, [])"
proof -
  have "range_text ''.'' (map nat_to_string [10, 0, 0, 0]) (Some (nat_to_string 8)) = ''10.0.0.0/8''" by code_simp
  then show ?thesis using ipv4_cidr_accepted [of 10 0 0 0 8] by simp
qed

text \<open>The check is no check of addresses.  Numbers above 255 and a prefix length of 99 pass, and addresses that
  abbreviate a single group of zeros at either end, which the server reads, are refused.\<close>

theorem range_check_gaps:
  "validateIPRange ''999.999.999.999/99'' = (True, []) \<and>
   \<not> fst (validateIPRange ''1:2:3:4:5:6:7::'') \<and> \<not> fst (validateIPRange ''::2:3:4:5:6:7:8'')"
  by code_simp

section \<open>Saving\<close>

lemma ip_save_routes:
  assumes "routable_app a"
  shows "route_call (mu_call (useCreateIPAccessRule a d)) = Some (Authenticated (IpAccessHandler IpAccess_Create))"
    and "route_call (mu_call (useUpdateIPAccessRule a i d)) = Some (Authenticated (IpAccessHandler IpAccess_Update))"
proof -
  have "plain_segment a" using assms by (simp add: routable_app_def)
  then show "route_call (mu_call (useCreateIPAccessRule a d)) = Some (Authenticated (IpAccessHandler IpAccess_Create))"
    and "route_call (mu_call (useUpdateIPAccessRule a i d)) = Some (Authenticated (IpAccessHandler IpAccess_Update))"
    by (simp_all add: useCreateIPAccessRule_def useUpdateIPAccessRule_def app_call_defs route_app
        ip_access_routes [OF assms, simplified])
qed

lemma ip_save_body:
  "sent_body (useCreateIPAccessRule a d) = Some d"
  "sent_body (useUpdateIPAccessRule a i d) = Some d"
  by (simp_all add: useCreateIPAccessRule_def useUpdateIPAccessRule_def apps_createIPAccessRule_def
      apps_updateIPAccessRule_def)

text \<open>Saving an access rule.  A refused range is reported under the field and nothing is sent.  Otherwise exactly one
  request is sent, with the form as its body, to the handler that updates the edited rule or to the one that creates a
  rule; the form closes exactly when the server accepts it.\<close>

theorem ip_rule_submit:
  assumes "routable_app app"
  shows "if \<not> fst (validateIPRange (ipc_ip_range (ips_formData st))) then
      snd (ips_handleSubmit server app st) = [] \<and> ips_ipRangeError (fst (ips_handleSubmit server app st)) \<noteq> [] \<and>
      ips_formData (fst (ips_handleSubmit server app st)) = ips_formData st
    else \<exists>mu. mutations (snd (ips_handleSubmit server app st)) = [mu] \<and>
      sent_body mu = Some (ip_access_create_json (ips_formData st)) \<and>
      route_call (mu_call mu) = Some (Authenticated (IpAccessHandler
        (if ips_editingRule st = None then IpAccess_Create else IpAccess_Update))) \<and>
      ips_formData (fst (ips_handleSubmit server app st)) = ips_formData st \<and>
      (ips_view (fst (ips_handleSubmit server app st)) =
        (if isl (server (mu_call mu)) then ips_view st else View_List))"
proof (cases "fst (validateIPRange (ipc_ip_range (ips_formData st)))")
  case False
  then obtain m where "validateIPRange (ipc_ip_range (ips_formData st)) = (False, m)" and "m \<noteq> []"
    using validateIPRange_message by (metis (full_types) prod.collapse)
  then show ?thesis by (simp add: ips_handleSubmit_def)
next
  case True
  then obtain m where "validateIPRange (ipc_ip_range (ips_formData st)) = (True, m)"
    by (metis (full_types) prod.collapse)
  then show ?thesis
    using ip_save_routes [OF assms]
    by (cases "ips_editingRule st")
      (auto simp: ips_handleSubmit_def Let_def isl_def ip_save_body split: sum.splits)
qed

theorem ip_rule_submit_witness:
  "\<exists>mu. mutations (snd (ips_handleSubmit accepting ''shop'' (ip_section_initial\<lparr>ips_formData :=
      IP_DEFAULT_FORM\<lparr>ipc_ip_range := ''10.0.0.0/8''\<rparr>\<rparr>))) = [mu] \<and>
    route_call (mu_call mu) = Some (Authenticated (IpAccessHandler IpAccess_Create))"
proof -
  let ?st = "ip_section_initial\<lparr>ips_formData := IP_DEFAULT_FORM\<lparr>ipc_ip_range := ''10.0.0.0/8''\<rparr>\<rparr>"
  have "fst (validateIPRange (ipc_ip_range (ips_formData ?st)))" "ips_editingRule ?st = None" by code_simp+
  moreover have "routable_app ''shop''" by code_simp
  ultimately show ?thesis using ip_rule_submit [of "''shop''" ?st accepting] by auto
qed

end
