(* ===== verification/App_Form.thy ===== *)
theory App_Form
  imports Form_Input
begin

text \<open>
  The form for an application: its state, tabs and saving
  (\<open>src/frontend/src/pages/applications/AppForm.tsx\<close>), the identity and upstream fields of its first tab
  (\<open>tabs/BasicTab.tsx\<close>), the text area and the patches of the second (\<open>tabs/AdvancedTab.tsx\<close>), and the list
  of applications (\<open>Applications.tsx\<close>).  The operations of the form are the steps of a relation, and the
  invariants hold in every state that can be reached from opening it.
\<close>

section \<open>Defaults and loading\<close>

definition default_upstream :: upstream where
  "default_upstream = \<lparr>up_scheme = Http, up_host = [], up_port = 80, up_weight = 1, up_enabled = True,
     up_healthy = None\<rparr>"

definition defaultAppConfig :: app_config where
  "defaultAppConfig = \<lparr>
     cfg_upstreams = [default_upstream],
     cfg_lb_method = Round_Robin,
     cfg_listen_port = None,
     cfg_backend_port = None,
     cfg_stream_config = Some [],
     cfg_redirect_https = False,
     cfg_root_redirect = None,
     cfg_health_check = \<lparr>hc_enabled = False, hc_path = ''/health'', hc_interval = 30, hc_threshold = 3\<rparr>,
     cfg_advanced = Some \<lparr>
       adv_listen_ipv6 = False,
       adv_allow_websocket = False,
       adv_modify_host_header = False,
       adv_host_header_value = ''$http_host'',
       adv_pass_x_forwarded_host = True,
       adv_pass_x_forwarded_proto = True,
       adv_allow_insecure_ssl = False,
       adv_trusted_proxies = [],
       adv_connect_timeout = 5,
       adv_read_timeout = 60,
       adv_send_timeout = 60,
       adv_proxy_buffering = True,
       adv_add_headers = [],
       adv_request_size_limit = 0,
       adv_upstream_path = None,
       adv_upstream_tls_sni = None,
       adv_cors = \<lparr>cors_enabled = False, cors_allow_origins = [],
         cors_allow_methods = [''GET'', ''POST'', ''PUT'', ''DELETE'', ''OPTIONS''],
         cors_allow_headers = [''Content-Type'', ''Authorization''], cors_expose_headers = [],
         cors_allow_credentials = False, cors_max_age = 86400\<rparr>,
       adv_cache = \<lparr>cache_enabled = False, cache_ttl = 3600\<rparr>\<rparr>\<rparr>"

datatype app_tab = Tab_Basic | Tab_Advanced | Tab_Ip_Access | Tab_Rules

text \<open>\<open>af_id\<close> is the identifier in the address bar, present when an application is edited.
  \<open>af_idManuallyEdited\<close> is state of the first tab, so it is lost whenever that tab is not shown.\<close>

record app_form =
  af_id               :: "string option"
  af_formData         :: app_create_request
  af_activeTab        :: app_tab
  af_idManuallyEdited :: bool

definition isEdit :: "app_form \<Rightarrow> bool" where
  "isEdit st \<longleftrightarrow> af_id st \<noteq> None \<and> af_id st \<noteq> Some []"

definition app_form_initial :: "string option \<Rightarrow> app_form" where
  "app_form_initial ident = \<lparr>af_id = ident,
     af_formData = \<lparr>acr_id = [], acr_domain = [], acr_description = Some [], acr_config = defaultAppConfig\<rparr>,
     af_activeTab = Tab_Basic, af_idManuallyEdited = False\<rparr>"

definition sanitized_upstream :: "upstream \<Rightarrow> upstream" where
  "sanitized_upstream u = u\<lparr>up_weight := (if up_weight u \<noteq> 0 \<and> up_weight u \<ge> 1 then up_weight u else 1)\<rparr>"

definition sanitized_health :: "health_check_config \<Rightarrow> health_check_config" where
  "sanitized_health h = \<lparr>hc_enabled = hc_enabled h,
     hc_path = (if hc_path h = [] then ''/health'' else hc_path h),
     hc_interval = (if hc_interval h > 0 then hc_interval h else 30),
     hc_threshold = (if hc_threshold h > 0 then hc_threshold h else 3)\<rparr>"

definition sanitizedConfig :: "app_config \<Rightarrow> app_config" where
  "sanitizedConfig c = c\<lparr>cfg_upstreams := map sanitized_upstream (cfg_upstreams c),
     cfg_health_check := sanitized_health (cfg_health_check c)\<rparr>"

section \<open>Tabs\<close>

definition stream_config_of :: "app_config \<Rightarrow> bool" where
  "stream_config_of c \<longleftrightarrow>
     cfg_upstreams c \<noteq> [] \<and>
     (up_scheme (hd (cfg_upstreams c)) = Tcp \<or> up_scheme (hd (cfg_upstreams c)) = Udp)"

definition isStream :: "app_form \<Rightarrow> bool" where
  "isStream st \<longleftrightarrow> stream_config_of (acr_config (af_formData st))"

definition tab_disabled :: "app_form \<Rightarrow> app_tab \<Rightarrow> bool" where
  "tab_disabled st t =
     (case t of
        Tab_Basic \<Rightarrow> False
      | Tab_Advanced \<Rightarrow> isStream st
      | Tab_Ip_Access \<Rightarrow> \<not> isEdit st
      | Tab_Rules \<Rightarrow> \<not> isEdit st \<or> isStream st)"

text \<open>Showing another tab unmounts the first one, and its state with it.\<close>

definition setActiveTab :: "app_tab \<Rightarrow> app_form \<Rightarrow> app_form" where
  "setActiveTab t st = st\<lparr>af_activeTab := t,
     af_idManuallyEdited := (af_idManuallyEdited st \<and> af_activeTab st = Tab_Basic \<and> t = Tab_Basic)\<rparr>"

text \<open>The buttons of \<open>Tabs\<close>: a disabled one does nothing.\<close>

definition click_tab :: "app_tab \<Rightarrow> app_form \<Rightarrow> app_form" where
  "click_tab t st = (if tab_disabled st t then st else setActiveTab t st)"

text \<open>The effect that runs after a render in which \<open>isStream\<close> has changed.\<close>

definition stream_effect :: "app_form \<Rightarrow> app_form \<Rightarrow> app_form" where
  "stream_effect old st =
     (if isStream st \<noteq> isStream old \<and> isStream st \<and> (af_activeTab st = Tab_Advanced \<or> af_activeTab st = Tab_Rules)
      then setActiveTab Tab_Basic st else st)"

definition load_existing :: "app \<Rightarrow> app_form \<Rightarrow> app_form" where
  "load_existing ap st =
     (if isEdit st then
        st\<lparr>af_formData := \<lparr>acr_id = app_id ap, acr_domain = app_domain ap,
          acr_description = Some (or_empty (app_description ap)), acr_config = sanitizedConfig (app_config ap)\<rparr>\<rparr>
      else st)"

definition updateConfig :: "(app_config \<Rightarrow> app_config) \<Rightarrow> app_form \<Rightarrow> app_form" where
  "updateConfig f st = st\<lparr>af_formData := (af_formData st)\<lparr>acr_config := f (acr_config (af_formData st))\<rparr>\<rparr>"

section \<open>The identity of the application\<close>

definition id_input_char :: "char \<Rightarrow> bool" where
  "id_input_char c \<longleftrightarrow> (let n = (of_char c :: nat)
     in (97 \<le> n \<and> n \<le> 122) \<or> is_digit c \<or> c = CHR ''.'' \<or> c = CHR ''-'')"

text \<open>\<open>replace(/-+/g, '-')\<close>.\<close>

fun squeeze_hyphens :: "string \<Rightarrow> string" where
  "squeeze_hyphens (c # d # s) =
     (if c = CHR ''-'' \<and> d = CHR ''-'' then squeeze_hyphens (d # s) else c # squeeze_hyphens (d # s))"
| "squeeze_hyphens s = s"

text \<open>\<open>replace(/^-|-$/g, '')\<close>.\<close>

definition strip_hyphens :: "string \<Rightarrow> string" where
  "strip_hyphens s =
     (let t = (if s \<noteq> [] \<and> hd s = CHR ''-'' then tl s else s)
      in if t \<noteq> [] \<and> last t = CHR ''-'' then butlast t else t)"

definition generateIdFromDomain :: "string \<Rightarrow> string" where
  "generateIdFromDomain domain =
     (if domain = [] then []
      else strip_hyphens (squeeze_hyphens
        (map (\<lambda>c. if c = CHR ''.'' then CHR ''-'' else c) (filter id_input_char (toLowerCase domain)))))"

definition hex_char :: "nat \<Rightarrow> char" where
  "hex_char n = (if n < 10 then char_of (48 + n) else char_of (87 + n))"

text \<open>\<open>b.toString(16).padStart(2, '0')\<close> of a byte.\<close>

definition byte_hex :: "nat \<Rightarrow> string" where
  "byte_hex b = [hex_char (b div 16), hex_char (b mod 16)]"

text \<open>The four bytes \<open>crypto.getRandomValues\<close> gives are an argument.\<close>

definition generateRandomId :: "nat list \<Rightarrow> string" where
  "generateRandomId bytes = ''app-'' @ concat (map byte_hex bytes)"

definition handleDomainChange :: "string \<Rightarrow> app_form \<Rightarrow> app_form" where
  "handleDomainChange domain st = st\<lparr>af_formData :=
     (let next = (af_formData st)\<lparr>acr_domain := domain\<rparr>
      in if \<not> isEdit st \<and> \<not> af_idManuallyEdited st then next\<lparr>acr_id := generateIdFromDomain domain\<rparr> else next)\<rparr>"

definition handleIdChange :: "string \<Rightarrow> app_form \<Rightarrow> app_form" where
  "handleIdChange ident st = st\<lparr>af_idManuallyEdited := True, af_formData := (af_formData st)\<lparr>acr_id := ident\<rparr>\<rparr>"

definition handleGenerateClick :: "nat list \<Rightarrow> app_form \<Rightarrow> app_form" where
  "handleGenerateClick bytes st =
     (let domain = acr_domain (af_formData st);
          generated = (if domain \<noteq> [] then generateIdFromDomain domain else generateRandomId bytes)
      in st\<lparr>af_formData := (af_formData st)\<lparr>acr_id := generated\<rparr>, af_idManuallyEdited := True\<rparr>)"

definition description_change :: "string \<Rightarrow> app_form \<Rightarrow> app_form" where
  "description_change d st = st\<lparr>af_formData := (af_formData st)\<lparr>acr_description := Some d\<rparr>\<rparr>"

section \<open>Upstreams\<close>

definition set_upstreams :: "upstream list \<Rightarrow> app_form \<Rightarrow> app_form" where
  "set_upstreams us st = updateConfig (\<lambda>c. c\<lparr>cfg_upstreams := us\<rparr>) st"

abbreviation form_upstreams :: "app_form \<Rightarrow> upstream list" where
  "form_upstreams st \<equiv> cfg_upstreams (acr_config (af_formData st))"

definition addUpstream :: "app_form \<Rightarrow> app_form" where
  "addUpstream st = set_upstreams (form_upstreams st @ [default_upstream]) st"

definition removeUpstream :: "nat \<Rightarrow> app_form \<Rightarrow> app_form" where
  "removeUpstream index st =
     (if length (form_upstreams st) \<le> 1 then st else set_upstreams (remove_nth index (form_upstreams st)) st)"

text \<open>The fields of a row.  The weight is changed by its two buttons only.\<close>

datatype upstream_edit =
    Edit_Scheme scheme
  | Edit_Host string
  | Edit_Port string
  | Weight_Down
  | Weight_Up
  | Edit_Enabled bool

primrec edit_upstream :: "upstream_edit \<Rightarrow> upstream \<Rightarrow> upstream" where
  "edit_upstream (Edit_Scheme s) u = u\<lparr>up_scheme := s\<rparr>"
| "edit_upstream (Edit_Host h) u = u\<lparr>up_host := h\<rparr>"
| "edit_upstream (Edit_Port p) u = u\<lparr>up_port := parseInt_or 0 p\<rparr>"
| "edit_upstream Weight_Down u = u\<lparr>up_weight := max 1 (up_weight u - 1)\<rparr>"
| "edit_upstream Weight_Up u = u\<lparr>up_weight := min 100 (up_weight u + 1)\<rparr>"
| "edit_upstream (Edit_Enabled b) u = u\<lparr>up_enabled := b\<rparr>"

text \<open>The rows are rendered from the list itself, so the index is always one of it.\<close>

definition handleUpstreamChange :: "nat \<Rightarrow> upstream_edit \<Rightarrow> app_form \<Rightarrow> app_form" where
  "handleUpstreamChange index e st =
     (if index < length (form_upstreams st)
      then set_upstreams ((form_upstreams st)[index := edit_upstream e (form_upstreams st ! index)]) st
      else st)"

section \<open>Saving\<close>

definition handleSave :: "server \<Rightarrow> app_form \<Rightarrow> app_form \<times> ui_effect list" where
  "handleSave server st =
     (let upstreams = form_upstreams st;
          activeUpstreams = filter (\<lambda>u. up_enabled u) upstreams
      in if activeUpstreams = [] then
           (setActiveTab Tab_Basic st, [Toast ''At least one upstream must be enabled'' Toast_Error])
         else if list_ex (\<lambda>u. up_weight u < 1 \<or> up_weight u > 100) upstreams then
           (setActiveTab Tab_Basic st, [Toast ''Upstream weight must be between 1 and 100'' Toast_Error])
         else
           (let d = af_formData st;
                mu = (if isEdit st
                      then useUpdateApp (or_empty (af_id st)) (app_update_request_json
                        \<lparr>aur_domain = acr_domain d, aur_description = acr_description d, aur_config = acr_config d\<rparr>)
                      else useCreateApp (app_create_request_json d));
                ok_text = (if isEdit st then ''Application updated successfully'' else ''Application created successfully'');
                fail_text = (if isEdit st then ''Failed to update application'' else ''Failed to create application'')
            in (st, mutate_toast server mu ok_text fail_text @
                  (case server (mu_call mu) of Inr _ \<Rightarrow> [Navigate ''/applications''] | Inl _ \<Rightarrow> []))))"

section \<open>What an identifier looks like\<close>

definition id_char :: "char \<Rightarrow> bool" where
  "id_char c \<longleftrightarrow> (let n = (of_char c :: nat) in (97 \<le> n \<and> n \<le> 122) \<or> is_digit c \<or> c = CHR ''-'')"

definition not_both_hyphens :: "char \<Rightarrow> char \<Rightarrow> bool" where
  "not_both_hyphens c d \<longleftrightarrow> \<not> (c = CHR ''-'' \<and> d = CHR ''-'')"

definition id_shape :: "string \<Rightarrow> bool" where
  "id_shape s \<longleftrightarrow> list_all id_char s \<and> successively not_both_hyphens s \<and>
     (s = [] \<or> hd s \<noteq> CHR ''-'' \<and> last s \<noteq> CHR ''-'')"

lemma squeeze_hd: "squeeze_hyphens s = [] \<longleftrightarrow> s = []" "s \<noteq> [] \<Longrightarrow> hd (squeeze_hyphens s) = hd s"
  by (induction s rule: squeeze_hyphens.induct) auto

lemma squeeze_set: "set (squeeze_hyphens s) = set s"
  by (induction s rule: squeeze_hyphens.induct) auto

lemma squeeze_single: "successively not_both_hyphens (squeeze_hyphens s)"
proof (induction s rule: squeeze_hyphens.induct)
  case (1 c d s)
  have "hd (squeeze_hyphens (d # s)) = d" by (simp add: squeeze_hd)
  then show ?case using 1 by (auto simp: successively_Cons not_both_hyphens_def)
qed auto

lemma squeeze_id: "successively not_both_hyphens s \<Longrightarrow> squeeze_hyphens s = s"
  by (induction s rule: squeeze_hyphens.induct) (auto simp: not_both_hyphens_def)

lemma strip_sublist: "set (strip_hyphens s) \<subseteq> set s"
  by (auto simp: strip_hyphens_def Let_def dest: in_set_butlastD list.set_sel(2) split: if_splits)

lemma strip_keeps:
  assumes "c \<in> set s" and "c \<noteq> CHR ''-''"
  shows "c \<in> set (strip_hyphens s)"
proof -
  let ?t = "if s \<noteq> [] \<and> hd s = CHR ''-'' then tl s else s"
  have t: "c \<in> set ?t" using assms by (cases s) auto
  then obtain u x where u: "?t = u @ [x]" by (cases ?t rule: rev_cases) auto
  then have "c \<in> set u \<or> c = x" using t by auto
  then show ?thesis using u assms(2) unfolding strip_hyphens_def Let_def by auto
qed

lemma strip_shape:
  assumes "successively not_both_hyphens s"
  shows "successively not_both_hyphens (strip_hyphens s) \<and>
    (strip_hyphens s = [] \<or> hd (strip_hyphens s) \<noteq> CHR ''-'' \<and> last (strip_hyphens s) \<noteq> CHR ''-'')"
proof -
  define t where "t = (if s \<noteq> [] \<and> hd s = CHR ''-'' then tl s else s)"
  have t: "successively not_both_hyphens t" and hd: "t = [] \<or> hd t \<noteq> CHR ''-''"
    using assms by (cases s; auto simp: t_def successively_Cons not_both_hyphens_def)+
  have s: "strip_hyphens s = (if t \<noteq> [] \<and> last t = CHR ''-'' then butlast t else t)"
    by (simp add: strip_hyphens_def t_def Let_def)
  show ?thesis
  proof (cases "t \<noteq> [] \<and> last t = CHR ''-''")
    case True
    then obtain u where u: "t = u @ [CHR ''-'']" by (metis append_butlast_last_id)
    have "successively not_both_hyphens u" and "u = [] \<or> last u \<noteq> CHR ''-''"
      using t unfolding u by (auto simp: successively_append_iff not_both_hyphens_def)
    then show ?thesis using hd u True s by (cases u) auto
  next
    case False
    then show ?thesis using t hd s by auto
  qed
qed

lemma id_input_mapped: "id_input_char c \<Longrightarrow> id_char (if c = CHR ''.'' then CHR ''-'' else c)"
  by (auto simp: id_input_char_def id_char_def Let_def)

lemma generated_chars: "c \<in> set (generateIdFromDomain d) \<Longrightarrow> id_char c"
  using strip_sublist id_input_mapped by (fastforce simp: generateIdFromDomain_def squeeze_set split: if_splits)

lemma generated_shape: "id_shape (generateIdFromDomain d)"
  using generated_chars [of _ d] strip_shape [OF squeeze_single]
  by (simp add: id_shape_def list_all_iff generateIdFromDomain_def)

lemma id_shape_fixed:
  assumes "id_shape s"
  shows "generateIdFromDomain s = s"
proof (cases "s = []")
  case False
  have c: "id_char c" if "c \<in> set s" for c using assms that by (simp add: id_shape_def list_all_iff)
  have low: "js_char_lower c = c" if "id_char c" for c
    using that by (auto simp: id_char_def js_char_lower_def is_digit_def Let_def)
  have "toLowerCase s = s" using c low by (simp add: toLowerCase_def map_idI)
  moreover have "filter id_input_char s = s" using c by (auto simp: filter_id_conv id_char_def id_input_char_def Let_def)
  moreover have "map (\<lambda>c. if c = CHR ''.'' then CHR ''-'' else c) s = s"
    using c [of "CHR ''.''"] by (intro map_idI) (auto simp: id_char_def is_digit_def)
  moreover have "squeeze_hyphens s = s" using assms by (simp add: id_shape_def squeeze_id)
  moreover have "strip_hyphens s = s" using assms False by (simp add: id_shape_def strip_hyphens_def)
  ultimately show ?thesis using False by (simp add: generateIdFromDomain_def)
qed (simp add: generateIdFromDomain_def)

lemma id_shape_plain: "id_shape s \<Longrightarrow> s \<noteq> [] \<Longrightarrow> plain_segment s"
  by (auto simp: plain_segment_def id_shape_def list_all_iff id_char_def is_alnum_def is_digit_def Let_def)

lemma generated_ne:
  assumes "c \<in> set d" and "is_alnum c"
  shows "generateIdFromDomain d \<noteq> []"
proof -
  let ?c = "js_char_lower c"
  have oc: "(of_char ?c :: nat) = (if 65 \<le> (of_char c :: nat) \<and> (of_char c :: nat) \<le> 90 then of_char c + 32 else of_char c)"
    by (simp add: js_char_lower_def)
  have n: "(97 \<le> (of_char ?c :: nat) \<and> (of_char ?c :: nat) \<le> 122) \<or> (48 \<le> (of_char ?c :: nat) \<and> (of_char ?c :: nat) \<le> 57)"
    using assms(2) unfolding oc by (auto simp: is_alnum_def Let_def)
  have ne: "?c \<noteq> CHR ''-''" "?c \<noteq> CHR ''.''" using n by auto
  have "id_input_char ?c" using n by (auto simp: id_input_char_def is_digit_def Let_def)
  then have "?c \<in> set (filter id_input_char (toLowerCase d))" using assms(1) by (simp add: toLowerCase_def)
  then have "?c \<in> set (map (\<lambda>c. if c = CHR ''.'' then CHR ''-'' else c) (filter id_input_char (toLowerCase d)))"
    using ne by force
  then have "?c \<in> set (generateIdFromDomain d)"
    using strip_keeps ne assms(1) by (auto simp: generateIdFromDomain_def squeeze_set)
  then show ?thesis by auto
qed

lemma squeeze_word: "CHR ''-'' \<notin> set w \<Longrightarrow> squeeze_hyphens (w @ s) = w @ squeeze_hyphens s"
proof (induction w)
  case (Cons c w)
  then show ?case by (cases "w @ s") auto
qed simp

lemma strip_word:
  assumes "w \<noteq> []" and "CHR ''-'' \<notin> set w"
  shows "prefix w (strip_hyphens (w @ s))"
proof -
  have "hd w \<noteq> CHR ''-''" and "last w \<noteq> CHR ''-''" using assms hd_in_set last_in_set by metis+
  then show ?thesis using assms
    by (cases s rule: rev_cases) (auto simp: strip_hyphens_def Let_def butlast_append last_append)
qed

lemma generated_prefix:
  assumes "id_shape w" and "w \<noteq> []" and "CHR ''-'' \<notin> set w"
  shows "prefix w (generateIdFromDomain (w @ d))"
proof -
  let ?f = "\<lambda>s. map (\<lambda>c. if c = CHR ''.'' then CHR ''-'' else c) (filter id_input_char (toLowerCase s))"
  have c: "id_char c" if "c \<in> set w" for c using assms that by (simp add: id_shape_def list_all_iff)
  have "js_char_lower c = c \<and> id_input_char c \<and> c \<noteq> CHR ''.''" if "id_char c" for c
    using that by (auto simp: id_char_def id_input_char_def js_char_lower_def is_digit_def Let_def)
  with c have "?f w = w" by (simp add: toLowerCase_def map_idI filter_id_conv)
  then have "?f (w @ d) = w @ ?f d" by (simp add: toLowerCase_append)
  then show ?thesis using assms squeeze_word strip_word by (simp add: generateIdFromDomain_def)
qed

text \<open>C21: the identifier made from a domain consists of small letters, digits and single hyphens with none at either end,
  is empty only when the domain has neither letters nor digits, and is left alone when made again from itself.\<close>

theorem generated_id_shape:
  "id_shape (generateIdFromDomain d) \<and>
   (generateIdFromDomain d = []) = list_all (\<lambda>c. \<not> is_alnum c) d \<and>
   generateIdFromDomain (generateIdFromDomain d) = generateIdFromDomain d"
proof -
  have "list_all (\<lambda>c. \<not> is_alnum c) d" if "generateIdFromDomain d = []"
    using generated_ne that by (auto simp: list_all_iff)
  moreover have "generateIdFromDomain d = []" if none: "list_all (\<lambda>c. \<not> is_alnum c) d"
  proof (rule ccontr)
    assume ne: "generateIdFromDomain d \<noteq> []"
    let ?h = "hd (generateIdFromDomain d)"
    have h: "?h \<in> set (generateIdFromDomain d)" using ne by simp
    have "?h \<noteq> CHR ''-''" using generated_shape [of d] ne by (simp add: id_shape_def)
    moreover from h have "?h \<in> set (map (\<lambda>c. if c = CHR ''.'' then CHR ''-'' else c) (filter id_input_char (toLowerCase d)))"
      using strip_sublist by (fastforce simp: generateIdFromDomain_def squeeze_set split: if_splits)
    ultimately obtain c where c: "c \<in> set d" "?h = js_char_lower c" by (auto simp: toLowerCase_def split: if_splits)
    have "id_char ?h" using h by (rule generated_chars)
    then have "is_alnum c"
      using \<open>?h \<noteq> CHR ''-''\<close> unfolding c(2)
      by (auto simp: id_char_def is_digit_def is_alnum_def js_char_lower_def Let_def split: if_splits)
    then show False using none c(1) by (auto simp: list_all_iff)
  qed
  ultimately show ?thesis using generated_shape id_shape_fixed by blast
qed

text \<open>An application created with the identifier the form makes from its domain can be read, changed and deleted,
  unless the identifier begins like one of the router's own path segments.  A domain such as \<open>rules.example.com\<close>
  is of that kind: the application is created, and every later change or deletion of it is answered 405.\<close>

theorem generated_id_routing:
  assumes "generateIdFromDomain d \<noteq> []"
  shows "(\<not> prefix ''rules'' (generateIdFromDomain d) \<longrightarrow> \<not> prefix ''ip-access-rules'' (generateIdFromDomain d) \<longrightarrow>
      generateIdFromDomain d \<noteq> ''under-attack'' \<longrightarrow>
      route_call (apps_get (generateIdFromDomain d)) = Some (Authenticated (AppHandler App_GetApp)) \<and>
      route_call (apps_update (generateIdFromDomain d) x) = Some (Authenticated (AppHandler App_UpdateApp)) \<and>
      route_call (apps_delete (generateIdFromDomain d)) = Some (Authenticated (AppHandler App_DeleteApp))) \<and>
    route_call (apps_update (generateIdFromDomain (''rules'' @ d)) x) = Some (Authenticated Method_Not_Allowed) \<and>
    route_call (apps_delete (generateIdFromDomain (''rules'' @ d))) = Some (Authenticated Method_Not_Allowed)"
proof -
  let ?a = "generateIdFromDomain d" and ?b = "generateIdFromDomain (''rules'' @ d)"
  have seg: "plain_segment ?a" using id_shape_plain generated_shape assms by blast
  have p: "prefix ''rules'' ?b" by (rule generated_prefix) code_simp+
  then have "?b \<noteq> []" by auto
  then have "plain_segment ?b" using id_shape_plain generated_shape by blast
  note bad = app_named_rules_unroutable [OF this p]
  have "route_call (apps_get ?a) = Some (Authenticated (AppHandler App_GetApp)) \<and>
      route_call (apps_update ?a x) = Some (Authenticated (AppHandler App_UpdateApp)) \<and>
      route_call (apps_delete ?a) = Some (Authenticated (AppHandler App_DeleteApp))" if "routable_app ?a"
    using seg by (simp add: app_call_defs route_app app_routes_plain [OF that, simplified])
  then show ?thesis using bad seg by (auto simp: routable_app_def)
qed

theorem generated_id_routing_witness:
  "route_call (apps_update ''shop-example-com'' (JObj [])) = Some (Authenticated (AppHandler App_UpdateApp)) \<and>
   route_call (apps_update ''rules-example-com'' (JObj [])) = Some (Authenticated Method_Not_Allowed)"
proof -
  have a: "generateIdFromDomain ''Shop.example.com'' = ''shop-example-com''" by code_simp
  have b: "generateIdFromDomain ''.example.com'' = ''example-com''"
    "generateIdFromDomain (''rules'' @ ''.example.com'') = ''rules-example-com''" by code_simp+
  show ?thesis
    using generated_id_routing [of "''Shop.example.com''" "JObj []"] generated_id_routing [of "''.example.com''" "JObj []"]
    unfolding a b by simp
qed

section \<open>The form as a transition system\<close>

text \<open>The remaining fields of the first tab.\<close>

datatype config_edit =
    Edit_Root_Redirect string
  | Edit_Lb_Method lb_method
  | Edit_Listen_Port string
  | Edit_Backend_Port string
  | Edit_Stream_Config string
  | Edit_Redirect_Https bool

primrec edit_config :: "config_edit \<Rightarrow> app_config \<Rightarrow> app_config" where
  "edit_config (Edit_Root_Redirect p) c = c\<lparr>cfg_root_redirect := Some p\<rparr>"
| "edit_config (Edit_Lb_Method l) c = c\<lparr>cfg_lb_method := l\<rparr>"
| "edit_config (Edit_Listen_Port p) c = c\<lparr>cfg_listen_port := Some (parseInt_or 0 p)\<rparr>"
| "edit_config (Edit_Backend_Port p) c = c\<lparr>cfg_backend_port := Some (parseInt_or 0 p)\<rparr>"
| "edit_config (Edit_Stream_Config t) c = c\<lparr>cfg_stream_config := Some t\<rparr>"
| "edit_config (Edit_Redirect_Https b) c = c\<lparr>cfg_redirect_https := b\<rparr>"

datatype health_edit = Edit_Health_Enabled bool | Edit_Health_Path string | Edit_Interval string | Edit_Threshold string

primrec edit_health :: "health_edit \<Rightarrow> app_config \<Rightarrow> app_config" where
  "edit_health (Edit_Health_Enabled b) c = c\<lparr>cfg_health_check := (cfg_health_check c)\<lparr>hc_enabled := b\<rparr>\<rparr>"
| "edit_health (Edit_Health_Path p) c = c\<lparr>cfg_health_check := (cfg_health_check c)\<lparr>hc_path := p\<rparr>\<rparr>"
| "edit_health (Edit_Interval n) c = c\<lparr>cfg_health_check := (cfg_health_check c)\<lparr>hc_interval := parseInt_or 30 n\<rparr>\<rparr>"
| "edit_health (Edit_Threshold n) c = c\<lparr>cfg_health_check := (cfg_health_check c)\<lparr>hc_threshold := parseInt_or 3 n\<rparr>\<rparr>"

text \<open>One interaction, followed by the effect of the render after it.  The fields of the first tab can be used while it is
  shown, the identifier only for a new application; the stored application arrives when one is edited.\<close>

inductive form_step :: "app_form \<Rightarrow> app_form \<Rightarrow> bool" where
  domain: "af_activeTab st = Tab_Basic \<Longrightarrow> form_step st (handleDomainChange d st)"
| ident: "af_activeTab st = Tab_Basic \<Longrightarrow> \<not> isEdit st \<Longrightarrow> form_step st (handleIdChange i st)"
| generate: "af_activeTab st = Tab_Basic \<Longrightarrow> \<not> isEdit st \<Longrightarrow> form_step st (handleGenerateClick bytes st)"
| description: "af_activeTab st = Tab_Basic \<Longrightarrow> form_step st (description_change d st)"
| add: "af_activeTab st = Tab_Basic \<Longrightarrow> form_step st (stream_effect st (addUpstream st))"
| remove: "af_activeTab st = Tab_Basic \<Longrightarrow> i < length (form_upstreams st) \<Longrightarrow>
    form_step st (stream_effect st (removeUpstream i st))"
| change: "af_activeTab st = Tab_Basic \<Longrightarrow> form_step st (stream_effect st (handleUpstreamChange i e st))"
| config: "af_activeTab st = Tab_Basic \<Longrightarrow> form_step st (updateConfig (edit_config ce) st)"
| health: "af_activeTab st = Tab_Basic \<Longrightarrow> form_step st (updateConfig (edit_health he) st)"
| advanced: "af_activeTab st = Tab_Advanced \<Longrightarrow> form_step st (updateConfig (\<lambda>c. c\<lparr>cfg_advanced := Some a\<rparr>) st)"
| load: "form_step st (stream_effect st (load_existing ap st))"
| tab: "form_step st (click_tab t st)"
| save: "form_step st (fst (handleSave server st))"

definition weight_ok :: "upstream \<Rightarrow> bool" where
  "weight_ok u \<longleftrightarrow> 1 \<le> up_weight u \<and> up_weight u \<le> 100"

definition form_inv :: "app_form \<Rightarrow> bool" where
  "form_inv st \<longleftrightarrow> \<not> tab_disabled st (af_activeTab st) \<and>
     list_all (\<lambda>u. 1 \<le> up_weight u) (form_upstreams st) \<and>
     (isEdit st \<or> form_upstreams st \<noteq> [] \<and> list_all weight_ok (form_upstreams st))"

lemma form_frame [simp]:
  "isEdit (st\<lparr>af_formData := d\<rparr>) = isEdit st" "isEdit (st\<lparr>af_activeTab := t\<rparr>) = isEdit st"
  "isEdit (st\<lparr>af_idManuallyEdited := b\<rparr>) = isEdit st" "isEdit (setActiveTab t st) = isEdit st"
  "isEdit (stream_effect old st) = isEdit st" "isEdit (updateConfig f st) = isEdit st"
  by (simp_all add: isEdit_def setActiveTab_def stream_effect_def updateConfig_def)

lemma form_data_frame [simp]:
  "af_formData (setActiveTab t st) = af_formData st" "af_activeTab (setActiveTab t st) = t"
  "af_formData (stream_effect old st) = af_formData st"
  "form_upstreams (set_upstreams us st) = us" "af_activeTab (set_upstreams us st) = af_activeTab st"
  "isEdit (set_upstreams us st) = isEdit st" "af_activeTab (updateConfig f st) = af_activeTab st"
  by (simp_all add: setActiveTab_def stream_effect_def set_upstreams_def updateConfig_def)

text \<open>The effect repairs the tab: whatever the change did to the scheme, no disabled tab stays open.\<close>

lemma stream_effect_tab:
  assumes "\<not> tab_disabled old (af_activeTab old)" and "af_activeTab st = af_activeTab old" and "isEdit st = isEdit old"
  shows "\<not> tab_disabled (stream_effect old st) (af_activeTab (stream_effect old st))"
  using assms by (auto simp: tab_disabled_def stream_effect_def isStream_def split: app_tab.splits)

lemma edit_upstream_weight: "1 \<le> up_weight u \<Longrightarrow> 1 \<le> up_weight (edit_upstream e u)"
  "weight_ok u \<Longrightarrow> weight_ok (edit_upstream e u)"
  by (cases e; simp add: weight_ok_def)+

lemma list_all_remove_nth: "list_all P xs \<Longrightarrow> list_all P (remove_nth i xs)"
  by (auto simp: list_all_iff remove_nth_def dest: in_set_takeD in_set_dropD)

lemma upstreams_inv:
  assumes "form_inv st" and "af_activeTab st' = af_activeTab st" and "isEdit st' = isEdit st"
    and "list_all (\<lambda>u. 1 \<le> up_weight u) (form_upstreams st')"
    and "\<not> isEdit st \<Longrightarrow> form_upstreams st' \<noteq> [] \<and> list_all weight_ok (form_upstreams st')"
  shows "form_inv (stream_effect st st')"
  using assms stream_effect_tab [of st st'] by (auto simp: form_inv_def)

text \<open>A change that keeps the upstreams and the tab keeps the invariant.\<close>

lemma same_upstreams_inv:
  "form_inv st \<Longrightarrow> form_upstreams st' = form_upstreams st \<Longrightarrow> af_activeTab st' = af_activeTab st \<Longrightarrow>
     isEdit st' = isEdit st \<Longrightarrow> form_inv st'"
  by (auto simp: form_inv_def tab_disabled_def isStream_def stream_config_of_def split: app_tab.splits)

lemma set_tab_inv: "form_inv st \<Longrightarrow> \<not> tab_disabled st t \<Longrightarrow> form_inv (setActiveTab t st)"
  by (auto simp: form_inv_def tab_disabled_def isStream_def split: app_tab.splits)

lemma upstream_ops_inv:
  assumes "form_inv st"
  shows "form_inv (stream_effect st (addUpstream st))"
    and "i < length (form_upstreams st) \<Longrightarrow> form_inv (stream_effect st (removeUpstream i st))"
    and "form_inv (stream_effect st (handleUpstreamChange i e st))"
proof -
  let ?us = "form_upstreams st"
  have pos: "list_all (\<lambda>u. 1 \<le> up_weight u) ?us" and new: "\<not> isEdit st \<Longrightarrow> ?us \<noteq> [] \<and> list_all weight_ok ?us"
    using assms by (auto simp: form_inv_def)
  show "form_inv (stream_effect st (addUpstream st))"
    using pos new by (intro upstreams_inv [OF assms]) (auto simp: addUpstream_def default_upstream_def weight_ok_def)
  have ne: "remove_nth i ?us \<noteq> []" if "1 < length ?us" "i < length ?us" for i
  proof -
    have "length (remove_nth i ?us) = length ?us - 1" using that by (simp add: remove_nth_def)
    then show ?thesis using that by (cases "remove_nth i ?us") auto
  qed
  show "form_inv (stream_effect st (removeUpstream i st))" if "i < length ?us"
    using pos new that ne [OF _ that] list_all_remove_nth
    by (intro upstreams_inv [OF assms]) (auto simp: removeUpstream_def not_le)
  show "form_inv (stream_effect st (handleUpstreamChange i e st))"
    using pos new
    by (intro upstreams_inv [OF assms])
      (auto simp: handleUpstreamChange_def edit_upstream_weight list_all_length nth_list_update)
qed

lemma load_inv:
  assumes "form_inv st"
  shows "form_inv (stream_effect st (load_existing ap st))"
proof (rule upstreams_inv [OF assms])
  show "list_all (\<lambda>u. 1 \<le> up_weight u) (form_upstreams (load_existing ap st))"
    using assms by (auto simp: load_existing_def sanitizedConfig_def sanitized_upstream_def list_all_iff form_inv_def)
qed (use assms in \<open>auto simp: load_existing_def form_inv_def\<close>)

lemma save_state: "fst (handleSave server st) = st \<or> fst (handleSave server st) = setActiveTab Tab_Basic st"
  by (auto simp: handleSave_def Let_def)

lemma form_step_inv:
  assumes "form_step st st'" and "form_inv st"
  shows "form_inv st'"
  using assms
proof cases
  case (tab t)
  then show ?thesis using assms(2) set_tab_inv by (simp add: click_tab_def)
next
  case (save server)
  then show ?thesis using assms(2) save_state [of server st] set_tab_inv [of st Tab_Basic] by (auto simp: tab_disabled_def)
next
  case (config ce)
  then show ?thesis using assms(2) by (intro same_upstreams_inv [OF assms(2)]) (cases ce; simp add: updateConfig_def)+
next
  case (health he)
  then show ?thesis using assms(2) by (intro same_upstreams_inv [OF assms(2)]) (cases he; simp add: updateConfig_def)+
qed (use assms(2) in \<open>auto simp: upstream_ops_inv load_inv handleDomainChange_def handleIdChange_def handleGenerateClick_def
  description_change_def updateConfig_def Let_def intro!: same_upstreams_inv [OF assms(2)]\<close>)

lemma form_step_id: "form_step st st' \<Longrightarrow> isEdit st' = isEdit st"
proof (induction rule: form_step.induct)
  case (save st server)
  then show ?case using save_state [of server st] by auto
qed (auto simp: handleDomainChange_def handleIdChange_def handleGenerateClick_def description_change_def Let_def
  addUpstream_def removeUpstream_def handleUpstreamChange_def load_existing_def click_tab_def)

lemma form_reachable:
  assumes "form_step\<^sup>*\<^sup>* (app_form_initial ident) st"
  shows "form_inv st \<and> isEdit st = isEdit (app_form_initial ident)"
  using assms
proof (induction rule: rtranclp_induct)
  case base
  show ?case by (simp add: form_inv_def app_form_initial_def defaultAppConfig_def default_upstream_def
        tab_disabled_def weight_ok_def)
next
  case (step y z)
  then show ?case using form_step_inv form_step_id by blast
qed

text \<open>C10: in every state of the form, however it was reached, the open tab is one that is enabled, every weight is at
  least 1, and a new application has at least one upstream, with weights from 1 to 100.\<close>

theorem app_form_invariant:
  assumes "form_step\<^sup>*\<^sup>* (app_form_initial ident) st"
  shows "\<not> tab_disabled st (af_activeTab st) \<and> list_all (\<lambda>u. 1 \<le> up_weight u) (form_upstreams st) \<and>
    (ident = None \<longrightarrow> form_upstreams st \<noteq> [] \<and> list_all weight_ok (form_upstreams st))"
  using form_reachable [OF assms] by (auto simp: form_inv_def isEdit_def app_form_initial_def)

theorem app_form_invariant_witness:
  "form_upstreams (stream_effect (app_form_initial None) (addUpstream (app_form_initial None))) \<noteq> []"
proof -
  have "form_step (app_form_initial None) (stream_effect (app_form_initial None) (addUpstream (app_form_initial None)))"
    by (rule form_step.add) (simp add: app_form_initial_def)
  then show ?thesis using app_form_invariant [OF r_into_rtranclp] by blast
qed

lemma app_save_routes:
  "route_call (mu_call (useCreateApp d)) = Some (Authenticated (AppHandler App_CreateApp))"
  "routable_app a \<Longrightarrow> route_call (mu_call (useUpdateApp a d)) = Some (Authenticated (AppHandler App_UpdateApp))"
proof -
  have "handleAppRoutes POST ''/api/v1/apps'' = AppHandler App_CreateApp" by (simp add: handleAppRoutes_def)
  then show "route_call (mu_call (useCreateApp d)) = Some (Authenticated (AppHandler App_CreateApp))"
    by (simp add: useCreateApp_def app_call_defs route_app)
  show "route_call (mu_call (useUpdateApp a d)) = Some (Authenticated (AppHandler App_UpdateApp))" if "routable_app a"
    using that app_routes_plain [OF that] by (simp add: useUpdateApp_def app_call_defs route_app routable_app_def)
qed

lemma app_save_body: "sent_body (useCreateApp d) = Some d" "sent_body (useUpdateApp a d) = Some d"
  by (simp_all add: useCreateApp_def useUpdateApp_def apps_create_def apps_update_def)

text \<open>Saving a new application.  From any state the form can be in, the only reason to refuse is that every
  upstream is switched off; otherwise exactly one request is sent, with the form as its body, to the handler that
  creates applications, and the page is left for the list exactly when the server accepts it.\<close>

theorem new_app_save:
  assumes "form_step\<^sup>*\<^sup>* (app_form_initial None) st"
  shows "if list_ex up_enabled (form_upstreams st)
    then \<exists>mu. mutations (snd (handleSave server st)) = [mu] \<and> fst (handleSave server st) = st \<and>
      sent_body mu = Some (app_create_request_json (af_formData st)) \<and>
      route_call (mu_call mu) = Some (Authenticated (AppHandler App_CreateApp)) \<and>
      (Navigate ''/applications'' \<in> set (snd (handleSave server st))) = (\<not> isl (server (mu_call mu)))
    else snd (handleSave server st) = [Toast ''At least one upstream must be enabled'' Toast_Error]"
proof -
  have new: "\<not> isEdit st" and ok: "list_all weight_ok (form_upstreams st)"
    using form_reachable [OF assms] by (auto simp: form_inv_def isEdit_def app_form_initial_def)
  from ok have w: "\<not> list_ex (\<lambda>u. up_weight u < 1 \<or> up_weight u > 100) (form_upstreams st)"
    by (auto simp: list_ex_iff list_all_iff weight_ok_def)
  have en: "filter (\<lambda>u. up_enabled u) (form_upstreams st) = [] \<longleftrightarrow> \<not> list_ex up_enabled (form_upstreams st)"
    by (auto simp: list_ex_iff filter_empty_conv)
  show ?thesis
    using w en new app_save_routes(1) app_save_body(1)
    by (auto simp: handleSave_def Let_def mutate_toast_def mutations_def isl_def split: sum.splits)
qed

theorem new_app_save_witness:
  "\<exists>mu. mutations (snd (handleSave accepting (app_form_initial None))) = [mu] \<and>
     route_call (mu_call mu) = Some (Authenticated (AppHandler App_CreateApp))"
proof -
  have "list_ex up_enabled (form_upstreams (app_form_initial None))" by code_simp
  then show ?thesis using new_app_save [of "app_form_initial None" accepting] by auto
qed

text \<open>The identifier a user typed is kept while the domain is edited on the same tab.  It is lost after a visit to
  another tab: the flag that protects it lives in the first tab and starts anew with it, so the next letter typed into
  the domain replaces the identifier.\<close>

theorem manual_id_overwritten:
  assumes "\<not> isEdit st" and "\<not> isStream st" and "af_activeTab st = Tab_Basic"
  shows "acr_id (af_formData (handleDomainChange d (handleIdChange i st))) = i \<and>
    acr_id (af_formData (handleDomainChange d (click_tab Tab_Basic (click_tab Tab_Advanced (handleIdChange i st))))) =
      generateIdFromDomain d"
  using assms
  by (simp add: handleDomainChange_def handleIdChange_def click_tab_def tab_disabled_def setActiveTab_def isStream_def
      isEdit_def Let_def)

theorem manual_id_overwritten_witness:
  "acr_id (af_formData (handleDomainChange ''a.b'' (click_tab Tab_Basic (click_tab Tab_Advanced
     (handleIdChange ''mine'' (app_form_initial None)))))) = ''a-b''"
proof -
  have "\<not> isEdit (app_form_initial None)" "\<not> isStream (app_form_initial None)" by code_simp+
  moreover have "af_activeTab (app_form_initial None) = Tab_Basic" by (simp add: app_form_initial_def)
  moreover have "generateIdFromDomain ''a.b'' = ''a-b''" by code_simp
  ultimately show ?thesis using manual_id_overwritten [of "app_form_initial None" "''a.b''" "''mine''"] by simp
qed

end
