(* ===== verification/App_Pages.thy ===== *)
theory App_Pages
  imports App_Form
begin

text \<open>
  The second tab of the application form (\<open>src/frontend/src/pages/applications/tabs/AdvancedTab.tsx\<close>), the
  template it offers for a stream (\<open>buildStreamTemplate\<close> of \<open>BasicTab.tsx\<close>) and the list of applications
  (\<open>Applications.tsx\<close>).  The advanced settings may be absent from a stored application and the tab then fills in
  single members, so they are an object here, not the record of the wire types.
\<close>

section \<open>Advanced settings\<close>

definition obj_spread :: "'v js_obj \<Rightarrow> 'v js_obj \<Rightarrow> 'v js_obj" where
  "obj_spread a b = foldl (\<lambda>ob (k, v). obj_set ob k v) a b"

definition updateAdv :: "json js_obj option \<Rightarrow> json js_obj \<Rightarrow> json js_obj" where
  "updateAdv adv patch = obj_spread (or_empty adv) patch"

text \<open>A member of the settings that is itself an object.\<close>

definition adv_member :: "json js_obj option \<Rightarrow> string \<Rightarrow> json js_obj" where
  "adv_member adv k = (case obj_get (or_empty adv) k of Some (JObj ob) \<Rightarrow> ob | _ \<Rightarrow> [])"

definition cors_toggle :: "json js_obj option \<Rightarrow> bool \<Rightarrow> json js_obj" where
  "cors_toggle adv c = updateAdv adv [(''cors'', JObj (obj_set (obj_spread
     [(''allow_origins'', JArr []), (''allow_methods'', JArr []), (''allow_headers'', JArr []),
      (''expose_headers'', JArr []), (''allow_credentials'', JBool False), (''max_age'', JNum 86400)]
     (adv_member adv ''cors'')) ''enabled'' (JBool c)))]"

definition cache_toggle :: "json js_obj option \<Rightarrow> bool \<Rightarrow> json js_obj" where
  "cache_toggle adv c =
     updateAdv adv [(''cache'', JObj (obj_set (obj_spread [(''ttl'', JNum 3600)] (adv_member adv ''cache'')) ''enabled'' (JBool c)))]"

definition cache_ttl_change :: "json js_obj option \<Rightarrow> string \<Rightarrow> json js_obj" where
  "cache_ttl_change adv t =
     updateAdv adv [(''cache'', JObj (obj_set (adv_member adv ''cache'') ''ttl'' (JNum (parseInt_or 3600 t))))]"

text \<open>The other fields of the tab; a number that cannot be read becomes the default of its field.\<close>

datatype adv_edit =
    Adv_Listen_Ipv6 bool
  | Adv_Upstream_Path string
  | Adv_Connect_Timeout string
  | Adv_Read_Timeout string
  | Adv_Send_Timeout string
  | Adv_Proxy_Buffering bool
  | Adv_Insecure_Ssl bool
  | Adv_Tls_Sni string
  | Adv_Websocket bool
  | Adv_Modify_Host bool
  | Adv_Host_Value string
  | Adv_Forwarded_Host bool
  | Adv_Forwarded_Proto bool
  | Adv_Request_Size string
  | Adv_Cors_Origins "string list"
  | Adv_Cors_Methods "string list"
  | Adv_Cors_Headers "string list"
  | Adv_Cors_Max_Age string
  | Adv_Cors_Credentials bool

definition cors_patch :: "json js_obj option \<Rightarrow> string \<Rightarrow> json \<Rightarrow> json js_obj" where
  "cors_patch adv k v = [(''cors'', JObj (obj_set (adv_member adv ''cors'') k v))]"

primrec adv_patch :: "json js_obj option \<Rightarrow> adv_edit \<Rightarrow> json js_obj" where
  "adv_patch adv (Adv_Listen_Ipv6 c) = [(''listen_ipv6'', JBool c)]"
| "adv_patch adv (Adv_Upstream_Path t) = [(''upstream_path'', JStr t)]"
| "adv_patch adv (Adv_Connect_Timeout t) = [(''connect_timeout'', JNum (parseInt_or 5 t))]"
| "adv_patch adv (Adv_Read_Timeout t) = [(''read_timeout'', JNum (parseInt_or 60 t))]"
| "adv_patch adv (Adv_Send_Timeout t) = [(''send_timeout'', JNum (parseInt_or 60 t))]"
| "adv_patch adv (Adv_Proxy_Buffering c) = [(''proxy_buffering'', JBool c)]"
| "adv_patch adv (Adv_Insecure_Ssl c) = [(''allow_insecure_ssl'', JBool c)]"
| "adv_patch adv (Adv_Tls_Sni t) = [(''upstream_tls_sni'', JStr t)]"
| "adv_patch adv (Adv_Websocket c) = [(''allow_websocket'', JBool c)]"
| "adv_patch adv (Adv_Modify_Host c) = [(''modify_host_header'', JBool c)]"
| "adv_patch adv (Adv_Host_Value t) = [(''host_header_value'', JStr t)]"
| "adv_patch adv (Adv_Forwarded_Host c) = [(''pass_x_forwarded_host'', JBool c)]"
| "adv_patch adv (Adv_Forwarded_Proto c) = [(''pass_x_forwarded_proto'', JBool c)]"
| "adv_patch adv (Adv_Request_Size t) = [(''request_size_limit'', JNum (parseInt_or 0 t))]"
| "adv_patch adv (Adv_Cors_Origins ts) = cors_patch adv ''allow_origins'' (JArr (map JStr ts))"
| "adv_patch adv (Adv_Cors_Methods ts) = cors_patch adv ''allow_methods'' (JArr (map JStr ts))"
| "adv_patch adv (Adv_Cors_Headers ts) = cors_patch adv ''allow_headers'' (JArr (map JStr ts))"
| "adv_patch adv (Adv_Cors_Max_Age t) = cors_patch adv ''max_age'' (JNum (parseInt_or 86400 t))"
| "adv_patch adv (Adv_Cors_Credentials c) = cors_patch adv ''allow_credentials'' (JBool c)"

definition edit_adv :: "json js_obj option \<Rightarrow> adv_edit \<Rightarrow> json js_obj" where
  "edit_adv adv e = updateAdv adv (adv_patch adv e)"

text \<open>An edit sets one member of the settings and leaves the others as they are, also inside the CORS object.\<close>

lemma updateAdv_single: "obj_get (updateAdv adv [(k, v)]) k' = (if k' = k then Some v else obj_get (or_empty adv) k')"
  by (simp add: updateAdv_def obj_spread_def)

lemma edit_adv_frame:
  "\<exists>k v. adv_patch adv e = [(k, v)] \<and> (\<forall>k'. obj_get (edit_adv adv e) k' = (if k' = k then Some v else obj_get (or_empty adv) k'))"
  unfolding edit_adv_def by (cases e) (simp_all add: cors_patch_def updateAdv_single)

lemma edit_adv_cors_frame:
  assumes "adv_patch adv e = cors_patch adv k v" and "k' \<noteq> k"
  shows "obj_get (adv_member (Some (edit_adv adv e)) ''cors'') k' = obj_get (adv_member adv ''cors'') k'"
  using assms by (simp add: edit_adv_def cors_patch_def adv_member_def [of "Some _"] updateAdv_single or_empty_def)

section \<open>Response headers\<close>

definition add_header :: "response_header list \<Rightarrow> response_header list" where
  "add_header hs = hs @ [\<lparr>hdr_name = [], hdr_value = []\<rparr>]"

definition header_name_change :: "nat \<Rightarrow> string \<Rightarrow> response_header list \<Rightarrow> response_header list" where
  "header_name_change i v hs = (if i < length hs then hs[i := (hs ! i)\<lparr>hdr_name := v\<rparr>] else hs)"

definition header_value_change :: "nat \<Rightarrow> string \<Rightarrow> response_header list \<Rightarrow> response_header list" where
  "header_value_change i v hs = (if i < length hs then hs[i := (hs ! i)\<lparr>hdr_value := v\<rparr>] else hs)"

definition remove_header :: "nat \<Rightarrow> response_header list \<Rightarrow> response_header list" where
  "remove_header i hs = remove_nth i hs"

section \<open>Trusted proxies\<close>

definition proxies_text :: "string list \<Rightarrow> string" where
  "proxies_text ps = join [newline] ps"

definition proxies_change :: "string \<Rightarrow> string list" where
  "proxies_change text = clean_lines text"

text \<open>One key pressed with the cursor at the end of the field, which shows the text of the list it holds.\<close>

definition type_proxy_char :: "string list \<Rightarrow> char \<Rightarrow> string list" where
  "type_proxy_char ps c = proxies_change (proxies_text ps @ [c])"

lemma trim_snoc: "\<forall>c\<in>set w. \<not> js_space c \<Longrightarrow> w \<noteq> [] \<Longrightarrow> trim (w @ [c]) = (if js_space c then w else w @ [c])"
proof -
  assume w: "\<forall>c\<in>set w. \<not> js_space c" and ne: "w \<noteq> []"
  have "dropWhile js_space (w @ [c]) = w @ [c]" using w ne by (cases w) auto
  moreover have "dropWhile js_space (rev w) = rev w" using w ne by (cases w rule: rev_cases) auto
  ultimately show ?thesis by (simp add: trim_def)
qed

lemma type_proxy_char_step:
  assumes "\<forall>c\<in>set w. \<not> js_space c"
  shows "type_proxy_char (if w = [] then [] else [w]) c =
    (let v = w @ filter (\<lambda>c. \<not> js_space c) [c] in if v = [] then [] else [v])"
proof -
  have nl: "newline \<notin> set w" using assms newline_space by blast
  have "split_lines (w @ [c]) = (if c = newline then [w, []] else [w @ [c]])"
    using nl by (auto simp: split_lines_def split_on_append_sep split_on_single)
  moreover have "trim [c] = (if js_space c then [] else [c])" by (simp add: trim_def)
  moreover have "trim w = w" using assms by (rule trim_no_spaces)
  moreover have "trim [] = []" by (simp add: trim_def)
  ultimately show ?thesis
    using trim_snoc [OF assms] newline_space
    by (cases "w = []") (auto simp: type_proxy_char_def proxies_change_def proxies_text_def clean_lines_def Let_def)
qed

text \<open>A list of trusted proxies pasted as lines comes out as it was meant, and the field shows it unchanged.
  Typing is different: the field is redrawn from the cleaned list after every key, so a line break or a blank typed at
  the end is gone at once, and whatever is typed from an empty field ends up in one single line.\<close>

theorem trusted_proxies_typing:
  "foldl type_proxy_char [] s =
     (if filter (\<lambda>c. \<not> js_space c) s = [] then [] else [filter (\<lambda>c. \<not> js_space c) s]) \<and>
   proxies_change (proxies_text (proxies_change t)) = proxies_change t"
proof
  show "foldl type_proxy_char [] s =
     (if filter (\<lambda>c. \<not> js_space c) s = [] then [] else [filter (\<lambda>c. \<not> js_space c) s])"
  proof (induction s rule: rev_induct)
    case (snoc c s)
    have "\<forall>c\<in>set (filter (\<lambda>c. \<not> js_space c) s). \<not> js_space c" by simp
    from type_proxy_char_step [OF this, of c] snoc show ?case by (simp add: Let_def)
  qed simp
next
  show "proxies_change (proxies_text (proxies_change t)) = proxies_change t"
    unfolding proxies_change_def proxies_text_def
    using clean_lines_trimmed clean_lines_no_newline by (intro clean_lines_join) (auto simp: list_all_iff)
qed

section \<open>The template of a stream\<close>

text \<open>\<open>replace(/\./g, '_').replace(/-/g, '_')\<close>.\<close>

definition stream_name :: "string \<Rightarrow> string" where
  "stream_name d = map (\<lambda>c. if c = CHR ''.'' \<or> c = CHR ''-'' then CHR ''_'' else c) d"

text \<open>A port is shown as its number, and by the placeholder when it is absent or zero.\<close>

definition port_text :: "int option \<Rightarrow> string" where
  "port_text p = (case p of Some n \<Rightarrow> if n = 0 then ''PORT_AUTO'' else int_to_string n | None \<Rightarrow> ''PORT_AUTO'')"

definition buildStreamTemplate :: "string \<Rightarrow> int option \<Rightarrow> int option \<Rightarrow> scheme \<Rightarrow> string" where
  "buildStreamTemplate domain listenPort backendPort sch =
     (let d = (if domain = [] then ''DOMAIN'' else domain);
          udpLine = (if sch = Udp then '' udp'' else [])
      in join [newline] [
        ''# app: '' @ d,
        ''upstream '' @ stream_name d @ '' {'',
        ''    server 127.0.0.1:'' @ port_text backendPort @ '';'',
        ''}'',
        [],
        ''server {'',
        ''    listen '' @ port_text listenPort @ '' ssl'' @ udpLine @ '';'',
        ''    ssl_certificate     /opt/certs/'' @ d @ ''/fullchain.pem;'',
        ''    ssl_certificate_key /opt/certs/'' @ d @ ''/key.pem;'',
        ''    proxy_pass '' @ stream_name d @ '';'',
        ''    proxy_connect_timeout 10s;'',
        ''        proxy_timeout 10s;'',
        ''}''])"

definition streamTemplate :: "app_form \<Rightarrow> string" where
  "streamTemplate st =
     (let d = af_formData st; c = acr_config d
      in buildStreamTemplate (acr_domain d) (cfg_listen_port c) (cfg_backend_port c)
           (if isStream st then up_scheme (hd (cfg_upstreams c)) else Tcp))"

section \<open>The list of applications\<close>

record applications_page =
  ap_isDeleteOpen :: bool
  ap_selectedApp  :: "app option"

definition isStreamApp :: "app \<Rightarrow> bool" where
  "isStreamApp ap = stream_config_of (app_config ap)"

text \<open>The badge: how many of the enabled upstreams are up, or nothing when the check is off.\<close>

definition HealthBadge :: "app \<Rightarrow> (string \<times> bool) option" where
  "HealthBadge ap =
     (if \<not> hc_enabled (cfg_health_check (app_config ap)) then None
      else
        (let us = cfg_upstreams (app_config ap);
             total = length (filter up_enabled us);
             unhealthy = length (filter (\<lambda>u. up_enabled u \<and> up_healthy u = Some False) us);
             allUp = (unhealthy = 0)
         in Some (if allUp then nat_to_string total @ ''/'' @ nat_to_string total @ '' Healthy''
                  else nat_to_string (total - unhealthy) @ ''/'' @ nat_to_string total @ '' Healthy'', allUp)))"

definition ap_handleDelete :: "app \<Rightarrow> applications_page \<Rightarrow> applications_page" where
  "ap_handleDelete ap st = st\<lparr>ap_selectedApp := Some ap, ap_isDeleteOpen := True\<rparr>"

definition ap_handleDeleteConfirm :: "server \<Rightarrow> applications_page \<Rightarrow> applications_page \<times> ui_effect list" where
  "ap_handleDeleteConfirm server st =
     (case ap_selectedApp st of
        None \<Rightarrow> (st, [])
      | Some ap \<Rightarrow>
          (let mu = useDeleteApp (app_id ap)
           in (case server (mu_call mu) of Inr _ \<Rightarrow> st\<lparr>ap_isDeleteOpen := False\<rparr> | Inl _ \<Rightarrow> st,
               mutate_toast server mu ''Application deleted'' ''Failed to delete application'')))"

definition ap_handleToggleAttack :: "server \<Rightarrow> app \<Rightarrow> bool \<Rightarrow> ui_effect list" where
  "ap_handleToggleAttack server ap enabled =
     mutate_toast server (useToggleUnderAttackMode (app_id ap) enabled)
       (if enabled then ''Under Attack mode enabled'' else ''Under Attack mode disabled'')
       ''Failed to toggle Under Attack mode''"

end
