(* ===== verification/Paged_List.thy ===== *)
theory Paged_List
  imports Form_Input
begin

text \<open>
  What the tables of the dashboard share: a list shown page by page through \<open>useMemo\<close>, and a \<open>Set\<close> of the
  numbers of the selected rows.  A page is computed from the list, the page number and the page size; the memo
  recomputes it only when one of its dependencies has changed, and the identity of the list is one of them, so lists
  carry the number of the render that made them.  The locale \<open>paged_view\<close> is what a table promises its reader: the
  pages together are the list.
\<close>

section \<open>Pages\<close>

text \<open>\<open>Math.ceil(n / per)\<close>.\<close>

definition total_pages :: "nat \<Rightarrow> nat \<Rightarrow> nat" where
  "total_pages n per = (n + per - 1) div per"

text \<open>\<open>start = (page - 1) * per; xs.slice(start, start + per)\<close>, for pages counted from 1.\<close>

definition page_items :: "nat \<Rightarrow> nat \<Rightarrow> 'a list \<Rightarrow> 'a list" where
  "page_items page per xs = (let start = (page - 1) * per in slice start (start + per) xs)"

lemma page_items_take: "page_items (Suc p) per xs = take per (drop (p * per) xs)"
  by (simp add: page_items_def slice_def Let_def)

lemma concat_pages: "concat (map (\<lambda>p. page_items p per xs) [1..<Suc n]) = take (n * per) xs"
proof (induction n)
  case (Suc n)
  have "take (n * per) xs @ take per (drop (n * per) xs) = take (n * per + per) xs" by (simp add: take_add)
  then show ?case using Suc by (simp add: page_items_take add.commute)
qed simp

lemma total_pages_enough: "0 < per \<Longrightarrow> n \<le> total_pages n per * per"
proof -
  assume "0 < per"
  then have "n + per - 1 < (total_pages n per + 1) * per"
    unfolding total_pages_def by (metis Suc_eq_plus1 dividend_less_div_times mult_Suc)
  then show ?thesis using \<open>0 < per\<close> by simp
qed

lemma total_pages_least: "0 < per \<Longrightarrow> 0 < p \<Longrightarrow> p \<le> total_pages n per \<Longrightarrow> (p - 1) * per < n"
proof -
  assume per: "0 < per" and p: "0 < p" "p \<le> total_pages n per"
  then have "p * per \<le> n + per - 1"
    unfolding total_pages_def by (meson div_times_less_eq_dividend le_trans mult_le_mono1)
  then show ?thesis using per p(1) by (cases p) auto
qed

locale paged_view =
  fixes items :: "'a list" and per :: nat and pages :: nat and view :: "nat \<Rightarrow> 'a list"
  assumes per_pos: "0 < per"
    and pages_eq: "items \<noteq> [] \<Longrightarrow> pages = total_pages (length items) per"
    and view_eq: "view p = page_items p per items"
begin

lemma pages_cover: "concat (map view [1..<Suc pages]) = items"
proof (cases "items = []")
  case True
  then show ?thesis by (simp add: view_eq [abs_def] page_items_def slice_def)
next
  case False
  then show ?thesis
    using concat_pages [of per items pages] total_pages_enough [OF per_pos, of "length items"]
    by (simp add: view_eq [abs_def] pages_eq)
qed

lemma page_nonempty: "items \<noteq> [] \<Longrightarrow> 1 \<le> p \<Longrightarrow> p \<le> pages \<Longrightarrow> view p \<noteq> [] \<and> length (view p) \<le> per"
  using total_pages_least [OF per_pos, of p "length items"] per_pos
  by (cases p) (auto simp: view_eq pages_eq page_items_take)

lemma beyond_empty: "pages < p \<Longrightarrow> view p = []"
proof (cases "items = []")
  case True
  then show ?thesis by (simp add: view_eq page_items_def slice_def)
next
  case False
  assume p: "pages < p"
  then obtain q where q: "p = Suc q" by (cases p) auto
  have "length items \<le> q * per"
    using total_pages_enough [OF per_pos, of "length items"] p q
    by (metis pages_eq [OF False] less_Suc_eq_le mult_le_mono1 le_trans)
  then show ?thesis by (simp add: view_eq q page_items_take)
qed

end

section \<open>The memo of a page\<close>

text \<open>\<open>pg_items\<close> is the list with the number of the render that made it; \<open>pg_memo\<close> is what the memo holds, with
  the dependencies it was computed for.\<close>

record 'a paged =
  pg_items :: "nat \<times> 'a list"
  pg_page  :: nat
  pg_per   :: nat
  pg_memo  :: "(nat \<times> nat) \<times> 'a list"

definition render_page :: "'a paged \<Rightarrow> 'a paged" where
  "render_page st =
     (let deps = (fst (pg_items st), pg_page st)
      in if fst (pg_memo st) = deps then st
         else st\<lparr>pg_memo := (deps, page_items (pg_page st) (pg_per st) (snd (pg_items st)))\<rparr>)"

text \<open>The buttons, the number of rows, and a new list from a filter or from the server.\<close>

definition previous_page :: "'a paged \<Rightarrow> 'a paged" where
  "previous_page st = (if pg_page st = 1 then st else render_page (st\<lparr>pg_page := pg_page st - 1\<rparr>))"

definition next_page :: "'a paged \<Rightarrow> 'a paged" where
  "next_page st =
     (if pg_page st = total_pages (length (snd (pg_items st))) (pg_per st) then st
      else render_page (st\<lparr>pg_page := pg_page st + 1\<rparr>))"

definition set_page_size :: "nat \<Rightarrow> 'a paged \<Rightarrow> 'a paged" where
  "set_page_size n st = render_page (st\<lparr>pg_per := n, pg_page := 1\<rparr>)"

definition refilter :: "'a list \<Rightarrow> 'a paged \<Rightarrow> 'a paged" where
  "refilter xs st = render_page (st\<lparr>pg_items := (Suc (fst (pg_items st)), xs), pg_page := 1\<rparr>)"

definition refetch :: "'a list \<Rightarrow> 'a paged \<Rightarrow> 'a paged" where
  "refetch xs st = render_page (st\<lparr>pg_items := (Suc (fst (pg_items st)), xs)\<rparr>)"

definition paged_initial :: "'a list \<Rightarrow> 'a paged" where
  "paged_initial xs = \<lparr>pg_items = (0, xs), pg_page = 1, pg_per = 10, pg_memo = ((0, 1), page_items 1 10 xs)\<rparr>"

definition fresh_page :: "'a paged \<Rightarrow> bool" where
  "fresh_page st \<longleftrightarrow> fst (pg_memo st) = (fst (pg_items st), pg_page st) \<and>
     snd (pg_memo st) = page_items (pg_page st) (pg_per st) (snd (pg_items st))"

text \<open>Every change but one shows the right page; changing the number of rows does so when another page than the
  first was shown.\<close>

lemma render_page_fresh:
  "fst (pg_memo st) \<noteq> (fst (pg_items st), pg_page st) \<Longrightarrow> fresh_page (render_page st)"
  by (simp add: render_page_def fresh_page_def Let_def)

lemma new_list_fresh:
  assumes "fst (fst (pg_memo st)) = fst (pg_items st)"
  shows "fresh_page (refilter xs st) \<and> fresh_page (refetch xs st)"
  using assms by (auto simp: refilter_def refetch_def intro!: render_page_fresh)

lemma page_buttons_fresh:
  assumes "fresh_page st" and "1 \<le> pg_page st"
  shows "fresh_page (previous_page st) \<and> fresh_page (next_page st)"
  using assms by (auto simp: previous_page_def next_page_def intro!: render_page_fresh) (auto simp: fresh_page_def)

lemma page_size_fresh: "fresh_page st \<Longrightarrow> pg_page st \<noteq> 1 \<Longrightarrow> fresh_page (set_page_size n st)"
  by (auto simp: set_page_size_def fresh_page_def render_page_def)

lemma page_size_stale:
  "fresh_page st \<Longrightarrow> pg_page st = 1 \<Longrightarrow>
     snd (pg_memo (set_page_size n st)) = page_items 1 (pg_per st) (snd (pg_items st)) \<and> pg_per (set_page_size n st) = n"
  by (auto simp: set_page_size_def fresh_page_def render_page_def)

section \<open>Selected rows\<close>

text \<open>A \<open>Set\<close> of numbers, enumerated in insertion order.\<close>

definition set_toggle :: "int \<Rightarrow> int list \<Rightarrow> int list" where
  "set_toggle i s = (if i \<in> set s then filter (\<lambda>j. j \<noteq> i) s else s @ [i])"

definition set_add :: "int list \<Rightarrow> int \<Rightarrow> int list" where
  "set_add s i = (if i \<in> set s then s else s @ [i])"

definition set_delete :: "int list \<Rightarrow> int \<Rightarrow> int list" where
  "set_delete s i = filter (\<lambda>j. j \<noteq> i) s"

definition new_set :: "int list \<Rightarrow> int list" where
  "new_set xs = foldl set_add [] xs"

lemma set_add_all: "set (foldl set_add s xs) = set s \<union> set xs" "distinct s \<Longrightarrow> distinct (foldl set_add s xs)"
  by (induction xs arbitrary: s) (auto simp: set_add_def)

lemma set_delete_all: "set (foldl set_delete s xs) = set s - set xs" "distinct s \<Longrightarrow> distinct (foldl set_delete s xs)"
  by (induction xs arbitrary: s) (auto simp: set_delete_def)

lemma new_set_set: "set (new_set xs) = set xs" "distinct (new_set xs)"
  by (simp_all add: new_set_def set_add_all)

lemma set_toggle_distinct: "distinct s \<Longrightarrow> distinct (set_toggle i s)"
  by (auto simp: set_toggle_def)

lemma set_toggle_set: "j \<in> set (set_toggle i s) \<longleftrightarrow> (if j = i then i \<notin> set s else j \<in> set s)"
  by (auto simp: set_toggle_def)

end
