(* ===== verification/Settings_Pages.thy ===== *)
theory Settings_Pages
  imports Paged_List
begin

text \<open>
  The pages that edit one configuration object each: the firewall engine (\<open>WAFEngine.tsx\<close>), the challenge page
  (\<open>Challenged.tsx\<close>), the scoring engine (\<open>ScoringEngine.tsx\<close>) and the protocol anomalies
  (\<open>AnomalyBehavior.tsx\<close>), all under \<open>src/frontend/src/pages/security\<close>.  Each copies the stored object into form
  state when it arrives and sends the form state back on save; what is proved is what that round trip keeps.
\<close>

section \<open>Firewall engine\<close>

record waf_page =
  wp_paranoiaLevel            :: int
  wp_anomalyThreshold         :: int
  wp_outboundAnomalyThreshold :: int
  wp_allowedMethods           :: "string list"
  wp_disabledRules            :: string
  wp_customRules              :: string

definition default_disabled_rules :: string where
  "default_disabled_rules = ''920274, 942421''"

definition waf_page_initial :: waf_page where
  "waf_page_initial = \<lparr>wp_paranoiaLevel = 1, wp_anomalyThreshold = 5, wp_outboundAnomalyThreshold = 4,
     wp_allowedMethods = [''GET'', ''HEAD'', ''POST'', ''OPTIONS''], wp_disabledRules = default_disabled_rules,
     wp_customRules = []\<rparr>"

text \<open>\<open>n || d\<close> on numbers.\<close>

definition num_or :: "int \<Rightarrow> int \<Rightarrow> int" where
  "num_or n d = (if n = 0 then d else n)"

definition waf_load :: "waf_config \<Rightarrow> waf_page" where
  "waf_load c = \<lparr>
     wp_paranoiaLevel = num_or (waf_paranoia_level c) 1,
     wp_anomalyThreshold = num_or (waf_anomaly_threshold c) 5,
     wp_outboundAnomalyThreshold = num_or (waf_outbound_anomaly_threshold c) 4,
     wp_allowedMethods = waf_allowed_methods c,
     wp_disabledRules = (let t = join '', '' (map int_to_string (waf_disabled_rules c))
        in if t = [] then default_disabled_rules else t),
     wp_customRules = waf_custom_rules c\<rparr>"

definition parsedDisabledRules :: "string \<Rightarrow> int list" where
  "parsedDisabledRules s = List.map_filter (\<lambda>r. parseInt (trim r)) (split_on (CHR '','') s)"

definition toggle_method :: "string \<Rightarrow> bool \<Rightarrow> waf_page \<Rightarrow> waf_page" where
  "toggle_method meth checked st = st\<lparr>wp_allowedMethods :=
     (if checked then wp_allowedMethods st @ [meth] else filter (\<lambda>x. x \<noteq> meth) (wp_allowedMethods st))\<rparr>"

definition waf_request :: "waf_page \<Rightarrow> waf_config" where
  "waf_request st = \<lparr>
     waf_paranoia_level = wp_paranoiaLevel st,
     waf_anomaly_threshold = wp_anomalyThreshold st,
     waf_outbound_anomaly_threshold = wp_outboundAnomalyThreshold st,
     waf_allowed_methods = wp_allowedMethods st,
     waf_disabled_rules = parsedDisabledRules (wp_disabledRules st),
     waf_custom_rules = wp_customRules st,
     waf_modules = None\<rparr>"

definition waf_handleSave :: "server \<Rightarrow> waf_page \<Rightarrow> ui_effect list" where
  "waf_handleSave server st =
     mutate_toast server (useUpdateWAFConfig (waf_config_json (waf_request st)))
       ''WAF settings updated successfully'' ''Failed to update WAF settings''"

section \<open>Challenge page\<close>

record challenge_form =
  cf_title              :: string
  cf_description        :: string
  cf_footer             :: string
  cf_show_ray_id        :: bool
  cf_custom_html        :: string
  cf_custom             :: bool
  cf_challenge_duration :: int
  cf_challenge_wait     :: int
  cf_max_attempts       :: int
  cf_trust_levels       :: trust_level_config

definition text_or :: "string \<Rightarrow> string \<Rightarrow> string" where
  "text_or s d = (if s = [] then d else s)"

text \<open>\<open>max_attempts\<close> is a member the wire type does not have; the page reads it through \<open>any\<close>.\<close>

definition challenge_load :: "bot_config \<Rightarrow> int \<Rightarrow> challenge_form" where
  "challenge_load c max_attempts = (let ch = bc_challenge c in \<lparr>
     cf_title = text_or (chc_title ch) ''Verifying your connection...'',
     cf_description = text_or (chc_description ch) ''Please wait while we verify your request.'',
     cf_footer = text_or (chc_footer ch) ''Protected by Vibes WAF'',
     cf_show_ray_id = chc_show_ray_id ch,
     cf_custom_html = chc_custom_html ch,
     cf_custom = (chc_custom_html ch \<noteq> []),
     cf_challenge_duration = num_or (bc_challenge_duration c) 36000,
     cf_challenge_wait = num_or (bc_challenge_wait c) 3,
     cf_max_attempts = num_or max_attempts 3,
     cf_trust_levels = bc_trust_levels c\<rparr>)"

definition challenge_request :: "bot_config \<Rightarrow> challenge_form \<Rightarrow> bot_config" where
  "challenge_request c f = c\<lparr>
     bc_challenge := \<lparr>chc_title = cf_title f, chc_description = cf_description f, chc_footer = cf_footer f,
       chc_custom_html = (if cf_custom f then cf_custom_html f else []), chc_show_ray_id = cf_show_ray_id f\<rparr>,
     bc_challenge_duration := cf_challenge_duration f,
     bc_challenge_wait := cf_challenge_wait f,
     bc_trust_levels := cf_trust_levels f\<rparr>"

definition challenge_handleSave :: "server \<Rightarrow> bot_config option \<Rightarrow> challenge_form \<Rightarrow> ui_effect list" where
  "challenge_handleSave server botConfig f =
     (case botConfig of
        None \<Rightarrow> []
      | Some c \<Rightarrow> mutate_toast server (useUpdateBotConfig (bot_config_json (challenge_request c f)))
          ''Challenge settings updated'' ''Failed to update settings'')"

text \<open>The table of challenge events.\<close>

definition challengeLogs :: "log_entry list \<Rightarrow> log_entry list" where
  "challengeLogs ls = filter (\<lambda>l. log_action l = Log_Challenge \<or> log_action l = Log_Solved \<or> log_action l = Log_Failed) ls"

definition filteredLogs :: "string \<Rightarrow> log_entry list \<Rightarrow> log_entry list" where
  "filteredLogs logSearchTerm ls =
     (if logSearchTerm = [] then challengeLogs ls
      else (let term = toLowerCase logSearchTerm
            in filter (\<lambda>l. str_includes (toLowerCase (log_ip l)) term \<or> str_includes (toLowerCase (log_host l)) term \<or>
                 log_ua l \<noteq> [] \<and> str_includes (toLowerCase (log_ua l)) term) (challengeLogs ls)))"

definition totalLogPages :: "string \<Rightarrow> log_entry list \<Rightarrow> nat" where
  "totalLogPages s ls = max 1 (total_pages (length (filteredLogs s ls)) 50)"

definition paginatedLogs :: "string \<Rightarrow> log_entry list \<Rightarrow> nat \<Rightarrow> log_entry list" where
  "paginatedLogs s ls page = page_items page 50 (filteredLogs s ls)"

lemma total_pages_pos: "0 < per \<Longrightarrow> xs \<noteq> [] \<Longrightarrow> 1 \<le> total_pages (length xs) per"
  unfolding total_pages_def by (cases xs) (auto simp: Suc_le_eq div_greater_zero_iff)

interpretation challenge_table: paged_view "filteredLogs s ls" 50 "totalLogPages s ls" "paginatedLogs s ls" for s ls
  using total_pages_pos [of 50 "filteredLogs s ls"]
  by unfold_locales (simp_all add: totalLogPages_def paginatedLogs_def)

section \<open>Scoring engine\<close>

datatype category_key = Key_Ip_Reputation | Key_Bot_Detection | Key_Waf_Anomaly | Key_Protocol_Anomaly

definition CATEGORY_META :: "category_key list" where
  "CATEGORY_META = [Key_Ip_Reputation, Key_Bot_Detection, Key_Waf_Anomaly, Key_Protocol_Anomaly]"

primrec weight_of :: "scoring_weights \<Rightarrow> category_key \<Rightarrow> category_weight" where
  "weight_of w Key_Ip_Reputation = sw_ip_reputation w"
| "weight_of w Key_Bot_Detection = sw_bot_detection w"
| "weight_of w Key_Waf_Anomaly = sw_waf_anomaly w"
| "weight_of w Key_Protocol_Anomaly = sw_protocol_anomaly w"

primrec with_weight :: "category_key \<Rightarrow> category_weight \<Rightarrow> scoring_weights \<Rightarrow> scoring_weights" where
  "with_weight Key_Ip_Reputation c w = w\<lparr>sw_ip_reputation := c\<rparr>"
| "with_weight Key_Bot_Detection c w = w\<lparr>sw_bot_detection := c\<rparr>"
| "with_weight Key_Waf_Anomaly c w = w\<lparr>sw_waf_anomaly := c\<rparr>"
| "with_weight Key_Protocol_Anomaly c w = w\<lparr>sw_protocol_anomaly := c\<rparr>"

datatype threshold_field = Field_Block | Field_Challenge

primrec set_threshold :: "threshold_field \<Rightarrow> int \<Rightarrow> scoring_thresholds \<Rightarrow> scoring_thresholds" where
  "set_threshold Field_Block v t = t\<lparr>st_block := v\<rparr>"
| "set_threshold Field_Challenge v t = t\<lparr>st_challenge := v\<rparr>"

datatype weight_edit = Weight_Enabled bool | Weight_Max int | Weight_Multiplier decimal

primrec edit_weight :: "weight_edit \<Rightarrow> category_weight \<Rightarrow> category_weight" where
  "edit_weight (Weight_Enabled b) c = c\<lparr>cw_enabled := b\<rparr>"
| "edit_weight (Weight_Max n) c = c\<lparr>cw_max_score := n\<rparr>"
| "edit_weight (Weight_Multiplier d) c = c\<lparr>cw_multiplier := d\<rparr>"

datatype trust_edit = Trust_History int | Trust_Threshold int | Trust_Session int | Trust_Good_Bot int

primrec edit_trust :: "trust_edit \<Rightarrow> trust_reduction \<Rightarrow> trust_reduction" where
  "edit_trust (Trust_History n) t = t\<lparr>tr_trusted_history := n\<rparr>"
| "edit_trust (Trust_Threshold n) t = t\<lparr>tr_trusted_history_threshold := n\<rparr>"
| "edit_trust (Trust_Session n) t = t\<lparr>tr_stable_session := n\<rparr>"
| "edit_trust (Trust_Good_Bot n) t = t\<lparr>tr_good_bot := n\<rparr>"

text \<open>The form is empty until the stored configuration arrives; every edit before that does nothing.\<close>

definition scoring_load :: "scoring_config option \<Rightarrow> scoring_config option \<Rightarrow> scoring_config option" where
  "scoring_load scoringConfig config = (case scoringConfig of Some c \<Rightarrow> Some c | None \<Rightarrow> config)"

definition updateThreshold :: "threshold_field \<Rightarrow> int \<Rightarrow> scoring_config option \<Rightarrow> scoring_config option" where
  "updateThreshold f v config = map_option (\<lambda>c. c\<lparr>sc_thresholds := set_threshold f v (sc_thresholds c)\<rparr>) config"

definition updateWeight :: "category_key \<Rightarrow> weight_edit \<Rightarrow> scoring_config option \<Rightarrow> scoring_config option" where
  "updateWeight k e config =
     map_option (\<lambda>c. c\<lparr>sc_weights := with_weight k (edit_weight e (weight_of (sc_weights c) k)) (sc_weights c)\<rparr>) config"

definition updateTrust :: "trust_edit \<Rightarrow> scoring_config option \<Rightarrow> scoring_config option" where
  "updateTrust e config = map_option (\<lambda>c. c\<lparr>sc_trust := edit_trust e (sc_trust c)\<rparr>) config"

definition scoring_handleSave :: "server \<Rightarrow> scoring_config option \<Rightarrow> ui_effect list" where
  "scoring_handleSave server config =
     (case config of
        None \<Rightarrow> []
      | Some c \<Rightarrow> mutate_toast server (useUpdateScoringConfig (scoring_config_json c))
          ''Scoring configuration updated'' ''Failed to update scoring config'')"

definition totalMaxPossible :: "scoring_config \<Rightarrow> int" where
  "totalMaxPossible c = foldl (\<lambda>sum k. sum + (if cw_enabled (weight_of (sc_weights c) k)
     then cw_max_score (weight_of (sc_weights c) k) else 0)) 0 CATEGORY_META"

section \<open>Protocol anomalies\<close>

definition anomaly_load :: "protocol_anomaly_config option \<Rightarrow> protocol_anomaly_config option \<Rightarrow> protocol_anomaly_config option" where
  "anomaly_load config form = (case config of Some c \<Rightarrow> Some c | None \<Rightarrow> form)"

definition handleRuleChange :: "string \<Rightarrow> int \<Rightarrow> protocol_anomaly_config option \<Rightarrow> protocol_anomaly_config option" where
  "handleRuleChange key v form = map_option (\<lambda>c. c\<lparr>pac_rules := obj_set (pac_rules c) key v\<rparr>) form"

definition anomaly_handleSave :: "server \<Rightarrow> protocol_anomaly_config option \<Rightarrow> ui_effect list" where
  "anomaly_handleSave server form =
     (case form of
        None \<Rightarrow> []
      | Some c \<Rightarrow> mutate_toast server (useUpdateProtocolAnomalyConfig (protocol_anomaly_config_json c))
          ''Protocol anomaly configuration updated'' ''Failed to update configuration'')"

section \<open>Properties\<close>

lemma split_comma_list:
  "\<forall>w\<in>set (x # xs). CHR '','' \<notin> set w \<Longrightarrow> split_on (CHR '','') (join '', '' (x # xs)) = x # map (Cons (CHR '' '')) xs"
proof (induction xs arbitrary: x)
  case Nil
  then show ?case by (simp add: split_on_single)
next
  case (Cons y ys)
  have "split_on (CHR '','') (x @ CHR '','' # CHR '' '' # join '', '' (y # ys)) =
      x # split_on (CHR '','') (CHR '' '' # join '', '' (y # ys))"
    using Cons.prems by (intro split_on_append_sep) simp
  also have "split_on (CHR '','') (CHR '' '' # join '', '' (y # ys)) = (CHR '' '' # y) # map (Cons (CHR '' '')) ys"
    using Cons.IH [of y] Cons.prems by simp
  finally show ?case by simp
qed

lemma trim_number: "trim (int_to_string n) = int_to_string n" "trim (CHR '' '' # int_to_string n) = int_to_string n"
proof -
  have "\<not> js_space c" if "c \<in> set (int_to_string n)" for c
    using int_to_string_chars [OF that] by (auto simp: js_space_def is_digit_def Let_def)
  then have "\<forall>c\<in>set (int_to_string n). \<not> js_space c" by blast
  then show t: "trim (int_to_string n) = int_to_string n" by (rule trim_no_spaces)
  have "trim (CHR '' '' # int_to_string n) = trim (int_to_string n)" by (simp add: trim_def js_space_def)
  then show "trim (CHR '' '' # int_to_string n) = int_to_string n" using t by simp
qed

lemma parsed_numbers:
  assumes "ns \<noteq> []"
  shows "parsedDisabledRules (join '', '' (map int_to_string ns)) = ns"
proof -
  obtain n ms where ns: "ns = n # ms" using assms by (cases ns) auto
  have nc: "CHR '','' \<notin> set (int_to_string k)" for k
    using int_to_string_chars [of "CHR '',''" k] by (auto simp: is_digit_def)
  have "List.map_filter (\<lambda>r. parseInt (trim r)) (map (\<lambda>k. CHR '' '' # int_to_string k) ks) = ks" for ks
    by (induction ks) (simp_all add: map_filter_simps trim_number parseInt_int_to_string)
  moreover have "split_on (CHR '','') (join '', '' (map int_to_string ns)) =
      int_to_string n # map (\<lambda>k. CHR '' '' # int_to_string k) ms"
    using split_comma_list [of "int_to_string n" "map int_to_string ms"] nc by (simp add: ns o_def)
  ultimately show ?thesis
    by (simp add: parsedDisabledRules_def map_filter_simps trim_number parseInt_int_to_string ns)
qed

text \<open>The firewall settings, loaded and saved unchanged, are sent back as they were stored, apart from the module
  switches, which the page never sends; numbers that are zero come back as the defaults.  An empty list of disabled rules does not
  survive the trip: the page shows, and saves, the two default rules instead, so no installation can have every rule enabled.\<close>

theorem waf_settings_roundtrip:
  "waf_request (waf_load c) = c\<lparr>
     waf_paranoia_level := num_or (waf_paranoia_level c) 1,
     waf_anomaly_threshold := num_or (waf_anomaly_threshold c) 5,
     waf_outbound_anomaly_threshold := num_or (waf_outbound_anomaly_threshold c) 4,
     waf_disabled_rules := (if waf_disabled_rules c = [] then [920274, 942421] else waf_disabled_rules c),
     waf_modules := None\<rparr> \<and>
   mutations (waf_handleSave server (waf_load c)) = [useUpdateWAFConfig (waf_config_json (waf_request (waf_load c)))]"
proof -
  have "nat_to_string 920274 = ''920274''" and "nat_to_string 942421 = ''942421''"
    by (simp_all add: nat_to_string.simps digit_char_def char_of_def bit_iff_odd)
  then have "default_disabled_rules = join '', '' (map int_to_string [920274, 942421])"
    by (simp add: default_disabled_rules_def int_to_string_def)
  then have default: "parsedDisabledRules default_disabled_rules = [920274, 942421]"
    using parsed_numbers [of "[920274, 942421]"] by simp
  have ne: "join '', '' (map int_to_string ns) \<noteq> []" if ns: "ns \<noteq> []" for ns
  proof -
    obtain m ms where "ns = m # ms" using ns by (cases ns) auto
    then show ?thesis by (cases ms) simp_all
  qed
  show ?thesis
    by (cases "waf_disabled_rules c = []")
      (simp_all add: waf_request_def waf_load_def default ne parsed_numbers waf_handleSave_def Let_def)
qed

text \<open>The challenge settings, loaded and saved unchanged, are sent back as they were stored when no text is empty and no time is
  zero.  The number of attempts, which the form offers, is not part of any request.\<close>

theorem challenge_settings_roundtrip:
  assumes "chc_title (bc_challenge c) \<noteq> []" and "chc_description (bc_challenge c) \<noteq> []"
    and "chc_footer (bc_challenge c) \<noteq> []" and "bc_challenge_duration c \<noteq> 0" and "bc_challenge_wait c \<noteq> 0"
  shows "mutations (challenge_handleSave server (Some c) (challenge_load c n)) = [useUpdateBotConfig (bot_config_json c)] \<and>
    challenge_handleSave server (Some c) (f\<lparr>cf_max_attempts := k\<rparr>) = challenge_handleSave server (Some c) f"
proof -
  have "challenge_request c (challenge_load c n) = c"
    using assms by (cases c; cases "bc_challenge c") (simp add: challenge_request_def challenge_load_def text_or_def num_or_def Let_def)
  moreover have "challenge_request c (f\<lparr>cf_max_attempts := k\<rparr>) = challenge_request c f"
    by (simp add: challenge_request_def)
  ultimately show ?thesis by (simp add: challenge_handleSave_def)
qed

lemma weight_of_with_weight: "weight_of (with_weight k c w) j = (if j = k then c else weight_of w j)"
  by (cases k; cases j) simp_all

text \<open>A scoring category is edited alone, and the greatest possible score is the sum over the categories switched on; switching
  one off lowers it by exactly the category's maximum.\<close>

theorem scoring_category_alone:
  assumes "updateWeight k e (Some c) = Some c'" and "j \<noteq> k"
  shows "weight_of (sc_weights c') j = weight_of (sc_weights c) j \<and> sc_thresholds c' = sc_thresholds c \<and> sc_trust c' = sc_trust c"
  using assms by (auto simp: updateWeight_def weight_of_with_weight)

lemma totalMaxPossible_sum:
  "totalMaxPossible c = (\<Sum>k\<leftarrow>CATEGORY_META. if cw_enabled (weight_of (sc_weights c) k) then cw_max_score (weight_of (sc_weights c) k) else 0)"
  by (simp add: totalMaxPossible_def CATEGORY_META_def)

theorem scoring_switch_off:
  assumes "cw_enabled (weight_of (sc_weights c) k)"
  shows "map_option totalMaxPossible (updateWeight k (Weight_Enabled False) (Some c)) =
    Some (totalMaxPossible c - cw_max_score (weight_of (sc_weights c) k))"
  using assms by (cases k) (simp_all add: updateWeight_def totalMaxPossible_sum CATEGORY_META_def weight_of_with_weight)

theorem anomaly_rule_change:
  "map_option (\<lambda>c. obj_get (pac_rules c) j) (handleRuleChange k v (Some c)) =
     Some (if j = k then Some v else obj_get (pac_rules c) j)"
  by (simp add: handleRuleChange_def obj_get_set)

end
