(* ===== verification/Monitoring.thy ===== *)
theory Monitoring
  imports Paged_List
begin

text \<open>
  The monitoring pages: the event log (\<open>src/frontend/src/pages/monitoring/Logs.tsx\<close>) with its delayed search, the
  fingerprints (\<open>Fingerprints.tsx\<close>), threat intelligence (\<open>ThreatIntelligence.tsx\<close>), the dashboard
  (\<open>src/frontend/src/pages/dashboard/Dashboard.tsx\<close>) and the table of countries (\<open>src/frontend/src/lib/countries.ts\<close>).
  Three pages remember a time range in the local storage of the browser; what they promise is the locale
  \<open>stored_choice\<close>.
\<close>

section \<open>Time ranges kept in local storage\<close>

type_synonym local_storage = "string js_obj"

definition stored_range :: "string list \<Rightarrow> string \<Rightarrow> local_storage \<Rightarrow> string" where
  "stored_range choices key ls =
     (case obj_get ls key of Some v \<Rightarrow> if v \<in> set choices then v else ''7d'' | None \<Rightarrow> ''7d'')"

definition day_ranges :: "string list" where
  "day_ranges = [''1d'', ''7d'', ''30d'']"

definition threat_ranges :: "string list" where
  "threat_ranges = [''5min'', ''15min'', ''1h'', ''1d'', ''7d'', ''30d'']"

definition dashboard_range :: "local_storage \<Rightarrow> string" where
  "dashboard_range ls = stored_range day_ranges ''dashboard-time-range'' ls"

definition dashboard_handleTimeRangeChange :: "string \<Rightarrow> local_storage \<Rightarrow> string \<times> local_storage" where
  "dashboard_handleTimeRangeChange rng ls = (rng, obj_set ls ''dashboard-time-range'' rng)"

definition challenged_range :: "local_storage \<Rightarrow> string" where
  "challenged_range ls = stored_range day_ranges ''challenged-time-range'' ls"

definition challenged_handleTimeRangeChange :: "string \<Rightarrow> local_storage \<Rightarrow> string \<times> local_storage" where
  "challenged_handleTimeRangeChange rng ls = (rng, obj_set ls ''challenged-time-range'' rng)"

definition threat_range :: "local_storage \<Rightarrow> string" where
  "threat_range ls = stored_range threat_ranges ''threat-intel-range'' ls"

definition threat_handleRangeChange :: "string \<Rightarrow> local_storage \<Rightarrow> string \<times> local_storage" where
  "threat_handleRangeChange rng ls = (rng, obj_set ls ''threat-intel-range'' rng)"

locale stored_choice =
  fixes choices :: "string list"
    and key :: string
    and load :: "local_storage \<Rightarrow> string"
    and pick :: "string \<Rightarrow> local_storage \<Rightarrow> string \<times> local_storage"
  assumes load_pick: "v \<in> set choices \<Longrightarrow> load (snd (pick v ls)) = v"
    and shown_pick: "fst (pick v ls) = v"
    and load_valid: "load ls \<in> set choices"
    and pick_frame: "k \<noteq> key \<Longrightarrow> obj_get (snd (pick v ls)) k = obj_get ls k"
    and load_key: "obj_get ls key = obj_get ls' key \<Longrightarrow> load ls = load ls'"
begin

lemma reload_shows_last:
  assumes "vs \<noteq> []" and "last vs \<in> set choices"
  shows "load (foldl (\<lambda>ls v. snd (pick v ls)) ls vs) = last vs"
  using assms by (cases vs rule: rev_cases) (simp_all add: load_pick)

end

lemma stored_range_laws:
  "v \<in> set choices \<Longrightarrow> stored_range choices key (obj_set ls key v) = v"
  "''7d'' \<in> set choices \<Longrightarrow> stored_range choices key ls \<in> set choices"
  "obj_get ls key = obj_get ls' key \<Longrightarrow> stored_range choices key ls = stored_range choices key ls'"
  by (auto simp: stored_range_def obj_get_set split: option.splits)

lemma default_range: "''7d'' \<in> set day_ranges" "''7d'' \<in> set threat_ranges"
  by (simp_all add: day_ranges_def threat_ranges_def)

interpretation dashboard_choice: stored_choice day_ranges "''dashboard-time-range''" dashboard_range dashboard_handleTimeRangeChange
proof unfold_locales
  fix ls ls' :: local_storage
  assume "obj_get ls ''dashboard-time-range'' = obj_get ls' ''dashboard-time-range''"
  then show "dashboard_range ls = dashboard_range ls'" unfolding dashboard_range_def by (rule stored_range_laws(3))
qed (simp_all add: dashboard_range_def dashboard_handleTimeRangeChange_def stored_range_laws(1,2) default_range obj_get_set)

interpretation challenged_choice: stored_choice day_ranges "''challenged-time-range''" challenged_range challenged_handleTimeRangeChange
proof unfold_locales
  fix ls ls' :: local_storage
  assume "obj_get ls ''challenged-time-range'' = obj_get ls' ''challenged-time-range''"
  then show "challenged_range ls = challenged_range ls'" unfolding challenged_range_def by (rule stored_range_laws(3))
qed (simp_all add: challenged_range_def challenged_handleTimeRangeChange_def stored_range_laws(1,2) default_range obj_get_set)

interpretation threat_choice: stored_choice threat_ranges "''threat-intel-range''" threat_range threat_handleRangeChange
proof unfold_locales
  fix ls ls' :: local_storage
  assume "obj_get ls ''threat-intel-range'' = obj_get ls' ''threat-intel-range''"
  then show "threat_range ls = threat_range ls'" unfolding threat_range_def by (rule stored_range_laws(3))
qed (simp_all add: threat_range_def threat_handleRangeChange_def stored_range_laws(1,2) default_range obj_get_set)

text \<open>Each page shows again, after a reload, the range chosen last on it, whatever was chosen on the other pages since.\<close>

theorem time_ranges_remembered:
  assumes "r \<in> set day_ranges"
  shows "dashboard_range (snd (threat_handleRangeChange t (snd (challenged_handleTimeRangeChange c
      (snd (dashboard_handleTimeRangeChange r ls)))))) = r \<and> dashboard_range ls \<in> set day_ranges"
proof -
  have "dashboard_range (snd (threat_handleRangeChange t (snd (challenged_handleTimeRangeChange c
      (snd (dashboard_handleTimeRangeChange r ls)))))) = dashboard_range (snd (dashboard_handleTimeRangeChange r ls))"
    by (rule dashboard_choice.load_key) (simp add: threat_choice.pick_frame challenged_choice.pick_frame)
  then show ?thesis using dashboard_choice.load_pick [OF assms] dashboard_choice.load_valid by simp
qed

section \<open>The event log\<close>

text \<open>\<open>lg_timer\<close> is the text the pending timer will hand over; an effect belongs to the value it was started for,
  so the timer of an older text is cleared before the next one starts.\<close>

record logs_page =
  lg_actionFilter    :: "access_action option"
  lg_appFilter       :: "string option"
  lg_searchQuery     :: string
  lg_debouncedSearch :: string
  lg_page            :: nat
  lg_timer           :: "string option"

definition logs_initial :: logs_page where
  "logs_initial = \<lparr>lg_actionFilter = None, lg_appFilter = None, lg_searchQuery = [], lg_debouncedSearch = [],
     lg_page = 1, lg_timer = Some []\<rparr>"

definition logs_params :: "logs_page \<Rightarrow> log_query_params" where
  "logs_params st = \<lparr>lq_limit = Some 100, lq_action = lg_actionFilter st, lq_app_id = lg_appFilter st,
     lq_q = (if lg_debouncedSearch st = [] then None else Some (lg_debouncedSearch st)), lq_days = None,
     lq_reason_like = None, lq_trace_like = None, lq_offset = Some (int ((lg_page st - 1) * 100))\<rparr>"

text \<open>The effect on the filters: it runs after a render in which one of them has changed.\<close>

definition reset_page :: "logs_page \<Rightarrow> logs_page \<Rightarrow> logs_page" where
  "reset_page old st =
     (if lg_actionFilter st \<noteq> lg_actionFilter old \<or> lg_appFilter st \<noteq> lg_appFilter old \<or>
         lg_debouncedSearch st \<noteq> lg_debouncedSearch old
      then st\<lparr>lg_page := 1\<rparr> else st)"

definition setActionFilter :: "access_action option \<Rightarrow> logs_page \<Rightarrow> logs_page" where
  "setActionFilter a st = reset_page st (st\<lparr>lg_actionFilter := a\<rparr>)"

definition setAppFilter :: "string \<Rightarrow> logs_page \<Rightarrow> logs_page" where
  "setAppFilter a st = reset_page st (st\<lparr>lg_appFilter := (if a = [] then None else Some a)\<rparr>)"

definition setSearchQuery :: "string \<Rightarrow> logs_page \<Rightarrow> logs_page" where
  "setSearchQuery q st =
     (if q = lg_searchQuery st then st else st\<lparr>lg_searchQuery := q, lg_timer := Some q\<rparr>)"

definition search_timer :: "logs_page \<Rightarrow> logs_page" where
  "search_timer st =
     (case lg_timer st of
        None \<Rightarrow> st
      | Some q \<Rightarrow> reset_page st (st\<lparr>lg_debouncedSearch := q, lg_timer := None\<rparr>))"

definition logs_previous :: "logs_page \<Rightarrow> logs_page" where
  "logs_previous st = (if lg_page st = 1 then st else st\<lparr>lg_page := max 1 (lg_page st - 1)\<rparr>)"

definition logs_next :: "nat \<Rightarrow> logs_page \<Rightarrow> logs_page" where
  "logs_next totalCount st = (if lg_page st \<ge> total_pages totalCount 100 then st else st\<lparr>lg_page := lg_page st + 1\<rparr>)"

inductive logs_step :: "logs_page \<Rightarrow> logs_page \<Rightarrow> bool" where
  action: "logs_step st (setActionFilter a st)"
| app: "logs_step st (setAppFilter x st)"
| search: "logs_step st (setSearchQuery q st)"
| timer: "logs_step st (search_timer st)"
| backward: "logs_step st (logs_previous st)"
| forward: "logs_step st (logs_next totalCount st)"

definition logs_inv :: "logs_page \<Rightarrow> bool" where
  "logs_inv st \<longleftrightarrow> 1 \<le> lg_page st \<and>
     (case lg_timer st of None \<Rightarrow> lg_debouncedSearch st = lg_searchQuery st | Some q \<Rightarrow> q = lg_searchQuery st)"

lemma logs_step_inv: "logs_step st st' \<Longrightarrow> logs_inv st \<Longrightarrow> logs_inv st'"
  by (induction rule: logs_step.induct)
    (auto simp: logs_inv_def setActionFilter_def setAppFilter_def setSearchQuery_def search_timer_def reset_page_def
      logs_previous_def logs_next_def split: option.splits)

lemma logs_reachable_inv: "logs_step\<^sup>*\<^sup>* logs_initial st \<Longrightarrow> logs_inv st"
proof (induction rule: rtranclp_induct)
  case base
  then show ?case by (simp add: logs_inv_def logs_initial_def)
next
  case (step y z)
  then show ?case using logs_step_inv by blast
qed

text \<open>C23: the delayed search of the event log.  However filters, pages and typing were mixed, when the pending timer fires the
  request asks for exactly the text in the search field, and without a pending timer it already does.  A new text, action or
  application starts again at the first events.\<close>

theorem log_search_settles:
  assumes "logs_step\<^sup>*\<^sup>* logs_initial st"
  shows "lg_debouncedSearch (search_timer st) = lg_searchQuery st \<and> lg_timer (search_timer st) = None \<and>
    lq_q (logs_params (search_timer st)) = (if lg_searchQuery st = [] then None else Some (lg_searchQuery st)) \<and>
    (lg_debouncedSearch st = lg_searchQuery st \<or> lq_offset (logs_params (search_timer st)) = Some 0) \<and>
    (lg_actionFilter st = a \<or> lq_offset (logs_params (setActionFilter a st)) = Some 0)"
  using logs_reachable_inv [OF assms]
  by (auto simp: logs_inv_def search_timer_def reset_page_def logs_params_def setActionFilter_def split: option.splits)

theorem log_search_settles_witness:
  "lq_q (logs_params (search_timer (setSearchQuery ''10.0'' logs_initial))) = Some ''10.0''"
proof -
  have "logs_step\<^sup>*\<^sup>* logs_initial (setSearchQuery ''10.0'' logs_initial)" by (intro r_into_rtranclp logs_step.search)
  from log_search_settles [OF this] show ?thesis by (simp add: setSearchQuery_def logs_initial_def)
qed

section \<open>What an event shows\<close>

definition stage_labels :: "string js_obj" where
  "stage_labels = [
     (''challenge_validator'', ''Challenge Validator''),
     (''ip_access_rule'', ''IP Access Rule''),
     (''rate_limit'', ''Rate Limit''),
     (''flood'', ''Flood Protection''),
     (''decision_cache'', ''Security Rules Cache''),
     (''custom_rules'', ''Custom Rules''),
     (''ip_reputation'', ''IP Reputation''),
     (''bot_detection'', ''Bot Detection''),
     (''waf_anomaly'', ''WAF / OWASP CRS''),
     (''protocol_anomaly'', ''Protocol Anomaly''),
     (''trusted_history'', ''Trusted History''),
     (''trust'', ''Trust Reduction''),
     (''stable_session'', ''Stable Session'')]"

definition stageLabel :: "string \<Rightarrow> string" where
  "stageLabel stage = (case obj_get stage_labels stage of Some l \<Rightarrow> l | None \<Rightarrow> stage)"

definition resultColor :: "string option \<Rightarrow> int option \<Rightarrow> string" where
  "resultColor result score =
     (let is = (\<lambda>xs. case result of Some r \<Rightarrow> r \<in> set xs | None \<Rightarrow> False) in
      if is [''BLOCK''] then ''text-red-500''
      else if is [''CHALLENGE''] then ''text-amber-500''
      else if is [''ALLOW'', ''VERIFIED'', ''PASS''] then ''text-emerald-500''
      else if is [''SKIP''] then ''text-muted-foreground''
      else if is [''MISS'', ''NO_MATCH'', ''NO_COOKIE''] then ''text-muted-foreground''
      else if is [''NEW''] then ''text-blue-400''
      else if is [''CHANGED''] then ''text-muted-foreground''
      else if is [''PENDING''] then ''text-muted-foreground''
      else if is [''HIT''] then ''text-blue-400''
      else if (case score of Some s \<Rightarrow> s > 0 | None \<Rightarrow> False) then ''text-amber-400''
      else ''text-muted-foreground'')"

definition decisionBadgeClass :: "string \<Rightarrow> string" where
  "decisionBadgeClass decision =
     (if decision = ''block'' then ''bg-red-500/10 text-red-500 border-red-500/20''
      else if decision = ''challenge'' then ''bg-amber-500/10 text-amber-500 border-amber-500/20''
      else if decision = ''allow'' then ''bg-emerald-500/10 text-emerald-500 border-emerald-500/20''
      else ''bg-muted text-muted-foreground border-border'')"

definition actionBadge :: "log_action \<Rightarrow> string" where
  "actionBadge a =
     (case a of
        Log_Block \<Rightarrow> ''text-red-500''
      | Log_Solved \<Rightarrow> ''text-emerald-600''
      | Log_Challenge \<Rightarrow> ''text-amber-500''
      | Log_Failed \<Rightarrow> ''text-amber-500''
      | Log_Allow \<Rightarrow> ''text-green-500'')"

text \<open>The first match of \<open>/(\d+)\s*\/\s*(\d+)/\<close>.  The digits before the slash can only be the whole run that
  starts the match, so no other way of matching has to be tried.\<close>

definition progress_at :: "string \<Rightarrow> (nat \<times> nat) option" where
  "progress_at s =
     (let ds = takeWhile is_digit s;
          r = dropWhile js_space (dropWhile is_digit s);
          es = takeWhile is_digit (dropWhile js_space (drop 1 r))
      in if ds \<noteq> [] \<and> take 1 r = ''/'' \<and> es \<noteq> [] then Some (digits_value ds, digits_value es) else None)"

fun parseTrustedHistoryProgress :: "string \<Rightarrow> (nat \<times> nat) option" where
  "parseTrustedHistoryProgress [] = None"
| "parseTrustedHistoryProgress (c # s) =
     (case progress_at (c # s) of Some r \<Rightarrow> Some r | None \<Rightarrow> parseTrustedHistoryProgress s)"

section \<open>Fingerprints\<close>

text \<open>\<open>now\<close> and the parsed date are in milliseconds; an unreadable date is shown as it is.\<close>

definition timeAgo :: "int \<Rightarrow> (string \<Rightarrow> int option) \<Rightarrow> string \<Rightarrow> string" where
  "timeAgo now parse_date dateStr =
     (if dateStr = [] then ''-''
      else case parse_date dateStr of
        None \<Rightarrow> dateStr
      | Some date \<Rightarrow>
          (let diff = (now - date) div 1000 in
           if diff < 60 then int_to_string diff @ ''s ago''
           else if diff < 3600 then int_to_string (diff div 60) @ ''m ago''
           else if diff < 86400 then int_to_string (diff div 3600) @ ''h ago''
           else int_to_string (diff div 86400) @ ''d ago''))"

definition filtered_fingerprints :: "string \<Rightarrow> ja4_entry list \<Rightarrow> ja4_entry list" where
  "filtered_fingerprints search entries =
     (if search \<noteq> [] then filter (\<lambda>e. str_includes (toLowerCase (ja4_ja4 e)) (toLowerCase search)) entries else entries)"

definition fp_previous :: "int \<Rightarrow> int" where
  "fp_previous page = (if page = 0 then page else max 0 (page - 1))"

definition fp_next :: "int \<Rightarrow> int \<Rightarrow> int" where
  "fp_next total_count page =
     (if (page + 1) * 100 \<ge> total_count then page else min ((total_count + 99) div 100 - 1) (page + 1))"

lemma fp_pages_in_range:
  assumes "0 \<le> p" and "p = 0 \<or> p * 100 < n"
  shows "0 \<le> fp_next n p \<and> (fp_next n p = 0 \<or> fp_next n p * 100 < n) \<and>
    0 \<le> fp_previous p \<and> (fp_previous p = 0 \<or> fp_previous p * 100 < n)"
  using assms by (auto simp: fp_next_def fp_previous_def min_def max_def)

section \<open>Countries\<close>

definition COUNTRY_NAMES :: "string js_obj" where
  "COUNTRY_NAMES = [
     (''AF'', ''Afghanistan''), (''AL'', ''Albania''), (''DZ'', ''Algeria''), (''AR'', ''Argentina''),
     (''AU'', ''Australia''), (''AT'', ''Austria''), (''AZ'', ''Azerbaijan''), (''BH'', ''Bahrain''),
     (''BD'', ''Bangladesh''), (''BY'', ''Belarus''), (''BE'', ''Belgium''), (''BR'', ''Brazil''), (''BG'', ''Bulgaria''),
     (''KH'', ''Cambodia''), (''CA'', ''Canada''), (''CL'', ''Chile''), (''CN'', ''China''), (''CO'', ''Colombia''),
     (''HR'', ''Croatia''), (''CZ'', ''Czech Republic''), (''DK'', ''Denmark''), (''EG'', ''Egypt''), (''EE'', ''Estonia''),
     (''FI'', ''Finland''), (''FR'', ''France''), (''DE'', ''Germany''), (''GH'', ''Ghana''), (''GR'', ''Greece''),
     (''HK'', ''Hong Kong''), (''HU'', ''Hungary''), (''IN'', ''India''), (''ID'', ''Indonesia''), (''IR'', ''Iran''),
     (''IQ'', ''Iraq''), (''IE'', ''Ireland''), (''IL'', ''Israel''), (''IT'', ''Italy''), (''JP'', ''Japan''),
     (''JO'', ''Jordan''), (''KZ'', ''Kazakhstan''), (''KE'', ''Kenya''), (''KR'', ''South Korea''), (''KW'', ''Kuwait''),
     (''LV'', ''Latvia''), (''LB'', ''Lebanon''), (''LT'', ''Lithuania''), (''MY'', ''Malaysia''), (''MX'', ''Mexico''),
     (''MA'', ''Morocco''), (''MM'', ''Myanmar''), (''NL'', ''Netherlands''), (''NZ'', ''New Zealand''),
     (''NG'', ''Nigeria''), (''NO'', ''Norway''), (''OM'', ''Oman''), (''PK'', ''Pakistan''), (''PE'', ''Peru''),
     (''PH'', ''Philippines''), (''PL'', ''Poland''), (''PT'', ''Portugal''), (''QA'', ''Qatar''), (''RO'', ''Romania''),
     (''RU'', ''Russia''), (''SA'', ''Saudi Arabia''), (''SG'', ''Singapore''), (''ZA'', ''South Africa''),
     (''ES'', ''Spain''), (''LK'', ''Sri Lanka''), (''SE'', ''Sweden''), (''CH'', ''Switzerland''), (''TW'', ''Taiwan''),
     (''TH'', ''Thailand''), (''TR'', ''Turkey''), (''UA'', ''Ukraine''), (''AE'', ''UAE''), (''GB'', ''United Kingdom''),
     (''US'', ''United States''), (''UZ'', ''Uzbekistan''), (''VN'', ''Vietnam''), (''YE'', ''Yemen''),
     (''ZW'', ''Zimbabwe'')]"

definition getCountryName :: "string \<Rightarrow> string" where
  "getCountryName code =
     (case obj_get COUNTRY_NAMES (toUpperCase code) of Some n \<Rightarrow> n | None \<Rightarrow> toUpperCase code)"

text \<open>The code points of the flag: one regional indicator per letter.\<close>

definition getCountryFlag :: "string \<Rightarrow> nat list" where
  "getCountryFlag countryCode = map (\<lambda>c. 127397 + of_char c) (toUpperCase countryCode)"

lemma flag_of_letters:
  assumes "list_all (\<lambda>c. CHR ''a'' \<le> c \<and> c \<le> CHR ''z'') code"
  shows "list_all (\<lambda>p. 127462 \<le> p \<and> p \<le> 127487) (getCountryFlag code) \<and> getCountryFlag (toUpperCase code) = getCountryFlag code"
proof -
  have up: "127462 \<le> 127397 + (of_char (js_char_upper c) :: nat) \<and> 127397 + (of_char (js_char_upper c) :: nat) \<le> 127487"
    if "CHR ''a'' \<le> c" "c \<le> CHR ''z''" for c
    using that by (simp add: js_char_upper_def less_eq_char_def)
  show ?thesis using assms up by (auto simp: getCountryFlag_def toUpperCase_def list_all_iff)
qed

lemma progress_at_text:
  "progress_at (nat_to_string a @ '' / '' @ nat_to_string b @ CHR '' '' # rest) = Some (a, b)"
proof -
  have d: "\<forall>c\<in>set (nat_to_string n). is_digit c" for n by (simp add: nat_to_string_digits)
  have nd: "\<not> is_digit (CHR '' '')" "\<not> is_digit (CHR ''/'')" "js_space (CHR '' '')" "\<not> js_space (CHR ''/'')" by code_simp+
  have split: "takeWhile is_digit (nat_to_string n @ CHR '' '' # r) = nat_to_string n"
    "dropWhile is_digit (nat_to_string n @ CHR '' '' # r) = CHR '' '' # r" for n r
    using d nd by (simp_all add: takeWhile_append2 dropWhile_append2)
  obtain c s where cs: "nat_to_string b = c # s" using nat_to_string_ne [of b] by (cases "nat_to_string b") auto
  have "is_digit c" using d [of b] cs by simp
  then have "\<not> js_space c" by (auto simp: js_space_def is_digit_def Let_def)
  then have "dropWhile js_space (nat_to_string b @ CHR '' '' # rest) = nat_to_string b @ CHR '' '' # rest" using cs by simp
  then show ?thesis using nd split nat_to_string_ne by (simp add: progress_at_def Let_def digits_value_nat_to_string)
qed

text \<open>The progress of a trusted history is read from the reason the server gives, wherever the numbers stand in it.\<close>

theorem trusted_history_read:
  assumes "list_all (\<lambda>c. \<not> is_digit c) pre"
  shows "parseTrustedHistoryProgress (pre @ nat_to_string a @ '' / '' @ nat_to_string b @ CHR '' '' # rest) = Some (a, b)"
  using assms
proof (induction pre)
  case Nil
  then show ?case
    using progress_at_text [of a b rest] nat_to_string_ne [of a] by (cases "nat_to_string a") auto
next
  case (Cons c pre)
  then have "progress_at (c # pre @ nat_to_string a @ '' / '' @ nat_to_string b @ CHR '' '' # rest) = None"
    by (simp add: progress_at_def Let_def)
  with Cons show ?case by simp
qed

end
