(* ===== verification/Ssl_Hooks.thy ===== *)
theory Ssl_Hooks
  imports Api_Router
begin

text \<open>
  The certificate hooks of \<open>src/frontend/src/hooks/ssl\<close>: the eleven actions of \<open>useSSLActions\<close>, the list with its
  polling of \<open>useSSLCertificates\<close>, and \<open>useSSLLogs\<close>.  The answer of the server to a call is an argument.

  The polling hook is a step relation on the hook's state together with the browser's interval timers: an answer
  arrives for a request in flight, a timer fires, the list is edited, the component is unmounted.  The invariant ties
  the timers to \<open>pollRef\<close>; what happens to a request in flight at the time of an unmount is shown separately.
\<close>

section \<open>Actions\<close>

record ssl_actions =
  ssl_loading :: bool
  ssl_error   :: "string option"

text \<open>The \<open>try\<close>/\<open>catch\<close>/\<open>finally\<close> of every action: the states passed through, and what the promise settles with
  (an error is thrown on).\<close>

definition ssl_action ::
  "api_call \<Rightarrow> (api_call \<Rightarrow> api_error + json) \<Rightarrow> ssl_actions \<Rightarrow> ssl_actions list \<times> (api_error + json)" where
  "ssl_action call server st =
     (let started = st\<lparr>ssl_loading := True, ssl_error := None\<rparr>;
          result = server call;
          caught = (case result of
                      Inr _ \<Rightarrow> started
                    | Inl err \<Rightarrow> started\<lparr>ssl_error := Some (err_message err)\<rparr>)
      in ([started, caught\<lparr>ssl_loading := False\<rparr>], result))"

definition ssl_renewCertificate where
  "ssl_renewCertificate domain = ssl_action (certificates_renew domain)"

definition ssl_issueCertificate where
  "ssl_issueCertificate domain appId = ssl_action (certificates_issue domain appId)"

definition ssl_validateCertificate where
  "ssl_validateCertificate domain = ssl_action (certificates_validate domain)"

definition ssl_toggleAutoRenew where
  "ssl_toggleAutoRenew domain enabled = ssl_action (certificates_toggleAutoRenew domain enabled)"

definition ssl_syncFromFilesystem where
  "ssl_syncFromFilesystem = ssl_action certificates_syncFromFilesystem"

definition ssl_deleteCertificate where
  "ssl_deleteCertificate domain = ssl_action (certificates_delete domain)"

definition ssl_bulkDeleteCertificates where
  "ssl_bulkDeleteCertificates domains = ssl_action (certificates_bulkDelete domains)"

definition ssl_enableWildcard where
  "ssl_enableWildcard domain wmethod = ssl_action (certificates_enableWildcard domain wmethod)"

definition ssl_verifyWildcardDNS where
  "ssl_verifyWildcardDNS domain = ssl_action (certificates_verifyWildcardDNS domain)"

definition ssl_issueWildcard where
  "ssl_issueWildcard domain = ssl_action (certificates_issueWildcard domain)"

definition ssl_disableWildcard where
  "ssl_disableWildcard domain = ssl_action (certificates_disableWildcard domain)"

section \<open>The list of certificates\<close>

text \<open>The hook's variables, and of the browser its interval timers and the number of requests in flight.\<close>

record ssl_list =
  sl_certificates :: "certificate list"
  sl_loading      :: bool
  sl_error        :: "string option"
  sl_pollRef      :: "nat option"
  sl_timers       :: "nat set"
  sl_nextTimer    :: nat
  sl_inFlight     :: nat
  sl_mounted      :: bool

definition hasPending :: "certificate list \<Rightarrow> bool" where
  "hasPending certs \<longleftrightarrow>
     list_ex (\<lambda>c. cert_status c = ''pending'' \<or> cert_last_renew_status c = ''pending'') certs"

text \<open>\<open>setInterval\<close> and \<open>clearInterval\<close>.\<close>

definition start_poll :: "ssl_list \<Rightarrow> ssl_list" where
  "start_poll st = st\<lparr>sl_pollRef := Some (sl_nextTimer st),
     sl_timers := insert (sl_nextTimer st) (sl_timers st), sl_nextTimer := Suc (sl_nextTimer st)\<rparr>"

definition stop_poll :: "nat \<Rightarrow> ssl_list \<Rightarrow> ssl_list" where
  "stop_poll h st = st\<lparr>sl_timers := sl_timers st - {h}, sl_pollRef := None\<rparr>"

text \<open>\<open>fetchCertificates\<close> up to its \<open>await\<close>, and from the answer on (an absent list counts as empty).\<close>

definition fetchCertificates_start :: "ssl_list \<Rightarrow> ssl_list" where
  "fetchCertificates_start st = st\<lparr>sl_error := None, sl_inFlight := Suc (sl_inFlight st)\<rparr>"

definition fetchCertificates_answer :: "api_error + certificate list option \<Rightarrow> ssl_list \<Rightarrow> ssl_list" where
  "fetchCertificates_answer answer st =
     (let st = st\<lparr>sl_inFlight := sl_inFlight st - 1\<rparr>;
          st = (case answer of
                  Inl err \<Rightarrow> st\<lparr>sl_error := Some (err_message err)\<rparr>
                | Inr certs \<Rightarrow>
                    (let certs = (case certs of None \<Rightarrow> [] | Some cs \<Rightarrow> cs);
                         st = st\<lparr>sl_certificates := certs\<rparr>
                     in if hasPending certs then
                          (if sl_pollRef st = None then start_poll st else st)
                        else
                          (case sl_pollRef st of None \<Rightarrow> st | Some h \<Rightarrow> stop_poll h st)))
      in st\<lparr>sl_loading := False\<rparr>)"

definition removeCertificates :: "string list \<Rightarrow> ssl_list \<Rightarrow> ssl_list" where
  "removeCertificates domains st = st\<lparr>sl_certificates :=
     filter (\<lambda>cert. cert_domain cert \<notin> set domains) (sl_certificates st)\<rparr>"

definition updateCertificate :: "string \<Rightarrow> (certificate \<Rightarrow> certificate) \<Rightarrow> ssl_list \<Rightarrow> ssl_list" where
  "updateCertificate domain updates st = st\<lparr>sl_certificates :=
     map (\<lambda>cert. if cert_domain cert = domain then updates cert else cert) (sl_certificates st)\<rparr>"

text \<open>The clean-up of the effect.\<close>

definition ssl_cleanup :: "ssl_list \<Rightarrow> ssl_list" where
  "ssl_cleanup st = (case sl_pollRef st of None \<Rightarrow> st | Some h \<Rightarrow> stop_poll h st)"

definition ssl_list_initial :: ssl_list where
  "ssl_list_initial = \<lparr>sl_certificates = [], sl_loading = True, sl_error = None, sl_pollRef = None,
     sl_timers = {}, sl_nextTimer = 0, sl_inFlight = 0, sl_mounted = True\<rparr>"

inductive ssl_step :: "ssl_list \<Rightarrow> ssl_list \<Rightarrow> bool" where
  poll_answer: "0 < sl_inFlight st \<Longrightarrow> ssl_step st (fetchCertificates_answer answer st)"
| poll_tick: "h \<in> sl_timers st \<Longrightarrow> ssl_step st (fetchCertificates_start st)"
| poll_refetch: "sl_mounted st \<Longrightarrow> ssl_step st (fetchCertificates_start st)"
| poll_remove: "sl_mounted st \<Longrightarrow> ssl_step st (removeCertificates ds st)"
| poll_update: "sl_mounted st \<Longrightarrow> ssl_step st (updateCertificate d f st)"
| poll_new_app: "sl_mounted st \<Longrightarrow> ssl_step st (fetchCertificates_start (ssl_cleanup st))"
| poll_unmount: "sl_mounted st \<Longrightarrow> ssl_step st ((ssl_cleanup st)\<lparr>sl_mounted := False\<rparr>)"

inductive ssl_reachable :: "ssl_list \<Rightarrow> bool" where
  ssl_start: "ssl_reachable (fetchCertificates_start ssl_list_initial)"
| ssl_next: "ssl_reachable st \<Longrightarrow> ssl_step st st' \<Longrightarrow> ssl_reachable st'"

section \<open>Logs of one certificate\<close>

record ssl_logs =
  sg_logs    :: "certificate_log list"
  sg_loading :: bool
  sg_error   :: "string option"

definition fetchLogs ::
  "(api_call \<Rightarrow> api_error + certificate_log list option) \<Rightarrow> string \<Rightarrow> int option \<Rightarrow> ssl_logs \<Rightarrow> ssl_logs" where
  "fetchLogs server domain limit st =
     (if domain = [] then st\<lparr>sg_logs := [], sg_loading := False\<rparr>
      else (case server (certificates_getLogs domain (Some (case limit of None \<Rightarrow> 50 | Some n \<Rightarrow> n))) of
              Inr ls \<Rightarrow> st\<lparr>sg_error := None, sg_logs := (case ls of None \<Rightarrow> [] | Some l \<Rightarrow> l), sg_loading := False\<rparr>
            | Inl err \<Rightarrow> st\<lparr>sg_error := Some (err_message err), sg_loading := False\<rparr>))"

section \<open>Properties of the actions\<close>

locale ssl_operation =
  fixes op :: "(api_call \<Rightarrow> api_error + json) \<Rightarrow> ssl_actions \<Rightarrow> ssl_actions list \<times> (api_error + json)"
    and call :: api_call
  assumes op_runs: "op = ssl_action call"
begin

lemma settles: "snd (op server st) = server call"
  by (simp add: op_runs ssl_action_def Let_def)

lemma ends_idle: "\<not> ssl_loading (last (fst (op server st)))"
  by (simp add: op_runs ssl_action_def Let_def)

lemma reports: "ssl_error (last (fst (op server st))) =
    (case server call of Inl e \<Rightarrow> Some (err_message e) | Inr _ \<Rightarrow> None)"
  by (simp add: op_runs ssl_action_def Let_def split: sum.splits)

end

interpretation renew_op: ssl_operation "ssl_renewCertificate d" "certificates_renew d" for d
  by unfold_locales (simp add: ssl_renewCertificate_def)

interpretation issue_op: ssl_operation "ssl_issueCertificate d a" "certificates_issue d a" for d a
  by unfold_locales (simp add: ssl_issueCertificate_def)

interpretation validate_op: ssl_operation "ssl_validateCertificate d" "certificates_validate d" for d
  by unfold_locales (simp add: ssl_validateCertificate_def)

interpretation toggle_op: ssl_operation "ssl_toggleAutoRenew d e" "certificates_toggleAutoRenew d e" for d e
  by unfold_locales (simp add: ssl_toggleAutoRenew_def)

interpretation sync_op: ssl_operation ssl_syncFromFilesystem certificates_syncFromFilesystem
  by unfold_locales (simp add: ssl_syncFromFilesystem_def)

interpretation delete_op: ssl_operation "ssl_deleteCertificate d" "certificates_delete d" for d
  by unfold_locales (simp add: ssl_deleteCertificate_def)

interpretation bulk_op: ssl_operation "ssl_bulkDeleteCertificates ds" "certificates_bulkDelete ds" for ds
  by unfold_locales (simp add: ssl_bulkDeleteCertificates_def)

interpretation enable_op: ssl_operation "ssl_enableWildcard d w" "certificates_enableWildcard d w" for d w
  by unfold_locales (simp add: ssl_enableWildcard_def)

interpretation verify_op: ssl_operation "ssl_verifyWildcardDNS d" "certificates_verifyWildcardDNS d" for d
  by unfold_locales (simp add: ssl_verifyWildcardDNS_def)

interpretation wissue_op: ssl_operation "ssl_issueWildcard d" "certificates_issueWildcard d" for d
  by unfold_locales (simp add: ssl_issueWildcard_def)

interpretation disable_op: ssl_operation "ssl_disableWildcard d" "certificates_disableWildcard d" for d
  by unfold_locales (simp add: ssl_disableWildcard_def)

definition ssl_operations where
  "ssl_operations d a e ds w = [
     (ssl_renewCertificate d, certificates_renew d), (ssl_issueCertificate d a, certificates_issue d a),
     (ssl_validateCertificate d, certificates_validate d), (ssl_toggleAutoRenew d e, certificates_toggleAutoRenew d e),
     (ssl_syncFromFilesystem, certificates_syncFromFilesystem), (ssl_deleteCertificate d, certificates_delete d),
     (ssl_bulkDeleteCertificates ds, certificates_bulkDelete ds), (ssl_enableWildcard d w, certificates_enableWildcard d w),
     (ssl_verifyWildcardDNS d, certificates_verifyWildcardDNS d), (ssl_issueWildcard d, certificates_issueWildcard d),
     (ssl_disableWildcard d, certificates_disableWildcard d)]"

lemmas ssl_settles = renew_op.settles issue_op.settles validate_op.settles toggle_op.settles sync_op.settles
  delete_op.settles bulk_op.settles enable_op.settles verify_op.settles wissue_op.settles disable_op.settles

lemmas ssl_ends_idle = renew_op.ends_idle issue_op.ends_idle validate_op.ends_idle toggle_op.ends_idle
  sync_op.ends_idle delete_op.ends_idle bulk_op.ends_idle enable_op.ends_idle verify_op.ends_idle
  wissue_op.ends_idle disable_op.ends_idle

lemmas ssl_reports = renew_op.reports issue_op.reports validate_op.reports toggle_op.reports sync_op.reports
  delete_op.reports bulk_op.reports enable_op.reports verify_op.reports wissue_op.reports disable_op.reports

text \<open>Each of the eleven certificate actions runs its own API operation, settles with exactly what that operation
  settles with, is no longer loading at the end, and shows the error's message if and only if it failed.\<close>

theorem ssl_actions_settle:
  assumes "(op, call) \<in> set (ssl_operations d a e ds w)"
  shows "snd (op server st) = server call \<and> \<not> ssl_loading (last (fst (op server st))) \<and>
    ssl_error (last (fst (op server st))) = (case server call of Inl x \<Rightarrow> Some (err_message x) | Inr _ \<Rightarrow> None)"
  using assms unfolding ssl_operations_def
  by (auto simp only: list.set insert_iff empty_iff prod.inject ssl_settles ssl_ends_idle ssl_reports simp_thms)

theorem ssl_actions_settle_witness:
  "ssl_error (last (fst (ssl_deleteCertificate ''a.example''
     (\<lambda>_. Inl (network_error (Js_Error ''offline''))) \<lparr>ssl_loading = False, ssl_error = None\<rparr>))) = Some ''offline''"
  using ssl_actions_settle [of "ssl_deleteCertificate ''a.example''" "certificates_delete ''a.example''" "''a.example''"
      None True "[]" "[]"]
  by (simp add: ssl_operations_def network_error_def)

section \<open>Properties of the polling\<close>

text \<open>The timers of the browser that belong to the hook are the one \<open>pollRef\<close> names, and no number is used twice.\<close>

definition poll_inv :: "ssl_list \<Rightarrow> bool" where
  "poll_inv st \<longleftrightarrow> sl_timers st = set_option (sl_pollRef st) \<and> (\<forall>h \<in> sl_timers st. h < sl_nextTimer st)"

lemma poll_inv_simps [simp]:
  "poll_inv (st\<lparr>sl_inFlight := n\<rparr>) = poll_inv st" "poll_inv (st\<lparr>sl_error := e\<rparr>) = poll_inv st"
  "poll_inv (st\<lparr>sl_certificates := cs\<rparr>) = poll_inv st" "poll_inv (st\<lparr>sl_loading := b\<rparr>) = poll_inv st"
  "poll_inv (st\<lparr>sl_mounted := b\<rparr>) = poll_inv st"
  by (simp_all add: poll_inv_def)

lemma poll_inv_start: "poll_inv st \<Longrightarrow> sl_pollRef st = None \<Longrightarrow> poll_inv (start_poll st)"
  by (simp add: poll_inv_def start_poll_def)

lemma poll_inv_stop: "poll_inv st \<Longrightarrow> sl_pollRef st = Some h \<Longrightarrow> poll_inv (stop_poll h st)"
  by (simp add: poll_inv_def stop_poll_def)

lemma poll_inv_answer: "poll_inv st \<Longrightarrow> poll_inv (fetchCertificates_answer answer st)"
  by (cases answer)
    (auto simp: fetchCertificates_answer_def Let_def poll_inv_start poll_inv_stop split: option.splits)

lemma poll_inv_cleanup: "poll_inv st \<Longrightarrow> poll_inv (ssl_cleanup st) \<and> sl_timers (ssl_cleanup st) = {}"
  by (auto simp: ssl_cleanup_def poll_inv_def stop_poll_def split: option.splits)

lemma poll_inv_step: "ssl_step st st' \<Longrightarrow> poll_inv st \<Longrightarrow> poll_inv st'"
  by (induction rule: ssl_step.induct)
    (auto simp: poll_inv_answer poll_inv_cleanup fetchCertificates_start_def removeCertificates_def updateCertificate_def)

lemma poll_inv_reachable: "ssl_reachable st \<Longrightarrow> poll_inv st"
proof (induction rule: ssl_reachable.induct)
  case ssl_start
  then show ?case by (simp add: fetchCertificates_start_def ssl_list_initial_def poll_inv_def)
qed (rule poll_inv_step)

lemma answer_polls:
  assumes "poll_inv st"
  shows "sl_timers (fetchCertificates_answer (Inr certs) st) \<noteq> {} \<longleftrightarrow>
    hasPending (case certs of None \<Rightarrow> [] | Some cs \<Rightarrow> cs)"
  using assms
  by (auto simp: fetchCertificates_answer_def poll_inv_def start_poll_def stop_poll_def Let_def split: option.splits)


definition sample_cert :: "string \<Rightarrow> string \<Rightarrow> certificate" where
  "sample_cert d s = \<lparr>cert_domain = d, cert_status = s, cert_issuer = [], cert_expires_at = [],
     cert_days_until_expiry = 0, cert_auto_renew = False, cert_is_expiring_soon = False, cert_last_renew_at = None,
     cert_last_renew_status = [], cert_wildcard_enabled = False, cert_wildcard_status = [], cert_wildcard_method = []\<rparr>"


text \<open>A request that is in flight when the component is unmounted starts a timer nobody clears: there is a
  reachable state of the unmounted hook in which the timer runs, and every tick of it fetches again.\<close>

theorem unmounted_hook_polls:
  "\<exists>st. ssl_reachable st \<and> \<not> sl_mounted st \<and> sl_timers st \<noteq> {}"
proof -
  define s0 where "s0 = fetchCertificates_start ssl_list_initial"
  define s1 where "s1 = (ssl_cleanup s0)\<lparr>sl_mounted := False\<rparr>"
  define s2 where "s2 = fetchCertificates_answer (Inr (Some [sample_cert ''a.example'' ''pending''])) s1"
  have "ssl_reachable s0" unfolding s0_def by (rule ssl_start)
  then have "ssl_reachable s1"
    unfolding s1_def by (rule ssl_next, intro poll_unmount)
      (simp add: s0_def fetchCertificates_start_def ssl_list_initial_def)
  then have "ssl_reachable s2"
    unfolding s2_def by (rule ssl_next, intro poll_answer)
      (simp add: s1_def s0_def fetchCertificates_start_def ssl_list_initial_def ssl_cleanup_def)
  moreover have "\<not> sl_mounted s2" and "sl_timers s2 \<noteq> {}"
    by (simp_all add: s2_def s1_def s0_def fetchCertificates_start_def ssl_list_initial_def ssl_cleanup_def
        fetchCertificates_answer_def hasPending_def sample_cert_def start_poll_def)
  ultimately show ?thesis by blast
qed

end
