(* ===== verification/Ssl_Pages.thy ===== *)
theory Ssl_Pages
  imports Ssl_Hooks Rules_Page Js_Regex
begin

text \<open>
  The certificate page (\<open>src/frontend/src/pages/security/SSLManager.tsx\<close>) with the wizard for a new domain, and the
  table of certificates (\<open>src/frontend/src/components/ssl/CertificateTable.tsx\<close>).  A handler is split at its \<open>await\<close> into the
  part up to the request and the part from the answer on; \<open>wizard_step\<close> lets the user act while answers are outstanding.  The
  server is an argument, and a handler returns the new state and its effects in order; refetching the list is one of them.

  Shown: which domains the wildcard check accepts; that a wildcard certificate is ordered only after a confirmed record, and of
  which domain; what the actions of the table do to the polled list.
\<close>

datatype ssl_effect =
    Ssl_Call api_call
  | Ssl_Toast string toast_kind
  | Ssl_Refetch
  | Ssl_Update string "certificate \<Rightarrow> certificate"
  | Ssl_Remove "string list"

section \<open>The wizard\<close>

datatype wildcard_method = Method_Persist | Method_Dns

definition method_name :: "wildcard_method \<Rightarrow> string" where
  "method_name x = (case x of Method_Persist \<Rightarrow> ''persist'' | Method_Dns \<Rightarrow> ''dns'')"

record ssl_manager =
  sm_searchQuery    :: string
  sm_addOpen        :: bool
  sm_newDomain      :: string
  sm_useWildcard    :: bool
  sm_wildcardMethod :: wildcard_method
  sm_addError       :: "string option"
  sm_wizardStep     :: nat
  sm_wizardDomain   :: string
  sm_wildcardSetup  :: "json option"
  sm_verifying      :: bool
  sm_issuing        :: bool
  sm_copied         :: bool

definition ssl_manager_initial :: ssl_manager where
  "ssl_manager_initial = \<lparr>sm_searchQuery = [], sm_addOpen = False, sm_newDomain = [], sm_useWildcard = False,
     sm_wildcardMethod = Method_Persist, sm_addError = None, sm_wizardStep = 0, sm_wizardDomain = [],
     sm_wildcardSetup = None, sm_verifying = False, sm_issuing = False, sm_copied = False\<rparr>"

definition filteredCertificates :: "ssl_manager \<Rightarrow> certificate list \<Rightarrow> certificate list" where
  "filteredCertificates st cs = filter (\<lambda>c. str_includes (toLowerCase (cert_domain c)) (toLowerCase (sm_searchQuery st))) cs"

definition expiringSoonCount :: "certificate list \<Rightarrow> nat" where
  "expiringSoonCount cs = length (filter cert_is_expiring_soon cs)"

definition expiredCount :: "certificate list \<Rightarrow> nat" where
  "expiredCount cs = length (filter (\<lambda>c. cert_status c = ''expired'') cs)"

definition validCount :: "certificate list \<Rightarrow> nat" where
  "validCount cs = length (filter (\<lambda>c. cert_status c = ''valid'' \<and> \<not> cert_is_expiring_soon c) cs)"

definition handleCloseWizard :: "ssl_manager \<Rightarrow> ssl_manager" where
  "handleCloseWizard st = st\<lparr>sm_addOpen := False, sm_newDomain := [], sm_useWildcard := False,
     sm_wildcardMethod := Method_Persist, sm_wizardStep := 0, sm_wizardDomain := [], sm_wildcardSetup := None,
     sm_copied := False, sm_addError := None\<rparr>"

definition null_member_text :: "string \<Rightarrow> string" where
  "null_member_text k = ''Cannot read properties of null (reading ' '' @ k @ '' ')''"

text \<open>The field drops a leading \<open>*.\<close> as it is typed.\<close>

definition domain_input :: "string \<Rightarrow> ssl_manager \<Rightarrow> ssl_manager" where
  "domain_input v st = st\<lparr>sm_newDomain := (if startsWith v ''*.'' then drop 2 v else v), sm_addError := None\<rparr>"

definition label_regex :: js_regex where
  "label_regex = Seq (Cls is_alnum) (Opt (Seq (Star (Cls (\<lambda>c. is_alnum c \<or> c = CHR ''-''))) (Cls is_alnum)))"

definition wildcardPattern :: js_regex where
  "wildcardPattern = Seq (Opt (Lit (CHR ''*''))) (Seq (Lit (CHR ''.'')) (Seq label_regex (Rep (Seq (Lit (CHR ''.'')) label_regex) 1 2)))"

definition wildcard_domain_ok :: "string \<Rightarrow> bool" where
  "wildcard_domain_ok domain = re_test wildcardPattern (if startsWith domain ''*.'' then domain else ''*.'' @ domain)"

text \<open>Each handler has two halves: up to its request, and from the answer on.  \<open>wizard_pending\<close> is what the second half
  has captured: the domain, and for a new domain the two choices of the form.\<close>

datatype wizard_pending =
    Add_Pending string bool wildcard_method
  | Verify_Pending string
  | Issue_Pending string
  | Sync_Pending

definition pending_call :: "wizard_pending \<Rightarrow> api_call" where
  "pending_call p =
     (case p of
        Add_Pending domain wild how \<Rightarrow>
          if wild then certificates_enableWildcard domain (method_name how) else certificates_issue domain None
      | Verify_Pending domain \<Rightarrow> certificates_verifyWildcardDNS domain
      | Issue_Pending domain \<Rightarrow> certificates_issueWildcard domain
      | Sync_Pending \<Rightarrow> certificates_syncFromFilesystem)"

definition add_start :: "ssl_manager \<Rightarrow> ssl_manager \<times> wizard_pending option" where
  "add_start st =
     (let domain = trim (sm_newDomain st) in
      if domain = [] then (st\<lparr>sm_addError := Some ''Domain is required''\<rparr>, None)
      else if sm_useWildcard st \<and> \<not> wildcard_domain_ok domain then
        (st\<lparr>sm_addError := Some ''Only *.domain.com or *.sub.domain.com are supported''\<rparr>, None)
      else (st\<lparr>sm_addError := None\<rparr>, Some (Add_Pending domain (sm_useWildcard st) (sm_wildcardMethod st))))"

definition add_answer ::
  "string \<Rightarrow> bool \<Rightarrow> wildcard_method \<Rightarrow> api_error + json \<Rightarrow> ssl_manager \<Rightarrow> ssl_manager \<times> ssl_effect list" where
  "add_answer domain wild how r st =
     (if wild then
        (case r of
           Inr resp \<Rightarrow>
             if how = Method_Dns \<and> \<not> truthy resp then
               (handleCloseWizard st, [Ssl_Toast ''Wildcard certificate issuance initiated'' Toast_Success, Ssl_Refetch])
             else (st\<lparr>sm_wizardDomain := domain, sm_wildcardSetup := Some resp, sm_wizardStep := 1\<rparr>, [])
         | Inl e \<Rightarrow> (st\<lparr>sm_addError := Some (error_text e ''Failed to enable wildcard'')\<rparr>, []))
      else
        (case r of
           Inr _ \<Rightarrow> (handleCloseWizard st, [Ssl_Toast ''Certificate issuance initiated'' Toast_Success, Ssl_Refetch])
         | Inl e \<Rightarrow> (st\<lparr>sm_addError := Some (error_text e ''Failed to issue certificate'')\<rparr>, [])))"

definition verified_answer :: "json \<Rightarrow> bool" where
  "verified_answer j = (case json_get j ''verified'' of Some v \<Rightarrow> truthy v | None \<Rightarrow> False)"

definition verify_message :: "json \<Rightarrow> string" where
  "verify_message j =
     (case json_get j ''message'' of
        Some (JStr m) \<Rightarrow> if m = [] then ''DNS record not found yet. Wait 1-5 minutes and try again.'' else m
      | _ \<Rightarrow> ''DNS record not found yet. Wait 1-5 minutes and try again.'')"

text \<open>Reading a member of \<open>null\<close> throws, which the \<open>catch\<close> of the handler reports.\<close>

definition verify_answer :: "api_error + json \<Rightarrow> ssl_manager \<Rightarrow> ssl_manager \<times> ssl_effect list" where
  "verify_answer r st =
     (let st1 = st\<lparr>sm_verifying := False\<rparr> in
      case r of
        Inr JNull \<Rightarrow> (st1, [Ssl_Toast (null_member_text ''verified'') Toast_Error])
      | Inr resp \<Rightarrow>
          if verified_answer resp then (st1\<lparr>sm_wizardStep := 2\<rparr>, [Ssl_Toast ''DNS record verified'' Toast_Success])
          else (st1, [Ssl_Toast (verify_message resp) Toast_Error])
      | Inl e \<Rightarrow> (st1, [Ssl_Toast (error_text e ''Verification failed'') Toast_Error]))"

definition issue_answer :: "api_error + json \<Rightarrow> ssl_manager \<Rightarrow> ssl_manager \<times> ssl_effect list" where
  "issue_answer r st =
     (let st1 = st\<lparr>sm_issuing := False\<rparr> in
      case r of
        Inr _ \<Rightarrow> (st1\<lparr>sm_wizardStep := 3\<rparr>,
          [Ssl_Toast ''Wildcard certificate issuance initiated'' Toast_Success, Ssl_Refetch])
      | Inl e \<Rightarrow> (st1, [Ssl_Toast (error_text e ''Failed to issue wildcard certificate'') Toast_Error]))"

definition sync_answer :: "api_error + json \<Rightarrow> ssl_effect list" where
  "sync_answer r =
     (case r of
        Inr _ \<Rightarrow> [Ssl_Toast ''Certificates synced from filesystem'' Toast_Success, Ssl_Refetch]
      | Inl e \<Rightarrow> [Ssl_Toast (error_text e ''Sync failed'') Toast_Error])"

definition pending_answer :: "wizard_pending \<Rightarrow> api_error + json \<Rightarrow> ssl_manager \<Rightarrow> ssl_manager \<times> ssl_effect list" where
  "pending_answer p r st =
     (case p of
        Add_Pending domain wild how \<Rightarrow> add_answer domain wild how r st
      | Verify_Pending _ \<Rightarrow> verify_answer r st
      | Issue_Pending _ \<Rightarrow> issue_answer r st
      | Sync_Pending \<Rightarrow> (st, sync_answer r))"

text \<open>The whole handlers, when nothing happens between request and answer.\<close>

definition run_pending :: "server \<Rightarrow> wizard_pending \<Rightarrow> ssl_manager \<Rightarrow> ssl_manager \<times> ssl_effect list" where
  "run_pending server p st =
     (case pending_answer p (server (pending_call p)) st of (st', es) \<Rightarrow> (st', Ssl_Call (pending_call p) # es))"

definition handleAddDomain :: "server \<Rightarrow> ssl_manager \<Rightarrow> ssl_manager \<times> ssl_effect list" where
  "handleAddDomain server st =
     (case add_start st of (st1, None) \<Rightarrow> (st1, []) | (st1, Some p) \<Rightarrow> run_pending server p st1)"

definition handleVerifyDNS :: "server \<Rightarrow> ssl_manager \<Rightarrow> ssl_manager \<times> ssl_effect list" where
  "handleVerifyDNS server st = run_pending server (Verify_Pending (sm_wizardDomain st)) (st\<lparr>sm_verifying := True\<rparr>)"

definition handleIssueWildcard :: "server \<Rightarrow> ssl_manager \<Rightarrow> ssl_manager \<times> ssl_effect list" where
  "handleIssueWildcard server st = run_pending server (Issue_Pending (sm_wizardDomain st)) (st\<lparr>sm_issuing := True\<rparr>)"

definition handleSyncFilesystem :: "server \<Rightarrow> ssl_manager \<Rightarrow> ssl_manager \<times> ssl_effect list" where
  "handleSyncFilesystem server st = run_pending server Sync_Pending st"

text \<open>What a user can do while requests are in flight: the buttons of each step with their \<open>disabled\<close> conditions, and the
  backdrop of the dialog, which closes it at any time.  \<open>wr_loading\<close> is the flag of \<open>useSSLActions\<close>, cleared by the first
  answer.  With \<open>waits\<close> the user acts only when no answer is outstanding.\<close>

datatype wizard_event = Sent api_call | Answered api_call "api_error + json"

record wizard_run =
  wr_st      :: ssl_manager
  wr_loading :: bool
  wr_pending :: "wizard_pending list"
  wr_history :: "wizard_event list"

definition wizard_initial :: wizard_run where
  "wizard_initial = \<lparr>wr_st = ssl_manager_initial, wr_loading = False, wr_pending = [], wr_history = []\<rparr>"

definition send :: "wizard_pending \<Rightarrow> ssl_manager \<Rightarrow> wizard_run \<Rightarrow> wizard_run" where
  "send p st w = w\<lparr>wr_st := st, wr_loading := True, wr_pending := wr_pending w @ [p],
     wr_history := wr_history w @ [Sent (pending_call p)]\<rparr>"

definition receive :: "wizard_pending \<Rightarrow> api_error + json \<Rightarrow> wizard_run \<Rightarrow> wizard_run" where
  "receive p r w = w\<lparr>wr_st := fst (pending_answer p r (wr_st w)), wr_loading := False,
     wr_pending := remove1 p (wr_pending w), wr_history := wr_history w @ [Answered (pending_call p) r]\<rparr>"

definition may_act :: "bool \<Rightarrow> wizard_run \<Rightarrow> bool" where
  "may_act waits w \<longleftrightarrow> (waits \<longrightarrow> wr_pending w = [])"

definition click_next :: "wizard_run \<Rightarrow> wizard_run" where
  "click_next w = (case add_start (wr_st w) of (st, None) \<Rightarrow> w\<lparr>wr_st := st\<rparr> | (st, Some p) \<Rightarrow> send p st w)"

inductive wizard_step :: "bool \<Rightarrow> wizard_run \<Rightarrow> wizard_run \<Rightarrow> bool" for waits where
  open_wizard: "may_act waits w \<Longrightarrow> wizard_step waits w (w\<lparr>wr_st := (wr_st w)\<lparr>sm_addOpen := True\<rparr>\<rparr>)"
| typing: "may_act waits w \<Longrightarrow> sm_addOpen (wr_st w) \<Longrightarrow> sm_wizardStep (wr_st w) = 0 \<Longrightarrow> \<not> wr_loading w \<Longrightarrow>
    wizard_step waits w (w\<lparr>wr_st := domain_input v (wr_st w)\<rparr>)"
| wildcard: "may_act waits w \<Longrightarrow> sm_addOpen (wr_st w) \<Longrightarrow> sm_wizardStep (wr_st w) = 0 \<Longrightarrow> \<not> wr_loading w \<Longrightarrow>
    wizard_step waits w (w\<lparr>wr_st := (wr_st w)\<lparr>sm_useWildcard := b\<rparr>\<rparr>)"
| how: "may_act waits w \<Longrightarrow> sm_addOpen (wr_st w) \<Longrightarrow> sm_wizardStep (wr_st w) = 0 \<Longrightarrow> sm_useWildcard (wr_st w) \<Longrightarrow>
    wizard_step waits w (w\<lparr>wr_st := (wr_st w)\<lparr>sm_wildcardMethod := x\<rparr>\<rparr>)"
| add_domain: "may_act waits w \<Longrightarrow> sm_addOpen (wr_st w) \<Longrightarrow> sm_wizardStep (wr_st w) = 0 \<Longrightarrow> \<not> wr_loading w \<Longrightarrow>
    wizard_step waits w (click_next w)"
| verify: "may_act waits w \<Longrightarrow> sm_addOpen (wr_st w) \<Longrightarrow> sm_wizardStep (wr_st w) = 1 \<Longrightarrow> \<not> sm_verifying (wr_st w) \<Longrightarrow>
    wizard_step waits w (send (Verify_Pending (sm_wizardDomain (wr_st w))) ((wr_st w)\<lparr>sm_verifying := True\<rparr>) w)"
| issue: "may_act waits w \<Longrightarrow> sm_addOpen (wr_st w) \<Longrightarrow> sm_wizardStep (wr_st w) = 2 \<Longrightarrow> \<not> sm_issuing (wr_st w) \<Longrightarrow>
    wizard_step waits w (send (Issue_Pending (sm_wizardDomain (wr_st w))) ((wr_st w)\<lparr>sm_issuing := True\<rparr>) w)"
| sync: "may_act waits w \<Longrightarrow> \<not> wr_loading w \<Longrightarrow> wizard_step waits w (send Sync_Pending (wr_st w) w)"
| close: "may_act waits w \<Longrightarrow> sm_addOpen (wr_st w) \<Longrightarrow> wizard_step waits w (w\<lparr>wr_st := handleCloseWizard (wr_st w)\<rparr>)"
| answer: "p \<in> set (wr_pending w) \<Longrightarrow> wizard_step waits w (receive p r w)"

section \<open>The table\<close>

record cert_table =
  ct_selectedCert    :: "certificate option"
  ct_detailsOpen     :: bool
  ct_selectedDomains :: "string list"
  ct_deleteTarget    :: "string option"
  ct_bulkDeleteOpen  :: bool

text \<open>The handlers of the list (\<open>onUpdate\<close>, \<open>onDelete\<close>) are optional properties of the table; the flags say whether they are
  given.\<close>

definition ct_handleRenew :: "bool \<Rightarrow> server \<Rightarrow> string \<Rightarrow> ssl_effect list" where
  "ct_handleRenew onUpdate server domain =
     Ssl_Call (certificates_renew domain) #
     (case server (certificates_renew domain) of
        Inr _ \<Rightarrow> Ssl_Toast ''Certificate renewal initiated'' Toast_Success #
                 (if onUpdate then [Ssl_Update domain (\<lambda>c. c\<lparr>cert_last_renew_status := ''pending''\<rparr>)] else [])
      | Inl e \<Rightarrow> [Ssl_Toast (error_text e ''Renew failed'') Toast_Error])"

definition ct_handleBulkRenew :: "bool \<Rightarrow> server \<Rightarrow> cert_table \<Rightarrow> ssl_effect list" where
  "ct_handleBulkRenew onUpdate server st = concat (map (ct_handleRenew onUpdate server) (ct_selectedDomains st)) @ [Ssl_Refetch]"

definition ct_handleToggleAutoRenew :: "bool \<Rightarrow> server \<Rightarrow> string \<Rightarrow> bool \<Rightarrow> ssl_effect list" where
  "ct_handleToggleAutoRenew onUpdate server domain enabled =
     Ssl_Call (certificates_toggleAutoRenew domain enabled) #
     (case server (certificates_toggleAutoRenew domain enabled) of
        Inr _ \<Rightarrow> [Ssl_Toast (if enabled then ''Auto-renew enabled'' else ''Auto-renew disabled'') Toast_Success,
                 (if onUpdate then Ssl_Update domain (\<lambda>c. c\<lparr>cert_auto_renew := enabled\<rparr>) else Ssl_Refetch)]
      | Inl e \<Rightarrow> [Ssl_Toast (error_text e ''Toggle auto-renew failed'') Toast_Error])"

definition ct_handleViewDetails :: "certificate \<Rightarrow> cert_table \<Rightarrow> cert_table" where
  "ct_handleViewDetails c st = st\<lparr>ct_selectedCert := Some c, ct_detailsOpen := True\<rparr>"

definition ct_handleDeleteConfirm :: "bool \<Rightarrow> server \<Rightarrow> cert_table \<Rightarrow> cert_table \<times> ssl_effect list" where
  "ct_handleDeleteConfirm onDelete server st =
     (case ct_deleteTarget st of
        None \<Rightarrow> (st, [])
      | Some domain \<Rightarrow>
          if domain = [] then (st, [])
          else (st\<lparr>ct_deleteTarget := None\<rparr>,
            Ssl_Call (certificates_delete domain) #
            (case server (certificates_delete domain) of
               Inr _ \<Rightarrow> [Ssl_Toast ''Certificate deleted'' Toast_Success, if onDelete then Ssl_Remove [domain] else Ssl_Refetch]
             | Inl e \<Rightarrow> [Ssl_Toast (error_text e ''Delete failed'') Toast_Error])))"

definition ct_handleBulkDeleteConfirm :: "bool \<Rightarrow> server \<Rightarrow> cert_table \<Rightarrow> cert_table \<times> ssl_effect list" where
  "ct_handleBulkDeleteConfirm onDelete server st =
     (let domainsToDelete = ct_selectedDomains st;
          call = certificates_bulkDelete domainsToDelete
      in case server call of
           Inr _ \<Rightarrow> (st\<lparr>ct_selectedDomains := [], ct_bulkDeleteOpen := False\<rparr>,
             [Ssl_Call call, Ssl_Toast ''Certificates deleted'' Toast_Success, if onDelete then Ssl_Remove domainsToDelete else Ssl_Refetch])
         | Inl e \<Rightarrow> (st\<lparr>ct_bulkDeleteOpen := False\<rparr>,
             [Ssl_Call call, Ssl_Toast (error_text e ''Bulk delete failed'') Toast_Error]))"

definition ct_handleRetryWildcard :: "server \<Rightarrow> string \<Rightarrow> ssl_effect list" where
  "ct_handleRetryWildcard server domain =
     Ssl_Call (certificates_issueWildcard domain) #
     (case server (certificates_issueWildcard domain) of
        Inr _ \<Rightarrow> [Ssl_Toast ''Wildcard certificate retry initiated'' Toast_Success, Ssl_Refetch]
      | Inl e \<Rightarrow> [Ssl_Toast (error_text e ''Retry failed'') Toast_Error])"

definition toggleSelectDomain :: "string \<Rightarrow> cert_table \<Rightarrow> cert_table" where
  "toggleSelectDomain d st = st\<lparr>ct_selectedDomains :=
     (if d \<in> set (ct_selectedDomains st) then filter (\<lambda>x. x \<noteq> d) (ct_selectedDomains st) else ct_selectedDomains st @ [d])\<rparr>"

text \<open>\<open>new Set(...)\<close> keeps the first of equal domains.\<close>

definition ct_toggleSelectAll :: "certificate list \<Rightarrow> cert_table \<Rightarrow> cert_table" where
  "ct_toggleSelectAll cs st =
     (if length (ct_selectedDomains st) = length cs then st\<lparr>ct_selectedDomains := []\<rparr>
      else st\<lparr>ct_selectedDomains := rev (remdups (rev (map cert_domain cs)))\<rparr>)"

definition getStatusBadge :: "certificate \<Rightarrow> string" where
  "getStatusBadge c =
     (let how = (if cert_wildcard_method c = ''dns'' then ''DNS'' else ''Persist'');
          ws = cert_wildcard_status c;
          wild = (if \<not> cert_wildcard_enabled c then None
            else if ws = ''active'' then Some (''Wildcard '' @ how @ '' Active'')
            else if ws = ''issuing'' then Some (''Wildcard '' @ how @ '' Issuing'')
            else if ws = ''txt_pending'' \<or> ws = ''pending'' then Some (''Wildcard '' @ how @ '' Pending'')
            else if ws = ''dns_verified'' then Some (''Wildcard '' @ how @ '' Verified'')
            else if ws = ''failed'' then Some (''Wildcard '' @ how @ '' Failed'')
            else None)
      in case wild of
           Some t \<Rightarrow> t
         | None \<Rightarrow>
             if cert_status c = ''expired'' then ''Expired''
             else if cert_is_expiring_soon c then ''Expiring Soon''
             else if cert_status c = ''valid'' then ''Valid''
             else cert_status c)"

section \<open>Domains a wildcard is accepted for\<close>

definition dns_label :: "string \<Rightarrow> bool" where
  "dns_label w \<longleftrightarrow> w \<noteq> [] \<and> is_alnum (hd w) \<and> is_alnum (last w) \<and> list_all (\<lambda>c. is_alnum c \<or> c = CHR ''-'') w"

lemma lang_Star_Cls: "lang (Star (Cls p)) = {w. list_all p w}"
proof (intro subset_antisym subsetI)
  fix w assume "w \<in> lang (Star (Cls p))"
  then obtain ws where "w = concat ws" "set ws \<subseteq> {[c] | c. p c}" by auto
  then show "w \<in> {w. list_all p w}" by (auto simp: list_all_iff)
next
  fix w assume "w \<in> {w. list_all p w}"
  then have "w = concat (map (\<lambda>c. [c]) w)" and "set (map (\<lambda>c. [c]) w) \<subseteq> lang (Cls p)" by (auto simp: list_all_iff)
  then show "w \<in> lang (Star (Cls p))" unfolding lang.simps(4) by blast
qed

lemma lang_label: "w \<in> lang label_regex \<longleftrightarrow> dns_label w"
proof
  assume "w \<in> lang label_regex"
  then obtain a v where w: "w = a # v" and a: "is_alnum a"
    and v: "v = [] \<or> (\<exists>u c. v = u @ [c] \<and> list_all (\<lambda>c. is_alnum c \<or> c = CHR ''-'') u \<and> is_alnum c)"
    unfolding label_regex_def lang.simps(2) lang_Opt lang_Star_Cls by auto
  from v show "dns_label w"
  proof
    assume "v = []"
    then show ?thesis using w a by (simp add: dns_label_def)
  next
    assume "\<exists>u c. v = u @ [c] \<and> list_all (\<lambda>c. is_alnum c \<or> c = CHR ''-'') u \<and> is_alnum c"
    then show ?thesis using w a by (auto simp: dns_label_def)
  qed
next
  assume l: "dns_label w"
  then obtain a v where w: "w = a # v" by (cases w) (auto simp: dns_label_def)
  have a: "[a] \<in> lang (Cls is_alnum)" using l w by (simp add: dns_label_def)
  have "v \<in> lang (Opt (Seq (Star (Cls (\<lambda>c. is_alnum c \<or> c = CHR ''-''))) (Cls is_alnum)))"
  proof (cases v rule: rev_cases)
    case Nil
    then show ?thesis unfolding lang_Opt by blast
  next
    case (snoc u c)
    then have "u \<in> lang (Star (Cls (\<lambda>c. is_alnum c \<or> c = CHR ''-'')))" and "[c] \<in> lang (Cls is_alnum)"
      using l w unfolding lang_Star_Cls by (simp_all add: dns_label_def)
    then show ?thesis unfolding lang_Opt lang.simps(2) snoc by blast
  qed
  then have "[a] @ v \<in> lang label_regex" using a unfolding label_regex_def lang.simps(2) by blast
  then show "w \<in> lang label_regex" using w by simp
qed

lemma join_Cons_concat: "join [d] (p # ps) = p @ concat (map (Cons d) ps)"
proof (induction ps arbitrary: p)
  case (Cons q qs)
  then show ?case by simp
qed simp

lemma lang_dotted:
  "lang (Seq a (Rep (Seq (Lit d) a) lo hi)) =
     {join [d] (p # ps) | p ps. p \<in> lang a \<and> set ps \<subseteq> lang a \<and> lo \<le> length ps \<and> length ps \<le> hi}"
proof (intro subset_antisym subsetI)
  fix s assume "s \<in> lang (Seq a (Rep (Seq (Lit d) a) lo hi))"
  then obtain p ws where s: "s = p @ concat ws" and p: "p \<in> lang a" and n: "lo \<le> length ws" "length ws \<le> hi"
    and ws: "set ws \<subseteq> {d # u | u. u \<in> lang a}" by auto
  from ws have "\<exists>ps. set ps \<subseteq> lang a \<and> ws = map (Cons d) ps"
  proof (induction ws)
    case (Cons w ws)
    then obtain ps u where "set ps \<subseteq> lang a" "ws = map (Cons d) ps" "u \<in> lang a" "w = d # u" by auto
    then show ?case by (intro exI [of _ "u # ps"]) simp
  qed simp
  then obtain ps where ps: "set ps \<subseteq> lang a" "ws = map (Cons d) ps" by blast
  then have "s = join [d] (p # ps)" "lo \<le> length ps" "length ps \<le> hi" using s n by (simp_all add: join_Cons_concat)
  then show "s \<in> {join [d] (p # ps) | p ps. p \<in> lang a \<and> set ps \<subseteq> lang a \<and> lo \<le> length ps \<and> length ps \<le> hi}"
    using p ps(1) by blast
next
  fix s assume "s \<in> {join [d] (p # ps) | p ps. p \<in> lang a \<and> set ps \<subseteq> lang a \<and> lo \<le> length ps \<and> length ps \<le> hi}"
  then obtain p ps where s: "s = join [d] (p # ps)" and p: "p \<in> lang a" and ps: "set ps \<subseteq> lang a" "lo \<le> length ps" "length ps \<le> hi"
    by blast
  have "set (map (Cons d) ps) \<subseteq> lang (Seq (Lit d) a)" using ps(1) by fastforce
  then have "concat (map (Cons d) ps) \<in> lang (Rep (Seq (Lit d) a) lo hi)"
    unfolding lang.simps(3) mem_Collect_eq using ps(2,3) by (intro exI [of _ "map (Cons d) ps"] conjI) simp_all
  then show "s \<in> lang (Seq a (Rep (Seq (Lit d) a) lo hi))"
    unfolding s join_Cons_concat lang.simps(2) using p by blast
qed

lemma label_not_dot: "dns_label w \<Longrightarrow> c \<in> set w \<Longrightarrow> c \<noteq> CHR ''.'' \<and> c \<noteq> CHR ''*''"
  by (auto simp: dns_label_def list_all_iff is_alnum_def Let_def)

lemma wildcard_pattern_lang:
  "re_test wildcardPattern (''*.'' @ d) \<longleftrightarrow> (\<exists>ps. d = join ''.'' ps \<and> (length ps = 2 \<or> length ps = 3) \<and> list_all dns_label ps)"
proof -
  define D where "D = Seq label_regex (Rep (Seq (Lit (CHR ''.'')) label_regex) 1 2)"
  have star: "''*.'' @ d \<in> lang wildcardPattern \<longleftrightarrow> d \<in> lang D"
  proof
    assume "''*.'' @ d \<in> lang wildcardPattern"
    then obtain u v where "''*.'' @ d = u @ CHR ''.'' # v" and u: "u = [] \<or> u = ''*''" and v: "v \<in> lang D"
      unfolding wildcardPattern_def D_def [symmetric] lang.simps(2) [of "Opt (Lit (CHR ''*''))"] lang_Opt lang.simps(2) [of "Lit (CHR ''.'')"] by auto
    then show "d \<in> lang D" by auto
  next
    assume d: "d \<in> lang D"
    have "''*'' \<in> lang (Opt (Lit (CHR ''*'')))" unfolding lang_Opt by simp
    moreover have "''.'' @ d \<in> lang (Seq (Lit (CHR ''.'')) D)" unfolding lang.simps(2) [of "Lit (CHR ''.'')"] using d by auto
    ultimately have "''*'' @ ''.'' @ d \<in> lang wildcardPattern" unfolding wildcardPattern_def D_def [symmetric] lang.simps(2) [of "Opt (Lit (CHR ''*''))"] by blast
    then show "''*.'' @ d \<in> lang wildcardPattern" by simp
  qed
  have "(\<exists>p qs. d = join ''.'' (p # qs) \<and> p \<in> lang label_regex \<and> set qs \<subseteq> lang label_regex \<and> 1 \<le> length qs \<and> length qs \<le> 2) \<longleftrightarrow>
      (\<exists>ps. d = join ''.'' ps \<and> (length ps = 2 \<or> length ps = 3) \<and> list_all dns_label ps)" (is "?L \<longleftrightarrow> ?R")
  proof
    assume ?L
    then obtain p qs where "d = join ''.'' (p # qs)" "dns_label p" "\<forall>q\<in>set qs. dns_label q" "1 \<le> length qs" "length qs \<le> 2"
      using lang_label by blast
    then show ?R by (intro exI [of _ "p # qs"]) (auto simp: list_all_iff)
  next
    assume ?R
    then obtain ps where ps: "d = join ''.'' ps" "length ps = 2 \<or> length ps = 3" "list_all dns_label ps" by blast
    then obtain p qs where "ps = p # qs" by (cases ps) auto
    with ps show ?L by (intro exI [of _ p] exI [of _ qs]) (auto simp: list_all_iff lang_label)
  qed
  then show ?thesis unfolding re_test_lang star D_def lang_dotted by blast
qed

text \<open>A wildcard certificate is offered for a domain of two or three labels, written with or without the leading
  \<open>*.\<close>, and for nothing else; a label has letters, digits and inner hyphens.\<close>

theorem wildcard_domain_shape:
  "wildcard_domain_ok d = (\<exists>ps. (d = join ''.'' ps \<or> d = ''*.'' @ join ''.'' ps) \<and> (length ps = 2 \<or> length ps = 3) \<and> list_all dns_label ps)"
proof (cases "startsWith d ''*.''")
  case True
  then obtain e where e: "d = ''*.'' @ e" by (auto simp: startsWith_def prefix_def)
  have no: "join ''.'' ps \<noteq> d" if l: "list_all dns_label ps" "length ps = 2 \<or> length ps = 3" for ps
  proof -
    obtain p qs where ps: "ps = p # qs" using l(2) by (cases ps) auto
    then obtain c w where "p = c # w" using l(1) by (cases p) (auto simp: dns_label_def)
    then have "hd (join ''.'' ps) = c" "c \<noteq> CHR ''*''"
      using ps l(1) label_not_dot [of p c] by (auto simp: join_Cons_concat)
    then show ?thesis using e by auto
  qed
  have "wildcard_domain_ok d \<longleftrightarrow> re_test wildcardPattern (''*.'' @ e)" using True e by (simp add: wildcard_domain_ok_def)
  also have "\<dots> \<longleftrightarrow> (\<exists>ps. d = ''*.'' @ join ''.'' ps \<and> (length ps = 2 \<or> length ps = 3) \<and> list_all dns_label ps)"
    unfolding wildcard_pattern_lang e by simp
  finally show ?thesis using no by blast
next
  case False
  then have "\<And>e. d \<noteq> ''*.'' @ e" by (auto simp: startsWith_def prefix_def)
  then show ?thesis using False wildcard_pattern_lang [of d] unfolding wildcard_domain_ok_def by auto
qed

section \<open>The order of the wizard\<close>

definition confirmed :: "bool \<Rightarrow> string \<Rightarrow> wizard_event list \<Rightarrow> bool" where
  "confirmed waits d h \<longleftrightarrow>
     (\<exists>d' resp. Answered (certificates_verifyWildcardDNS d') (Inr resp) \<in> set h \<and> verified_answer resp \<and> (waits \<longrightarrow> d' = d))"

definition issued_confirmed :: "bool \<Rightarrow> wizard_event list \<Rightarrow> bool" where
  "issued_confirmed waits h \<longleftrightarrow> (\<forall>h1 d h2. h = h1 @ Sent (certificates_issueWildcard d) # h2 \<longrightarrow> confirmed waits d h1)"

definition pending_ok :: "bool \<Rightarrow> string \<Rightarrow> wizard_event list \<Rightarrow> wizard_pending \<Rightarrow> bool" where
  "pending_ok waits d h p =
     (case p of Verify_Pending e \<Rightarrow> waits \<longrightarrow> e = d | Issue_Pending e \<Rightarrow> confirmed waits d h | _ \<Rightarrow> True)"

definition wizard_inv :: "bool \<Rightarrow> wizard_run \<Rightarrow> bool" where
  "wizard_inv waits w \<longleftrightarrow>
     issued_confirmed waits (wr_history w) \<and>
     (sm_wizardStep (wr_st w) \<ge> 2 \<longrightarrow> confirmed waits (sm_wizardDomain (wr_st w)) (wr_history w)) \<and>
     (waits \<longrightarrow> length (wr_pending w) \<le> 1) \<and>
     (\<forall>p\<in>set (wr_pending w). pending_ok waits (sm_wizardDomain (wr_st w)) (wr_history w) p)"

lemma confirmed_mono: "confirmed waits d h \<Longrightarrow> confirmed waits d (h @ h')"
  by (auto simp: confirmed_def)

lemma pending_ok_mono: "pending_ok waits d h p \<Longrightarrow> pending_ok waits d (h @ h') p"
  by (auto simp: pending_ok_def confirmed_mono split: wizard_pending.splits)

lemma confirmed_impatient: "confirmed False d h \<Longrightarrow> confirmed False e h"
  by (simp add: confirmed_def)

lemma pending_ok_impatient: "pending_ok False d h p \<Longrightarrow> pending_ok False e h p"
  using confirmed_impatient by (auto simp: pending_ok_def split: wizard_pending.splits)

lemma issued_confirmed_snoc:
  assumes "issued_confirmed waits h" and "\<And>d. e = Sent (certificates_issueWildcard d) \<Longrightarrow> confirmed waits d h"
  shows "issued_confirmed waits (h @ [e])"
  unfolding issued_confirmed_def
proof (intro allI impI)
  fix h1 d h2
  assume eq: "h @ [e] = h1 @ Sent (certificates_issueWildcard d) # h2"
  show "confirmed waits d h1"
  proof (cases h2 rule: rev_cases)
    case Nil
    then show ?thesis using eq assms(2) by simp
  next
    case (snoc h3 x)
    then have "h = h1 @ Sent (certificates_issueWildcard d) # h3" using eq by simp
    then show ?thesis using assms(1) by (auto simp: issued_confirmed_def)
  qed
qed

lemma issueWildcard_inj: "certificates_issueWildcard d = certificates_issueWildcard e \<Longrightarrow> d = e"
  by (drule arg_cong [where f = "\<lambda>c. ri_body (snd c)"]) (simp add: certificates_issueWildcard_def)

lemma pending_call_issue:
  assumes "pending_call p = certificates_issueWildcard d"
  shows "p = Issue_Pending d"
proof (cases p)
  case (Issue_Pending e)
  then show ?thesis using assms issueWildcard_inj by (simp add: pending_call_def)
qed (use assms in \<open>auto simp: pending_call_def certificates_verifyWildcardDNS_def certificates_issueWildcard_def
      certificates_enableWildcard_def certificates_issue_def certificates_syncFromFilesystem_def api_send_def api_bare_def
      split: if_splits\<close>)

lemma send_inv:
  assumes "wizard_inv waits w" and "may_act waits w" and same: "sm_wizardDomain st = sm_wizardDomain (wr_st w)" "sm_wizardStep st = sm_wizardStep (wr_st w)"
    and ok: "pending_ok waits (sm_wizardDomain st) (wr_history w) p"
    and issue: "\<And>d. p = Issue_Pending d \<Longrightarrow> d = sm_wizardDomain st"
  shows "wizard_inv waits (send p st w)"
proof -
  have "issued_confirmed waits (wr_history w @ [Sent (pending_call p)])"
  proof (rule issued_confirmed_snoc)
    show "confirmed waits d (wr_history w)" if "Sent (pending_call p) = Sent (certificates_issueWildcard d)" for d
    proof -
      have p: "p = Issue_Pending d" using that pending_call_issue by blast
      show ?thesis using ok issue [OF p] by (simp add: p pending_ok_def)
    qed
  qed (use assms(1) in \<open>simp add: wizard_inv_def\<close>)
  then show ?thesis
    using assms confirmed_mono pending_ok_mono by (auto simp: wizard_inv_def send_def may_act_def)
qed

lemma receive_history_inv:
  "issued_confirmed waits h \<Longrightarrow> issued_confirmed waits (h @ [Answered c r])"
  by (rule issued_confirmed_snoc) auto

lemma answer_confirmed:
  assumes "wizard_inv waits w" and "p \<in> set (wr_pending w)" and "(st, es) = pending_answer p r (wr_st w)" and "sm_wizardStep st \<ge> 2"
  shows "confirmed waits (sm_wizardDomain st) (wr_history w @ [Answered (pending_call p) r])"
proof -
  have ok: "pending_ok waits (sm_wizardDomain (wr_st w)) (wr_history w) p" using assms(1,2) by (simp add: wizard_inv_def)
  have old: "confirmed waits (sm_wizardDomain (wr_st w)) (wr_history w)" if "sm_wizardStep (wr_st w) \<ge> 2"
    using that assms(1) by (simp add: wizard_inv_def)
  show ?thesis
  proof (cases p)
    case (Add_Pending d wild how)
    then show ?thesis using assms(3,4) old confirmed_mono
      by (auto simp: pending_answer_def add_answer_def handleCloseWizard_def split: if_splits sum.splits)
  next
    case (Verify_Pending d)
    then have "sm_wizardDomain st = sm_wizardDomain (wr_st w)" and
      "sm_wizardStep (wr_st w) \<ge> 2 \<or> (\<exists>resp. r = Inr resp \<and> verified_answer resp)"
      using assms(3,4) by (auto simp: pending_answer_def verify_answer_def Let_def split: if_splits sum.splits json.splits)
    then show ?thesis using ok old confirmed_mono Verify_Pending
      by (auto simp: pending_ok_def confirmed_def pending_call_def)
  next
    case (Issue_Pending d)
    then have "confirmed waits (sm_wizardDomain st) (wr_history w)"
      using assms(3) ok by (auto simp: pending_ok_def pending_answer_def issue_answer_def Let_def split: sum.splits)
    then show ?thesis by (rule confirmed_mono)
  next
    case Sync_Pending
    then show ?thesis using assms(3,4) old confirmed_mono by (auto simp: pending_answer_def)
  qed
qed

lemma receive_inv:
  assumes "wizard_inv waits w" and "p \<in> set (wr_pending w)"
  shows "wizard_inv waits (receive p r w)"
proof -
  obtain st es where eq: "(st, es) = pending_answer p r (wr_st w)" by (metis surj_pair)
  have "pending_ok waits (sm_wizardDomain st) (wr_history w @ [Answered (pending_call p) r]) q"
    if q: "q \<in> set (remove1 p (wr_pending w))" for q
  proof (cases waits)
    case True
    then have "length (wr_pending w) \<le> 1" using assms(1) by (simp add: wizard_inv_def)
    then have "wr_pending w = [p]" using assms(2) by (cases "wr_pending w") auto
    then show ?thesis using q by simp
  next
    case False
    have "q \<in> set (wr_pending w)" using q by (meson notin_set_remove1)
    then have "pending_ok waits (sm_wizardDomain (wr_st w)) (wr_history w) q" using assms(1) by (simp add: wizard_inv_def)
    then have "pending_ok False (sm_wizardDomain st) (wr_history w) q" using False pending_ok_impatient by simp
    then show ?thesis using False pending_ok_mono by simp
  qed
  moreover have "waits \<Longrightarrow> length (remove1 p (wr_pending w)) \<le> 1"
    using assms(1) by (auto simp: wizard_inv_def length_remove1)
  moreover have "issued_confirmed waits (wr_history w @ [Answered (pending_call p) r])"
    using assms(1) by (simp add: wizard_inv_def receive_history_inv)
  ultimately have "wizard_inv waits (w\<lparr>wr_st := st, wr_loading := False, wr_pending := remove1 p (wr_pending w),
      wr_history := wr_history w @ [Answered (pending_call p) r]\<rparr>)"
    using answer_confirmed [OF assms eq] by (simp add: wizard_inv_def)
  then show ?thesis using eq [symmetric] by (simp add: receive_def)
qed

lemma add_start_same:
  assumes "add_start st = (st', q)"
  shows "sm_wizardDomain st' = sm_wizardDomain st \<and> sm_wizardStep st' = sm_wizardStep st \<and>
    (\<forall>p. q = Some p \<longrightarrow> (\<exists>d wild x. p = Add_Pending d wild x))"
  using assms by (auto simp: add_start_def Let_def split: if_splits)

lemma click_next_inv:
  assumes "wizard_inv waits w" and "may_act waits w"
  shows "wizard_inv waits (click_next w)"
proof -
  obtain st q where eq: "add_start (wr_st w) = (st, q)" by (meson surj_pair)
  note same = add_start_same [OF eq]
  show ?thesis
  proof (cases q)
    case None
    then show ?thesis using assms(1) eq same by (simp add: click_next_def wizard_inv_def)
  next
    case (Some p)
    then obtain d wild x where "p = Add_Pending d wild x" using same by blast
    then have "wizard_inv waits (send p st w)" using assms same by (intro send_inv) (simp_all add: pending_ok_def)
    then show ?thesis using eq Some by (simp add: click_next_def)
  qed
qed

lemma close_inv:
  assumes "wizard_inv waits w" and "may_act waits w"
  shows "wizard_inv waits (w\<lparr>wr_st := handleCloseWizard (wr_st w)\<rparr>)"
proof (cases waits)
  case True
  then show ?thesis using assms by (simp add: wizard_inv_def may_act_def handleCloseWizard_def)
next
  case False
  then show ?thesis using assms(1) pending_ok_impatient by (auto simp: wizard_inv_def handleCloseWizard_def)
qed

lemma wizard_step_inv:
  assumes "wizard_step waits w w'" and "wizard_inv waits w"
  shows "wizard_inv waits w'"
  using assms
proof (induction rule: wizard_step.induct)
  case (verify w)
  then show ?case by (intro send_inv) (auto simp: pending_ok_def)
next
  case (issue w)
  then show ?case by (intro send_inv) (auto simp: pending_ok_def wizard_inv_def)
next
  case (sync w)
  then show ?case by (intro send_inv) (auto simp: pending_ok_def)
next
  case (add_domain w)
  then show ?case by (intro click_next_inv)
next
  case (close w)
  then show ?case by (intro close_inv)
next
  case (answer p w r)
  then show ?case by (intro receive_inv)
qed (auto simp: wizard_inv_def domain_input_def)

text \<open>C24: in every sequence of inputs, answers in any order, failures and closings of the dialog, the wizard orders a wildcard
  certificate only after the server has confirmed some DNS record; it is the record of the same domain when the user waits for
  each answer before the next action.\<close>

theorem wildcard_issued_after_verification:
  assumes "(wizard_step waits)\<^sup>*\<^sup>* wizard_initial w" and "wr_history w = h1 @ Sent (certificates_issueWildcard d) # h2"
  shows "\<exists>d' resp. Answered (certificates_verifyWildcardDNS d') (Inr resp) \<in> set h1 \<and> verified_answer resp \<and>
    (waits \<longrightarrow> d' = d)"
proof -
  have "wizard_inv waits w"
    using assms(1)
  proof (induction rule: rtranclp_induct)
    case base
    then show ?case by (simp add: wizard_inv_def issued_confirmed_def wizard_initial_def ssl_manager_initial_def)
  next
    case (step y z)
    then show ?case using wizard_step_inv by blast
  qed
  then have "confirmed waits d h1" using assms(2) unfolding wizard_inv_def issued_confirmed_def by blast
  then show ?thesis by (simp add: confirmed_def)
qed

text \<open>A run: \<open>*.a.bc\<close> is added and its check is in flight.\<close>

definition verified_yes :: json where
  "verified_yes = JObj [(''verified'', JBool True)]"

definition typed_run :: wizard_run where
  "typed_run = wizard_initial\<lparr>wr_st := ssl_manager_initial\<lparr>sm_addOpen := True, sm_useWildcard := True, sm_newDomain := ''a.bc''\<rparr>\<rparr>"

definition adding_run :: wizard_run where
  "adding_run = send (Add_Pending ''a.bc'' True Method_Persist) (wr_st typed_run) typed_run"

definition added_run :: wizard_run where
  "added_run = receive (Add_Pending ''a.bc'' True Method_Persist) (Inr (JObj [])) adding_run"

definition checking_run :: wizard_run where
  "checking_run = send (Verify_Pending ''a.bc'') ((wr_st added_run)\<lparr>sm_verifying := True\<rparr>) added_run"

lemmas wizard_runs = checking_run_def added_run_def adding_run_def typed_run_def wizard_initial_def ssl_manager_initial_def
  send_def receive_def pending_answer_def add_answer_def verify_answer_def verified_yes_def verified_answer_def
  json_get.simps handleCloseWizard_def domain_input_def startsWith_def may_act_def Let_def

lemma run_on: "(wizard_step waits)\<^sup>*\<^sup>* a b \<Longrightarrow> wizard_step waits b c \<Longrightarrow> c = c' \<Longrightarrow> (wizard_step waits)\<^sup>*\<^sup>* a c'"
  by auto

lemma sample_wildcard_ok: "wildcard_domain_ok ''a.bc''"
  unfolding wildcard_domain_shape by (intro exI [of _ "[''a'', ''bc'']"]) (simp add: dns_label_def is_alnum_def Let_def)

lemma add_start_typed: "add_start (wr_st typed_run) = (wr_st typed_run, Some (Add_Pending ''a.bc'' True Method_Persist))"
proof -
  have "trim ''a.bc'' = ''a.bc''" by code_simp
  then show ?thesis using sample_wildcard_ok by (simp add: add_start_def typed_run_def ssl_manager_initial_def Let_def)
qed

lemma typed_run_reached: "(wizard_step waits)\<^sup>*\<^sup>* wizard_initial typed_run"
proof -
  have "(wizard_step waits)\<^sup>*\<^sup>* wizard_initial (wizard_initial\<lparr>wr_st := ssl_manager_initial\<lparr>sm_addOpen := True\<rparr>\<rparr>)"
    by (rule run_on [OF rtranclp.rtrancl_refl open_wizard]) (simp_all add: wizard_runs)
  then have "(wizard_step waits)\<^sup>*\<^sup>* wizard_initial
      (wizard_initial\<lparr>wr_st := ssl_manager_initial\<lparr>sm_addOpen := True, sm_useWildcard := True\<rparr>\<rparr>)"
    by (rule run_on [OF _ wildcard [where b = True]]) (simp_all add: wizard_runs)
  then show ?thesis
    by (rule run_on [OF _ typing [where v = "''a.bc''"]]) (simp_all add: wizard_runs)
qed

lemma checking_run_reached: "(wizard_step waits)\<^sup>*\<^sup>* wizard_initial checking_run"
proof -
  have "(wizard_step waits)\<^sup>*\<^sup>* wizard_initial adding_run"
    by (rule run_on [OF typed_run_reached add_domain]) (simp_all add: click_next_def add_start_typed adding_run_def, simp_all add: wizard_runs)
  then have "(wizard_step waits)\<^sup>*\<^sup>* wizard_initial added_run"
    by (rule run_on [OF _ answer [where p = "Add_Pending ''a.bc'' True Method_Persist" and r = "Inr (JObj [])"]])
      (simp_all add: added_run_def, simp add: wizard_runs)
  then show ?thesis
    by (rule run_on [OF _ verify]) (simp_all add: wizard_runs)
qed

lemma issued_run_reached:
  "(wizard_step waits)\<^sup>*\<^sup>* wizard_initial (receive (Verify_Pending ''a.bc'') (Inr verified_yes) checking_run)"
  by (rule run_on [OF checking_run_reached answer [where p = "Verify_Pending ''a.bc''"]]) (simp_all add: checking_run_def send_def)

theorem wildcard_issued_after_verification_witness:
  "\<exists>d' resp. Answered (certificates_verifyWildcardDNS d') (Inr resp) \<in>
     set (wr_history (receive (Verify_Pending ''a.bc'') (Inr verified_yes) checking_run)) \<and> verified_answer resp \<and> d' = ''a.bc''"
proof -
  define w where "w = receive (Verify_Pending ''a.bc'') (Inr verified_yes) checking_run"
  have "(wizard_step True)\<^sup>*\<^sup>* wizard_initial (send (Issue_Pending (sm_wizardDomain (wr_st w))) ((wr_st w)\<lparr>sm_issuing := True\<rparr>) w)"
    by (rule run_on [OF issued_run_reached [folded w_def] issue]) (simp_all add: w_def wizard_runs)
  moreover have "sm_wizardDomain (wr_st w) = ''a.bc''" by (simp add: w_def wizard_runs)
  ultimately show ?thesis
    using wildcard_issued_after_verification [of True _ "wr_history w" "''a.bc''" "[]"]
    by (simp add: send_def pending_call_def w_def)
qed

text \<open>A user who closes the dialog during a check finds the second step open when the answer arrives, for no domain; its button
  orders a certificate for a name that was never checked.\<close>

theorem dismissed_check_orders_unverified:
  "\<exists>w h1. (wizard_step False)\<^sup>*\<^sup>* wizard_initial w \<and> wr_history w = h1 @ [Sent (certificates_issueWildcard [])] \<and>
     (\<forall>r. Answered (certificates_verifyWildcardDNS []) r \<notin> set h1)"
proof -
  define w1 where "w1 = checking_run\<lparr>wr_st := (handleCloseWizard (wr_st checking_run))\<lparr>sm_addOpen := True\<rparr>\<rparr>"
  define w2 where "w2 = receive (Verify_Pending ''a.bc'') (Inr verified_yes) w1"
  define w3 where "w3 = send (Issue_Pending []) ((wr_st w2)\<lparr>sm_issuing := True\<rparr>) w2"
  have "(wizard_step False)\<^sup>*\<^sup>* wizard_initial (checking_run\<lparr>wr_st := handleCloseWizard (wr_st checking_run)\<rparr>)"
    by (rule run_on [OF checking_run_reached close]) (simp_all add: wizard_runs)
  then have "(wizard_step False)\<^sup>*\<^sup>* wizard_initial w1"
    by (rule run_on [OF _ open_wizard]) (simp_all add: w1_def may_act_def)
  then have "(wizard_step False)\<^sup>*\<^sup>* wizard_initial w2"
    by (rule run_on [OF _ answer [where p = "Verify_Pending ''a.bc''" and r = "Inr verified_yes"]])
      (simp_all add: w2_def w1_def checking_run_def send_def)
  then have run: "(wizard_step False)\<^sup>*\<^sup>* wizard_initial w3"
    by (rule run_on [OF _ issue]) (simp_all add: w3_def w2_def w1_def wizard_runs)
  have "wr_history w3 = wr_history w2 @ [Sent (certificates_issueWildcard [])]" by (simp add: w3_def send_def pending_call_def)
  moreover have "\<forall>r. Answered (certificates_verifyWildcardDNS []) r \<notin> set (wr_history w2)"
    by (simp add: w2_def w1_def wizard_runs pending_call_def certificates_verifyWildcardDNS_def certificates_enableWildcard_def api_send_def no_options_def)
  ultimately show ?thesis using run by blast
qed

text \<open>The box in the head of the table compares numbers, not sets: with one hidden domain selected and one certificate shown, it
  clears the selection instead of selecting what is shown.\<close>

theorem select_all_compares_sizes:
  assumes "length ds = length cs"
  shows "ct_selectedDomains (ct_toggleSelectAll cs (st\<lparr>ct_selectedDomains := ds\<rparr>)) = [] \<and>
    (ct_selectedDomains (ct_toggleSelectAll cs (st\<lparr>ct_selectedDomains := x # ds\<rparr>)) = rev (remdups (rev (map cert_domain cs))))"
  using assms by (simp add: ct_toggleSelectAll_def)

section \<open>The table and the polling list\<close>

text \<open>What the effects of a handler do to the list of \<open>useSSLCertificates\<close>.\<close>

primrec apply_effect :: "ssl_effect \<Rightarrow> ssl_list \<Rightarrow> ssl_list" where
  "apply_effect (Ssl_Call _) l = l"
| "apply_effect (Ssl_Toast _ _) l = l"
| "apply_effect Ssl_Refetch l = fetchCertificates_start l"
| "apply_effect (Ssl_Update d f) l = updateCertificate d f l"
| "apply_effect (Ssl_Remove ds) l = removeCertificates ds l"

definition apply_effects :: "ssl_effect list \<Rightarrow> ssl_list \<Rightarrow> ssl_list" where
  "apply_effects es l = fold apply_effect es l"

lemma apply_effects_simps:
  "apply_effects [] l = l" "apply_effects (e # es) l = apply_effects es (apply_effect e l)"
  by (simp_all add: apply_effects_def)

lemma pending_after_update:
  assumes "c \<in> set (sl_certificates l)"
  shows "hasPending (sl_certificates (updateCertificate (cert_domain c) (\<lambda>x. x\<lparr>cert_last_renew_status := ''pending''\<rparr>) l))"
  unfolding hasPending_def list_ex_iff
  using assms by (intro bexI [of _ "c\<lparr>cert_last_renew_status := ''pending''\<rparr>"]) (auto simp: updateCertificate_def)

text \<open>A confirmed deletion takes the selected domains, and no others, out of the list and empties the selection exactly when
  the server accepts it; a refused one leaves list and selection as they are.  A renewal that the server accepts marks the
  certificate as pending but starts no polling, so that the mark stays until the list is fetched for another reason.\<close>

theorem table_actions_on_list:
  "(case ct_handleBulkDeleteConfirm True server st of (st', es) \<Rightarrow>
      \<not> ct_bulkDeleteOpen st' \<and>
      (if isl (server (certificates_bulkDelete (ct_selectedDomains st)))
       then ct_selectedDomains st' = ct_selectedDomains st \<and> apply_effects es l = l
       else ct_selectedDomains st' = [] \<and> sl_certificates (apply_effects es l) =
         filter (\<lambda>c. cert_domain c \<notin> set (ct_selectedDomains st)) (sl_certificates l))) \<and>
   (let l' = apply_effects (ct_handleRenew True server d) l in
      sl_timers l' = sl_timers l \<and> sl_inFlight l' = sl_inFlight l \<and>
      (\<not> isl (server (certificates_renew d)) \<and> d \<in> cert_domain ` set (sl_certificates l) \<longrightarrow> hasPending (sl_certificates l')))"
proof
  show "case ct_handleBulkDeleteConfirm True server st of (st', es) \<Rightarrow>
      \<not> ct_bulkDeleteOpen st' \<and>
      (if isl (server (certificates_bulkDelete (ct_selectedDomains st)))
       then ct_selectedDomains st' = ct_selectedDomains st \<and> apply_effects es l = l
       else ct_selectedDomains st' = [] \<and> sl_certificates (apply_effects es l) =
         filter (\<lambda>c. cert_domain c \<notin> set (ct_selectedDomains st)) (sl_certificates l))"
    by (cases "server (certificates_bulkDelete (ct_selectedDomains st))")
      (simp_all add: ct_handleBulkDeleteConfirm_def apply_effects_simps removeCertificates_def Let_def)
next
  show "let l' = apply_effects (ct_handleRenew True server d) l in
      sl_timers l' = sl_timers l \<and> sl_inFlight l' = sl_inFlight l \<and>
      (\<not> isl (server (certificates_renew d)) \<and> d \<in> cert_domain ` set (sl_certificates l) \<longrightarrow> hasPending (sl_certificates l'))"
    by (cases "server (certificates_renew d)")
      (auto simp: ct_handleRenew_def apply_effects_simps pending_after_update Let_def, simp_all add: updateCertificate_def)
qed

theorem table_actions_on_list_witness:
  "hasPending (sl_certificates (apply_effects (ct_handleRenew True (\<lambda>_. Inr JNull) ''a.example'')
     (ssl_list_initial\<lparr>sl_certificates := [sample_cert ''a.example'' ''valid'']\<rparr>)))"
  using table_actions_on_list [of "\<lambda>_. Inr JNull" undefined "ssl_list_initial\<lparr>sl_certificates := [sample_cert ''a.example'' ''valid'']\<rparr>" "''a.example''"]
  by (simp add: Let_def sample_cert_def)

end
