(* ===== verification/Widgets.thy ===== *)
theory Widgets
  imports Monitoring Ssl_Pages
begin

text \<open>
  Widgets of several pages: the toasts (\<open>src/frontend/src/components/ui/toast.tsx\<close>), the field for a list of values
  (\<open>components/ui/multi-select.tsx\<close>), the world map of the dashboard (\<open>components/shared/WorldMap.tsx\<close>), the rows of the pipeline
  trace (\<open>PipelineDrawer\<close> of \<open>pages/monitoring/Logs.tsx\<close>) and the dialog with the details of a certificate
  (\<open>components/ssl/CertificateDetailsDialog.tsx\<close>).

  Shown: every toast disappears; the values stay distinct and trimmed; the two tables of country codes are inverse to each other,
  so that the map shows the figure of the country pointed at.
\<close>

section \<open>Toasts\<close>

text \<open>\<open>tl_timers\<close> holds the identifiers of the timers still running; the identifier of a toast is made from a random number,
  an argument here.\<close>

record toast_item =
  to_id      :: string
  to_message :: string
  to_type    :: toast_kind

record toast_list =
  tl_toasts :: "toast_item list"
  tl_timers :: "string list"

definition addToast :: "string \<Rightarrow> string \<Rightarrow> toast_kind \<Rightarrow> toast_list \<Rightarrow> toast_list" where
  "addToast ident message kind st = st\<lparr>
     tl_toasts := tl_toasts st @ [\<lparr>to_id = ident, to_message = message, to_type = kind\<rparr>],
     tl_timers := tl_timers st @ [ident]\<rparr>"

definition removeToast :: "string \<Rightarrow> toast_list \<Rightarrow> toast_list" where
  "removeToast ident st = st\<lparr>tl_toasts := filter (\<lambda>t. to_id t \<noteq> ident) (tl_toasts st)\<rparr>"

definition toast_timer :: "string \<Rightarrow> toast_list \<Rightarrow> toast_list" where
  "toast_timer ident st = (removeToast ident st)\<lparr>tl_timers := remove1 ident (tl_timers st)\<rparr>"

inductive toast_step :: "toast_list \<Rightarrow> toast_list \<Rightarrow> bool" where
  toast_added: "toast_step st (addToast ident message kind st)"
| toast_removed: "toast_step st (removeToast ident st)"
| toast_expired: "ident \<in> set (tl_timers st) \<Longrightarrow> toast_step st (toast_timer ident st)"

definition toasts_timed :: "toast_list \<Rightarrow> bool" where
  "toasts_timed st \<longleftrightarrow> to_id ` set (tl_toasts st) \<subseteq> set (tl_timers st)"

lemma toast_timer_timed: "toasts_timed st \<Longrightarrow> toasts_timed (toast_timer ident st)"
  by (auto simp: toasts_timed_def toast_timer_def removeToast_def in_set_remove1)

lemma toast_step_timed: "toast_step st st' \<Longrightarrow> toasts_timed st \<Longrightarrow> toasts_timed st'"
proof (induction rule: toast_step.induct)
  case (toast_expired ident st)
  then show ?case by (simp add: toast_timer_timed)
qed (auto simp: toasts_timed_def addToast_def removeToast_def)

lemma timers_run_out:
  "toasts_timed st \<Longrightarrow> is = tl_timers st \<Longrightarrow> tl_timers (foldl (\<lambda>s i. toast_timer i s) st is) = [] \<and>
     tl_toasts (foldl (\<lambda>s i. toast_timer i s) st is) = []"
proof (induction "is" arbitrary: st)
  case Nil
  then show ?case by (simp add: toasts_timed_def)
next
  case (Cons i ts)
  have "toasts_timed (toast_timer i st)" using Cons.prems(1) by (rule toast_timer_timed)
  moreover have "ts = tl_timers (toast_timer i st)" using Cons.prems(2) [symmetric] by (simp add: toast_timer_def)
  ultimately show ?case using Cons.IH [of "toast_timer i st"] by simp
qed

text \<open>Whatever was shown, expired and dismissed: once the timers that are running have fired, no toast is left, even when two of
  them were given the same identifier.  A timer with an identifier of its own takes away its toast and no other.\<close>

theorem toasts_disappear:
  assumes "toast_step\<^sup>*\<^sup>* \<lparr>tl_toasts = [], tl_timers = []\<rparr> st"
  shows "tl_toasts (foldl (\<lambda>s i. toast_timer i s) st (tl_timers st)) = [] \<and>
    (ident \<notin> to_id ` set (tl_toasts st) \<longrightarrow> tl_toasts (toast_timer ident (addToast ident message kind st)) = tl_toasts st)"
proof
  have "toasts_timed st"
    using assms
  proof (induction rule: rtranclp_induct)
    case base
    then show ?case by (simp add: toasts_timed_def)
  next
    case (step y z)
    then show ?case using toast_step_timed by blast
  qed
  then show "tl_toasts (foldl (\<lambda>s i. toast_timer i s) st (tl_timers st)) = []" using timers_run_out by blast
  show "ident \<notin> to_id ` set (tl_toasts st) \<longrightarrow> tl_toasts (toast_timer ident (addToast ident message kind st)) = tl_toasts st"
    by (auto simp: toast_timer_def removeToast_def addToast_def filter_id_conv)
qed

section \<open>A field for several values\<close>

record multi_select =
  ms_values     :: "string list"
  ms_inputValue :: string

definition add_value :: "string \<Rightarrow> string list \<Rightarrow> string list" where
  "add_value raw values = (if trim raw \<noteq> [] \<and> trim raw \<notin> set values then values @ [trim raw] else values)"

definition handleAdd :: "multi_select \<Rightarrow> multi_select" where
  "handleAdd st =
     (if trim (ms_inputValue st) \<noteq> [] \<and> trim (ms_inputValue st) \<notin> set (ms_values st)
      then st\<lparr>ms_values := add_value (ms_inputValue st) (ms_values st), ms_inputValue := []\<rparr>
      else st)"

definition remove_value :: "string \<Rightarrow> string list \<Rightarrow> string list" where
  "remove_value v values = filter (\<lambda>x. x \<noteq> v) values"

definition handleRemove :: "string \<Rightarrow> multi_select \<Rightarrow> multi_select" where
  "handleRemove v st = st\<lparr>ms_values := remove_value v (ms_values st)\<rparr>"

definition ms_handleKeyDown :: "string \<Rightarrow> multi_select \<Rightarrow> multi_select" where
  "ms_handleKeyDown key st =
     (if key = ''Enter'' then handleAdd st
      else if key = ''Backspace'' \<and> ms_inputValue st = [] \<and> ms_values st \<noteq> [] then st\<lparr>ms_values := butlast (ms_values st)\<rparr>
      else st)"

interpretation select_values: item_list trim add_value remove_value
  by unfold_locales (auto simp: add_value_def remove_value_def)

lemma handleAdd_values: "ms_values (handleAdd st) = add_value (ms_inputValue st) (ms_values st)"
  by (simp add: handleAdd_def add_value_def)

inductive select_step :: "multi_select \<Rightarrow> multi_select \<Rightarrow> bool" where
  select_input: "select_step st (st\<lparr>ms_inputValue := v\<rparr>)"
| select_key: "select_step st (ms_handleKeyDown key st)"
| select_remove: "select_step st (handleRemove v st)"

text \<open>Over any sequence of keys and clicks the values stay distinct, none of them blank.\<close>

theorem select_values_distinct:
  assumes "select_step\<^sup>*\<^sup>* st st'" and "distinct (ms_values st)" and "[] \<notin> set (ms_values st)"
  shows "distinct (ms_values st') \<and> [] \<notin> set (ms_values st')"
  using assms(1)
proof (induction rule: rtranclp_induct)
  case base
  then show ?case using assms(2,3) by simp
next
  case (step y z)
  from step(2) step.IH show ?case
  proof (induction rule: select_step.induct)
    case (select_key st key)
    then show ?case
      using select_values.distinct_add [of "ms_values st" "ms_inputValue st"] select_values.set_add [of "ms_inputValue st" "ms_values st"]
      by (auto simp: ms_handleKeyDown_def handleAdd_values distinct_butlast dest: in_set_butlastD split: if_splits)
  qed (auto simp: handleRemove_def remove_value_def)
qed

section \<open>The world map\<close>

definition alphaToNumeric :: "string js_obj" where
  "alphaToNumeric = [
     (''US'', ''840''), (''CA'', ''124''), (''GB'', ''826''), (''DE'', ''276''), (''FR'', ''250''), (''IT'', ''380''),
     (''ES'', ''724''), (''NL'', ''528''), (''SE'', ''752''), (''NO'', ''578''), (''DK'', ''208''), (''FI'', ''246''),
     (''IE'', ''372''), (''BE'', ''056''), (''AT'', ''040''), (''CH'', ''756''), (''PL'', ''616''), (''CZ'', ''203''),
     (''HU'', ''348''), (''RO'', ''642''), (''BG'', ''100''), (''HR'', ''191''), (''SI'', ''705''), (''SK'', ''703''),
     (''EE'', ''233''), (''LV'', ''428''), (''LT'', ''440''), (''CN'', ''156''), (''JP'', ''392''), (''KR'', ''410''),
     (''IN'', ''356''), (''ID'', ''360''), (''MY'', ''458''), (''SG'', ''702''), (''TH'', ''764''), (''VN'', ''704''),
     (''PH'', ''608''), (''AU'', ''036''), (''NZ'', ''554''), (''BR'', ''076''), (''MX'', ''484''), (''AR'', ''032''),
     (''CL'', ''152''), (''CO'', ''170''), (''PE'', ''604''), (''ZA'', ''710''), (''EG'', ''818''), (''DZ'', ''012''),
     (''MA'', ''504''), (''NG'', ''566''), (''KE'', ''404''), (''AE'', ''784''), (''SA'', ''682''), (''QA'', ''634''),
     (''KW'', ''414''), (''OM'', ''512''), (''BH'', ''048''), (''IQ'', ''368''), (''JO'', ''400''), (''LB'', ''422''),
     (''TR'', ''792''), (''RU'', ''643''), (''UA'', ''804''), (''KZ'', ''398''), (''UZ'', ''860''), (''LK'', ''144''),
     (''BD'', ''050''), (''PK'', ''586''), (''BN'', ''096''), (''KH'', ''116''), (''LA'', ''418''), (''MM'', ''104''),
     (''TL'', ''626''), (''HK'', ''344''), (''MO'', ''446''), (''TW'', ''158''), (''IR'', ''364''), (''IL'', ''376''),
     (''PS'', ''275''), (''LY'', ''434''), (''TN'', ''788''), (''EH'', ''732''), (''DJ'', ''262''), (''ET'', ''231''),
     (''SO'', ''706''), (''UG'', ''800''), (''TZ'', ''834''), (''MW'', ''454''), (''MZ'', ''508''), (''ZM'', ''894''),
     (''ZW'', ''716''), (''BW'', ''072''), (''NA'', ''516''), (''LS'', ''426''), (''SZ'', ''748''), (''SC'', ''690''),
     (''MU'', ''480''), (''KM'', ''174''), (''MG'', ''450''), (''RE'', ''638'')]"

definition numericToAlpha :: "string js_obj" where
  "numericToAlpha = [
     (''840'', ''US''), (''124'', ''CA''), (''826'', ''GB''), (''276'', ''DE''), (''250'', ''FR''), (''380'', ''IT''),
     (''724'', ''ES''), (''528'', ''NL''), (''752'', ''SE''), (''578'', ''NO''), (''208'', ''DK''), (''246'', ''FI''),
     (''372'', ''IE''), (''056'', ''BE''), (''040'', ''AT''), (''756'', ''CH''), (''616'', ''PL''), (''203'', ''CZ''),
     (''348'', ''HU''), (''642'', ''RO''), (''100'', ''BG''), (''191'', ''HR''), (''705'', ''SI''), (''703'', ''SK''),
     (''233'', ''EE''), (''428'', ''LV''), (''440'', ''LT''), (''156'', ''CN''), (''392'', ''JP''), (''410'', ''KR''),
     (''356'', ''IN''), (''360'', ''ID''), (''458'', ''MY''), (''702'', ''SG''), (''764'', ''TH''), (''704'', ''VN''),
     (''608'', ''PH''), (''036'', ''AU''), (''554'', ''NZ''), (''076'', ''BR''), (''484'', ''MX''), (''032'', ''AR''),
     (''152'', ''CL''), (''170'', ''CO''), (''604'', ''PE''), (''710'', ''ZA''), (''818'', ''EG''), (''012'', ''DZ''),
     (''504'', ''MA''), (''566'', ''NG''), (''404'', ''KE''), (''784'', ''AE''), (''682'', ''SA''), (''634'', ''QA''),
     (''414'', ''KW''), (''512'', ''OM''), (''048'', ''BH''), (''368'', ''IQ''), (''400'', ''JO''), (''422'', ''LB''),
     (''792'', ''TR''), (''643'', ''RU''), (''804'', ''UA''), (''398'', ''KZ''), (''860'', ''UZ''), (''144'', ''LK''),
     (''050'', ''BD''), (''586'', ''PK''), (''096'', ''BN''), (''116'', ''KH''), (''418'', ''LA''), (''104'', ''MM''),
     (''626'', ''TL''), (''344'', ''HK''), (''446'', ''MO''), (''158'', ''TW''), (''364'', ''IR''), (''376'', ''IL''),
     (''275'', ''PS''), (''434'', ''LY''), (''788'', ''TN''), (''732'', ''EH''), (''262'', ''DJ''), (''231'', ''ET''),
     (''706'', ''SO''), (''800'', ''UG''), (''834'', ''TZ''), (''454'', ''MW''), (''508'', ''MZ''), (''894'', ''ZM''),
     (''716'', ''ZW''), (''072'', ''BW''), (''516'', ''NA''), (''426'', ''LS''), (''748'', ''SZ''), (''690'', ''SC''),
     (''480'', ''MU''), (''174'', ''KM''), (''450'', ''MG''), (''638'', ''RE'')]"

definition countryMap :: "(string \<times> int) list \<Rightarrow> int js_obj" where
  "countryMap countryData = foldl (\<lambda>acc (country, total). obj_set acc (toUpperCase country) total) [] countryData"

definition top3Countries :: "(string \<times> int) list \<Rightarrow> string list" where
  "top3Countries countryData = List.map_filter (\<lambda>(country, _). obj_get alphaToNumeric (toUpperCase country)) (take 3 countryData)"

definition maxValue :: "(string \<times> int) list \<Rightarrow> int" where
  "maxValue countryData = fold max (map snd countryData) 1"

text \<open>The region under the pointer comes from the map data: its number and, if any, its name.\<close>

definition map_total :: "(string \<times> int) list \<Rightarrow> string \<Rightarrow> int" where
  "map_total countryData countryCode =
     (let alphaCode = (case obj_get numericToAlpha countryCode of Some a \<Rightarrow> a | None \<Rightarrow> countryCode);
          found = (\<lambda>k. case obj_get (countryMap countryData) k of Some t \<Rightarrow> t | None \<Rightarrow> 0)
      in if found (toUpperCase alphaCode) \<noteq> 0 then found (toUpperCase alphaCode) else found countryCode)"

definition handleMouseEnter :: "(string \<times> int) list \<Rightarrow> string \<Rightarrow> string option \<Rightarrow> string \<times> int" where
  "handleMouseEnter countryData countryCode name =
     (case name of Some n \<Rightarrow> if n = [] then getCountryName countryCode else n | None \<Rightarrow> getCountryName countryCode,
      map_total countryData countryCode)"

definition isTop3Country :: "(string \<times> int) list \<Rightarrow> string \<Rightarrow> bool" where
  "isTop3Country countryData countryCode \<longleftrightarrow> countryCode \<in> set (top3Countries countryData)"

lemma tables_inverse: "numericToAlpha = map (\<lambda>(a, n). (n, a)) alphaToNumeric"
  by (simp add: numericToAlpha_def alphaToNumeric_def)

lemma alpha_distinct: "distinct (map fst alphaToNumeric)" and numeric_distinct: "distinct (map snd alphaToNumeric)"
  by code_simp+

lemma alpha_upper: "list_all (\<lambda>(a, n). toUpperCase a = a) alphaToNumeric"
  by code_simp

lemma map_of_inverse:
  assumes "distinct (map fst xs)" and "distinct (map snd xs)"
  shows "map_of (map (\<lambda>(a, n). (n, a)) xs) n = Some a \<longleftrightarrow> map_of xs a = Some n"
proof -
  have "distinct (map fst (map (\<lambda>(a, n). (n, a)) xs))" using assms(2) by (simp add: comp_def case_prod_beta')
  then show ?thesis using assms(1) by (auto simp: map_of_eq_Some_iff)
qed

lemma in_set_map_filter: "y \<in> set (List.map_filter f xs) \<longleftrightarrow> (\<exists>x\<in>set xs. f x = Some y)"
  by (force simp: List.map_filter_def)

lemma countryMap_last:
  "obj_get (foldl (\<lambda>acc (country, total). obj_set acc (toUpperCase country) total) acc ds) k =
     (case find (\<lambda>(c, t). toUpperCase c = k) (rev ds) of Some (c, t) \<Rightarrow> Some t | None \<Rightarrow> obj_get acc k)"
proof (induction ds rule: rev_induct)
  case (snoc d ds)
  then show ?case by (cases d) (auto split: option.splits)
qed simp

text \<open>The tables of country codes are inverse to each other.  Pointing at a country of the table shows the figure the data has for
  its code, unless that is zero, and the countries coloured are those among the first three of the data.\<close>

theorem map_shows_country:
  assumes "obj_get alphaToNumeric a = Some n"
  shows "obj_get numericToAlpha n = Some a \<and>
    (find (\<lambda>(c, t). toUpperCase c = a) (rev ds) = Some (c, t) \<and> t \<noteq> 0 \<longrightarrow> snd (handleMouseEnter ds n name) = t) \<and>
    isTop3Country ds n = (\<exists>c t. (c, t) \<in> set (take 3 ds) \<and> toUpperCase c = a)"
proof -
  have inv: "obj_get numericToAlpha n' = Some b \<longleftrightarrow> obj_get alphaToNumeric b = Some n'" for b n'
    unfolding tables_inverse by (rule map_of_inverse [OF alpha_distinct numeric_distinct])
  have up: "toUpperCase a = a" using alpha_upper assms by (auto simp: list_all_iff dest: map_of_SomeD)
  have only: "obj_get alphaToNumeric b = Some n \<Longrightarrow> b = a" for b using assms inv by (metis option.inject)
  show ?thesis
  proof (intro conjI impI)
    show "obj_get numericToAlpha n = Some a" using assms inv by blast
    then show "snd (handleMouseEnter ds n name) = t" if "find (\<lambda>(c, t). toUpperCase c = a) (rev ds) = Some (c, t) \<and> t \<noteq> 0"
      using that up by (simp add: handleMouseEnter_def map_total_def countryMap_def countryMap_last Let_def)
    have "isTop3Country ds n \<longleftrightarrow> (\<exists>(c, t)\<in>set (take 3 ds). obj_get alphaToNumeric (toUpperCase c) = Some n)"
      unfolding isTop3Country_def top3Countries_def in_set_map_filter by (intro bex_cong) auto
    also have "\<dots> \<longleftrightarrow> (\<exists>c t. (c, t) \<in> set (take 3 ds) \<and> toUpperCase c = a)"
    proof -
      have "obj_get alphaToNumeric b = Some n \<longleftrightarrow> b = a" for b using assms only [of b] by blast
      then show ?thesis by blast
    qed
    finally show "isTop3Country ds n = (\<exists>c t. (c, t) \<in> set (take 3 ds) \<and> toUpperCase c = a)" .
  qed
qed

section \<open>Rows of the pipeline trace\<close>

record stage_trace =
  st_stage       :: string
  st_result      :: "string option"
  st_score       :: "int option"
  st_multiplier  :: "decimal option"
  st_final_score :: "int option"
  st_reason      :: "string option"
  st_evidence    :: "json option"
  st_rule_id     :: "string option"

definition stage_terminal :: "stage_trace \<Rightarrow> bool" where
  "stage_terminal s \<longleftrightarrow> st_result s = Some ''BLOCK'' \<or> st_result s = Some ''CHALLENGE''"

definition stage_triggered :: "stage_trace \<Rightarrow> bool" where
  "stage_triggered s \<longleftrightarrow> (\<exists>n. st_score s = Some n \<and> n \<noteq> 0) \<or> stage_terminal s"

definition dotColor :: "stage_trace \<Rightarrow> string" where
  "dotColor s =
     (if stage_terminal s then (if st_result s = Some ''BLOCK'' then ''bg-red-500'' else ''bg-amber-500'')
      else if stage_triggered s then (case st_score s of Some n \<Rightarrow> if n < 0 then ''bg-emerald-500'' else ''bg-amber-400'' | None \<Rightarrow> ''bg-amber-400'')
      else if st_result s = Some ''SKIP'' then ''bg-border''
      else ''bg-muted-foreground/30'')"

definition score_bar :: "int \<Rightarrow> string \<times> int" where
  "score_bar score = (if score \<ge> 80 then ''bg-red-500'' else if score \<ge> 50 then ''bg-amber-500'' else ''bg-emerald-500'', min score 100)"

text \<open>A stage is marked red exactly when it blocked, and green only for a score below zero.\<close>

lemma dot_colors:
  "dotColor s = ''bg-red-500'' \<longleftrightarrow> st_result s = Some ''BLOCK''"
  "dotColor s = ''bg-emerald-500'' \<Longrightarrow> \<exists>n. st_score s = Some n \<and> n < 0"
  by (auto simp: dotColor_def stage_terminal_def stage_triggered_def split: if_splits option.splits)

section \<open>Details of a certificate\<close>

text \<open>Both actions refresh the list on success; \<open>setValidating\<close> and \<open>setRenewing\<close> are reset in every case.\<close>

definition cd_handleValidate :: "server \<Rightarrow> certificate \<Rightarrow> ssl_effect list" where
  "cd_handleValidate server c =
     Ssl_Call (certificates_validate (cert_domain c)) #
     (case server (certificates_validate (cert_domain c)) of
        Inr _ \<Rightarrow> [Ssl_Toast ''Certificate validated successfully'' Toast_Success, Ssl_Refetch]
      | Inl e \<Rightarrow> [Ssl_Toast (err_message e) Toast_Error])"

definition cd_handleRenew :: "server \<Rightarrow> certificate \<Rightarrow> ssl_effect list" where
  "cd_handleRenew server c =
     Ssl_Call (certificates_renew (cert_domain c)) #
     (case server (certificates_renew (cert_domain c)) of
        Inr _ \<Rightarrow> [Ssl_Toast ''Renewal initiated successfully'' Toast_Success, Ssl_Refetch]
      | Inl e \<Rightarrow> [Ssl_Toast (err_message e) Toast_Error])"

definition getLogStatusBadge :: "string \<Rightarrow> string" where
  "getLogStatusBadge status =
     (if status = ''success'' then ''Success'' else if status = ''failed'' then ''Failed''
      else if status = ''pending'' then ''Pending'' else status)"

text \<open>The dialog's renewal fetches the list again, after which the polling goes on by itself, while the renewal of the table only
  marks the row.\<close>

lemma dialog_renewal_refetches:
  assumes "server (certificates_renew (cert_domain c)) = Inr v"
  shows "sl_inFlight (apply_effects (cd_handleRenew server c) l) = Suc (sl_inFlight l)"
  using assms by (simp add: cd_handleRenew_def apply_effects_simps fetchCertificates_start_def)

end
