(* ===== verification/Bot_Detector.thy ===== *)
theory Bot_Detector
  imports Paged_List
begin

text \<open>
  The bot detection page (\<open>src/frontend/src/pages/security/BotDetector.tsx\<close>): the table of patterns with its search,
  filter, pages, selection and bulk operations, the dialog for one or many patterns, the detection settings and the
  providers of address ranges.  \<open>patterns\<close>, what the query holds, is an argument; the answer of \<open>confirm\<close> is one too.
\<close>

section \<open>State\<close>

record bulk_edit_form =
  bef_apply_type      :: bool
  bef_apply_score     :: bool
  bef_apply_verify_ip :: bool
  bef_apply_enabled   :: bool
  bef_pattern_type    :: pattern_type
  bef_score           :: int
  bef_verify_ip       :: bool
  bef_enabled         :: bool

definition bulk_edit_initial :: bulk_edit_form where
  "bulk_edit_initial = \<lparr>bef_apply_type = False, bef_apply_score = False, bef_apply_verify_ip = False,
     bef_apply_enabled = False, bef_pattern_type = Bad_Bot, bef_score = 10, bef_verify_ip = False, bef_enabled = True\<rparr>"

definition new_pattern_form :: bot_pattern_request where
  "new_pattern_form = \<lparr>bpr_pattern_type = Bad_Bot, bpr_pattern = [], bpr_score = 10, bpr_verify_ip = False,
     bpr_enabled = True, bpr_description = []\<rparr>"

definition new_range_form :: bot_ip_range_request where
  "new_range_form = \<lparr>birr_name = [], birr_source_type = Json_Url, birr_url = [], birr_ip_ranges = [],
     birr_enabled = True, birr_description = []\<rparr>"

text \<open>The choices of the row selector.\<close>

datatype page_rows = Rows_10 | Rows_25 | Rows_50 | Rows_100

primrec rows_num :: "page_rows \<Rightarrow> nat" where
  "rows_num Rows_10 = 10"
| "rows_num Rows_25 = 25"
| "rows_num Rows_50 = 50"
| "rows_num Rows_100 = 100"

lemma rows_num_pos: "0 < rows_num r"
  by (cases r) simp_all

record bot_page =
  bd_searchTerm           :: string
  bd_currentPage          :: nat
  bd_selectedPatternIds   :: "int list"
  bd_itemsPerPage         :: page_rows
  bd_blockedBotsPage      :: nat
  bd_isPatternDialogOpen  :: bool
  bd_isRulesDialogOpen    :: bool
  bd_isIPRangeDialogOpen  :: bool
  bd_isBulkEditDialogOpen :: bool
  bd_editingPattern       :: "bot_pattern option"
  bd_patternFormData      :: bot_pattern_request
  bd_editingIPRange       :: "bot_ip_range option"
  bd_bulkEditForm         :: bulk_edit_form
  bd_ipRangeFormData      :: bot_ip_range_request
  bd_manualIPInput        :: string
  bd_configFormData       :: "bot_config option"
  bd_isRulesExpanded      :: bool
  bd_typeFilter           :: "pattern_type option"

definition bot_page_initial :: bot_page where
  "bot_page_initial = \<lparr>bd_searchTerm = [], bd_currentPage = 1, bd_selectedPatternIds = [], bd_itemsPerPage = Rows_10,
     bd_blockedBotsPage = 1, bd_isPatternDialogOpen = False, bd_isRulesDialogOpen = False,
     bd_isIPRangeDialogOpen = False, bd_isBulkEditDialogOpen = False, bd_editingPattern = None,
     bd_patternFormData = new_pattern_form, bd_editingIPRange = None, bd_bulkEditForm = bulk_edit_initial,
     bd_ipRangeFormData = new_range_form, bd_manualIPInput = [], bd_configFormData = None,
     bd_isRulesExpanded = False, bd_typeFilter = Some Good_Bot\<rparr>"

section \<open>The table\<close>

definition pattern_shown :: "bot_page \<Rightarrow> bot_pattern \<Rightarrow> bool" where
  "pattern_shown st p \<longleftrightarrow>
     (str_includes (toLowerCase (bp_pattern p)) (toLowerCase (bd_searchTerm st)) \<or>
      bp_description p \<noteq> [] \<and> str_includes (toLowerCase (bp_description p)) (toLowerCase (bd_searchTerm st))) \<and>
     (bd_typeFilter st = None \<or> Some (bp_pattern_type p) = bd_typeFilter st)"

definition filteredPatterns :: "bot_page \<Rightarrow> bot_pattern list option \<Rightarrow> bot_pattern list" where
  "filteredPatterns st patterns = (case patterns of None \<Rightarrow> [] | Some ps \<Rightarrow> filter (pattern_shown st) ps)"

definition pattern_pages :: "bot_page \<Rightarrow> bot_pattern list option \<Rightarrow> nat" where
  "pattern_pages st patterns = total_pages (length (filteredPatterns st patterns)) (rows_num (bd_itemsPerPage st))"

text \<open>What the memo of the page computes when it runs.\<close>

definition paginatedPatterns :: "bot_page \<Rightarrow> bot_pattern list option \<Rightarrow> nat \<Rightarrow> bot_pattern list" where
  "paginatedPatterns st patterns page = page_items page (rows_num (bd_itemsPerPage st)) (filteredPatterns st patterns)"

definition totalBlockedBotsPages :: "'a list \<Rightarrow> nat" where
  "totalBlockedBotsPages bots = total_pages (length bots) 10"

definition paginatedBlockedBots :: "'a list \<Rightarrow> nat \<Rightarrow> 'a list" where
  "paginatedBlockedBots bots page = page_items page 10 bots"

interpretation pattern_table: paged_view "filteredPatterns st ps" "rows_num (bd_itemsPerPage st)" "pattern_pages st ps"
    "paginatedPatterns st ps" for st ps
  by unfold_locales (simp_all add: rows_num_pos pattern_pages_def paginatedPatterns_def)

interpretation blocked_table: paged_view bots 10 "totalBlockedBotsPages bots" "paginatedBlockedBots bots" for bots :: "'a list"
  by unfold_locales (simp_all add: totalBlockedBotsPages_def paginatedBlockedBots_def)

text \<open>Good bots, bad bots, bad referers and suspicious agents, counted in one pass.\<close>

definition count_pattern :: "nat \<times> nat \<times> nat \<times> nat \<Rightarrow> bot_pattern \<Rightarrow> nat \<times> nat \<times> nat \<times> nat" where
  "count_pattern acc p =
     (case acc of (good, bad, ref, susp) \<Rightarrow>
        (case bp_pattern_type p of
           Good_Bot \<Rightarrow> (good + 1, bad, ref, susp)
         | Bad_Bot \<Rightarrow> (good, bad + 1, ref, susp)
         | Bad_Referer \<Rightarrow> (good, bad, ref + 1, susp)
         | Suspicious_Ua \<Rightarrow> (good, bad, ref, susp + 1)))"

definition pattern_counts :: "bot_pattern list option \<Rightarrow> nat \<times> nat \<times> nat \<times> nat" where
  "pattern_counts patterns = (case patterns of None \<Rightarrow> (0, 0, 0, 0) | Some ps \<Rightarrow> foldl count_pattern (0, 0, 0, 0) ps)"

definition click_type_filter :: "pattern_type \<Rightarrow> bot_page \<Rightarrow> bot_page" where
  "click_type_filter t st =
     st\<lparr>bd_typeFilter := (if bd_typeFilter st = Some t then None else Some t), bd_currentPage := 1\<rparr>"

definition search_patterns :: "string \<Rightarrow> bot_page \<Rightarrow> bot_page" where
  "search_patterns s st = st\<lparr>bd_searchTerm := s, bd_currentPage := 1\<rparr>"

section \<open>Patterns\<close>

definition handleOpenPatternDialog :: "bot_pattern option \<Rightarrow> bot_page \<Rightarrow> bot_page" where
  "handleOpenPatternDialog pattern st =
     (case pattern of
        Some p \<Rightarrow> st\<lparr>bd_editingPattern := Some p,
          bd_patternFormData := \<lparr>bpr_pattern_type = bp_pattern_type p, bpr_pattern = bp_pattern p, bpr_score = bp_score p,
            bpr_verify_ip = bp_verify_ip p, bpr_enabled = bp_enabled p, bpr_description = bp_description p\<rparr>\<rparr>
      | None \<Rightarrow> st\<lparr>bd_editingPattern := None, bd_patternFormData := new_pattern_form\<rparr>)
     \<lparr>bd_isPatternDialogOpen := True\<rparr>"

text \<open>\<open>result.message\<close> of a bulk operation.\<close>

definition result_message :: "json \<Rightarrow> string" where
  "result_message j = (case json_get j ''message'' of Some (JStr m) \<Rightarrow> m | _ \<Rightarrow> [])"

definition mutate_message :: "server \<Rightarrow> mutation_options \<Rightarrow> string \<Rightarrow> ui_effect list" where
  "mutate_message server mu fail_text =
     [Mutate mu, (case server (mu_call mu) of
                    Inr r \<Rightarrow> Toast (result_message r) Toast_Success
                  | Inl e \<Rightarrow> Toast (error_text e fail_text) Toast_Error)]"

definition bulk_create_of :: "bot_pattern_request \<Rightarrow> bulk_create_request" where
  "bulk_create_of f = \<lparr>bcr_patterns = clean_lines (bpr_pattern f), bcr_pattern_type = bpr_pattern_type f,
     bcr_score = bpr_score f, bcr_verify_ip = bpr_verify_ip f, bcr_enabled = bpr_enabled f,
     bcr_description = bpr_description f\<rparr>"

definition handleSavePattern :: "server \<Rightarrow> bot_page \<Rightarrow> bot_page \<times> ui_effect list" where
  "handleSavePattern server st =
     (case bd_editingPattern st of
        Some p \<Rightarrow>
          (let mu = useUpdateBotPattern (bp_id p) (bot_pattern_request_json (bd_patternFormData st))
           in (case server (mu_call mu) of Inr _ \<Rightarrow> st\<lparr>bd_isPatternDialogOpen := False\<rparr> | Inl _ \<Rightarrow> st,
               mutate_toast server mu ''Pattern updated successfully'' ''Failed to save pattern''))
      | None \<Rightarrow>
          if clean_lines (bpr_pattern (bd_patternFormData st)) = [] then
            (st, [Toast ''Enter at least one pattern'' Toast_Error])
          else
            (let mu = useBulkCreateBotPatterns (bulk_create_request_json (bulk_create_of (bd_patternFormData st)))
             in (case server (mu_call mu) of Inr _ \<Rightarrow> st\<lparr>bd_isPatternDialogOpen := False\<rparr> | Inl _ \<Rightarrow> st,
                 mutate_message server mu ''Failed to save pattern'')))"

definition handleDeletePattern :: "server \<Rightarrow> bool \<Rightarrow> int \<Rightarrow> ui_effect list" where
  "handleDeletePattern server confirmed ident =
     (if confirmed
      then mutate_toast server (useDeleteBotPattern ident) ''Pattern deleted successfully'' ''Failed to delete pattern''
      else [])"

section \<open>Settings\<close>

definition handleOpenRulesDialog :: "bot_config option \<Rightarrow> bot_page \<Rightarrow> bot_page" where
  "handleOpenRulesDialog botConfig st =
     (case botConfig of None \<Rightarrow> st | Some c \<Rightarrow> st\<lparr>bd_configFormData := Some c, bd_isRulesDialogOpen := True\<rparr>)"

text \<open>A score of the settings dialog: \<open>rules: { ...rules, [key]: parseInt(value) || 0 }\<close>.\<close>

definition rule_score_change :: "string \<Rightarrow> string \<Rightarrow> bot_page \<Rightarrow> bot_page" where
  "rule_score_change key text st =
     (case bd_configFormData st of
        None \<Rightarrow> st
      | Some c \<Rightarrow> st\<lparr>bd_configFormData := Some (c\<lparr>bc_rules := obj_set (bc_rules c) key (parseInt_or 0 text)\<rparr>)\<rparr>)"

definition handleSaveConfig :: "server \<Rightarrow> bot_page \<Rightarrow> bot_page \<times> ui_effect list" where
  "handleSaveConfig server st =
     (case bd_configFormData st of
        None \<Rightarrow> (st, [])
      | Some c \<Rightarrow>
          (let mu = useUpdateBotConfig (bot_config_json c)
           in (case server (mu_call mu) of Inr _ \<Rightarrow> st\<lparr>bd_isRulesDialogOpen := False\<rparr> | Inl _ \<Rightarrow> st,
               mutate_toast server mu ''Detection settings updated'' ''Failed to update settings'')))"

section \<open>Selection and bulk operations\<close>

definition handleBulkDeletePatterns :: "server \<Rightarrow> bot_page \<Rightarrow> bot_page \<times> ui_effect list" where
  "handleBulkDeletePatterns server st =
     (let ids = bd_selectedPatternIds st in
      if ids = [] then (st, [])
      else
        (let mu = useBulkDeleteBotPatterns ids
         in (case server (mu_call mu) of Inr _ \<Rightarrow> st\<lparr>bd_selectedPatternIds := []\<rparr> | Inl _ \<Rightarrow> st,
             mutate_message server mu ''Failed to bulk delete patterns'')))"

definition bulk_updates :: "int list \<Rightarrow> bulk_edit_form \<Rightarrow> bulk_update_request" where
  "bulk_updates ids f = \<lparr>bur_ids = ids,
     bur_pattern_type = (if bef_apply_type f then Some (bef_pattern_type f) else None),
     bur_score = (if bef_apply_score f then Some (bef_score f) else None),
     bur_verify_ip = (if bef_apply_verify_ip f then Some (bef_verify_ip f) else None),
     bur_enabled = (if bef_apply_enabled f then Some (bef_enabled f) else None)\<rparr>"

definition handleBulkEdit :: "server \<Rightarrow> bot_page \<Rightarrow> bot_page \<times> ui_effect list" where
  "handleBulkEdit server st =
     (let ids = bd_selectedPatternIds st; f = bd_bulkEditForm st in
      if ids = [] then (st, [])
      else if \<not> bef_apply_type f \<and> \<not> bef_apply_score f \<and> \<not> bef_apply_verify_ip f \<and> \<not> bef_apply_enabled f then
        (st, [Toast ''Select at least one field to update'' Toast_Error])
      else
        (let mu = useBulkUpdateBotPatterns (bulk_update_request_json (bulk_updates ids f))
         in (case server (mu_call mu) of
               Inr _ \<Rightarrow> st\<lparr>bd_isBulkEditDialogOpen := False, bd_selectedPatternIds := [],
                 bd_bulkEditForm := bulk_edit_initial\<rparr>
             | Inl _ \<Rightarrow> st,
             mutate_message server mu ''Failed to bulk update patterns'')))"

definition toggleSelectAllPatterns :: "bot_pattern list option \<Rightarrow> bot_page \<Rightarrow> bot_page" where
  "toggleSelectAllPatterns patterns st =
     (let allFilteredIds = map bp_id (filteredPatterns st patterns) in
      if list_all (\<lambda>i. i \<in> set (bd_selectedPatternIds st)) allFilteredIds
      then st\<lparr>bd_selectedPatternIds := []\<rparr>
      else st\<lparr>bd_selectedPatternIds := new_set allFilteredIds\<rparr>)"

definition toggleSelectPattern :: "int \<Rightarrow> bot_page \<Rightarrow> bot_page" where
  "toggleSelectPattern ident st = st\<lparr>bd_selectedPatternIds := set_toggle ident (bd_selectedPatternIds st)\<rparr>"

section \<open>Providers of address ranges\<close>

definition handleOpenIPRangeDialog :: "bot_ip_range option \<Rightarrow> bot_page \<Rightarrow> bot_page" where
  "handleOpenIPRangeDialog item st =
     (case item of
        Some r \<Rightarrow> st\<lparr>bd_editingIPRange := Some r,
          bd_ipRangeFormData := \<lparr>birr_name = bir_name r, birr_source_type = bir_source_type r, birr_url = bir_url r,
            birr_ip_ranges = bir_ip_ranges r, birr_enabled = bir_enabled r, birr_description = bir_description r\<rparr>,
          bd_manualIPInput := (if bir_source_type r = Manual then join [newline] (bir_ip_ranges r) else [])\<rparr>
      | None \<Rightarrow> st\<lparr>bd_editingIPRange := None, bd_ipRangeFormData := new_range_form, bd_manualIPInput := []\<rparr>)
     \<lparr>bd_isIPRangeDialogOpen := True\<rparr>"

definition range_request :: "bot_page \<Rightarrow> bot_ip_range_request" where
  "range_request st =
     (let data = bd_ipRangeFormData st in
      if birr_source_type data = Manual
      then data\<lparr>birr_ip_ranges := clean_lines (bd_manualIPInput st), birr_url := []\<rparr>
      else data\<lparr>birr_ip_ranges := []\<rparr>)"

definition handleSaveIPRange :: "server \<Rightarrow> bot_page \<Rightarrow> bot_page \<times> ui_effect list" where
  "handleSaveIPRange server st =
     (let data = bot_ip_range_request_json (range_request st);
          mu = (case bd_editingIPRange st of
                  Some r \<Rightarrow> useUpdateBotIPRange (bir_id r) data
                | None \<Rightarrow> useCreateBotIPRange data);
          ok_text = (case bd_editingIPRange st of
                  Some _ \<Rightarrow> ''IP range provider updated'' | None \<Rightarrow> ''IP range provider created'')
      in (case server (mu_call mu) of Inr _ \<Rightarrow> st\<lparr>bd_isIPRangeDialogOpen := False\<rparr> | Inl _ \<Rightarrow> st,
          mutate_toast server mu ok_text ''Failed to save IP range provider''))"

definition handleDeleteIPRange :: "server \<Rightarrow> bool \<Rightarrow> int \<Rightarrow> ui_effect list" where
  "handleDeleteIPRange server confirmed ident =
     (if confirmed
      then mutate_toast server (useDeleteBotIPRange ident) ''IP range provider deleted'' ''Failed to delete IP range provider''
      else [])"

definition handleSyncIPRange :: "server \<Rightarrow> int \<Rightarrow> ui_effect list" where
  "handleSyncIPRange server ident =
     mutate_toast server (useSyncBotIPRange ident) ''IP ranges synced successfully'' ''Failed to sync IP ranges''"

section \<open>Properties\<close>

lemma count_patterns:
  "foldl count_pattern (g, b, r, s) ps =
     (g + length (filter (\<lambda>p. bp_pattern_type p = Good_Bot) ps), b + length (filter (\<lambda>p. bp_pattern_type p = Bad_Bot) ps),
      r + length (filter (\<lambda>p. bp_pattern_type p = Bad_Referer) ps), s + length (filter (\<lambda>p. bp_pattern_type p = Suspicious_Ua) ps))"
  by (induction ps arbitrary: g b r s) (auto simp: count_pattern_def split: pattern_type.splits)

lemma count_patterns_total:
  "length (filter (\<lambda>p. bp_pattern_type p = Good_Bot) ps) + length (filter (\<lambda>p. bp_pattern_type p = Bad_Bot) ps) +
   length (filter (\<lambda>p. bp_pattern_type p = Bad_Referer) ps) + length (filter (\<lambda>p. bp_pattern_type p = Suspicious_Ua) ps) = length ps"
proof (induction ps)
  case (Cons p ps)
  then show ?case by (cases "bp_pattern_type p") simp_all
qed simp

text \<open>The pages of the pattern table, from the first to the number shown, are together the filtered patterns in order; none
  of them is empty or longer than the chosen number of rows, and a page beyond them is empty.  The four counts above the table
  add up to the number of patterns.\<close>

theorem pattern_table_pages:
  "concat (map (paginatedPatterns st ps) [1..<Suc (pattern_pages st ps)]) = filteredPatterns st ps \<and>
   list_all (\<lambda>p. paginatedPatterns st ps p \<noteq> [] \<and> length (paginatedPatterns st ps p) \<le> rows_num (bd_itemsPerPage st))
     [1..<Suc (pattern_pages st ps)] \<and>
   paginatedPatterns st ps (Suc (pattern_pages st ps) + k) = [] \<and>
   (case pattern_counts (Some all) of (good, bad, ref, susp) \<Rightarrow> good + bad + ref + susp = length all)"
proof (intro conjI)
  have "pattern_pages st ps = 0" if "filteredPatterns st ps = []"
    using that rows_num_pos [of "bd_itemsPerPage st"] by (simp add: pattern_pages_def total_pages_def)
  then show "list_all (\<lambda>p. paginatedPatterns st ps p \<noteq> [] \<and> length (paginatedPatterns st ps p) \<le> rows_num (bd_itemsPerPage st))
     [1..<Suc (pattern_pages st ps)]"
    using pattern_table.page_nonempty [of st ps] by (cases "filteredPatterns st ps = []") (auto simp: list_all_iff)
  show "case pattern_counts (Some all) of (good, bad, ref, susp) \<Rightarrow> good + bad + ref + susp = length all"
    using count_patterns_total [of all] by (simp add: pattern_counts_def count_patterns)
qed (rule pattern_table.pages_cover, rule pattern_table.beyond_empty, simp)

text \<open>Choosing another number of rows does nothing to a table that shows its first page: the memo of the page does not
  depend on the number of rows, so the old page stays while the number of pages is already that of the new size.  From the
  second page the same choice shows the first page at the new size.\<close>

theorem rows_change_ignored:
  assumes "10 < length xs"
  shows "snd (pg_memo (set_page_size n (paged_initial xs))) = page_items 1 10 xs \<and>
    pg_per (set_page_size n (paged_initial xs)) = n \<and>
    snd (pg_memo (set_page_size n (next_page (paged_initial xs)))) = page_items 1 n xs"
proof -
  have "fresh_page (paged_initial xs)" by (simp add: fresh_page_def paged_initial_def)
  note stale = page_size_stale [OF this, of n]
  have "total_pages (length xs) 10 \<noteq> 1" using assms by (simp add: total_pages_def)
  then show ?thesis
    using stale by (simp add: paged_initial_def next_page_def render_page_def set_page_size_def)
qed

theorem rows_change_ignored_witness:
  "length (snd (pg_memo (set_page_size 25 (paged_initial [0..<30])))) = 10"
  using rows_change_ignored [of "[0..<30]" 25] by (simp add: page_items_def slice_def)

lemma mutations_mutate_message [simp]: "mutations (mutate_message server mu t) = [mu]"
  by (simp add: mutate_message_def split: sum.splits)

lemma bot_routes:
  "route_call (mu_call (useBulkUpdateBotPatterns d)) = Some (Authenticated (BotPatternHandler BotPattern_BulkUpdate))"
  "route_call (mu_call (useBulkCreateBotPatterns d)) = Some (Authenticated (BotPatternHandler BotPattern_BulkCreate))"
  "route_call (mu_call (useBulkDeleteBotPatterns ids)) = Some (Authenticated (BotPatternHandler BotPattern_BulkDelete))"
  using fixed_endpoints_routed [of d ids 0]
  by (simp_all add: fixed_endpoints_def useBulkUpdateBotPatterns_def useBulkCreateBotPatterns_def useBulkDeleteBotPatterns_def)

lemma bulk_update_members:
  "json_get (bulk_update_request_json (bulk_updates ids f)) ''ids'' = Some (JArr (map JNum ids))"
  "json_get (bulk_update_request_json (bulk_updates ids f)) ''pattern_type'' =
     (if bef_apply_type f then Some (JStr (pattern_type_str (bef_pattern_type f))) else None)"
  "json_get (bulk_update_request_json (bulk_updates ids f)) ''score'' =
     (if bef_apply_score f then Some (JNum (bef_score f)) else None)"
  "json_get (bulk_update_request_json (bulk_updates ids f)) ''verify_ip'' =
     (if bef_apply_verify_ip f then Some (JBool (bef_verify_ip f)) else None)"
  "json_get (bulk_update_request_json (bulk_updates ids f)) ''enabled'' =
     (if bef_apply_enabled f then Some (JBool (bef_enabled f)) else None)"
  by (simp_all add: bulk_update_request_json_def bulk_updates_def field_def opt_field_def)

text \<open>A bulk edit changes what was ticked and nothing else.  With a selection and a ticked field one request goes to the
  handler of bulk updates, naming exactly the selected patterns and carrying a value for a field exactly when it is ticked;
  otherwise nothing is sent.  The selection is given up exactly when the server accepts the request.\<close>

theorem bulk_edit_ticked_fields:
  "let f = bd_bulkEditForm st; ids = bd_selectedPatternIds st; r = handleBulkEdit server st
   in if ids \<noteq> [] \<and> (bef_apply_type f \<or> bef_apply_score f \<or> bef_apply_verify_ip f \<or> bef_apply_enabled f)
      then \<exists>body mu. mutations (snd r) = [mu] \<and> mu = useBulkUpdateBotPatterns body \<and>
        route_call (mu_call mu) = Some (Authenticated (BotPatternHandler BotPattern_BulkUpdate)) \<and>
        json_get body ''ids'' = Some (JArr (map JNum ids)) \<and>
        json_get body ''pattern_type'' = (if bef_apply_type f then Some (JStr (pattern_type_str (bef_pattern_type f))) else None) \<and>
        json_get body ''score'' = (if bef_apply_score f then Some (JNum (bef_score f)) else None) \<and>
        json_get body ''verify_ip'' = (if bef_apply_verify_ip f then Some (JBool (bef_verify_ip f)) else None) \<and>
        json_get body ''enabled'' = (if bef_apply_enabled f then Some (JBool (bef_enabled f)) else None) \<and>
        bd_selectedPatternIds (fst r) = (if isl (server (mu_call mu)) then ids else [])
      else mutations (snd r) = [] \<and> fst r = st"
proof -
  define f ids where "f = bd_bulkEditForm st" and "ids = bd_selectedPatternIds st"
  let ?ticked = "bef_apply_type f \<or> bef_apply_score f \<or> bef_apply_verify_ip f \<or> bef_apply_enabled f"
  let ?body = "bulk_update_request_json (bulk_updates ids f)"
  show ?thesis
  proof (cases "ids \<noteq> [] \<and> ?ticked")
    case False
    then show ?thesis by (auto simp: handleBulkEdit_def f_def ids_def Let_def)
  next
    case True
    then have r: "handleBulkEdit server st =
        (case server (mu_call (useBulkUpdateBotPatterns ?body)) of
           Inr _ \<Rightarrow> st\<lparr>bd_isBulkEditDialogOpen := False, bd_selectedPatternIds := [], bd_bulkEditForm := bulk_edit_initial\<rparr>
         | Inl _ \<Rightarrow> st,
         mutate_message server (useBulkUpdateBotPatterns ?body) ''Failed to bulk update patterns'')"
      by (auto simp: handleBulkEdit_def f_def ids_def Let_def)
    have sel: "bd_selectedPatternIds (fst (handleBulkEdit server st)) =
        (if isl (server (mu_call (useBulkUpdateBotPatterns ?body))) then ids else [])"
      unfolding r by (simp add: ids_def isl_def split: sum.splits)
    show ?thesis
      unfolding Let_def f_def [symmetric] ids_def [symmetric]
      using True sel bot_routes(1) [of ?body] bulk_update_members [of ids f] mutations_mutate_message r
      by (simp only: if_True simp_thms snd_conv) blast
  qed
qed

text \<open>A manual provider of address ranges that is opened and saved unchanged is sent back with the same ranges, when they are
  stored without blanks; a provider with an address to fetch from is sent without ranges.\<close>

theorem range_provider_roundtrip:
  assumes "list_all (\<lambda>l. l \<noteq> [] \<and> trim l = l \<and> newline \<notin> set l) (bir_ip_ranges r)"
  shows "let r' = range_request (handleOpenIPRangeDialog (Some r) st)
    in birr_name r' = bir_name r \<and> birr_source_type r' = bir_source_type r \<and> birr_enabled r' = bir_enabled r \<and>
       birr_description r' = bir_description r \<and>
       birr_ip_ranges r' = (if bir_source_type r = Manual then bir_ip_ranges r else []) \<and>
       birr_url r' = (if bir_source_type r = Manual then [] else bir_url r) \<and>
       mutations (snd (handleSaveIPRange server (handleOpenIPRangeDialog (Some r) st))) =
         [useUpdateBotIPRange (bir_id r) (bot_ip_range_request_json r')]"
proof -
  have "clean_lines (join [newline] (bir_ip_ranges r)) = bir_ip_ranges r"
    using assms by (rule clean_lines_join)
  then show ?thesis
    by (auto simp: range_request_def handleOpenIPRangeDialog_def handleSaveIPRange_def Let_def)
qed

theorem range_provider_roundtrip_witness:
  "birr_ip_ranges (range_request (handleOpenIPRangeDialog (Some \<lparr>bir_id = 1, bir_name = ''bing'', bir_source_type = Manual,
     bir_url = [], bir_ip_ranges = [''10.0.0.0/8'', ''::1''], bir_enabled = True, bir_description = [],
     bir_last_fetched = None, bir_created_at = [], bir_updated_at = []\<rparr>) bot_page_initial)) = [''10.0.0.0/8'', ''::1'']"
proof -
  let ?r = "\<lparr>bir_id = 1, bir_name = ''bing'', bir_source_type = Manual,
     bir_url = [], bir_ip_ranges = [''10.0.0.0/8'', ''::1''], bir_enabled = True, bir_description = [],
     bir_last_fetched = None, bir_created_at = [], bir_updated_at = []\<rparr>"
  have "list_all (\<lambda>l. l \<noteq> [] \<and> trim l = l \<and> newline \<notin> set l) (bir_ip_ranges ?r)" by code_simp
  from range_provider_roundtrip [OF this, of bot_page_initial] show ?thesis by (simp add: Let_def)
qed

end
