(* ===== verification/Views.thy ===== *)
theory Views
  imports Paged_List
begin

text \<open>
  What the pages show: dialogs with their labelled fields and their button, and the row of buttons under a table.  A view
  is a value computed from the state of a page; of the markup it keeps the texts, the values, what is left out and what
  is disabled, and drops the layout, the colours and the placeholders.  The locale \<open>paged_nav\<close> is what every pager promises: a page
  number within the pages of its table, as long as the table does not shrink.
\<close>

section \<open>Dialogs\<close>

datatype input_value =
    Text_In string
  | Lines_In string
  | Number_In int
  | Empty_In
  | Switch_In bool
  | Choice_In string "(string \<times> string) list"

record input_view =
  iv_label    :: string
  iv_value    :: input_value
  iv_hint     :: string
  iv_disabled :: bool

record dialog_view =
  dlg_title       :: string
  dlg_description :: string
  dlg_inputs      :: "input_view list"
  dlg_submit      :: string
  dlg_disabled    :: bool

abbreviation input_of :: "string \<Rightarrow> input_value \<Rightarrow> string \<Rightarrow> input_view" where
  "input_of l v h \<equiv> \<lparr>iv_label = l, iv_value = v, iv_hint = h, iv_disabled = False\<rparr>"

abbreviation input_unless :: "bool \<Rightarrow> string \<Rightarrow> input_value \<Rightarrow> string \<Rightarrow> input_view" where
  "input_unless dis l v h \<equiv> \<lparr>iv_label = l, iv_value = v, iv_hint = h, iv_disabled = dis\<rparr>"

text \<open>A choice shows one of its options.\<close>

definition choice_ok :: "input_view \<Rightarrow> bool" where
  "choice_ok i = (case iv_value i of Choice_In v options \<Rightarrow> v \<in> fst ` set options | _ \<Rightarrow> True)"

section \<open>Pagers\<close>

text \<open>The buttons are there when there is more than one page; the first is disabled on page 1, the second on the last.\<close>

definition pager_previous :: "nat \<Rightarrow> nat \<Rightarrow> nat option" where
  "pager_previous pages page = (if pages \<le> 1 \<or> page = 1 then None else Some (page - 1))"

definition pager_next :: "nat \<Rightarrow> nat \<Rightarrow> nat option" where
  "pager_next pages page = (if pages \<le> 1 \<or> page = pages then None else Some (page + 1))"

text \<open>\<open>Math.min(n, (page - 1) * per + 1)\<close> and \<open>Math.min(n, page * per)\<close>.\<close>

definition showing_from :: "nat \<Rightarrow> nat \<Rightarrow> nat \<Rightarrow> nat" where
  "showing_from n per page = min n ((page - 1) * per + 1)"

definition showing_to :: "nat \<Rightarrow> nat \<Rightarrow> nat \<Rightarrow> nat" where
  "showing_to n per page = min n (page * per)"

definition page_ok :: "nat \<Rightarrow> nat \<Rightarrow> bool" where
  "page_ok pages page \<longleftrightarrow> 1 \<le> page \<and> page \<le> max 1 pages"

lemma page_ok_first [simp]: "page_ok pages 1" "page_ok pages (Suc 0)"
  by (simp_all add: page_ok_def)

lemma page_ok_mono: "page_ok pages page \<Longrightarrow> pages \<le> pages' \<Longrightarrow> page_ok pages' page"
  by (auto simp: page_ok_def)

lemma pager_ok:
  "page_ok pages page \<Longrightarrow> pager_previous pages page = Some q \<Longrightarrow> page_ok pages q"
  "page_ok pages page \<Longrightarrow> pager_next pages page = Some q \<Longrightarrow> page_ok pages q"
  by (auto simp: page_ok_def pager_previous_def pager_next_def split: if_splits)

text \<open>The caption names the rows of the page shown, counted from 1.\<close>

lemma caption_counts:
  assumes "0 < per" and "page_ok (total_pages (length xs) per) page" and "xs \<noteq> []"
  shows "1 \<le> showing_from (length xs) per page \<and> showing_from (length xs) per page \<le> showing_to (length xs) per page \<and>
    showing_to (length xs) per page \<le> length xs \<and>
    Suc (showing_to (length xs) per page) - showing_from (length xs) per page = length (page_items page per xs)"
proof -
  have "0 < total_pages (length xs) per"
    using total_pages_enough [OF assms(1), of "length xs"] assms(3) by (cases "total_pages (length xs) per") auto
  then have p: "1 \<le> page" "page \<le> total_pages (length xs) per" using assms(2) by (auto simp: page_ok_def)
  then obtain q where q: "page = Suc q" by (cases page) auto
  have lt: "q * per < length xs" using total_pages_least [OF assms(1), of page "length xs"] p q by simp
  then show ?thesis
    using assms(1) by (auto simp: showing_from_def showing_to_def q page_items_take min_def)
qed

text \<open>How a page number moves: back to the first page, not at all while the table keeps its pages, or by a button.\<close>

definition page_move :: "nat \<Rightarrow> nat \<Rightarrow> nat \<Rightarrow> nat \<Rightarrow> bool" where
  "page_move pages page pages' page' \<longleftrightarrow> page' = 1 \<or> page' = page \<and> pages \<le> pages' \<or>
     pages' = pages \<and> (pager_previous pages page = Some page' \<or> pager_next pages page = Some page')"

lemma page_move_ok: "page_move pages page pages' page' \<Longrightarrow> page_ok pages page \<Longrightarrow> page_ok pages' page'"
  by (auto simp: page_move_def intro: page_ok_mono pager_ok)

locale paged_nav =
  fixes page :: "'s \<Rightarrow> nat" and pages :: "'s \<Rightarrow> nat" and step :: "'s \<Rightarrow> 's \<Rightarrow> bool"
  assumes step_page: "step s t \<Longrightarrow> page_move (pages s) (page s) (pages t) (page t)"
begin

lemma reach_ok: "step\<^sup>*\<^sup>* s t \<Longrightarrow> page_ok (pages s) (page s) \<Longrightarrow> page_ok (pages t) (page t)"
  by (induction rule: rtranclp_induct) (auto intro: page_move_ok step_page)

end

text \<open>\<open>s.charAt(0).toUpperCase() + s.slice(1)\<close>.\<close>

definition capitalised :: "string \<Rightarrow> string" where
  "capitalised s = toUpperCase (take 1 s) @ drop 1 s"

end
