(* ===== verification/Bot_Dialogs.thy ===== *)
theory Bot_Dialogs
  imports Bot_Detector Views
begin

text \<open>
  What the bot detection page shows and what each of its controls does
  (\<open>src/frontend/src/pages/security/BotDetector.tsx\<close>, the markup of the component): the weights of the detection
  rules, the rows of its tables, the four dialogs, and the page as a machine whose steps are the controls.  The handlers
  the controls call are in \<open>Bot_Detector\<close>.
\<close>

section \<open>The cards above the tables\<close>

definition bot_summary :: "bot_pattern list option \<Rightarrow> nat \<times> nat" where
  "bot_summary patterns =
     (case patterns of None \<Rightarrow> (0, 0) | Some ps \<Rightarrow> (length ps, length (filter bp_enabled ps)))"

text \<open>The weights, each with its label and its key: six that are always shown, and the others.\<close>

definition card_weights :: "(string \<times> string) list" where
  "card_weights = [
     (''Missing User-Agent'', ''missing_user_agent''),
     (''Short User-Agent'', ''short_user_agent''),
     (''Missing Accept'', ''missing_accept''),
     (''Generic Accept (*/*)'', ''generic_accept''),
     (''Missing Accept-Language'', ''missing_accept_language''),
     (''Headless Browser'', ''headless_browser'')]"

definition card_more_weights :: "(string \<times> string) list" where
  "card_more_weights = [
     (''Missing Sec-Fetch'', ''missing_sec_fetch''),
     (''Missing Accept-Encoding'', ''missing_accept_encoding''),
     (''Incomplete Sec-Fetch'', ''incomplete_sec_fetch''),
     (''No Browser Indicators'', ''no_browser_indicators''),
     (''Chromium Missing Sec-CH-UA'', ''chromium_missing_sec_ch_ua''),
     (''Chromium Missing Sec-Fetch'', ''chromium_missing_sec_fetch''),
     (''Firefox Has Sec-CH-UA'', ''firefox_has_sec_ch_ua''),
     (''Wildcard Accept + Browser UA'', ''wildcard_accept_browser_ua''),
     (''No Gzip or Brotli'', ''no_gzip_or_br''),
     (''Geo-Lang Mismatch'', ''geo_lang_mismatch''),
     (''Repeat No Cookie'', ''repeat_no_cookie''),
     (''Burst Rate'', ''burst_rate''),
     (''Regular Interval'', ''regular_interval''),
     (''Unknown Browser/Bot'', ''unknown_browser_bot'')]"

text \<open>\<open>+{botConfig?.rules.k}\<close>: a weight that is not configured leaves the sign alone, but for
  \<open>headless_browser || 0\<close>.\<close>

definition rule_weight :: "bot_config \<Rightarrow> string \<Rightarrow> int option" where
  "rule_weight c key =
     (case obj_get (bc_rules c) key of
        Some n \<Rightarrow> Some n
      | None \<Rightarrow> if key = ''headless_browser'' then Some 0 else None)"

definition weight_badge :: "bot_config option \<Rightarrow> string \<Rightarrow> string" where
  "weight_badge botConfig key =
     ''+'' @ (case botConfig of
        None \<Rightarrow> if key = ''headless_browser'' then ''0'' else []
      | Some c \<Rightarrow> (case rule_weight c key of Some n \<Rightarrow> int_to_string n | None \<Rightarrow> []))"

definition weights_card :: "bot_config option \<Rightarrow> bot_page \<Rightarrow> (string \<times> string) list" where
  "weights_card botConfig st =
     map (\<lambda>(label, key). (label, weight_badge botConfig key))
       (card_weights @ (if bd_isRulesExpanded st then card_more_weights else []))"

definition expand_text :: "bot_config option \<Rightarrow> bot_page \<Rightarrow> string" where
  "expand_text botConfig st =
     (if bd_isRulesExpanded st then ''Show less''
      else ''Click to show all ('' @ nat_to_string (case botConfig of None \<Rightarrow> 0 | Some c \<Rightarrow> length (bc_rules c)) @ '' rules)'')"

definition toggle_rules_expanded :: "bot_page \<Rightarrow> bot_page" where
  "toggle_rules_expanded st = st\<lparr>bd_isRulesExpanded := \<not> bd_isRulesExpanded st\<rparr>"

text \<open>The switch of DNS verification sends the configuration the query holds with the one field changed.\<close>

definition dns_switch_shown :: "bot_config option \<Rightarrow> bool" where
  "dns_switch_shown botConfig = (case botConfig of None \<Rightarrow> True | Some c \<Rightarrow> bc_dns_verification c)"

definition dns_switch :: "server \<Rightarrow> bot_config option \<Rightarrow> bool \<Rightarrow> ui_effect list" where
  "dns_switch server botConfig v =
     (case botConfig of
        None \<Rightarrow> []
      | Some c \<Rightarrow> mutate_toast server (useUpdateBotConfig (bot_config_json (c\<lparr>bc_dns_verification := v\<rparr>)))
          (''DNS verification '' @ enabled_word v) ''Failed to update setting'')"

section \<open>The rows of the tables\<close>

definition plural_s :: "nat \<Rightarrow> string" where
  "plural_s n = (if n = 1 then [] else ''s'')"

record range_row =
  rgr_name    :: string
  rgr_kind    :: string
  rgr_status  :: string
  rgr_url     :: "string option"
  rgr_count   :: string
  rgr_synced  :: "string option"
  rgr_note    :: "string option"
  rgr_syncing :: bool

text \<open>The date \<open>last_fetched\<close> is printed by \<open>locale_date\<close>, the browser's \<open>toLocaleDateString\<close>.\<close>

definition range_row_view :: "(string \<Rightarrow> string) \<Rightarrow> bot_ip_range \<Rightarrow> range_row" where
  "range_row_view locale_date r = \<lparr>
     rgr_name = bir_name r,
     rgr_kind = (if bir_source_type r = Json_Url then ''JSON URL'' else ''Manual''),
     rgr_status = (if bir_enabled r then ''Active'' else ''Disabled''),
     rgr_url = (if bir_source_type r = Json_Url \<and> bir_url r \<noteq> [] then Some (bir_url r) else None),
     rgr_count = nat_to_string (length (bir_ip_ranges r)) @ '' range'' @ plural_s (length (bir_ip_ranges r)),
     rgr_synced = (case bir_last_fetched r of
        None \<Rightarrow> None | Some d \<Rightarrow> if d = [] then None else Some (''Synced: '' @ locale_date d)),
     rgr_note = (if bir_description r = [] then None else Some (bir_description r)),
     rgr_syncing = (bir_source_type r = Json_Url)\<rparr>"

text \<open>\<open>s.replace(c, d)\<close>: the first occurrence.\<close>

fun replace_first :: "char \<Rightarrow> char \<Rightarrow> string \<Rightarrow> string" where
  "replace_first c d [] = []"
| "replace_first c d (x # xs) = (if x = c then d # xs else x # replace_first c d xs)"

record pattern_row =
  pr_ticked  :: bool
  pr_pattern :: string
  pr_note    :: "string option"
  pr_type    :: string
  pr_score   :: string
  pr_verify  :: string
  pr_status  :: string

definition pattern_row_view :: "bot_page \<Rightarrow> bot_pattern \<Rightarrow> pattern_row" where
  "pattern_row_view st p = \<lparr>
     pr_ticked = (bp_id p \<in> set (bd_selectedPatternIds st)),
     pr_pattern = bp_pattern p,
     pr_note = (if bp_description p = [] then None else Some (bp_description p)),
     pr_type = replace_first (CHR ''_'') (CHR '' '') (pattern_type_str (bp_pattern_type p)),
     pr_score = (if bp_score p > 0 then ''+'' @ int_to_string (bp_score p) else int_to_string (bp_score p)),
     pr_verify = (if bp_verify_ip p then ''DNS VERIFY'' else ''None''),
     pr_status = (if bp_enabled p then ''Active'' else ''Disabled'')\<rparr>"

definition all_patterns_ticked :: "bot_pattern list option \<Rightarrow> bot_page \<Rightarrow> bool" where
  "all_patterns_ticked patterns st =
     (let shown = filteredPatterns st patterns
      in 0 < length shown \<and> list_all (\<lambda>p. bp_id p \<in> set (bd_selectedPatternIds st)) shown)"

text \<open>The caption under the table, and the offer to select all that match.\<close>

definition pattern_caption :: "bot_pattern list option \<Rightarrow> bot_page \<Rightarrow> nat \<times> nat \<times> nat" where
  "pattern_caption patterns st =
     (let n = length (filteredPatterns st patterns); per = rows_num (bd_itemsPerPage st)
      in (showing_from n per (bd_currentPage st), showing_to n per (bd_currentPage st), n))"

definition select_matching_shown :: "bot_pattern list option \<Rightarrow> bot_page \<Rightarrow> bool" where
  "select_matching_shown patterns st \<longleftrightarrow>
     bd_selectedPatternIds st \<noteq> [] \<and> length (bd_selectedPatternIds st) < length (filteredPatterns st patterns)"

definition select_matching :: "bot_pattern list option \<Rightarrow> bot_page \<Rightarrow> bot_page" where
  "select_matching patterns st = st\<lparr>bd_selectedPatternIds := new_set (map bp_id (filteredPatterns st patterns))\<rparr>"

definition choose_rows :: "page_rows \<Rightarrow> bot_page \<Rightarrow> bot_page" where
  "choose_rows r st = st\<lparr>bd_itemsPerPage := r, bd_currentPage := 1\<rparr>"

definition pattern_pager :: "bot_pattern list option \<Rightarrow> bot_page \<Rightarrow> nat option \<times> nat option" where
  "pattern_pager patterns st =
     (let pages = pattern_pages st patterns
      in (pager_previous pages (bd_currentPage st), pager_next pages (bd_currentPage st)))"

record blocked_bot =
  bb_ua    :: string
  bb_count :: int

definition blocked_row_view :: "bot_page \<Rightarrow> nat \<Rightarrow> blocked_bot \<Rightarrow> string \<times> string \<times> string" where
  "blocked_row_view st i b =
     (let globalIndex = (bd_blockedBotsPage st - 1) * 10 + i
      in (''#'' @ nat_to_string (globalIndex + 1), int_to_string (bb_count b) @ '' visitor'', bb_ua b))"

definition blocked_pager :: "blocked_bot list \<Rightarrow> bot_page \<Rightarrow> nat option \<times> nat option" where
  "blocked_pager bots st =
     (let pages = totalBlockedBotsPages bots
      in (pager_previous pages (bd_blockedBotsPage st), pager_next pages (bd_blockedBotsPage st)))"


section \<open>The dialog for patterns\<close>

definition type_options :: "(string \<times> string) list" where
  "type_options = [(''good_bot'', ''Good Bot (Whitelisted)''), (''bad_bot'', ''Bad Bot (Block/Challenge)''),
     (''bad_referer'', ''Bad Referrer (Block/Challenge)''), (''suspicious_ua'', ''Suspicious (Higher Scrutiny)'')]"

text \<open>Another classification changes the score when its sign no longer fits.\<close>

definition suggested_score :: "pattern_type \<Rightarrow> int \<Rightarrow> int" where
  "suggested_score newType score =
     (if newType = Good_Bot \<and> score \<ge> 0 then - 100
      else if newType \<noteq> Good_Bot \<and> score < 0 then 10
      else score)"

definition pattern_type_change :: "pattern_type \<Rightarrow> bot_page \<Rightarrow> bot_page" where
  "pattern_type_change newType st =
     (let f = bd_patternFormData st
      in st\<lparr>bd_patternFormData := f\<lparr>bpr_pattern_type := newType, bpr_score := suggested_score newType (bpr_score f)\<rparr>\<rparr>)"

definition pattern_score_change :: "string \<Rightarrow> bot_page \<Rightarrow> bot_page" where
  "pattern_score_change text st =
     st\<lparr>bd_patternFormData := (bd_patternFormData st)\<lparr>bpr_score := parseInt_or 0 text\<rparr>\<rparr>"

definition pattern_text_change :: "string \<Rightarrow> bot_page \<Rightarrow> bot_page" where
  "pattern_text_change text st = st\<lparr>bd_patternFormData := (bd_patternFormData st)\<lparr>bpr_pattern := text\<rparr>\<rparr>"

definition pattern_description_change :: "string \<Rightarrow> bot_page \<Rightarrow> bot_page" where
  "pattern_description_change text st = st\<lparr>bd_patternFormData := (bd_patternFormData st)\<lparr>bpr_description := text\<rparr>\<rparr>"

definition pattern_verify_change :: "bool \<Rightarrow> bot_page \<Rightarrow> bot_page" where
  "pattern_verify_change v st = st\<lparr>bd_patternFormData := (bd_patternFormData st)\<lparr>bpr_verify_ip := v\<rparr>\<rparr>"

definition pattern_classification_inputs :: "bot_pattern_request \<Rightarrow> input_view list" where
  "pattern_classification_inputs f = [
     input_of ''Classification'' (Choice_In (pattern_type_str (bpr_pattern_type f)) type_options) [],
     input_of ''Assigned Score'' (Number_In (bpr_score f))
       (if bpr_pattern_type f = Good_Bot then ''Use negative score (e.g., -100) to whitelist and bypass all checks.''
        else ''Range: 0-50 points. Higher scores trigger stricter actions.'')]"

definition pattern_text_inputs :: "bool \<Rightarrow> bot_pattern_request \<Rightarrow> input_view list" where
  "pattern_text_inputs editing f = [
     (if editing
      then input_of ''Pattern Substring'' (Text_In (bpr_pattern f))
        ''Matching is case-insensitive. Provide the unique part of the UA string or Referer domain.''
      else input_of ''Patterns (one per line)'' (Lines_In (bpr_pattern f))
        ''Enter one pattern substring per line. Matching is case-insensitive.''),
     input_of ''Internal Description'' (Text_In (bpr_description f)) [],
     input_of ''Verify Identity via DNS'' (Switch_In (bpr_verify_ip f))
       ''Confirm bot origin (recommended for search engines).'']"

definition pattern_dialog :: "bot_page \<Rightarrow> dialog_view option" where
  "pattern_dialog st =
     (if \<not> bd_isPatternDialogOpen st then None
      else
        (let editing = (bd_editingPattern st \<noteq> None); f = bd_patternFormData st
         in Some \<lparr>
              dlg_title = (if editing then ''Edit Detection Pattern'' else ''Add Detection Patterns''),
              dlg_description = (if editing then ''Update the pattern configuration.''
                else ''Define User-Agent or Referer substrings and their associated threat level.''),
              dlg_inputs = pattern_classification_inputs f @ pattern_text_inputs editing f,
              dlg_submit = (if editing then ''Save'' else ''Create''),
              dlg_disabled = (bpr_pattern f = [])\<rparr>))"

section \<open>The dialog for the weights\<close>

definition basic_weights :: "(string \<times> string) list" where
  "basic_weights = [
     (''Missing User-Agent'', ''missing_user_agent''),
     (''Short User-Agent'', ''short_user_agent''),
     (''Missing Accept'', ''missing_accept''),
     (''Generic Accept (*/*)'', ''generic_accept'')]"

definition completeness_weights :: "(string \<times> string) list" where
  "completeness_weights = [
     (''Missing Accept-Language'', ''missing_accept_language''),
     (''Missing Accept-Encoding'', ''missing_accept_encoding''),
     (''Missing Sec-Fetch'', ''missing_sec_fetch''),
     (''Incomplete Sec-Fetch'', ''incomplete_sec_fetch''),
     (''No Browser Indicators'', ''no_browser_indicators'')]"

definition consistency_weights :: "(string \<times> string) list" where
  "consistency_weights = [
     (''Chromium Missing Sec-CH-UA'', ''chromium_missing_sec_ch_ua''),
     (''Chromium Missing Sec-Fetch'', ''chromium_missing_sec_fetch''),
     (''Firefox Has Sec-CH-UA'', ''firefox_has_sec_ch_ua''),
     (''Wildcard Accept + Browser UA'', ''wildcard_accept_browser_ua''),
     (''No Gzip or Brotli'', ''no_gzip_or_br''),
     (''Headless Browser'', ''headless_browser'')]"

definition behavioral_weights :: "(string \<times> string) list" where
  "behavioral_weights = [
     (''Geo-Lang Mismatch'', ''geo_lang_mismatch''),
     (''Repeat No Cookie'', ''repeat_no_cookie''),
     (''Burst Rate'', ''burst_rate''),
     (''Regular Interval'', ''regular_interval''),
     (''Unknown Browser/Bot'', ''unknown_browser_bot'')]"

definition weight_sections :: "(string \<times> (string \<times> string) list) list" where
  "weight_sections = [(''Basic Headers'', basic_weights), (''Completeness Checks'', completeness_weights),
     (''Browser Consistency'', consistency_weights), (''Behavioral Analysis'', behavioral_weights)]"

definition weight_keys :: "string list" where
  "weight_keys = map snd (concat (map snd weight_sections))"

definition weight_input :: "bot_config \<Rightarrow> string \<times> string \<Rightarrow> input_view" where
  "weight_input c lk = input_of (fst lk) (case rule_weight c (snd lk) of Some n \<Rightarrow> Number_In n | None \<Rightarrow> Empty_In) []"

definition rules_dialog :: "bot_page \<Rightarrow> (dialog_view \<times> string list) option" where
  "rules_dialog st =
     (if \<not> bd_isRulesDialogOpen st then None
      else
        (let cfg = bd_configFormData st
         in Some (\<lparr>dlg_title = ''Heuristic Rule Weights'',
                   dlg_description = ''Assign point weights to built-in browser-consistency checks.'',
                   dlg_inputs = (case cfg of None \<Rightarrow> []
                     | Some c \<Rightarrow> map (weight_input c) (concat (map snd weight_sections))),
                   dlg_submit = ''Save'', dlg_disabled = False\<rparr>,
                  case cfg of None \<Rightarrow> [] | Some c \<Rightarrow> map fst weight_sections)))"

section \<open>The dialog for address ranges\<close>

definition range_name_change :: "string \<Rightarrow> bot_page \<Rightarrow> bot_page" where
  "range_name_change text st = st\<lparr>bd_ipRangeFormData := (bd_ipRangeFormData st)\<lparr>birr_name := text\<rparr>\<rparr>"

definition range_source_change :: "source_type \<Rightarrow> bot_page \<Rightarrow> bot_page" where
  "range_source_change t st = st\<lparr>bd_ipRangeFormData := (bd_ipRangeFormData st)\<lparr>birr_source_type := t\<rparr>\<rparr>"

definition range_url_change :: "string \<Rightarrow> bot_page \<Rightarrow> bot_page" where
  "range_url_change text st = st\<lparr>bd_ipRangeFormData := (bd_ipRangeFormData st)\<lparr>birr_url := text\<rparr>\<rparr>"

definition range_manual_change :: "string \<Rightarrow> bot_page \<Rightarrow> bot_page" where
  "range_manual_change text st = st\<lparr>bd_manualIPInput := text\<rparr>"

definition range_description_change :: "string \<Rightarrow> bot_page \<Rightarrow> bot_page" where
  "range_description_change text st = st\<lparr>bd_ipRangeFormData := (bd_ipRangeFormData st)\<lparr>birr_description := text\<rparr>\<rparr>"

definition range_enabled_change :: "bool \<Rightarrow> bot_page \<Rightarrow> bot_page" where
  "range_enabled_change v st = st\<lparr>bd_ipRangeFormData := (bd_ipRangeFormData st)\<lparr>birr_enabled := v\<rparr>\<rparr>"

definition range_save_disabled :: "bot_page \<Rightarrow> bool" where
  "range_save_disabled st \<longleftrightarrow>
     (let f = bd_ipRangeFormData st
      in birr_name f = [] \<or> birr_source_type f = Json_Url \<and> birr_url f = [] \<or>
         birr_source_type f = Manual \<and> trim (bd_manualIPInput st) = [])"

definition range_source_inputs :: "bot_page \<Rightarrow> input_view list" where
  "range_source_inputs st =
     (let f = bd_ipRangeFormData st
      in (if birr_source_type f = Json_Url
          then [input_of ''JSON URL'' (Text_In (birr_url f))
            ''Supports Google/Bing JSON format (prefixes[].ipv4Prefix) and plain text (one CIDR per line).'']
          else []) @
         (if birr_source_type f = Manual
          then [input_of ''IP Ranges (one per line)'' (Lines_In (bd_manualIPInput st))
            ''Enter CIDR ranges (e.g. 5.45.192.0/18) or single IPs (e.g. 192.168.1.1), one per line.'']
          else []))"

definition range_dialog :: "bot_page \<Rightarrow> dialog_view option" where
  "range_dialog st =
     (if \<not> bd_isIPRangeDialogOpen st then None
      else
        (let editing = (bd_editingIPRange st \<noteq> None); f = bd_ipRangeFormData st
         in Some \<lparr>
              dlg_title = (if editing then ''Edit IP Range Provider'' else ''Add IP Range Provider''),
              dlg_description = ''Configure a verified bot IP range source (JSON URL or manual CIDR entries).'',
              dlg_inputs = [
                input_of ''Provider Name'' (Text_In (birr_name f)) [],
                input_of ''Source Type'' (Choice_In (source_type_str (birr_source_type f))
                  [(''json_url'', ''JSON URL (auto-fetch)''), (''manual'', ''Manual (CIDR entries)'')]) []] @
                range_source_inputs st @ [
                input_of ''Description'' (Text_In (birr_description f)) [],
                input_of ''Enabled'' (Switch_In (birr_enabled f)) ''Use these ranges for bot IP verification.''],
              dlg_submit = (if editing then ''Save'' else ''Create''),
              dlg_disabled = range_save_disabled st\<rparr>))"

section \<open>The dialog for many patterns\<close>

datatype bulk_tick = Tick_Type | Tick_Score | Tick_Verify_Ip | Tick_Enabled

primrec bulk_tick_change :: "bulk_tick \<Rightarrow> bool \<Rightarrow> bulk_edit_form \<Rightarrow> bulk_edit_form" where
  "bulk_tick_change Tick_Type v f = f\<lparr>bef_apply_type := v\<rparr>"
| "bulk_tick_change Tick_Score v f = f\<lparr>bef_apply_score := v\<rparr>"
| "bulk_tick_change Tick_Verify_Ip v f = f\<lparr>bef_apply_verify_ip := v\<rparr>"
| "bulk_tick_change Tick_Enabled v f = f\<lparr>bef_apply_enabled := v\<rparr>"

text \<open>A field can be changed while its box is ticked.\<close>

definition bulk_type_change :: "pattern_type \<Rightarrow> bulk_edit_form \<Rightarrow> bulk_edit_form" where
  "bulk_type_change t f = (if bef_apply_type f then f\<lparr>bef_pattern_type := t\<rparr> else f)"

definition bulk_score_change :: "string \<Rightarrow> bulk_edit_form \<Rightarrow> bulk_edit_form" where
  "bulk_score_change text f = (if bef_apply_score f then f\<lparr>bef_score := parseInt_or 0 text\<rparr> else f)"

definition bulk_verify_change :: "bool \<Rightarrow> bulk_edit_form \<Rightarrow> bulk_edit_form" where
  "bulk_verify_change v f = (if bef_apply_verify_ip f then f\<lparr>bef_verify_ip := v\<rparr> else f)"

definition bulk_enabled_change :: "bool \<Rightarrow> bulk_edit_form \<Rightarrow> bulk_edit_form" where
  "bulk_enabled_change v f = (if bef_apply_enabled f then f\<lparr>bef_enabled := v\<rparr> else f)"

text \<open>The dialog, and which of its boxes are ticked; \<open>pending\<close> while a request is under way.\<close>

definition bulk_dialog :: "bool \<Rightarrow> bot_page \<Rightarrow> (dialog_view \<times> bool list) option" where
  "bulk_dialog pending st =
     (if \<not> bd_isBulkEditDialogOpen st then None
      else
        (let f = bd_bulkEditForm st; n = length (bd_selectedPatternIds st)
         in Some (\<lparr>
              dlg_title = ''Bulk Edit Patterns'',
              dlg_description = ''Update '' @ nat_to_string n @ '' selected pattern'' @ plural_s n @
                ''. Check the fields you want to change.'',
              dlg_inputs = [
                input_unless (\<not> bef_apply_type f) ''Type''
                  (Choice_In (pattern_type_str (bef_pattern_type f)) type_options) [],
                input_unless (\<not> bef_apply_score f) ''Score'' (Number_In (bef_score f)) [],
                input_unless (\<not> bef_apply_verify_ip f) ''Verify IP (DNS)'' (Switch_In (bef_verify_ip f)) [],
                input_unless (\<not> bef_apply_enabled f) ''Status (Enabled)'' (Switch_In (bef_enabled f)) []],
              dlg_submit = (if pending then ''Updating...'' else ''Update All''),
              dlg_disabled = pending\<rparr>,
             [bef_apply_type f, bef_apply_score f, bef_apply_verify_ip f, bef_apply_enabled f])))"


section \<open>The page as a machine\<close>

text \<open>What the queries of the page hold, and what a user can do.  A control that is not shown or is disabled gives
  \<open>None\<close>; the others give the state after the handler, the answer of the server included, and its effects.\<close>

record bot_data =
  bdt_patterns :: "bot_pattern list option"
  bdt_config   :: "bot_config option"
  bdt_ranges   :: "bot_ip_range list option"
  bdt_blocked  :: "blocked_bot list"

datatype form_event =
    Form_Type pattern_type | Form_Score string | Form_Text string | Form_Description string | Form_Verify bool
  | Weight string string
  | Range_Name string | Range_Source source_type | Range_Url string | Range_Manual string
  | Range_Description string | Range_Enabled bool
  | Bulk_Tick bulk_tick bool | Bulk_Type pattern_type | Bulk_Score string | Bulk_Verify bool | Bulk_Enabled bool
  | Expand_Rules

datatype bot_event =
    Filter_Type pattern_type | Search_Text string | Tick_Pattern int | Tick_All | Select_Matching
  | Rows page_rows | Previous_Page | Next_Page | Previous_Blocked | Next_Blocked
  | Open_Pattern "bot_pattern option" | Close_Pattern | Save_Pattern | Delete_Pattern int bool
  | Open_Rules | Close_Rules | Save_Rules | Switch_Dns bool
  | Open_Range "bot_ip_range option" | Close_Range | Save_Range | Delete_Range int bool | Sync_Range int
  | Open_Bulk | Close_Bulk | Save_Bulk | Delete_Bulk
  | Form form_event

fun form_act :: "form_event \<Rightarrow> bot_page \<Rightarrow> bot_page" where
  "form_act (Form_Type t) st = pattern_type_change t st"
| "form_act (Form_Score s) st = pattern_score_change s st"
| "form_act (Form_Text s) st = pattern_text_change s st"
| "form_act (Form_Description s) st = pattern_description_change s st"
| "form_act (Form_Verify v) st = pattern_verify_change v st"
| "form_act (Weight key s) st = rule_score_change key s st"
| "form_act (Range_Name s) st = range_name_change s st"
| "form_act (Range_Source t) st = range_source_change t st"
| "form_act (Range_Url s) st = range_url_change s st"
| "form_act (Range_Manual s) st = range_manual_change s st"
| "form_act (Range_Description s) st = range_description_change s st"
| "form_act (Range_Enabled v) st = range_enabled_change v st"
| "form_act (Bulk_Tick b v) st = st\<lparr>bd_bulkEditForm := bulk_tick_change b v (bd_bulkEditForm st)\<rparr>"
| "form_act (Bulk_Type t) st = st\<lparr>bd_bulkEditForm := bulk_type_change t (bd_bulkEditForm st)\<rparr>"
| "form_act (Bulk_Score s) st = st\<lparr>bd_bulkEditForm := bulk_score_change s (bd_bulkEditForm st)\<rparr>"
| "form_act (Bulk_Verify v) st = st\<lparr>bd_bulkEditForm := bulk_verify_change v (bd_bulkEditForm st)\<rparr>"
| "form_act (Bulk_Enabled v) st = st\<lparr>bd_bulkEditForm := bulk_enabled_change v (bd_bulkEditForm st)\<rparr>"
| "form_act Expand_Rules st = toggle_rules_expanded st"

abbreviation still :: "bot_page \<Rightarrow> (bot_page \<times> ui_effect list) option" where
  "still st \<equiv> Some (st, [])"

fun bot_act :: "server \<Rightarrow> bot_data \<Rightarrow> bot_page \<Rightarrow> bot_event \<Rightarrow> (bot_page \<times> ui_effect list) option" where
  "bot_act server d st (Filter_Type t) = still (click_type_filter t st)"
| "bot_act server d st (Search_Text s) = still (search_patterns s st)"
| "bot_act server d st (Tick_Pattern i) = still (toggleSelectPattern i st)"
| "bot_act server d st Tick_All = still (toggleSelectAllPatterns (bdt_patterns d) st)"
| "bot_act server d st Select_Matching =
     (if select_matching_shown (bdt_patterns d) st then still (select_matching (bdt_patterns d) st) else None)"
| "bot_act server d st (Rows r) = still (choose_rows r st)"
| "bot_act server d st Previous_Page =
     map_option (\<lambda>p. (st\<lparr>bd_currentPage := p\<rparr>, [])) (fst (pattern_pager (bdt_patterns d) st))"
| "bot_act server d st Next_Page =
     map_option (\<lambda>p. (st\<lparr>bd_currentPage := p\<rparr>, [])) (snd (pattern_pager (bdt_patterns d) st))"
| "bot_act server d st Previous_Blocked =
     map_option (\<lambda>p. (st\<lparr>bd_blockedBotsPage := p\<rparr>, [])) (fst (blocked_pager (bdt_blocked d) st))"
| "bot_act server d st Next_Blocked =
     map_option (\<lambda>p. (st\<lparr>bd_blockedBotsPage := p\<rparr>, [])) (snd (blocked_pager (bdt_blocked d) st))"
| "bot_act server d st (Open_Pattern p) = still (handleOpenPatternDialog p st)"
| "bot_act server d st Close_Pattern = still (st\<lparr>bd_isPatternDialogOpen := False\<rparr>)"
| "bot_act server d st Save_Pattern =
     (case pattern_dialog st of
        None \<Rightarrow> None
      | Some dlg \<Rightarrow> if dlg_disabled dlg then None else Some (handleSavePattern server st))"
| "bot_act server d st (Delete_Pattern i confirmed) = Some (st, handleDeletePattern server confirmed i)"
| "bot_act server d st Open_Rules = still (handleOpenRulesDialog (bdt_config d) st)"
| "bot_act server d st Close_Rules = still (st\<lparr>bd_isRulesDialogOpen := False\<rparr>)"
| "bot_act server d st Save_Rules = Some (handleSaveConfig server st)"
| "bot_act server d st (Switch_Dns v) = Some (st, dns_switch server (bdt_config d) v)"
| "bot_act server d st (Open_Range r) = still (handleOpenIPRangeDialog r st)"
| "bot_act server d st Close_Range = still (st\<lparr>bd_isIPRangeDialogOpen := False\<rparr>)"
| "bot_act server d st Save_Range =
     (case range_dialog st of
        None \<Rightarrow> None
      | Some dlg \<Rightarrow> if dlg_disabled dlg then None else Some (handleSaveIPRange server st))"
| "bot_act server d st (Delete_Range i confirmed) = Some (st, handleDeleteIPRange server confirmed i)"
| "bot_act server d st (Sync_Range i) = Some (st, handleSyncIPRange server i)"
| "bot_act server d st Open_Bulk =
     (if bd_selectedPatternIds st = [] then None else still (st\<lparr>bd_isBulkEditDialogOpen := True\<rparr>))"
| "bot_act server d st Close_Bulk = still (st\<lparr>bd_isBulkEditDialogOpen := False\<rparr>)"
| "bot_act server d st Save_Bulk = Some (handleBulkEdit server st)"
| "bot_act server d st Delete_Bulk =
     (if bd_selectedPatternIds st = [] then None else Some (handleBulkDeletePatterns server st))"
| "bot_act server d st (Form e) = still (form_act e st)"

text \<open>The page moves by its controls and by what the server answers to its queries.\<close>

inductive bot_step :: "server \<Rightarrow> bot_page \<times> bot_data \<Rightarrow> bot_page \<times> bot_data \<Rightarrow> bool" for server where
  control: "bot_act server d st ev = Some (st', es) \<Longrightarrow> bot_step server (st, d) (st', d)"
| answer: "bot_step server (st, d) (st, d')"

inductive_cases bot_stepE: "bot_step server s t"

definition bot_page_ok :: "bot_page \<Rightarrow> bool" where
  "bot_page_ok st \<longleftrightarrow> 1 \<le> bd_currentPage st \<and> 1 \<le> bd_blockedBotsPage st \<and> distinct (bd_selectedPatternIds st) \<and>
     (if bd_isRulesDialogOpen st then bd_configFormData st \<noteq> None else True)"

lemmas form_defs = pattern_type_change_def pattern_score_change_def pattern_text_change_def pattern_description_change_def
  pattern_verify_change_def rule_score_change_def range_name_change_def range_source_change_def range_url_change_def
  range_manual_change_def range_description_change_def range_enabled_change_def toggle_rules_expanded_def

lemma form_act_same:
  "bd_currentPage (form_act e st) = bd_currentPage st" "bd_blockedBotsPage (form_act e st) = bd_blockedBotsPage st"
  "bd_selectedPatternIds (form_act e st) = bd_selectedPatternIds st"
  "bd_isRulesDialogOpen (form_act e st) = bd_isRulesDialogOpen st"
  "bd_configFormData (form_act e st) = None \<longleftrightarrow> bd_configFormData st = None"
  "bd_searchTerm (form_act e st) = bd_searchTerm st" "bd_typeFilter (form_act e st) = bd_typeFilter st"
  "bd_itemsPerPage (form_act e st) = bd_itemsPerPage st"
  by (cases e; simp add: form_defs Let_def split: option.splits)+

text \<open>What the handlers with a server leave alone.\<close>

lemma saved_same:
  "handleSavePattern server st = (st', es) \<Longrightarrow> \<exists>b. st' = st\<lparr>bd_isPatternDialogOpen := b\<rparr>"
  "handleSaveIPRange server st = (st', es) \<Longrightarrow> \<exists>b. st' = st\<lparr>bd_isIPRangeDialogOpen := b\<rparr>"
  "handleSaveConfig server st = (st', es) \<Longrightarrow> st' = st \<or> st' = st\<lparr>bd_isRulesDialogOpen := False\<rparr>"
  "handleBulkDeletePatterns server st = (st', es) \<Longrightarrow> st' = st \<or> st' = st\<lparr>bd_selectedPatternIds := []\<rparr>"
  "handleBulkEdit server st = (st', es) \<Longrightarrow> st' = st \<or> st' = st\<lparr>bd_isBulkEditDialogOpen := False, bd_selectedPatternIds := [],
     bd_bulkEditForm := bulk_edit_initial\<rparr>"
proof -
  have same: "\<exists>b. st = st\<lparr>bd_isPatternDialogOpen := b\<rparr>" "\<exists>b. st = st\<lparr>bd_isIPRangeDialogOpen := b\<rparr>"
    by (metis bot_page.surjective bot_page.update_convs(6)) (metis bot_page.surjective bot_page.update_convs(8))
  show "handleSavePattern server st = (st', es) \<Longrightarrow> \<exists>b. st' = st\<lparr>bd_isPatternDialogOpen := b\<rparr>"
    using same(1) by (auto simp: handleSavePattern_def Let_def split: option.splits sum.splits if_splits)
  show "handleSaveIPRange server st = (st', es) \<Longrightarrow> \<exists>b. st' = st\<lparr>bd_isIPRangeDialogOpen := b\<rparr>"
    using same(2) by (auto simp: handleSaveIPRange_def Let_def split: option.splits sum.splits)
  show "handleSaveConfig server st = (st', es) \<Longrightarrow> st' = st \<or> st' = st\<lparr>bd_isRulesDialogOpen := False\<rparr>"
    by (auto simp: handleSaveConfig_def Let_def split: option.splits sum.splits)
  show "handleBulkDeletePatterns server st = (st', es) \<Longrightarrow> st' = st \<or> st' = st\<lparr>bd_selectedPatternIds := []\<rparr>"
    by (auto simp: handleBulkDeletePatterns_def Let_def split: sum.splits if_splits)
  show "handleBulkEdit server st = (st', es) \<Longrightarrow> st' = st \<or> st' = st\<lparr>bd_isBulkEditDialogOpen := False,
     bd_selectedPatternIds := [], bd_bulkEditForm := bulk_edit_initial\<rparr>"
    by (auto simp: handleBulkEdit_def Let_def split: sum.splits if_splits)
qed


section \<open>Properties of the machine\<close>

lemma bot_act_ok:
  assumes "bot_act server d st ev = Some (st', es)" and "bot_page_ok st"
  shows "bot_page_ok st'"
proof (cases ev)
  case (Form e)
  then show ?thesis using assms form_act_same(1-5) [of e st] by (auto simp: bot_page_ok_def split: if_splits)
next
  case Save_Pattern
  then show ?thesis using assms saved_same(1) [of server st st' es] by (auto simp: bot_page_ok_def split: option.splits if_splits)
next
  case Save_Range
  then show ?thesis using assms saved_same(2) [of server st st' es] by (auto simp: bot_page_ok_def split: option.splits if_splits)
next
  case Save_Rules
  then show ?thesis using assms saved_same(3) [of server st st' es] by (auto simp: bot_page_ok_def split: if_splits)
next
  case Save_Bulk
  then show ?thesis using assms saved_same(5) [of server st st' es] by (auto simp: bot_page_ok_def split: if_splits)
next
  case Delete_Bulk
  then show ?thesis using assms saved_same(4) [of server st st' es] by (auto simp: bot_page_ok_def split: if_splits)
qed (use assms in \<open>auto simp: bot_page_ok_def click_type_filter_def search_patterns_def toggleSelectPattern_def
    toggleSelectAllPatterns_def select_matching_def choose_rows_def pattern_pager_def blocked_pager_def pager_previous_def
    pager_next_def handleOpenPatternDialog_def handleOpenRulesDialog_def handleOpenIPRangeDialog_def Let_def new_set_set
    set_toggle_distinct split: option.splits if_splits\<close>)

text \<open>Whatever is clicked, typed and answered, from the page as it opens: page numbers start at 1, no pattern is selected
  twice, and the dialog for the weights is open only when there is a configuration to edit.\<close>

theorem bot_page_invariant:
  assumes "(bot_step server)\<^sup>*\<^sup>* (bot_page_initial, d) (st, d')"
  shows "1 \<le> bd_currentPage st \<and> 1 \<le> bd_blockedBotsPage st \<and> distinct (bd_selectedPatternIds st) \<and>
    (if bd_isRulesDialogOpen st then bd_configFormData st \<noteq> None else True)"
proof -
  have "bot_page_ok (fst t)" if "(bot_step server)\<^sup>*\<^sup>* (bot_page_initial, d) t" for t
    using that
  proof (induction rule: rtranclp_induct)
    case base
    show ?case by (simp add: bot_page_ok_def bot_page_initial_def)
  next
    case (step s t)
    then show ?case by (auto elim!: bot_stepE dest: bot_act_ok)
  qed
  from this [OF assms] show ?thesis by (simp add: bot_page_ok_def)
qed

abbreviation no_data :: bot_data where
  "no_data \<equiv> \<lparr>bdt_patterns = None, bdt_config = None, bdt_ranges = None, bdt_blocked = []\<rparr>"

theorem bot_page_invariant_witness:
  "distinct (bd_selectedPatternIds (toggleSelectPattern 3 bot_page_initial))"
proof -
  have "bot_step (\<lambda>_. Inr JNull) (bot_page_initial, no_data) (toggleSelectPattern 3 bot_page_initial, no_data)"
    by (rule bot_step.control [where ev = "Tick_Pattern 3"]) simp
  from bot_page_invariant [OF r_into_rtranclp [where r = "bot_step (\<lambda>_. Inr JNull)", OF this]] show ?thesis by simp
qed

text \<open>The steps in which no table loses a page to an answer of the server.\<close>

definition growing_step :: "server \<Rightarrow> bot_page \<times> bot_data \<Rightarrow> bot_page \<times> bot_data \<Rightarrow> bool" where
  "growing_step server s t \<longleftrightarrow> bot_step server s t \<and>
     (if fst s = fst t then pattern_pages (fst s) (bdt_patterns (snd s)) \<le> pattern_pages (fst t) (bdt_patterns (snd t)) \<and>
        totalBlockedBotsPages (bdt_blocked (snd s)) \<le> totalBlockedBotsPages (bdt_blocked (snd t))
      else True)"

lemma pattern_pages_cong:
  assumes "bd_searchTerm st = bd_searchTerm st'" "bd_typeFilter st = bd_typeFilter st'"
    "bd_itemsPerPage st = bd_itemsPerPage st'"
  shows "pattern_pages st ps = pattern_pages st' ps"
proof -
  have "pattern_shown st = pattern_shown st'" by (rule ext) (simp add: pattern_shown_def assms)
  then show ?thesis by (cases ps) (simp_all add: pattern_pages_def filteredPatterns_def assms)
qed

lemmas table_defs = click_type_filter_def search_patterns_def toggleSelectPattern_def toggleSelectAllPatterns_def
  select_matching_def choose_rows_def pattern_pager_def blocked_pager_def handleOpenPatternDialog_def
  handleOpenRulesDialog_def handleOpenIPRangeDialog_def

text \<open>A control goes to the first page, or keeps what the table shows and moves by a button of its pager at most.\<close>

definition table_kept :: "bot_page \<Rightarrow> bot_page \<Rightarrow> bool" where
  "table_kept st st' \<longleftrightarrow> bd_searchTerm st' = bd_searchTerm st \<and> bd_typeFilter st' = bd_typeFilter st \<and>
     bd_itemsPerPage st' = bd_itemsPerPage st"

lemma bot_act_pages:
  assumes "bot_act server d st ev = Some (st', es)"
  shows "bd_currentPage st' = 1 \<or> table_kept st st' \<and>
      (bd_currentPage st' = bd_currentPage st \<or>
       pager_previous (pattern_pages st (bdt_patterns d)) (bd_currentPage st) = Some (bd_currentPage st') \<or>
       pager_next (pattern_pages st (bdt_patterns d)) (bd_currentPage st) = Some (bd_currentPage st'))"
    and "bd_blockedBotsPage st' = bd_blockedBotsPage st \<or>
      pager_previous (totalBlockedBotsPages (bdt_blocked d)) (bd_blockedBotsPage st) = Some (bd_blockedBotsPage st') \<or>
      pager_next (totalBlockedBotsPages (bdt_blocked d)) (bd_blockedBotsPage st) = Some (bd_blockedBotsPage st')"
proof -
  let ?P = "bd_currentPage st' = 1 \<or> table_kept st st' \<and>
      (bd_currentPage st' = bd_currentPage st \<or>
       pager_previous (pattern_pages st (bdt_patterns d)) (bd_currentPage st) = Some (bd_currentPage st') \<or>
       pager_next (pattern_pages st (bdt_patterns d)) (bd_currentPage st) = Some (bd_currentPage st'))"
  let ?B = "bd_blockedBotsPage st' = bd_blockedBotsPage st \<or>
      pager_previous (totalBlockedBotsPages (bdt_blocked d)) (bd_blockedBotsPage st) = Some (bd_blockedBotsPage st') \<or>
      pager_next (totalBlockedBotsPages (bdt_blocked d)) (bd_blockedBotsPage st) = Some (bd_blockedBotsPage st')"
  have "?P \<and> ?B"
  proof (cases ev)
    case (Form e)
    then show ?thesis using assms form_act_same [of e st] by (auto simp: table_kept_def)
  next
    case Save_Pattern
    then show ?thesis using assms saved_same(1) [of server st st' es] by (auto simp: table_kept_def split: option.splits if_splits)
  next
    case Save_Range
    then show ?thesis using assms saved_same(2) [of server st st' es] by (auto simp: table_kept_def split: option.splits if_splits)
  next
    case Save_Rules
    then show ?thesis using assms saved_same(3) [of server st st' es] by (auto simp: table_kept_def)
  next
    case Save_Bulk
    then show ?thesis using assms saved_same(5) [of server st st' es] by (auto simp: table_kept_def)
  next
    case Delete_Bulk
    then show ?thesis using assms saved_same(4) [of server st st' es] by (auto simp: table_kept_def split: if_splits)
  qed (use assms in \<open>auto simp: table_defs table_kept_def Let_def split: option.splits if_splits\<close>)
  then show ?P and ?B by blast+
qed

lemma bot_step_pages:
  assumes "growing_step server s t"
  shows "page_move (pattern_pages (fst s) (bdt_patterns (snd s))) (bd_currentPage (fst s))
      (pattern_pages (fst t) (bdt_patterns (snd t))) (bd_currentPage (fst t))"
    and "page_move (totalBlockedBotsPages (bdt_blocked (snd s))) (bd_blockedBotsPage (fst s))
      (totalBlockedBotsPages (bdt_blocked (snd t))) (bd_blockedBotsPage (fst t))"
proof -
  obtain st d st' d' where s: "s = (st, d)" and t: "t = (st', d')" by (cases s; cases t)
  have "bot_step server (st, d) (st', d')" using assms s t by (simp add: growing_step_def)
  then consider (act) ev es where "bot_act server d st ev = Some (st', es)" "d' = d" | (ans) "st' = st"
    by (auto elim!: bot_stepE)
  note moves = this
  have kept: "pattern_pages st' (bdt_patterns d) = pattern_pages st (bdt_patterns d)" if "table_kept st st'"
    using that by (intro pattern_pages_cong) (auto simp: table_kept_def)
  show "page_move (pattern_pages (fst s) (bdt_patterns (snd s))) (bd_currentPage (fst s))
      (pattern_pages (fst t) (bdt_patterns (snd t))) (bd_currentPage (fst t))"
    using moves by cases (use assms s t kept in \<open>auto simp: growing_step_def page_move_def dest: bot_act_pages(1)\<close>)
  show "page_move (totalBlockedBotsPages (bdt_blocked (snd s))) (bd_blockedBotsPage (fst s))
      (totalBlockedBotsPages (bdt_blocked (snd t))) (bd_blockedBotsPage (fst t))"
    using moves by cases (use assms s t in \<open>auto simp: growing_step_def page_move_def dest: bot_act_pages(2)\<close>)
qed

interpretation pattern_nav: paged_nav "\<lambda>s. bd_currentPage (fst s)" "\<lambda>s. pattern_pages (fst s) (bdt_patterns (snd s))"
    "growing_step server" for server
  by unfold_locales (rule bot_step_pages(1))

interpretation blocked_nav: paged_nav "\<lambda>s. bd_blockedBotsPage (fst s)" "\<lambda>s. totalBlockedBotsPages (bdt_blocked (snd s))"
    "growing_step server" for server
  by unfold_locales (rule bot_step_pages(2))

text \<open>As long as no answer of the server takes pages away from a table, the page number of the pattern table and that of the
  blocked bots stay within their tables, whatever is searched, filtered, selected and saved, and the caption under the
  pattern table counts exactly the rows of the page: it runs from the first to the last of them.\<close>

theorem page_numbers_in_range:
  assumes "(growing_step server)\<^sup>*\<^sup>* (bot_page_initial, d) (st, d')"
  shows "bd_currentPage st \<le> max 1 (pattern_pages st (bdt_patterns d')) \<and>
    bd_blockedBotsPage st \<le> max 1 (totalBlockedBotsPages (bdt_blocked d')) \<and>
    (case pattern_caption (bdt_patterns d') st of (lo, hi, n) \<Rightarrow>
       if n = 0 then lo = 0 \<and> hi = 0
       else 1 \<le> lo \<and> lo \<le> hi \<and> hi \<le> n \<and>
         Suc hi - lo = length (paginatedPatterns st (bdt_patterns d') (bd_currentPage st)))"
proof -
  have ok: "page_ok (pattern_pages st (bdt_patterns d')) (bd_currentPage st)"
    and okb: "page_ok (totalBlockedBotsPages (bdt_blocked d')) (bd_blockedBotsPage st)"
    using pattern_nav.reach_ok [OF assms] blocked_nav.reach_ok [OF assms] by (simp_all add: bot_page_initial_def)
  let ?xs = "filteredPatterns st (bdt_patterns d')"
  show ?thesis
  proof (cases "?xs = []")
    case True
    then show ?thesis using ok okb by (simp add: page_ok_def pattern_caption_def Let_def showing_from_def showing_to_def)
  next
    case False
    then show ?thesis
      using caption_counts [OF rows_num_pos ok [unfolded pattern_pages_def] False] ok okb
      by (simp add: page_ok_def pattern_caption_def Let_def paginatedPatterns_def)
  qed
qed

theorem page_numbers_in_range_witness: "bd_currentPage (search_patterns ''bot'' bot_page_initial) \<le> 1"
proof -
  have "growing_step (\<lambda>_. Inr JNull) (bot_page_initial, no_data) (search_patterns ''bot'' bot_page_initial, no_data)"
    unfolding growing_step_def
    by (auto intro: bot_step.control [where ev = "Search_Text ''bot''"] simp: bot_page_initial_def search_patterns_def)
  from page_numbers_in_range [OF r_into_rtranclp [where r = "growing_step (\<lambda>_. Inr JNull)", OF this]] show ?thesis
    by (simp add: pattern_pages_def filteredPatterns_def total_pages_def rows_num_def bot_page_initial_def search_patterns_def)
qed

text \<open>An answer with fewer patterns leaves the page number alone.  When the page shown is no longer there, the table is empty
  although patterns match; when only one page is left the buttons of the pager are gone too, and the caption says that the last
  pattern is shown.\<close>

theorem lost_page_shows_nothing:
  assumes "pattern_pages st (Some ps) = 1" and "1 < bd_currentPage st"
  shows "paginatedPatterns st (Some ps) (bd_currentPage st) = [] \<and> filteredPatterns st (Some ps) \<noteq> [] \<and>
    pattern_pager (Some ps) st = (None, None) \<and>
    (let n = length (filteredPatterns st (Some ps)) in pattern_caption (Some ps) st = (n, n, n)) \<and>
    bot_step server (st, d) (st, d\<lparr>bdt_patterns := Some ps\<rparr>)"
proof (intro conjI)
  let ?xs = "filteredPatterns st (Some ps)" and ?per = "rows_num (bd_itemsPerPage st)"
  show "paginatedPatterns st (Some ps) (bd_currentPage st) = []"
    using pattern_table.beyond_empty [of st "Some ps" "bd_currentPage st"] assms by simp
  show ne: "?xs \<noteq> []"
    using assms(1) rows_num_pos [of "bd_itemsPerPage st"] by (auto simp: pattern_pages_def total_pages_def)
  show "pattern_pager (Some ps) st = (None, None)"
    using assms by (simp add: pattern_pager_def pager_previous_def pager_next_def)
  have "length ?xs \<le> ?per"
    using total_pages_enough [OF rows_num_pos, of "length ?xs" "bd_itemsPerPage st"] assms(1) by (simp add: pattern_pages_def)
  moreover obtain k where k: "bd_currentPage st = Suc (Suc k)"
    using assms(2) by (cases "bd_currentPage st"; cases "bd_currentPage st - 1") auto
  ultimately show "let n = length ?xs in pattern_caption (Some ps) st = (n, n, n)"
    by (simp add: pattern_caption_def Let_def showing_from_def showing_to_def k min_def)
qed (rule bot_step.answer)

definition sample_pattern :: "int \<Rightarrow> bot_pattern" where
  "sample_pattern i = \<lparr>bp_id = i, bp_pattern_type = Good_Bot, bp_pattern = ''bot'', bp_score = - 100, bp_verify_ip = True,
     bp_enabled = True, bp_description = [], bp_created_at = [], bp_updated_at = []\<rparr>"

theorem lost_page_shows_nothing_witness:
  "paginatedPatterns (bot_page_initial\<lparr>bd_currentPage := 2\<rparr>) (Some (map sample_pattern [1..10])) 2 = [] \<and>
   length (paginatedPatterns (bot_page_initial\<lparr>bd_currentPage := 2\<rparr>) (Some (map sample_pattern [1..11])) 2) = 1"
proof -
  let ?st = "bot_page_initial\<lparr>bd_currentPage := 2\<rparr>"
  have "pattern_pages ?st (Some (map sample_pattern [1..10])) = 1" "1 < bd_currentPage ?st" by code_simp+
  from lost_page_shows_nothing [OF this]
  have "paginatedPatterns ?st (Some (map sample_pattern [1..10])) 2 = []" by simp
  moreover have "length (paginatedPatterns ?st (Some (map sample_pattern [1..11])) 2) = 1" by code_simp
  ultimately show ?thesis by blast
qed

end
