(* ===== verification/Ip_Reputation.thy ===== *)
theory Ip_Reputation
  imports Bot_Detector
begin

text \<open>
  The reputation page (\<open>src/frontend/src/pages/security/IPReputation.tsx\<close>): the table of addresses and networks with
  their scores, the dialog for one entry or many, the bulk operations on the selected rows, and the scores given to
  two outside lists.  Mutations run with callbacks, so a handler ends before the server answers; its result here is the
  state after the answer.
\<close>

section \<open>State\<close>

record reputation_page =
  rp_searchTerm      :: string
  rp_currentPage     :: nat
  rp_typeFilter      :: "entry_type option"
  rp_categoryFilter  :: "string option"
  rp_selectedIds     :: "int list"
  rp_itemsPerPage    :: page_rows
  rp_isBulkScoreOpen :: bool
  rp_bulkScoreValue  :: int
  rp_isDialogOpen    :: bool
  rp_editingEntry    :: "ip_reputation_entry option"
  rp_formType        :: entry_type
  rp_formValues      :: string
  rp_formScore       :: int
  rp_formCategory    :: string
  rp_formDescription :: string
  rp_formEnabled     :: bool
  rp_formAutoDetect  :: bool
  rp_configForm      :: "ip_reputation_config option"
  rp_maxmindDirty    :: bool
  rp_spamhausDirty   :: bool

definition reputation_initial :: reputation_page where
  "reputation_initial = \<lparr>rp_searchTerm = [], rp_currentPage = 1, rp_typeFilter = None, rp_categoryFilter = None,
     rp_selectedIds = [], rp_itemsPerPage = Rows_10, rp_isBulkScoreOpen = False, rp_bulkScoreValue = 10,
     rp_isDialogOpen = False, rp_editingEntry = None, rp_formType = Entry_Ip, rp_formValues = [], rp_formScore = 10,
     rp_formCategory = [], rp_formDescription = [], rp_formEnabled = True, rp_formAutoDetect = True,
     rp_configForm = None, rp_maxmindDirty = False, rp_spamhausDirty = False\<rparr>"

section \<open>The table\<close>

definition entry_shown :: "reputation_page \<Rightarrow> ip_reputation_entry \<Rightarrow> bool" where
  "entry_shown st e \<longleftrightarrow>
     (str_includes (toLowerCase (ipr_value e)) (toLowerCase (rp_searchTerm st)) \<or>
      str_includes (toLowerCase (ipr_description e)) (toLowerCase (rp_searchTerm st))) \<and>
     (rp_typeFilter st = None \<or> Some (ipr_entry_type e) = rp_typeFilter st) \<and>
     (rp_categoryFilter st = None \<or> rp_categoryFilter st = Some [] \<or> Some (ipr_category e) = rp_categoryFilter st)"

definition filteredEntries :: "reputation_page \<Rightarrow> ip_reputation_entry list option \<Rightarrow> ip_reputation_entry list" where
  "filteredEntries st entries = (case entries of None \<Rightarrow> [] | Some es \<Rightarrow> filter (entry_shown st) es)"

definition entry_pages :: "reputation_page \<Rightarrow> ip_reputation_entry list option \<Rightarrow> nat" where
  "entry_pages st entries = total_pages (length (filteredEntries st entries)) (rows_num (rp_itemsPerPage st))"

definition paginatedEntries :: "reputation_page \<Rightarrow> ip_reputation_entry list option \<Rightarrow> nat \<Rightarrow> ip_reputation_entry list" where
  "paginatedEntries st entries page = page_items page (rows_num (rp_itemsPerPage st)) (filteredEntries st entries)"

interpretation entry_table: paged_view "filteredEntries st es" "rows_num (rp_itemsPerPage st)" "entry_pages st es"
    "paginatedEntries st es" for st es
  by unfold_locales (simp_all add: rows_num_pos entry_pages_def paginatedEntries_def)

definition entry_counts :: "ip_reputation_entry list option \<Rightarrow> nat \<times> nat" where
  "entry_counts entries =
     (case entries of
        None \<Rightarrow> (0, 0)
      | Some es \<Rightarrow> foldl (\<lambda>(ip, asn) e. if ipr_entry_type e = Entry_Ip then (ip + 1, asn) else (ip, asn + 1)) (0, 0) es)"

definition count_category :: "nat js_obj \<Rightarrow> ip_reputation_entry \<Rightarrow> nat js_obj" where
  "count_category acc e =
     (if ipr_category e = [] then acc
      else obj_set acc (ipr_category e) ((case obj_get acc (ipr_category e) of Some n \<Rightarrow> n | None \<Rightarrow> 0) + 1))"

definition categoryCounts :: "ip_reputation_entry list option \<Rightarrow> nat js_obj" where
  "categoryCounts entries = (case entries of None \<Rightarrow> [] | Some es \<Rightarrow> foldl count_category [] es)"

section \<open>The dialog\<close>

definition rp_openCreate :: "reputation_page \<Rightarrow> reputation_page" where
  "rp_openCreate st = st\<lparr>rp_editingEntry := None, rp_formType := Entry_Ip, rp_formValues := [], rp_formScore := 10,
     rp_formCategory := [], rp_formDescription := [], rp_formEnabled := True, rp_formAutoDetect := True,
     rp_isDialogOpen := True\<rparr>"

definition rp_openEdit :: "ip_reputation_entry \<Rightarrow> reputation_page \<Rightarrow> reputation_page" where
  "rp_openEdit e st = st\<lparr>rp_editingEntry := Some e, rp_formType := ipr_entry_type e, rp_formValues := ipr_value e,
     rp_formScore := ipr_score e, rp_formCategory := ipr_category e, rp_formDescription := ipr_description e,
     rp_formEnabled := ipr_enabled e, rp_isDialogOpen := True\<rparr>"

text \<open>\<open>s.split(/[...]+/)\<close>: the pieces between runs of separators.\<close>

lemma runs_shorter:
  assumes "dropWhile (\<lambda>c. \<not> p c) s \<noteq> []"
  shows "length (dropWhile p (dropWhile (\<lambda>c. \<not> p c) s)) < length s"
proof -
  let ?r = "dropWhile (\<lambda>c. \<not> p c) s"
  have "p (hd ?r)" using assms hd_dropWhile [of "\<lambda>c. \<not> p c" s] by blast
  then have "length (dropWhile p ?r) < length ?r"
    using assms length_dropWhile_le [of p "tl ?r"] by (cases ?r) auto
  then show ?thesis using length_dropWhile_le [of "\<lambda>c. \<not> p c" s] by linarith
qed

function split_runs :: "(char \<Rightarrow> bool) \<Rightarrow> string \<Rightarrow> string list" where
  "split_runs p s =
     (let w = takeWhile (\<lambda>c. \<not> p c) s; r = dropWhile (\<lambda>c. \<not> p c) s
      in if r = [] then [w] else w # split_runs p (dropWhile p r))"
  by pat_completeness auto
termination
  by (relation "measure (length \<circ> snd)") (simp_all add: runs_shorter del: dropWhile_eq_Nil_conv)

declare split_runs.simps [simp del]

definition entry_separator :: "char \<Rightarrow> bool" where
  "entry_separator c \<longleftrightarrow> c = newline \<or> c = CHR '',''"

definition form_entries :: "string \<Rightarrow> string list" where
  "form_entries s = filter (\<lambda>v. v \<noteq> []) (map trim (split_runs entry_separator s))"

text \<open>\<open>err?.response?.error || err.message\<close>.\<close>

definition callback_error :: "api_error \<Rightarrow> string" where
  "callback_error e =
     (case json_get (err_response e) ''error'' of
        Some (JStr s) \<Rightarrow> if s = [] then err_message e else s
      | _ \<Rightarrow> err_message e)"

definition mutate_callbacks :: "server \<Rightarrow> mutation_options \<Rightarrow> (json \<Rightarrow> string) \<Rightarrow> ui_effect list" where
  "mutate_callbacks server mu ok_text =
     [Mutate mu, (case server (mu_call mu) of
                    Inr r \<Rightarrow> Toast (ok_text r) Toast_Success
                  | Inl e \<Rightarrow> Toast (callback_error e) Toast_Error)]"

definition update_entry_request :: "reputation_page \<Rightarrow> ip_reputation_request" where
  "update_entry_request st = \<lparr>iprr_entry_type = rp_formType st, iprr_value = Some (trim (rp_formValues st)),
     iprr_values = None, iprr_score = rp_formScore st, iprr_category = Some (rp_formCategory st),
     iprr_description = rp_formDescription st, iprr_enabled = rp_formEnabled st, iprr_auto_detect_provider = None\<rparr>"

definition create_entry_request :: "reputation_page \<Rightarrow> ip_reputation_request" where
  "create_entry_request st = \<lparr>iprr_entry_type = rp_formType st, iprr_value = None,
     iprr_values = Some (form_entries (rp_formValues st)), iprr_score = rp_formScore st,
     iprr_category = Some (rp_formCategory st), iprr_description = rp_formDescription st,
     iprr_enabled = rp_formEnabled st,
     iprr_auto_detect_provider = Some (rp_formAutoDetect st \<and> rp_formDescription st = [])\<rparr>"

definition rp_handleSubmit :: "server \<Rightarrow> reputation_page \<Rightarrow> reputation_page \<times> ui_effect list" where
  "rp_handleSubmit server st =
     (case rp_editingEntry st of
        Some e \<Rightarrow>
          (let mu = useUpdateIPReputationEntry (ipr_id e) (ip_reputation_request_json (update_entry_request st))
           in (case server (mu_call mu) of Inr _ \<Rightarrow> st\<lparr>rp_isDialogOpen := False\<rparr> | Inl _ \<Rightarrow> st,
               mutate_callbacks server mu (\<lambda>_. ''Entry updated'')))
      | None \<Rightarrow>
          (let values = form_entries (rp_formValues st);
               n = nat_to_string (length values);
               mu = useCreateIPReputationEntry (ip_reputation_request_json (create_entry_request st))
           in if values = [] then (st, [])
              else (st\<lparr>rp_isDialogOpen := False\<rparr>,
                (if length values > 10 then [Toast (''Processing '' @ n @ '' entries in background...'') Toast_Info] else []) @
                mutate_callbacks server mu (\<lambda>_. n @ '' entry(s) created''))))"

definition rp_handleDelete :: "server \<Rightarrow> int \<Rightarrow> ui_effect list" where
  "rp_handleDelete server ident = mutate_callbacks server (useDeleteIPReputationEntry ident) (\<lambda>_. ''Entry deleted'')"

section \<open>The selected rows\<close>

definition rp_handleBulkDelete :: "server \<Rightarrow> reputation_page \<Rightarrow> reputation_page \<times> ui_effect list" where
  "rp_handleBulkDelete server st =
     (let ids = rp_selectedIds st; mu = useBulkDeleteIPReputationEntries ids in
      if ids = [] then (st, [])
      else (case server (mu_call mu) of Inr _ \<Rightarrow> st\<lparr>rp_selectedIds := []\<rparr> | Inl _ \<Rightarrow> st,
            mutate_callbacks server mu result_message))"

definition rp_handleBulkUpdateScore :: "server \<Rightarrow> reputation_page \<Rightarrow> reputation_page \<times> ui_effect list" where
  "rp_handleBulkUpdateScore server st =
     (let ids = rp_selectedIds st; mu = useBulkUpdateScoreIPReputationEntries ids (rp_bulkScoreValue st) in
      if ids = [] then (st, [])
      else (case server (mu_call mu) of
              Inr _ \<Rightarrow> st\<lparr>rp_selectedIds := [], rp_isBulkScoreOpen := False\<rparr> | Inl _ \<Rightarrow> st,
            mutate_callbacks server mu result_message))"

definition rp_toggleSelectAll :: "ip_reputation_entry list option \<Rightarrow> reputation_page \<Rightarrow> reputation_page" where
  "rp_toggleSelectAll entries st =
     (let pageIds = map ipr_id (paginatedEntries st entries (rp_currentPage st));
          allSelected = list_all (\<lambda>i. i \<in> set (rp_selectedIds st)) pageIds
      in st\<lparr>rp_selectedIds := (if allSelected then foldl set_delete (rp_selectedIds st) pageIds
                              else foldl set_add (rp_selectedIds st) pageIds)\<rparr>)"

definition rp_toggleSelect :: "int \<Rightarrow> reputation_page \<Rightarrow> reputation_page" where
  "rp_toggleSelect ident st = st\<lparr>rp_selectedIds := set_toggle ident (rp_selectedIds st)\<rparr>"

section \<open>The scores of the outside lists\<close>

definition rp_currentConfig :: "ip_reputation_config option \<Rightarrow> reputation_page \<Rightarrow> ip_reputation_config option" where
  "rp_currentConfig repConfig st = (case rp_configForm st of Some c \<Rightarrow> Some c | None \<Rightarrow> repConfig)"

definition maxmind_dc_change :: "ip_reputation_config \<Rightarrow> int \<Rightarrow> reputation_page \<Rightarrow> reputation_page" where
  "maxmind_dc_change current_config v st =
     st\<lparr>rp_configForm := Some (current_config\<lparr>ipc_cfg_maxmind_dc_score := v\<rparr>), rp_maxmindDirty := True\<rparr>"

definition spamhaus_ip_change :: "ip_reputation_config \<Rightarrow> int \<Rightarrow> reputation_page \<Rightarrow> reputation_page" where
  "spamhaus_ip_change current_config v st =
     st\<lparr>rp_configForm := Some (current_config\<lparr>ipc_cfg_spamhaus_ip_score := v\<rparr>), rp_spamhausDirty := True\<rparr>"

definition handleSaveMaxmind :: "server \<Rightarrow> reputation_page \<Rightarrow> reputation_page \<times> ui_effect list" where
  "handleSaveMaxmind server st =
     (case rp_configForm st of
        None \<Rightarrow> (st, [])
      | Some c \<Rightarrow>
          (let mu = useUpdateIPReputationConfig (ip_reputation_config_json c)
           in (case server (mu_call mu) of Inr _ \<Rightarrow> st\<lparr>rp_maxmindDirty := False\<rparr> | Inl _ \<Rightarrow> st,
               mutate_callbacks server mu (\<lambda>_. ''MaxMind scoring updated''))))"

definition handleSaveSpamhaus :: "server \<Rightarrow> reputation_page \<Rightarrow> reputation_page \<times> ui_effect list" where
  "handleSaveSpamhaus server st =
     (case rp_configForm st of
        None \<Rightarrow> (st, [])
      | Some c \<Rightarrow>
          (let mu = useUpdateIPReputationConfig (ip_reputation_config_json c)
           in (case server (mu_call mu) of Inr _ \<Rightarrow> st\<lparr>rp_spamhausDirty := False\<rparr> | Inl _ \<Rightarrow> st,
               mutate_callbacks server mu (\<lambda>_. ''Spamhaus scoring updated''))))"

section \<open>Properties\<close>

lemma mutations_mutate_callbacks [simp]: "mutations (mutate_callbacks server mu t) = [mu]"
  by (simp add: mutate_callbacks_def split: sum.splits)

text \<open>The entries typed into the dialog: no blank, no separator, and those of a list written out with commas.\<close>

lemma split_runs_no_sep: "w \<in> set (split_runs p s) \<Longrightarrow> c \<in> set w \<Longrightarrow> \<not> p c"
proof (induction p s rule: split_runs.induct)
  case (1 p s)
  then show ?case
    by (subst (asm) (2) split_runs.simps) (auto simp: Let_def dest: set_takeWhileD split: if_splits simp del: dropWhile_eq_Nil_conv)
qed

lemma split_runs_join:
  assumes "list_all (\<lambda>w. w \<noteq> [] \<and> (\<forall>c\<in>set w. \<not> p c)) ws" and "ws \<noteq> []" and "p d"
  shows "split_runs p (join [d] ws) = ws"
  using assms(1,2)
proof (induction "[d]" ws rule: join.induct)
  case (2 x)
  then show ?case by (subst split_runs.simps) (auto simp: Let_def takeWhile_all list_all_iff)
next
  case (3 x y zs)
  have x: "\<forall>c\<in>set x. \<not> p c" and y: "y \<noteq> []" "\<not> p (hd y)" using 3 by auto
  have hd: "\<not> p (hd (join [d] (y # zs)))" "join [d] (y # zs) \<noteq> []" using y by (cases zs; cases y; simp)+
  then have dw: "dropWhile p (join [d] (y # zs)) = join [d] (y # zs)" by (cases "join [d] (y # zs)") auto
  have tw: "takeWhile (\<lambda>c. \<not> p c) (x @ [d] @ join [d] (y # zs)) = x"
    "dropWhile (\<lambda>c. \<not> p c) (x @ [d] @ join [d] (y # zs)) = d # join [d] (y # zs)"
    using x assms(3) by (simp_all add: takeWhile_append2 dropWhile_append2)
  have ih: "split_runs p (join [d] (y # zs)) = y # zs" using 3 by simp
  show ?case unfolding join.simps by (subst split_runs.simps) (simp add: tw [simplified] dw ih assms(3))
qed simp

text \<open>The entries of the dialog are the pieces between line breaks and commas, without surrounding blanks and never
  empty; entries written out with one separator between them are read back as they are.\<close>

theorem form_entries_read:
  assumes "entry_separator d" and "ws \<noteq> []"
    and "list_all (\<lambda>w. w \<noteq> [] \<and> trim w = w \<and> list_all (\<lambda>c. \<not> entry_separator c) w) ws"
  shows "list_all (\<lambda>v. v \<noteq> [] \<and> trim v = v \<and> list_all (\<lambda>c. \<not> entry_separator c) v) (form_entries s) \<and>
    form_entries (join [d] ws) = ws"
proof
  show "list_all (\<lambda>v. v \<noteq> [] \<and> trim v = v \<and> list_all (\<lambda>c. \<not> entry_separator c) v) (form_entries s)"
    using split_runs_no_sep trim_set by (fastforce simp: form_entries_def list_all_iff)
  have "split_runs entry_separator (join [d] ws) = ws"
    using assms by (intro split_runs_join) (auto simp: list_all_iff)
  moreover have "map trim ws = ws" and "filter (\<lambda>v. v \<noteq> []) ws = ws"
    using assms(3) by (auto simp: list_all_iff map_idI filter_id_conv)
  ultimately show "form_entries (join [d] ws) = ws" by (simp add: form_entries_def)
qed

theorem form_entries_read_witness: "form_entries ''10.0.0.1,AS15169'' = [''10.0.0.1'', ''AS15169'']"
proof -
  have "entry_separator (CHR '','')" by (simp add: entry_separator_def)
  moreover have "list_all (\<lambda>w. w \<noteq> [] \<and> trim w = w \<and> list_all (\<lambda>c. \<not> entry_separator c) w) [''10.0.0.1'', ''AS15169'']"
    by code_simp
  moreover have "join [CHR '',''] [''10.0.0.1'', ''AS15169''] = ''10.0.0.1,AS15169''" by simp
  ultimately show ?thesis
    using form_entries_read [of "CHR '',''" "[''10.0.0.1'', ''AS15169'']" "[]"] by simp
qed

text \<open>The box in the head of a table.  On the reputation page it works on the rows of the page shown: it selects all of
  them or, when all are selected, none of them, and leaves the rest of the selection alone.  On the bot page it works on all
  filtered patterns and replaces the whole selection.  No row is ever selected twice, and the bulk operations send exactly the
  selected rows.\<close>

theorem select_all_effects:
  assumes "distinct (rp_selectedIds st)" and "distinct (bd_selectedPatternIds bt)"
  shows "let page = map ipr_id (paginatedEntries st es (rp_currentPage st));
             shown = map bp_id (filteredPatterns bt ps);
             sel = rp_selectedIds (rp_toggleSelectAll es st);
             bsel = bd_selectedPatternIds (toggleSelectAllPatterns ps bt)
         in distinct sel \<and> distinct bsel \<and>
            distinct (rp_selectedIds (rp_toggleSelect i st)) \<and> distinct (bd_selectedPatternIds (toggleSelectPattern i bt)) \<and>
            set sel = (if set page \<subseteq> set (rp_selectedIds st) then set (rp_selectedIds st) - set page
                       else set (rp_selectedIds st) \<union> set page) \<and>
            set bsel = (if set shown \<subseteq> set (bd_selectedPatternIds bt) then {} else set shown) \<and>
            mutations (snd (rp_handleBulkDelete server st)) =
              (if rp_selectedIds st = [] then [] else [useBulkDeleteIPReputationEntries (rp_selectedIds st)]) \<and>
            mutations (snd (handleBulkDeletePatterns server bt)) =
              (if bd_selectedPatternIds bt = [] then [] else [useBulkDeleteBotPatterns (bd_selectedPatternIds bt)])"
  using assms
  by (auto simp: Let_def rp_toggleSelectAll_def toggleSelectAllPatterns_def rp_toggleSelect_def toggleSelectPattern_def
      set_add_all set_delete_all new_set_set set_toggle_distinct list_all_iff rp_handleBulkDelete_def
      handleBulkDeletePatterns_def)

theorem select_all_effects_witness: "distinct (rp_selectedIds (rp_toggleSelectAll None reputation_initial))"
proof -
  have "distinct (rp_selectedIds reputation_initial)" "distinct (bd_selectedPatternIds bot_page_initial)" by code_simp+
  from select_all_effects [OF this, where es = None] show ?thesis by (simp add: Let_def)
qed

lemma count_category_get:
  "obj_get (foldl count_category acc es) c =
     (let n = length (filter (\<lambda>e. ipr_category e = c) es)
      in if c = [] \<or> n = 0 then obj_get acc c else Some ((case obj_get acc c of Some m \<Rightarrow> m | None \<Rightarrow> 0) + n))"
proof (induction es arbitrary: acc)
  case (Cons e es)
  have get: "obj_get (count_category acc e) c =
      (if c = ipr_category e \<and> c \<noteq> [] then Some ((case obj_get acc c of Some m \<Rightarrow> m | None \<Rightarrow> 0) + 1) else obj_get acc c)"
    by (auto simp: count_category_def obj_get_set)
  show ?case unfolding foldl_Cons Cons.IH get by (auto simp: Let_def)
qed simp

lemma entry_counts_fold:
  "foldl (\<lambda>(ip, asn) e. if ipr_entry_type e = Entry_Ip then (ip + 1, asn) else (ip, asn + 1)) (a, b) es =
     (a + length (filter (\<lambda>e. ipr_entry_type e = Entry_Ip) es), b + length (filter (\<lambda>e. ipr_entry_type e \<noteq> Entry_Ip) es))"
  by (induction es arbitrary: a b) auto

text \<open>The counts above the reputation table.  A category is listed exactly when some entry has it, with the number of its
  entries; the numbers of addresses and of networks add up to the number of entries; and the pages of the table are together
  the filtered entries.\<close>

theorem reputation_table:
  "obj_get (categoryCounts (Some es)) c =
     (if c = [] \<or> list_all (\<lambda>e. ipr_category e \<noteq> c) es then None
      else Some (length (filter (\<lambda>e. ipr_category e = c) es))) \<and>
   fst (entry_counts (Some es)) + snd (entry_counts (Some es)) = length es \<and>
   concat (map (paginatedEntries st (Some es)) [1..<Suc (entry_pages st (Some es))]) = filteredEntries st (Some es)"
proof (intro conjI)
  have "length (filter (\<lambda>e. ipr_category e = c) es) = 0 \<longleftrightarrow> list_all (\<lambda>e. ipr_category e \<noteq> c) es"
    by (auto simp: list_all_iff filter_empty_conv)
  then show "obj_get (categoryCounts (Some es)) c =
     (if c = [] \<or> list_all (\<lambda>e. ipr_category e \<noteq> c) es then None
      else Some (length (filter (\<lambda>e. ipr_category e = c) es)))"
    by (simp add: categoryCounts_def count_category_get Let_def)
  show "fst (entry_counts (Some es)) + snd (entry_counts (Some es)) = length es"
    using sum_length_filter_compl [of "\<lambda>e. ipr_entry_type e = Entry_Ip" es]
    by (simp add: entry_counts_def entry_counts_fold)
qed (rule entry_table.pages_cover)

text \<open>Saving entries.  An edited entry keeps its dialog open until the server accepts it.  For new entries the dialog is closed
  before the request is sent, whatever their number, so that a refusal is reported by a message alone.\<close>

theorem new_entries_close_dialog:
  assumes "rp_editingEntry st = None" and "form_entries (rp_formValues st) \<noteq> []"
  shows "\<not> rp_isDialogOpen (fst (rp_handleSubmit server st)) \<and>
    mutations (snd (rp_handleSubmit server st)) =
      [useCreateIPReputationEntry (ip_reputation_request_json (create_entry_request st))] \<and>
    rp_isDialogOpen (fst (rp_handleSubmit server (st\<lparr>rp_editingEntry := Some e\<rparr>))) =
      (isl (server (mu_call (useUpdateIPReputationEntry (ipr_id e) (ip_reputation_request_json (update_entry_request st))))) \<and>
       rp_isDialogOpen st)"
  using assms
  by (auto simp: rp_handleSubmit_def Let_def update_entry_request_def isl_def split: sum.splits)

theorem new_entries_close_dialog_witness:
  "\<not> rp_isDialogOpen (fst (rp_handleSubmit (\<lambda>_. Inl \<lparr>err_message = ''refused'', err_statusCode = 400, err_response = JNull\<rparr>)
     (reputation_initial\<lparr>rp_isDialogOpen := True, rp_formValues := ''10.0.0.1''\<rparr>)))"
proof -
  let ?st = "reputation_initial\<lparr>rp_isDialogOpen := True, rp_formValues := ''10.0.0.1''\<rparr>"
  have "rp_editingEntry ?st = None" "form_entries (rp_formValues ?st) \<noteq> []" by code_simp+
  then show ?thesis using new_entries_close_dialog by blast
qed

text \<open>The two groups of outside scores share one form.  After a score of each group was changed, saving the first group sends
  and stores the unsaved score of the second too, while the second still counts as unsaved.\<close>

theorem saving_one_list_saves_both:
  "let st1 = maxmind_dc_change c a st; st2 = spamhaus_ip_change (the (rp_currentConfig rep st1)) b st1;
       r = handleSaveMaxmind server st2
   in mutations (snd r) = [useUpdateIPReputationConfig (ip_reputation_config_json
        (c\<lparr>ipc_cfg_maxmind_dc_score := a, ipc_cfg_spamhaus_ip_score := b\<rparr>))] \<and> rp_spamhausDirty (fst r)"
  by (auto simp: Let_def maxmind_dc_change_def spamhaus_ip_change_def rp_currentConfig_def handleSaveMaxmind_def
      split: sum.splits)

end
