(* ===== verification/Server_Checks.thy ===== *)
theory Server_Checks
  imports Bot_Dialogs Ip_Reputation Settings_Pages
begin

text \<open>
  What the backend accepts of the bot, reputation and settings pages: the checks of the request handlers
  (\<open>src/internal/api/v1/handler/bot_pattern_handler.go\<close>, \<open>bot_ip_range_handler.go\<close>, \<open>ip_reputation_handler.go\<close>,
  \<open>validation.go\<close>) on a decoded body, in the order of the code, and what a bulk update stores
  (\<open>src/internal/repository/bot_pattern_repository.go\<close>).  The database, which may refuse for reasons of its own,
  is not modelled; \<open>demo\<close> is the flag of the demo mode.  The properties compare the checks with those of the pages.
\<close>

section \<open>Refusals\<close>

type_synonym refusal = "nat \<times> string"

definition demo_refusal :: refusal where
  "demo_refusal = (403, ''Restrict Demo Only'')"

definition bad_request :: "string \<Rightarrow> refusal" where
  "bad_request m = (400, m)"

text \<open>The first of several checks that fails.\<close>

fun first_refusal :: "(bool \<times> string) list \<Rightarrow> refusal option" where
  "first_refusal [] = None"
| "first_refusal ((bad, m) # cs) = (if bad then Some (bad_request m) else first_refusal cs)"

definition refuse_demo :: "bool \<Rightarrow> refusal option \<Rightarrow> refusal option" where
  "refuse_demo demo r = (if demo then Some demo_refusal else r)"

lemma first_refusal_None: "first_refusal cs = None \<longleftrightarrow> list_all (\<lambda>c. \<not> fst c) cs"
  by (induction cs rule: first_refusal.induct) auto

lemma refuse_demo_None [simp]: "refuse_demo demo r = None \<longleftrightarrow> \<not> demo \<and> r = None"
  by (simp add: refuse_demo_def)

section \<open>Bot patterns\<close>

definition score_refused :: "pattern_type \<Rightarrow> int \<Rightarrow> bool" where
  "score_refused t score = (if t = Good_Bot then score > 0 else score < 0 \<or> score > 50)"

definition score_message :: "string \<Rightarrow> pattern_type \<Rightarrow> int \<Rightarrow> string" where
  "score_message hint t score =
     (if t = Good_Bot then ''Invalid score for good_bot: '' @ int_to_string score @ ''. Must be 0 or negative'' @ hint
      else ''Invalid score for '' @ pattern_type_str t @ '': '' @ int_to_string score @ ''. Must be between 0-50'')"

text \<open>One pattern, created or replaced.\<close>

definition check_bot_pattern :: "bool \<Rightarrow> bot_pattern_request \<Rightarrow> refusal option" where
  "check_bot_pattern demo r = refuse_demo demo (first_refusal [
     (pattern_type_str (bpr_pattern_type r) = [] \<or> bpr_pattern r = [], ''PatternType and Pattern are required''),
     (score_refused (bpr_pattern_type r) (bpr_score r),
        score_message '' (e.g., -100)'' (bpr_pattern_type r) (bpr_score r))])"

text \<open>\<open>strings.TrimSpace\<close> on characters below 256; the blanks are those of the lexer.\<close>

definition TrimSpace :: "string \<Rightarrow> string" where
  "TrimSpace s = rev (dropWhile go_space (rev (dropWhile go_space s)))"

definition check_bulk_create :: "bool \<Rightarrow> bulk_create_request \<Rightarrow> refusal + bot_pattern_request list" where
  "check_bulk_create demo r =
     (let patterns = filter (\<lambda>p. p \<noteq> []) (map TrimSpace (bcr_patterns r))
      in case refuse_demo demo (first_refusal [
           (length (bcr_patterns r) = 0, ''patterns is required''),
           (length (bcr_patterns r) > 500, ''Maximum 500 patterns per bulk create''),
           (pattern_type_str (bcr_pattern_type r) = [], ''pattern_type is required''),
           (score_refused (bcr_pattern_type r) (bcr_score r), score_message [] (bcr_pattern_type r) (bcr_score r)),
           (length patterns = 0, ''No valid patterns provided'')]) of
           Some e \<Rightarrow> Inl e
         | None \<Rightarrow> Inr (map (\<lambda>p. \<lparr>bpr_pattern_type = bcr_pattern_type r, bpr_pattern = p, bpr_score = bcr_score r,
             bpr_verify_ip = bcr_verify_ip r, bpr_enabled = bcr_enabled r, bpr_description = bcr_description r\<rparr>) patterns))"

definition check_bulk_update :: "bool \<Rightarrow> bulk_update_request \<Rightarrow> refusal option" where
  "check_bulk_update demo r = refuse_demo demo (first_refusal [
     (length (bur_ids r) = 0, ''ids is required''),
     (length (bur_ids r) > 500, ''Maximum 500 patterns per bulk update''),
     (bur_pattern_type r = None \<and> bur_score r = None \<and> bur_verify_ip r = None \<and> bur_enabled r = None,
        ''At least one field to update is required''),
     (case bur_score r of None \<Rightarrow> False | Some s \<Rightarrow> s < - 200 \<or> s > 50, ''Score must be between -200 and 50'')])"

text \<open>\<open>BulkUpdatePatterns\<close>: the columns that were given are set in the rows with one of the ids.\<close>

definition BulkUpdatePatterns :: "bulk_update_request \<Rightarrow> bot_pattern \<Rightarrow> bot_pattern" where
  "BulkUpdatePatterns r p =
     (if bp_id p \<in> set (bur_ids r)
      then p\<lparr>bp_pattern_type := (case bur_pattern_type r of Some t \<Rightarrow> t | None \<Rightarrow> bp_pattern_type p),
             bp_score := (case bur_score r of Some s \<Rightarrow> s | None \<Rightarrow> bp_score p),
             bp_verify_ip := (case bur_verify_ip r of Some v \<Rightarrow> v | None \<Rightarrow> bp_verify_ip p),
             bp_enabled := (case bur_enabled r of Some v \<Rightarrow> v | None \<Rightarrow> bp_enabled p)\<rparr>
      else p)"

section \<open>Address ranges\<close>

definition check_range_create :: "bool \<Rightarrow> bot_ip_range_request \<Rightarrow> refusal option" where
  "check_range_create demo r = refuse_demo demo (first_refusal [
     (birr_name r = [], ''Name is required''),
     (birr_source_type r = Json_Url \<and> birr_url r = [], ''URL is required for json_url source type''),
     (birr_source_type r = Manual \<and> length (birr_ip_ranges r) = 0,
        ''At least one IP range is required for manual source type'')])"

text \<open>A replaced provider is checked for its name only.\<close>

definition check_range_update :: "bool \<Rightarrow> bot_ip_range_request \<Rightarrow> refusal option" where
  "check_range_update demo r = refuse_demo demo (first_refusal [(birr_name r = [], ''Name is required'')])"

section \<open>Reputation\<close>

definition check_bulk_score :: "bool \<Rightarrow> int list \<Rightarrow> int \<Rightarrow> refusal option" where
  "check_bulk_score demo ids score = refuse_demo demo (first_refusal [
     (length ids = 0, ''ids is required''),
     (length ids > 5000, ''Maximum 5000 entries per bulk update''),
     (score < 1 \<or> score > 100, ''score must be between 1 and 100'')])"

definition check_bulk_delete :: "bool \<Rightarrow> int list \<Rightarrow> refusal option" where
  "check_bulk_delete demo ids = refuse_demo demo (first_refusal [
     (length ids = 0, ''ids is required''),
     (length ids > 5000, ''Maximum 5000 entries per bulk delete'')])"

definition check_reputation_config :: "bool \<Rightarrow> ip_reputation_config \<Rightarrow> refusal option" where
  "check_reputation_config demo c = refuse_demo demo (first_refusal [
     (ipc_cfg_maxmind_dc_score c < 0 \<or> ipc_cfg_maxmind_dc_score c > 100, ''maxmind_dc_score must be between 0 and 100''),
     (ipc_cfg_maxmind_asn_score c < 0 \<or> ipc_cfg_maxmind_asn_score c > 100, ''maxmind_asn_score must be between 0 and 100''),
     (ipc_cfg_spamhaus_ip_score c < 0 \<or> ipc_cfg_spamhaus_ip_score c > 100, ''spamhaus_ip_score must be between 0 and 100''),
     (ipc_cfg_spamhaus_asn_score c < 0 \<or> ipc_cfg_spamhaus_asn_score c > 100, ''spamhaus_asn_score must be between 0 and 100'')])"

section \<open>Settings\<close>

text \<open>Of several weights out of range the code reports one, whichever its map yields first; here it is the first in the
  order of the object.\<close>

definition ValidateBotConfig :: "bot_config \<Rightarrow> string option" where
  "ValidateBotConfig c = map_option snd (first_refusal ([
     (bc_threshold c < 0 \<or> bc_threshold c > 100,
        ''invalid threshold: '' @ int_to_string (bc_threshold c) @ ''. Allowed range: 0-100''),
     (bc_action c \<notin> set [''allow'', ''block'', ''challenge''],
        ''invalid action: '' @ [CHR 0x27] @ bc_action c @ [CHR 0x27] @ ''. Allowed values: '' @
        [CHR 0x27] @ ''allow'' @ [CHR 0x27] @ '', '' @ [CHR 0x27] @ ''block'' @ [CHR 0x27] @ '', '' @
        [CHR 0x27] @ ''challenge'' @ [CHR 0x27]),
     (bc_challenge_duration c < 60, ''invalid challenge_duration: '' @ int_to_string (bc_challenge_duration c) @
        '' seconds. Minimum allowed: 60 seconds (1 minute)''),
     (bc_challenge_wait c < 1 \<or> bc_challenge_wait c > 30,
        ''invalid challenge_wait: '' @ int_to_string (bc_challenge_wait c) @ '' seconds. Allowed range: 1-30 seconds'')] @
     map (\<lambda>(k, v). (v < 0 \<or> v > 50, ''invalid score for rule '' @ [CHR 0x27] @ k @ [CHR 0x27] @ '': '' @ int_to_string v @
        ''. Allowed range: 0-50'')) (bc_rules c)))"

definition ValidateWAFConfig :: "waf_config \<Rightarrow> string option" where
  "ValidateWAFConfig c = map_option snd (first_refusal [
     (waf_paranoia_level c < 1 \<or> waf_paranoia_level c > 4,
        ''invalid paranoia_level: '' @ int_to_string (waf_paranoia_level c) @ ''. Allowed range: 1-4''),
     (waf_anomaly_threshold c < 1 \<or> waf_anomaly_threshold c > 100,
        ''invalid anomaly_threshold: '' @ int_to_string (waf_anomaly_threshold c) @ ''. Allowed range: 1-100'')])"

definition multiplier_ok :: "decimal \<Rightarrow> bool" where
  "multiplier_ok d = (case d of (m, k) \<Rightarrow> 0 \<le> m \<and> m \<le> 5 * 10 ^ k)"

text \<open>The texts of the refused weights are left out.\<close>

definition ValidateScoringConfig :: "scoring_config \<Rightarrow> bool" where
  "ValidateScoringConfig c \<longleftrightarrow>
     (let t = sc_thresholds c
      in 1 \<le> st_block t \<and> st_block t \<le> 100 \<and> 1 \<le> st_challenge t \<and> st_challenge t \<le> 100 \<and> st_block t > st_challenge t \<and>
         list_all (\<lambda>k. let w = weight_of (sc_weights c) k
           in 0 \<le> cw_max_score w \<and> cw_max_score w \<le> 100 \<and> multiplier_ok (cw_multiplier w)) CATEGORY_META)"

definition check_bot_config :: "bool \<Rightarrow> bot_config \<Rightarrow> refusal option" where
  "check_bot_config demo c = refuse_demo demo (map_option bad_request (ValidateBotConfig c))"


section \<open>What the pages send\<close>

text \<open>Some line of a text is not blank exactly when the text is not.\<close>

lemma trim_Nil: "trim s = [] \<longleftrightarrow> list_all js_space s"
proof -
  have "dropWhile js_space s = [] \<longleftrightarrow> (\<forall>c\<in>set (rev (dropWhile js_space s)). js_space c)"
    using hd_dropWhile [of js_space s] by (cases "dropWhile js_space s") (auto dest: set_dropWhileD)
  then have "trim s = [] \<longleftrightarrow> dropWhile js_space s = []" by (simp add: trim_def)
  then show ?thesis by (simp add: list_all_iff)
qed

lemma split_on_chars: "(\<Union>w\<in>set (split_on d s). set w) = set s - {d}"
proof (induction s)
  case (Cons c s)
  obtain w ws where sp: "split_on d s = w # ws" using split_on_ne by (cases "split_on d s") auto
  have "set w \<union> (\<Union>w\<in>set ws. set w) = set s - {d}" using Cons by (simp add: sp)
  then show ?case by (cases "c = d") (auto simp: sp)
qed simp

lemma clean_lines_Nil: "clean_lines s = [] \<longleftrightarrow> trim s = []"
proof -
  have "clean_lines s = [] \<longleftrightarrow> (\<forall>c \<in> (\<Union>w\<in>set (split_on newline s). set w). js_space c)"
    by (auto simp: clean_lines_def split_lines_def filter_empty_conv trim_Nil list_all_iff)
  also have "\<dots> \<longleftrightarrow> trim s = []"
    using newline_space by (auto simp: split_on_chars trim_Nil list_all_iff)
  finally show ?thesis .
qed

text \<open>C26: the button that saves a provider of address ranges is disabled exactly when the server would refuse to create
  what it sends for a missing value, although the page looks at the text of the address field and the server at the list of its
  lines.  What the button saves is accepted as a replacement too.\<close>

theorem range_button_matches_server:
  "(range_save_disabled st \<longleftrightarrow> check_range_create False (range_request st) \<noteq> None) \<and>
   (if range_save_disabled st then True else check_range_update False (range_request st) = None)"
  by (cases "birr_source_type (bd_ipRangeFormData st)")
    (auto simp: range_save_disabled_def check_range_create_def check_range_update_def first_refusal_None range_request_def
      Let_def clean_lines_Nil simp del: first_refusal.simps)

text \<open>The edits of the pattern dialog that do not type a score.\<close>

fun no_score_typed :: "form_event \<Rightarrow> bool" where
  "no_score_typed (Form_Score s) \<longleftrightarrow> False"
| "no_score_typed e \<longleftrightarrow> True"

lemma suggested_score_accepted:
  "\<not> score_refused t s \<Longrightarrow> \<not> score_refused t' (suggested_score t' s)"
  by (auto simp: score_refused_def suggested_score_def split: if_splits)

lemma form_act_score:
  assumes "no_score_typed e" and "\<not> score_refused (bpr_pattern_type (bd_patternFormData st)) (bpr_score (bd_patternFormData st))"
  shows "\<not> score_refused (bpr_pattern_type (bd_patternFormData (form_act e st))) (bpr_score (bd_patternFormData (form_act e st)))"
  using assms
  by (cases e) (auto simp: form_defs Let_def suggested_score_accepted split: option.splits)

lemma form_acts_score:
  assumes "list_all no_score_typed es"
    and "\<not> score_refused (bpr_pattern_type (bd_patternFormData st)) (bpr_score (bd_patternFormData st))"
  shows "let f = bd_patternFormData (foldl (\<lambda>s e. form_act e s) st es)
         in \<not> score_refused (bpr_pattern_type f) (bpr_score f)"
  using assms
proof (induction es arbitrary: st)
  case (Cons e es)
  then show ?case using form_act_score [of e st] by simp
qed simp

lemma pattern_type_str_ne: "pattern_type_str t \<noteq> []"
  by (cases t) simp_all

text \<open>The scores the pattern dialog suggests stay within the server's bounds.  From the dialog of a stored pattern whose
  score the server accepts, or of a new one, and after any edits in which no score is typed, such as changes of the
  classification, the server refuses the form for its score never, and refuses it at all exactly when the pattern is empty,
  which is when the button is disabled.\<close>

theorem suggested_scores_accepted:
  assumes "\<not> score_refused (bp_pattern_type p) (bp_score p)" and "list_all no_score_typed es"
  shows "let f = bd_patternFormData (foldl (\<lambda>s e. form_act e s) (handleOpenPatternDialog opened st) es)
         in if opened = Some p \<or> opened = None
            then (check_bot_pattern False f = None \<longleftrightarrow> bpr_pattern f \<noteq> []) \<and>
              (bpr_pattern_type f = Good_Bot \<longrightarrow> bpr_score f \<le> 0) \<and>
              (bpr_pattern_type f \<noteq> Good_Bot \<longrightarrow> 0 \<le> bpr_score f \<and> bpr_score f \<le> 50)
            else True"
proof -
  let ?st = "handleOpenPatternDialog opened st"
  have "\<not> score_refused (bpr_pattern_type (bd_patternFormData ?st)) (bpr_score (bd_patternFormData ?st))"
    if "opened = Some p \<or> opened = None"
    using that assms(1) by (auto simp: handleOpenPatternDialog_def new_pattern_form_def score_refused_def)
  then show ?thesis
    using form_acts_score [OF assms(2), of ?st]
    by (auto simp: Let_def check_bot_pattern_def pattern_type_str_ne score_refused_def split: if_splits)
qed

theorem suggested_scores_accepted_witness:
  "check_bot_pattern False (bd_patternFormData
     (pattern_type_change Bad_Bot (handleOpenPatternDialog (Some (sample_pattern 1)) bot_page_initial))) = None"
proof -
  have "\<not> score_refused (bp_pattern_type (sample_pattern 1)) (bp_score (sample_pattern 1))"
    "list_all no_score_typed [Form_Type Bad_Bot]" by code_simp+
  from suggested_scores_accepted [OF this, where opened = "Some (sample_pattern 1)" and st = bot_page_initial]
  have "check_bot_pattern False (bd_patternFormData
     (pattern_type_change Bad_Bot (handleOpenPatternDialog (Some (sample_pattern 1)) bot_page_initial))) = None \<longleftrightarrow>
     bpr_pattern (bd_patternFormData (pattern_type_change Bad_Bot
       (handleOpenPatternDialog (Some (sample_pattern 1)) bot_page_initial))) \<noteq> []"
    by (simp add: Let_def)
  moreover have "bpr_pattern (bd_patternFormData (pattern_type_change Bad_Bot
       (handleOpenPatternDialog (Some (sample_pattern 1)) bot_page_initial))) \<noteq> []" by code_simp
  ultimately show ?thesis by blast
qed

text \<open>A bulk edit of the classification alone is accepted for up to 500 patterns whatever their scores, since only a
  score that is sent is checked.  A pattern with a positive score becomes a good bot with a positive score, which no single edit
  may store: opened and saved as it is, with its button enabled, the server refuses it.\<close>

theorem bulk_type_breaks_score:
  assumes "bd_selectedPatternIds st = ids" and "length ids \<le> 500" and "bp_id p \<in> set ids"
    and "bp_score p > 0" and "bp_pattern p \<noteq> []"
    and "bd_bulkEditForm st = bulk_edit_initial\<lparr>bef_apply_type := True, bef_pattern_type := Good_Bot\<rparr>"
  shows "let r = bulk_updates ids (bd_bulkEditForm st); p' = BulkUpdatePatterns r p;
             st' = handleOpenPatternDialog (Some p') st
         in check_bulk_update False r = None \<and> bp_pattern_type p' = Good_Bot \<and> bp_score p' = bp_score p \<and>
            (case pattern_dialog st' of None \<Rightarrow> False | Some dlg \<Rightarrow> \<not> dlg_disabled dlg) \<and>
            check_bot_pattern False (bd_patternFormData st') =
              Some (400, ''Invalid score for good_bot: '' @ int_to_string (bp_score p) @ ''. Must be 0 or negative (e.g., -100)'')"
proof -
  have ids: "ids \<noteq> []" using assms(3) by auto
  show ?thesis
    using assms ids
    by (simp add: Let_def bulk_updates_def check_bulk_update_def BulkUpdatePatterns_def handleOpenPatternDialog_def
        bulk_edit_initial_def pattern_dialog_def check_bot_pattern_def score_refused_def score_message_def refuse_demo_def
        bad_request_def)
qed

theorem bulk_type_breaks_score_witness:
  "check_bulk_update False (bulk_updates [7]
     (bulk_edit_initial\<lparr>bef_apply_type := True, bef_pattern_type := Good_Bot\<rparr>)) = None"
proof -
  let ?p = "(sample_pattern 7)\<lparr>bp_pattern_type := Bad_Bot, bp_score := 10\<rparr>"
  let ?f = "bulk_edit_initial\<lparr>bef_apply_type := True, bef_pattern_type := Good_Bot\<rparr>"
  let ?st = "bot_page_initial\<lparr>bd_selectedPatternIds := [7], bd_bulkEditForm := ?f\<rparr>"
  have "bp_id ?p \<in> set [7]" "0 < bp_score ?p" "bp_pattern ?p \<noteq> []" by (simp_all add: sample_pattern_def)
  then show ?thesis using bulk_type_breaks_score [of ?st "[7]" ?p] by (simp add: Let_def)
qed

text \<open>What becomes of the patterns typed into the dialog.  More than 500 lines are sent and refused as a whole; otherwise
  the server creates one pattern for each line that is not blank, all with the values of the form, unless their score
  is out of bounds.\<close>

theorem typed_patterns_created:
  "let lines = clean_lines (bpr_pattern f)
   in check_bulk_create False (bulk_create_of f) =
        (if lines = [] then Inl (400, ''patterns is required'')
         else if length lines > 500 then Inl (400, ''Maximum 500 patterns per bulk create'')
         else if score_refused (bpr_pattern_type f) (bpr_score f)
           then Inl (400, score_message [] (bpr_pattern_type f) (bpr_score f))
         else if filter (\<lambda>p. p \<noteq> []) (map TrimSpace lines) = [] then Inl (400, ''No valid patterns provided'')
         else Inr (map (\<lambda>l. f\<lparr>bpr_pattern := l\<rparr>) (filter (\<lambda>p. p \<noteq> []) (map TrimSpace lines))))"
  by (simp add: Let_def check_bulk_create_def bulk_create_of_def refuse_demo_def bad_request_def pattern_type_str_ne)

end
