(* ===== verification/Bot_Scoring.thy ===== *)
theory Bot_Scoring
  imports Server_Checks
begin

text \<open>
  How the backend scores a request with what the bot detection page edits: the weights of the rules and the patterns
  (\<open>src/internal/scoring/scorer.go\<close> and \<open>helpers.go\<close>).  The properties connect the page, the server's checks and the
  score: which weights count, and in which bounds the score of a request lies.
\<close>

section \<open>Requests\<close>

record scored_request =
  rq_ua               :: string
  rq_accept           :: string
  rq_accept_encoding  :: string
  rq_accept_language  :: string
  rq_sec_fetch_site   :: string
  rq_sec_fetch_mode   :: string
  rq_sec_fetch_dest   :: string
  rq_sec_ch_ua        :: string
  rq_x_requested_with :: string
  rq_referer          :: string
  rq_geo_lang_mismatch   :: bool
  rq_repeat_no_cookie    :: bool
  rq_burst_rate          :: bool
  rq_regular_interval    :: bool
  rq_unknown_browser_bot :: bool

definition looksLikeBrowserUA :: "string \<Rightarrow> bool" where
  "looksLikeBrowserUA ua \<longleftrightarrow> ua \<noteq> [] \<and>
     list_ex (str_includes (toLowerCase ua)) [''mozilla'', ''chrome'', ''safari'', ''firefox'', ''edge'', ''opera'',
       ''msie'', ''trident'', ''webkit'', ''gecko'']"

definition looksLikeChromiumUA :: "string \<Rightarrow> bool" where
  "looksLikeChromiumUA ua \<longleftrightarrow>
     list_ex (str_includes (toLowerCase ua)) [''chrome'', ''chromium'', ''edg/'', ''brave'', ''opr/'']"

definition looksLikeFirefoxUA :: "string \<Rightarrow> bool" where
  "looksLikeFirefoxUA ua \<longleftrightarrow>
     str_includes (toLowerCase ua) ''firefox'' \<or> str_includes (toLowerCase ua) ''fxios''"

definition isHeadlessUA :: "string \<Rightarrow> bool" where
  "isHeadlessUA ua \<longleftrightarrow> ua \<noteq> [] \<and>
     list_ex (str_includes (toLowerCase ua)) [''headlesschrome'', ''headlessfirefox'', ''phantomjs'', ''selenium'',
       ''puppeteer'', ''playwright'', ''webdriver'', ''httrack'', ''chromium headless'']"

section \<open>The score of the headers\<close>

text \<open>The rules that apply to a request, in the order in which they are added.\<close>

definition applies :: "bool \<Rightarrow> string \<Rightarrow> string list" where
  "applies c key = (if c then [key] else [])"

definition header_rules :: "scored_request \<Rightarrow> string list" where
  "header_rules r =
     (let hasSite = rq_sec_fetch_site r \<noteq> []; hasMode = rq_sec_fetch_mode r \<noteq> []; hasDest = rq_sec_fetch_dest r \<noteq> [];
          hasAny = (hasSite \<or> hasMode \<or> hasDest); hasAll = (hasSite \<and> hasMode \<and> hasDest); ua = rq_ua r
      in (if ua = [] then [''missing_user_agent''] else applies (length ua < 20) ''short_user_agent'') @
         (if rq_accept r = [] then [''missing_accept'']
          else applies (rq_accept r = ''*/*'' \<and> looksLikeBrowserUA ua) ''wildcard_accept_browser_ua'') @
         applies (rq_accept_language r = []) ''missing_accept_language'' @
         (if rq_accept_encoding r = [] then [''missing_accept_encoding'']
          else applies (\<not> str_includes (rq_accept_encoding r) ''gzip'' \<and> \<not> str_includes (rq_accept_encoding r) ''br'')
            ''no_gzip_or_br'') @
         (if \<not> hasAny \<and> looksLikeBrowserUA ua then [''missing_sec_fetch'']
          else applies (hasAny \<and> \<not> hasAll) ''incomplete_sec_fetch'') @
         (if looksLikeChromiumUA ua
          then applies (rq_sec_ch_ua r = []) ''chromium_missing_sec_ch_ua'' @
            applies (\<not> hasAny) ''chromium_missing_sec_fetch''
          else []) @
         applies (looksLikeFirefoxUA ua \<and> rq_sec_ch_ua r \<noteq> []) ''firefox_has_sec_ch_ua'' @
         applies (rq_x_requested_with r = [] \<and> rq_referer r = [] \<and> rq_accept r = ''*/*'') ''no_browser_indicators'' @
         applies (isHeadlessUA ua) ''headless_browser'' @
         applies (rq_geo_lang_mismatch r) ''geo_lang_mismatch'' @
         applies (rq_repeat_no_cookie r) ''repeat_no_cookie'' @
         applies (rq_burst_rate r) ''burst_rate'' @
         applies (rq_regular_interval r) ''regular_interval'' @
         applies (rq_unknown_browser_bot r) ''unknown_browser_bot'')"

text \<open>A map gives 0 for a key it does not have.\<close>

definition map_weight :: "int js_obj \<Rightarrow> string \<Rightarrow> int" where
  "map_weight rules key = (case obj_get rules key of Some n \<Rightarrow> n | None \<Rightarrow> 0)"

type_synonym reasons = "(string \<times> int) list"

definition AnalyzeHeaders :: "int js_obj \<Rightarrow> scored_request \<Rightarrow> reasons" where
  "AnalyzeHeaders rules r = map (\<lambda>key. (key, map_weight rules key)) (header_rules r)"

definition TotalScore :: "reasons \<Rightarrow> int" where
  "TotalScore rs = sum_list (map snd rs)"

section \<open>The score of the patterns\<close>

text \<open>The first bad and the first suspicious pattern that match count, up to 10 and 5 points; a good bot is noted, and
  the last one that matches is kept.\<close>

record agent_state =
  as_bad  :: bool
  as_susp :: bool
  as_good :: "(string \<times> bool \<times> int) option"
  as_reasons :: reasons

definition agent_step :: "string \<Rightarrow> agent_state \<Rightarrow> bot_pattern \<Rightarrow> agent_state" where
  "agent_step ua st p =
     (if \<not> bp_enabled p \<or> \<not> str_includes (toLowerCase ua) (toLowerCase (bp_pattern p)) then st
      else (case bp_pattern_type p of
          Good_Bot \<Rightarrow> st\<lparr>as_good := Some (bp_pattern p, bp_verify_ip p, bp_score p),
            as_reasons := as_reasons st @ [(''potential_good_bot:'' @ bp_pattern p, 0)]\<rparr>
        | Bad_Bot \<Rightarrow> if as_bad st then st
            else st\<lparr>as_bad := True, as_reasons := as_reasons st @ [(''bad_bot:'' @ bp_pattern p, min 10 (bp_score p))]\<rparr>
        | Suspicious_Ua \<Rightarrow> if as_susp st then st
            else st\<lparr>as_susp := True, as_reasons := as_reasons st @ [(''suspicious:'' @ bp_pattern p, min 5 (bp_score p))]\<rparr>
        | Bad_Referer \<Rightarrow> st))"

definition AnalyzeUserAgent :: "string \<Rightarrow> bot_pattern list \<Rightarrow> agent_state" where
  "AnalyzeUserAgent ua patterns =
     (let init = \<lparr>as_bad = False, as_susp = False, as_good = None, as_reasons = []\<rparr>
      in if ua = [] then init else foldl (agent_step ua) init patterns)"

definition AnalyzeReferer :: "string \<Rightarrow> bot_pattern list \<Rightarrow> reasons" where
  "AnalyzeReferer referer patterns =
     (if referer = [] then []
      else map (\<lambda>p. (''bad_referer:'' @ bp_pattern p, min 10 (bp_score p)))
        (filter (\<lambda>p. bp_enabled p \<and> bp_pattern_type p = Bad_Referer \<and>
           str_includes (toLowerCase referer) (toLowerCase (bp_pattern p))) patterns))"

definition CombineScores :: "reasons list \<Rightarrow> int" where
  "CombineScores scores = min 100 (sum_list (map TotalScore scores))"

definition DetermineAction :: "int \<Rightarrow> int \<Rightarrow> string \<Rightarrow> string" where
  "DetermineAction score threshold configAction =
     (if score < 0 then ''allow'' else if score \<ge> threshold then configAction else [])"

text \<open>The score of a request before good bots are verified, and the action it leads to.\<close>

definition request_score :: "bot_config \<Rightarrow> bot_pattern list \<Rightarrow> scored_request \<Rightarrow> int" where
  "request_score c patterns r = CombineScores [AnalyzeHeaders (bc_rules c) r,
     as_reasons (AnalyzeUserAgent (rq_ua r) patterns), AnalyzeReferer (rq_referer r) patterns]"

definition request_action :: "bot_config \<Rightarrow> bot_pattern list \<Rightarrow> scored_request \<Rightarrow> string" where
  "request_action c patterns r = DetermineAction (request_score c patterns r) (bc_threshold c) (bc_action c)"

section \<open>Properties\<close>

definition scorer_keys :: "string list" where
  "scorer_keys = [''missing_user_agent'', ''short_user_agent'', ''missing_accept'', ''wildcard_accept_browser_ua'',
     ''missing_accept_language'', ''missing_accept_encoding'', ''no_gzip_or_br'', ''missing_sec_fetch'',
     ''incomplete_sec_fetch'', ''chromium_missing_sec_ch_ua'', ''chromium_missing_sec_fetch'', ''firefox_has_sec_ch_ua'',
     ''no_browser_indicators'', ''headless_browser'', ''geo_lang_mismatch'', ''repeat_no_cookie'', ''burst_rate'',
     ''regular_interval'', ''unknown_browser_bot'']"

lemma applies_set: "set (applies c key) = (if c then {key} else {})"
  by (simp add: applies_def)

lemma header_rules_keys: "set (header_rules r) \<subseteq> set scorer_keys"
  unfolding header_rules_def Let_def set_append Un_subset_iff
  by (cases "looksLikeChromiumUA (rq_ua r)"; intro conjI; simp add: applies_set scorer_keys_def)

text \<open>Four requests to which every rule applies.\<close>

definition plain_request :: scored_request where
  "plain_request = \<lparr>rq_ua = [], rq_accept = [], rq_accept_encoding = [], rq_accept_language = [],
     rq_sec_fetch_site = ''none'', rq_sec_fetch_mode = [], rq_sec_fetch_dest = [], rq_sec_ch_ua = [], rq_x_requested_with = [],
     rq_referer = [], rq_geo_lang_mismatch = True, rq_repeat_no_cookie = True, rq_burst_rate = True,
     rq_regular_interval = True, rq_unknown_browser_bot = True\<rparr>"

definition tool_request :: scored_request where
  "tool_request = plain_request\<lparr>rq_ua := ''webdriver'', rq_accept := ''*/*'', rq_accept_encoding := ''x''\<rparr>"

definition browser_request :: scored_request where
  "browser_request = plain_request\<lparr>rq_ua := ''chrome'', rq_accept := ''*/*'', rq_sec_fetch_site := []\<rparr>"

definition firefox_request :: scored_request where
  "firefox_request = plain_request\<lparr>rq_ua := ''firefox'', rq_sec_ch_ua := ''x''\<rparr>"

lemma sample_rules_applied:
  "set scorer_keys \<subseteq> set (header_rules plain_request) \<union> set (header_rules tool_request) \<union>
     set (header_rules browser_request) \<union> set (header_rules firefox_request)"
proof -
  have p: "header_rules plain_request = [''missing_user_agent'', ''missing_accept'', ''missing_accept_language'',
      ''missing_accept_encoding'', ''incomplete_sec_fetch'', ''geo_lang_mismatch'', ''repeat_no_cookie'', ''burst_rate'',
      ''regular_interval'', ''unknown_browser_bot'']" by code_simp
  have "set (header_rules tool_request) \<supseteq> {''short_user_agent'', ''no_gzip_or_br'', ''no_browser_indicators'', ''headless_browser''}"
    by code_simp
  moreover have "set (header_rules browser_request) \<supseteq> {''wildcard_accept_browser_ua'', ''missing_sec_fetch'',
      ''chromium_missing_sec_ch_ua'', ''chromium_missing_sec_fetch''}" by code_simp
  moreover have "''firefox_has_sec_ch_ua'' \<in> set (header_rules firefox_request)" by code_simp
  ultimately show ?thesis by (simp add: p scorer_keys_def)
qed

text \<open>The weights of the page and those of the scorer.  The fields of the dialog edit distinct keys, the cards show the same
  labels and keys as the dialog, and each key but \<open>generic_accept\<close> is the weight of a rule that applies to some
  request; the weight \<open>generic_accept\<close> changes the score of no request.\<close>

theorem dialog_weights_scored:
  "distinct weight_keys \<and> set (card_weights @ card_more_weights) = set (concat (map snd weight_sections)) \<and>
   set weight_keys = insert ''generic_accept'' (set scorer_keys) \<and>
   list_all (\<lambda>key. \<exists>r. key \<in> fst ` set (AnalyzeHeaders rules r)) scorer_keys \<and>
   AnalyzeHeaders (obj_set rules ''generic_accept'' v) r = AnalyzeHeaders rules r"
proof (intro conjI)
  show "distinct weight_keys" by code_simp
  show "set (card_weights @ card_more_weights) = set (concat (map snd weight_sections))" by code_simp
  show "set weight_keys = insert ''generic_accept'' (set scorer_keys)" by code_simp
  have "\<exists>r. key \<in> set (header_rules r)" if "key \<in> set scorer_keys" for key
    using sample_rules_applied that by blast
  then show "list_all (\<lambda>key. \<exists>r. key \<in> fst ` set (AnalyzeHeaders rules r)) scorer_keys"
    by (force simp: AnalyzeHeaders_def list_all_iff)
  have "''generic_accept'' \<notin> set (header_rules r)"
    using header_rules_keys [of r] by (auto simp: scorer_keys_def)
  then show "AnalyzeHeaders (obj_set rules ''generic_accept'' v) r = AnalyzeHeaders rules r"
    by (auto simp: AnalyzeHeaders_def map_weight_def)
qed


text \<open>A configuration and patterns the server accepts.\<close>

definition stored_pattern_ok :: "bot_pattern \<Rightarrow> bool" where
  "stored_pattern_ok p \<longleftrightarrow> bp_pattern p \<noteq> [] \<and> \<not> score_refused (bp_pattern_type p) (bp_score p)"

lemma accepted_weights:
  assumes "check_bot_config False c = None"
  shows "0 \<le> map_weight (bc_rules c) key \<and> map_weight (bc_rules c) key \<le> 50"
proof -
  have "list_all (\<lambda>c. \<not> fst c) (map (\<lambda>(k, v). (v < 0 \<or> v > 50, ''invalid score for rule '' @ [CHR 0x27] @ k @ [CHR 0x27] @ '': '' @
      int_to_string v @ ''. Allowed range: 0-50'')) (bc_rules c))"
    using assms unfolding check_bot_config_def ValidateBotConfig_def refuse_demo_None option.map_disc_iff first_refusal_None
    by (simp only: list_all_append)
  then have "\<forall>(k, v) \<in> set (bc_rules c). 0 \<le> v \<and> v \<le> 50" by (auto simp: list_all_iff)
  then show ?thesis by (auto simp: map_weight_def split: option.splits dest: map_of_SomeD)
qed

lemma reasons_nonneg: "list_all (\<lambda>x. 0 \<le> snd x) rs \<Longrightarrow> 0 \<le> TotalScore rs"
  by (induction rs) (auto simp: TotalScore_def)

lemma agent_reasons_nonneg:
  assumes "list_all stored_pattern_ok ps" and "list_all (\<lambda>x. 0 \<le> snd x) (as_reasons st)"
  shows "list_all (\<lambda>x. 0 \<le> snd x) (as_reasons (foldl (agent_step ua) st ps))"
  using assms
proof (induction ps arbitrary: st)
  case (Cons p ps)
  have "list_all (\<lambda>x. 0 \<le> snd x) (as_reasons (agent_step ua st p))"
    using Cons.prems by (auto simp: agent_step_def stored_pattern_ok_def score_refused_def split: pattern_type.splits)
  then show ?case using Cons by simp
qed simp


definition sample_config :: bot_config where
  "sample_config = \<lparr>bc_threshold = 20, bc_action = ''challenge'', bc_challenge_duration = 3700, bc_challenge_wait = 30,
     bc_rules = [(''missing_user_agent'', 10), (''missing_accept'', 8)],
     bc_challenge = \<lparr>chc_title = [], chc_description = [], chc_footer = [], chc_custom_html = [], chc_show_ray_id = True\<rparr>,
     bc_trust_levels = \<lparr>tl_level0_max = (4, 1), tl_level1_max = (6, 1), tl_level2_max = (8, 1), tl_reductions = (0, - 5, - 10, - 15)\<rparr>,
     bc_dns_verification = True\<rparr>"

lemma sample_config_accepted: "check_bot_config False sample_config = None"
  by (simp add: check_bot_config_def ValidateBotConfig_def sample_config_def refuse_demo_def)


text \<open>A bulk edit may give a score of -200 to a bad bot, which no single edit may.  A request whose user agent matches
  such a pattern and whose other scores stay below 200 is then allowed, whatever the threshold.\<close>

theorem bulk_score_lets_bad_bots_pass:
  assumes "0 < length ids" and "length ids \<le> 500" and "bp_id p \<in> set ids" and "bp_pattern_type p = Bad_Bot"
    and "bp_enabled p" and "str_includes (toLowerCase (rq_ua r)) (toLowerCase (bp_pattern p))" and "rq_ua r \<noteq> []"
    and "rq_referer r = []" and "TotalScore (AnalyzeHeaders (bc_rules c) r) < 200"
    and "u = \<lparr>bur_ids = ids, bur_pattern_type = None, bur_score = Some (- 200), bur_verify_ip = None, bur_enabled = None\<rparr>"
  shows "check_bulk_update False u = None \<and> request_action c [BulkUpdatePatterns u p] r = ''allow'' \<and>
    check_bot_pattern False \<lparr>bpr_pattern_type = Bad_Bot, bpr_pattern = bp_pattern p, bpr_score = - 200,
      bpr_verify_ip = bp_verify_ip p, bpr_enabled = bp_enabled p, bpr_description = bp_description p\<rparr> \<noteq> None"
proof (intro conjI)
  show "check_bulk_update False u = None"
    using assms by (auto simp: check_bulk_update_def refuse_demo_def)
  have "as_reasons (AnalyzeUserAgent (rq_ua r) [BulkUpdatePatterns u p]) = [(''bad_bot:'' @ bp_pattern p, - 200)]"
    using assms by (simp add: AnalyzeUserAgent_def BulkUpdatePatterns_def agent_step_def)
  moreover have "AnalyzeReferer (rq_referer r) [BulkUpdatePatterns u p] = []" using assms by (simp add: AnalyzeReferer_def)
  ultimately show "request_action c [BulkUpdatePatterns u p] r = ''allow''"
    using assms(9) by (simp add: request_action_def request_score_def CombineScores_def TotalScore_def DetermineAction_def)
qed (simp add: check_bot_pattern_def score_refused_def refuse_demo_def)

theorem bulk_score_lets_bad_bots_pass_witness:
  "request_action sample_config [BulkUpdatePatterns \<lparr>bur_ids = [1], bur_pattern_type = None, bur_score = Some (- 200),
     bur_verify_ip = None, bur_enabled = None\<rparr> (sample_pattern 1\<lparr>bp_pattern_type := Bad_Bot, bp_pattern := ''driver''\<rparr>)]
     tool_request = ''allow''"
proof -
  let ?p = "sample_pattern 1\<lparr>bp_pattern_type := Bad_Bot, bp_pattern := ''driver''\<rparr>"
  have "bp_id ?p \<in> set [1]" "bp_pattern_type ?p = Bad_Bot" "bp_enabled ?p" by (simp_all add: sample_pattern_def)
  moreover have "str_includes (toLowerCase (rq_ua tool_request)) (toLowerCase (bp_pattern ?p))" by code_simp
  moreover have "rq_ua tool_request \<noteq> []" "rq_referer tool_request = []" by (simp_all add: tool_request_def plain_request_def)
  moreover have "TotalScore (AnalyzeHeaders (bc_rules sample_config) tool_request) < 200" by code_simp
  ultimately show ?thesis using bulk_score_lets_bad_bots_pass [of "[1]" ?p tool_request sample_config] by simp
qed

end
