(* ===== verification/Reputation_Dialogs.thy ===== *)
theory Reputation_Dialogs
  imports Server_Checks
begin

text \<open>
  What the reputation page shows and what each of its controls does
  (\<open>src/frontend/src/pages/security/IPReputation.tsx\<close>, the markup of the component): the two cards of scores, the
  filters, the table with its pager, the two dialogs, and the page as a machine whose steps are the controls.  A number
  field gives the number typed; only whole numbers are modelled.
\<close>

section \<open>The scores of the outside lists\<close>

definition maxmind_asn_change :: "ip_reputation_config \<Rightarrow> int \<Rightarrow> reputation_page \<Rightarrow> reputation_page" where
  "maxmind_asn_change current_config v st =
     st\<lparr>rp_configForm := Some (current_config\<lparr>ipc_cfg_maxmind_asn_score := v\<rparr>), rp_maxmindDirty := True\<rparr>"

definition spamhaus_asn_change :: "ip_reputation_config \<Rightarrow> int \<Rightarrow> reputation_page \<Rightarrow> reputation_page" where
  "spamhaus_asn_change current_config v st =
     st\<lparr>rp_configForm := Some (current_config\<lparr>ipc_cfg_spamhaus_asn_score := v\<rparr>), rp_spamhausDirty := True\<rparr>"

text \<open>A card: its inputs, and whether its button is disabled.\<close>

definition maxmind_card :: "bool \<Rightarrow> ip_reputation_config option \<Rightarrow> reputation_page \<Rightarrow> input_view list \<times> bool" where
  "maxmind_card pending repConfig st =
     (let c = rp_currentConfig repConfig st
      in ([input_of ''Datacenter IP Score'' (Number_In (case c of None \<Rightarrow> 10 | Some c \<Rightarrow> ipc_cfg_maxmind_dc_score c)) [],
           input_of ''Cloud Provider ASN Score'' (Number_In (case c of None \<Rightarrow> 20 | Some c \<Rightarrow> ipc_cfg_maxmind_asn_score c)) []],
          pending \<or> \<not> rp_maxmindDirty st))"

definition spamhaus_card :: "bool \<Rightarrow> ip_reputation_config option \<Rightarrow> reputation_page \<Rightarrow> input_view list \<times> bool" where
  "spamhaus_card pending repConfig st =
     (let c = rp_currentConfig repConfig st
      in ([input_of ''Bad IP/CIDR Score'' (Number_In (case c of None \<Rightarrow> 50 | Some c \<Rightarrow> ipc_cfg_spamhaus_ip_score c)) [],
           input_of ''Bad ASN Score'' (Number_In (case c of None \<Rightarrow> 50 | Some c \<Rightarrow> ipc_cfg_spamhaus_asn_score c)) []],
          pending \<or> \<not> rp_spamhausDirty st))"

definition sync_spamhaus :: "server \<Rightarrow> ui_effect list" where
  "sync_spamhaus server = mutate_callbacks server useSyncSpamhaus result_message"

definition sync_text :: "bool \<Rightarrow> string" where
  "sync_text pending = (if pending then ''Syncing...'' else ''Sync'')"

section \<open>Filters and table\<close>

definition search_entries :: "string \<Rightarrow> reputation_page \<Rightarrow> reputation_page" where
  "search_entries s st = st\<lparr>rp_searchTerm := s, rp_currentPage := 1\<rparr>"

text \<open>The button for all types gives up the category too.\<close>

definition filter_entry_type :: "entry_type option \<Rightarrow> reputation_page \<Rightarrow> reputation_page" where
  "filter_entry_type t st =
     (case t of
        None \<Rightarrow> st\<lparr>rp_typeFilter := None, rp_categoryFilter := None, rp_currentPage := 1\<rparr>
      | Some t \<Rightarrow> st\<lparr>rp_typeFilter := Some t, rp_currentPage := 1\<rparr>)"

definition type_buttons :: "ip_reputation_entry list option \<Rightarrow> string list" where
  "type_buttons entries =
     (let (ip, asn) = entry_counts entries
      in [''All ('' @ nat_to_string (case entries of None \<Rightarrow> 0 | Some es \<Rightarrow> length es) @ '')'',
          ''IP/CIDR ('' @ nat_to_string ip @ '')'', ''ASN ('' @ nat_to_string asn @ '')''])"

definition filter_categories :: "string list" where
  "filter_categories = [''hosting'', ''vpn_proxy'', ''scanner'', ''good'', ''bad'']"

definition filter_category :: "string \<Rightarrow> reputation_page \<Rightarrow> reputation_page" where
  "filter_category cat st =
     st\<lparr>rp_categoryFilter := (if rp_categoryFilter st = Some cat then None else Some cat), rp_currentPage := 1\<rparr>"

definition category_label :: "string \<Rightarrow> string" where
  "category_label cat = (if cat = ''vpn_proxy'' then ''VPN/Proxy'' else capitalised cat)"

definition category_button :: "ip_reputation_entry list option \<Rightarrow> string \<Rightarrow> string" where
  "category_button entries cat =
     (let count = (case obj_get (categoryCounts entries) cat of Some n \<Rightarrow> n | None \<Rightarrow> 0)
      in category_label cat @ (if count > 0 then '' ('' @ nat_to_string count @ '')'' else []))"

text \<open>The dash of the table is U+2014.\<close>

datatype cell = Cell_Text string | Cell_Dash

record entry_row =
  er_ticked      :: bool
  er_type        :: string
  er_value       :: string
  er_category    :: cell
  er_score       :: string
  er_description :: cell
  er_status      :: string

definition entry_row_view :: "reputation_page \<Rightarrow> ip_reputation_entry \<Rightarrow> entry_row" where
  "entry_row_view st e = \<lparr>
     er_ticked = (ipr_id e \<in> set (rp_selectedIds st)),
     er_type = (if ipr_entry_type e = Entry_Ip then ''IP/CIDR'' else ''ASN''),
     er_value = ipr_value e,
     er_category = (if ipr_category e = [] then Cell_Dash else Cell_Text (category_label (ipr_category e))),
     er_score = ''+'' @ int_to_string (ipr_score e),
     er_description = (if ipr_description e = [] then Cell_Dash else Cell_Text (ipr_description e)),
     er_status = (if ipr_enabled e then ''Active'' else ''Disabled'')\<rparr>"

definition page_ticked :: "ip_reputation_entry list option \<Rightarrow> reputation_page \<Rightarrow> bool" where
  "page_ticked entries st =
     (let shown = paginatedEntries st entries (rp_currentPage st)
      in 0 < length shown \<and> list_all (\<lambda>e. ipr_id e \<in> set (rp_selectedIds st)) shown)"

definition select_entries_shown :: "ip_reputation_entry list option \<Rightarrow> reputation_page \<Rightarrow> bool" where
  "select_entries_shown entries st \<longleftrightarrow>
     rp_selectedIds st \<noteq> [] \<and> length (rp_selectedIds st) < length (filteredEntries st entries)"

definition select_entries :: "ip_reputation_entry list option \<Rightarrow> reputation_page \<Rightarrow> reputation_page" where
  "select_entries entries st = st\<lparr>rp_selectedIds := new_set (map ipr_id (filteredEntries st entries))\<rparr>"

definition choose_entry_rows :: "page_rows \<Rightarrow> reputation_page \<Rightarrow> reputation_page" where
  "choose_entry_rows r st = st\<lparr>rp_itemsPerPage := r, rp_currentPage := 1\<rparr>"

definition entry_pager :: "ip_reputation_entry list option \<Rightarrow> reputation_page \<Rightarrow> nat option \<times> nat option" where
  "entry_pager entries st =
     (let pages = entry_pages st entries
      in (pager_previous pages (rp_currentPage st), pager_next pages (rp_currentPage st)))"

section \<open>The dialogs\<close>

definition open_bulk_score :: "reputation_page \<Rightarrow> reputation_page" where
  "open_bulk_score st = st\<lparr>rp_bulkScoreValue := 10, rp_isBulkScoreOpen := True\<rparr>"

definition auto_detect_change :: "bool \<Rightarrow> reputation_page \<Rightarrow> reputation_page" where
  "auto_detect_change checked st =
     st\<lparr>rp_formAutoDetect := checked, rp_formDescription := (if checked then [] else rp_formDescription st)\<rparr>"

definition description_disabled :: "reputation_page \<Rightarrow> bool" where
  "description_disabled st \<longleftrightarrow> rp_formAutoDetect st \<and> rp_editingEntry st = None \<and> rp_formDescription st = []"

definition entry_value_input :: "reputation_page \<Rightarrow> input_view" where
  "entry_value_input st =
     (let editing = (rp_editingEntry st \<noteq> None); ip = (rp_formType st = Entry_Ip)
      in input_of
           ((if ip then ''IP Address or CIDR'' else ''ASN Number'') @ (if editing then [] else ''(one per line)''))
           (if editing then Text_In (rp_formValues st) else Lines_In (rp_formValues st))
           (if editing
            then (if ip then ''Single IP (10.0.0.1) or CIDR range (192.168.0.0/16)''
                  else ''Autonomous System Number, e.g. 14061 (DigitalOcean)'')
            else (if ip then ''Enter multiple IPs/CIDRs separated by new lines or commas''
                  else ''Enter multiple ASN numbers separated by new lines or commas'')))"

definition entry_dialog :: "bool \<Rightarrow> reputation_page \<Rightarrow> dialog_view option" where
  "entry_dialog pending st =
     (if \<not> rp_isDialogOpen st then None
      else
        (let editing = (rp_editingEntry st \<noteq> None)
         in Some \<lparr>
              dlg_title = (if editing then ''Edit Entry'' else ''Add Entry''),
              dlg_description = [],
              dlg_inputs = [
                input_of ''Type'' (Choice_In (entry_type_str (rp_formType st)) [(''ip'', ''IP / CIDR''), (''asn'', ''ASN'')]) [],
                entry_value_input st,
                input_of ''Category'' (Choice_In (rp_formCategory st) [([], ''None''), (''hosting'', ''Hosting''),
                    (''vpn_proxy'', ''VPN/Proxy''), (''scanner'', ''Scanner''), (''good'', ''Good''), (''bad'', ''Bad'')])
                  ''Optional label for organization. Does not affect scoring.'',
                input_of ''Score (1-100)'' (Number_In (rp_formScore st))
                  ''Score contribution to risk assessment. Higher = more suspicious.'',
                input_unless (description_disabled st) ''Description'' (Text_In (rp_formDescription st)) []] @
                (if editing then [] else [input_of ''Auto-detect provider (MaxMind)'' (Switch_In (rp_formAutoDetect st)) []]) @
                [input_of ''Enabled'' (Switch_In (rp_formEnabled st)) []],
              dlg_submit = (if editing then ''Update'' else ''Create''),
              dlg_disabled = pending \<or> trim (rp_formValues st) = []\<rparr>))"

definition bulk_score_dialog :: "bool \<Rightarrow> reputation_page \<Rightarrow> dialog_view option" where
  "bulk_score_dialog pending st =
     (if \<not> rp_isBulkScoreOpen st then None
      else Some \<lparr>
        dlg_title = ''Edit Score ('' @ nat_to_string (length (rp_selectedIds st)) @ '' entries)'',
        dlg_description = [],
        dlg_inputs = [input_of ''New Score (1-100)'' (Number_In (rp_bulkScoreValue st))
          ''All selected entries will be updated to this score.''],
        dlg_submit = ''Update Score'',
        dlg_disabled = pending \<or> rp_bulkScoreValue st < 1 \<or> rp_bulkScoreValue st > 100\<rparr>)"


section \<open>The page as a machine\<close>

record reputation_data =
  rd_entries :: "ip_reputation_entry list option"
  rd_config  :: "ip_reputation_config option"

datatype entry_form_event =
    Entry_Type entry_type | Entry_Values string | Entry_Category string | Entry_Score int
  | Entry_Description string | Entry_Auto_Detect bool | Entry_Enabled bool | Entry_Bulk_Score int

datatype score_field = Maxmind_Dc | Maxmind_Asn | Spamhaus_Ip | Spamhaus_Asn

datatype reputation_event =
    Find_Entries string | Filter_Entries "entry_type option" | Filter_Category string
  | Tick_Entry int | Tick_Page | Select_Entries | Entry_Rows page_rows | Previous_Entries | Next_Entries
  | Create_Entry | Edit_Entry ip_reputation_entry | Close_Entry | Submit_Entry | Delete_Entry int
  | Open_Bulk_Score | Close_Bulk_Score | Save_Bulk_Score | Delete_Entries
  | List_Score score_field int | Save_Maxmind | Save_Spamhaus | Sync_Spamhaus
  | Entry_Form entry_form_event

text \<open>The description cannot be typed while its field is disabled; the detection switch is there for new entries only.\<close>

fun entry_form_act :: "entry_form_event \<Rightarrow> reputation_page \<Rightarrow> reputation_page" where
  "entry_form_act (Entry_Type t) st = st\<lparr>rp_formType := t\<rparr>"
| "entry_form_act (Entry_Values s) st = st\<lparr>rp_formValues := s\<rparr>"
| "entry_form_act (Entry_Category s) st = st\<lparr>rp_formCategory := s\<rparr>"
| "entry_form_act (Entry_Score n) st = st\<lparr>rp_formScore := n\<rparr>"
| "entry_form_act (Entry_Description s) st = (if description_disabled st then st else st\<lparr>rp_formDescription := s\<rparr>)"
| "entry_form_act (Entry_Auto_Detect b) st = (if rp_editingEntry st = None then auto_detect_change b st else st)"
| "entry_form_act (Entry_Enabled b) st = st\<lparr>rp_formEnabled := b\<rparr>"
| "entry_form_act (Entry_Bulk_Score n) st = st\<lparr>rp_bulkScoreValue := n\<rparr>"

fun list_score_change :: "score_field \<Rightarrow> ip_reputation_config \<Rightarrow> int \<Rightarrow> reputation_page \<Rightarrow> reputation_page" where
  "list_score_change Maxmind_Dc c v st = maxmind_dc_change c v st"
| "list_score_change Maxmind_Asn c v st = maxmind_asn_change c v st"
| "list_score_change Spamhaus_Ip c v st = spamhaus_ip_change c v st"
| "list_score_change Spamhaus_Asn c v st = spamhaus_asn_change c v st"

abbreviation settled :: "reputation_page \<Rightarrow> (reputation_page \<times> ui_effect list) option" where
  "settled st \<equiv> Some (st, [])"

fun reputation_act ::
  "server \<Rightarrow> reputation_data \<Rightarrow> reputation_page \<Rightarrow> reputation_event \<Rightarrow> (reputation_page \<times> ui_effect list) option" where
  "reputation_act server d st (Find_Entries s) = settled (search_entries s st)"
| "reputation_act server d st (Filter_Entries t) = settled (filter_entry_type t st)"
| "reputation_act server d st (Filter_Category c) = settled (filter_category c st)"
| "reputation_act server d st (Tick_Entry i) = settled (rp_toggleSelect i st)"
| "reputation_act server d st Tick_Page = settled (rp_toggleSelectAll (rd_entries d) st)"
| "reputation_act server d st Select_Entries =
     (if select_entries_shown (rd_entries d) st then settled (select_entries (rd_entries d) st) else None)"
| "reputation_act server d st (Entry_Rows r) = settled (choose_entry_rows r st)"
| "reputation_act server d st Previous_Entries =
     map_option (\<lambda>p. (st\<lparr>rp_currentPage := p\<rparr>, [])) (fst (entry_pager (rd_entries d) st))"
| "reputation_act server d st Next_Entries =
     map_option (\<lambda>p. (st\<lparr>rp_currentPage := p\<rparr>, [])) (snd (entry_pager (rd_entries d) st))"
| "reputation_act server d st Create_Entry = settled (rp_openCreate st)"
| "reputation_act server d st (Edit_Entry e) = settled (rp_openEdit e st)"
| "reputation_act server d st Close_Entry = settled (st\<lparr>rp_isDialogOpen := False\<rparr>)"
| "reputation_act server d st Submit_Entry =
     (case entry_dialog False st of
        None \<Rightarrow> None
      | Some dlg \<Rightarrow> if dlg_disabled dlg then None else Some (rp_handleSubmit server st))"
| "reputation_act server d st (Delete_Entry i) = Some (st, rp_handleDelete server i)"
| "reputation_act server d st Open_Bulk_Score = (if rp_selectedIds st = [] then None else settled (open_bulk_score st))"
| "reputation_act server d st Close_Bulk_Score = settled (st\<lparr>rp_isBulkScoreOpen := False\<rparr>)"
| "reputation_act server d st Save_Bulk_Score =
     (case bulk_score_dialog False st of
        None \<Rightarrow> None
      | Some dlg \<Rightarrow> if dlg_disabled dlg then None else Some (rp_handleBulkUpdateScore server st))"
| "reputation_act server d st Delete_Entries =
     (if rp_selectedIds st = [] then None else Some (rp_handleBulkDelete server st))"
| "reputation_act server d st (List_Score f v) =
     map_option (\<lambda>c. (list_score_change f c v st, [])) (rp_currentConfig (rd_config d) st)"
| "reputation_act server d st Save_Maxmind =
     (if snd (maxmind_card False (rd_config d) st) then None else Some (handleSaveMaxmind server st))"
| "reputation_act server d st Save_Spamhaus =
     (if snd (spamhaus_card False (rd_config d) st) then None else Some (handleSaveSpamhaus server st))"
| "reputation_act server d st Sync_Spamhaus = Some (st, sync_spamhaus server)"
| "reputation_act server d st (Entry_Form e) = settled (entry_form_act e st)"

inductive reputation_step :: "server \<Rightarrow> reputation_page \<times> reputation_data \<Rightarrow> reputation_page \<times> reputation_data \<Rightarrow> bool"
  for server where
  rep_control: "reputation_act server d st ev = Some (st', es) \<Longrightarrow> reputation_step server (st, d) (st', d)"
| rep_answer: "reputation_step server (st, d) (st, d')"

inductive_cases reputation_stepE: "reputation_step server s t"

section \<open>Properties\<close>

text \<open>Unsaved scores are there to send; a new entry whose provider is to be detected has no description.\<close>

definition dirty_ok :: "bool \<Rightarrow> bool \<Rightarrow> ip_reputation_config option \<Rightarrow> bool" where
  "dirty_ok maxmind spamhaus form \<longleftrightarrow> (if maxmind \<or> spamhaus then form \<noteq> None else True)"

definition detect_ok :: "ip_reputation_entry option \<Rightarrow> bool \<Rightarrow> string \<Rightarrow> bool" where
  "detect_ok editing auto_detect description \<longleftrightarrow> (if editing = None \<and> auto_detect then description = [] else True)"

definition reputation_ok :: "reputation_page \<Rightarrow> bool" where
  "reputation_ok st \<longleftrightarrow> 1 \<le> rp_currentPage st \<and> distinct (rp_selectedIds st) \<and>
     dirty_ok (rp_maxmindDirty st) (rp_spamhausDirty st) (rp_configForm st) \<and>
     detect_ok (rp_editingEntry st) (rp_formAutoDetect st) (rp_formDescription st)"

lemma entry_form_same:
  "rp_currentPage (entry_form_act e st) = rp_currentPage st" "rp_selectedIds (entry_form_act e st) = rp_selectedIds st"
  "rp_maxmindDirty (entry_form_act e st) = rp_maxmindDirty st" "rp_spamhausDirty (entry_form_act e st) = rp_spamhausDirty st"
  "rp_configForm (entry_form_act e st) = rp_configForm st" "rp_editingEntry (entry_form_act e st) = rp_editingEntry st"
  "rp_searchTerm (entry_form_act e st) = rp_searchTerm st" "rp_typeFilter (entry_form_act e st) = rp_typeFilter st"
  "rp_categoryFilter (entry_form_act e st) = rp_categoryFilter st" "rp_itemsPerPage (entry_form_act e st) = rp_itemsPerPage st"
  by (cases e; simp add: auto_detect_change_def)+

lemma entry_form_detect:
  "detect_ok (rp_editingEntry st) (rp_formAutoDetect st) (rp_formDescription st) \<Longrightarrow>
   detect_ok (rp_editingEntry st) (rp_formAutoDetect (entry_form_act e st)) (rp_formDescription (entry_form_act e st))"
  by (cases e) (auto simp: detect_ok_def auto_detect_change_def description_disabled_def)

lemma dirty_ok_saved: "dirty_ok m s f \<Longrightarrow> dirty_ok False s f" "dirty_ok m s f \<Longrightarrow> dirty_ok m False f"
  by (auto simp: dirty_ok_def split: if_splits)

lemma list_score_same:
  "rp_currentPage (list_score_change f c v st) = rp_currentPage st"
  "rp_selectedIds (list_score_change f c v st) = rp_selectedIds st"
  "rp_configForm (list_score_change f c v st) \<noteq> None"
  "rp_editingEntry (list_score_change f c v st) = rp_editingEntry st"
  "rp_formAutoDetect (list_score_change f c v st) = rp_formAutoDetect st"
  "rp_formDescription (list_score_change f c v st) = rp_formDescription st"
  "rp_searchTerm (list_score_change f c v st) = rp_searchTerm st" "rp_typeFilter (list_score_change f c v st) = rp_typeFilter st"
  "rp_categoryFilter (list_score_change f c v st) = rp_categoryFilter st"
  "rp_itemsPerPage (list_score_change f c v st) = rp_itemsPerPage st"
  by (cases f; simp add: maxmind_dc_change_def maxmind_asn_change_def spamhaus_ip_change_def spamhaus_asn_change_def)+

lemma rep_saved_same:
  "rp_handleSubmit server st = (st', es) \<Longrightarrow> st' = st \<or> st' = st\<lparr>rp_isDialogOpen := False\<rparr>"
  "rp_handleBulkDelete server st = (st', es) \<Longrightarrow> st' = st \<or> st' = st\<lparr>rp_selectedIds := []\<rparr>"
  "rp_handleBulkUpdateScore server st = (st', es) \<Longrightarrow> st' = st \<or>
     st' = st\<lparr>rp_selectedIds := [], rp_isBulkScoreOpen := False\<rparr>"
  "handleSaveMaxmind server st = (st', es) \<Longrightarrow> st' = st \<or> st' = st\<lparr>rp_maxmindDirty := False\<rparr>"
  "handleSaveSpamhaus server st = (st', es) \<Longrightarrow> st' = st \<or> st' = st\<lparr>rp_spamhausDirty := False\<rparr>"
  by (auto simp: rp_handleSubmit_def rp_handleBulkDelete_def rp_handleBulkUpdateScore_def handleSaveMaxmind_def
      handleSaveSpamhaus_def Let_def split: option.splits sum.splits if_splits)

lemmas entry_table_defs = search_entries_def filter_entry_type_def filter_category_def rp_toggleSelect_def
  select_entries_def choose_entry_rows_def entry_pager_def rp_openCreate_def rp_openEdit_def
  open_bulk_score_def

lemma toggle_page_ok: "reputation_ok st \<Longrightarrow> reputation_ok (rp_toggleSelectAll es st)"
  by (simp add: reputation_ok_def rp_toggleSelectAll_def Let_def set_add_all set_delete_all)

lemma entry_pager_ok:
  "1 \<le> rp_currentPage st \<Longrightarrow> fst (entry_pager es st) = Some p \<Longrightarrow> 1 \<le> p"
  "1 \<le> rp_currentPage st \<Longrightarrow> snd (entry_pager es st) = Some p \<Longrightarrow> 1 \<le> p"
  by (auto simp: entry_pager_def pager_previous_def pager_next_def Let_def split: if_splits)

lemma reputation_act_ok:
  assumes "reputation_act server d st ev = Some (st', es)" and "reputation_ok st"
  shows "reputation_ok st'"
proof (cases ev)
  case (Entry_Form e)
  then show ?thesis using assms entry_form_detect [of st e]
    by (auto simp: reputation_ok_def entry_form_same)
next
  case (List_Score f v)
  then show ?thesis using assms list_score_same(3) by (auto simp: reputation_ok_def list_score_same(1,2,4-6) dirty_ok_def)
next
  case Submit_Entry
  then show ?thesis using assms rep_saved_same(1) [of server st st' es] by (auto simp: reputation_ok_def split: option.splits if_splits)
next
  case Delete_Entries
  then show ?thesis using assms rep_saved_same(2) [of server st st' es] by (auto simp: reputation_ok_def split: if_splits)
next
  case Save_Bulk_Score
  then show ?thesis using assms rep_saved_same(3) [of server st st' es] by (auto simp: reputation_ok_def split: option.splits if_splits)
next
  case Save_Maxmind
  then show ?thesis using assms rep_saved_same(4) [of server st st' es]
    by (auto simp: reputation_ok_def dirty_ok_saved split: if_splits)
next
  case Save_Spamhaus
  then show ?thesis using assms rep_saved_same(5) [of server st st' es]
    by (auto simp: reputation_ok_def dirty_ok_saved split: if_splits)
next
  case Tick_Page
  then show ?thesis using assms by (auto intro: toggle_page_ok)
next
  case (Filter_Entries t)
  then show ?thesis using assms by (cases t) (auto simp: reputation_ok_def filter_entry_type_def)
next
  case Create_Entry
  then show ?thesis using assms by (auto simp: reputation_ok_def rp_openCreate_def detect_ok_def)
next
  case (Edit_Entry e)
  then show ?thesis using assms by (auto simp: reputation_ok_def rp_openEdit_def detect_ok_def)
next
  case Previous_Entries
  then show ?thesis using assms entry_pager_ok(1) [of st] by (auto simp: reputation_ok_def)
next
  case Next_Entries
  then show ?thesis using assms entry_pager_ok(2) [of st] by (auto simp: reputation_ok_def)
qed (use assms in \<open>auto simp: reputation_ok_def entry_table_defs new_set_set set_toggle_distinct split: if_split_asm\<close>)

text \<open>C28: whatever is clicked, typed and answered, from the page as it opens: page numbers start at 1, no entry is selected
  twice, a card whose button is enabled has scores to send, and a new entry asks for the detection of its provider exactly when the
  switch is on.\<close>

theorem reputation_invariant:
  assumes "(reputation_step server)\<^sup>*\<^sup>* (reputation_initial, d) (st, d')"
  shows "1 \<le> rp_currentPage st \<and> distinct (rp_selectedIds st) \<and>
    (if snd (maxmind_card False (rd_config d') st) then True else mutations (snd (handleSaveMaxmind server st)) \<noteq> []) \<and>
    (if snd (spamhaus_card False (rd_config d') st) then True else mutations (snd (handleSaveSpamhaus server st)) \<noteq> []) \<and>
    (if rp_editingEntry st = None
     then iprr_auto_detect_provider (create_entry_request st) = Some (rp_formAutoDetect st) else True)"
proof -
  have "reputation_ok (fst t)" if "(reputation_step server)\<^sup>*\<^sup>* (reputation_initial, d) t" for t
    using that
  proof (induction rule: rtranclp_induct)
    case base
    show ?case by (simp add: reputation_ok_def reputation_initial_def dirty_ok_def detect_ok_def)
  next
    case (step s t)
    then show ?case by (auto elim!: reputation_stepE dest: reputation_act_ok)
  qed
  from this [OF assms] show ?thesis
    by (auto simp: reputation_ok_def dirty_ok_def detect_ok_def maxmind_card_def spamhaus_card_def handleSaveMaxmind_def handleSaveSpamhaus_def Let_def
        create_entry_request_def split: if_splits)
qed

theorem reputation_invariant_witness: "distinct (rp_selectedIds (rp_toggleSelect 3 reputation_initial))"
proof -
  have "reputation_step (\<lambda>_. Inr JNull) (reputation_initial, \<lparr>rd_entries = None, rd_config = None\<rparr>)
      (rp_toggleSelect 3 reputation_initial, \<lparr>rd_entries = None, rd_config = None\<rparr>)"
    by (rule reputation_step.rep_control [where ev = "Tick_Entry 3"]) simp
  from reputation_invariant [OF r_into_rtranclp [where r = "reputation_step (\<lambda>_. Inr JNull)", OF this]] show ?thesis by simp
qed

text \<open>The dialog for the score of many entries and the server agree on the bounds.  Its button is enabled
  exactly for scores from 1 to 100, and what it sends for at most 5000 entries the server accepts; the deletion of as many is accepted
  too.  The dialog for one entry has no such bound: its button is enabled for every score.\<close>

theorem bulk_score_bounds:
  assumes "rp_isBulkScoreOpen st" and "rp_selectedIds st \<noteq> []" and "length (rp_selectedIds st) \<le> 5000"
  shows "(case reputation_act server d st Save_Bulk_Score of
      None \<Rightarrow> check_bulk_score False (rp_selectedIds st) (rp_bulkScoreValue st) \<noteq> None
    | Some (st', es) \<Rightarrow> 1 \<le> rp_bulkScoreValue st \<and> rp_bulkScoreValue st \<le> 100 \<and>
        check_bulk_score False (rp_selectedIds st) (rp_bulkScoreValue st) = None \<and>
        mutations es = [useBulkUpdateScoreIPReputationEntries (rp_selectedIds st) (rp_bulkScoreValue st)]) \<and>
    check_bulk_delete False (rp_selectedIds st) = None \<and>
    (case entry_dialog False (st\<lparr>rp_isDialogOpen := True, rp_formScore := n\<rparr>) of None \<Rightarrow> False
     | Some dlg \<Rightarrow> dlg_disabled dlg = (trim (rp_formValues st) = []))"
  using assms
  by (auto simp: bulk_score_dialog_def entry_dialog_def check_bulk_score_def check_bulk_delete_def refuse_demo_def
      rp_handleBulkUpdateScore_def Let_def split: sum.splits)

theorem bulk_score_bounds_witness:
  "check_bulk_delete False (rp_selectedIds (open_bulk_score (rp_toggleSelect 3 reputation_initial))) = None"
proof -
  let ?st = "open_bulk_score (rp_toggleSelect 3 reputation_initial)"
  have "rp_isBulkScoreOpen ?st" "rp_selectedIds ?st \<noteq> []" "length (rp_selectedIds ?st) \<le> 5000" by code_simp+
  from bulk_score_bounds [OF this] show ?thesis by blast
qed


section \<open>The page number\<close>

definition entries_kept :: "reputation_page \<Rightarrow> reputation_page \<Rightarrow> bool" where
  "entries_kept st st' \<longleftrightarrow> rp_searchTerm st' = rp_searchTerm st \<and> rp_typeFilter st' = rp_typeFilter st \<and>
     rp_categoryFilter st' = rp_categoryFilter st \<and> rp_itemsPerPage st' = rp_itemsPerPage st"

lemma entries_kept_pages: "entries_kept st st' \<Longrightarrow> entry_pages st' es = entry_pages st es"
proof -
  assume kept: "entries_kept st st'"
  then have "entry_shown st' = entry_shown st" by (intro ext) (simp add: entry_shown_def entries_kept_def)
  then show ?thesis using kept by (cases es) (simp_all add: entry_pages_def filteredEntries_def entries_kept_def)
qed

lemma entries_kept_refl: "entries_kept st st"
  by (simp add: entries_kept_def)

text \<open>Every other control than those of the filters, the rows and the pager keeps the page number and the table.\<close>

lemma reputation_act_pages:
  assumes "reputation_act server d st ev = Some (st', es)"
  shows "rp_currentPage st' = 1 \<or> entries_kept st st' \<and>
    (rp_currentPage st' = rp_currentPage st \<or>
     pager_previous (entry_pages st (rd_entries d)) (rp_currentPage st) = Some (rp_currentPage st') \<or>
     pager_next (entry_pages st (rd_entries d)) (rp_currentPage st) = Some (rp_currentPage st'))"
proof (cases ev)
  case (Entry_Form e)
  then show ?thesis using assms by (auto simp: entries_kept_def entry_form_same)
next
  case (List_Score f v)
  then show ?thesis using assms by (auto simp: entries_kept_def list_score_same)
next
  case Submit_Entry
  then show ?thesis using assms rep_saved_same(1) [of server st st' es] by (auto simp: entries_kept_def split: option.splits if_splits)
next
  case Delete_Entries
  then show ?thesis using assms rep_saved_same(2) [of server st st' es] by (auto simp: entries_kept_def split: if_splits)
next
  case Save_Bulk_Score
  then show ?thesis using assms rep_saved_same(3) [of server st st' es] by (auto simp: entries_kept_def split: option.splits if_splits)
next
  case Save_Maxmind
  then show ?thesis using assms rep_saved_same(4) [of server st st' es] by (auto simp: entries_kept_def split: if_splits)
next
  case Save_Spamhaus
  then show ?thesis using assms rep_saved_same(5) [of server st st' es] by (auto simp: entries_kept_def split: if_splits)
next
  case Previous_Entries
  then show ?thesis using assms by (auto simp: entries_kept_def entry_pager_def Let_def)
next
  case Next_Entries
  then show ?thesis using assms by (auto simp: entries_kept_def entry_pager_def Let_def)
next
  case (Filter_Entries t)
  then show ?thesis using assms by (cases t) (auto simp: filter_entry_type_def)
qed (use assms in \<open>auto simp: entries_kept_def search_entries_def filter_category_def rp_toggleSelect_def
    rp_toggleSelectAll_def Let_def select_entries_def choose_entry_rows_def rp_openCreate_def rp_openEdit_def
    open_bulk_score_def split: if_split_asm\<close>)

definition entries_growing_step ::
  "server \<Rightarrow> reputation_page \<times> reputation_data \<Rightarrow> reputation_page \<times> reputation_data \<Rightarrow> bool" where
  "entries_growing_step server s t \<longleftrightarrow> reputation_step server s t \<and>
     (if fst s = fst t then entry_pages (fst s) (rd_entries (snd s)) \<le> entry_pages (fst t) (rd_entries (snd t)) else True)"

lemma entries_step_page:
  assumes "entries_growing_step server s t"
  shows "page_move (entry_pages (fst s) (rd_entries (snd s))) (rp_currentPage (fst s))
    (entry_pages (fst t) (rd_entries (snd t))) (rp_currentPage (fst t))"
proof -
  obtain st d st' d' where s: "s = (st, d)" and t: "t = (st', d')" by (cases s; cases t)
  have "reputation_step server (st, d) (st', d')" using assms s t by (simp add: entries_growing_step_def)
  then consider (act) ev es where "reputation_act server d st ev = Some (st', es)" "d' = d" | (ans) "st' = st"
    by (auto elim!: reputation_stepE)
  then show ?thesis
    by cases (use assms s t entries_kept_pages in \<open>auto simp: entries_growing_step_def page_move_def dest: reputation_act_pages\<close>)
qed

interpretation entry_nav: paged_nav "\<lambda>s. rp_currentPage (fst s)" "\<lambda>s. entry_pages (fst s) (rd_entries (snd s))"
    "entries_growing_step server" for server
  by unfold_locales (rule entries_step_page)

text \<open>As long as no answer of the server takes pages away from the table, its page number stays within it.\<close>

lemma entry_page_in_range:
  assumes "(entries_growing_step server)\<^sup>*\<^sup>* (reputation_initial, d) (st, d')"
  shows "1 \<le> rp_currentPage st \<and> rp_currentPage st \<le> max 1 (entry_pages st (rd_entries d'))"
  using entry_nav.reach_ok [OF assms] by (simp add: reputation_initial_def page_ok_def)

end
