(* ===== verification/Charts.thy ===== *)
theory Charts
  imports Complex_Main Widgets Views
begin

text \<open>
  What the dashboard and the threat intelligence page draw (\<open>src/frontend/src/pages/dashboard/Dashboard.tsx\<close>,
  \<open>src/frontend/src/pages/monitoring/ThreatIntelligence.tsx\<close>, \<open>src/frontend/src/components/dashboard/StatCard.tsx\<close>):
  the answers of the analytics endpoints, the shares and their texts, the labels and colours of the categories, the
  bands of risk.  Percentages are exact rationals where the code computes with floating point numbers; \<open>toFixed\<close>
  rounds them to the nearest numeral, halves up.  Counts are printed without the separators of the browser's locale.
  The backend's names of categories and of score bands
  (\<open>src/internal/api/v1/handler/analytics_handler.go\<close>) are modelled to relate the two pages.
\<close>

section \<open>Answers of the analytics endpoints\<close>

record traffic_point =
  tdp_timestamp :: string
  tdp_label     :: string
  tdp_allow     :: int
  tdp_block     :: int
  tdp_challenge :: int

record traffic_summary =
  ts_total     :: int
  ts_allow     :: int
  ts_block     :: int
  ts_block_waf :: int
  ts_block_bot :: int
  ts_challenge :: int

record traffic_analytics =
  ta_range   :: string
  ta_data    :: "traffic_point list"
  ta_summary :: traffic_summary

record threat_count =
  tc_category :: string
  tc_count    :: int

record threat_ip =
  ti_ip         :: string
  ti_country    :: string
  ti_asn_org    :: string
  ti_total      :: int
  ti_blocked    :: int
  ti_challenged :: int
  ti_block_rate :: rat

record threat_ip_response =
  tir_items        :: "threat_ip list"
  tir_total_ips    :: int
  tir_total_events :: int

record waf_rule_entry =
  wre_rule_id    :: string
  wre_total      :: int
  wre_blocked    :: int
  wre_challenged :: int
  wre_allowed    :: int

record custom_rule_entry =
  cre_rule_id    :: string
  cre_rule_name  :: string
  cre_total      :: int
  cre_blocked    :: int
  cre_challenged :: int
  cre_allowed    :: int

record score_bucket =
  sb_range :: string
  sb_count :: int

record category_trend =
  ct_label            :: string
  ct_ip_reputation    :: int
  ct_bot_detection    :: int
  ct_waf_anomaly      :: int
  ct_protocol_anomaly :: int

record category_average =
  ca_ip_reputation    :: rat
  ca_bot_detection    :: rat
  ca_waf_anomaly      :: rat
  ca_protocol_anomaly :: rat

record threat_summary =
  tsr_score_distribution :: "score_bucket list"
  tsr_category_trend     :: "category_trend list"
  tsr_category_avg       :: category_average

record provider_entry =
  pe_provider    :: string
  pe_total       :: int
  pe_blocked     :: int
  pe_challenged  :: "int option"
  pe_threat_rate :: "rat option"
  pe_block_rate  :: rat

record country_entry =
  cy_country    :: string
  cy_total      :: int
  cy_blocked    :: int
  cy_block_rate :: rat

section \<open>Shares and their texts\<close>

text \<open>\<open>total > 0 ? (count / total) * 100 : 0\<close>.\<close>

definition share :: "int \<Rightarrow> int \<Rightarrow> rat" where
  "share n m = (if m > 0 then of_int n / of_int m * 100 else 0)"

definition round_to :: "nat \<Rightarrow> rat \<Rightarrow> int" where
  "round_to d x = \<lfloor>x * 10 ^ d + 1 / 2\<rfloor>"

definition pad_zeros :: "nat \<Rightarrow> string \<Rightarrow> string" where
  "pad_zeros n s = replicate (n - length s) (CHR ''0'') @ s"

text \<open>\<open>x.toFixed(d)\<close> for a number that is not negative.\<close>

definition toFixed :: "nat \<Rightarrow> rat \<Rightarrow> string" where
  "toFixed d x =
     (let n = nat (round_to d x)
      in if d = 0 then nat_to_string n
         else nat_to_string (n div 10 ^ d) @ ''.'' @ pad_zeros d (nat_to_string (n mod 10 ^ d)))"

definition percent_text :: "nat \<Rightarrow> rat \<Rightarrow> string" where
  "percent_text d x = toFixed d x @ ''%''"

lemma share_bounds:
  assumes "0 \<le> n" and "n \<le> m"
  shows "0 \<le> share n m \<and> share n m \<le> 100"
proof (cases "0 < m")
  case True
  define r :: rat where "r = of_int n / of_int m"
  have "0 \<le> r" "r \<le> 1" using True assms by (simp_all add: r_def)
  then show ?thesis using True by (simp add: share_def flip: r_def)
qed (simp add: share_def)

lemma share_sum:
  assumes "0 < m"
  shows "sum_list (map (\<lambda>c. share c m) cs) = share (sum_list cs) m"
  using assms by (induction cs) (simp_all add: share_def add_divide_distrib distrib_right)

lemma round_to_near: "\<bar>of_int (round_to 0 x) - x\<bar> \<le> 1 / 2"
  unfolding round_to_def abs_le_iff by (intro conjI; simp; linarith)

lemma rounded_sum:
  "\<bar>of_int (sum_list (map (round_to 0) xs)) - sum_list xs\<bar> \<le> of_nat (length xs) / 2"
proof (induction xs)
  case (Cons x xs)
  let ?r = "of_int (round_to 0 x) :: rat" and ?s = "of_int (sum_list (map (round_to 0) xs)) :: rat"
  have "\<bar>(?r - x) + (?s - sum_list xs)\<bar> \<le> 1 / 2 + of_nat (length xs) / 2"
    using round_to_near [of x] Cons abs_triangle_ineq [of "?r - x" "?s - sum_list xs"] by linarith
  then show ?case by (simp add: algebra_simps add_divide_distrib)
qed simp

section \<open>Categories\<close>

text \<open>\<open>s.replace(/_/g, ' ').replace(/\b\w/g, c => c.toUpperCase())\<close>.\<close>

definition boundary_char :: "char \<Rightarrow> bool" where
  "boundary_char c \<longleftrightarrow> (let n = (of_char c :: nat) in 48 \<le> n \<and> n \<le> 57 \<or> 65 \<le> n \<and> n \<le> 90 \<or> 97 \<le> n \<and> n \<le> 122 \<or> n = 95)"

fun upper_words :: "bool \<Rightarrow> string \<Rightarrow> string" where
  "upper_words inside [] = []"
| "upper_words inside (c # s) =
     (if boundary_char c \<and> \<not> inside then toUpperCase [c] else [c]) @ upper_words (boundary_char c) s"

definition title_words :: "string \<Rightarrow> string" where
  "title_words s = upper_words False (map (\<lambda>c. if c = CHR ''_'' then CHR '' '' else c) s)"

definition CATEGORY_COLORS :: "string js_obj" where
  "CATEGORY_COLORS = [
     (''bot_detection'', ''bg-blue-500''),
     (''waf_rule'', ''bg-rose-500''),
     (''ip_reputation'', ''bg-cyan-500''),
     (''protocol_anomaly'', ''bg-amber-500''),
     (''rate_limit'', ''bg-orange-500''),
     (''custom_rule'', ''bg-violet-500''),
     (''ip_access'', ''bg-red-500'')]"

definition CATEGORY_LABELS :: "string js_obj" where
  "CATEGORY_LABELS = [
     (''bot_detection'', ''Bot Detection''),
     (''waf_rule'', ''WAF Rule''),
     (''ip_reputation'', ''IP Reputation''),
     (''protocol_anomaly'', ''Protocol Anomaly''),
     (''rate_limit'', ''Rate Limit''),
     (''custom_rule'', ''Custom Rule''),
     (''ip_access'', ''IP Access Rule'')]"

definition intel_label :: "string \<Rightarrow> string" where
  "intel_label category = (case obj_get CATEGORY_LABELS category of Some l \<Rightarrow> l | None \<Rightarrow> title_words category)"

definition intel_bar :: "string \<Rightarrow> string" where
  "intel_bar category = (case obj_get CATEGORY_COLORS category of Some c \<Rightarrow> c | None \<Rightarrow> ''bg-slate-500'')"

text \<open>The dashboard writes the same out as conditions.\<close>

definition displayName :: "string \<Rightarrow> string" where
  "displayName category =
     (if category = ''bot_detection'' then ''Bot Detection''
      else if category = ''waf_rule'' then ''WAF Rule''
      else if category = ''custom_rule'' then ''Custom Rule''
      else if category = ''rate_limit'' then ''Rate Limit''
      else if category = ''ip_reputation'' then ''IP Reputation''
      else if category = ''ip_access'' then ''IP Access Rule''
      else if category = ''protocol_anomaly'' then ''Protocol Anomaly''
      else if category = ''block_unknown'' then ''Unknown Block''
      else title_words category)"

definition barColor :: "string \<Rightarrow> string" where
  "barColor category =
     (if category = ''bot_detection'' then ''bg-blue-500''
      else if category = ''waf_rule'' then ''bg-rose-500''
      else if category = ''custom_rule'' then ''bg-violet-500''
      else if category = ''rate_limit'' then ''bg-orange-500''
      else if category = ''ip_reputation'' then ''bg-cyan-500''
      else if category = ''ip_access'' then ''bg-red-500''
      else if category = ''protocol_anomaly'' then ''bg-amber-500''
      else ''bg-slate-500'')"

record threat_row =
  tw_label :: string
  tw_count :: int
  tw_share :: rat
  tw_text  :: string
  tw_bar   :: string

definition threat_total :: "threat_count list \<Rightarrow> int" where
  "threat_total ts = foldl (\<lambda>s t. s + tc_count t) 0 ts"

definition dashboard_threats :: "threat_count list option \<Rightarrow> threat_row list" where
  "dashboard_threats threats =
     (let ts = (case threats of None \<Rightarrow> [] | Some ts \<Rightarrow> ts)
      in map (\<lambda>t. let pct = share (tc_count t) (threat_total ts)
           in \<lparr>tw_label = displayName (tc_category t), tw_count = tc_count t, tw_share = pct,
               tw_text = percent_text 0 pct, tw_bar = barColor (tc_category t)\<rparr>) ts)"

definition intel_threats :: "threat_count list option \<Rightarrow> threat_row list" where
  "intel_threats topThreats =
     (let ts = (case topThreats of None \<Rightarrow> [] | Some ts \<Rightarrow> ts); totalThreats = threat_total ts
      in map (\<lambda>t. let pct = share (tc_count t) totalThreats
           in \<lparr>tw_label = intel_label (tc_category t), tw_count = tc_count t, tw_share = pct,
               tw_text = percent_text 0 pct, tw_bar = intel_bar (tc_category t)\<rparr>) ts)"

text \<open>\<open>normalizeCategory\<close> of the backend.  Its second case compares the first eight characters of a name with a word of
  nine.\<close>

definition normalizeCategory :: "string \<Rightarrow> string" where
  "normalizeCategory name =
     (if name = ''bot_detection'' \<or> name = ''bot_score'' \<or> name = ''bot_composite'' then ''bot_detection''
      else if name = ''waf_anomaly'' \<or> length name > 8 \<and> take 8 name = ''owasp_crs'' then ''waf_rule''
      else if name = ''ip_reputation'' \<or> name = ''datacenter_asn'' \<or> name = ''cloud_provider'' then ''ip_reputation''
      else if name = ''protocol_anomaly'' then ''protocol_anomaly''
      else if name = ''rate_limit'' \<or> length name > 10 \<and> take 10 name = ''rate_limit'' then ''rate_limit''
      else if length name \<ge> 4 \<and> take 4 name = ''rule'' then ''custom_rule''
      else if length name \<ge> 14 \<and> take 14 name = ''ip_access_rule'' then ''ip_access''
      else [])"


section \<open>The dashboard\<close>

datatype theme_kind = Theme_Dark | Theme_Light

abbreviation themed :: "theme_kind \<Rightarrow> string \<Rightarrow> string \<Rightarrow> string" where
  "themed th dark light \<equiv> (if th = Theme_Dark then dark else light)"

record chart_palette =
  pal_grid          :: string
  pal_text          :: string
  pal_tooltipBg     :: string
  pal_tooltipTitle  :: string
  pal_tooltipBody   :: string
  pal_tooltipBorder :: string

definition dashboard_palette :: "theme_kind \<Rightarrow> chart_palette" where
  "dashboard_palette th = \<lparr>
     pal_grid = themed th ''#1e2a38'' ''#e8ecf0'',
     pal_text = themed th ''#7a8fa8'' ''#6b7a8d'',
     pal_tooltipBg = themed th ''#1a2332'' ''#ffffff'',
     pal_tooltipTitle = themed th ''#dde4ed'' ''#1e2a38'',
     pal_tooltipBody = themed th ''#7a8fa8'' ''#5a6a7a'',
     pal_tooltipBorder = themed th ''#2a3a4a'' ''#dde4ed''\<rparr>"

definition doughnut_colors :: "string \<Rightarrow> string list" where
  "doughnut_colors opacity = map (\<lambda>rgb. ''rgba('' @ rgb @ '', '' @ opacity @ '')'') [
     ''107, 174, 245'',
     ''56, 152, 236'',
     ''34, 182, 227'',
     ''20, 200, 200'',
     ''52, 211, 153'',
     ''99, 179, 237'',
     ''139, 200, 248'',
     ''16, 185, 129'']"

text \<open>Which lines of the traffic chart are drawn.\<close>

record chart_visibility =
  cv_allow     :: bool
  cv_challenge :: bool
  cv_block     :: bool

datatype chart_line = Line_Allow | Line_Challenge | Line_Block

definition chart_visibility_initial :: chart_visibility where
  "chart_visibility_initial = \<lparr>cv_allow = True, cv_challenge = True, cv_block = True\<rparr>"

primrec line_visible :: "chart_visibility \<Rightarrow> chart_line \<Rightarrow> bool" where
  "line_visible v Line_Allow = cv_allow v"
| "line_visible v Line_Challenge = cv_challenge v"
| "line_visible v Line_Block = cv_block v"

primrec toggleChartLine :: "chart_line \<Rightarrow> chart_visibility \<Rightarrow> chart_visibility" where
  "toggleChartLine Line_Allow v = v\<lparr>cv_allow := \<not> cv_allow v\<rparr>"
| "toggleChartLine Line_Challenge v = v\<lparr>cv_challenge := \<not> cv_challenge v\<rparr>"
| "toggleChartLine Line_Block v = v\<lparr>cv_block := \<not> cv_block v\<rparr>"

record line_dataset =
  ld_label      :: string
  ld_data       :: "int list"
  ld_border     :: string
  ld_background :: string
  ld_point      :: string
  ld_hidden     :: bool

definition traffic_datasets :: "theme_kind \<Rightarrow> chart_visibility \<Rightarrow> traffic_point list \<Rightarrow> line_dataset list" where
  "traffic_datasets th v chartData = [
     \<lparr>ld_label = ''Clean'', ld_data = map tdp_allow chartData,
      ld_border = themed th ''rgba(16, 185, 129, 0.6)'' ''rgba(5, 150, 105, 0.6)'',
      ld_background = themed th ''rgba(16,185,129,0.05)'' ''rgba(5,150,105,0.05)'',
      ld_point = themed th ''rgba(16, 185, 129, 0.6)'' ''rgba(5, 150, 105, 0.6)'', ld_hidden = (\<not> cv_allow v)\<rparr>,
     \<lparr>ld_label = ''Challenge'', ld_data = map tdp_challenge chartData,
      ld_border = themed th ''rgba(245, 158, 11, 0.6)'' ''rgba(217, 119, 6, 0.6)'',
      ld_background = themed th ''rgba(245,158,11,0.05)'' ''rgba(217,119,6,0.05)'',
      ld_point = themed th ''rgba(245, 158, 11, 0.6)'' ''rgba(217, 119, 6, 0.6)'', ld_hidden = (\<not> cv_challenge v)\<rparr>,
     \<lparr>ld_label = ''Block'', ld_data = map tdp_block chartData,
      ld_border = themed th ''rgba(239, 68, 68, 0.6)'' ''rgba(220, 38, 38, 0.6)'',
      ld_background = themed th ''rgba(239,68,68,0.05)'' ''rgba(220,38,38,0.05)'',
      ld_point = themed th ''rgba(239, 68, 68, 0.6)'' ''rgba(220, 38, 38, 0.6)'', ld_hidden = (\<not> cv_block v)\<rparr>]"

definition traffic_legend :: "chart_visibility \<Rightarrow> (string \<times> string \<times> bool) list" where
  "traffic_legend v = [(''bg-emerald-500'', ''Clean'', cv_allow v), (''bg-amber-500'', ''Challenge'', cv_challenge v),
     (''bg-rose-500'', ''Block'', cv_block v)]"

text \<open>The dash of the caption is U+2014, here in UTF-8.\<close>

definition em_dash :: string where
  "em_dash = [CHR 0xE2, CHR 0x80, CHR 0x94]"

text \<open>U+00B7 in UTF-8.\<close>

definition middle_dot :: string where
  "middle_dot = [CHR 0xC2, CHR 0xB7]"

definition range_caption :: "string \<Rightarrow> string" where
  "range_caption timeRange =
     (if timeRange = ''1d'' then ''Hourly, last 24 hours''
      else if timeRange = ''7d'' then ''Daily '' @ em_dash @ '' last 7 days''
      else ''Daily '' @ em_dash @ '' last 30 days'')"

definition dashboard_stats :: "traffic_analytics option \<Rightarrow> traffic_summary" where
  "dashboard_stats analyticsData =
     (case analyticsData of
        Some a \<Rightarrow> ta_summary a
      | None \<Rightarrow> \<lparr>ts_total = 0, ts_allow = 0, ts_block = 0, ts_block_waf = 0, ts_block_bot = 0, ts_challenge = 0\<rparr>)"

record stat_card =
  sc_title   :: string
  sc_value   :: int
  sc_variant :: string
  sc_percent :: "rat option"

text \<open>\<open>StatCard\<close> prints the share with one digit, when there is one.\<close>

definition stat_card_text :: "stat_card \<Rightarrow> string option" where
  "stat_card_text c = map_option (percent_text 1) (sc_percent c)"

text \<open>\<open>wafStats\<close> holds the numbers of blocked and challenged requests.\<close>

definition kpi_cards :: "traffic_summary \<Rightarrow> (int \<times> int) option \<Rightarrow> stat_card list" where
  "kpi_cards stats wafStats = [
     \<lparr>sc_title = ''Total Requests'', sc_value = ts_total stats, sc_variant = ''slate'', sc_percent = None\<rparr>,
     \<lparr>sc_title = ''Blocked'', sc_value = ts_block stats, sc_variant = ''rose'',
      sc_percent = Some (share (ts_block stats) (ts_total stats))\<rparr>,
     \<lparr>sc_title = ''Challenged'', sc_value = ts_challenge stats, sc_variant = ''amber'',
      sc_percent = Some (share (ts_challenge stats) (ts_total stats))\<rparr>,
     \<lparr>sc_title = ''WAF Contributed'',
      sc_value = (case wafStats of None \<Rightarrow> 0 | Some (blocked, challenged) \<Rightarrow> blocked + challenged),
      sc_variant = ''slate'', sc_percent = None\<rparr>,
     \<lparr>sc_title = ''Clean Traffic'', sc_value = ts_allow stats, sc_variant = ''emerald'',
      sc_percent = Some (share (ts_allow stats) (ts_total stats))\<rparr>]"

text \<open>A row of the applications: the host, the printed share and the width of the bar.\<close>

definition host_row :: "traffic_summary \<Rightarrow> string \<times> int \<Rightarrow> string \<times> string \<times> rat" where
  "host_row stats hc =
     (fst hc, percent_text 0 (share (snd hc) (ts_total stats)), share (snd hc) (ts_total stats))"

definition provider_row :: "nat \<Rightarrow> provider_entry \<Rightarrow> string \<times> string \<times> string \<times> string option" where
  "provider_row idx p = (nat_to_string (idx + 1), pe_provider p, int_to_string (pe_total p) @ '' requests'',
     if pe_block_rate p > 0 then Some (middle_dot @ '' '' @ percent_text 1 (pe_block_rate p) @ '' blocked'') else None)"

definition country_row :: "traffic_summary \<Rightarrow> country_entry \<Rightarrow> string \<times> int \<times> rat" where
  "country_row stats c = (cy_country c, cy_total c, share (cy_total c) (ts_total stats))"

text \<open>The rings of devices and of operating systems: labels, values, and the text of a tooltip.\<close>

definition ring_labels :: "(string \<times> int) list \<Rightarrow> string list" where
  "ring_labels xs = map (capitalised \<circ> fst) xs"

definition ring_tooltip :: "(string \<times> int) list \<Rightarrow> string \<Rightarrow> int \<Rightarrow> string" where
  "ring_tooltip xs label v =
     (let m = foldl (\<lambda>s x. s + snd x) 0 xs;
          percentage = (if m > 0 then toFixed 1 (share v m) else ''0'')
      in label @ '': '' @ int_to_string v @ '' ('' @ percentage @ ''%)'')"

section \<open>Threat intelligence\<close>

definition intel_palette :: "theme_kind \<Rightarrow> chart_palette" where
  "intel_palette th = \<lparr>
     pal_grid = themed th ''#1e2a38'' ''#e8ecf0'',
     pal_text = themed th ''#7a8fa8'' ''#6b7a8d'',
     pal_tooltipBg = themed th ''#1a2332'' ''#ffffff'',
     pal_tooltipTitle = themed th ''#dde4ed'' ''#1e2a38'',
     pal_tooltipBody = themed th ''#7a8fa8'' ''#5a6a7a'',
     pal_tooltipBorder = themed th ''#2a3a4a'' ''#dde4ed''\<rparr>"

definition range_button :: "string \<Rightarrow> string" where
  "range_button r =
     (if r = ''5min'' then ''5Min'' else if r = ''15min'' then ''15Min'' else if r = ''1h'' then ''1H'' else toUpperCase r)"

text \<open>\<open>e.target.value || undefined\<close>.\<close>

definition intel_app_change :: "string \<Rightarrow> string option" where
  "intel_app_change v = (if v = [] then None else Some v)"

definition band_color :: "theme_kind \<Rightarrow> string \<Rightarrow> string" where
  "band_color th r =
     (if startsWith r ''80'' then themed th ''rgba(239,68,68,0.75)'' ''rgba(220,38,38,0.75)''
      else if startsWith r ''50'' \<or> startsWith r ''60'' then themed th ''rgba(245,158,11,0.75)'' ''rgba(217,119,6,0.75)''
      else themed th ''rgba(16,185,129,0.55)'' ''rgba(5,150,105,0.55)'')"

definition band_chart :: "theme_kind \<Rightarrow> score_bucket list \<Rightarrow> (string \<times> int \<times> string) list" where
  "band_chart th scoreDist = map (\<lambda>b. (sb_range b, sb_count b, band_color th (sb_range b))) scoreDist"

text \<open>The bands of the backend; the dash is U+2013, here in UTF-8.\<close>

definition en_dash :: string where
  "en_dash = [CHR 0xE2, CHR 0x80, CHR 0x93]"

definition score_bands :: "string list" where
  "score_bands = [''0'' @ en_dash @ ''19'', ''20'' @ en_dash @ ''39'', ''40'' @ en_dash @ ''49'',
     ''50'' @ en_dash @ ''59'', ''60'' @ en_dash @ ''79'', ''80'' @ en_dash @ ''100'']"

definition band_of :: "int \<Rightarrow> nat" where
  "band_of score = (if score \<le> 19 then 0 else if score \<le> 39 then 1 else if score \<le> 49 then 2
     else if score \<le> 59 then 3 else if score \<le> 79 then 4 else 5)"

definition category_overview :: "threat_summary option \<Rightarrow> (string \<times> string \<times> string) list" where
  "category_overview summary =
     (let avg = (\<lambda>f. case summary of None \<Rightarrow> 0 | Some s \<Rightarrow> f (tsr_category_avg s))
      in map (\<lambda>(label, v, color). (label, percent_text 1 v, color)) [
        (''Protocol Anomaly'', avg ca_protocol_anomaly, ''text-amber-500''),
        (''Bot Detection'', avg ca_bot_detection, ''text-blue-500''),
        (''WAF Anomaly'', avg ca_waf_anomaly, ''text-rose-500''),
        (''IP Reputation'', avg ca_ip_reputation, ''text-cyan-500'')])"

record intel_provider =
  ip_rank   :: nat
  ip_name   :: string
  ip_risk   :: string
  ip_color  :: string
  ip_threat :: "int option"
  ip_rate   :: string

definition intel_provider_row :: "nat \<Rightarrow> provider_entry \<Rightarrow> intel_provider" where
  "intel_provider_row idx p =
     (let threatRate = (case pe_threat_rate p of Some r \<Rightarrow> r | None \<Rightarrow> pe_block_rate p);
          threatened = pe_blocked p + (case pe_challenged p of Some n \<Rightarrow> n | None \<Rightarrow> 0)
      in \<lparr>ip_rank = idx + 1, ip_name = pe_provider p,
          ip_risk = (if threatRate \<ge> 40 then ''HIGH'' else if threatRate \<ge> 15 then ''MED'' else ''LOW''),
          ip_color = (if threatRate \<ge> 40 then ''text-red-500 bg-red-500/10''
            else if threatRate \<ge> 15 then ''text-amber-500 bg-amber-500/10'' else ''text-emerald-600 bg-emerald-500/10''),
          ip_threat = (if threatened > 0 then Some threatened else None),
          ip_rate = percent_text 1 threatRate\<rparr>)"

definition intel_providers :: "provider_entry list option \<Rightarrow> intel_provider list" where
  "intel_providers ps =
     (case ps of None \<Rightarrow> [] | Some ps \<Rightarrow> map (\<lambda>(i, p). intel_provider_row i p) (enumerate 0 (take 12 ps)))"

definition intel_ip_row :: "nat \<Rightarrow> threat_ip \<Rightarrow> nat \<times> string \<times> string \<times> string option \<times> string option" where
  "intel_ip_row idx t = (idx + 1, ti_ip t, ti_asn_org t,
     if ti_blocked t > 0 then Some (int_to_string (ti_blocked t) @ '' blk'') else None,
     if ti_challenged t > 0 then Some (int_to_string (ti_challenged t) @ '' chg'') else None)"

definition trend_datasets :: "theme_kind \<Rightarrow> category_trend list \<Rightarrow> (string \<times> int list \<times> string) list" where
  "trend_datasets th trendData = [
     (''IP Reputation'', map ct_ip_reputation trendData, themed th ''rgba(34,182,227,0.7)'' ''rgba(6,182,212,0.7)''),
     (''Bot Detection'', map ct_bot_detection trendData, themed th ''rgba(99,179,237,0.7)'' ''rgba(59,130,246,0.7)''),
     (''WAF Anomaly'', map ct_waf_anomaly trendData, themed th ''rgba(239,68,68,0.65)'' ''rgba(220,38,38,0.65)''),
     (''Protocol Anomaly'', map ct_protocol_anomaly trendData, themed th ''rgba(245,158,11,0.65)'' ''rgba(217,119,6,0.65)'')]"

text \<open>\<open>rule.total || 1\<close> and \<open>Math.min((n / total) * 100, 100)\<close>.\<close>

definition rule_share :: "int \<Rightarrow> int \<Rightarrow> rat" where
  "rule_share n m = min (of_int n / of_int (if m = 0 then 1 else m) * 100) 100"

record rule_row =
  rw_rank      :: nat
  rw_title     :: string
  rw_hits      :: string
  rw_block     :: "(string \<times> rat \<times> string) option"
  rw_challenge :: "(string \<times> rat \<times> string) option"

definition rule_bar :: "int \<Rightarrow> int \<Rightarrow> string \<Rightarrow> string \<times> rat \<times> string" where
  "rule_bar n m unit =
     (int_to_string n @ unit, rule_share n m, percent_text 0 (rule_share n m))"

definition waf_rule_row :: "nat \<Rightarrow> waf_rule_entry \<Rightarrow> rule_row" where
  "waf_rule_row idx r = \<lparr>rw_rank = idx + 1, rw_title = ''#'' @ wre_rule_id r, rw_hits = int_to_string (wre_total r) @ '' hits'',
     rw_block = Some (rule_bar (wre_blocked r) (wre_total r) '' blk''),
     rw_challenge = Some (rule_bar (wre_challenged r) (wre_total r) '' chg'')\<rparr>"

definition custom_rule_row :: "nat \<Rightarrow> custom_rule_entry \<Rightarrow> rule_row" where
  "custom_rule_row idx r = \<lparr>rw_rank = idx + 1,
     rw_title = (if cre_rule_name r = [] then ''Rule #'' @ cre_rule_id r else cre_rule_name r),
     rw_hits = int_to_string (cre_total r) @ '' hits'',
     rw_block = (if cre_blocked r > 0 then Some (rule_bar (cre_blocked r) (cre_total r) '' blk'') else None),
     rw_challenge = (if cre_challenged r > 0 then Some (rule_bar (cre_challenged r) (cre_total r) '' chg'') else None)\<rparr>"

definition dominantAction :: "custom_rule_entry \<Rightarrow> string \<times> string" where
  "dominantAction r =
     (if cre_blocked r > cre_challenged r then (toUpperCase ''block'', ''text-red-500 bg-red-500/10'')
      else (toUpperCase ''challenge'', ''text-amber-500 bg-amber-500/10''))"

definition intel_country_row :: "nat \<Rightarrow> country_entry \<Rightarrow> nat \<times> string \<times> int \<times> string \<times> string" where
  "intel_country_row idx c =
     (let pct = cy_block_rate c
      in (idx + 1, cy_country c, cy_total c, percent_text 1 pct,
          if pct \<ge> 50 then ''text-red-500'' else if pct \<ge> 20 then ''text-amber-500'' else ''text-emerald-500''))"

definition intel_countries :: "country_entry list option \<Rightarrow> (nat \<times> string \<times> int \<times> string \<times> string) list" where
  "intel_countries cs =
     (case cs of None \<Rightarrow> [] | Some cs \<Rightarrow> map (\<lambda>(i, c). intel_country_row i c) (enumerate 0 (take 15 cs)))"

definition intel_bots :: "(string \<times> int) list option \<Rightarrow> (nat \<times> string \<times> int) list" where
  "intel_bots bots =
     (case bots of None \<Rightarrow> [] | Some bs \<Rightarrow> map (\<lambda>(i, ua, n). (i + 1, ua, n)) (enumerate 0 (take 15 bs)))"

section \<open>Properties\<close>

lemma threat_total_sum: "threat_total ts = sum_list (map tc_count ts)"
proof -
  have "foldl (\<lambda>s t. s + tc_count t) a ts = a + sum_list (map tc_count ts)" for a
    by (induction ts arbitrary: a) simp_all
  then show ?thesis by (simp add: threat_total_def)
qed

lemma threat_in_total:
  "list_all (\<lambda>t. 0 \<le> tc_count t) ts \<Longrightarrow> t \<in> set ts \<Longrightarrow> 0 \<le> tc_count t \<and> tc_count t \<le> threat_total ts"
  unfolding threat_total_sum
proof (induction ts)
  case (Cons u us)
  have "0 \<le> sum_list (map tc_count us)" using Cons.prems(1) by (intro sum_list_nonneg) (auto simp: list_all_iff)
  then show ?case using Cons by auto
qed simp

text \<open>The shares of the threats, on both pages.  Each lies between 0 and 100; together they are 100, unless there is no
  threat; and the whole numbers printed beside them are together within half a point per row of 100.\<close>

theorem threat_shares_bounds:
  assumes "list_all (\<lambda>t. 0 \<le> tc_count t) ts"
  shows "map tw_share (dashboard_threats (Some ts)) = map tw_share (intel_threats (Some ts)) \<and>
    list_all (\<lambda>r. 0 \<le> tw_share r \<and> tw_share r \<le> 100) (intel_threats (Some ts)) \<and>
    (if 0 < threat_total ts
     then sum_list (map tw_share (intel_threats (Some ts))) = 100 \<and>
       \<bar>of_int (sum_list (map (round_to 0 \<circ> tw_share) (intel_threats (Some ts)))) - (100 :: rat)\<bar> \<le> of_nat (length ts) / 2
     else list_all (\<lambda>r. tw_share r = 0) (intel_threats (Some ts)))"
proof -
  have shares: "map tw_share (intel_threats (Some ts)) = map (\<lambda>c. share c (threat_total ts)) (map tc_count ts)"
    "map tw_share (dashboard_threats (Some ts)) = map (\<lambda>c. share c (threat_total ts)) (map tc_count ts)"
    by (simp_all add: intel_threats_def dashboard_threats_def Let_def)
  have bounds: "list_all (\<lambda>r. 0 \<le> tw_share r \<and> tw_share r \<le> 100) (intel_threats (Some ts))"
    using threat_in_total [OF assms] share_bounds by (auto simp: intel_threats_def Let_def list_all_iff)
  have total: "sum_list (map tw_share (intel_threats (Some ts))) = 100" if "0 < threat_total ts"
  proof -
    have "sum_list (map tw_share (intel_threats (Some ts))) = share (sum_list (map tc_count ts)) (threat_total ts)"
      unfolding shares(1) by (rule share_sum [OF that])
    then show ?thesis using that by (simp add: threat_total_sum share_def)
  qed
  have "\<bar>of_int (sum_list (map (round_to 0) (map tw_share (intel_threats (Some ts))))) -
      sum_list (map tw_share (intel_threats (Some ts)))\<bar> \<le> (of_nat (length ts) / 2 :: rat)"
    using rounded_sum [of "map tw_share (intel_threats (Some ts))"] by (simp add: intel_threats_def Let_def)
  then show ?thesis
    using shares bounds total by (auto simp: share_def list_all_iff intel_threats_def Let_def comp_def)
qed

theorem threat_shares_bounds_witness:
  "sum_list (map tw_share (intel_threats (Some [\<lparr>tc_category = ''waf_rule'', tc_count = 1\<rparr>, \<lparr>tc_category = ''ip_access'', tc_count = 2\<rparr>]))) = 100"
proof -
  let ?ts = "[\<lparr>tc_category = ''waf_rule'', tc_count = 1\<rparr>, \<lparr>tc_category = ''ip_access'', tc_count = 2\<rparr>]"
  have "list_all (\<lambda>t. 0 \<le> tc_count t) ?ts" "0 < threat_total ?ts" by (simp_all add: threat_total_def)
  then show ?thesis using threat_shares_bounds [of ?ts] by presburger
qed

text \<open>The two pages show every category the backend names under the same label and in the same colour, although one
  looks it up in tables and the other goes through conditions.  They differ for \<open>block_unknown\<close>, which the backend
  never names; and the names of the core rule set, meant to count as firewall rules, are given no category at all.\<close>

theorem categories_agree:
  "(let c = normalizeCategory n
    in if c = [] then True
       else displayName c = intel_label c \<and> barColor c = intel_bar c \<and> obj_get CATEGORY_LABELS c = Some (displayName c)) \<and>
   normalizeCategory n \<noteq> ''block_unknown'' \<and> displayName ''block_unknown'' \<noteq> intel_label ''block_unknown'' \<and>
   barColor c' = intel_bar c' \<and> normalizeCategory (''owasp_crs'' @ s) = []"
proof (intro conjI)
  have bars: "barColor c = intel_bar c" for c by (simp add: barColor_def intel_bar_def CATEGORY_COLORS_def)
  have "normalizeCategory n \<in> {[], ''bot_detection'', ''waf_rule'', ''ip_reputation'', ''protocol_anomaly'', ''rate_limit'',
      ''custom_rule'', ''ip_access''}" by (simp add: normalizeCategory_def)
  moreover have "c \<in> {''bot_detection'', ''waf_rule'', ''ip_reputation'', ''protocol_anomaly'', ''rate_limit'',
      ''custom_rule'', ''ip_access''} \<Longrightarrow> displayName c = intel_label c \<and> barColor c = intel_bar c \<and>
      obj_get CATEGORY_LABELS c = Some (displayName c)" for c
    by (auto simp: displayName_def intel_label_def bars CATEGORY_LABELS_def)
  ultimately show "let c = normalizeCategory n
    in if c = [] then True
       else displayName c = intel_label c \<and> barColor c = intel_bar c \<and> obj_get CATEGORY_LABELS c = Some (displayName c)"
    by (simp add: Let_def) blast
  show "normalizeCategory n \<noteq> ''block_unknown''" by (simp add: normalizeCategory_def)
  show "displayName ''block_unknown'' \<noteq> intel_label ''block_unknown''" by code_simp
  show "barColor c' = intel_bar c'" by (rule bars)
  show "normalizeCategory (''owasp_crs'' @ s) = []" by (simp add: normalizeCategory_def)
qed

text \<open>The colours of the bands of the score distribution, chosen by the first characters of the backend's names, are
  those the event log gives to single scores: red from 80, amber from 50, green below.\<close>

theorem band_colors_match_scores:
  "let c = band_color th (score_bands ! band_of score); bar = fst (score_bar score)
   in (c = themed th ''rgba(239,68,68,0.75)'' ''rgba(220,38,38,0.75)'' \<longleftrightarrow> bar = ''bg-red-500'') \<and>
      (c = themed th ''rgba(245,158,11,0.75)'' ''rgba(217,119,6,0.75)'' \<longleftrightarrow> bar = ''bg-amber-500'') \<and>
      (c = themed th ''rgba(16,185,129,0.55)'' ''rgba(5,150,105,0.55)'' \<longleftrightarrow> bar = ''bg-emerald-500'') \<and>
      band_of score < length score_bands"
  by (simp add: Let_def band_of_def score_bands_def band_color_def startsWith_def score_bar_def)


lemma rule_share_bounds: "0 \<le> n \<Longrightarrow> 0 \<le> m \<Longrightarrow> 0 \<le> rule_share n m \<and> rule_share n m \<le> 100"
  by (simp add: rule_share_def)

text \<open>A click on an entry of the legend changes the line it names and no other; a second click undoes it.\<close>

lemma legend_click:
  "line_visible (toggleChartLine l v) l' = (if l = l' then \<not> line_visible v l' else line_visible v l')"
  "toggleChartLine l (toggleChartLine l v) = v"
  "map ld_hidden (traffic_datasets th v ps) = map (\<lambda>l. \<not> line_visible v l) [Line_Allow, Line_Challenge, Line_Block]"
proof -
  show "line_visible (toggleChartLine l v) l' = (if l = l' then \<not> line_visible v l' else line_visible v l')"
    by (cases l; cases l'; simp)
  show "toggleChartLine l (toggleChartLine l v) = v" by (cases l; simp)
qed (simp add: traffic_datasets_def)

lemma same_palette: "dashboard_palette = intel_palette"
  by (intro ext) (simp add: dashboard_palette_def intel_palette_def)

end
