(* ===== verification/Flood.thy ===== *)
theory Flood
  imports Complex_Main Js_Prelude "HOL-Library.Word"
begin

text \<open>
  How the backend counts requests (\<open>src/internal/ratelimit/flood.go\<close>, \<open>token_bucket.go\<close>): the flood protector, which keeps
  the times of recent requests, attacks and errors of every address in 256 shards, and the token bucket of one key.
  A reading of the clock is a number of nanoseconds and an argument of every operation; the configuration, which the
  protector asks a getter for, is an argument too.  A Go map is an association list, and a key that is missing
  reads as the empty list.  The tokens of a bucket are rationals, without the rounding of binary fractions.
\<close>

section \<open>State\<close>

record flood_config =
  fc_BasicLimit   :: int
  fc_BasicWindow  :: int
  fc_AttackLimit  :: int
  fc_AttackWindow :: int
  fc_ErrorLimit   :: int
  fc_ErrorWindow  :: int

type_synonym hit_times = "int list js_obj"

record flood_shard =
  fs_basicAccess :: hit_times
  fs_attackCount :: hit_times
  fs_errorCount  :: hit_times
  fs_challenged  :: "int js_obj"

definition newFloodShard :: flood_shard where
  "newFloodShard = \<lparr>fs_basicAccess = [], fs_attackCount = [], fs_errorCount = [], fs_challenged = []\<rparr>"

definition floodShards :: nat where
  "floodShards = 256"

definition floodMaxKeysPerShard :: nat where
  "floodMaxKeysPerShard = 50000 div floodShards"

type_synonym flood = "nat \<Rightarrow> flood_shard"

definition NewFloodProtector :: flood where
  "NewFloodProtector = (\<lambda>_. newFloodShard)"

text \<open>The hash is FNV-1a on 32 bits, which wraps.\<close>

definition fnv_step :: "32 word \<Rightarrow> char \<Rightarrow> 32 word" where
  "fnv_step h c = xor h (word_of_int (of_char c)) * 16777619"

definition shardFor :: "string \<Rightarrow> nat" where
  "shardFor ip = unat (foldl fnv_step 2166136261 ip mod of_nat floodShards)"

definition times_of :: "hit_times \<Rightarrow> string \<Rightarrow> int list" where
  "times_of m ip = (case obj_get m ip of None \<Rightarrow> [] | Some ts \<Rightarrow> ts)"

definition go_delete :: "'v js_obj \<Rightarrow> string \<Rightarrow> 'v js_obj" where
  "go_delete m k = filter (\<lambda>(k', _). k' \<noteq> k) m"

definition filterRecent :: "int list \<Rightarrow> int \<Rightarrow> int \<Rightarrow> int list" where
  "filterRecent ts now window = filter (\<lambda>t. now - t < window) ts"

section \<open>Operations\<close>

definition CheckBasicAccess :: "flood_config \<Rightarrow> int \<Rightarrow> string \<Rightarrow> flood \<Rightarrow> flood \<times> bool" where
  "CheckBasicAccess cfg now ip f =
     (let sh = f (shardFor ip);
          kept = filterRecent (times_of (fs_basicAccess sh) ip) now (fc_BasicWindow cfg);
          put = (\<lambda>ts. f(shardFor ip := sh\<lparr>fs_basicAccess := obj_set (fs_basicAccess sh) ip ts\<rparr>))
      in if fc_BasicLimit cfg \<le> int (length kept) then (put kept, False)
         else if floodMaxKeysPerShard \<le> length (fs_basicAccess sh) \<and> kept = [] then (f, True)
         else (put (kept @ [now]), True))"

text \<open>Attacks and errors are recorded and checked in the same way.\<close>

definition record_time :: "int \<Rightarrow> int \<Rightarrow> string \<Rightarrow> hit_times \<Rightarrow> hit_times" where
  "record_time limit now ip m =
     (if floodMaxKeysPerShard \<le> length m then m
      else if limit \<le> int (length (times_of m ip)) then m
      else obj_set m ip (times_of m ip @ [now]))"

definition RecordAttack :: "flood_config \<Rightarrow> int \<Rightarrow> string \<Rightarrow> flood \<Rightarrow> flood" where
  "RecordAttack cfg now ip f =
     (let sh = f (shardFor ip)
      in f(shardFor ip := sh\<lparr>fs_attackCount := record_time (fc_AttackLimit cfg) now ip (fs_attackCount sh)\<rparr>))"

definition CheckAttackLimit :: "flood_config \<Rightarrow> int \<Rightarrow> string \<Rightarrow> flood \<Rightarrow> flood \<times> bool" where
  "CheckAttackLimit cfg now ip f =
     (let sh = f (shardFor ip);
          kept = filterRecent (times_of (fs_attackCount sh) ip) now (fc_AttackWindow cfg)
      in (f(shardFor ip := sh\<lparr>fs_attackCount := obj_set (fs_attackCount sh) ip kept\<rparr>),
          int (length kept) < fc_AttackLimit cfg))"

definition RecordError :: "flood_config \<Rightarrow> int \<Rightarrow> string \<Rightarrow> flood \<Rightarrow> flood" where
  "RecordError cfg now ip f =
     (let sh = f (shardFor ip)
      in f(shardFor ip := sh\<lparr>fs_errorCount := record_time (fc_ErrorLimit cfg) now ip (fs_errorCount sh)\<rparr>))"

definition CheckErrorLimit :: "flood_config \<Rightarrow> int \<Rightarrow> string \<Rightarrow> flood \<Rightarrow> flood \<times> bool" where
  "CheckErrorLimit cfg now ip f =
     (let sh = f (shardFor ip);
          kept = filterRecent (times_of (fs_errorCount sh) ip) now (fc_ErrorWindow cfg)
      in (f(shardFor ip := sh\<lparr>fs_errorCount := obj_set (fs_errorCount sh) ip kept\<rparr>),
          int (length kept) < fc_ErrorLimit cfg))"

definition SetChallenge :: "int \<Rightarrow> string \<Rightarrow> int \<Rightarrow> flood \<Rightarrow> flood" where
  "SetChallenge now ip duration f =
     (let sh = f (shardFor ip)
      in f(shardFor ip := sh\<lparr>fs_challenged := obj_set (fs_challenged sh) ip (now + duration)\<rparr>))"

text \<open>A penalty that is over clears all the counts of its address.\<close>

definition IsChallenged :: "int \<Rightarrow> string \<Rightarrow> flood \<Rightarrow> flood \<times> bool" where
  "IsChallenged now ip f =
     (let sh = f (shardFor ip)
      in case obj_get (fs_challenged sh) ip of
           None \<Rightarrow> (f, False)
         | Some expiry \<Rightarrow>
             if expiry < now
             then (f(shardFor ip := \<lparr>
                      fs_basicAccess = go_delete (fs_basicAccess sh) ip,
                      fs_attackCount = go_delete (fs_attackCount sh) ip,
                      fs_errorCount = go_delete (fs_errorCount sh) ip,
                      fs_challenged = go_delete (fs_challenged sh) ip\<rparr>), False)
             else (f, True))"

definition sweep_times :: "int \<Rightarrow> int \<Rightarrow> hit_times \<Rightarrow> hit_times" where
  "sweep_times now window m =
     filter (\<lambda>(ip, ts). ts \<noteq> []) (map (\<lambda>(ip, ts). (ip, filterRecent ts now window)) m)"

definition flood_cleanup :: "flood_config \<Rightarrow> int \<Rightarrow> flood \<Rightarrow> flood" where
  "flood_cleanup cfg now f = (\<lambda>i.
     let sh = f i
     in \<lparr>fs_basicAccess = sweep_times now (fc_BasicWindow cfg) (fs_basicAccess sh),
         fs_attackCount = sweep_times now (fc_AttackWindow cfg) (fs_attackCount sh),
         fs_errorCount = sweep_times now (fc_ErrorWindow cfg) (fs_errorCount sh),
         fs_challenged = filter (\<lambda>(ip, expiry). \<not> expiry < now) (fs_challenged sh)\<rparr>)"

section \<open>A bucket of tokens\<close>

record bucket =
  bk_tokens     :: rat
  bk_capacity   :: rat
  bk_refillRate :: rat
  bk_lastRefill :: int
  bk_lastAccess :: int

definition new_bucket :: "int \<Rightarrow> int \<Rightarrow> rat \<Rightarrow> bucket" where
  "new_bucket now capacity refillRate = \<lparr>bk_tokens = of_int capacity, bk_capacity = of_int capacity,
     bk_refillRate = refillRate, bk_lastRefill = now, bk_lastAccess = now\<rparr>"

definition seconds :: "int \<Rightarrow> rat" where
  "seconds ns = of_int ns / 1000000000"

definition bucket_adapt :: "int \<Rightarrow> rat \<Rightarrow> bucket \<Rightarrow> bucket" where
  "bucket_adapt capacity refillRate b =
     (if bk_capacity b \<noteq> of_int capacity \<or> bk_refillRate b \<noteq> refillRate
      then b\<lparr>bk_capacity := of_int capacity, bk_refillRate := refillRate, bk_tokens := min (of_int capacity) (bk_tokens b)\<rparr>
      else b)"

definition bucket_refill :: "int \<Rightarrow> bucket \<Rightarrow> bucket" where
  "bucket_refill now b =
     (if 1 / 100 \<le> seconds (now - bk_lastRefill b)
      then b\<lparr>bk_tokens := min (bk_capacity b) (bk_tokens b + seconds (now - bk_lastRefill b) * bk_refillRate b),
             bk_lastRefill := now\<rparr>
      else b)"

text \<open>\<open>Allow\<close> on the bucket of its key, made when it is missing.\<close>

definition bucket_Allow :: "int \<Rightarrow> int \<Rightarrow> rat \<Rightarrow> bucket option \<Rightarrow> bucket \<times> bool" where
  "bucket_Allow now capacity refillRate found =
     (let b = (case found of None \<Rightarrow> new_bucket now capacity refillRate | Some b \<Rightarrow> b);
          b = bucket_refill now (bucket_adapt capacity refillRate (b\<lparr>bk_lastAccess := now\<rparr>))
      in if 1 \<le> bk_tokens b then (b\<lparr>bk_tokens := bk_tokens b - 1\<rparr>, True) else (b, False))"

section \<open>Sequences of calls\<close>

datatype flood_call =
    Check_Basic string | Record_Attack string | Check_Attack string | Record_Error string | Check_Error string
  | Set_Challenge string int | Is_Challenged string | Sweep

fun flood_step :: "flood_config \<Rightarrow> int \<Rightarrow> flood_call \<Rightarrow> flood \<Rightarrow> flood \<times> bool" where
  "flood_step cfg now (Check_Basic ip) f = CheckBasicAccess cfg now ip f"
| "flood_step cfg now (Record_Attack ip) f = (RecordAttack cfg now ip f, True)"
| "flood_step cfg now (Check_Attack ip) f = CheckAttackLimit cfg now ip f"
| "flood_step cfg now (Record_Error ip) f = (RecordError cfg now ip f, True)"
| "flood_step cfg now (Check_Error ip) f = CheckErrorLimit cfg now ip f"
| "flood_step cfg now (Set_Challenge ip d) f = (SetChallenge now ip d f, True)"
| "flood_step cfg now (Is_Challenged ip) f = IsChallenged now ip f"
| "flood_step cfg now Sweep f = (flood_cleanup cfg now f, True)"

text \<open>The times at which accesses of an address were let through.\<close>

fun passes :: "flood_config \<Rightarrow> string \<Rightarrow> (int \<times> flood_call) list \<Rightarrow> flood \<Rightarrow> int list" where
  "passes cfg ip [] f = []"
| "passes cfg ip ((now, c) # cs) f =
     (if c = Check_Basic ip \<and> snd (flood_step cfg now c f) then [now] else []) @
     passes cfg ip cs (fst (flood_step cfg now c f))"

fun checked_address :: "flood_call \<Rightarrow> string option" where
  "checked_address (Check_Basic ip) = Some ip"
| "checked_address _ = None"

definition checked :: "(int \<times> flood_call) list \<Rightarrow> string list" where
  "checked cs = remdups (List.map_filter (checked_address \<circ> snd) cs)"

definition in_window :: "int \<Rightarrow> int \<Rightarrow> int list \<Rightarrow> int list" where
  "in_window w t ts = filter (\<lambda>a. t - w < a \<and> a \<le> t) ts"

lemma filterRecent_later: "now \<le> n \<Longrightarrow> filterRecent (filterRecent ts now w) n w = filterRecent ts n w"
  by (auto simp: filterRecent_def intro!: filter_cong)

lemma filterRecent_append: "filterRecent (xs @ ys) n w = filterRecent xs n w @ filterRecent ys n w"
  by (simp add: filterRecent_def)

lemma filterRecent_Nil [simp]: "filterRecent [] n w = []"
  by (simp add: filterRecent_def)

lemma times_of_set [simp]: "times_of (obj_set m k ts) ip = (if ip = k then ts else times_of m ip)"
  by (simp add: times_of_def)

lemma obj_get_delete [simp]: "obj_get (go_delete m k) k' = (if k' = k then None else obj_get m k')"
  by (induction m) (auto simp: go_delete_def)

lemma times_of_delete [simp]: "times_of (go_delete m k) ip = (if ip = k then [] else times_of m ip)"
  by (simp add: times_of_def)

text \<open>An address has one entry at most; then a sweep keeps what is recent of it.\<close>

lemma sweep_Cons: "sweep_times now w ((k, ts) # m) =
    (if filterRecent ts now w = [] then sweep_times now w m else (k, filterRecent ts now w) # sweep_times now w m)"
  by (simp add: sweep_times_def)

lemma sweep_keys: "set (obj_keys (sweep_times now w m)) \<subseteq> set (obj_keys m)"
  by (force simp: obj_keys_def sweep_times_def)

lemma sweep_distinct: "distinct (obj_keys m) \<Longrightarrow> distinct (obj_keys (sweep_times now w m))"
proof (induction m)
  case (Cons e m)
  then show ?case using sweep_keys [of now w m] by (cases e) (auto simp: sweep_Cons obj_keys_def)
qed (simp add: sweep_times_def)

lemma times_of_Cons: "times_of ((k, ts) # m) ip = (if ip = k then ts else times_of m ip)"
  by (simp add: times_of_def)

lemma times_of_missing: "ip \<notin> set (obj_keys m) \<Longrightarrow> times_of m ip = []"
  by (simp add: times_of_def obj_get_None_iff [symmetric])

lemma times_of_sweep: "distinct (obj_keys m) \<Longrightarrow> times_of (sweep_times now w m) ip = filterRecent (times_of m ip) now w"
proof (induction m)
  case Nil
  then show ?case by (simp add: sweep_times_def times_of_def filterRecent_def)
next
  case (Cons e m)
  obtain k ts where e: "e = (k, ts)" by fastforce
  have d: "distinct (obj_keys m)" and k: "k \<notin> set (obj_keys m)" using Cons.prems by (auto simp: e obj_keys_def)
  have "times_of (sweep_times now w m) k = []" using k sweep_keys [of now w m] by (intro times_of_missing) auto
  then show ?case using Cons.IH [OF d] by (auto simp: e sweep_Cons times_of_Cons)
qed

lemma go_delete_keys: "set (obj_keys (go_delete m k)) \<subseteq> set (obj_keys m)"
  by (auto simp: obj_keys_def go_delete_def)

lemma go_delete_distinct: "distinct (obj_keys m) \<Longrightarrow> distinct (obj_keys (go_delete m k))"
  by (induction m) (auto simp: obj_keys_def go_delete_def)

text \<open>What a run keeps of one address: its entry is as recent as the times at which it passed.\<close>

definition tracks :: "flood_config \<Rightarrow> string \<Rightarrow> string list \<Rightarrow> int \<Rightarrow> int list \<Rightarrow> flood \<Rightarrow> bool" where
  "tracks cfg ip addresses t0 A f \<longleftrightarrow>
     distinct (obj_keys (fs_basicAccess (f (shardFor ip)))) \<and>
     set (obj_keys (fs_basicAccess (f (shardFor ip)))) \<subseteq> set addresses \<and>
     obj_get (fs_challenged (f (shardFor ip))) ip = None \<and>
     (\<forall>n\<ge>t0. filterRecent (times_of (fs_basicAccess (f (shardFor ip))) ip) n (fc_BasicWindow cfg) =
        filterRecent A n (fc_BasicWindow cfg))"

lemma obj_set_keys_subset: "set (obj_keys m) \<subseteq> S \<Longrightarrow> k \<in> S \<Longrightarrow> set (obj_keys (obj_set m k v)) \<subseteq> S"
  by (auto simp: obj_keys_set)

lemma challenge_kept:
  "obj_get m ip = None \<Longrightarrow> obj_get (filter (\<lambda>(ip, expiry). \<not> expiry < now) m) ip = None"
  by (auto simp: obj_get_None_iff obj_keys_def)

lemma tracks_other:
  assumes "tracks cfg ip addresses t0 A f" and "t0 \<le> now" and "set (checked [(now, c)]) \<subseteq> set addresses"
    and "c \<noteq> Check_Basic ip" and "\<forall>d. c \<noteq> Set_Challenge ip d"
  shows "tracks cfg ip addresses now A (fst (flood_step cfg now c f))"
proof (cases c)
  case (Check_Basic a)
  then have "a \<noteq> ip" "a \<in> set addresses" using assms by (auto simp: checked_def List.map_filter_def)
  then show ?thesis using assms(1,2) Check_Basic
    by (auto simp: tracks_def CheckBasicAccess_def Let_def obj_set_distinct obj_keys_set)
next
  case (Is_Challenged a)
  show ?thesis
  proof (cases "a = ip")
    case True
    then show ?thesis using assms(1,2) Is_Challenged by (auto simp: tracks_def IsChallenged_def)
  next
    case False
    then show ?thesis using assms(1,2) Is_Challenged go_delete_keys [of _ a]
      by (auto simp: tracks_def IsChallenged_def Let_def go_delete_distinct split: option.splits) blast
  qed
next
  case Sweep
  then show ?thesis using assms(1,2) sweep_keys
    by (auto simp: tracks_def flood_cleanup_def Let_def sweep_distinct times_of_sweep filterRecent_later challenge_kept) blast
qed (use assms in \<open>auto simp: tracks_def RecordAttack_def CheckAttackLimit_def RecordError_def CheckErrorLimit_def
   SetChallenge_def Let_def\<close>)


text \<open>Full shards let accesses through uncounted, so there must be room for every address checked.\<close>

lemma room_left:
  assumes "tracks cfg ip addresses t0 A f" and "length addresses < floodMaxKeysPerShard"
  shows "length (fs_basicAccess (f (shardFor ip))) < floodMaxKeysPerShard"
proof -
  let ?m = "fs_basicAccess (f (shardFor ip))"
  have "length ?m = card (set (obj_keys ?m))"
    using assms(1) distinct_card [of "obj_keys ?m"] by (simp add: tracks_def obj_keys_def)
  also have "\<dots> \<le> card (set addresses)" using assms(1) by (intro card_mono) (simp_all add: tracks_def)
  also have "\<dots> \<le> length addresses" by (rule card_length)
  finally show ?thesis using assms(2) by simp
qed

lemma tracks_check:
  assumes tr: "tracks cfg ip addresses t0 A f" and now: "t0 \<le> now" and ip: "ip \<in> set addresses"
    and room: "length addresses < floodMaxKeysPerShard"
  defines "r \<equiv> CheckBasicAccess cfg now ip f"
  shows "tracks cfg ip addresses now (A @ (if snd r then [now] else [])) (fst r) \<and>
    (if snd r then int (length (filterRecent A now (fc_BasicWindow cfg))) < fc_BasicLimit cfg else True)"
proof -
  have rec: "filterRecent (times_of (fs_basicAccess (f (shardFor ip))) ip) now (fc_BasicWindow cfg) =
      filterRecent A now (fc_BasicWindow cfg)" using tr now by (simp add: tracks_def)
  show ?thesis
    using tr now ip room_left [OF tr room] rec
    by (auto simp: r_def CheckBasicAccess_def tracks_def Let_def obj_set_distinct obj_keys_set filterRecent_append
        filterRecent_later)
qed

text \<open>The times passed so far, at most the limit in every window.\<close>

definition window_ok :: "flood_config \<Rightarrow> int \<Rightarrow> int list \<Rightarrow> bool" where
  "window_ok cfg t0 A \<longleftrightarrow> list_all (\<lambda>a. a \<le> t0) A \<and>
     (\<forall>t. int (length (in_window (fc_BasicWindow cfg) t A)) \<le> fc_BasicLimit cfg)"

lemma window_ok_pass:
  assumes ok: "window_ok cfg t0 A" and now: "t0 \<le> now"
    and rec: "int (length (filterRecent A now (fc_BasicWindow cfg))) < fc_BasicLimit cfg"
  shows "window_ok cfg now (A @ [now])"
  unfolding window_ok_def
proof (intro conjI allI)
  show "list_all (\<lambda>a. a \<le> now) (A @ [now])" using ok now by (auto simp: window_ok_def list_all_iff)
  fix t
  let ?w = "fc_BasicWindow cfg"
  show "int (length (in_window ?w t (A @ [now]))) \<le> fc_BasicLimit cfg"
  proof (cases "t - ?w < now \<and> now \<le> t")
    case True
    have "in_window ?w t A = filter (\<lambda>a. t - ?w < a \<and> a \<le> t) (filterRecent A now ?w)"
      using True by (auto simp: in_window_def filterRecent_def intro!: filter_cong)
    then have "length (in_window ?w t A) \<le> length (filterRecent A now ?w)" by simp
    then show ?thesis using True rec by (simp add: in_window_def)
  next
    case False
    then show ?thesis using ok by (auto simp: in_window_def window_ok_def)
  qed
qed

lemma window_ok_later: "window_ok cfg t0 A \<Longrightarrow> t0 \<le> now \<Longrightarrow> window_ok cfg now A"
  by (auto simp: window_ok_def list_all_iff)

lemma checked_Cons: "set (checked (e # cs)) = set (checked [e]) \<union> set (checked cs)"
  by (auto simp: checked_def List.map_filter_def)

lemma run_window_ok:
  assumes "sorted (t0 # map fst cs)" and "set (checked cs) \<subseteq> set addresses" and "length addresses < floodMaxKeysPerShard"
    and "list_all (\<lambda>(_, c). \<forall>d. c \<noteq> Set_Challenge ip d) cs"
    and "tracks cfg ip addresses t0 A f" and "window_ok cfg t0 A"
  shows "\<exists>t. window_ok cfg t (A @ passes cfg ip cs f)"
  using assms
proof (induction cs arbitrary: t0 A f)
  case (Cons e cs)
  obtain now c where e: "e = (now, c)" by fastforce
  let ?p = "if c = Check_Basic ip \<and> snd (flood_step cfg now c f) then [now] else []"
  have now: "t0 \<le> now" and srt: "sorted (now # map fst cs)" using Cons.prems(1) by (auto simp: e)
  have adr: "set (checked [(now, c)]) \<subseteq> set addresses" "set (checked cs) \<subseteq> set addresses"
    using Cons.prems(2) checked_Cons [of e cs] by (auto simp: e)
  have "tracks cfg ip addresses now (A @ ?p) (fst (flood_step cfg now c f)) \<and> window_ok cfg now (A @ ?p)"
  proof (cases "c = Check_Basic ip")
    case True
    then have "ip \<in> set addresses" using adr(1) by (simp add: checked_def List.map_filter_def)
    then show ?thesis
      using tracks_check [OF Cons.prems(5) now _ Cons.prems(3)] window_ok_pass [OF Cons.prems(6) now]
        window_ok_later [OF Cons.prems(6) now] True by (auto split: if_splits)
  next
    case False
    then show ?thesis using tracks_other [OF Cons.prems(5) now adr(1) False] Cons.prems(4) window_ok_later [OF Cons.prems(6) now]
      by (simp add: e)
  qed
  then show ?case
    using Cons.IH [OF srt adr(2) Cons.prems(3), of "A @ ?p"] Cons.prems(4) by (simp add: e)
qed auto

text \<open>The limit on requests holds in every window.  In any sequence of calls of the flood protector, for all addresses
  mixed, with fewer addresses than a shard has room for, an address that is given no penalty passes at most
  \<open>BasicLimit\<close> times in any time of length \<open>BasicWindow\<close>.\<close>

lemma basic_window_bound:
  assumes "sorted (map fst cs)" and "length (checked cs) < floodMaxKeysPerShard"
    and "list_all (\<lambda>(_, c). \<forall>d. c \<noteq> Set_Challenge ip d) cs" and "0 \<le> fc_BasicLimit cfg"
  shows "int (length (in_window (fc_BasicWindow cfg) t (passes cfg ip cs NewFloodProtector))) \<le> fc_BasicLimit cfg"
proof (cases cs)
  case (Cons e cs')
  have "sorted (fst e # map fst cs)" using assms(1) by (simp add: Cons)
  moreover have "tracks cfg ip (checked cs) (fst e) [] NewFloodProtector"
    by (simp add: tracks_def NewFloodProtector_def newFloodShard_def obj_keys_def times_of_def)
  moreover have "window_ok cfg (fst e) []" using assms(4) by (simp add: window_ok_def in_window_def)
  ultimately have "\<exists>t. window_ok cfg t ([] @ passes cfg ip cs NewFloodProtector)"
    using run_window_ok assms(2,3) by blast
  then show ?thesis by (auto simp: window_ok_def)
qed (use assms(4) in \<open>simp add: in_window_def\<close>)

text \<open>A limit of 0 refuses every access, and a window of no length, or of less, refuses none.\<close>

lemma basic_extremes:
  "fc_BasicLimit cfg \<le> 0 \<Longrightarrow> \<not> snd (CheckBasicAccess cfg now ip f)"
  "fc_BasicWindow cfg \<le> 0 \<Longrightarrow> 0 < fc_BasicLimit cfg \<Longrightarrow> list_all (\<lambda>t. t \<le> now) (times_of (fs_basicAccess (f (shardFor ip))) ip) \<Longrightarrow>
     snd (CheckBasicAccess cfg now ip f)"
proof -
  assume w: "fc_BasicWindow cfg \<le> 0" "0 < fc_BasicLimit cfg" "list_all (\<lambda>t. t \<le> now) (times_of (fs_basicAccess (f (shardFor ip))) ip)"
  then have "filterRecent (times_of (fs_basicAccess (f (shardFor ip))) ip) now (fc_BasicWindow cfg) = []"
    by (auto simp: filterRecent_def filter_empty_conv list_all_iff)
  then show "snd (CheckBasicAccess cfg now ip f)" using w by (simp add: CheckBasicAccess_def Let_def)
qed (simp add: CheckBasicAccess_def Let_def)

text \<open>C32: attacks are no longer counted once a shard is full, and checking fills it: the check of an address that was never
  seen adds a key beyond any cap, while recording stops at the cap for every address of the shard, known or not.\<close>

theorem attack_tracking_fills_up:
  "(let sh = f (shardFor ip); sh' = fst (CheckAttackLimit cfg now ip f) (shardFor ip)
    in length (fs_attackCount sh') =
         length (fs_attackCount sh) + (if ip \<in> set (obj_keys (fs_attackCount sh)) then 0 else 1) \<and>
       (if floodMaxKeysPerShard \<le> length (fs_attackCount sh)
        then RecordAttack cfg now ip f = f \<and> RecordAttack cfg now ip (fst (CheckAttackLimit cfg now ip f)) = fst (CheckAttackLimit cfg now ip f)
        else True))"
proof -
  have len: "length (obj_set m k v) = length m + (if k \<in> set (obj_keys m) then 0 else 1)" for m :: hit_times and k v
    by (induction m k v rule: obj_set.induct) (auto simp: obj_keys_def)
  show ?thesis by (auto simp: CheckAttackLimit_def RecordAttack_def record_time_def Let_def len)
qed


section \<open>Sequences of requests of one key\<close>

fun bucket_allowed :: "int \<Rightarrow> rat \<Rightarrow> int list \<Rightarrow> bucket option \<Rightarrow> nat" where
  "bucket_allowed capacity refillRate [] found = 0"
| "bucket_allowed capacity refillRate (now # ts) found =
     (let (b, ok) = bucket_Allow now capacity refillRate found
      in (if ok then 1 else 0) + bucket_allowed capacity refillRate ts (Some b))"

lemma bucket_allowed_bound:
  assumes "sorted (bk_lastRefill b # ts @ [t])" and "bk_capacity b = of_int capacity" and "bk_refillRate b = rate" and "0 \<le> rate"
    and "0 \<le> bk_tokens b" and "0 \<le> capacity"
  shows "of_nat (bucket_allowed capacity rate ts (Some b)) \<le> bk_tokens b + seconds (t - bk_lastRefill b) * rate"
  using assms
proof (induction ts arbitrary: b)
  case Nil
  then show ?case by (simp add: seconds_def)
next
  case (Cons now ts)
  let ?b = "bucket_refill now (b\<lparr>bk_lastAccess := now\<rparr>)"
  let ?b' = "if 1 \<le> bk_tokens ?b then ?b\<lparr>bk_tokens := bk_tokens ?b - 1\<rparr> else ?b"
  have le: "bk_lastRefill b \<le> now" and srt: "sorted (now # ts @ [t])" using Cons.prems(1) by auto
  have cap: "bk_capacity ?b = of_int capacity" "bk_refillRate ?b = rate" "bk_lastRefill ?b \<le> now"
    using Cons.prems(2,3) le by (simp_all add: bucket_refill_def)
  have pot: "bk_tokens ?b + seconds (t - bk_lastRefill ?b) * rate \<le> bk_tokens b + seconds (t - bk_lastRefill b) * rate"
    using Cons.prems(3) by (auto simp: bucket_refill_def seconds_def field_simps min_def)
  have pos: "0 \<le> bk_tokens ?b"
    using Cons.prems(2-6) le by (auto simp: bucket_refill_def seconds_def)
  have "sorted (bk_lastRefill ?b' # ts @ [t])" using srt cap(3) by auto
  then have "of_nat (bucket_allowed capacity rate ts (Some ?b')) \<le> bk_tokens ?b' + seconds (t - bk_lastRefill ?b') * rate"
    using Cons.IH [of ?b'] cap Cons.prems(4,6) pos by simp
  then show ?case
    using pot Cons.prems(2,3) by (auto simp: bucket_Allow_def bucket_adapt_def Let_def)
qed

text \<open>C33: a bucket lets through what it holds and what flows in: for requests of one key, at most the capacity and, for each
  second since the first of them, the rate of refill.\<close>

theorem bucket_bound:
  assumes "sorted (t0 # ts @ [t])" and "0 \<le> capacity" and "0 \<le> rate"
  shows "of_nat (bucket_allowed capacity rate (t0 # ts) None) \<le> of_int capacity + seconds (t - t0) * rate"
proof -
  let ?b = "new_bucket t0 capacity rate"
  have "of_nat (bucket_allowed capacity rate (t0 # ts) (Some ?b)) \<le> bk_tokens ?b + seconds (t - bk_lastRefill ?b) * rate"
    using assms by (intro bucket_allowed_bound) (auto simp: new_bucket_def)
  then show ?thesis by (simp add: bucket_Allow_def new_bucket_def)
qed

theorem bucket_bound_witness:
  "of_nat (bucket_allowed 2 1 [0, 1, 2, 2000000000] None) \<le> (2 :: rat) + seconds (2000000000 - 0) * 1"
  using bucket_bound [of 0 "[1, 2, 2000000000]" 2000000000 2 1] by simp

end
