(* ===== verification/Rate_Limit.thy ===== *)
theory Rate_Limit
  imports Form_Input
begin

text \<open>
  The rate limit page (\<open>src/frontend/src/pages/security/RateLimiter.tsx\<close>): three limits that are switched and
  edited one at a time, and two lists of exclusions, extensions and path prefixes.  \<open>rateLimitData\<close>, what the query
  holds, is an argument.  The lists of exclusions are item lists like the tags of a form.
\<close>

section \<open>The page\<close>

datatype limit_type = Basic_Limit | Attack_Limit | Error_Limit

primrec limit_name :: "limit_type \<Rightarrow> string" where
  "limit_name Basic_Limit = ''basic''"
| "limit_name Attack_Limit = ''attack''"
| "limit_name Error_Limit = ''error''"

text \<open>\<open>type.charAt(0).toUpperCase() + type.slice(1)\<close>.\<close>

definition limit_title :: "limit_type \<Rightarrow> string" where
  "limit_title t = toUpperCase (take 1 (limit_name t)) @ drop 1 (limit_name t)"

primrec limit_of :: "rate_limit_response \<Rightarrow> limit_type \<Rightarrow> rate_limit_config" where
  "limit_of d Basic_Limit = rlr_basic d"
| "limit_of d Attack_Limit = rlr_attack d"
| "limit_of d Error_Limit = rlr_error d"

definition no_update :: rate_limit_update where
  "no_update = \<lparr>rlu_basic = None, rlu_attack = None, rlu_error = None, rlu_exclude = None\<rparr>"

text \<open>\<open>{ [type]: c }\<close>.\<close>

primrec limit_update :: "limit_type \<Rightarrow> rate_limit_config \<Rightarrow> rate_limit_update" where
  "limit_update Basic_Limit c = no_update\<lparr>rlu_basic := Some c\<rparr>"
| "limit_update Attack_Limit c = no_update\<lparr>rlu_attack := Some c\<rparr>"
| "limit_update Error_Limit c = no_update\<lparr>rlu_error := Some c\<rparr>"

record edit_values =
  ev_duration      :: int
  ev_count         :: int
  ev_action        :: string
  ev_challenge_sec :: int

record rate_limiter =
  rlm_editingType  :: "limit_type option"
  rlm_editValues   :: edit_values
  rlm_newExtension :: string
  rlm_newPath      :: string

definition rate_limiter_initial :: rate_limiter where
  "rate_limiter_initial = \<lparr>rlm_editingType = None,
     rlm_editValues = \<lparr>ev_duration = 0, ev_count = 0, ev_action = ''block'', ev_challenge_sec = 0\<rparr>,
     rlm_newExtension = [], rlm_newPath = []\<rparr>"

section \<open>Switching and editing a limit\<close>

definition rlm_handleToggle :: "server \<Rightarrow> rate_limit_response option \<Rightarrow> limit_type \<Rightarrow> ui_effect list" where
  "rlm_handleToggle server rateLimitData t =
     (case rateLimitData of
        None \<Rightarrow> []
      | Some d \<Rightarrow>
          (let currentConfig = limit_of d t
           in mutate_toast server
                (useUpdateRateLimit (rate_limit_update_json
                   (limit_update t (currentConfig\<lparr>rl_enabled := \<not> rl_enabled currentConfig\<rparr>))))
                (limit_title t @ '' limit '' @ enabled_word (\<not> rl_enabled currentConfig))
                ''Failed to update rate limit''))"

definition rlm_startEdit :: "rate_limit_response option \<Rightarrow> limit_type \<Rightarrow> rate_limiter \<Rightarrow> rate_limiter" where
  "rlm_startEdit rateLimitData t st =
     (case rateLimitData of
        None \<Rightarrow> st
      | Some d \<Rightarrow>
          (let c = limit_of d t
           in st\<lparr>rlm_editingType := Some t,
                 rlm_editValues := \<lparr>ev_duration = rl_duration c, ev_count = rl_count c,
                   ev_action = (if rl_action c = [] then ''block'' else rl_action c),
                   ev_challenge_sec = rl_challenge_sec c\<rparr>\<rparr>))"

definition rlm_cancelEdit :: "rate_limiter \<Rightarrow> rate_limiter" where
  "rlm_cancelEdit st = st\<lparr>rlm_editingType := None\<rparr>"

definition rlm_saveEdit ::
  "server \<Rightarrow> rate_limit_response option \<Rightarrow> limit_type \<Rightarrow> rate_limiter \<Rightarrow> rate_limiter \<times> ui_effect list" where
  "rlm_saveEdit server rateLimitData t st =
     (case rateLimitData of
        None \<Rightarrow> (st, [])
      | Some d \<Rightarrow>
          (let v = rlm_editValues st;
               mu = useUpdateRateLimit (rate_limit_update_json (limit_update t
                 \<lparr>rl_enabled = rl_enabled (limit_of d t), rl_duration = ev_duration v, rl_count = ev_count v,
                  rl_action = ev_action v, rl_challenge_sec = ev_challenge_sec v\<rparr>))
           in (case server (mu_call mu) of Inr _ \<Rightarrow> st\<lparr>rlm_editingType := None\<rparr> | Inl _ \<Rightarrow> st,
               mutate_toast server mu (limit_title t @ '' limit updated'') ''Failed to update rate limit'')))"

section \<open>Exclusions\<close>

definition extension_of :: "string \<Rightarrow> string" where
  "extension_of raw = (if startsWith (trim raw) ''.'' then trim raw else ''.'' @ trim raw)"

definition exclude_update :: "string list \<Rightarrow> string list \<Rightarrow> json" where
  "exclude_update exts paths =
     rate_limit_update_json (no_update\<lparr>rlu_exclude := Some \<lparr>fe_extensions = exts, fe_paths = paths\<rparr>\<rparr>)"

definition addExtension ::
  "server \<Rightarrow> rate_limit_response option \<Rightarrow> rate_limiter \<Rightarrow> rate_limiter \<times> ui_effect list" where
  "addExtension server rateLimitData st =
     (case rateLimitData of
        None \<Rightarrow> (st, [])
      | Some d \<Rightarrow>
          if trim (rlm_newExtension st) = [] then (st, [])
          else
            (let ext = extension_of (rlm_newExtension st);
                 currentList = fe_extensions (rlr_exclude d)
             in if ext \<in> set currentList then (st, [Toast ''Extension already exists'' Toast_Error])
                else
                  (let mu = useUpdateRateLimit (exclude_update (currentList @ [ext]) (fe_paths (rlr_exclude d)))
                   in (case server (mu_call mu) of Inr _ \<Rightarrow> st\<lparr>rlm_newExtension := []\<rparr> | Inl _ \<Rightarrow> st,
                       mutate_toast server mu (''Added '' @ ext @ '' to exclude list'') ''Failed to add extension''))))"

definition removeExtension :: "server \<Rightarrow> rate_limit_response option \<Rightarrow> string \<Rightarrow> ui_effect list" where
  "removeExtension server rateLimitData ext =
     (case rateLimitData of
        None \<Rightarrow> []
      | Some d \<Rightarrow>
          mutate_toast server
            (useUpdateRateLimit (exclude_update (filter (\<lambda>e. e \<noteq> ext) (fe_extensions (rlr_exclude d)))
               (fe_paths (rlr_exclude d))))
            (''Removed '' @ ext @ '' from exclude list'') ''Failed to remove extension'')"

definition addPath ::
  "server \<Rightarrow> rate_limit_response option \<Rightarrow> rate_limiter \<Rightarrow> rate_limiter \<times> ui_effect list" where
  "addPath server rateLimitData st =
     (case rateLimitData of
        None \<Rightarrow> (st, [])
      | Some d \<Rightarrow>
          if trim (rlm_newPath st) = [] then (st, [])
          else
            (let p = trim (rlm_newPath st);
                 currentList = fe_paths (rlr_exclude d)
             in if p \<in> set currentList then (st, [Toast ''Path already exists'' Toast_Error])
                else
                  (let mu = useUpdateRateLimit (exclude_update (fe_extensions (rlr_exclude d)) (currentList @ [p]))
                   in (case server (mu_call mu) of Inr _ \<Rightarrow> st\<lparr>rlm_newPath := []\<rparr> | Inl _ \<Rightarrow> st,
                       mutate_toast server mu (''Added '' @ p @ '' to exclude list'') ''Failed to add path''))))"

definition removePath :: "server \<Rightarrow> rate_limit_response option \<Rightarrow> string \<Rightarrow> ui_effect list" where
  "removePath server rateLimitData p =
     (case rateLimitData of
        None \<Rightarrow> []
      | Some d \<Rightarrow>
          mutate_toast server
            (useUpdateRateLimit (exclude_update (fe_extensions (rlr_exclude d))
               (filter (\<lambda>q. q \<noteq> p) (fe_paths (rlr_exclude d)))))
            (''Removed '' @ p @ '' from exclude list'') ''Failed to remove path'')"

text \<open>The members of the response in order; the exclusions have no switch, so their \<open>enabled\<close> is undefined.\<close>

definition enabledCount :: "rate_limit_response option \<Rightarrow> nat" where
  "enabledCount rateLimitData =
     (case rateLimitData of
        None \<Rightarrow> 0
      | Some d \<Rightarrow> length (filter rl_enabled [rlr_basic d, rlr_attack d, rlr_error d]))"

section \<open>The exclusions as sets\<close>

text \<open>The lists the four operations send.\<close>

definition add_exclusion :: "(string \<Rightarrow> string) \<Rightarrow> string \<Rightarrow> string list \<Rightarrow> string list" where
  "add_exclusion f raw ex = (if trim raw = [] \<or> f raw \<in> set ex then ex else ex @ [f raw])"

definition remove_exclusion :: "string \<Rightarrow> string list \<Rightarrow> string list" where
  "remove_exclusion x ex = filter (\<lambda>e. e \<noteq> x) ex"

interpretation exclusions: item_list f "add_exclusion f" remove_exclusion for f
  by unfold_locales (auto simp: add_exclusion_def remove_exclusion_def)

lemma addExtension_sends:
  "mutations (snd (addExtension server (Some d) st)) =
     (let new = add_exclusion extension_of (rlm_newExtension st) (fe_extensions (rlr_exclude d))
      in if new = fe_extensions (rlr_exclude d) then []
         else [useUpdateRateLimit (exclude_update new (fe_paths (rlr_exclude d)))])"
  by (simp add: addExtension_def add_exclusion_def Let_def)

lemma addPath_sends:
  "mutations (snd (addPath server (Some d) st)) =
     (let new = add_exclusion trim (rlm_newPath st) (fe_paths (rlr_exclude d))
      in if new = fe_paths (rlr_exclude d) then []
         else [useUpdateRateLimit (exclude_update (fe_extensions (rlr_exclude d)) new)])"
  by (simp add: addPath_def add_exclusion_def Let_def)

lemma remove_sends:
  "mutations (removeExtension server (Some d) x) =
     [useUpdateRateLimit (exclude_update (remove_exclusion x (fe_extensions (rlr_exclude d))) (fe_paths (rlr_exclude d)))]"
  "mutations (removePath server (Some d) x) =
     [useUpdateRateLimit (exclude_update (fe_extensions (rlr_exclude d)) (remove_exclusion x (fe_paths (rlr_exclude d))))]"
  by (simp_all add: removeExtension_def removePath_def remove_exclusion_def)

lemma extension_dot: "startsWith (extension_of raw) ''.''"
  by (simp add: extension_of_def startsWith_def)



text \<open>Switching a limit sends that limit with everything but its switch as it was, and no other; a limit that is opened
  for editing and saved unchanged is sent back as it was, an empty action as \<open>block\<close>, and the editor closes exactly
  when the server accepts it.\<close>

theorem limit_edit_roundtrip:
  "mutations (rlm_handleToggle server (Some d) t) = [useUpdateRateLimit (rate_limit_update_json (limit_update t
     ((limit_of d t)\<lparr>rl_enabled := \<not> rl_enabled (limit_of d t)\<rparr>)))] \<and>
   (let c = limit_of d t;
        c' = c\<lparr>rl_action := (if rl_action c = [] then ''block'' else rl_action c)\<rparr>;
        mu = useUpdateRateLimit (rate_limit_update_json (limit_update t c'));
        r = rlm_saveEdit server (Some d) t (rlm_startEdit (Some d) t st)
    in mutations (snd r) = [mu] \<and>
       rlm_editingType (fst r) = (if isl (server (mu_call mu)) then Some t else None))"
  by (cases "limit_of d t")
    (auto simp: rlm_handleToggle_def rlm_saveEdit_def rlm_startEdit_def Let_def isl_def split: sum.splits)

end
