(* ===== verification/Limit_Server.thy ===== *)
theory Limit_Server
  imports Flood Server_Checks Rate_Limit
begin

text \<open>
  What the backend makes of the rate limit page: the handler that stores the limits
  (\<open>src/internal/api/v1/handler/rate_limit_handler.go\<close>, \<open>dto/rate_limit_dto.go\<close>, \<open>src/internal/model/settings.go\<close>), the
  two copies of them that requests are checked against (\<open>src/internal/service/rate_limit_service.go\<close> and the getter of
  \<open>src/main.go\<close>), and the two stages that check a request (\<open>src/internal/pipeline/handlers/flood_handler.go\<close>,
  \<open>rate_limit_handler.go\<close>).  The database is its row for the limits; one reading of the clock serves a whole request,
  and a rate limiter never holds so many keys that it drops one.
\<close>

section \<open>Reading a request\<close>

text \<open>What \<open>encoding/json\<close> makes of a member: missing or \<open>null\<close> leaves the zero value, any other type is an error; a number
  must be whole and fit in 64 bits.\<close>

definition int64_ok :: "int \<Rightarrow> bool" where
  "int64_ok n \<longleftrightarrow> - (2 ^ 63) \<le> n \<and> n < 2 ^ 63"

fun dec_bool :: "json option \<Rightarrow> bool option" where
  "dec_bool None = Some False"
| "dec_bool (Some JNull) = Some False"
| "dec_bool (Some (JBool b)) = Some b"
| "dec_bool _ = None"

fun dec_int :: "json option \<Rightarrow> int option" where
  "dec_int None = Some 0"
| "dec_int (Some JNull) = Some 0"
| "dec_int (Some (JNum n)) = (if int64_ok n then Some n else None)"
| "dec_int _ = None"

fun dec_str :: "json option \<Rightarrow> string option" where
  "dec_str None = Some []"
| "dec_str (Some JNull) = Some []"
| "dec_str (Some (JStr s)) = Some s"
| "dec_str _ = None"

fun dec_strs_in :: "json list \<Rightarrow> string list option" where
  "dec_strs_in [] = Some []"
| "dec_strs_in (j # js) =
     (case (dec_str (Some j), dec_strs_in js) of (Some s, Some ss) \<Rightarrow> Some (s # ss) | _ \<Rightarrow> None)"

fun dec_strs :: "json option \<Rightarrow> string list option" where
  "dec_strs None = Some []"
| "dec_strs (Some JNull) = Some []"
| "dec_strs (Some (JArr js)) = dec_strs_in js"
| "dec_strs _ = None"

fun dec_profile :: "json \<Rightarrow> rate_limit_config option" where
  "dec_profile (JObj ob) =
     (case (dec_bool (obj_get ob ''enabled''), dec_int (obj_get ob ''duration''), dec_int (obj_get ob ''count''),
            dec_str (obj_get ob ''action''), dec_int (obj_get ob ''challenge_sec'')) of
        (Some e, Some d, Some n, Some a, Some c) \<Rightarrow>
          Some \<lparr>rl_enabled = e, rl_duration = d, rl_count = n, rl_action = a, rl_challenge_sec = c\<rparr>
      | _ \<Rightarrow> None)"
| "dec_profile _ = None"

fun dec_exclude :: "json \<Rightarrow> flood_exclude option" where
  "dec_exclude (JObj ob) =
     (case (dec_strs (obj_get ob ''extensions''), dec_strs (obj_get ob ''paths'')) of
        (Some e, Some p) \<Rightarrow> Some \<lparr>fe_extensions = e, fe_paths = p\<rparr>
      | _ \<Rightarrow> None)"
| "dec_exclude _ = None"

text \<open>A pointer stays \<open>nil\<close> when its member is missing or \<open>null\<close>.\<close>

definition dec_pointer :: "(json \<Rightarrow> 'a option) \<Rightarrow> json option \<Rightarrow> 'a option option" where
  "dec_pointer dec j =
     (case j of
        None \<Rightarrow> Some None
      | Some j \<Rightarrow> if j = JNull then Some None else map_option Some (dec j))"

fun dec_rate_update :: "json \<Rightarrow> rate_limit_update option" where
  "dec_rate_update (JObj ob) =
     (case (dec_pointer dec_profile (obj_get ob ''basic''), dec_pointer dec_profile (obj_get ob ''attack''),
            dec_pointer dec_profile (obj_get ob ''error''), dec_pointer dec_exclude (obj_get ob ''exclude'')) of
        (Some b, Some a, Some e, Some x) \<Rightarrow> Some \<lparr>rlu_basic = b, rlu_attack = a, rlu_error = e, rlu_exclude = x\<rparr>
      | _ \<Rightarrow> None)"
| "dec_rate_update JNull = Some \<lparr>rlu_basic = None, rlu_attack = None, rlu_error = None, rlu_exclude = None\<rparr>"
| "dec_rate_update _ = None"

section \<open>The stored limits\<close>

record limit_profile =
  lp_Type         :: string
  lp_Enabled      :: bool
  lp_Duration     :: int
  lp_Count        :: int
  lp_Action       :: string
  lp_ChallengeSec :: int

record limit_store =
  ls_Basic   :: limit_profile
  ls_Attack  :: limit_profile
  ls_Error   :: limit_profile
  ls_Exclude :: flood_exclude

definition DefaultRateLimitConfig :: limit_store where
  "DefaultRateLimitConfig = \<lparr>
     ls_Basic = \<lparr>lp_Type = [], lp_Enabled = True, lp_Duration = 30, lp_Count = 50, lp_Action = ''block'', lp_ChallengeSec = 300\<rparr>,
     ls_Attack = \<lparr>lp_Type = [], lp_Enabled = True, lp_Duration = 60, lp_Count = 40, lp_Action = ''block'', lp_ChallengeSec = 300\<rparr>,
     ls_Error = \<lparr>lp_Type = [], lp_Enabled = False, lp_Duration = 60, lp_Count = 15, lp_Action = ''challenge'', lp_ChallengeSec = 300\<rparr>,
     ls_Exclude = \<lparr>fe_extensions = [], fe_paths = []\<rparr>\<rparr>"

text \<open>The row of the table: unreadable, missing, or stored.\<close>

datatype limit_row = Row_Fails | No_Row | Row limit_store

definition GetRateLimitConfig :: "limit_row \<Rightarrow> limit_store option" where
  "GetRateLimitConfig row =
     (case row of Row_Fails \<Rightarrow> None | No_Row \<Rightarrow> Some DefaultRateLimitConfig | Row c \<Rightarrow> Some c)"

definition convertProfileToDTO :: "limit_profile \<Rightarrow> rate_limit_config" where
  "convertProfileToDTO p = \<lparr>rl_enabled = lp_Enabled p, rl_duration = lp_Duration p, rl_count = lp_Count p,
     rl_action = lp_Action p, rl_challenge_sec = lp_ChallengeSec p\<rparr>"

definition convertProfileFromDTO :: "rate_limit_config \<Rightarrow> limit_profile" where
  "convertProfileFromDTO d = \<lparr>lp_Type = [], lp_Enabled = rl_enabled d, lp_Duration = rl_duration d,
     lp_Count = rl_count d, lp_Action = rl_action d, lp_ChallengeSec = rl_challenge_sec d\<rparr>"

definition limits_response :: "limit_store \<Rightarrow> rate_limit_response" where
  "limits_response c = \<lparr>rlr_basic = convertProfileToDTO (ls_Basic c), rlr_attack = convertProfileToDTO (ls_Attack c),
     rlr_error = convertProfileToDTO (ls_Error c), rlr_exclude = ls_Exclude c\<rparr>"

definition replace_limits :: "rate_limit_update \<Rightarrow> limit_store \<Rightarrow> limit_store" where
  "replace_limits req c = \<lparr>
     ls_Basic = (case rlu_basic req of Some p \<Rightarrow> convertProfileFromDTO p | None \<Rightarrow> ls_Basic c),
     ls_Attack = (case rlu_attack req of Some p \<Rightarrow> convertProfileFromDTO p | None \<Rightarrow> ls_Attack c),
     ls_Error = (case rlu_error req of Some p \<Rightarrow> convertProfileFromDTO p | None \<Rightarrow> ls_Error c),
     ls_Exclude = (case rlu_exclude req of Some x \<Rightarrow> x | None \<Rightarrow> ls_Exclude c)\<rparr>"

text \<open>\<open>saves\<close> says whether the database stores the row.\<close>

definition UpdateRateLimitConfig ::
  "bool \<Rightarrow> bool \<Rightarrow> json \<Rightarrow> limit_row \<Rightarrow> limit_row \<times> (refusal + rate_limit_response)" where
  "UpdateRateLimitConfig demo saves body row =
     (if demo then (row, Inl demo_refusal)
      else (case dec_rate_update body of
              None \<Rightarrow> (row, Inl (bad_request ''Invalid request body''))
            | Some req \<Rightarrow>
                (case GetRateLimitConfig row of
                   None \<Rightarrow> (row, Inl (500, ''Failed to load current config''))
                 | Some config \<Rightarrow>
                     (let config = replace_limits req config
                      in if saves then (Row config, Inr (limits_response config))
                         else (row, Inl (500, ''Failed to save rate limit config''))))))"

section \<open>The copies requests are checked against\<close>

record limit_service =
  sv_cfg     :: limit_store
  sv_limiter :: "bucket js_obj"

text \<open>Called after every update.\<close>

definition InvalidateCache :: "limit_service \<Rightarrow> limit_service" where
  "InvalidateCache s = \<lparr>sv_cfg = sv_cfg s, sv_limiter = []\<rparr>"

text \<open>What the ticker does every 30 seconds.\<close>

definition autoReload :: "limit_row \<Rightarrow> limit_service \<Rightarrow> limit_service" where
  "autoReload row s = (case GetRateLimitConfig row of None \<Rightarrow> s | Some cfg \<Rightarrow> \<lparr>sv_cfg = cfg, sv_limiter = []\<rparr>)"

text \<open>\<open>time.Duration(n) * time.Second\<close> is a product of 64 bits.\<close>

definition go_seconds :: "int \<Rightarrow> int" where
  "go_seconds n = sint (word_of_int n * 1000000000 :: 64 word)"

definition flood_config_of :: "limit_store \<Rightarrow> flood_config" where
  "flood_config_of c = \<lparr>
     fc_BasicLimit = lp_Count (ls_Basic c), fc_BasicWindow = go_seconds (lp_Duration (ls_Basic c)),
     fc_AttackLimit = lp_Count (ls_Attack c), fc_AttackWindow = go_seconds (lp_Duration (ls_Attack c)),
     fc_ErrorLimit = lp_Count (ls_Error c), fc_ErrorWindow = go_seconds (lp_Duration (ls_Error c))\<rparr>"

text \<open>The getter keeps a configuration for ten seconds, with the time it was read.\<close>

definition config_getter :: "int \<Rightarrow> limit_row \<Rightarrow> flood_config \<times> int \<Rightarrow> flood_config \<times> int" where
  "config_getter now row cached =
     (if now - snd cached < 10 * 1000000000 then cached
      else (case GetRateLimitConfig row of None \<Rightarrow> cached | Some cfg \<Rightarrow> (flood_config_of cfg, now)))"

section \<open>Checking a request\<close>

record limited_request =
  rq_HardDecision    :: bool
  rq_skip_flood      :: bool
  rq_skip_rate_limit :: bool
  rq_IPRuleTerminal  :: bool
  rq_ChallengePassed :: bool
  rq_ClientIP        :: string
  rq_Path            :: string
  rq_key             :: string

datatype stage_result = Stage_Skip | Stage_Pass | Stage_Stop string string

definition isExcluded :: "string \<Rightarrow> limit_store \<Rightarrow> bool" where
  "isExcluded path cfg \<longleftrightarrow>
     list_ex (\<lambda>ext. suffix ext path) (fe_extensions (ls_Exclude cfg)) \<or>
     list_ex (\<lambda>p. prefix p path) (fe_paths (ls_Exclude cfg))"

definition penalty_of :: "limit_profile \<Rightarrow> int \<Rightarrow> int" where
  "penalty_of p default_penalty = (if go_seconds (lp_ChallengeSec p) \<le> 0 then default_penalty else go_seconds (lp_ChallengeSec p))"

definition action_of :: "limit_profile \<Rightarrow> string \<Rightarrow> string" where
  "action_of p default_action = (if lp_Action p = [] then default_action else lp_Action p)"

text \<open>The limits of \<open>fc\<close> come from the getter, the switches, actions and penalties of \<open>cfg\<close> from the service.\<close>

definition flood_Handle ::
  "flood_config \<Rightarrow> limit_store \<Rightarrow> int \<Rightarrow> limited_request \<Rightarrow> flood \<Rightarrow> flood \<times> stage_result" where
  "flood_Handle fc cfg now rq f =
     (let ip = rq_ClientIP rq
      in if rq_HardDecision rq \<or> rq_skip_flood rq \<or> rq_IPRuleTerminal rq \<or> rq_ChallengePassed rq then (f, Stage_Skip)
         else if isExcluded (rq_Path rq) cfg then (f, Stage_Skip)
         else
           (let (f, challenged) = IsChallenged now ip f
            in if challenged then (f, Stage_Stop ''challenge'' ''flood_penalty_active'')
               else
                 (let (f, below) = (if lp_Enabled (ls_Attack cfg) then CheckAttackLimit fc now ip f else (f, True))
                  in if \<not> below
                     then (SetChallenge now ip (penalty_of (ls_Attack cfg) (300 * 1000000000)) f,
                           Stage_Stop (action_of (ls_Attack cfg) ''block'') ''attack_flood_exceeded'')
                     else
                       (let (f, below) = (if lp_Enabled (ls_Error cfg) then CheckErrorLimit fc now ip f else (f, True))
                        in if \<not> below
                           then (SetChallenge now ip (penalty_of (ls_Error cfg) (300 * 1000000000)) f,
                                 Stage_Stop (action_of (ls_Error cfg) ''challenge'') ''error_flood_exceeded'')
                           else
                             (let (f, below) = (if lp_Enabled (ls_Basic cfg) then CheckBasicAccess fc now ip f else (f, True))
                              in if \<not> below
                                 then (SetChallenge now ip (penalty_of (ls_Basic cfg) (600 * 1000000000)) f,
                                       Stage_Stop (action_of (ls_Basic cfg) ''challenge'') ''basic_access_limit'')
                                 else (f, Stage_Pass))))))"

definition service_Allow :: "int \<Rightarrow> string \<Rightarrow> limit_service \<Rightarrow> limit_service \<times> bool \<times> string" where
  "service_Allow now key s =
     (let basic = ls_Basic (sv_cfg s)
      in if \<not> lp_Enabled basic \<or> lp_Count basic \<le> 0 \<or> lp_Duration basic \<le> 0 then (s, True, [])
         else
           (let refillRate = of_int (lp_Count basic) / of_int (max (lp_Duration basic) 1);
                (b, allowed) = bucket_Allow now (lp_Count basic) refillRate (obj_get (sv_limiter s) key)
            in (s\<lparr>sv_limiter := obj_set (sv_limiter s) key b\<rparr>, allowed, lp_Action basic)))"

definition rate_limit_Handle :: "int \<Rightarrow> limited_request \<Rightarrow> limit_service \<Rightarrow> limit_service \<times> stage_result" where
  "rate_limit_Handle now rq s =
     (if rq_HardDecision rq \<or> rq_skip_rate_limit rq \<or> rq_IPRuleTerminal rq \<or> rq_ChallengePassed rq then (s, Stage_Skip)
      else
        (let (s, allowed, action) = service_Allow now (rq_key rq) s
         in if allowed then (s, Stage_Pass)
            else (s, Stage_Stop (if action = [] then ''block'' else action) ''rate_limit_exceeded'')))"

end
