(* ===== verification/Rate_Dialogs.thy ===== *)
theory Rate_Dialogs
  imports Limit_Server
begin

text \<open>
  What the rate limit page shows and what each of its controls does
  (\<open>src/frontend/src/pages/security/RateLimiter.tsx\<close>, the markup of the component), the page together with the
  handler of the server that stores its limits, and what the limits it stores do to requests.
\<close>

section \<open>The cards\<close>

text \<open>Profiles, active ones, status and default action.\<close>

definition totalLimits :: nat where
  "totalLimits = 3"

definition limit_cards :: "rate_limit_response option \<Rightarrow> string list" where
  "limit_cards rateLimitData =
     [nat_to_string totalLimits,
      nat_to_string (enabledCount rateLimitData),
      if enabledCount rateLimitData > 0 then ''PROTECTED'' else ''INACTIVE'',
      case rateLimitData of
        None \<Rightarrow> ''Block''
      | Some d \<Rightarrow> if rl_action (rlr_basic d) = [] then ''Block'' else rl_action (rlr_basic d)]"

section \<open>The limits\<close>

primrec limit_note :: "limit_type \<Rightarrow> string" where
  "limit_note Basic_Limit = ''Raw request flood per IP (all requests counted)''"
| "limit_note Attack_Limit = ''WAF violation repeat offender detection per IP''"
| "limit_note Error_Limit = ''Upstream error (4xx/5xx) repeat detection per IP''"

text \<open>The badge of the action, and whether it has the colour of blocking.\<close>

definition shown_action :: "rate_limit_config \<Rightarrow> string" where
  "shown_action config = toUpperCase (if rl_action config = [] then ''block'' else rl_action config)"

definition block_colored :: "rate_limit_config \<Rightarrow> bool" where
  "block_colored config \<longleftrightarrow> rl_action config = ''block''"

definition limit_actions :: "(string \<times> string) list" where
  "limit_actions = [(''block'', ''Block''), (''challenge'', ''Challenge'')]"

definition action_offered :: "string \<Rightarrow> bool" where
  "action_offered a \<longleftrightarrow> a \<in> fst ` set limit_actions"

datatype limit_cells = Limit_Shown "(string \<times> string) list" | Limit_Edited "input_view list"

record limit_view =
  lv_title  :: string
  lv_note   :: string
  lv_cells  :: limit_cells
  lv_action :: "string + input_value"
  lv_events :: "string option"
  lv_switch :: bool

definition limit_action_cell :: "rate_limiter \<Rightarrow> limit_type \<Rightarrow> rate_limit_config \<Rightarrow> string + input_value" where
  "limit_action_cell st t config =
     (if rlm_editingType st = Some t then Inr (Choice_In (ev_action (rlm_editValues st)) limit_actions)
      else Inl (shown_action config))"

text \<open>The statistics by profile; \<open>locale_number\<close> is the browser's \<open>toLocaleString\<close>.\<close>

definition limit_events :: "(int \<Rightarrow> string) \<Rightarrow> int js_obj \<Rightarrow> limit_type \<Rightarrow> string" where
  "limit_events locale_number stats t =
     locale_number (case obj_get stats (limit_name t) of None \<Rightarrow> 0 | Some n \<Rightarrow> n)"

text \<open>A row of the table.\<close>

definition limit_row_view ::
  "(int \<Rightarrow> string) \<Rightarrow> int js_obj option \<Rightarrow> rate_limit_response \<Rightarrow> rate_limiter \<Rightarrow> limit_type \<Rightarrow> limit_view" where
  "limit_row_view locale_number statsData d st t =
     (let config = limit_of d t; v = rlm_editValues st
      in \<lparr>lv_title = limit_name t @ '' Access Limit'',
          lv_note = limit_note t,
          lv_cells =
            (if rlm_editingType st = Some t
             then Limit_Edited [
               input_of ''DURATION (S)'' (Number_In (ev_duration v)) [],
               input_of ''MAX REQS'' (Number_In (ev_count v)) [],
               input_of ''CHALLENGE (S)'' (Number_In (ev_challenge_sec v)) []]
             else Limit_Shown [
               (''WINDOW'', int_to_string (rl_duration config) @ ''s''),
               (''THRESHOLD'', int_to_string (rl_count config) @ '' Reqs''),
               (''PENALTY'', int_to_string (rl_challenge_sec config) @ ''s'')]),
          lv_action = limit_action_cell st t config,
          lv_events = Some (case statsData of None \<Rightarrow> ''0'' | Some stats \<Rightarrow> limit_events locale_number stats t),
          lv_switch = rl_enabled config\<rparr>)"

text \<open>The card of a limit on a narrow screen; without statistics it shows a dash.\<close>

definition limit_card_view ::
  "(int \<Rightarrow> string) \<Rightarrow> int js_obj option \<Rightarrow> rate_limit_response \<Rightarrow> rate_limiter \<Rightarrow> limit_type \<Rightarrow> limit_view" where
  "limit_card_view locale_number statsData d st t =
     (let config = limit_of d t; v = rlm_editValues st
      in \<lparr>lv_title = limit_name t @ '' Access Limit'',
          lv_note = limit_note t,
          lv_cells =
            (if rlm_editingType st = Some t
             then Limit_Edited [
               input_of ''DURATION (S)'' (Number_In (ev_duration v)) [],
               input_of ''MAX REQS'' (Number_In (ev_count v)) [],
               input_of ''PENALTY (S)'' (Number_In (ev_challenge_sec v)) []]
             else Limit_Shown [
               (''Window'', int_to_string (rl_duration config) @ ''s''),
               (''Threshold'', int_to_string (rl_count config)),
               (''Penalty'', int_to_string (rl_challenge_sec config) @ ''s'')]),
          lv_action = limit_action_cell st t config,
          lv_events = (case statsData of None \<Rightarrow> None | Some stats \<Rightarrow> Some (limit_events locale_number stats t)),
          lv_switch = rl_enabled config\<rparr>)"

definition limit_types :: "limit_type list" where
  "limit_types = [Basic_Limit, Attack_Limit, Error_Limit]"

text \<open>The table and the cards, or the text in their place.\<close>

definition limit_table ::
  "(int \<Rightarrow> string) \<Rightarrow> int js_obj option \<Rightarrow> rate_limit_response option \<Rightarrow> rate_limiter \<Rightarrow>
   string + limit_view list \<times> limit_view list" where
  "limit_table locale_number statsData rateLimitData st =
     (case rateLimitData of
        None \<Rightarrow> Inl ''Failed to load configuration''
      | Some d \<Rightarrow> Inr (map (limit_row_view locale_number statsData d st) limit_types,
                       map (limit_card_view locale_number statsData d st) limit_types))"

section \<open>The exclusions\<close>

text \<open>The entries shown, or the text in their place.\<close>

definition excluded_items :: "(flood_exclude \<Rightarrow> string list) \<Rightarrow> string \<Rightarrow> rate_limit_response option \<Rightarrow> string + string list" where
  "excluded_items items none_text rateLimitData =
     (case rateLimitData of
        None \<Rightarrow> Inl none_text
      | Some d \<Rightarrow> if items (rlr_exclude d) = [] then Inl none_text else Inr (items (rlr_exclude d)))"

definition excluded_extensions :: "rate_limit_response option \<Rightarrow> string + string list" where
  "excluded_extensions = excluded_items fe_extensions ''No extensions excluded''"

definition excluded_paths :: "rate_limit_response option \<Rightarrow> string + string list" where
  "excluded_paths = excluded_items fe_paths ''No paths excluded''"

section \<open>The page as a machine\<close>

datatype limit_field = Field_Duration | Field_Count | Field_Penalty

datatype rate_event =
    Toggle_Limit limit_type | Edit_Limit limit_type | Save_Limit limit_type | Cancel_Limit
  | Type_Limit limit_field string | Choose_Limit_Action string
  | Type_Extension string | Enter_Extension | Drop_Extension string
  | Type_Path string | Enter_Path | Drop_Path string

fun type_limit :: "limit_field \<Rightarrow> string \<Rightarrow> edit_values \<Rightarrow> edit_values" where
  "type_limit Field_Duration s v = v\<lparr>ev_duration := parseInt_or 0 s\<rparr>"
| "type_limit Field_Count s v = v\<lparr>ev_count := parseInt_or 0 s\<rparr>"
| "type_limit Field_Penalty s v = v\<lparr>ev_challenge_sec := parseInt_or 0 s\<rparr>"

text \<open>The fields and buttons of the editor are there while the limits are shown and one of them is edited; the entries of
  the exclusions carry their own buttons.\<close>

definition editor_shown :: "rate_limit_response option \<Rightarrow> rate_limiter \<Rightarrow> bool" where
  "editor_shown rateLimitData st \<longleftrightarrow> rateLimitData \<noteq> None \<and> rlm_editingType st \<noteq> None"

definition drop_shown :: "string + string list \<Rightarrow> string \<Rightarrow> bool" where
  "drop_shown items x = (case items of Inl _ \<Rightarrow> False | Inr xs \<Rightarrow> x \<in> set xs)"

fun rate_act ::
  "server \<Rightarrow> rate_limit_response option \<Rightarrow> rate_limiter \<Rightarrow> rate_event \<Rightarrow> (rate_limiter \<times> ui_effect list) option" where
  "rate_act server d st (Toggle_Limit t) = (if d = None then None else Some (st, rlm_handleToggle server d t))"
| "rate_act server d st (Edit_Limit t) =
     (if d = None \<or> rlm_editingType st = Some t then None else Some (rlm_startEdit d t st, []))"
| "rate_act server d st (Save_Limit t) =
     (if d = None \<or> rlm_editingType st \<noteq> Some t then None else Some (rlm_saveEdit server d t st))"
| "rate_act server d st Cancel_Limit = (if editor_shown d st then Some (rlm_cancelEdit st, []) else None)"
| "rate_act server d st (Type_Limit f s) =
     (if editor_shown d st then Some (st\<lparr>rlm_editValues := type_limit f s (rlm_editValues st)\<rparr>, []) else None)"
| "rate_act server d st (Choose_Limit_Action a) =
     (if editor_shown d st \<and> action_offered a
      then Some (st\<lparr>rlm_editValues := (rlm_editValues st)\<lparr>ev_action := a\<rparr>\<rparr>, []) else None)"
| "rate_act server d st (Type_Extension s) = Some (st\<lparr>rlm_newExtension := s\<rparr>, [])"
| "rate_act server d st Enter_Extension = Some (addExtension server d st)"
| "rate_act server d st (Drop_Extension x) =
     (if drop_shown (excluded_extensions d) x then Some (st, removeExtension server d x) else None)"
| "rate_act server d st (Type_Path s) = Some (st\<lparr>rlm_newPath := s\<rparr>, [])"
| "rate_act server d st Enter_Path = Some (addPath server d st)"
| "rate_act server d st (Drop_Path x) =
     (if drop_shown (excluded_paths d) x then Some (st, removePath server d x) else None)"

section \<open>The page and the server\<close>

definition refusal_error :: "refusal \<Rightarrow> api_error" where
  "refusal_error r = \<lparr>err_message = snd r, err_statusCode = fst r, err_response = JNull\<rparr>"

text \<open>The server as the page sees it: only the outcome of an update matters to it.\<close>

definition limit_server :: "bool \<Rightarrow> bool \<Rightarrow> limit_row \<Rightarrow> server" where
  "limit_server demo saves row call =
     (case ri_body (snd call) of
        None \<Rightarrow> Inr JNull
      | Some body \<Rightarrow> (case snd (UpdateRateLimitConfig demo saves body row) of
            Inl r \<Rightarrow> Inl (refusal_error r)
          | Inr _ \<Rightarrow> Inr JNull))"

definition stored_after :: "bool \<Rightarrow> bool \<Rightarrow> mutation_options list \<Rightarrow> limit_row \<Rightarrow> limit_row" where
  "stored_after demo saves mus row =
     foldl (\<lambda>row mu. case sent_body mu of None \<Rightarrow> row | Some body \<Rightarrow> fst (UpdateRateLimitConfig demo saves body row)) row mus"

text \<open>A control of the page, with the request it sends handled at once; or an answer of the query.\<close>

inductive limit_step ::
  "bool \<Rightarrow> rate_limiter \<times> rate_limit_response option \<times> limit_row \<Rightarrow> rate_limiter \<times> rate_limit_response option \<times> limit_row \<Rightarrow> bool"
  for demo where
  limit_control: "rate_act (limit_server demo saves row) d st ev = Some (st', es) \<Longrightarrow>
    limit_step demo (st, d, row) (st', d, stored_after demo saves (mutations es) row)"
| limit_answer: "GetRateLimitConfig row = Some c \<Longrightarrow> limit_step demo (st, d, row) (st, Some (limits_response c), row)"

section \<open>Requests\<close>

definition fits :: "rate_limit_config \<Rightarrow> bool" where
  "fits c \<longleftrightarrow> int64_ok (rl_duration c) \<and> int64_ok (rl_count c) \<and> int64_ok (rl_challenge_sec c)"

definition fits_opt :: "rate_limit_config option \<Rightarrow> bool" where
  "fits_opt c = (case c of None \<Rightarrow> True | Some c \<Rightarrow> fits c)"

lemma dec_strs_in_map: "dec_strs_in (map JStr ss) = Some ss"
  by (induction ss) simp_all

lemma dec_profile_json: "dec_profile (rate_limit_config_json c) = (if fits c then Some c else None)"
  by (cases c) (simp add: rate_limit_config_json_def fits_def field_def)

lemma dec_exclude_json: "dec_exclude (flood_exclude_json x) = Some x"
  by (cases x) (simp add: flood_exclude_json_def dec_strs_in_map field_def)

lemma json_not_null: "rate_limit_config_json c \<noteq> JNull" "flood_exclude_json x \<noteq> JNull"
  by (simp_all add: rate_limit_config_json_def flood_exclude_json_def)

text \<open>What the page sends is what the server reads, as long as every number fits in 64 bits; otherwise the request is
  refused as a whole.\<close>

lemma dec_limit_update_json:
  "dec_rate_update (rate_limit_update_json u) =
     (if fits_opt (rlu_basic u) \<and> fits_opt (rlu_attack u) \<and> fits_opt (rlu_error u) then Some u else None)"
  by (cases u; cases "rlu_basic u"; cases "rlu_attack u"; cases "rlu_error u"; cases "rlu_exclude u")
    (simp_all add: rate_limit_update_json_def opt_field_def dec_pointer_def fits_opt_def json_not_null dec_profile_json
      dec_exclude_json)

lemma sent_update [simp]: "sent_body (useUpdateRateLimit j) = Some j" "ri_body (snd (mu_call (useUpdateRateLimit j))) = Some j"
  by (simp_all add: useUpdateRateLimit_def rateLimit_update_def api_send_def)

lemma update_stored:
  "fst (UpdateRateLimitConfig demo saves (rate_limit_update_json u) row) =
     (if demo \<or> \<not> saves \<or> \<not> (fits_opt (rlu_basic u) \<and> fits_opt (rlu_attack u) \<and> fits_opt (rlu_error u)) then row
      else (case GetRateLimitConfig row of None \<Rightarrow> row | Some c \<Rightarrow> Row (replace_limits u c)))"
  by (auto simp: UpdateRateLimitConfig_def dec_limit_update_json Let_def split: option.splits)

lemma limits_of_replaced:
  "limit_of (limits_response (replace_limits (limit_update t c) s)) = (limit_of (limits_response s))(t := c)"
  "rlr_exclude (limits_response (replace_limits (limit_update t c) s)) = rlr_exclude (limits_response s)"
proof -
  have dto: "convertProfileToDTO (convertProfileFromDTO c) = c" for c
    by (cases c) (simp add: convertProfileToDTO_def convertProfileFromDTO_def)
  show "limit_of (limits_response (replace_limits (limit_update t c) s)) = (limit_of (limits_response s))(t := c)"
  proof
    fix t' show "limit_of (limits_response (replace_limits (limit_update t c) s)) t' = ((limit_of (limits_response s))(t := c)) t'"
      by (cases t; cases t') (simp_all add: replace_limits_def limits_response_def no_update_def dto)
  qed
  show "rlr_exclude (limits_response (replace_limits (limit_update t c) s)) = rlr_exclude (limits_response s)"
    by (cases t) (simp_all add: replace_limits_def limits_response_def no_update_def)
qed

lemma limit_update_fits:
  "fits_opt (rlu_basic (limit_update t c)) \<and> fits_opt (rlu_attack (limit_update t c)) \<and> fits_opt (rlu_error (limit_update t c)) \<longleftrightarrow> fits c"
  by (cases t) (simp_all add: no_update_def fits_opt_def)

text \<open>The limit the editor sends.\<close>

definition typed_limit :: "rate_limit_response \<Rightarrow> limit_type \<Rightarrow> rate_limiter \<Rightarrow> rate_limit_config" where
  "typed_limit d t st = \<lparr>rl_enabled = rl_enabled (limit_of d t), rl_duration = ev_duration (rlm_editValues st),
     rl_count = ev_count (rlm_editValues st), rl_action = ev_action (rlm_editValues st),
     rl_challenge_sec = ev_challenge_sec (rlm_editValues st)\<rparr>"

lemma save_sends: "mutations (snd (rlm_saveEdit server (Some d) t st)) =
    [useUpdateRateLimit (rate_limit_update_json (limit_update t (typed_limit d t st)))]"
  by (simp add: rlm_saveEdit_def typed_limit_def Let_def)

lemma save_accepted: "isl (snd (UpdateRateLimitConfig False True (rate_limit_update_json u) (Row s))) \<longleftrightarrow>
    \<not> (fits_opt (rlu_basic u) \<and> fits_opt (rlu_attack u) \<and> fits_opt (rlu_error u))"
  by (simp add: UpdateRateLimitConfig_def dec_limit_update_json GetRateLimitConfig_def Let_def)

text \<open>C29: saving a limit is an update of one entry.  As a function from the three limits to their values, what the server
  stores afterwards is what it stored before with the limit edited replaced by what was typed, the exclusions stay, and
  the editor closes; when a number does not fit in 64 bits nothing changes and the editor stays open.\<close>

theorem limit_save_refines:
  "(let r = rlm_saveEdit (limit_server False True (Row s)) (Some d) t st;
        row = stored_after False True (mutations (snd r)) (Row s);
        ok = fits (typed_limit d t st)
    in row = Row (if ok then replace_limits (limit_update t (typed_limit d t st)) s else s) \<and>
       limit_of (limits_response (replace_limits (limit_update t (typed_limit d t st)) s)) =
         (limit_of (limits_response s))(t := typed_limit d t st) \<and>
       ls_Exclude (replace_limits (limit_update t (typed_limit d t st)) s) = ls_Exclude s \<and>
       rlm_editingType (fst r) = (if ok then None else rlm_editingType st))"
proof -
  have row: "stored_after False True (mutations (snd (rlm_saveEdit (limit_server False True (Row s)) (Some d) t st))) (Row s) =
      Row (if fits (typed_limit d t st) then replace_limits (limit_update t (typed_limit d t st)) s else s)"
    by (simp add: stored_after_def save_sends update_stored limit_update_fits GetRateLimitConfig_def)
  have "isl (limit_server False True (Row s) (mu_call (useUpdateRateLimit (rate_limit_update_json (limit_update t (typed_limit d t st)))))) \<longleftrightarrow>
      \<not> fits (typed_limit d t st)"
    using save_accepted [of "limit_update t (typed_limit d t st)" s]
    by (auto simp: limit_server_def limit_update_fits isl_def split: sum.splits)
  then have "rlm_editingType (fst (rlm_saveEdit (limit_server False True (Row s)) (Some d) t st)) =
      (if fits (typed_limit d t st) then None else rlm_editingType st)"
    by (auto simp: rlm_saveEdit_def typed_limit_def Let_def isl_def split: sum.splits)
  then show ?thesis using row limits_of_replaced [of t "typed_limit d t st" s] by (simp add: Let_def limits_response_def)
qed

section \<open>What the page keeps\<close>

definition limit_action_ok :: "string \<Rightarrow> bool" where
  "limit_action_ok a \<longleftrightarrow> a = [] \<or> action_offered a"

definition exclude_ok :: "flood_exclude \<Rightarrow> bool" where
  "exclude_ok x \<longleftrightarrow> distinct (fe_extensions x) \<and> list_all (\<lambda>e. startsWith e ''.'') (fe_extensions x) \<and>
     distinct (fe_paths x) \<and> [] \<notin> set (fe_paths x)"

definition limits_ok :: "rate_limit_response \<Rightarrow> bool" where
  "limits_ok d \<longleftrightarrow> limit_action_ok (rl_action (rlr_basic d)) \<and> limit_action_ok (rl_action (rlr_attack d)) \<and>
     limit_action_ok (rl_action (rlr_error d)) \<and> exclude_ok (rlr_exclude d)"

definition row_ok :: "limit_row \<Rightarrow> bool" where
  "row_ok row = (case GetRateLimitConfig row of None \<Rightarrow> True | Some c \<Rightarrow> limits_ok (limits_response c))"

definition data_ok :: "rate_limit_response option \<Rightarrow> bool" where
  "data_ok d = (case d of None \<Rightarrow> True | Some d \<Rightarrow> limits_ok d)"

definition limit_update_ok :: "rate_limit_update \<Rightarrow> bool" where
  "limit_update_ok u \<longleftrightarrow> (case rlu_basic u of None \<Rightarrow> True | Some c \<Rightarrow> limit_action_ok (rl_action c)) \<and>
     (case rlu_attack u of None \<Rightarrow> True | Some c \<Rightarrow> limit_action_ok (rl_action c)) \<and>
     (case rlu_error u of None \<Rightarrow> True | Some c \<Rightarrow> limit_action_ok (rl_action c)) \<and>
     (case rlu_exclude u of None \<Rightarrow> True | Some x \<Rightarrow> exclude_ok x)"

lemma offered_block [simp]: "action_offered ''block''" "action_offered ''challenge''"
  by (simp_all add: action_offered_def limit_actions_def)

lemma limits_ok_of: "limits_ok d \<Longrightarrow> limit_action_ok (rl_action (limit_of d t))"
  by (cases t) (simp_all add: limits_ok_def)

lemma limit_update_ok_of: "limit_action_ok (rl_action c) \<Longrightarrow> limit_update_ok (limit_update t c)"
  by (cases t) (simp_all add: limit_update_ok_def no_update_def)

lemma replace_limits_ok:
  "limits_ok (limits_response c) \<Longrightarrow> limit_update_ok u \<Longrightarrow> limits_ok (limits_response (replace_limits u c))"
  by (auto simp: limits_ok_def limit_update_ok_def limits_response_def replace_limits_def convertProfileToDTO_def
      convertProfileFromDTO_def split: option.splits)

definition sends_ok :: "mutation_options list \<Rightarrow> bool" where
  "sends_ok mus \<longleftrightarrow> list_all (\<lambda>mu. \<exists>u. mu = useUpdateRateLimit (rate_limit_update_json u) \<and> limit_update_ok u) mus"

lemma stored_ok: "row_ok row \<Longrightarrow> sends_ok mus \<Longrightarrow> row_ok (stored_after demo saves mus row)"
proof (induction mus arbitrary: row)
  case (Cons mu mus)
  then obtain u where u: "mu = useUpdateRateLimit (rate_limit_update_json u)" "limit_update_ok u"
    by (auto simp: sends_ok_def)
  have "row_ok (fst (UpdateRateLimitConfig demo saves (rate_limit_update_json u) row))"
    using Cons.prems(1) u(2) by (auto simp: update_stored row_ok_def GetRateLimitConfig_def replace_limits_ok split: option.splits limit_row.splits)
  then show ?case using Cons by (auto simp: stored_after_def u sends_ok_def)
qed (simp add: stored_after_def)

lemma exclude_sends_ok: "exclude_ok \<lparr>fe_extensions = e, fe_paths = p\<rparr> \<Longrightarrow> sends_ok [useUpdateRateLimit (exclude_update e p)]"
  by (auto simp: sends_ok_def exclude_update_def limit_update_ok_def no_update_def)

lemma addExtension_ok: "limits_ok d \<Longrightarrow> sends_ok (mutations (snd (addExtension server (Some d) st)))"
  using extension_dot [of "rlm_newExtension st"]
  by (auto simp: addExtension_def Let_def limits_ok_def exclude_ok_def list_all_iff sends_ok_def [of "[]"] intro!: exclude_sends_ok)

lemma addPath_ok: "limits_ok d \<Longrightarrow> sends_ok (mutations (snd (addPath server (Some d) st)))"
  by (auto simp: addPath_def Let_def limits_ok_def exclude_ok_def sends_ok_def [of "[]"] intro!: exclude_sends_ok)

lemma remove_ok:
  "limits_ok d \<Longrightarrow> sends_ok (mutations (removeExtension server (Some d) x))"
  "limits_ok d \<Longrightarrow> sends_ok (mutations (removePath server (Some d) x))"
  by (auto simp: remove_sends remove_exclusion_def limits_ok_def exclude_ok_def list_all_iff intro!: exclude_sends_ok)

lemma limit_sends_ok: "limit_action_ok (rl_action c) \<Longrightarrow> sends_ok [useUpdateRateLimit (rate_limit_update_json (limit_update t c))]"
  by (auto simp: sends_ok_def intro: limit_update_ok_of)

definition limit_page_ok :: "rate_limiter \<Rightarrow> bool" where
  "limit_page_ok st \<longleftrightarrow> action_offered (ev_action (rlm_editValues st))"

lemma limit_page_ok_typed [simp]: "limit_page_ok (st\<lparr>rlm_newExtension := s\<rparr>) = limit_page_ok st"
  "limit_page_ok (st\<lparr>rlm_newPath := s\<rparr>) = limit_page_ok st"
  by (simp_all add: limit_page_ok_def)

lemma type_limit_action [simp]: "ev_action (type_limit f s v) = ev_action v"
  by (cases f) simp_all

lemma page_values_same:
  "rlm_editValues (fst (rlm_saveEdit server d t st)) = rlm_editValues st"
  "rlm_editValues (fst (addExtension server d st)) = rlm_editValues st"
  "rlm_editValues (fst (addPath server d st)) = rlm_editValues st"
  by (auto simp: rlm_saveEdit_def addExtension_def addPath_def Let_def split: option.splits sum.splits)

lemma rate_act_ok:
  assumes "rate_act server d st ev = Some (st', es)" and "data_ok d" and "limit_page_ok st"
  shows "limit_page_ok st' \<and> sends_ok (mutations es)"
proof (cases d)
  case None
  then show ?thesis using assms
    by (cases ev) (auto simp: editor_shown_def addExtension_def addPath_def excluded_extensions_def excluded_paths_def
        excluded_items_def drop_shown_def sends_ok_def split: if_splits)
next
  case (Some dd)
  then have ok: "limits_ok dd" using assms(2) by (simp add: data_ok_def)
  show ?thesis
  proof (cases ev)
    case (Toggle_Limit t)
    then show ?thesis using assms Some limits_ok_of [OF ok, of t] by (auto simp: rlm_handleToggle_def Let_def intro!: limit_sends_ok)
  next
    case (Edit_Limit t)
    then show ?thesis using assms Some limits_ok_of [OF ok, of t]
      by (auto simp: rlm_startEdit_def limit_page_ok_def limit_action_ok_def offered_block sends_ok_def Let_def split: if_splits)
  next
    case (Save_Limit t)
    have "limit_action_ok (rl_action (typed_limit dd t st))"
      using assms(3) by (simp add: limit_page_ok_def typed_limit_def limit_action_ok_def)
    then have s: "sends_ok (mutations (snd (rlm_saveEdit server (Some dd) t st)))" unfolding save_sends by (rule limit_sends_ok)
    have "rlm_saveEdit server (Some dd) t st = (st', es)" using assms(1) Some Save_Limit by (simp split: if_splits)
    then show ?thesis using s assms(3) page_values_same(1) [of server "Some dd" t st] by (simp add: limit_page_ok_def)
  next
    case Enter_Extension
    then have r: "addExtension server (Some dd) st = (st', es)" using assms(1) Some by simp
    then show ?thesis using addExtension_ok [OF ok, of server st] assms(3) page_values_same(2) [of server "Some dd" st]
      by (simp add: limit_page_ok_def)
  next
    case Enter_Path
    then have r: "addPath server (Some dd) st = (st', es)" using assms(1) Some by simp
    then show ?thesis using addPath_ok [OF ok, of server st] assms(3) page_values_same(3) [of server "Some dd" st]
      by (simp add: limit_page_ok_def)
  qed (use assms Some remove_ok [OF ok] in
      \<open>auto simp: limit_page_ok_def sends_ok_def [of "[]"] rlm_cancelEdit_def split: if_splits\<close>)
qed

lemma limit_step_ok:
  assumes "limit_step demo (st, d, row) (st', d', row')" and "limit_page_ok st" and "data_ok d" and "row_ok row"
  shows "limit_page_ok st' \<and> data_ok d' \<and> row_ok row'"
  using assms(1)
proof (cases rule: limit_step.cases)
  case (limit_control saves ev es)
  then show ?thesis using rate_act_ok [of _ d st ev st' es] stored_ok assms(2-) by blast
next
  case (limit_answer c)
  then show ?thesis using assms(2-) by (simp add: data_ok_def row_ok_def)
qed

text \<open>C30: whatever is done on the page, in any order and with answers of any age, the server stores only actions the page
  offers (or none), extensions with their dot, and no exclusion twice; and the editor always shows one of its options.\<close>

theorem limit_system_invariant:
  assumes "(limit_step demo)\<^sup>*\<^sup>* (rate_limiter_initial, None, row) (st, d, row')" and "row_ok row"
  shows "row_ok row' \<and> data_ok d \<and> list_all choice_ok
    [\<lparr>iv_label = [], iv_value = Choice_In (ev_action (rlm_editValues st)) limit_actions, iv_hint = [], iv_disabled = False\<rparr>]"
proof -
  have "limit_page_ok (fst x) \<and> data_ok (fst (snd x)) \<and> row_ok (snd (snd x))"
    if "(limit_step demo)\<^sup>*\<^sup>* (rate_limiter_initial, None, row) x" for x
    using that
  proof (induction rule: rtranclp_induct)
    case base
    then show ?case using assms(2) by (simp add: limit_page_ok_def data_ok_def rate_limiter_initial_def)
  next
    case (step y z)
    then show ?case using limit_step_ok by (metis prod.collapse)
  qed
  from this [OF assms(1)] show ?thesis by (simp add: limit_page_ok_def choice_ok_def action_offered_def)
qed

theorem limit_system_invariant_witness:
  "row_ok (stored_after False True [useUpdateRateLimit (exclude_update [''.js''] [])] No_Row)"
proof -
  have ok: "row_ok No_Row"
    by (simp add: row_ok_def GetRateLimitConfig_def DefaultRateLimitConfig_def limits_response_def convertProfileToDTO_def
        limits_ok_def limit_action_ok_def exclude_ok_def)
  let ?d = "Some (limits_response DefaultRateLimitConfig)"
  let ?st = "rate_limiter_initial\<lparr>rlm_newExtension := ''js''\<rparr>"
  have 1: "limit_step False (rate_limiter_initial, None, No_Row) (rate_limiter_initial, ?d, No_Row)"
    by (rule limit_answer) (simp add: GetRateLimitConfig_def)
  have "rate_act (limit_server False True No_Row) ?d rate_limiter_initial (Type_Extension ''js'') = Some (?st, [])" by simp
  from limit_control [OF this] have 2: "limit_step False (rate_limiter_initial, ?d, No_Row) (?st, ?d, No_Row)"
    by (simp add: stored_after_def)
  obtain st' es where r: "addExtension (limit_server False True No_Row) ?d ?st = (st', es)" by fastforce
  have t: "trim ''js'' = ''js''" "extension_of ''js'' = ''.js''" by code_simp+
  have m: "mutations es = [useUpdateRateLimit (exclude_update [''.js''] [])]"
    using arg_cong [OF r, of "\<lambda>x. mutations (snd x)"]
    by (simp add: addExtension_sends add_exclusion_def t limits_response_def DefaultRateLimitConfig_def)
  have "limit_step False (?st, ?d, No_Row) (st', ?d, stored_after False True (mutations es) No_Row)"
    by (rule limit_control [where ev = Enter_Extension]) (simp add: r)
  with 1 2 have "(limit_step False)\<^sup>*\<^sup>* (rate_limiter_initial, None, No_Row) (st', ?d, stored_after False True (mutations es) No_Row)"
    by (meson converse_rtranclp_into_rtranclp rtranclp.rtrancl_refl)
  from limit_system_invariant [OF this ok] show ?thesis by (simp add: m)
qed


section \<open>What the stored limits do to requests\<close>

lemma go_seconds_mod: "go_seconds n = (n * 1000000000 + 2 ^ 63) mod 2 ^ 64 - 2 ^ 63"
proof -
  have "word_of_int n * 1000000000 = (word_of_int (n * 1000000000) :: 64 word)" by simp
  then show ?thesis by (simp only: go_seconds_def int_word_sint) simp
qed

lemma go_seconds_small: "0 \<le> n \<Longrightarrow> n \<le> 9223372036 \<Longrightarrow> go_seconds n = n * 1000000000"
  by (simp add: go_seconds_mod)

text \<open>A longer time wraps around: of \<open>9223372037\<close> seconds the product is negative, and a limit with such a window stops
  nothing.\<close>

lemma go_seconds_wraps: "go_seconds 9223372037 < 0"
  by (simp add: go_seconds_mod)

text \<open>What the two copies hold once they have been read again.\<close>

lemma fresh_copies:
  "10 * 1000000000 \<le> now - snd cached \<Longrightarrow> fst (config_getter now (Row s) cached) = flood_config_of s"
  "sv_cfg (autoReload (Row s) sv) = s"
  by (simp_all add: config_getter_def autoReload_def GetRateLimitConfig_def)

lemma saved_row:
  "fits (typed_limit d t st) \<Longrightarrow>
   stored_after False True (mutations (snd (rlm_saveEdit server (Some d) t st))) (Row s) =
     Row (replace_limits (limit_update t (typed_limit d t st)) s)"
  by (simp add: stored_after_def save_sends update_stored limit_update_fits GetRateLimitConfig_def)

lemma basic_replaced: "ls_Basic (replace_limits (no_update\<lparr>rlu_basic := Some c\<rparr>) s) = convertProfileFromDTO c"
  by (simp add: replace_limits_def no_update_def)



definition is_stop :: "stage_result \<Rightarrow> bool" where
  "is_stop r = (case r of Stage_Stop _ _ \<Rightarrow> True | _ \<Rightarrow> False)"

definition flood_applies :: "limited_request \<Rightarrow> limit_store \<Rightarrow> bool" where
  "flood_applies rq cfg \<longleftrightarrow> \<not> (rq_HardDecision rq \<or> rq_skip_flood rq \<or> rq_IPRuleTerminal rq \<or> rq_ChallengePassed rq) \<and>
     \<not> isExcluded (rq_Path rq) cfg"

lemma zero_limit_stops:
  assumes "lp_Enabled (ls_Basic cfg)" and "fc_BasicLimit fc \<le> 0" and "flood_applies rq cfg"
  shows "is_stop (snd (flood_Handle fc cfg now rq f))"
proof -
  have "\<not> snd (CheckBasicAccess fc now ip g)" for ip g using basic_extremes(1) assms(2) .
  then show ?thesis using assms(1,3)
    by (auto simp: flood_Handle_def flood_applies_def is_stop_def Let_def case_prod_unfold)
qed

text \<open>C31: a field that is emptied counts as 0, and the server takes it.  With the limit switched on, the flood stage then stops
  every request it applies to, while the rate-limit stage takes a limit of 0 for none and lets every request through.\<close>

theorem emptied_limit_stops_all:
  assumes "rl_enabled (rlr_basic d)" and "int64_ok (ev_duration (rlm_editValues st))"
    and "int64_ok (ev_challenge_sec (rlm_editValues st))" and "10 * 1000000000 \<le> now - snd cached"
  shows "(let st = st\<lparr>rlm_editValues := type_limit Field_Count [] (rlm_editValues st)\<rparr>;
              row = stored_after False True (mutations (snd (rlm_saveEdit server (Some d) Basic_Limit st))) (Row s);
              sv = autoReload row sv;
              fc = fst (config_getter now row cached)
    in (if flood_applies rq (sv_cfg sv) then is_stop (snd (flood_Handle fc (sv_cfg sv) now rq f)) else True) \<and>
       service_Allow now key sv = (sv, True, []))"
proof -
  define st' where "st' = st\<lparr>rlm_editValues := type_limit Field_Count [] (rlm_editValues st)\<rparr>"
  define s' where "s' = replace_limits (limit_update Basic_Limit (typed_limit d Basic_Limit st')) s"
  have "fits (typed_limit d Basic_Limit st')"
    using assms(2,3) by (simp add: st'_def fits_def typed_limit_def parseInt_or_def parseInt_def Let_def int64_ok_def)
  then have row: "stored_after False True (mutations (snd (rlm_saveEdit server (Some d) Basic_Limit st'))) (Row s) = Row s'"
    unfolding s'_def by (rule saved_row)
  have basic: "lp_Enabled (ls_Basic s')" "lp_Count (ls_Basic s') = 0"
    using assms(1)
    by (simp_all add: s'_def st'_def basic_replaced convertProfileFromDTO_def typed_limit_def parseInt_or_def parseInt_def Let_def)
  have "is_stop (snd (flood_Handle (flood_config_of s') s' now rq f))" if "flood_applies rq s'"
    using zero_limit_stops that basic by (simp add: flood_config_of_def)
  moreover have "service_Allow now key (autoReload (Row s') sv) = (autoReload (Row s') sv, True, [])"
    by (simp add: service_Allow_def fresh_copies(2) basic(2) Let_def)
  ultimately show ?thesis
    by (simp add: Let_def st'_def [symmetric] row fresh_copies(1) [OF assms(4)] fresh_copies(2) del: type_limit.simps)
qed

theorem emptied_limit_stops_all_witness:
  "(let st = rate_limiter_initial\<lparr>rlm_editValues := type_limit Field_Count [] (rlm_editValues rate_limiter_initial)\<rparr>;
        row = stored_after False True (mutations (snd (rlm_saveEdit (\<lambda>_. Inr JNull) (Some (limits_response DefaultRateLimitConfig)) Basic_Limit st)))
          (Row DefaultRateLimitConfig);
        sv = autoReload row \<lparr>sv_cfg = DefaultRateLimitConfig, sv_limiter = []\<rparr>
    in service_Allow (20 * 1000000000) ''k'' sv = (sv, True, []))"
proof -
  have "rl_enabled (rlr_basic (limits_response DefaultRateLimitConfig))" "int64_ok (ev_duration (rlm_editValues rate_limiter_initial))"
    "int64_ok (ev_challenge_sec (rlm_editValues rate_limiter_initial))"
    by (simp_all add: limits_response_def DefaultRateLimitConfig_def convertProfileToDTO_def rate_limiter_initial_def int64_ok_def)
  from emptied_limit_stops_all [OF this, of "20 * 1000000000" "(flood_config_of DefaultRateLimitConfig, 0)"]
  show ?thesis by (simp add: Let_def)
qed

lemma excluded_skips: "isExcluded (rq_Path rq) cfg \<Longrightarrow> flood_Handle fc cfg now rq f = (f, Stage_Skip)"
  by (simp add: flood_Handle_def Let_def)

lemma extension_stored:
  assumes "trim (rlm_newExtension st) \<noteq> []"
  shows "\<exists>s'. stored_after False True (mutations (snd (addExtension server (Some (limits_response s)) st))) (Row s) = Row s' \<and>
    extension_of (rlm_newExtension st) \<in> set (fe_extensions (ls_Exclude s')) \<and> ls_Basic s' = ls_Basic s \<and>
    ls_Attack s' = ls_Attack s \<and> ls_Error s' = ls_Error s"
  using assms
  by (auto simp: addExtension_sends add_exclusion_def Let_def stored_after_def limits_response_def exclude_update_def update_stored
      no_update_def fits_opt_def GetRateLimitConfig_def replace_limits_def)

text \<open>An extension entered on the page takes the files that end in it out of the flood stage as a whole, attacks, errors and
  penalties included, not only out of the counting of accesses; the rate-limit stage pays no attention to it.\<close>

theorem exclusion_skips_flood:
  assumes "trim (rlm_newExtension st) \<noteq> []" and "suffix (extension_of (rlm_newExtension st)) (rq_Path rq)"
  shows "(let row = stored_after False True (mutations (snd (addExtension server (Some (limits_response s)) st))) (Row s);
              sv = autoReload row sv
    in flood_Handle fc (sv_cfg sv) now rq f = (f, Stage_Skip) \<and>
       rate_limit_Handle now rq sv = rate_limit_Handle now (rq\<lparr>rq_Path := p\<rparr>) sv)"
proof -
  obtain s' where s': "stored_after False True (mutations (snd (addExtension server (Some (limits_response s)) st))) (Row s) = Row s'"
    and e: "extension_of (rlm_newExtension st) \<in> set (fe_extensions (ls_Exclude s'))"
    using extension_stored [OF assms(1), of server s] by blast
  have "isExcluded (rq_Path rq) s'" using e assms(2) by (auto simp: isExcluded_def list_ex_iff)
  then show ?thesis
    by (simp add: Let_def s' fresh_copies excluded_skips) (simp add: rate_limit_Handle_def)
qed

theorem exclusion_skips_flood_witness:
  "(let rq = \<lparr>rq_HardDecision = False, rq_skip_flood = False, rq_skip_rate_limit = False, rq_IPRuleTerminal = False,
          rq_ChallengePassed = False, rq_ClientIP = ''a'', rq_Path = ''/app.js'', rq_key = ''k''\<rparr>;
        st = rate_limiter_initial\<lparr>rlm_newExtension := ''js''\<rparr>;
        row = stored_after False True (mutations (snd (addExtension (\<lambda>_. Inr JNull) (Some (limits_response DefaultRateLimitConfig)) st)))
          (Row DefaultRateLimitConfig);
        sv = autoReload row \<lparr>sv_cfg = DefaultRateLimitConfig, sv_limiter = []\<rparr>
    in flood_Handle (flood_config_of DefaultRateLimitConfig) (sv_cfg sv) 0 rq NewFloodProtector = (NewFloodProtector, Stage_Skip))"
proof -
  let ?st = "rate_limiter_initial\<lparr>rlm_newExtension := ''js''\<rparr>"
  have t: "trim (rlm_newExtension ?st) \<noteq> []" and s: "suffix (extension_of (rlm_newExtension ?st)) ''/app.js''" by code_simp+
  from exclusion_skips_flood [of ?st "\<lparr>rq_HardDecision = False, rq_skip_flood = False, rq_skip_rate_limit = False, rq_IPRuleTerminal = False,
          rq_ChallengePassed = False, rq_ClientIP = ''a'', rq_Path = ''/app.js'', rq_key = ''k''\<rparr>" "\<lambda>_. Inr JNull" DefaultRateLimitConfig] t s
  show ?thesis by (simp add: Let_def)
qed

text \<open>The badge of a limit is the action its requests meet, unless none is stored: then it says \<open>BLOCK\<close>, and the flood
  stage challenges accesses and errors over their limits.\<close>

lemma shown_action_taken:
  "toUpperCase (action_of p ''block'') = shown_action (convertProfileToDTO p)"
  "toUpperCase (action_of p ''challenge'') = shown_action (convertProfileToDTO p) \<longleftrightarrow> lp_Action p \<noteq> []"
proof -
  show "toUpperCase (action_of p ''block'') = shown_action (convertProfileToDTO p)"
    by (simp add: action_of_def shown_action_def convertProfileToDTO_def)
  have "toUpperCase ''challenge'' \<noteq> toUpperCase ''block''" by code_simp
  then show "toUpperCase (action_of p ''challenge'') = shown_action (convertProfileToDTO p) \<longleftrightarrow> lp_Action p \<noteq> []"
    by (simp add: action_of_def shown_action_def convertProfileToDTO_def)
qed

text \<open>An update empties the buckets of the service but leaves it the limits it had.\<close>

lemma invalidate_keeps_limits:
  "sv_cfg (InvalidateCache sv) = sv_cfg sv"
  "flood_Handle fc (sv_cfg (InvalidateCache sv)) now rq f = flood_Handle fc (sv_cfg sv) now rq f"
  by (simp_all add: InvalidateCache_def)

end
