(* ===== verification/Scoring_Pages.thy ===== *)
theory Scoring_Pages
  imports Limit_Server
begin

text \<open>
  The scoring page and the page of protocol anomalies (\<open>ScoringEngine.tsx\<close> and \<open>AnomalyBehavior.tsx\<close> under
  \<open>src/frontend/src/pages/security\<close>, the markup of the components) together with what the backend does with the numbers they
  edit: the scores of a request by category, their weights and the decision (\<open>src/internal/pipeline/risk_score.go\<close>,
  \<open>pipeline.go\<close>, \<open>decision_engine.go\<close>), and the anomaly rules of \<open>src/internal/pipeline/handlers/protocol_anomaly_handler.go\<close>.
  Products with a multiplier are exact, without the rounding of binary fractions; cutting off the fraction is modelled.
\<close>

section \<open>The scoring page\<close>

definition category_text :: "category_key \<Rightarrow> string \<times> string" where
  "category_text k = (case k of
     Key_Ip_Reputation \<Rightarrow> (''IP Reputation'', ''Datacenter ASN, cloud provider, proxy/VPN detection'')
   | Key_Bot_Detection \<Rightarrow> (''Bot Detection'', ''Header analysis, UA patterns, behavioral signals'')
   | Key_Waf_Anomaly \<Rightarrow> (''WAF Anomaly'', ''OWASP CRS anomaly scoring from Coraza engine'')
   | Key_Protocol_Anomaly \<Rightarrow> (''Protocol Anomaly'', ''JA3 mismatch, header inconsistency, cookie anomaly''))"

definition threshold_inputs :: "scoring_config \<Rightarrow> input_view list" where
  "threshold_inputs c = [
     input_of ''Block'' (Number_In (st_block (sc_thresholds c))) ''403 Forbidden'',
     input_of ''Challenge'' (Number_In (st_challenge (sc_thresholds c))) ''Browser Integrity Check'']"

text \<open>The bar: the widths of the first two of its three segments in percent, and their labels.\<close>

definition scale_widths :: "scoring_config \<Rightarrow> int \<times> int" where
  "scale_widths c = (st_challenge (sc_thresholds c), st_block (sc_thresholds c) - st_challenge (sc_thresholds c))"

definition scale_labels :: "string list" where
  "scale_labels = [''ALLOW'', ''CHALLENGE'', ''BLOCK'']"

text \<open>A row of a category: switch, texts, and the two inputs, disabled when it is off.\<close>

datatype category_input = Max_Score_In int bool | Multiplier_In decimal bool

definition weight_row :: "scoring_config \<Rightarrow> category_key \<Rightarrow> bool \<times> (string \<times> string) \<times> category_input list" where
  "weight_row c k =
     (let w = weight_of (sc_weights c) k
      in (cw_enabled w, category_text k,
          [Max_Score_In (cw_max_score w) (\<not> cw_enabled w), Multiplier_In (cw_multiplier w) (\<not> cw_enabled w)]))"

definition weight_rows :: "scoring_config \<Rightarrow> (bool \<times> (string \<times> string) \<times> category_input list) list" where
  "weight_rows c = map (weight_row c) CATEGORY_META"

definition max_possible_text :: "scoring_config \<Rightarrow> string" where
  "max_possible_text c = ''Max possible: '' @ int_to_string (totalMaxPossible c)"

definition trust_inputs :: "scoring_config \<Rightarrow> (string \<times> string \<times> input_view list) list" where
  "trust_inputs c =
     (let t = sc_trust c
      in [(''Trusted History'', ''Known good behavior over time'',
             [input_of ''Threshold'' (Number_In (tr_trusted_history_threshold t)) [],
              input_of ''Reduction'' (Number_In (tr_trusted_history t)) ''pts'']),
          (''Stable Session'', ''Consistent session fingerprint'', [input_of ''Reduction'' (Number_In (tr_stable_session t)) ''pts'']),
          (''Good Bot'', ''Verified crawler (Googlebot, Bingbot)'', [input_of ''Reduction'' (Number_In (tr_good_bot t)) ''pts''])])"

text \<open>The rows of the last phase of the pipeline, each with the least score it is for.\<close>

definition phase_rows :: "scoring_config \<Rightarrow> (int option \<times> string) list" where
  "phase_rows c = [(Some (st_block (sc_thresholds c)), ''BLOCK''), (Some (st_challenge (sc_thresholds c)), ''CHALLENGE''), (None, ''ALLOW'')]"

definition flow_maxima :: "scoring_config \<Rightarrow> (string \<times> string) list" where
  "flow_maxima c = map (\<lambda>k. (fst (category_text k), ''+'' @ int_to_string (cw_max_score (weight_of (sc_weights c) k)) @ '' max''))
     CATEGORY_META @ [(''Trust Reduction'', ''active'')]"

text \<open>A control that is not there, or is disabled, does nothing.\<close>

datatype scoring_event =
    Threshold_Input threshold_field string | Category_Switch category_key bool | Max_Score_Input category_key string
  | Multiplier_Input category_key decimal | History_Threshold_Input string | History_Input string | Session_Input string
  | Good_Bot_Input string

definition category_on :: "scoring_config option \<Rightarrow> category_key \<Rightarrow> bool" where
  "category_on config k = (case config of None \<Rightarrow> False | Some c \<Rightarrow> cw_enabled (weight_of (sc_weights c) k))"

fun scoring_act :: "scoring_event \<Rightarrow> scoring_config option \<Rightarrow> scoring_config option" where
  "scoring_act (Threshold_Input f s) config = updateThreshold f (parseInt_or 0 s) config"
| "scoring_act (Category_Switch k b) config = updateWeight k (Weight_Enabled b) config"
| "scoring_act (Max_Score_Input k s) config = (if category_on config k then updateWeight k (Weight_Max (parseInt_or 0 s)) config else config)"
| "scoring_act (Multiplier_Input k d) config = (if category_on config k then updateWeight k (Weight_Multiplier d) config else config)"
| "scoring_act (History_Threshold_Input s) config = updateTrust (Trust_Threshold (parseInt_or 50 s)) config"
| "scoring_act (History_Input s) config = updateTrust (Trust_History (parseInt_or 0 s)) config"
| "scoring_act (Session_Input s) config = updateTrust (Trust_Session (parseInt_or 0 s)) config"
| "scoring_act (Good_Bot_Input s) config = updateTrust (Trust_Good_Bot (parseInt_or 0 s)) config"

section \<open>The risk score of a request\<close>

datatype score_category = Cat_Ip_Reputation | Cat_Bot_Detection | Cat_Waf_Anomaly | Cat_Protocol_Anomaly | Cat_Trust

record category_scores =
  cs_IPReputation    :: int
  cs_BotDetection    :: int
  cs_WAFAnomaly      :: int
  cs_ProtocolAnomaly :: int
  cs_Trust           :: int

record risk_score =
  rs_Total      :: int
  rs_Entries    :: "(score_category \<times> string \<times> int) list"
  rs_ByCategory :: category_scores

definition NewRiskScore :: risk_score where
  "NewRiskScore = \<lparr>rs_Total = 0, rs_Entries = [], rs_ByCategory = \<lparr>cs_IPReputation = 0, cs_BotDetection = 0,
     cs_WAFAnomaly = 0, cs_ProtocolAnomaly = 0, cs_Trust = 0\<rparr>\<rparr>"

primrec cs_get :: "score_category \<Rightarrow> category_scores \<Rightarrow> int" where
  "cs_get Cat_Ip_Reputation s = cs_IPReputation s"
| "cs_get Cat_Bot_Detection s = cs_BotDetection s"
| "cs_get Cat_Waf_Anomaly s = cs_WAFAnomaly s"
| "cs_get Cat_Protocol_Anomaly s = cs_ProtocolAnomaly s"
| "cs_get Cat_Trust s = cs_Trust s"

primrec cs_set :: "score_category \<Rightarrow> int \<Rightarrow> category_scores \<Rightarrow> category_scores" where
  "cs_set Cat_Ip_Reputation v s = s\<lparr>cs_IPReputation := v\<rparr>"
| "cs_set Cat_Bot_Detection v s = s\<lparr>cs_BotDetection := v\<rparr>"
| "cs_set Cat_Waf_Anomaly v s = s\<lparr>cs_WAFAnomaly := v\<rparr>"
| "cs_set Cat_Protocol_Anomaly v s = s\<lparr>cs_ProtocolAnomaly := v\<rparr>"
| "cs_set Cat_Trust v s = s\<lparr>cs_Trust := v\<rparr>"

definition rs_get :: "score_category \<Rightarrow> risk_score \<Rightarrow> int" where
  "rs_get cat rs = cs_get cat (rs_ByCategory rs)"

text \<open>Give a category a new score and move the total by the difference.\<close>

definition rs_put :: "score_category \<Rightarrow> int \<Rightarrow> risk_score \<Rightarrow> risk_score" where
  "rs_put cat v rs = rs\<lparr>rs_ByCategory := cs_set cat v (rs_ByCategory rs), rs_Total := rs_Total rs + (v - rs_get cat rs)\<rparr>"

definition rs_Add :: "score_category \<times> string \<times> int \<Rightarrow> risk_score \<Rightarrow> risk_score" where
  "rs_Add e rs = (case e of (cat, rule, score) \<Rightarrow>
     (rs_put cat (rs_get cat rs + score) rs)\<lparr>rs_Entries := rs_Entries rs @ [(cat, rule, score)]\<rparr>)"

definition ApplyCap :: "score_category \<Rightarrow> int \<Rightarrow> risk_score \<Rightarrow> risk_score" where
  "ApplyCap cat maxScore rs = (if rs_get cat rs \<le> maxScore then rs else rs_put cat maxScore rs)"

text \<open>\<open>int(float64(current) * multiplier)\<close>: the fraction is cut off.\<close>

definition times_decimal :: "int \<Rightarrow> decimal \<Rightarrow> int" where
  "times_decimal n d = (case d of (m, k) \<Rightarrow> if 0 \<le> n * m then n * m div 10 ^ k else - ((- (n * m)) div 10 ^ k))"

definition ApplyMultiplier :: "score_category \<Rightarrow> decimal \<Rightarrow> risk_score \<Rightarrow> risk_score" where
  "ApplyMultiplier cat multiplier rs =
     (if fst multiplier = 10 ^ snd multiplier then rs else rs_put cat (times_decimal (rs_get cat rs) multiplier) rs)"

definition ClampTotal :: "risk_score \<Rightarrow> risk_score" where
  "ClampTotal rs = rs\<lparr>rs_Total := min 100 (max 0 (rs_Total rs))\<rparr>"

definition applyCategory :: "score_category \<Rightarrow> category_weight \<Rightarrow> risk_score \<Rightarrow> risk_score" where
  "applyCategory cat cw rs =
     (if \<not> cw_enabled cw then (if 0 < rs_get cat rs then rs_put cat 0 rs else rs)
      else ApplyCap cat (cw_max_score cw) (ApplyMultiplier cat (cw_multiplier cw) rs))"

definition applyWeights :: "scoring_config \<Rightarrow> risk_score \<Rightarrow> risk_score" where
  "applyWeights c rs =
     applyCategory Cat_Protocol_Anomaly (sw_protocol_anomaly (sc_weights c))
       (applyCategory Cat_Waf_Anomaly (sw_waf_anomaly (sc_weights c))
         (applyCategory Cat_Bot_Detection (sw_bot_detection (sc_weights c))
           (applyCategory Cat_Ip_Reputation (sw_ip_reputation (sc_weights c)) rs)))"

text \<open>The second phase: the scorers add what they find, then the weights, then the clamp.\<close>

definition request_risk :: "scoring_config \<Rightarrow> (score_category \<times> string \<times> int) list \<Rightarrow> risk_score" where
  "request_risk c es = ClampTotal (applyWeights c (fold rs_Add es NewRiskScore))"

text \<open>The decision engine on a request the first phase has neither decided nor marked.\<close>

definition engine_action :: "scoring_config \<Rightarrow> risk_score \<Rightarrow> string" where
  "engine_action c rs =
     (if rs_Total rs \<ge> st_block (sc_thresholds c) then ''block''
      else if rs_Total rs \<ge> st_challenge (sc_thresholds c) then ''challenge'' else [])"

section \<open>The page of protocol anomalies\<close>

record anomaly_meta =
  am_label       :: string
  am_description :: string
  am_category    :: string

abbreviation anomaly :: "string \<Rightarrow> string \<Rightarrow> string \<Rightarrow> anomaly_meta" where
  "anomaly l d c \<equiv> \<lparr>am_label = l, am_description = d, am_category = c\<rparr>"

definition RULE_META :: "anomaly_meta js_obj" where
  "RULE_META = [
     (''http2_connection_header'', anomaly ''HTTP/2 Connection Header'' ''HTTP/2 request contains Connection header (protocol violation)'' ''header''),
     (''content_type_no_body'', anomaly ''Content-Type on GET/HEAD'' ''Content-Type header present on request with no body'' ''header''),
     (''accept_path_mismatch'', anomaly ''Accept vs Path Mismatch'' ''Accept: text/html but path is API or data endpoint'' ''header''),
     (''sec_fetch_dest_mismatch'', anomaly ''Sec-Fetch-Dest Mismatch'' ''Sec-Fetch-Dest: document but path is asset or API'' ''header''),
     (''upgrade_non_navigate'', anomaly ''Upgrade on Non-Navigate'' ''Upgrade-Insecure-Requests present but not a navigation request'' ''header''),
     (''te_cl_conflict'', anomaly ''TE + CL Conflict'' ''Both Transfer-Encoding and Content-Length present (smuggling indicator)'' ''header''),
     (''multiple_host_headers'', anomaly ''Multiple Host Headers'' ''Multiple Host headers detected (smuggling/spoofing)'' ''header''),
     (''malformed_challenge_cookie'', anomaly ''Malformed Challenge Cookie'' ''Challenge cookie present but format is invalid'' ''cookie''),
     (''future_cookie_timestamp'', anomaly ''Future Cookie Timestamp'' ''Challenge cookie timestamp is in the future'' ''cookie''),
     (''excessive_cookies_no_referer'', anomaly ''Excessive Cookies (No Referer)'' ''More than 10 cookies on root path with no referer'' ''cookie''),
     (''ja4_old_tls'', anomaly ''Old TLS (Any Client)'' ''TLS 1.0/1.1 detected regardless of User-Agent; nginx already refuses these protocols'' ''ja4''),
     (''ja4_old_tls_browser_ua'', anomaly ''Old TLS + Browser UA'' ''UA claims modern browser but TLS version is 1.0/1.1 (browsers dropped these)'' ''ja4''),
     (''browser_ua_http10'', anomaly ''Browser UA + HTTP/1.0'' ''UA claims modern browser but using HTTP/1.0 protocol'' ''ja4''),
     (''browser_ua_ja4_empty'', anomaly ''Browser UA + JA4 Empty'' ''HTTPS request with browser UA but no JA4 fingerprint (unusual)'' ''ja4''),
     (''bot_ua_browser_ja4'', anomaly ''Bot UA + Browser JA4'' ''UA claims bot but JA4 shows browser-like TLS stack (high cipher count)'' ''ja4''),
     (''browser_ua_simple_ja4'', anomaly ''Browser UA + Simple JA4'' ''UA claims browser but JA4 shows simple TLS client (low cipher count)'' ''ja4'')]"

definition rules_in :: "string \<Rightarrow> anomaly_meta js_obj" where
  "rules_in category = filter (\<lambda>(_, m). am_category m = category) RULE_META"

text \<open>\<open>formData?.rules[key] || 0\<close>.\<close>

definition anomaly_value :: "protocol_anomaly_config option \<Rightarrow> string \<Rightarrow> int" where
  "anomaly_value form key =
     (case form of None \<Rightarrow> 0 | Some c \<Rightarrow> (case obj_get (pac_rules c) key of None \<Rightarrow> 0 | Some n \<Rightarrow> n))"

text \<open>A rule of a card: its input, and the badge beside its label.\<close>

definition anomaly_inputs :: "protocol_anomaly_config option \<Rightarrow> string \<Rightarrow> (input_view \<times> string) list" where
  "anomaly_inputs form category = map (\<lambda>(key, m).
     (input_of (am_label m) (Number_In (anomaly_value form key)) (am_description m), ''+'' @ int_to_string (anomaly_value form key)))
     (rules_in category)"

definition anomaly_cards :: "protocol_anomaly_config option \<Rightarrow> (string \<times> nat) list" where
  "anomaly_cards form = [
     (''Total Rules'', case form of None \<Rightarrow> 0 | Some c \<Rightarrow> length (pac_rules c)),
     (''Header Rules'', length (rules_in ''header'')),
     (''Cookie Rules'', length (rules_in ''cookie''))]"

definition anomaly_save_disabled :: "protocol_anomaly_config option \<Rightarrow> bool" where
  "anomaly_save_disabled form \<longleftrightarrow> form = None"

definition anomaly_input :: "string \<Rightarrow> string \<Rightarrow> protocol_anomaly_config option \<Rightarrow> protocol_anomaly_config option" where
  "anomaly_input key s form = handleRuleChange key (parseInt_or 0 s) form"

section \<open>The anomaly rules of the backend\<close>

definition DefaultProtocolAnomalyRules :: "int js_obj" where
  "DefaultProtocolAnomalyRules = [
     (''http2_connection_header'', 8), (''content_type_no_body'', 5), (''accept_path_mismatch'', 5),
     (''sec_fetch_dest_mismatch'', 6), (''upgrade_non_navigate'', 4), (''te_cl_conflict'', 10),
     (''multiple_host_headers'', 10), (''malformed_challenge_cookie'', 8), (''future_cookie_timestamp'', 8),
     (''excessive_cookies_no_referer'', 5), (''ja4_old_tls_browser_ua'', 15), (''ja4_old_tls'', 15),
     (''browser_ua_http10'', 15), (''browser_ua_ja4_empty'', 4), (''bot_ua_browser_ja4'', 15), (''browser_ua_simple_ja4'', 15)]"

text \<open>A stored object; the rules it lacks come from the defaults.\<close>

definition WithDefaults :: "int js_obj \<Rightarrow> int js_obj" where
  "WithDefaults rules = foldl (\<lambda>merged (name, score). obj_set merged name score) DefaultProtocolAnomalyRules rules"

definition ruleScore :: "int js_obj \<Rightarrow> string \<Rightarrow> int" where
  "ruleScore rules name = (case obj_get rules name of Some v \<Rightarrow> v | None \<Rightarrow> 0)"

text \<open>What the rules look at: \<open>pq_header\<close> is \<open>r.Header.Get\<close>, \<open>pq_hosts\<close> the number of values of the header map for
  \<open>Host\<close>, \<open>pq_cookie\<close> the cookie \<open>ok\<close>, \<open>pq_now\<close> the clock in seconds.\<close>

record protocol_request =
  pq_ProtoMajor :: int
  pq_ProtoMinor :: int
  pq_Method     :: string
  pq_TLS        :: bool
  pq_header     :: "string \<Rightarrow> string"
  pq_hosts      :: nat
  pq_cookie     :: "string option"
  pq_Path       :: string
  pq_UA         :: string
  pq_now        :: int

definition isAPIPath :: "string \<Rightarrow> bool" where
  "isAPIPath path \<longleftrightarrow>
     list_ex (\<lambda>p. prefix p path) [''/api/'', ''/graphql'', ''/rest/'', ''/v1/'', ''/v2/''] \<or>
     list_ex (\<lambda>s. suffix s path) [''.json'', ''.xml'', ''.yaml'', ''.proto'']"

definition isAssetOrAPIPath :: "string \<Rightarrow> bool" where
  "isAssetOrAPIPath path \<longleftrightarrow> isAPIPath path \<or>
     list_ex (\<lambda>s. suffix s path) [''.js'', ''.css'', ''.png'', ''.jpg'', ''.jpeg'', ''.gif'', ''.svg'',
       ''.woff'', ''.woff2'', ''.ttf'', ''.ico'', ''.webp'', ''.avif'']"

text \<open>\<open>strconv.ParseInt(s, 10, 64)\<close>, which is also \<open>strconv.Atoi\<close>.\<close>

definition ParseInt :: "string \<Rightarrow> int option" where
  "ParseInt s =
     (let ds = (if take 1 s = ''-'' \<or> take 1 s = ''+'' then drop 1 s else s);
          n = (if take 1 s = ''-'' then - int (digits_value ds) else int (digits_value ds))
      in if ds \<noteq> [] \<and> list_all is_digit ds \<and> int64_ok n then Some n else None)"

definition isValidChallengeFormat :: "string \<Rightarrow> bool" where
  "isValidChallengeFormat v =
     (let parts = split_on (CHR ''.'') v
      in if length parts < 2 \<or> length parts > 3 then False
         else if length (parts ! 0) \<noteq> 32 \<and> length (parts ! 0) \<noteq> 64 then False
         else ParseInt (parts ! 1) \<noteq> None)"

definition isCookieTimestampFuture :: "int \<Rightarrow> string \<Rightarrow> bool" where
  "isCookieTimestampFuture now v =
     (let parts = split_on (CHR ''.'') v
      in if length parts < 2 \<or> length parts > 3 then False
         else (case ParseInt (parts ! 1) of None \<Rightarrow> False | Some timestamp \<Rightarrow> now + 60 < timestamp))"

definition ja4TLSSegment :: "string \<Rightarrow> string" where
  "ja4TLSSegment ja4 = (if length ja4 < 3 then [] else take 2 (drop 1 ja4))"

text \<open>The names whose conditions hold, in the order of the code.\<close>

definition named_if :: "(bool \<times> string) list \<Rightarrow> string list" where
  "named_if cs = map snd (filter fst cs)"

definition header_anomalies :: "protocol_request \<Rightarrow> string list" where
  "header_anomalies rq =
     (let get = pq_header rq; verb = toUpperCase (pq_Method rq)
      in named_if [
        (pq_ProtoMajor rq \<ge> 2 \<and> get ''Connection'' \<noteq> [], ''http2_connection_header''),
        ((verb = ''GET'' \<or> verb = ''HEAD'') \<and> get ''Content-Type'' \<noteq> [], ''content_type_no_body''),
        (str_includes (get ''Accept'') ''text/html'' \<and> \<not> str_includes (get ''Accept'') ''*/*'' \<and> isAPIPath (pq_Path rq),
           ''accept_path_mismatch''),
        (get ''Sec-Fetch-Dest'' = ''document'' \<and> isAssetOrAPIPath (pq_Path rq), ''sec_fetch_dest_mismatch''),
        (get ''Upgrade-Insecure-Requests'' = ''1'' \<and> get ''Sec-Fetch-Mode'' \<noteq> [] \<and> get ''Sec-Fetch-Mode'' \<noteq> ''navigate'',
           ''upgrade_non_navigate''),
        (get ''Transfer-Encoding'' \<noteq> [] \<and> get ''Content-Length'' \<noteq> [], ''te_cl_conflict''),
        (pq_hosts rq > 1, ''multiple_host_headers'')])"

definition cookie_anomalies :: "protocol_request \<Rightarrow> string list" where
  "cookie_anomalies rq =
     (let get = pq_header rq; v = (case pq_cookie rq of None \<Rightarrow> [] | Some v \<Rightarrow> v);
          pairs = length (filter (\<lambda>ch. ch = CHR ''='') (get ''Cookie''))
      in named_if [
        (v \<noteq> [] \<and> \<not> isValidChallengeFormat v, ''malformed_challenge_cookie''),
        (v \<noteq> [] \<and> isValidChallengeFormat v \<and> isCookieTimestampFuture (pq_now rq) v, ''future_cookie_timestamp''),
        (get ''Cookie'' \<noteq> [] \<and> pairs > 10 \<and> (pq_Path rq = ''/'' \<or> pq_Path rq = []) \<and> get ''Referer'' = [],
           ''excessive_cookies_no_referer'')])"

definition isBrowserUA :: "string \<Rightarrow> bool" where
  "isBrowserUA ua \<longleftrightarrow> str_includes ua ''mozilla'' \<and> list_ex (str_includes ua) [''chrome'', ''safari'', ''firefox'']"

definition isBotUA :: "string \<Rightarrow> bool" where
  "isBotUA ua \<longleftrightarrow> list_ex (str_includes ua) [''bot'', ''crawler'', ''spider'', ''curl'', ''python'', ''go-http'']"

text \<open>The number of ciphers of a fingerprint of a name resolved by SNI.\<close>

definition cipher_count :: "string \<Rightarrow> int option" where
  "cipher_count ja4 = (if length ja4 \<ge> 7 \<and> ja4 ! 3 = CHR ''d'' then ParseInt (take 2 (drop 4 ja4)) else None)"

definition ja4_anomalies :: "protocol_request \<Rightarrow> string list" where
  "ja4_anomalies rq =
     (let ja4 = pq_header rq ''X-JA4''; ua = toLowerCase (pq_UA rq);
          old_tls = (ja4TLSSegment ja4 = ''10'' \<or> ja4TLSSegment ja4 = ''11'')
      in named_if [
        (isBrowserUA ua \<and> pq_ProtoMajor rq = 1 \<and> pq_ProtoMinor rq = 0, ''browser_ua_http10''),
        (old_tls \<and> \<not> isBrowserUA ua, ''ja4_old_tls''),
        (old_tls \<and> isBrowserUA ua, ''ja4_old_tls_browser_ua''),
        (isBrowserUA ua \<and> ja4 = [] \<and> pq_TLS rq, ''browser_ua_ja4_empty''),
        (isBotUA ua \<and> (case cipher_count ja4 of None \<Rightarrow> False | Some n \<Rightarrow> 12 \<le> n), ''bot_ua_browser_ja4''),
        (isBrowserUA ua \<and> (case cipher_count ja4 of None \<Rightarrow> False | Some n \<Rightarrow> n \<le> 4), ''browser_ua_simple_ja4'')])"

definition anomalies :: "protocol_request \<Rightarrow> string list" where
  "anomalies rq = header_anomalies rq @ cookie_anomalies rq @ ja4_anomalies rq"

text \<open>The entries the handler adds: a rule counts when its score is positive.\<close>

definition anomaly_entries :: "int js_obj \<Rightarrow> protocol_request \<Rightarrow> (score_category \<times> string \<times> int) list" where
  "anomaly_entries rules rq =
     map (\<lambda>name. (Cat_Protocol_Anomaly, name, ruleScore rules name)) (filter (\<lambda>name. 0 < ruleScore rules name) (anomalies rq))"

section \<open>The greatest score\<close>

lemma rs_get_put [simp]: "rs_get a (rs_put b v rs) = (if a = b then v else rs_get a rs)"
  by (cases a; cases b) (simp_all add: rs_get_def rs_put_def)

lemma rs_get_entries [simp]: "rs_get a (rs\<lparr>rs_Entries := es\<rparr>) = rs_get a rs"
  by (simp add: rs_get_def)

definition score_sum :: "risk_score \<Rightarrow> int" where
  "score_sum rs = rs_get Cat_Ip_Reputation rs + rs_get Cat_Bot_Detection rs + rs_get Cat_Waf_Anomaly rs +
     rs_get Cat_Protocol_Anomaly rs + rs_get Cat_Trust rs"

text \<open>The total is the sum of the categories, whatever is added, multiplied, capped or switched off.\<close>

definition total_ok :: "risk_score \<Rightarrow> bool" where
  "total_ok rs \<longleftrightarrow> rs_Total rs = score_sum rs"

lemma total_ok_put [intro]: "total_ok rs \<Longrightarrow> total_ok (rs_put cat v rs)"
  by (cases cat) (simp_all add: total_ok_def score_sum_def, simp_all add: rs_put_def)

lemma total_ok_entries [simp]: "total_ok (rs\<lparr>rs_Entries := es\<rparr>) = total_ok rs"
  by (simp add: total_ok_def score_sum_def)

lemma total_ok_category: "total_ok rs \<Longrightarrow> total_ok (applyCategory cat cw rs)"
  by (auto simp: applyCategory_def ApplyCap_def ApplyMultiplier_def)

lemma total_ok_weights: "total_ok rs \<Longrightarrow> total_ok (applyWeights c rs)"
  by (simp add: applyWeights_def total_ok_category)

definition trust_sum :: "(score_category \<times> string \<times> int) list \<Rightarrow> int" where
  "trust_sum es = (\<Sum>(cat, _, s)\<leftarrow>es. if cat = Cat_Trust then s else 0)"

lemma fold_add: "total_ok rs \<Longrightarrow> total_ok (fold rs_Add es rs) \<and> rs_get Cat_Trust (fold rs_Add es rs) = rs_get Cat_Trust rs + trust_sum es"
proof (induction es arbitrary: rs)
  case (Cons e es)
  obtain cat rule s where e: "e = (cat, rule, s)" by (cases e)
  have "total_ok (rs_Add e rs)" using Cons.prems by (auto simp: rs_Add_def e)
  then show ?case using Cons.IH [of "rs_Add e rs"] by (simp add: e trust_sum_def rs_Add_def)
qed (simp add: trust_sum_def)

lemma get_category_other [simp]: "a \<noteq> cat \<Longrightarrow> rs_get a (applyCategory cat cw rs) = rs_get a rs"
  by (simp add: applyCategory_def ApplyCap_def ApplyMultiplier_def)

definition category_max :: "category_weight \<Rightarrow> int" where
  "category_max w = (if cw_enabled w then cw_max_score w else 0)"

lemma get_category_max: "rs_get cat (applyCategory cat cw rs) \<le> category_max cw"
  by (simp add: applyCategory_def ApplyCap_def category_max_def)

lemma totalMaxPossible_eq: "totalMaxPossible c = category_max (sw_ip_reputation (sc_weights c)) +
    category_max (sw_bot_detection (sc_weights c)) + category_max (sw_waf_anomaly (sc_weights c)) +
    category_max (sw_protocol_anomaly (sc_weights c))"
  by (simp add: totalMaxPossible_sum CATEGORY_META_def category_max_def)

lemma weighted_sum_max: "score_sum (applyWeights c rs) \<le> totalMaxPossible c + rs_get Cat_Trust rs"
proof -
  have "rs_get Cat_Ip_Reputation (applyWeights c rs) \<le> category_max (sw_ip_reputation (sc_weights c))"
    "rs_get Cat_Bot_Detection (applyWeights c rs) \<le> category_max (sw_bot_detection (sc_weights c))"
    "rs_get Cat_Waf_Anomaly (applyWeights c rs) \<le> category_max (sw_waf_anomaly (sc_weights c))"
    "rs_get Cat_Protocol_Anomaly (applyWeights c rs) \<le> category_max (sw_protocol_anomaly (sc_weights c))"
    "rs_get Cat_Trust (applyWeights c rs) = rs_get Cat_Trust rs"
    by (simp_all add: applyWeights_def get_category_max)
  then show ?thesis by (simp add: score_sum_def totalMaxPossible_eq)
qed

lemma request_total:
  "rs_Total (request_risk c es) = min 100 (max 0 (score_sum (applyWeights c (fold rs_Add es NewRiskScore))))"
  "score_sum (applyWeights c (fold rs_Add es NewRiskScore)) \<le> totalMaxPossible c + trust_sum es"
proof -
  have new: "total_ok NewRiskScore" "rs_get Cat_Trust NewRiskScore = 0"
    by (simp_all add: total_ok_def score_sum_def NewRiskScore_def rs_get_def)
  have f: "total_ok (fold rs_Add es NewRiskScore)" "rs_get Cat_Trust (fold rs_Add es NewRiskScore) = trust_sum es"
    using fold_add [OF new(1), of es] new(2) by simp_all
  have "rs_Total (applyWeights c (fold rs_Add es NewRiskScore)) = score_sum (applyWeights c (fold rs_Add es NewRiskScore))"
    using total_ok_weights [OF f(1), of c] by (simp add: total_ok_def)
  then show "rs_Total (request_risk c es) = min 100 (max 0 (score_sum (applyWeights c (fold rs_Add es NewRiskScore))))"
    by (simp add: request_risk_def ClampTotal_def)
  show "score_sum (applyWeights c (fold rs_Add es NewRiskScore)) \<le> totalMaxPossible c + trust_sum es"
    using weighted_sum_max [of c "fold rs_Add es NewRiskScore"] f(2) by simp
qed

lemma validated_maxima: "ValidateScoringConfig c \<Longrightarrow> 0 \<le> totalMaxPossible c"
  by (simp add: ValidateScoringConfig_def totalMaxPossible_eq CATEGORY_META_def category_max_def Let_def)


definition sample_scoring :: scoring_config where
  "sample_scoring =
     (let w = (\<lambda>n m. \<lparr>cw_enabled = True, cw_max_score = n, cw_multiplier = m\<rparr>)
      in \<lparr>sc_thresholds = \<lparr>st_block = 70, st_challenge = 35\<rparr>,
          sc_weights = \<lparr>sw_ip_reputation = w 30 (1, 0), sw_bot_detection = w 35 (1, 0), sw_waf_anomaly = w 40 (15, 1),
            sw_protocol_anomaly = w 35 (1, 0)\<rparr>,
          sc_trust = \<lparr>tr_trusted_history = -4, tr_trusted_history_threshold = 50, tr_stable_session = -2, tr_good_bot = -5\<rparr>\<rparr>)"


text \<open>What the bar and the last phase of the flow show for a score.\<close>

definition scale_segment :: "scoring_config \<Rightarrow> int \<Rightarrow> string" where
  "scale_segment c score =
     (case scale_widths c of (w1, w2) \<Rightarrow> scale_labels ! (if score < w1 then 0 else if score < w1 + w2 then 1 else 2))"

definition phase_label :: "scoring_config \<Rightarrow> int \<Rightarrow> string" where
  "phase_label c score = snd (hd (filter (\<lambda>(least, _). case least of None \<Rightarrow> True | Some n \<Rightarrow> n \<le> score) (phase_rows c)))"

text \<open>C34: for a configuration the server accepts, the bar and the table of the page show for every score what the engine does
  with it, and the segments of the bar are not empty and fit into it.  A configuration with the thresholds the other way
  round is refused, and its bar shows no decision to block at a score the engine would block.\<close>

theorem scale_matches_engine:
  assumes "ValidateScoringConfig c"
  shows "(let a = engine_action c rs; shown = (if a = [] then ''ALLOW'' else toUpperCase a)
    in scale_segment c (rs_Total rs) = shown \<and> phase_label c (rs_Total rs) = shown) \<and>
    1 \<le> fst (scale_widths c) \<and> 1 \<le> snd (scale_widths c) \<and> fst (scale_widths c) + snd (scale_widths c) \<le> 100"
proof -
  have v: "1 \<le> st_challenge (sc_thresholds c)" "st_challenge (sc_thresholds c) < st_block (sc_thresholds c)" "st_block (sc_thresholds c) \<le> 100"
    using assms by (simp_all add: ValidateScoringConfig_def Let_def)
  have "scale_segment c s = (if s < st_challenge (sc_thresholds c) then ''ALLOW'' else if s < st_block (sc_thresholds c) then ''CHALLENGE'' else ''BLOCK'')" for s
    by (simp add: scale_segment_def scale_widths_def scale_labels_def)
  moreover have "phase_label c s = (if s < st_challenge (sc_thresholds c) then ''ALLOW'' else if s < st_block (sc_thresholds c) then ''CHALLENGE'' else ''BLOCK'')" for s
    using v(2) by (simp add: phase_label_def phase_rows_def)
  ultimately show ?thesis using v by (simp add: engine_action_def Let_def upper_actions scale_widths_def)
qed

theorem scale_matches_engine_witness:
  "scale_segment sample_scoring (rs_Total (request_risk sample_scoring [(Cat_Waf_Anomaly, ''a'', 25)])) = ''CHALLENGE''"
proof -
  have v: "ValidateScoringConfig sample_scoring" by code_simp
  have "engine_action sample_scoring (request_risk sample_scoring [(Cat_Waf_Anomaly, ''a'', 25)]) = ''challenge''" by code_simp
  then show ?thesis
    using scale_matches_engine [OF v, of "request_risk sample_scoring [(Cat_Waf_Anomaly, ''a'', 25)]"] by (simp add: Let_def upper_actions)
qed

section \<open>Rules of protocol anomalies\<close>

text \<open>The page, the defaults and the code know the same rules.\<close>

lemma anomaly_keys:
  "set (map fst RULE_META) = set (map fst DefaultProtocolAnomalyRules)"
  "distinct (map fst RULE_META)" "distinct (map fst DefaultProtocolAnomalyRules)"
  "map fst RULE_META = map fst (rules_in ''header'') @ map fst (rules_in ''cookie'') @ map fst (rules_in ''ja4'')"
  by code_simp+

lemma named_if_subset: "set (named_if cs) \<subseteq> set (map snd cs)"
  by (auto simp: named_if_def)

lemma anomalies_listed:
  "set (header_anomalies rq) \<subseteq> set (map fst (rules_in ''header''))"
  "set (cookie_anomalies rq) \<subseteq> set (map fst (rules_in ''cookie''))"
  "set (ja4_anomalies rq) \<subseteq> set (map fst (rules_in ''ja4''))"
proof -
  have keys: "map fst (rules_in ''header'') = [''http2_connection_header'', ''content_type_no_body'', ''accept_path_mismatch'',
      ''sec_fetch_dest_mismatch'', ''upgrade_non_navigate'', ''te_cl_conflict'', ''multiple_host_headers'']"
    "map fst (rules_in ''cookie'') = [''malformed_challenge_cookie'', ''future_cookie_timestamp'', ''excessive_cookies_no_referer'']"
    "map fst (rules_in ''ja4'') = [''ja4_old_tls'', ''ja4_old_tls_browser_ua'', ''browser_ua_http10'', ''browser_ua_ja4_empty'',
      ''bot_ua_browser_ja4'', ''browser_ua_simple_ja4'']" by code_simp+
  show "set (header_anomalies rq) \<subseteq> set (map fst (rules_in ''header''))"
    unfolding header_anomalies_def Let_def by (rule subset_trans [OF named_if_subset]) (simp add: keys)
  show "set (cookie_anomalies rq) \<subseteq> set (map fst (rules_in ''cookie''))"
    unfolding cookie_anomalies_def Let_def by (rule subset_trans [OF named_if_subset]) (simp add: keys)
  show "set (ja4_anomalies rq) \<subseteq> set (map fst (rules_in ''ja4''))"
    unfolding ja4_anomalies_def Let_def by (rule subset_trans [OF named_if_subset]) (auto simp: keys)
qed

lemma obj_get_defaults: "distinct (map fst rules) \<Longrightarrow>
    obj_get (foldl (\<lambda>merged (name, score). obj_set merged name score) base rules) k =
      (case obj_get rules k of Some v \<Rightarrow> Some v | None \<Rightarrow> obj_get base k)"
proof (induction rules arbitrary: base)
  case (Cons r rules)
  obtain n s where r: "r = (n, s)" by fastforce
  have n: "obj_get rules n = None" using Cons.prems by (auto simp: r map_of_eq_None_iff)
  show ?case using Cons n by (auto simp: r split: option.splits)
qed simp

lemma ruleScore_defaults: "distinct (map fst rules) \<Longrightarrow> ruleScore (WithDefaults rules) k =
    (case obj_get rules k of Some v \<Rightarrow> v | None \<Rightarrow> ruleScore DefaultProtocolAnomalyRules k)"
  by (simp add: ruleScore_def WithDefaults_def obj_get_defaults split: option.splits)

text \<open>C37: a rule whose field is emptied, or set to 0, adds nothing to any request once the configuration is stored and read again,
  and every other rule adds what it added before, although missing rules come back from the defaults.  The rules
  listed on the page are those the backend looks for, under the same three headings.\<close>

theorem anomaly_rule_off:
  assumes "distinct (map fst (pac_rules c))"
  shows "(case anomaly_input key [] (Some c) of
       None \<Rightarrow> False
     | Some c' \<Rightarrow> anomaly_entries (WithDefaults (pac_rules c')) rq =
         filter (\<lambda>(_, name, _). name \<noteq> key) (anomaly_entries (WithDefaults (pac_rules c)) rq)) \<and>
    set (header_anomalies rq) \<subseteq> set (map fst (rules_in ''header'')) \<and>
    set (cookie_anomalies rq) \<subseteq> set (map fst (rules_in ''cookie'')) \<and>
    set (ja4_anomalies rq) \<subseteq> set (map fst (rules_in ''ja4''))"
proof -
  have d: "distinct (map fst (obj_set (pac_rules c) key 0))"
    using obj_set_distinct [of "pac_rules c" key 0] assms by (simp add: obj_keys_def)
  have s: "ruleScore (WithDefaults (obj_set (pac_rules c) key 0)) name =
      (if name = key then 0 else ruleScore (WithDefaults (pac_rules c)) name)" for name
    by (simp add: ruleScore_defaults [OF d] ruleScore_defaults [OF assms])
  have "anomaly_entries (WithDefaults (obj_set (pac_rules c) key 0)) rq =
      filter (\<lambda>(_, name, _). name \<noteq> key) (anomaly_entries (WithDefaults (pac_rules c)) rq)"
    by (simp add: anomaly_entries_def s filter_map comp_def conj_commute cong: conj_cong)
  moreover have "parseInt_or 0 [] = 0" by code_simp
  ultimately show ?thesis using anomalies_listed by (simp add: anomaly_input_def handleRuleChange_def)
qed

definition smuggling_request :: protocol_request where
  "smuggling_request = \<lparr>pq_ProtoMajor = 1, pq_ProtoMinor = 1, pq_Method = ''POST'', pq_TLS = True,
     pq_header = (\<lambda>k. if k = ''Transfer-Encoding'' then ''chunked'' else if k = ''Content-Length'' then ''3'' else []),
     pq_hosts = 0, pq_cookie = None, pq_Path = ''/'', pq_UA = ''curl'', pq_now = 0\<rparr>"

theorem anomaly_rule_off_witness:
  "anomaly_entries (WithDefaults [(''te_cl_conflict'', 10)]) smuggling_request = [(Cat_Protocol_Anomaly, ''te_cl_conflict'', 10)] \<and>
   (case anomaly_input ''te_cl_conflict'' [] (Some \<lparr>pac_rules = [(''te_cl_conflict'', 10)]\<rparr>) of
      None \<Rightarrow> False
    | Some c' \<Rightarrow> anomaly_entries (WithDefaults (pac_rules c')) smuggling_request = [])"
proof -
  have on: "anomaly_entries (WithDefaults [(''te_cl_conflict'', 10)]) smuggling_request = [(Cat_Protocol_Anomaly, ''te_cl_conflict'', 10)]"
    by code_simp
  have "distinct (map fst (pac_rules \<lparr>pac_rules = [(''te_cl_conflict'', 10)]\<rparr>))" by simp
  from anomaly_rule_off [OF this, where key = "''te_cl_conflict''" and rq = smuggling_request] show ?thesis by (simp add: on split: option.splits)
qed

text \<open>The rule described as for any client is not applied to browsers: with the rule for browsers off, an outdated
  protocol adds nothing for them.\<close>

lemma old_tls_not_any_client: "isBrowserUA (toLowerCase (pq_UA rq)) \<Longrightarrow> ''ja4_old_tls'' \<notin> set (ja4_anomalies rq)"
  by (simp add: ja4_anomalies_def named_if_def Let_def split: option.splits)

text \<open>The server library takes \<open>Host\<close> out of the header map, so the rule for several of them never applies.\<close>

lemma named_if_mem: "n \<in> set (named_if cs) \<longleftrightarrow> (True, n) \<in> set cs"
  by (force simp: named_if_def)

lemma host_rule_dead: "pq_hosts rq \<le> 1 \<Longrightarrow> ''multiple_host_headers'' \<notin> set (anomalies rq)"
proof -
  assume "pq_hosts rq \<le> 1"
  then have "''multiple_host_headers'' \<notin> set (header_anomalies rq)"
    by (simp add: header_anomalies_def named_if_mem Let_def)
  moreover have "''multiple_host_headers'' \<notin> set (map fst (rules_in ''cookie''))"
    "''multiple_host_headers'' \<notin> set (map fst (rules_in ''ja4''))" by code_simp+
  ultimately show ?thesis using anomalies_listed(2,3) [of rq] by (auto simp: anomalies_def)
qed

end
