(* ===== verification/Engine_Pages.thy ===== *)
theory Engine_Pages
  imports Scoring_Pages Charts
begin

text \<open>
  The page of the firewall engine and the challenge page (\<open>WAFEngine.tsx\<close> and \<open>Challenged.tsx\<close> under
  \<open>src/frontend/src/pages/security\<close>, the markup of the components): their tabs and inputs as machines over the forms of
  \<open>Settings_Pages\<close>, the tables of events, and the preview.  Of the backend: the level of trust a solved challenge gives
  (\<open>src/internal/challenge/trajectory.go\<close>) and the reduction it is worth (\<open>src/internal/pipeline/handlers/trust_scorer.go\<close>).
\<close>

section \<open>Firewall engine\<close>

datatype waf_tab = Tab_Paranoia | Tab_Scoring | Tab_Methods | Tab_Custom

definition waf_tabs :: "(waf_tab \<times> string) list" where
  "waf_tabs = [(Tab_Paranoia, ''Paranoia''), (Tab_Scoring, ''Scoring''), (Tab_Methods, ''Methods & Rules''),
     (Tab_Custom, ''Custom Rules'')]"

record waf_screen =
  ws_form      :: waf_page
  ws_activeTab :: waf_tab

definition paranoia_levels :: "(int \<times> string \<times> string \<times> string) list" where
  "paranoia_levels = [
     (1, ''Low'', ''Basic protection'', ''success''),
     (2, ''Medium'', ''Balanced security'', ''primary''),
     (3, ''High'', ''Aggressive rules'', ''warning''),
     (4, ''Paranoid'', ''Maximum security'', ''danger'')]"

text \<open>A button of a level: its texts and, when it is the chosen one, its colour.\<close>

definition paranoia_color :: "string \<Rightarrow> string" where
  "paranoia_color color =
     (if color = ''success'' then ''green'' else if color = ''primary'' then ''blue''
      else if color = ''warning'' then ''yellow'' else ''red'')"

definition paranoia_buttons :: "waf_page \<Rightarrow> (string \<times> string \<times> string \<times> string option) list" where
  "paranoia_buttons p = map (\<lambda>(level, label, desc, color).
     (''PL'' @ int_to_string level, label, desc,
      if wp_paranoiaLevel p = level then Some (paranoia_color color) else None)) paranoia_levels"

definition paranoia_text :: "int \<Rightarrow> string \<times> string" where
  "paranoia_text level =
     (if level = 1 then (''PL1: Basic Protection - Recommended for most applications'',
                         ''Low false positive rate with essential security coverage.'')
      else if level = 2 then (''PL2: Standard Protection - Balanced security for production'',
                              ''Moderate false positive rate, good for production environments.'')
      else if level = 3 then (''PL3: High Protection - Aggressive, requires tuning'',
                              ''Higher false positive rate, requires careful tuning.'')
      else if level = 4 then (''PL4: Maximum Protection - Highest security, high false positives'',
                              ''Highest false positive rate, only for high-security environments.'')
      else ([], []))"

definition waf_methods :: "string list" where
  "waf_methods = [''GET'', ''HEAD'', ''POST'', ''PUT'', ''DELETE'', ''OPTIONS'', ''PATCH'', ''CONNECT'']"

text \<open>What the open tab shows beside its texts.\<close>

definition waf_tab_inputs :: "waf_screen \<Rightarrow> input_view list" where
  "waf_tab_inputs s =
     (let p = ws_form s
      in case ws_activeTab s of
           Tab_Paranoia \<Rightarrow> []
         | Tab_Scoring \<Rightarrow> [
             input_of ''Inbound Anomaly Score Threshold'' (Number_In (wp_anomalyThreshold p))
               ''Default: 5. Lower = stricter, Higher = permissive'',
             input_of ''Outbound Anomaly Score Threshold'' (Number_In (wp_outboundAnomalyThreshold p))
               ''Default: 4. Detects data leakage'']
         | Tab_Methods \<Rightarrow> map (\<lambda>meth. input_of meth (Switch_In (meth \<in> set (wp_allowedMethods p))) []) waf_methods @
             [input_of ''Disabled OWASP CRS Rules'' (Text_In (wp_disabledRules p))
               ''Default: 920274, 942421 (Cloudflare compatibility)'']
         | Tab_Custom \<Rightarrow> [input_of ''Custom Coraza Rules'' (Lines_In (wp_customRules p)) []])"

datatype waf_event =
    Open_Waf_Tab waf_tab | Choose_Level int | Type_Inbound string | Type_Outbound string | Tick_Method string
  | Type_Disabled string | Type_Custom string

text \<open>The controls of a tab are there while it is open; a check box turns what it shows around.\<close>

fun waf_act :: "waf_event \<Rightarrow> waf_screen \<Rightarrow> waf_screen option" where
  "waf_act (Open_Waf_Tab t) s = Some (s\<lparr>ws_activeTab := t\<rparr>)"
| "waf_act (Choose_Level l) s =
     (if ws_activeTab s = Tab_Paranoia \<and> l \<in> fst ` set paranoia_levels
      then Some (s\<lparr>ws_form := (ws_form s)\<lparr>wp_paranoiaLevel := l\<rparr>\<rparr>) else None)"
| "waf_act (Type_Inbound t) s =
     (if ws_activeTab s = Tab_Scoring
      then Some (s\<lparr>ws_form := (ws_form s)\<lparr>wp_anomalyThreshold := parseInt_or 0 t\<rparr>\<rparr>) else None)"
| "waf_act (Type_Outbound t) s =
     (if ws_activeTab s = Tab_Scoring
      then Some (s\<lparr>ws_form := (ws_form s)\<lparr>wp_outboundAnomalyThreshold := parseInt_or 0 t\<rparr>\<rparr>) else None)"
| "waf_act (Tick_Method meth) s =
     (if ws_activeTab s = Tab_Methods \<and> meth \<in> set waf_methods
      then Some (s\<lparr>ws_form := toggle_method meth (meth \<notin> set (wp_allowedMethods (ws_form s))) (ws_form s)\<rparr>) else None)"
| "waf_act (Type_Disabled t) s =
     (if ws_activeTab s = Tab_Methods then Some (s\<lparr>ws_form := (ws_form s)\<lparr>wp_disabledRules := t\<rparr>\<rparr>) else None)"
| "waf_act (Type_Custom t) s =
     (if ws_activeTab s = Tab_Custom then Some (s\<lparr>ws_form := (ws_form s)\<lparr>wp_customRules := t\<rparr>\<rparr>) else None)"

text \<open>A control, or an answer of the query, which the page loads whatever was typed.\<close>

inductive waf_step :: "waf_screen \<Rightarrow> waf_screen \<Rightarrow> bool" where
  waf_control: "waf_act e s = Some s' \<Longrightarrow> waf_step s s'"
| waf_answer: "ValidateWAFConfig c = None \<Longrightarrow> distinct (waf_allowed_methods c) \<Longrightarrow> waf_step s (s\<lparr>ws_form := waf_load c\<rparr>)"

subsection \<open>Detections\<close>

text \<open>The figures of the cards: the rows of the log at hand, and the two counts of the statistics.\<close>

definition waf_cards :: "log_entry list option \<Rightarrow> (int \<times> int) option \<Rightarrow> (string \<times> int) list" where
  "waf_cards wafLogs wafStats = [
     (''Detections'', int (case wafLogs of None \<Rightarrow> 0 | Some ls \<Rightarrow> length ls)),
     (''Blocked'', case wafStats of None \<Rightarrow> 0 | Some (blocked, _) \<Rightarrow> blocked),
     (''Challenged'', case wafStats of None \<Rightarrow> 0 | Some (_, challenged) \<Rightarrow> challenged)]"

text \<open>\<open>find\<close> over the stages of a trace: a member of \<open>null\<close> throws.  Scores are numbers.\<close>

definition positive_score :: "json option \<Rightarrow> bool" where
  "positive_score j = (case j of Some (JNum n) \<Rightarrow> 0 < n | Some (JDec n _) \<Rightarrow> 0 < n | _ \<Rightarrow> False)"

fun find_waf_stage :: "json list \<Rightarrow> json option option" where
  "find_waf_stage [] = Some None"
| "find_waf_stage (s # ss) =
     (if s = JNull then None
      else if json_get s ''stage'' = Some (JStr ''waf_anomaly'') \<and> positive_score (json_get s ''score'') then Some (Some s)
      else find_waf_stage ss)"

text \<open>\<open>parse\<close> is \<open>JSON.parse\<close>; all that throws gives the empty text.\<close>

definition extractWAFRuleID :: "(string \<Rightarrow> json option) \<Rightarrow> log_entry \<Rightarrow> string" where
  "extractWAFRuleID parse l =
     (case log_pipeline_trace l of
        None \<Rightarrow> []
      | Some text \<Rightarrow>
          if text = [] then []
          else (case Option.bind (parse text) (\<lambda>trace. json_get trace ''stages'') of
                  Some (JArr stages) \<Rightarrow>
                    (case find_waf_stage stages of
                       Some (Some s) \<Rightarrow> (case json_get s ''rule_id'' of
                            None \<Rightarrow> [] | Some r \<Rightarrow> if truthy r then js_String r else [])
                     | _ \<Rightarrow> [])
                | _ \<Rightarrow> []))"

record detection_row =
  dr_time    :: string
  dr_ip      :: string
  dr_country :: string
  dr_badge   :: string
  dr_action  :: string
  dr_path    :: string
  dr_rule    :: string

definition detection_row_view :: "(string \<Rightarrow> string) \<Rightarrow> (string \<Rightarrow> json option) \<Rightarrow> log_entry \<Rightarrow> detection_row" where
  "detection_row_view locale_time parse l = \<lparr>
     dr_time = locale_time (log_ts l), dr_ip = log_ip l,
     dr_country = (if log_country l = [] then ''-'' else log_country l),
     dr_badge = (if log_action l = Log_Block then ''action-block''
                 else if log_action l = Log_Challenge then ''action-challenge'' else ''action-allow''),
     dr_action = log_action_str (log_action l), dr_path = log_path l,
     dr_rule = (if extractWAFRuleID parse l = [] then ''N/A'' else extractWAFRuleID parse l)\<rparr>"

definition detections ::
  "bool \<Rightarrow> (string \<Rightarrow> string) \<Rightarrow> (string \<Rightarrow> json option) \<Rightarrow> log_entry list \<Rightarrow> string + detection_row list" where
  "detections loading locale_time parse wafLogs =
     (if loading then Inl ''Loading logs...''
      else if wafLogs = [] then Inl ''No WAF detections yet''
      else Inr (map (detection_row_view locale_time parse) (Js_Prelude.slice 0 10 wafLogs)))"

section \<open>Challenge page\<close>

datatype challenge_tab = Tab_Appearance | Tab_Analytics

datatype preview_device = Desktop | Mobile

record challenge_screen =
  ch_activeTab     :: challenge_tab
  ch_previewDevice :: preview_device
  ch_timeRange     :: string
  ch_searchTerm    :: string
  ch_page          :: nat
  ch_form          :: challenge_form

definition default_trust_levels :: trust_level_config where
  "default_trust_levels = \<lparr>tl_level0_max = (40, 2), tl_level1_max = (60, 2), tl_level2_max = (80, 2),
     tl_reductions = (0, -5, -10, -15)\<rparr>"

definition challenge_screen_initial :: "local_storage \<Rightarrow> challenge_screen" where
  "challenge_screen_initial ls = \<lparr>ch_activeTab = Tab_Appearance, ch_previewDevice = Desktop,
     ch_timeRange = challenged_range ls, ch_searchTerm = [], ch_page = 1,
     ch_form = \<lparr>cf_title = [], cf_description = [], cf_footer = [], cf_show_ray_id = True, cf_custom_html = [], cf_custom = False,
       cf_challenge_duration = 36000, cf_challenge_wait = 3, cf_max_attempts = 3, cf_trust_levels = default_trust_levels\<rparr>\<rparr>"

subsection \<open>Appearance\<close>

definition appearance_inputs :: "challenge_form \<Rightarrow> input_view list" where
  "appearance_inputs f = [
     input_of ''Page Title'' (Text_In (cf_title f)) [],
     input_of ''Description'' (Lines_In (cf_description f)) [],
     input_of ''Footer Text'' (Text_In (cf_footer f)) [],
     input_of ''Show Ray ID'' (Switch_In (cf_show_ray_id f)) ''Unique identifier for troubleshooting'',
     input_of ''Expiry (sec)'' (Number_In (cf_challenge_duration f)) ''Verified session'',
     input_of ''Timeout (sec)'' (Number_In (cf_challenge_wait f)) ''Challenge expires'',
     input_of ''Max Attempts'' (Number_In (cf_max_attempts f)) ''Retries before refresh'']"

fun reduction_at :: "int \<times> int \<times> int \<times> int \<Rightarrow> nat \<Rightarrow> int" where
  "reduction_at (a, b, c, d) i = (if i = 0 then a else if i = 1 then b else if i = 2 then c else d)"

fun set_reduction :: "int \<times> int \<times> int \<times> int \<Rightarrow> nat \<Rightarrow> int \<Rightarrow> int \<times> int \<times> int \<times> int" where
  "set_reduction (a, b, c, d) i v =
     (if i = 0 then (v, b, c, d) else if i = 1 then (a, v, c, d) else if i = 2 then (a, b, v, d) else (a, b, c, v))"

definition trust_level_inputs :: "challenge_form \<Rightarrow> input_view list" where
  "trust_level_inputs f = map (\<lambda>(i, label, desc). input_of label (Number_In (reduction_at (tl_reductions (cf_trust_levels f)) i)) desc)
     [(0, ''Level 0'', ''Solved but suspicious''), (1, ''Level 1'', ''Basic verification''),
      (2, ''Level 2'', ''Natural interaction''), (3, ''Level 3'', ''High confidence human'')]"

text \<open>The three boundaries, their labels without the arrows.\<close>

definition boundary_inputs :: "challenge_form \<Rightarrow> (string \<times> string \<times> decimal) list" where
  "boundary_inputs f =
     (let t = cf_trust_levels f
      in [(''L0'', ''L1'', tl_level0_max t), (''L1'', ''L2'', tl_level1_max t), (''L2'', ''L3'', tl_level2_max t)])"

datatype challenge_input =
    Challenge_Title string | Challenge_Description string | Challenge_Footer string | Challenge_Ray_Id bool
  | Challenge_Expiry string | Challenge_Timeout string | Challenge_Attempts string
  | Challenge_Reduction nat string | Challenge_Boundary nat decimal

fun challenge_form_act :: "challenge_input \<Rightarrow> challenge_form \<Rightarrow> challenge_form" where
  "challenge_form_act (Challenge_Title s) f = f\<lparr>cf_title := s\<rparr>"
| "challenge_form_act (Challenge_Description s) f = f\<lparr>cf_description := s\<rparr>"
| "challenge_form_act (Challenge_Footer s) f = f\<lparr>cf_footer := s\<rparr>"
| "challenge_form_act (Challenge_Ray_Id b) f = f\<lparr>cf_show_ray_id := b\<rparr>"
| "challenge_form_act (Challenge_Expiry s) f = f\<lparr>cf_challenge_duration := parseInt_or 0 s\<rparr>"
| "challenge_form_act (Challenge_Timeout s) f = f\<lparr>cf_challenge_wait := parseInt_or 0 s\<rparr>"
| "challenge_form_act (Challenge_Attempts s) f = f\<lparr>cf_max_attempts := parseInt_or 3 s\<rparr>"
| "challenge_form_act (Challenge_Reduction i s) f = f\<lparr>cf_trust_levels := (cf_trust_levels f)
     \<lparr>tl_reductions := set_reduction (tl_reductions (cf_trust_levels f)) i (parseInt_or 0 s)\<rparr>\<rparr>"
| "challenge_form_act (Challenge_Boundary i d) f = f\<lparr>cf_trust_levels :=
     (if i = 0 then (cf_trust_levels f)\<lparr>tl_level0_max := d\<rparr>
      else if i = 1 then (cf_trust_levels f)\<lparr>tl_level1_max := d\<rparr>
      else (cf_trust_levels f)\<lparr>tl_level2_max := d\<rparr>)\<rparr>"

text \<open>The texts of the preview that come from the form.\<close>

definition challenge_preview :: "challenge_form \<Rightarrow> string list" where
  "challenge_preview f = [
     text_or (cf_title f) ''Verify you are human'',
     text_or (cf_description f) ''Slide the handle to the highlighted zone to prove you are not bot.'',
     ''Protected by '' @ text_or (cf_footer f) ''Vibes WAF'']"

subsection \<open>Analytics\<close>

definition challenge_days :: "string \<Rightarrow> int \<times> int" where
  "challenge_days timeRange =
     (if timeRange = ''1d'' then (1, 1000) else if timeRange = ''7d'' then (7, 5000) else (30, 10000))"

definition challenge_range_text :: "string \<Rightarrow> string" where
  "challenge_range_text timeRange =
     (if timeRange = ''1d'' then ''Last 24 hours'' else if timeRange = ''7d'' then ''Last 7 days'' else ''Last 30 days'')"

record challenge_stats =
  cst_total  :: int
  cst_solved :: int
  cst_failed :: int
  cst_rate   :: rat

definition challenge_cards :: "challenge_stats option \<Rightarrow> (string \<times> string \<times> string) list" where
  "challenge_cards data =
     (let stats = (case data of None \<Rightarrow> \<lparr>cst_total = 0, cst_solved = 0, cst_failed = 0, cst_rate = 0\<rparr> | Some s \<Rightarrow> s)
      in [(''Challenges Issued'', int_to_string (cst_total stats), ''Total Logs''),
          (''Solved (Est.)'', int_to_string (cst_solved stats), percent_text 1 (cst_rate stats) @ '' Rate''),
          (''Bounced / Failed'', int_to_string (cst_failed stats), ''Dropped Requests''),
          (''Avg. Solve Time'', ''3.4'', ''Seconds'')])"

record challenge_row =
  chr_time   :: string
  chr_date   :: string
  chr_ip     :: string
  chr_host   :: string
  chr_reason :: string
  chr_status :: string
  chr_ua     :: string

definition challenge_row_view :: "(string \<Rightarrow> string) \<Rightarrow> (string \<Rightarrow> string) \<Rightarrow> log_entry \<Rightarrow> challenge_row" where
  "challenge_row_view locale_time locale_date l = \<lparr>
     chr_time = locale_time (log_ts l), chr_date = locale_date (log_ts l), chr_ip = log_ip l, chr_host = log_host l,
     chr_reason = text_or (log_reason l) ''BOT_SUSPECT'',
     chr_status = (if log_action l = Log_Solved then ''Solved'' else if log_action l = Log_Failed then ''Failed'' else ''Issued''),
     chr_ua = log_ua l\<rparr>"

definition challenge_table ::
  "bool \<Rightarrow> (string \<Rightarrow> string) \<Rightarrow> (string \<Rightarrow> string) \<Rightarrow> log_entry list \<Rightarrow> challenge_screen \<Rightarrow> string + challenge_row list" where
  "challenge_table loading locale_time locale_date logs st =
     (if loading then Inl ''Streaming Logs...''
      else (let rows = paginatedLogs (ch_searchTerm st) logs (ch_page st)
            in if rows = [] then Inl ''No challenged requests found matching your filter.''
               else Inr (map (challenge_row_view locale_time locale_date) rows)))"

text \<open>The line under the table, with its two numbers and the length, is there when something matches.\<close>

definition challenge_caption :: "log_entry list \<Rightarrow> challenge_screen \<Rightarrow> (nat \<times> nat \<times> nat) option" where
  "challenge_caption logs st =
     (let n = length (filteredLogs (ch_searchTerm st) logs)
      in if n = 0 then None else Some (showing_from n 50 (ch_page st), showing_to n 50 (ch_page st), n))"

definition challenge_pager :: "log_entry list \<Rightarrow> challenge_screen \<Rightarrow> nat option \<times> nat option" where
  "challenge_pager logs st =
     (if filteredLogs (ch_searchTerm st) logs = [] then (None, None)
      else (if ch_page st = 1 then None else Some (ch_page st - 1),
            if ch_page st = totalLogPages (ch_searchTerm st) logs then None else Some (ch_page st + 1)))"

datatype challenge_event =
    Open_Challenge_Tab challenge_tab | Preview_On preview_device | Challenge_Form challenge_input
  | Choose_Challenge_Range string | Find_Challenges string | Previous_Challenges | Next_Challenges

fun challenge_act :: "log_entry list \<Rightarrow> challenge_event \<Rightarrow> challenge_screen \<Rightarrow> challenge_screen option" where
  "challenge_act logs (Open_Challenge_Tab t) st = Some (st\<lparr>ch_activeTab := t\<rparr>)"
| "challenge_act logs (Preview_On d) st = (if ch_activeTab st = Tab_Appearance then Some (st\<lparr>ch_previewDevice := d\<rparr>) else None)"
| "challenge_act logs (Challenge_Form e) st =
     (if ch_activeTab st = Tab_Appearance then Some (st\<lparr>ch_form := challenge_form_act e (ch_form st)\<rparr>) else None)"
| "challenge_act logs (Choose_Challenge_Range r) st =
     (if ch_activeTab st = Tab_Analytics \<and> r \<in> set day_ranges then Some (st\<lparr>ch_timeRange := r\<rparr>) else None)"
| "challenge_act logs (Find_Challenges s) st =
     (if ch_activeTab st = Tab_Analytics then Some (st\<lparr>ch_searchTerm := s, ch_page := 1\<rparr>) else None)"
| "challenge_act logs Previous_Challenges st =
     (if ch_activeTab st = Tab_Analytics then map_option (\<lambda>p. st\<lparr>ch_page := p\<rparr>) (fst (challenge_pager logs st)) else None)"
| "challenge_act logs Next_Challenges st =
     (if ch_activeTab st = Tab_Analytics then map_option (\<lambda>p. st\<lparr>ch_page := p\<rparr>) (snd (challenge_pager logs st)) else None)"

text \<open>The save button is there on the first tab.\<close>

definition challenge_save :: "server \<Rightarrow> bot_config option \<Rightarrow> challenge_screen \<Rightarrow> ui_effect list option" where
  "challenge_save server botConfig st =
     (if ch_activeTab st = Tab_Appearance then Some (challenge_handleSave server botConfig (ch_form st)) else None)"

section \<open>The trust of a solved challenge\<close>

definition decimal_value :: "decimal \<Rightarrow> rat" where
  "decimal_value d = of_int (fst d) / 10 ^ snd d"

definition ComputeTrustLevel :: "rat \<Rightarrow> rat \<Rightarrow> trust_level_config \<Rightarrow> nat" where
  "ComputeTrustLevel trajectoryScore signalsScore cfg =
     (let confidence = trajectoryScore * (7 / 10) + signalsScore * (3 / 10)
      in if confidence < decimal_value (tl_level0_max cfg) then 0
         else if confidence < decimal_value (tl_level1_max cfg) then 1
         else if confidence < decimal_value (tl_level2_max cfg) then 2 else 3)"

text \<open>The entry the trust scorer adds for a request with a passed challenge.\<close>

definition trust_entries :: "trust_level_config \<Rightarrow> nat \<Rightarrow> (score_category \<times> string \<times> int) list" where
  "trust_entries cfg level =
     (let reduction = (if level \<le> 3 then reduction_at (tl_reductions cfg) level else 0)
      in if reduction \<noteq> 0 then [(Cat_Trust, ''challenge_trust_level_'' @ nat_to_string level, reduction)] else [])"

section \<open>The forms against the server\<close>

lemma validate_waf: "ValidateWAFConfig c = None \<longleftrightarrow> 1 \<le> waf_paranoia_level c \<and> waf_paranoia_level c \<le> 4 \<and>
    1 \<le> waf_anomaly_threshold c \<and> waf_anomaly_threshold c \<le> 100"
  by (auto simp: ValidateWAFConfig_def first_refusal_None)

definition waf_form_ok :: "waf_page \<Rightarrow> bool" where
  "waf_form_ok p \<longleftrightarrow> wp_paranoiaLevel p \<in> fst ` set paranoia_levels \<and> distinct (wp_allowedMethods p)"

lemma level_range: "l \<in> fst ` set paranoia_levels \<longleftrightarrow> 1 \<le> l \<and> l \<le> 4"
  by (auto simp: paranoia_levels_def)

lemma waf_act_ok: "waf_act e s = Some s' \<Longrightarrow> waf_form_ok (ws_form s) \<Longrightarrow> waf_form_ok (ws_form s')"
  by (cases e) (auto simp: waf_form_ok_def toggle_method_def level_range split: if_splits)

lemma waf_load_ok: "ValidateWAFConfig c = None \<Longrightarrow> distinct (waf_allowed_methods c) \<Longrightarrow> waf_form_ok (waf_load c)"
  by (simp add: waf_form_ok_def waf_load_def validate_waf level_range num_or_def)

lemma waf_reach_ok: "waf_step\<^sup>*\<^sup>* s t \<Longrightarrow> waf_form_ok (ws_form s) \<Longrightarrow> waf_form_ok (ws_form t)"
proof (induction rule: rtranclp_induct)
  case (step t u)
  show ?case using step.hyps(2) step.IH [OF step.prems] by (cases rule: waf_step.cases) (auto intro: waf_act_ok waf_load_ok)
qed simp



text \<open>The page does not show what it stored.  An outbound threshold that is emptied is saved as 0, the server takes it, and the
  page, loading what is stored, shows the default 4.\<close>

theorem outbound_zero_hidden:
  assumes "ws_activeTab s = Tab_Scoring" and "waf_form_ok (ws_form s)"
    and "1 \<le> wp_anomalyThreshold (ws_form s)" and "wp_anomalyThreshold (ws_form s) \<le> 100"
  shows "(case waf_act (Type_Outbound []) s of
      None \<Rightarrow> False
    | Some s' \<Rightarrow> (let c = waf_request (ws_form s')
        in ValidateWAFConfig c = None \<and> waf_outbound_anomaly_threshold c = 0 \<and>
           wp_outboundAnomalyThreshold (waf_load c) = 4))"
proof -
  have "parseInt_or 0 [] = 0" by code_simp
  then show ?thesis
    using assms by (simp add: Let_def validate_waf waf_request_def waf_load_def num_or_def waf_form_ok_def level_range)
qed

theorem outbound_zero_hidden_witness:
  "(case waf_act (Type_Outbound []) \<lparr>ws_form = waf_page_initial, ws_activeTab = Tab_Scoring\<rparr> of
      None \<Rightarrow> False
    | Some s' \<Rightarrow> (let c = waf_request (ws_form s')
        in ValidateWAFConfig c = None \<and> waf_outbound_anomaly_threshold c = 0 \<and> wp_outboundAnomalyThreshold (waf_load c) = 4))"
  by (rule outbound_zero_hidden) (simp_all add: waf_form_ok_def waf_page_initial_def level_range)

section \<open>The table of challenges\<close>

text \<open>As long as the events stay the same the page number stays within the table.\<close>

lemma challenge_act_page:
  assumes "challenge_act logs e st = Some st'" and "1 \<le> ch_page st" and "ch_page st \<le> totalLogPages (ch_searchTerm st) logs"
  shows "1 \<le> ch_page st' \<and> ch_page st' \<le> totalLogPages (ch_searchTerm st') logs"
proof -
  have "1 \<le> totalLogPages s logs" for s by (simp add: totalLogPages_def)
  then show ?thesis using assms by (cases e) (auto simp: challenge_pager_def split: if_splits)
qed

text \<open>A table that loses pages keeps the page number.  After another time range is chosen the number stays, and when it is
  beyond the last page of the new events, nothing is shown, the line under the table says that it shows the last
  event, and \<open>Next\<close> still leads further away.\<close>

theorem challenge_page_lost:
  assumes "challenge_act logs (Choose_Challenge_Range r) st = Some st'" and "filteredLogs (ch_searchTerm st) logs' \<noteq> []"
    and "totalLogPages (ch_searchTerm st) logs' < ch_page st"
  shows "challenge_table False lt ld logs' st' = Inl ''No challenged requests found matching your filter.'' \<and>
    (let n = length (filteredLogs (ch_searchTerm st) logs') in challenge_caption logs' st' = Some (n, n, n)) \<and>
    challenge_pager logs' st' = (Some (ch_page st - 1), Some (ch_page st + 1))"
proof -
  let ?xs = "filteredLogs (ch_searchTerm st) logs'"
  have st': "ch_searchTerm st' = ch_searchTerm st" "ch_page st' = ch_page st" using assms(1) by (auto split: if_splits)
  have e: "paginatedLogs (ch_searchTerm st) logs' (ch_page st) = []" by (rule challenge_table.beyond_empty [OF assms(3)])
  have "total_pages (length ?xs) 50 < ch_page st" using assms(3) by (simp add: totalLogPages_def)
  then obtain q where q: "ch_page st = Suc q" "total_pages (length ?xs) 50 \<le> q" by (cases "ch_page st") auto
  have "length ?xs \<le> q * 50"
    using total_pages_enough [of 50 "length ?xs"] q(2) by (meson le_trans mult_le_mono1 zero_less_numeral)
  then have "showing_from (length ?xs) 50 (ch_page st) = length ?xs" "showing_to (length ?xs) 50 (ch_page st) = length ?xs"
    by (simp_all add: showing_from_def showing_to_def q(1))
  moreover have "ch_page st \<noteq> 1" "ch_page st \<noteq> totalLogPages (ch_searchTerm st) logs'"
    using assms(3) by (auto simp: totalLogPages_def)
  ultimately show ?thesis using assms(2) e by (simp add: challenge_table_def challenge_caption_def challenge_pager_def st' Let_def)
qed

definition challenged_entry :: log_entry where
  "challenged_entry = \<lparr>log_ts = [], log_ip = ''1.1.1.1'', log_host = ''a'', log_path = ''/'', log_ua = [], log_action = Log_Challenge,
     log_reason = [], log_status = 403, log_latency = 0, log_pipeline_latency = 0, log_upstream_latency = 0, log_app_id = [],
     log_country = [], log_asn = 0, log_asn_org = [], log_device_type = [], log_os = [], log_pipeline_trace = None\<rparr>"

theorem challenge_page_lost_witness:
  "(let st = (challenge_screen_initial [])\<lparr>ch_activeTab := Tab_Analytics, ch_page := 2\<rparr>
    in totalLogPages (ch_searchTerm st) (replicate 51 challenged_entry) = 2 \<and>
       challenge_pager [challenged_entry] (st\<lparr>ch_timeRange := ''1d''\<rparr>) = (Some 1, Some 3))"
proof -
  let ?st = "(challenge_screen_initial [])\<lparr>ch_activeTab := Tab_Analytics, ch_page := 2\<rparr>"
  have a: "challenge_act (replicate 51 challenged_entry) (Choose_Challenge_Range ''1d'') ?st = Some (?st\<lparr>ch_timeRange := ''1d''\<rparr>)"
    by code_simp
  have b: "filteredLogs (ch_searchTerm ?st) [challenged_entry] \<noteq> []" by code_simp
  have c: "totalLogPages (ch_searchTerm ?st) [challenged_entry] < ch_page ?st" by code_simp
  have d: "totalLogPages (ch_searchTerm ?st) (replicate 51 challenged_entry) = 2" by code_simp
  show ?thesis using challenge_page_lost [OF a b c] d by (simp add: Let_def)
qed

section \<open>Trust and risk\<close>

definition weighted :: "category_weight \<Rightarrow> int \<Rightarrow> int" where
  "weighted cw n =
     (if \<not> cw_enabled cw then (if 0 < n then 0 else n)
      else min (cw_max_score cw) (if fst (cw_multiplier cw) = 10 ^ snd (cw_multiplier cw) then n else times_decimal n (cw_multiplier cw)))"

lemma get_category_weighted: "rs_get cat (applyCategory cat cw rs) = weighted cw (rs_get cat rs)"
  by (simp add: applyCategory_def ApplyCap_def ApplyMultiplier_def weighted_def)

lemma weighted_sum: "score_sum (applyWeights c rs) =
    weighted (sw_ip_reputation (sc_weights c)) (rs_get Cat_Ip_Reputation rs) +
    weighted (sw_bot_detection (sc_weights c)) (rs_get Cat_Bot_Detection rs) +
    weighted (sw_waf_anomaly (sc_weights c)) (rs_get Cat_Waf_Anomaly rs) +
    weighted (sw_protocol_anomaly (sc_weights c)) (rs_get Cat_Protocol_Anomaly rs) + rs_get Cat_Trust rs"
  by (simp add: score_sum_def applyWeights_def get_category_weighted)

lemma get_add_trust: "rs_get cat (fold rs_Add (map (Pair Cat_Trust) ts) rs) =
    rs_get cat rs + (if cat = Cat_Trust then sum_list (map snd ts) else 0)"
  by (induction ts arbitrary: rs) (auto simp: rs_Add_def)

lemma risk_with_trust:
  "rs_Total (request_risk c (es @ trust_entries cfg level)) =
     min 100 (max 0 (score_sum (applyWeights c (fold rs_Add es NewRiskScore)) +
       (if level \<le> 3 then reduction_at (tl_reductions cfg) level else 0)))"
proof -
  obtain ts where ts: "trust_entries cfg level = map (Pair Cat_Trust) ts"
    "sum_list (map snd ts) = (if level \<le> 3 then reduction_at (tl_reductions cfg) level else 0)"
  proof (cases "(if level \<le> 3 then reduction_at (tl_reductions cfg) level else 0) = 0")
    case True
    then show ?thesis using that [of "[]"] by (simp add: trust_entries_def Let_def)
  next
    case False
    then show ?thesis
      using that [of "[(''challenge_trust_level_'' @ nat_to_string level, if level \<le> 3 then reduction_at (tl_reductions cfg) level else 0)]"]
      by (simp add: trust_entries_def Let_def)
  qed
  show ?thesis by (simp add: request_total(1) ts weighted_sum get_add_trust)
qed

lemma trust_level_mono:
  assumes "t * (7 / 10) + s * (3 / 10) \<le> t' * (7 / 10) + s' * (3 / 10)"
  shows "ComputeTrustLevel t s cfg \<le> ComputeTrustLevel t' s' cfg"
  using assms by (simp add: ComputeTrustLevel_def Let_def)

lemma trust_level_max: "ComputeTrustLevel t s cfg \<le> 3"
  by (simp add: ComputeTrustLevel_def Let_def)

text \<open>Reductions that do not grow from level to level.\<close>

definition reductions_sorted :: "trust_level_config \<Rightarrow> bool" where
  "reductions_sorted cfg = (case tl_reductions cfg of (a, b, c, d) \<Rightarrow> a \<ge> b \<and> b \<ge> c \<and> c \<ge> d)"

lemma reductions_antimono: "reductions_sorted cfg \<Longrightarrow> i \<le> j \<Longrightarrow> j \<le> 3 \<Longrightarrow>
    reduction_at (tl_reductions cfg) j \<le> reduction_at (tl_reductions cfg) i"
  by (cases "tl_reductions cfg") (auto simp: reductions_sorted_def)

text \<open>C35: a more human solution is never scored higher.  With the levels saved on the challenge page, when the reductions entered do
  not grow from level to level, a solved challenge with more confidence gives the same request at most the risk that one
  with less confidence gives it, whatever the boundaries are and whatever else the scorers find.\<close>

theorem trust_lowers_risk:
  assumes "reductions_sorted (cf_trust_levels f)" and "t * (7 / 10) + s * (3 / 10) \<le> t' * (7 / 10) + s' * (3 / 10)"
  shows "(let cfg = bc_trust_levels (challenge_request b f)
    in rs_Total (request_risk c (es @ trust_entries cfg (ComputeTrustLevel t' s' cfg)))
         \<le> rs_Total (request_risk c (es @ trust_entries cfg (ComputeTrustLevel t s cfg))))"
proof -
  let ?cfg = "cf_trust_levels f"
  have "reduction_at (tl_reductions ?cfg) (ComputeTrustLevel t' s' ?cfg) \<le> reduction_at (tl_reductions ?cfg) (ComputeTrustLevel t s ?cfg)"
    by (rule reductions_antimono [OF assms(1) trust_level_mono [OF assms(2)] trust_level_max])
  then show ?thesis
    using trust_level_max [of t s ?cfg] trust_level_max [of t' s' ?cfg] by (simp add: Let_def challenge_request_def risk_with_trust)
qed

theorem trust_lowers_risk_witness:
  "(let f = ch_form (challenge_screen_initial []); cfg = cf_trust_levels f
    in rs_Total (request_risk sample_scoring ([(Cat_Waf_Anomaly, ''a'', 20)] @ trust_entries cfg (ComputeTrustLevel (9/10) 1 cfg)))
       \<le> rs_Total (request_risk sample_scoring ([(Cat_Waf_Anomaly, ''a'', 20)] @ trust_entries cfg (ComputeTrustLevel (1/2) 0 cfg))))"
proof -
  let ?f = "ch_form (challenge_screen_initial [])"
  have "reductions_sorted (cf_trust_levels ?f)"
    by (simp add: challenge_screen_initial_def default_trust_levels_def reductions_sorted_def)
  moreover have "(1 / 2 :: rat) * (7 / 10) + 0 * (3 / 10) \<le> 9 / 10 * (7 / 10) + 1 * (3 / 10)" by simp
  ultimately show ?thesis
    using trust_lowers_risk [where f = ?f and c = sample_scoring and es = "[(Cat_Waf_Anomaly, ''a'', 20)]"]
    by (simp add: Let_def challenge_request_def)
qed

end
