(* ===== verification/Trace_Pages.thy ===== *)
theory Trace_Pages
  imports Engine_Pages Widgets
begin

text \<open>
  What the event log and the page of fingerprints show (\<open>Logs.tsx\<close> and \<open>Fingerprints.tsx\<close> under
  \<open>src/frontend/src/pages/monitoring\<close>, the markup of the components): the rows, the drawer with the pipeline trace of a request
  and its controls, the detail of a fingerprint.  Of the backend: the trace as it is stored (\<open>src/internal/pipeline/trace.go\<close>)
  and the weights entered into it (\<open>enrichTraceWithWeights\<close> of \<open>pipeline.go\<close>).  A stored trace has the shape the backend writes;
  \<open>parse\<close> is \<open>JSON.parse\<close>, \<open>locale_number\<close> is \<open>toLocaleString\<close>, and \<open>format_time\<close> and \<open>format_date\<close> are date-fns.
\<close>

section \<open>Rows of the event log\<close>

definition truncateIP :: "string \<Rightarrow> string" where
  "truncateIP ip =
     (let parts = split_on (CHR '':'') ip
      in if str_includes ip '':'' \<and> 4 < length parts then join '':'' (take 3 parts) @ '':...'' else ip)"

definition dash_or :: "string \<Rightarrow> string" where
  "dash_or s = (if s = [] then em_dash else s)"

definition has_trace :: "log_entry \<Rightarrow> bool" where
  "has_trace l \<longleftrightarrow> (case log_pipeline_trace l of None \<Rightarrow> False | Some t \<Rightarrow> t \<noteq> [])"

record event_row =
  evr_title  :: string
  evr_cells  :: "string list"
  evr_action :: "string \<times> string"
  evr_path   :: string

definition event_row_view :: "(string \<Rightarrow> string) \<Rightarrow> log_entry \<Rightarrow> event_row" where
  "event_row_view format_time l = \<lparr>
     evr_title = (if has_trace l then ''View pipeline trace'' else ''No trace available''),
     evr_cells = [format_time (log_ts l), dash_or (log_app_id l), dash_or (log_host l), truncateIP (log_ip l),
       dash_or (log_country l), dash_or (log_asn_org l), dash_or (log_device_type l), dash_or (log_os l), dash_or (log_ua l),
       dash_or (log_reason l), int_to_string (log_status l)],
     evr_action = (actionBadge (log_action l),
       case log_action l of Log_Solved \<Rightarrow> ''solved'' | Log_Failed \<Rightarrow> ''failed'' | a \<Rightarrow> log_action_str a),
     evr_path = log_path l\<rparr>"

definition event_columns :: "string list" where
  "event_columns = [''Raw'', ''Time'', ''App'', ''Host'', ''IP'', ''Country'', ''ASN'', ''Device'', ''OS'', ''UA'', ''Reason'',
     ''Status'', ''Action'', ''Path'']"

definition event_count_texts :: "nat \<Rightarrow> nat \<Rightarrow> string list" where
  "event_count_texts shown totalCount =
     (nat_to_string shown @ '' events'') # (if 0 < totalCount then [''of '' @ nat_to_string totalCount] else [])"

text \<open>The choices of the two filters.\<close>

definition app_options :: "app list option \<Rightarrow> (string \<times> string) list" where
  "app_options apps = ([], ''All Applications'') # (case apps of None \<Rightarrow> [] | Some as \<Rightarrow> map (\<lambda>a. (app_id a, app_domain a)) as)"

definition action_choices :: "access_action option list" where
  "action_choices = [None, Some Acc_Allow, Some Acc_Block, Some Acc_Challenge]"

definition action_choice_text :: "access_action option \<Rightarrow> string" where
  "action_choice_text f =
     (case f of None \<Rightarrow> ''All''
      | Some a \<Rightarrow> toUpperCase (take 1 (access_action_str a)) @ drop 1 (access_action_str a))"

text \<open>The page with the event whose trace is open.  While a request without data in the cache is loading there is no control, but
  the timer of the search runs on.\<close>

record log_screen =
  lgs_page     :: logs_page
  lgs_selected :: "log_entry option"

datatype log_event =
    Log_Search string | Log_App string | Log_Action "access_action option" | Log_Timer | Open_Trace log_entry | Close_Trace
  | Previous_Events | Next_Events

definition on_logs :: "(logs_page \<Rightarrow> logs_page) \<Rightarrow> log_screen \<Rightarrow> log_screen" where
  "on_logs f st = st\<lparr>lgs_page := f (lgs_page st)\<rparr>"

fun log_act :: "bool \<Rightarrow> app list option \<Rightarrow> log_entry list \<Rightarrow> nat \<Rightarrow> log_event \<Rightarrow> log_screen \<Rightarrow> log_screen option" where
  "log_act loading apps logs n Log_Timer st = Some (on_logs search_timer st)"
| "log_act loading apps logs n (Log_Search q) st = (if loading then None else Some (on_logs (setSearchQuery q) st))"
| "log_act loading apps logs n (Log_App a) st =
     (if loading \<or> a \<notin> set (map fst (app_options apps)) then None else Some (on_logs (setAppFilter a) st))"
| "log_act loading apps logs n (Log_Action f) st = (if loading then None else Some (on_logs (setActionFilter f) st))"
| "log_act loading apps logs n (Open_Trace l) st =
     (if loading \<or> l \<notin> set logs then None else Some (st\<lparr>lgs_selected := Some l\<rparr>))"
| "log_act loading apps logs n Close_Trace st =
     (if loading \<or> lgs_selected st = None then None else Some (st\<lparr>lgs_selected := None\<rparr>))"
| "log_act loading apps logs n Previous_Events st =
     (if loading \<or> total_pages n 100 \<le> 1 \<or> lg_page (lgs_page st) = 1 then None else Some (on_logs logs_previous st))"
| "log_act loading apps logs n Next_Events st =
     (if loading \<or> total_pages n 100 \<le> 1 \<or> total_pages n 100 \<le> lg_page (lgs_page st) then None
      else Some (on_logs (logs_next n) st))"

section \<open>The drawer\<close>

definition json_int :: "json \<Rightarrow> string \<Rightarrow> int option" where
  "json_int j k = (case json_get j k of Some (JNum n) \<Rightarrow> Some n | _ \<Rightarrow> None)"

definition json_text :: "json \<Rightarrow> string \<Rightarrow> string option" where
  "json_text j k = (case json_get j k of Some (JStr s) \<Rightarrow> Some s | _ \<Rightarrow> None)"

definition json_decimal :: "json \<Rightarrow> string \<Rightarrow> decimal option" where
  "json_decimal j k = (case json_get j k of Some (JNum n) \<Rightarrow> Some (n, 0) | Some (JDec m d) \<Rightarrow> Some (m, d) | _ \<Rightarrow> None)"

definition stage_of :: "json \<Rightarrow> stage_trace" where
  "stage_of j = \<lparr>
     st_stage = str_or (json_text j ''stage'') [], st_result = json_text j ''result'', st_score = json_int j ''score'',
     st_multiplier = json_decimal j ''multiplier'', st_final_score = json_int j ''final_score'',
     st_reason = json_text j ''reason'', st_evidence = json_get j ''evidence'', st_rule_id = json_text j ''rule_id''\<rparr>"

text \<open>A chip: its text and whether it is green.\<close>

definition check_mark :: string where
  "check_mark = [CHR 0xE2, CHR 0x9C, CHR 0x93]"

definition cross_mark :: string where
  "cross_mark = [CHR 0xE2, CHR 0x9C, CHR 0x97]"

definition down_arrow :: string where
  "down_arrow = [CHR 0xE2, CHR 0x86, CHR 0x93]"

definition match_chip :: "json \<Rightarrow> string \<Rightarrow> string \<Rightarrow> (string \<times> bool) list" where
  "match_chip e key label =
     (case json_get e key of
        None \<Rightarrow> []
      | Some v \<Rightarrow> [(label @ '' '' @ (if truthy v then check_mark else cross_mark), truthy v)])"

definition session_chips :: "(string \<Rightarrow> json option) \<Rightarrow> json option \<Rightarrow> (string \<times> bool) list" where
  "session_chips parse evidence =
     (case evidence of
        None \<Rightarrow> []
      | Some ev \<Rightarrow>
          if \<not> truthy ev then []
          else (case (case ev of JStr s \<Rightarrow> parse s | _ \<Rightarrow> Some ev) of
                  None \<Rightarrow> []
                | Some e \<Rightarrow>
                    let chips = match_chip e ''ja4_match'' ''JA4'' @ match_chip e ''ja4h_match'' ''JA4H'' @ match_chip e ''fp_match'' ''HTTP FP''
                    in if \<not> truthy e \<or> chips = [] then []
                       else chips @ (case json_int e ''reduction'' of
                              Some n \<Rightarrow> if n < 0 then [(down_arrow @ '' '' @ int_to_string n, True)] else []
                            | None \<Rightarrow> [])))"

text \<open>The width of the progress bar in percent; without a threshold the quotient is not a number, or is capped.\<close>

definition progress_pct :: "nat \<Rightarrow> nat \<Rightarrow> rat option" where
  "progress_pct cur thr =
     (if thr = 0 then (if cur = 0 then None else Some 100)
      else Some (min (of_nat cur / of_nat thr * 100) 100))"

definition history_progress :: "string \<Rightarrow> (rat option \<times> string) option" where
  "history_progress reason =
     (case parseTrustedHistoryProgress reason of
        None \<Rightarrow> None
      | Some (c, t) \<Rightarrow> Some (progress_pct c t, nat_to_string c @ ''/'' @ nat_to_string t))"

record score_view =
  scv_color :: string
  scv_score :: int
  scv_times :: "decimal option"
  scv_final :: "int option"

definition stage_score_view :: "stage_trace \<Rightarrow> score_view option" where
  "stage_score_view s =
     (case st_score s of
        None \<Rightarrow> None
      | Some n \<Rightarrow>
          if n = 0 then None
          else Some \<lparr>scv_color = (if n > 0 then ''text-amber-400'' else ''text-emerald-400''), scv_score = n,
            scv_times = (case st_multiplier s of
                None \<Rightarrow> None | Some d \<Rightarrow> if fst d = 0 \<or> fst d = 10 ^ snd d then None else Some d),
            scv_final = (case st_final_score s of None \<Rightarrow> None | Some f \<Rightarrow> if f = n then None else Some f)\<rparr>)"

definition times_mark :: string where
  "times_mark = [CHR 0xC3, CHR 0x97]"

definition score_text :: "score_view \<Rightarrow> string" where
  "score_text v = (if scv_score v > 0 then ''+'' else []) @ int_to_string (scv_score v) @
     (case scv_times v of None \<Rightarrow> [] | Some d \<Rightarrow> CHR '' '' # times_mark @ dec_to_string (fst d) (snd d)) @
     (case scv_final v of None \<Rightarrow> [] | Some f \<Rightarrow> '' = '' @ int_to_string f)"

definition dotSize :: "stage_trace \<Rightarrow> string" where
  "dotSize s = (if stage_triggered s then ''w-2.5 h-2.5'' else ''w-2 h-2'')"

definition dotRing :: "stage_trace \<Rightarrow> string" where
  "dotRing s =
     (if stage_terminal s then (if st_result s = Some ''BLOCK'' then ''ring-2 ring-red-500/30'' else ''ring-2 ring-amber-500/30'')
      else if stage_triggered s then
        (case st_score s of Some n \<Rightarrow> if n < 0 then ''ring-2 ring-emerald-400/30'' else ''ring-2 ring-amber-400/30''
         | None \<Rightarrow> ''ring-2 ring-amber-400/30'')
      else [])"

record stage_row =
  sgr_label    :: string
  sgr_skipped  :: bool
  sgr_dot      :: "string \<times> string \<times> string"
  sgr_line     :: bool
  sgr_score    :: "score_view option"
  sgr_result   :: "(string \<times> string) option"
  sgr_reason   :: "string option"
  sgr_session  :: "(string \<times> bool) list"
  sgr_progress :: "(rat option \<times> string) option"

definition stage_row_view :: "(string \<Rightarrow> json option) \<Rightarrow> bool \<Rightarrow> stage_trace \<Rightarrow> stage_row" where
  "stage_row_view parse isLast s =
     (let reason = (if st_reason s = Some [] then None else st_reason s)
      in \<lparr>sgr_label = stageLabel (st_stage s), sgr_skipped = (st_result s = Some ''SKIP''),
          sgr_dot = (dotSize s, dotColor s, dotRing s), sgr_line = (\<not> isLast), sgr_score = stage_score_view s,
          sgr_result = (case st_result s of
              None \<Rightarrow> None | Some r \<Rightarrow> if r = [] then None else Some (r, resultColor (Some r) (st_score s))),
          sgr_reason = reason,
          sgr_session = (if st_stage s = ''stable_session'' then session_chips parse (st_evidence s) else []),
          sgr_progress = (if st_stage s = ''trusted_history'' \<and> st_result s = Some ''PENDING'' then Option.bind reason history_progress
            else None)\<rparr>)"

text \<open>The section of fingerprints, when it is open.\<close>

definition shown_text :: "json \<Rightarrow> string \<Rightarrow> string" where
  "shown_text j k = (case json_get j k of None \<Rightarrow> [] | Some v \<Rightarrow> if truthy v then js_String v else [])"

definition text_line :: "json \<Rightarrow> string \<Rightarrow> string \<Rightarrow> (string \<times> string) list" where
  "text_line j k label = (if shown_text j k = [] then [] else [(label, shown_text j k)])"

definition hash_lines :: "json \<Rightarrow> (string \<times> string) list" where
  "hash_lines r =
     (if shown_text r ''ja4h_header_hash'' = [] \<and> shown_text r ''ua_hash'' = [] then []
      else [(''JA4H Header:'', text_or (shown_text r ''ja4h_header_hash'') ''-''), (''UA Hash:'', text_or (shown_text r ''ua_hash'') ''-'')] @
        text_line r ''prev_ua_hash'' ''Prev UA:'' @
        (case json_get r ''ua_match'' of
           None \<Rightarrow> [] | Some v \<Rightarrow> [(''Match:'', if truthy v then ''YES'' else ''MISMATCH'')]))"

definition fingerprint_lines :: "json \<Rightarrow> (string \<times> string) list option" where
  "fingerprint_lines r =
     (if \<not> truthy r \<or> list_all (\<lambda>k. shown_text r k = []) [''ja4'', ''ja4h'', ''http_fingerprint'', ''ja4h_header_hash'', ''ua_hash'']
      then None
      else Some (text_line r ''ja4'' ''JA4:'' @ text_line r ''ja4h'' ''JA4H:'' @ text_line r ''http_fingerprint'' ''HTTP:'' @ hash_lines r))"

definition dot_mark :: string where
  "dot_mark = [CHR 0xC2, CHR 0xB7]"

definition latency_text :: "log_entry \<Rightarrow> string" where
  "latency_text l = dot_mark @ '' '' @ int_to_string (log_latency l) @ ''ms'' @
     (if 0 < log_pipeline_latency l then '' (engine: '' @ int_to_string (log_pipeline_latency l) @ ''ms'' else []) @
     (if 0 < log_upstream_latency l then '' '' @ dot_mark @ '' upstream: '' @ int_to_string (log_upstream_latency l) @ ''ms'' else []) @
     (if 0 < log_pipeline_latency l then '')'' else [])"

definition request_summary :: "(string \<Rightarrow> string) \<Rightarrow> log_entry \<Rightarrow> string list" where
  "request_summary format_date l = [log_ip l, log_host l @ log_path l, format_date (log_ts l)] @
     (if log_country l = [] then [] else [dot_mark @ '' '' @ log_country l]) @ [latency_text l]"

record trace_view =
  tv_badge       :: "string \<times> string"
  tv_phase       :: string
  tv_score       :: "int option"
  tv_bar         :: "(string \<times> int) option"
  tv_stages      :: "stage_row list"
  tv_fingerprint :: "(string \<times> string) list option"

definition parsePipelineTrace :: "(string \<Rightarrow> json option) \<Rightarrow> string \<Rightarrow> json option" where
  "parsePipelineTrace parse raw = (if raw = [] then None else parse raw)"

definition trace_stages :: "json \<Rightarrow> stage_trace list" where
  "trace_stages t = (case json_get t ''stages'' of Some (JArr ss) \<Rightarrow> map stage_of ss | _ \<Rightarrow> [])"

definition drawer_view :: "(string \<Rightarrow> json option) \<Rightarrow> log_entry \<Rightarrow> trace_view option" where
  "drawer_view parse l =
     (case Option.bind (log_pipeline_trace l) (parsePipelineTrace parse) of
        None \<Rightarrow> None
      | Some t \<Rightarrow>
          if \<not> truthy t then None
          else (let decision = str_or (json_text t ''decision'') []; phase = str_or (json_text t ''phase'') [];
                    score = json_int t ''score''; stages = trace_stages t
                in Some \<lparr>
                  tv_badge = (decision, decisionBadgeClass decision), tv_phase = phase,
                  tv_score = (case score of None \<Rightarrow> None | Some n \<Rightarrow> if 0 < n then Some n else None),
                  tv_bar = (case score of None \<Rightarrow> None | Some n \<Rightarrow> if phase = ''SCORING'' then Some (score_bar n) else None),
                  tv_stages = map (\<lambda>(i, s). stage_row_view parse (i + 1 = length stages) s) (List.enumerate 0 stages),
                  tv_fingerprint = Option.bind (json_get t ''request'') fingerprint_lines\<rparr>))"

definition score_bar_marks :: "(string \<times> string) list" where
  "score_bar_marks = [(''0'', []), (''50 challenge'', ''text-amber-500''), (''80 block'', ''text-red-500''), (''100'', [])]"

text \<open>The folding parts of the drawer and its button for the clipboard; \<open>dw_timers\<close> counts the timers that will take the tick
  away.  \<open>pretty\<close> is \<open>JSON.stringify\<close> with an indent of two.\<close>

record drawer =
  dw_expanded  :: bool
  dw_open      :: bool
  dw_copied    :: bool
  dw_timers    :: nat
  dw_clipboard :: "string option"

datatype drawer_event = Fold_Fingerprint | Fold_Raw | Copy_Raw | Copy_Timer

definition drawer_initial :: drawer where
  "drawer_initial = \<lparr>dw_expanded = False, dw_open = False, dw_copied = False, dw_timers = 0, dw_clipboard = None\<rparr>"

fun drawer_act :: "(json \<Rightarrow> string) \<Rightarrow> json \<Rightarrow> drawer_event \<Rightarrow> drawer \<Rightarrow> drawer option" where
  "drawer_act pretty t Fold_Fingerprint d =
     (if Option.bind (json_get t ''request'') fingerprint_lines = None then None else Some (d\<lparr>dw_expanded := \<not> dw_expanded d\<rparr>))"
| "drawer_act pretty t Fold_Raw d = Some (d\<lparr>dw_open := \<not> dw_open d\<rparr>)"
| "drawer_act pretty t Copy_Raw d =
     (if dw_open d then Some (d\<lparr>dw_copied := True, dw_timers := dw_timers d + 1, dw_clipboard := Some (pretty t)\<rparr>) else None)"
| "drawer_act pretty t Copy_Timer d =
     (if dw_timers d = 0 then None else Some (d\<lparr>dw_copied := False, dw_timers := dw_timers d - 1\<rparr>))"

section \<open>The trace of the backend\<close>

record go_stage =
  gs_Stage      :: string
  gs_Result     :: string
  gs_Score      :: int
  gs_Multiplier :: decimal
  gs_FinalScore :: int
  gs_Reason     :: string
  gs_Evidence   :: "json option"
  gs_RuleID     :: string
  gs_Details    :: "json option"

record request_metadata =
  rm_IP              :: string
  rm_Method          :: string
  rm_Path            :: string
  rm_Host            :: string
  rm_UserAgent       :: string
  rm_JA4             :: string
  rm_JA4H            :: string
  rm_JA4H_HeaderHash :: string
  rm_UA_Hash         :: string
  rm_PrevUA_Hash     :: string
  rm_UA_Match        :: bool
  rm_HTTPFingerprint :: string

record go_trace =
  gt_Phase    :: string
  gt_Decision :: string
  gt_Score    :: int
  gt_Request  :: "request_metadata option"
  gt_Stages   :: "go_stage list"

text \<open>\<open>omitempty\<close> leaves out a field whose value is the zero of its type.\<close>

definition omit_text :: "string \<Rightarrow> string \<Rightarrow> (string \<times> json) list" where
  "omit_text k s = (if s = [] then [] else [(k, JStr s)])"

definition omit_int :: "string \<Rightarrow> int \<Rightarrow> (string \<times> json) list" where
  "omit_int k n = (if n = 0 then [] else [(k, JNum n)])"

definition omit_decimal :: "string \<Rightarrow> decimal \<Rightarrow> (string \<times> json) list" where
  "omit_decimal k d = (if fst d = 0 then [] else [(k, if snd d = 0 then JNum (fst d) else JDec (fst d) (snd d))])"

definition omit_json :: "string \<Rightarrow> json option \<Rightarrow> (string \<times> json) list" where
  "omit_json k j = (case j of None \<Rightarrow> [] | Some v \<Rightarrow> [(k, v)])"

definition stage_json :: "go_stage \<Rightarrow> json" where
  "stage_json s = JObj ((''stage'', JStr (gs_Stage s)) # omit_text ''result'' (gs_Result s) @ omit_int ''score'' (gs_Score s) @
     omit_decimal ''multiplier'' (gs_Multiplier s) @ omit_int ''final_score'' (gs_FinalScore s) @ omit_text ''reason'' (gs_Reason s) @
     omit_json ''evidence'' (gs_Evidence s) @ omit_text ''rule_id'' (gs_RuleID s) @ omit_json ''details'' (gs_Details s))"

definition request_json :: "request_metadata \<Rightarrow> json" where
  "request_json m = JObj ([(''ip'', JStr (rm_IP m)), (''method'', JStr (rm_Method m)), (''path'', JStr (rm_Path m)),
     (''host'', JStr (rm_Host m))] @ omit_text ''user_agent'' (rm_UserAgent m) @ omit_text ''ja4'' (rm_JA4 m) @
     omit_text ''ja4h'' (rm_JA4H m) @ omit_text ''ja4h_header_hash'' (rm_JA4H_HeaderHash m) @ omit_text ''ua_hash'' (rm_UA_Hash m) @
     omit_text ''prev_ua_hash'' (rm_PrevUA_Hash m) @ (if rm_UA_Match m then [(''ua_match'', JBool True)] else []) @
     omit_text ''http_fingerprint'' (rm_HTTPFingerprint m))"

definition trace_json :: "go_trace \<Rightarrow> json" where
  "trace_json t = JObj ([(''phase'', JStr (gt_Phase t)), (''decision'', JStr (gt_Decision t))] @ omit_int ''score'' (gt_Score t) @
     omit_json ''request'' (map_option request_json (gt_Request t)) @ [(''stages'', JArr (map stage_json (gt_Stages t)))])"

text \<open>The categories whose stages get a weight.\<close>

definition stage_category :: "scoring_config \<Rightarrow> string \<Rightarrow> (category_weight \<times> score_category) option" where
  "stage_category c stage =
     (if stage = ''ip_reputation'' then Some (sw_ip_reputation (sc_weights c), Cat_Ip_Reputation)
      else if stage = ''bot_detection'' then Some (sw_bot_detection (sc_weights c), Cat_Bot_Detection)
      else if stage = ''waf_anomaly'' then Some (sw_waf_anomaly (sc_weights c), Cat_Waf_Anomaly)
      else if stage = ''protocol_anomaly'' then Some (sw_protocol_anomaly (sc_weights c), Cat_Protocol_Anomaly)
      else None)"

definition enrich_stage :: "scoring_config \<Rightarrow> risk_score \<Rightarrow> go_stage \<Rightarrow> go_stage" where
  "enrich_stage c rs s =
     (if gs_Score s = 0 then s
      else (case stage_category c (gs_Stage s) of
              None \<Rightarrow> s
            | Some (cw, cat) \<Rightarrow>
                if \<not> cw_enabled cw then s\<lparr>gs_FinalScore := 0, gs_Multiplier := (0, 0)\<rparr>
                else s\<lparr>gs_Multiplier := cw_multiplier cw, gs_FinalScore := rs_get cat rs\<rparr>))"

definition enrichTraceWithWeights :: "scoring_config \<Rightarrow> risk_score \<Rightarrow> go_trace \<Rightarrow> go_trace" where
  "enrichTraceWithWeights c rs t = t\<lparr>gt_Stages := map (enrich_stage c rs) (gt_Stages t)\<rparr>"

section \<open>Fingerprints\<close>

record ja4_detail =
  jd_ja4              :: string
  jd_ja4h             :: string
  jd_http_fingerprint :: string
  jd_ua_match         :: bool
  jd_count            :: int
  jd_unique_ips       :: int
  jd_top_ua           :: "string list"
  jd_top_paths        :: "string list"
  jd_top_ips          :: "string list"
  jd_top_hosts        :: "string list"
  jd_first_seen       :: string
  jd_last_seen        :: string

text \<open>Shortening to \<open>n\<close> characters, the last three of them dots.\<close>

definition shortened :: "nat \<Rightarrow> string \<Rightarrow> string" where
  "shortened n s = (if n < length s then take (n - 3) s @ ''...'' else s)"

definition fingerprint_row :: "int \<Rightarrow> (string \<Rightarrow> int option) \<Rightarrow> (int \<Rightarrow> string) \<Rightarrow> int \<Rightarrow> nat \<Rightarrow> ja4_entry \<Rightarrow> string list" where
  "fingerprint_row now parse_date locale_number page idx e = [
     int_to_string (page * 100 + int idx + 1), shortened 40 (ja4_ja4 e),
     if ja4_top_ua e = [] then ''-'' else shortened 45 (ja4_top_ua e),
     locale_number (ja4_count e), locale_number (ja4_unique_ips e), timeAgo now parse_date (ja4_last_seen e)]"

record fingerprint_screen =
  fps_page     :: int
  fps_search   :: string
  fps_selected :: "string option"

definition fingerprint_screen_initial :: fingerprint_screen where
  "fingerprint_screen_initial = \<lparr>fps_page = 0, fps_search = [], fps_selected = None\<rparr>"

definition fingerprint_table ::
  "int \<Rightarrow> (string \<Rightarrow> int option) \<Rightarrow> (int \<Rightarrow> string) \<Rightarrow> ja4_entry list \<Rightarrow> fingerprint_screen \<Rightarrow> string + string list list" where
  "fingerprint_table now parse_date locale_number entries st =
     (let filtered = filtered_fingerprints (fps_search st) entries
      in if filtered = []
         then Inl (if fps_search st \<noteq> [] then ''No fingerprints match your search'' else ''No fingerprint data yet'')
         else Inr (map (\<lambda>(idx, e). fingerprint_row now parse_date locale_number (fps_page st) idx e) (List.enumerate 0 filtered)))"

definition fingerprint_caption :: "int \<Rightarrow> fingerprint_screen \<Rightarrow> (int \<times> int \<times> int) option" where
  "fingerprint_caption n st =
     (if n > 100 then Some (fps_page st * 100 + 1, min ((fps_page st + 1) * 100) n, n) else None)"

datatype fingerprint_event = Find_Fingerprint string | Open_Fingerprint string | Close_Fingerprint | Previous_Fingerprints | Next_Fingerprints

fun fingerprint_act :: "ja4_entry list \<Rightarrow> int \<Rightarrow> fingerprint_event \<Rightarrow> fingerprint_screen \<Rightarrow> fingerprint_screen option" where
  "fingerprint_act entries n (Find_Fingerprint s) st = Some (st\<lparr>fps_search := s\<rparr>)"
| "fingerprint_act entries n (Open_Fingerprint j) st =
     (if j \<in> set (map ja4_ja4 (filtered_fingerprints (fps_search st) entries)) then Some (st\<lparr>fps_selected := Some j\<rparr>) else None)"
| "fingerprint_act entries n Close_Fingerprint st =
     (if fps_selected st = None then None else Some (st\<lparr>fps_selected := None\<rparr>))"
| "fingerprint_act entries n Previous_Fingerprints st =
     (if n \<le> 100 \<or> fps_page st = 0 then None else Some (st\<lparr>fps_page := fp_previous (fps_page st)\<rparr>))"
| "fingerprint_act entries n Next_Fingerprints st =
     (if n \<le> 100 \<or> (fps_page st + 1) * 100 \<ge> n then None else Some (st\<lparr>fps_page := fp_next n (fps_page st)\<rparr>))"

text \<open>The detail: the texts of the summary, the fields, the figures, and the lists that are not empty with their titles.\<close>

definition detail_summary :: "(int \<Rightarrow> string) \<Rightarrow> ja4_detail \<Rightarrow> string list" where
  "detail_summary locale_number d = [jd_ja4 d, locale_number (jd_count d) @ '' requests'',
     dot_mark @ '' '' @ int_to_string (jd_unique_ips d) @ '' unique IPs'',
     dot_mark @ (if jd_ua_match d then '' UA Match'' else '' UA Mismatch'')]"

definition detail_fields :: "ja4_detail \<Rightarrow> (string \<times> string) list" where
  "detail_fields d = [(''JA4'', jd_ja4 d)] @ (if jd_ja4h d = [] then [] else [(''JA4H'', jd_ja4h d)]) @
     (if jd_http_fingerprint d = [] then [] else [(''HTTP FP'', jd_http_fingerprint d)]) @
     [(''Match'', if jd_ua_match d then ''YES'' else ''MISMATCH'')]"

definition detail_figures :: "(int \<Rightarrow> string) \<Rightarrow> ja4_detail \<Rightarrow> (string \<times> string) list" where
  "detail_figures locale_number d = [(''Requests'', locale_number (jd_count d)), (''Unique IPs'', locale_number (jd_unique_ips d)),
     (''First Seen'', jd_first_seen d), (''Last Seen'', jd_last_seen d)]"

definition detail_lists :: "ja4_detail \<Rightarrow> (string \<times> string list) list" where
  "detail_lists d = filter (\<lambda>(_, xs). xs \<noteq> []) [(''User Agents'', jd_top_ua d), (''Top Paths'', jd_top_paths d),
     (''Top Hosts'', jd_top_hosts d), (''Top IPs'', jd_top_ips d)]"

section \<open>What the drawer reads\<close>

declare map_of_append [simp del]

lemma obj_get_app: "obj_get (xs @ ys) k = (case obj_get xs k of None \<Rightarrow> obj_get ys k | Some v \<Rightarrow> Some v)"
  by (induction xs) auto

lemma obj_get_omit:
  "obj_get (omit_text k s) k' = (if k' = k \<and> s \<noteq> [] then Some (JStr s) else None)"
  "obj_get (omit_int k n) k' = (if k' = k \<and> n \<noteq> 0 then Some (JNum n) else None)"
  "obj_get (omit_decimal k d) k' =
     (if k' = k \<and> fst d \<noteq> 0 then Some (if snd d = 0 then JNum (fst d) else JDec (fst d) (snd d)) else None)"
  "obj_get (omit_json k j) k' = (if k' = k then j else None)"
  by (simp_all add: omit_text_def omit_int_def omit_decimal_def omit_json_def split: option.splits)

text \<open>Reading back a stored stage gives what was stored, with zeros left out.\<close>

lemma stage_roundtrip: "stage_of (stage_json s) = \<lparr>
    st_stage = gs_Stage s, st_result = (if gs_Result s = [] then None else Some (gs_Result s)),
    st_score = (if gs_Score s = 0 then None else Some (gs_Score s)),
    st_multiplier = (if fst (gs_Multiplier s) = 0 then None else Some (gs_Multiplier s)),
    st_final_score = (if gs_FinalScore s = 0 then None else Some (gs_FinalScore s)),
    st_reason = (if gs_Reason s = [] then None else Some (gs_Reason s)), st_evidence = gs_Evidence s,
    st_rule_id = (if gs_RuleID s = [] then None else Some (gs_RuleID s))\<rparr>"
  by (cases "gs_Multiplier s") (simp add: stage_of_def stage_json_def json_text_def json_int_def json_decimal_def str_or_def obj_get_app obj_get_omit split: option.split)

lemma trace_stages_roundtrip: "trace_stages (trace_json t) = map (stage_of \<circ> stage_json) (gt_Stages t)"
proof -
  have "json_get (trace_json t) ''stages'' = Some (JArr (map stage_json (gt_Stages t)))"
    by (simp add: trace_json_def obj_get_app obj_get_omit)
  then show ?thesis by (simp add: trace_stages_def)
qed

text \<open>The number a row ends with.\<close>

definition shown_score :: "stage_row \<Rightarrow> int option" where
  "shown_score r = map_option (\<lambda>v. case scv_final v of None \<Rightarrow> scv_score v | Some f \<Rightarrow> f) (sgr_score r)"

definition counted_text :: "scoring_config \<Rightarrow> risk_score \<Rightarrow> go_stage \<Rightarrow> int option" where
  "counted_text c rs s =
     (if gs_Score s = 0 then None
      else (case stage_category c (gs_Stage s) of
              None \<Rightarrow> Some (gs_Score s)
            | Some (cw, cat) \<Rightarrow> Some (if cw_enabled cw \<and> rs_get cat rs \<noteq> 0 then rs_get cat rs else gs_Score s)))"

lemma shown_row: "shown_score (stage_row_view parse b s) =
    (case st_score s of None \<Rightarrow> None | Some n \<Rightarrow> if n = 0 then None else Some (case st_final_score s of None \<Rightarrow> n | Some f \<Rightarrow> f))"
  by (auto simp: shown_score_def stage_row_view_def stage_score_view_def Let_def split: option.splits)

lemma shown_enriched:
  assumes "gs_FinalScore s = 0"
  shows "shown_score (stage_row_view parse b (stage_of (stage_json (enrich_stage c rs s)))) = counted_text c rs s"
  using assms by (simp add: shown_row stage_roundtrip enrich_stage_def counted_text_def split: option.splits prod.splits)


definition waf_stage :: go_stage where
  "waf_stage = \<lparr>gs_Stage = ''waf_anomaly'', gs_Result = [], gs_Score = 25, gs_Multiplier = (0, 0), gs_FinalScore = 0, gs_Reason = [],
     gs_Evidence = None, gs_RuleID = ''920100'', gs_Details = None\<rparr>"

definition waf_off :: scoring_config where
  "waf_off = sample_scoring\<lparr>sc_weights := (sc_weights sample_scoring)\<lparr>sw_waf_anomaly := \<lparr>cw_enabled = False, cw_max_score = 40, cw_multiplier = (1, 0)\<rparr>\<rparr>\<rparr>"


section \<open>The bar of the drawer\<close>

text \<open>The action a colour of the bar stands for in its legend.\<close>

definition bar_action :: "string \<Rightarrow> string" where
  "bar_action color = (if color = ''bg-red-500'' then ''block'' else if color = ''bg-amber-500'' then ''challenge'' else [])"

definition total_risk :: "int \<Rightarrow> risk_score" where
  "total_risk n = NewRiskScore\<lparr>rs_Total := n\<rparr>"

lemma bar_action_score: "bar_action (fst (score_bar n)) = (if 80 \<le> n then ''block'' else if 50 \<le> n then ''challenge'' else [])"
  by (simp add: bar_action_def score_bar_def)

text \<open>C39: the bar of the drawer has a fixed scale.  Its colour shows the decision of the engine for every score exactly when the
  thresholds are 80 and 50; any other thresholds the server accepts, its defaults of 70 and 35 included, give scores
  whose bar shows another decision than the one taken.\<close>

theorem bar_scale_fixed:
  assumes "ValidateScoringConfig c"
  shows "list_all (\<lambda>n. bar_action (fst (score_bar (int n))) = engine_action c (total_risk (int n))) [0..<101] \<longleftrightarrow>
    st_block (sc_thresholds c) = 80 \<and> st_challenge (sc_thresholds c) = 50"
proof
  assume "list_all (\<lambda>n. bar_action (fst (score_bar (int n))) = engine_action c (total_risk (int n))) [0..<101]"
  then have a: "bar_action (fst (score_bar (int n))) = engine_action c (total_risk (int n))" if "n < 101" for n
    using that by (simp add: list_all_iff)
  from a [of 79] a [of 80] a [of 49] a [of 50]
  show "st_block (sc_thresholds c) = 80 \<and> st_challenge (sc_thresholds c) = 50"
    by (simp add: bar_action_score engine_action_def total_risk_def split: if_splits)
next
  assume "st_block (sc_thresholds c) = 80 \<and> st_challenge (sc_thresholds c) = 50"
  then show "list_all (\<lambda>n. bar_action (fst (score_bar (int n))) = engine_action c (total_risk (int n))) [0..<101]"
    by (simp add: list_all_iff bar_action_score engine_action_def total_risk_def)
qed

theorem bar_scale_fixed_witness:
  "\<not> list_all (\<lambda>n. bar_action (fst (score_bar (int n))) = engine_action sample_scoring (total_risk (int n))) [0..<101]"
proof -
  have "ValidateScoringConfig sample_scoring" by code_simp
  moreover have "st_block (sc_thresholds sample_scoring) = 70" by code_simp
  ultimately show ?thesis using bar_scale_fixed [of sample_scoring] by simp
qed

section \<open>The match of the agents\<close>

lemma request_field: "json_get (request_json m) k =
    obj_get ([(''ip'', JStr (rm_IP m)), (''method'', JStr (rm_Method m)), (''path'', JStr (rm_Path m)), (''host'', JStr (rm_Host m))] @
      omit_text ''user_agent'' (rm_UserAgent m) @ omit_text ''ja4'' (rm_JA4 m) @ omit_text ''ja4h'' (rm_JA4H m) @
      omit_text ''ja4h_header_hash'' (rm_JA4H_HeaderHash m) @ omit_text ''ua_hash'' (rm_UA_Hash m) @
      omit_text ''prev_ua_hash'' (rm_PrevUA_Hash m) @ (if rm_UA_Match m then [(''ua_match'', JBool True)] else []) @
      omit_text ''http_fingerprint'' (rm_HTTPFingerprint m)) k"
  by (simp add: request_json_def)

lemma request_texts:
  "shown_text (request_json m) ''ja4'' = rm_JA4 m" "shown_text (request_json m) ''ja4h'' = rm_JA4H m"
  "shown_text (request_json m) ''http_fingerprint'' = rm_HTTPFingerprint m"
  "shown_text (request_json m) ''ja4h_header_hash'' = rm_JA4H_HeaderHash m"
  "shown_text (request_json m) ''ua_hash'' = rm_UA_Hash m" "shown_text (request_json m) ''prev_ua_hash'' = rm_PrevUA_Hash m"
  "json_get (request_json m) ''ua_match'' = (if rm_UA_Match m then Some (JBool True) else None)"
  unfolding shown_text_def request_field by (simp_all add: obj_get_app obj_get_omit)

definition match_texts :: "json \<Rightarrow> string list" where
  "match_texts r = (case fingerprint_lines r of None \<Rightarrow> [] | Some ls \<Rightarrow> map snd (filter (\<lambda>(l, _). l = ''Match:'') ls))"

text \<open>C40: a mismatch is never shown.  A request whose user agent is not the one of the session is stored without the field, since it is
  false, and the drawer shows no line for it: there is a line exactly when the agents match and a hash is known, and it
  says \<open>YES\<close>.\<close>

theorem mismatch_not_shown:
  "match_texts (request_json m) = (if rm_UA_Match m then if rm_JA4H_HeaderHash m = [] \<and> rm_UA_Hash m = [] then [] else [''YES''] else [])"
proof -
  have "truthy (request_json m)" by (simp add: request_json_def)
  then show ?thesis by (auto simp: match_texts_def fingerprint_lines_def hash_lines_def text_line_def request_texts)
qed

section \<open>Pages\<close>

text \<open>Every control of the event log is a step of the log, or leaves its filters and page alone.\<close>

lemma log_act_step: "log_act loading apps logs n e st = Some st' \<Longrightarrow> lgs_page st' = lgs_page st \<or> logs_step (lgs_page st) (lgs_page st')"
  by (cases e) (auto simp: on_logs_def logs_step.intros split: if_splits)

lemma log_act_inv: "log_act loading apps logs n e st = Some st' \<Longrightarrow> logs_inv (lgs_page st) \<Longrightarrow> logs_inv (lgs_page st')"
  using log_act_step logs_step_inv by metis

lemma log_act_in_range:
  assumes "log_act loading apps logs n e st = Some st'" and "lg_page (lgs_page st) \<le> max 1 (total_pages n 100)"
  shows "lg_page (lgs_page st') \<le> max 1 (total_pages n 100)"
  using assms
  by (cases e) (auto simp: on_logs_def setActionFilter_def setAppFilter_def setSearchQuery_def search_timer_def reset_page_def
      logs_previous_def logs_next_def split: if_splits option.splits)

text \<open>The caption of the fingerprints counts rows that exist, as long as their number stays the same.\<close>

definition fingerprints_ok :: "int \<Rightarrow> fingerprint_screen \<Rightarrow> bool" where
  "fingerprints_ok n st \<longleftrightarrow> 0 \<le> fps_page st \<and> (fps_page st = 0 \<or> fps_page st * 100 < n)"

lemma fingerprint_act_ok:
  assumes "fingerprint_act entries n e st = Some st'" and "fingerprints_ok n st"
  shows "fingerprints_ok n st'"
  using assms fp_pages_in_range [of "fps_page st" n] by (cases e) (auto simp: fingerprints_ok_def split: if_splits)

lemma fingerprint_caption_ok:
  assumes "fingerprints_ok n st" and "fingerprint_caption n st = Some (a, b, m)"
  shows "1 \<le> a \<and> a \<le> b \<and> b \<le> m \<and> b < a + 100"
  using assms by (auto simp: fingerprints_ok_def fingerprint_caption_def split: if_splits)

end
