(* ===== verification/Pipeline.thy ===== *)
theory Pipeline
  imports Trace_Pages
begin

text \<open>
  The request pipeline of the backend, where the settings of the dashboard take effect together: the order of the stages
  (\<open>src/main.go\<close>), the phases (\<open>src/internal/pipeline/pipeline.go\<close>), decisions and their ranks (\<open>decision.go\<close>, \<open>context.go\<close>), and
  the stages of \<open>src/internal/pipeline/handlers\<close>: cookie, access rules, flood, rate limit, decision cache, rules, the scorers,
  and the answer.  What a stage asks another service is a field of the environment of the request: the check of the cookie,
  the access rule that contains the address, the cached decision, which rules match, what the firewall engine and the bot
  analysis find, and the entries of the history kept in Redis.
\<close>

section \<open>Decisions\<close>

record decision =
  de_Action :: string
  de_Source :: string
  de_Reason :: string

definition NewDecision :: "string \<Rightarrow> string \<Rightarrow> string \<Rightarrow> decision" where
  "NewDecision action source reason = \<lparr>de_Action = action, de_Source = source, de_Reason = reason\<rparr>"

definition GetActionRank :: "string \<Rightarrow> nat" where
  "GetActionRank action =
     (if action = ''block'' then 4 else if action = ''challenge'' then 3 else if action = ''allow'' then 2
      else if action = ''log'' then 1 else 0)"

definition ResolveDecision :: "decision \<Rightarrow> decision \<Rightarrow> decision" where
  "ResolveDecision cur new =
     (if de_Action new = ''skip'' then cur
      else if GetActionRank (de_Action cur) < GetActionRank (de_Action new) then new else cur)"

record pipeline_context =
  px_Decision    :: decision
  px_Action      :: string
  px_Reason      :: string
  px_SkipPhases  :: "string list"
  px_SkipModules :: "string list"
  px_Terminal    :: bool
  px_Passed      :: bool
  px_TrustLevel  :: nat
  px_CacheHit    :: bool
  px_Hard        :: bool
  px_Matched     :: "(int \<times> string \<times> string \<times> string) list"
  px_Entries     :: "(score_category \<times> string \<times> int) list"
  px_Trace       :: "(string \<times> string) list"

definition new_context :: pipeline_context where
  "new_context = \<lparr>px_Decision = NewDecision [] [] [], px_Action = [], px_Reason = [], px_SkipPhases = [], px_SkipModules = [],
     px_Terminal = False, px_Passed = False, px_TrustLevel = 0, px_CacheHit = False, px_Hard = False, px_Matched = [],
     px_Entries = [], px_Trace = []\<rparr>"

definition AddDecision :: "decision \<Rightarrow> pipeline_context \<Rightarrow> pipeline_context" where
  "AddDecision d ctx =
     (let r = ResolveDecision (px_Decision ctx) d
      in ctx\<lparr>px_Decision := r, px_Action := de_Action r, px_Reason := de_Reason r\<rparr>)"

text \<open>A decision to skip carries phases, which are the modules of the rule.\<close>

definition AddSkip :: "string list \<Rightarrow> pipeline_context \<Rightarrow> pipeline_context" where
  "AddSkip modules ctx = ctx\<lparr>px_SkipPhases := px_SkipPhases ctx @ modules, px_SkipModules := px_SkipModules ctx @ modules\<rparr>"

definition add_trace :: "string \<Rightarrow> string \<Rightarrow> pipeline_context \<Rightarrow> pipeline_context" where
  "add_trace stage result ctx = ctx\<lparr>px_Trace := px_Trace ctx @ [(stage, result)]\<rparr>"

definition toResult :: "string \<Rightarrow> string" where
  "toResult action =
     (if action = ''block'' then ''BLOCK'' else if action = ''challenge'' then ''CHALLENGE'' else if action = ''allow'' then ''ALLOW''
      else ''MATCH'')"

section \<open>The environment of a request\<close>

datatype cookie_check = No_Cookie | Invalid_Cookie | Valid_Cookie nat

record ip_rule_match =
  irm_Action      :: string
  irm_Description :: string
  irm_Enabled     :: bool

record compiled_rule =
  gr_ID          :: int
  gr_Name        :: string
  gr_Scope       :: string
  gr_Action      :: string
  gr_SkipModules :: "string list"
  gr_Priority    :: int
  gr_Enabled     :: bool

record reputation_facts =
  rf_ip_entry  :: "int option"
  rf_asn_entry :: "int option"
  rf_dc        :: bool
  rf_cloud     :: bool
  rf_dc_score  :: int
  rf_asn_score :: int

record pipeline_env =
  pe_cookie     :: cookie_check
  pe_ip_rule    :: "ip_rule_match option option"
  pe_ip         :: string
  pe_path       :: string
  pe_key        :: string
  pe_now        :: int
  pe_flood_cfg  :: flood_config
  pe_limits     :: limit_store
  pe_cached     :: "decision option"
  pe_rules      :: "compiled_rule list option"
  pe_matches    :: "compiled_rule \<Rightarrow> bool option"
  pe_reputation :: reputation_facts
  pe_bot_score  :: int
  pe_waf        :: "string \<times> int"
  pe_protocol   :: protocol_request
  pe_anomaly    :: "int js_obj"
  pe_history    :: "(score_category \<times> string \<times> int) list"
  pe_trust      :: trust_level_config
  pe_scoring    :: scoring_config

text \<open>The modules the forms of a rule offer to skip.\<close>

definition skip_module_options :: "(string \<times> string) list" where
  "skip_module_options = [
     (''waf'', ''WAF Managed Rules''), (''bot'', ''Bot Detection''), (''rate_limit'', ''Rate Limiting''),
     (''ip_reputation'', ''IP Reputation''), (''protocol_anomaly'', ''Protocol Anomaly''), (''flood'', ''Flood Protection'')]"

section \<open>First phase\<close>

definition ChallengeValidator_Handle :: "cookie_check \<Rightarrow> pipeline_context \<Rightarrow> pipeline_context" where
  "ChallengeValidator_Handle cookie ctx =
     (case cookie of
        No_Cookie \<Rightarrow> add_trace ''challenge_validator'' ''NO_COOKIE'' ctx
      | Invalid_Cookie \<Rightarrow> add_trace ''challenge_validator'' ''INVALID_COOKIE'' ctx
      | Valid_Cookie level \<Rightarrow> add_trace ''challenge_validator'' (''VERIFIED_L'' @ nat_to_string level)
          (ctx\<lparr>px_Passed := True, px_TrustLevel := level, px_Action := [], px_Reason := []\<rparr>))"

definition IPAccess_Handle :: "ip_rule_match option option \<Rightarrow> pipeline_context \<Rightarrow> pipeline_context" where
  "IPAccess_Handle found ctx =
     (case found of
        None \<Rightarrow> add_trace ''ip_access_rule'' ''ERROR'' ctx
      | Some None \<Rightarrow> add_trace ''ip_access_rule'' ''NO_MATCH'' ctx
      | Some (Some rl) \<Rightarrow>
          if \<not> irm_Enabled rl then add_trace ''ip_access_rule'' ''NO_MATCH'' ctx
          else (add_trace ''ip_access_rule'' (toResult (irm_Action rl))
                 (AddDecision (NewDecision (irm_Action rl) ''ip_access_rule'' (''ip_access_rule:'' @ irm_Description rl)) ctx))
                 \<lparr>px_Terminal := True, px_Hard := True\<rparr>)"

text \<open>What the two limiting stages see of the request and of the context, and what their result does to the context.\<close>

definition limited_of :: "pipeline_env \<Rightarrow> pipeline_context \<Rightarrow> limited_request" where
  "limited_of env ctx = \<lparr>rq_HardDecision = px_Hard ctx, rq_skip_flood = (''flood'' \<in> set (px_SkipModules ctx)),
     rq_skip_rate_limit = (''rate_limit'' \<in> set (px_SkipModules ctx)), rq_IPRuleTerminal = px_Terminal ctx,
     rq_ChallengePassed = px_Passed ctx, rq_ClientIP = pe_ip env, rq_Path = pe_path env, rq_key = pe_key env\<rparr>"

definition limit_result :: "string \<Rightarrow> stage_result \<Rightarrow> pipeline_context \<Rightarrow> pipeline_context" where
  "limit_result stage r ctx =
     (case r of
        Stage_Skip \<Rightarrow> add_trace stage ''SKIP'' ctx
      | Stage_Pass \<Rightarrow> add_trace stage ''PASS'' ctx
      | Stage_Stop action reason \<Rightarrow>
          (add_trace stage (toResult action) (AddDecision (NewDecision action stage reason) ctx))\<lparr>px_Hard := True\<rparr>)"

definition CacheCheck_Handle :: "decision option \<Rightarrow> pipeline_context \<Rightarrow> pipeline_context" where
  "CacheCheck_Handle cached ctx =
     (if px_Terminal ctx \<or> px_Passed ctx then add_trace ''decision_cache'' ''SKIP'' ctx
      else (case cached of
              None \<Rightarrow> add_trace ''decision_cache'' ''MISS'' ctx
            | Some d \<Rightarrow> add_trace ''decision_cache'' ''HIT'' ((AddDecision d ctx)\<lparr>px_CacheHit := True\<rparr>)))"

definition recordRuleMatch :: "compiled_rule \<Rightarrow> pipeline_context \<Rightarrow> pipeline_context" where
  "recordRuleMatch r ctx = ctx\<lparr>px_Matched := px_Matched ctx @ [(gr_ID r, gr_Name r, gr_Action r, gr_Scope r)]\<rparr>"

definition rule_applies :: "(compiled_rule \<Rightarrow> bool option) \<Rightarrow> compiled_rule \<Rightarrow> bool" where
  "rule_applies matches r \<longleftrightarrow> gr_Enabled r \<and> matches r = Some True"

definition rule_decides :: "compiled_rule \<Rightarrow> bool" where
  "rule_decides r \<longleftrightarrow> gr_Action r \<in> {''allow'', ''block'', ''challenge''}"

definition rule_decision :: "compiled_rule \<Rightarrow> decision" where
  "rule_decision r = NewDecision (gr_Action r) ''custom_rule'' (''rule:'' @ int_to_string (gr_ID r) @ CHR '':'' # gr_Name r)"

text \<open>The rules in their order; the second component is what is put into the decision cache.\<close>

fun evaluate_rules :: "(compiled_rule \<Rightarrow> bool option) \<Rightarrow> compiled_rule list \<Rightarrow> pipeline_context \<Rightarrow> pipeline_context \<times> decision option" where
  "evaluate_rules matches [] ctx = (add_trace ''custom_rules'' ''PASS'' ctx, None)"
| "evaluate_rules matches (r # rs) ctx =
     (if \<not> rule_applies matches r then evaluate_rules matches rs ctx
      else if rule_decides r
      then ((add_trace ''custom_rules'' (toResult (gr_Action r)) (recordRuleMatch r (AddDecision (rule_decision r) ctx)))\<lparr>px_Hard := True\<rparr>,
            Some (rule_decision r))
      else if gr_Action r = ''skip'' then evaluate_rules matches rs (recordRuleMatch r (AddSkip (gr_SkipModules r) ctx))
      else evaluate_rules matches rs (recordRuleMatch r ctx))"

fun evaluate_passed :: "(compiled_rule \<Rightarrow> bool option) \<Rightarrow> compiled_rule list \<Rightarrow> bool \<Rightarrow> pipeline_context \<Rightarrow> pipeline_context" where
  "evaluate_passed matches [] skipped ctx = add_trace ''custom_rules'' (if skipped then ''SKIP_MODULES'' else ''PASS'') ctx"
| "evaluate_passed matches (r # rs) skipped ctx =
     (if \<not> rule_applies matches r then evaluate_passed matches rs skipped ctx
      else if gr_Action r = ''skip'' then evaluate_passed matches rs True (recordRuleMatch r (AddSkip (gr_SkipModules r) ctx))
      else if gr_Action r = ''log'' then evaluate_passed matches rs skipped (recordRuleMatch r ctx)
      else evaluate_passed matches rs skipped ctx)"

definition RulesEngine_Handle :: "pipeline_env \<Rightarrow> pipeline_context \<Rightarrow> pipeline_context \<times> decision option" where
  "RulesEngine_Handle env ctx =
     (if px_Terminal ctx then (add_trace ''custom_rules'' ''SKIP'' ctx, None)
      else (case pe_rules env of
              None \<Rightarrow> (add_trace ''custom_rules'' ''ERROR'' ctx, None)
            | Some rs \<Rightarrow>
                if px_Passed ctx then (evaluate_passed (pe_matches env) rs False ctx, None)
                else evaluate_rules (pe_matches env) rs ctx))"

text \<open>The managed rules and those of the application, sorted by priority; the order of equal priorities is left open by the sort.\<close>

definition merged_rules :: "compiled_rule list \<Rightarrow> compiled_rule list \<Rightarrow> compiled_rule list \<Rightarrow> bool" where
  "merged_rules managed app rs \<longleftrightarrow> mset rs = mset (managed @ app) \<and> sorted (map gr_Priority rs)"

record limiters =
  lm_flood   :: flood
  lm_service :: limit_service

definition limit_stages :: "pipeline_env \<Rightarrow> limiters \<Rightarrow> pipeline_context \<Rightarrow> limiters \<times> pipeline_context" where
  "limit_stages env lm ctx =
     (let (fl, r) = flood_Handle (pe_flood_cfg env) (pe_limits env) (pe_now env) (limited_of env ctx) (lm_flood lm);
          ctx = limit_result ''flood'' r ctx;
          (s, r) = rate_limit_Handle (pe_now env) (limited_of env ctx) (lm_service lm)
      in (\<lparr>lm_flood = fl, lm_service = s\<rparr>, limit_result ''rate_limit'' r ctx))"

definition phase1 :: "pipeline_env \<Rightarrow> limiters \<Rightarrow> limiters \<times> pipeline_context \<times> decision option" where
  "phase1 env lm =
     (let ctx = IPAccess_Handle (pe_ip_rule env) (ChallengeValidator_Handle (pe_cookie env) new_context);
          (lm, ctx) = limit_stages env lm ctx
      in (lm, RulesEngine_Handle env (CacheCheck_Handle (pe_cached env) ctx)))"

section \<open>Second phase\<close>

definition AddScore :: "score_category \<Rightarrow> string \<Rightarrow> int \<Rightarrow> pipeline_context \<Rightarrow> pipeline_context" where
  "AddScore cat rule score ctx = ctx\<lparr>px_Entries := px_Entries ctx @ [(cat, rule, score)]\<rparr>"

definition reputation_score :: "int \<Rightarrow> reputation_facts \<Rightarrow> int" where
  "reputation_score maxScore rf =
     (case rf_ip_entry rf of
        Some s \<Rightarrow> min s maxScore
      | None \<Rightarrow>
          (case rf_asn_entry rf of
             Some s \<Rightarrow> min s maxScore
           | None \<Rightarrow>
               (let score = (if rf_dc rf then min (rf_dc_score rf) maxScore else 0);
                    score = (if rf_cloud rf then score + min (rf_asn_score rf) (maxScore - score) else score)
                in min score maxScore)))"

definition IPReputation_Handle :: "pipeline_env \<Rightarrow> pipeline_context \<Rightarrow> pipeline_context" where
  "IPReputation_Handle env ctx =
     (let w = sw_ip_reputation (sc_weights (pe_scoring env)); score = reputation_score (cw_max_score w) (pe_reputation env)
      in if px_Hard ctx then ctx
         else if ''ip_reputation'' \<in> set (px_SkipModules ctx) then add_trace ''ip_reputation'' ''SKIP'' ctx
         else if \<not> cw_enabled w then add_trace ''ip_reputation'' ''DISABLED'' ctx
         else add_trace ''ip_reputation'' [] (if 0 < score then AddScore Cat_Ip_Reputation ''ip_reputation'' score ctx else ctx))"

definition BotDetection_Handle :: "pipeline_env \<Rightarrow> pipeline_context \<Rightarrow> pipeline_context" where
  "BotDetection_Handle env ctx =
     (if px_Terminal ctx \<or> px_Passed ctx \<or> ''bot'' \<in> set (px_SkipModules ctx) \<or> ''bot'' \<in> set (px_SkipPhases ctx)
      then add_trace ''bot_detection'' ''SKIP'' ctx
      else add_trace ''bot_detection'' [] (AddScore Cat_Bot_Detection ''bot_composite'' (pe_bot_score env) ctx))"

definition WAFEngine_Handle :: "pipeline_env \<Rightarrow> pipeline_context \<Rightarrow> pipeline_context" where
  "WAFEngine_Handle env ctx =
     (if px_Terminal ctx \<or> ''waf'' \<in> set (px_SkipModules ctx) \<or> ''waf'' \<in> set (px_SkipPhases ctx)
      then add_trace ''waf_anomaly'' ''SKIP'' ctx
      else add_trace ''waf_anomaly'' []
        (if 0 < snd (pe_waf env) then AddScore Cat_Waf_Anomaly (fst (pe_waf env)) (snd (pe_waf env)) ctx else ctx))"

definition ProtocolAnomaly_Handle :: "pipeline_env \<Rightarrow> pipeline_context \<Rightarrow> pipeline_context" where
  "ProtocolAnomaly_Handle env ctx =
     (if px_Hard ctx \<or> px_Passed ctx \<or> ''protocol_anomaly'' \<in> set (px_SkipModules ctx) \<or> ''protocol_anomaly'' \<in> set (px_SkipPhases ctx)
      then add_trace ''protocol_anomaly'' ''SKIP'' ctx
      else add_trace ''protocol_anomaly'' []
        (ctx\<lparr>px_Entries := px_Entries ctx @ anomaly_entries (pe_anomaly env) (pe_protocol env)\<rparr>))"

definition History_Handle :: "pipeline_env \<Rightarrow> pipeline_context \<Rightarrow> pipeline_context" where
  "History_Handle env ctx = (if px_Hard ctx then ctx else ctx\<lparr>px_Entries := px_Entries ctx @ pe_history env\<rparr>)"

definition Trust_Handle :: "pipeline_env \<Rightarrow> pipeline_context \<Rightarrow> pipeline_context" where
  "Trust_Handle env ctx =
     (if px_Hard ctx then ctx
      else if \<not> px_Passed ctx then add_trace ''trust'' ''SKIP'' ctx
      else add_trace ''trust'' [] (ctx\<lparr>px_Entries := px_Entries ctx @ trust_entries (pe_trust env) (px_TrustLevel ctx)\<rparr>))"

definition phase2 :: "pipeline_env \<Rightarrow> pipeline_context \<Rightarrow> pipeline_context" where
  "phase2 env ctx = Trust_Handle env (History_Handle env (ProtocolAnomaly_Handle env (WAFEngine_Handle env
     (BotDetection_Handle env (IPReputation_Handle env ctx)))))"

section \<open>Decision and answer\<close>

definition DecisionEngine_Handle :: "pipeline_env \<Rightarrow> risk_score \<Rightarrow> pipeline_context \<Rightarrow> pipeline_context" where
  "DecisionEngine_Handle env rs ctx =
     (let action = engine_action (pe_scoring env) rs
      in if px_Hard ctx \<or> px_Action ctx = ''block'' \<or> px_Action ctx = ''challenge'' \<or> action = [] then ctx
         else AddDecision (NewDecision action ''scoring_engine'' []) ctx)"

datatype answer = Blocked_Page | Challenge_Page | Proxied

definition phase4 :: "pipeline_context \<Rightarrow> answer" where
  "phase4 ctx =
     (if px_Action ctx = ''block'' then Blocked_Page
      else if px_Passed ctx then Proxied
      else if px_Action ctx = ''challenge'' then Challenge_Page
      else Proxied)"

definition after_phase1 :: "pipeline_env \<Rightarrow> pipeline_context \<Rightarrow> pipeline_context" where
  "after_phase1 env ctx =
     (if px_Hard ctx then ctx
      else (let ctx = phase2 env ctx in DecisionEngine_Handle env (request_risk (pe_scoring env) (px_Entries ctx)) ctx))"

definition pipeline_Execute :: "pipeline_env \<Rightarrow> limiters \<Rightarrow> limiters \<times> answer" where
  "pipeline_Execute env lm = (case phase1 env lm of (lm, ctx, _) \<Rightarrow> (lm, phase4 (after_phase1 env ctx)))"

section \<open>Decisions only harden\<close>

lemma rank_add: "GetActionRank (de_Action (px_Decision ctx)) \<le> GetActionRank (de_Action (px_Decision (AddDecision d ctx)))"
  by (simp add: AddDecision_def ResolveDecision_def Let_def)

text \<open>The action of the context is that of its decision.\<close>

definition action_current :: "pipeline_context \<Rightarrow> bool" where
  "action_current ctx \<longleftrightarrow> px_Action ctx = de_Action (px_Decision ctx)"

text \<open>A later context: no flag is taken back, no decision is weakened.\<close>

definition hardens :: "pipeline_context \<Rightarrow> pipeline_context \<Rightarrow> bool" where
  "hardens ctx ctx' \<longleftrightarrow> (action_current ctx \<longrightarrow> action_current ctx') \<and>
     GetActionRank (de_Action (px_Decision ctx)) \<le> GetActionRank (de_Action (px_Decision ctx')) \<and>
     (px_Hard ctx \<longrightarrow> px_Hard ctx') \<and> px_Passed ctx' = px_Passed ctx \<and> px_Entries ctx' = px_Entries ctx"

lemma hardens_refl [simp]: "hardens ctx ctx"
  by (simp add: hardens_def)

lemma hardens_trans: "hardens a b \<Longrightarrow> hardens b c \<Longrightarrow> hardens a c"
  by (auto simp: hardens_def)

lemma hardens_ops [simp]:
  "hardens ctx (add_trace s r ctx)" "hardens ctx (recordRuleMatch rl ctx)" "hardens ctx (AddSkip ms ctx)"
  "hardens ctx (ctx\<lparr>px_Hard := True\<rparr>)" "hardens ctx (ctx\<lparr>px_CacheHit := b\<rparr>)" "hardens ctx (ctx\<lparr>px_Terminal := t, px_Hard := True\<rparr>)"
  by (simp_all add: hardens_def action_current_def add_trace_def recordRuleMatch_def AddSkip_def)

lemma hardens_decision [simp]: "hardens ctx (AddDecision d ctx)"
  using rank_add [of ctx d] by (simp add: hardens_def action_current_def AddDecision_def Let_def)

lemma hardens_into:
  "hardens a b \<Longrightarrow> hardens a (add_trace s r b)" "hardens a b \<Longrightarrow> hardens a (recordRuleMatch rl b)"
  "hardens a b \<Longrightarrow> hardens a (AddSkip ms b)" "hardens a b \<Longrightarrow> hardens a (b\<lparr>px_Hard := True\<rparr>)"
  "hardens a b \<Longrightarrow> hardens a (b\<lparr>px_CacheHit := h\<rparr>)" "hardens a b \<Longrightarrow> hardens a (AddDecision d b)"
  by (erule hardens_trans, simp)+

lemma hardens_rules: "hardens a ctx \<Longrightarrow> hardens a (fst (evaluate_rules matches rs ctx))"
  by (induction rs arbitrary: ctx) (simp_all add: hardens_into)

lemma hardens_passed: "hardens a ctx \<Longrightarrow> hardens a (evaluate_passed matches rs b ctx)"
  by (induction rs arbitrary: b ctx) (simp_all add: hardens_into)

lemma hardens_limit: "hardens ctx (limit_result stage r ctx)"
  unfolding limit_result_def by (simp add: hardens_into split: stage_result.split)

lemma hardens_cache: "hardens ctx (CacheCheck_Handle cached ctx)"
  unfolding CacheCheck_Handle_def by (simp add: hardens_into split: option.split)

lemma hardens_engine: "hardens ctx (fst (RulesEngine_Handle env ctx))"
  unfolding RulesEngine_Handle_def
  by (simp add: hardens_rules hardens_passed split: option.split)

definition before_limits :: "pipeline_env \<Rightarrow> pipeline_context" where
  "before_limits env = IPAccess_Handle (pe_ip_rule env) (ChallengeValidator_Handle (pe_cookie env) new_context)"

lemma phase1_parts: "phase1 env lm =
    (fst (limit_stages env lm (before_limits env)),
     RulesEngine_Handle env (CacheCheck_Handle (pe_cached env) (snd (limit_stages env lm (before_limits env)))))"
  by (simp add: phase1_def before_limits_def Let_def split: prod.split)

lemma hardens_phase1: "hardens (snd (limit_stages env lm (before_limits env))) (fst (snd (phase1 env lm)))"
  unfolding phase1_parts using hardens_trans [OF hardens_cache hardens_engine] by simp

lemma rank_stops: "3 \<le> GetActionRank a \<longleftrightarrow> a = ''block'' \<or> a = ''challenge''"
  by (simp add: GetActionRank_def)

lemma rank_block: "4 \<le> GetActionRank a \<longleftrightarrow> a = ''block''"
  by (simp add: GetActionRank_def)

lemma stopped_answer:
  assumes "px_Hard ctx" and "\<not> px_Passed ctx" and "action_current ctx" and "3 \<le> GetActionRank (de_Action (px_Decision ctx))"
    and "hardens ctx ctx'"
  shows "phase4 (after_phase1 env ctx') \<noteq> Proxied"
proof -
  have "3 \<le> GetActionRank (de_Action (px_Decision ctx'))" using assms(4,5) by (simp add: hardens_def)
  then show ?thesis using assms(1-3,5) by (auto simp: hardens_def after_phase1_def phase4_def action_current_def rank_stops)
qed

lemma no_cookie_no_rule:
  assumes "case pe_cookie env of Valid_Cookie _ \<Rightarrow> False | _ \<Rightarrow> True" and "pe_ip_rule env = Some None"
  shows "action_current (before_limits env)" "\<not> px_Passed (before_limits env)" "\<not> px_Terminal (before_limits env)"
    "\<not> px_Hard (before_limits env)" "px_SkipModules (before_limits env) = []" "px_SkipPhases (before_limits env) = []"
    "px_Decision (before_limits env) = NewDecision [] [] []" "px_Entries (before_limits env) = []"
  using assms
  by (auto simp: before_limits_def IPAccess_Handle_def ChallengeValidator_Handle_def new_context_def add_trace_def action_current_def
      NewDecision_def split: cookie_check.splits)

text \<open>Whatever stops a request at the limits stops it with one of the actions a limit can have.\<close>

definition limit_stop_action :: "limit_store \<Rightarrow> string \<Rightarrow> bool" where
  "limit_stop_action cfg a \<longleftrightarrow> a = ''challenge'' \<or> a = ''block'' \<or> a \<noteq> [] \<and> a \<in> {lp_Action (ls_Attack cfg), lp_Action (ls_Error cfg), lp_Action (ls_Basic cfg)}"

lemma flood_stop_action: "snd (flood_Handle fc cfg now rq f) = Stage_Stop a r \<Longrightarrow> limit_stop_action cfg a"
  by (auto simp: flood_Handle_def limit_stop_action_def action_of_def Let_def split: if_splits prod.splits)


section \<open>Modules a rule can skip\<close>

definition module_category :: "string \<Rightarrow> score_category option" where
  "module_category m =
     (if m = ''waf'' then Some Cat_Waf_Anomaly else if m = ''bot'' then Some Cat_Bot_Detection
      else if m = ''ip_reputation'' then Some Cat_Ip_Reputation else if m = ''protocol_anomaly'' then Some Cat_Protocol_Anomaly
      else None)"

lemma limits_ignore_rules: "limit_stages (env\<lparr>pe_rules := rs\<rparr>) lm ctx = limit_stages env lm ctx"
  "before_limits (env\<lparr>pe_rules := rs\<rparr>) = before_limits env"
  by (simp_all add: limit_stages_def limited_of_def before_limits_def)

definition entries_in :: "score_category set \<Rightarrow> (score_category \<times> string \<times> int) list \<Rightarrow> bool" where
  "entries_in C es \<longleftrightarrow> list_all (\<lambda>(cat, _). cat \<in> C) es"

text \<open>The categories a context can still get scores in.\<close>

definition open_categories :: "pipeline_context \<Rightarrow> score_category set" where
  "open_categories ctx = {cat. \<forall>m\<in>set (px_SkipModules ctx). module_category m \<noteq> Some cat}"

lemma phase2_entries:
  assumes "px_Entries ctx = []" and "entries_in {Cat_Trust} (pe_history env)"
  shows "entries_in (open_categories ctx) (px_Entries (phase2 env ctx))"
proof -
  have trust: "entries_in {Cat_Trust} (trust_entries (pe_trust env) n)" for n
    by (simp add: entries_in_def trust_entries_def Let_def)
  have an: "entries_in {Cat_Protocol_Anomaly} (anomaly_entries (pe_anomaly env) (pe_protocol env))"
    by (simp add: entries_in_def anomaly_entries_def list_all_iff)
  have sub: "entries_in C es \<Longrightarrow> C \<subseteq> D \<Longrightarrow> entries_in D es" for C D es
    by (auto simp: entries_in_def list_all_iff)
  have app: "entries_in C (es @ fs) \<longleftrightarrow> entries_in C es \<and> entries_in C fs" for C es fs by (simp add: entries_in_def)
  have t: "Cat_Trust \<in> open_categories ctx" by (simp add: open_categories_def module_category_def)
  have o: "''ip_reputation'' \<notin> set (px_SkipModules ctx) \<Longrightarrow> Cat_Ip_Reputation \<in> open_categories ctx"
    "''bot'' \<notin> set (px_SkipModules ctx) \<Longrightarrow> Cat_Bot_Detection \<in> open_categories ctx"
    "''waf'' \<notin> set (px_SkipModules ctx) \<Longrightarrow> Cat_Waf_Anomaly \<in> open_categories ctx"
    "''protocol_anomaly'' \<notin> set (px_SkipModules ctx) \<Longrightarrow> Cat_Protocol_Anomaly \<in> open_categories ctx"
    by (auto simp: open_categories_def module_category_def)
  define ctx1 where "ctx1 = IPReputation_Handle env ctx"
  define ctx2 where "ctx2 = BotDetection_Handle env ctx1"
  define ctx3 where "ctx3 = WAFEngine_Handle env ctx2"
  define ctx4 where "ctx4 = ProtocolAnomaly_Handle env ctx3"
  define ctx5 where "ctx5 = History_Handle env ctx4"
  have 1: "entries_in (open_categories ctx) (px_Entries ctx1)" "px_SkipModules ctx1 = px_SkipModules ctx"
    using assms(1) o(1) by (auto simp: ctx1_def IPReputation_Handle_def AddScore_def add_trace_def entries_in_def Let_def)
  have 2: "entries_in (open_categories ctx) (px_Entries ctx2)" "px_SkipModules ctx2 = px_SkipModules ctx"
    using 1 o(2) by (auto simp: ctx2_def BotDetection_Handle_def AddScore_def add_trace_def entries_in_def)
  have 3: "entries_in (open_categories ctx) (px_Entries ctx3)" "px_SkipModules ctx3 = px_SkipModules ctx"
    using 2 o(3) by (auto simp: ctx3_def WAFEngine_Handle_def AddScore_def add_trace_def entries_in_def)
  have 4: "entries_in (open_categories ctx) (px_Entries ctx4)"
    using 3 sub [OF an] o(4) by (auto simp: ctx4_def ProtocolAnomaly_Handle_def add_trace_def app)
  have 5: "entries_in (open_categories ctx) (px_Entries ctx5)"
    using 4 sub [OF assms(2)] t by (auto simp: ctx5_def History_Handle_def app)
  show ?thesis
    using 5 sub [OF trust] t
    by (auto simp: phase2_def ctx1_def [symmetric] ctx2_def [symmetric] ctx3_def [symmetric] ctx4_def [symmetric] ctx5_def [symmetric]
        Trust_Handle_def add_trace_def app)
qed

definition skips :: "(compiled_rule \<Rightarrow> bool option) \<Rightarrow> string \<Rightarrow> compiled_rule \<Rightarrow> bool" where
  "skips matches m r \<longleftrightarrow> rule_applies matches r \<and> gr_Action r = ''skip'' \<and> m \<in> set (gr_SkipModules r)"

lemma skip_modules_of_ops [simp]:
  "px_SkipModules (add_trace s r ctx) = px_SkipModules ctx" "px_SkipModules (recordRuleMatch rl ctx) = px_SkipModules ctx"
  "px_SkipModules (AddSkip ms ctx) = px_SkipModules ctx @ ms"
  by (simp_all add: add_trace_def recordRuleMatch_def AddSkip_def)

lemma rules_skip:
  assumes "list_all (\<lambda>r. \<not> (rule_applies matches r \<and> rule_decides r)) rs"
  shows "m \<in> set (px_SkipModules (fst (evaluate_rules matches rs ctx))) \<longleftrightarrow> m \<in> set (px_SkipModules ctx) \<or> list_ex (skips matches m) rs"
  using assms by (induction rs arbitrary: ctx) (auto simp: skips_def)

lemma rules_keep:
  assumes "list_all (\<lambda>r. \<not> (rule_applies matches r \<and> rule_decides r)) rs"
  shows "px_Hard (fst (evaluate_rules matches rs ctx)) = px_Hard ctx \<and> px_Action (fst (evaluate_rules matches rs ctx)) = px_Action ctx"
  using assms by (induction rs arbitrary: ctx) (auto simp: add_trace_def recordRuleMatch_def AddSkip_def)

lemma limit_result_running:
  "px_Hard (limit_result stage r ctx) \<or> (\<exists>x. limit_result stage r ctx = add_trace stage x ctx)"
  by (auto simp: limit_result_def split: stage_result.split)

lemma skip_modules_limits [simp]: "px_SkipModules (snd (limit_stages env lm ctx)) = px_SkipModules ctx"
proof -
  have "px_SkipModules (limit_result stage r ctx) = px_SkipModules ctx" for stage r ctx
    by (simp add: limit_result_def AddDecision_def Let_def split: stage_result.split)
  then show ?thesis by (simp add: limit_stages_def Let_def split: prod.split)
qed

lemma flags_cache [simp]:
  "px_SkipModules (CacheCheck_Handle cached ctx) = px_SkipModules ctx" "px_Terminal (CacheCheck_Handle cached ctx) = px_Terminal ctx"
  "px_Passed (CacheCheck_Handle cached ctx) = px_Passed ctx"
  by (simp_all add: CacheCheck_Handle_def AddDecision_def add_trace_def Let_def split: option.split)

lemma flags_limits: "px_Terminal (snd (limit_stages env lm ctx)) = px_Terminal ctx" "px_Passed (snd (limit_stages env lm ctx)) = px_Passed ctx"
  "px_Entries (snd (limit_stages env lm ctx)) = px_Entries ctx"
proof -
  have "px_Terminal (limit_result stage r ctx) = px_Terminal ctx" for stage r ctx
    by (simp add: limit_result_def AddDecision_def add_trace_def Let_def split: stage_result.split)
  then show "px_Terminal (snd (limit_stages env lm ctx)) = px_Terminal ctx"
    by (simp add: limit_stages_def Let_def split: prod.split)
  show "px_Passed (snd (limit_stages env lm ctx)) = px_Passed ctx" "px_Entries (snd (limit_stages env lm ctx)) = px_Entries ctx"
    using hardens_limit by (simp_all add: limit_stages_def hardens_def Let_def split: prod.split)
qed

lemma rules_reached:
  assumes "case pe_cookie env of Valid_Cookie _ \<Rightarrow> False | _ \<Rightarrow> True" and "pe_ip_rule env = Some None" and "pe_rules env = Some rs"
  shows "phase1 env lm = (fst (limit_stages env lm (before_limits env)),
    evaluate_rules (pe_matches env) rs (CacheCheck_Handle (pe_cached env) (snd (limit_stages env lm (before_limits env)))))"
  using no_cookie_no_rule(2,3) [OF assms(1,2)] assms(3) by (simp add: phase1_parts RulesEngine_Handle_def flags_limits)

text \<open>C7: what skipping a module does.  Rules that only skip or log change nothing about the limits, neither their counters nor
  whether and how they stop the request, also when they skip \<open>flood\<close> or \<open>rate_limit\<close>, because the limits come first; of the
  modules the forms offer, the other four are skipped: the request gets no score in their category.\<close>

theorem skip_modules_reach:
  assumes "case pe_cookie env of Valid_Cookie _ \<Rightarrow> False | _ \<Rightarrow> True" and "pe_ip_rule env = Some None" and "pe_rules env = Some rs"
    and "list_all (\<lambda>r. \<not> (rule_applies (pe_matches env) r \<and> rule_decides r)) rs" and "entries_in {Cat_Trust} (pe_history env)"
  shows "(case (phase1 env lm, phase1 (env\<lparr>pe_rules := Some []\<rparr>) lm) of ((lm1, ctx1, _), (lm0, ctx0, _)) \<Rightarrow>
      lm1 = lm0 \<and> px_Hard ctx1 = px_Hard ctx0 \<and> px_Action ctx1 = px_Action ctx0 \<and>
      list_all (\<lambda>(m, _). if list_ex (skips (pe_matches env) m) rs
        then list_all (\<lambda>(cat, _). module_category m \<noteq> Some cat) (px_Entries (phase2 env ctx1)) else True) skip_module_options)"
proof -
  let ?c = "CacheCheck_Handle (pe_cached env) (snd (limit_stages env lm (before_limits env)))"
  obtain c1 d where ev: "evaluate_rules (pe_matches env) rs ?c = (c1, d)" by (cases "evaluate_rules (pe_matches env) rs ?c")
  have p1: "phase1 env lm = (fst (limit_stages env lm (before_limits env)), evaluate_rules (pe_matches env) rs ?c)"
    by (rule rules_reached [OF assms(1-3)])
  have p0: "phase1 (env\<lparr>pe_rules := Some []\<rparr>) lm = (fst (limit_stages env lm (before_limits env)), add_trace ''custom_rules'' ''PASS'' ?c, None)"
    using rules_reached [of "env\<lparr>pe_rules := Some []\<rparr>" "[]" lm] assms(1,2) by (simp add: limits_ignore_rules)
  have "px_Entries c1 = px_Entries ?c"
    using hardens_rules [OF hardens_refl, of "?c" "pe_matches env" rs] by (simp add: hardens_def ev)
  also have "\<dots> = []"
    using hardens_cache [of "snd (limit_stages env lm (before_limits env))" "pe_cached env"] no_cookie_no_rule(8) [OF assms(1,2)]
    by (simp add: hardens_def flags_limits)
  finally have e: "entries_in (open_categories c1) (px_Entries (phase2 env c1))" by (rule phase2_entries [OF _ assms(5)])
  have "list_all (\<lambda>(cat, _). module_category m \<noteq> Some cat) (px_Entries (phase2 env c1))" if "list_ex (skips (pe_matches env) m) rs" for m
  proof -
    have "m \<in> set (px_SkipModules c1)" using rules_skip [OF assms(4), of m ?c] that by (simp add: ev)
    then show ?thesis using e by (auto simp: entries_in_def open_categories_def list_all_iff)
  qed
  then have "list_all (\<lambda>(m, _). if list_ex (skips (pe_matches env) m) rs
      then list_all (\<lambda>(cat, _). module_category m \<noteq> Some cat) (px_Entries (phase2 env c1)) else True) skip_module_options"
    by (auto simp: list_all_iff)
  then show ?thesis
    using rules_keep [OF assms(4), of ?c] by (simp add: p1 p0 ev add_trace_def)
qed

section \<open>The first rule decides\<close>

lemma rules_first:
  assumes "find (\<lambda>r. rule_applies matches r \<and> rule_decides r) rs = Some r" and "px_Decision ctx = NewDecision [] [] []"
  shows "px_Hard (fst (evaluate_rules matches rs ctx)) \<and> px_Action (fst (evaluate_rules matches rs ctx)) = gr_Action r"
  using assms
proof (induction rs arbitrary: ctx)
  case (Cons q rs)
  have kept: "px_Decision (recordRuleMatch q (AddSkip ms ctx)) = NewDecision [] [] []" "px_Decision (recordRuleMatch q ctx) = NewDecision [] [] []" for ms
    using Cons.prems(2) by (simp_all add: recordRuleMatch_def AddSkip_def)
  show ?case
  proof (cases "rule_applies matches q \<and> rule_decides q")
    case True
    then show ?thesis using Cons.prems
      by (auto simp: rule_decides_def add_trace_def recordRuleMatch_def AddDecision_def ResolveDecision_def rule_decision_def NewDecision_def GetActionRank_def Let_def)
  next
    case False
    then show ?thesis using Cons.IH Cons.prems kept by auto
  qed
qed simp

lemma first_least:
  assumes "sorted (map f xs)" and "find P xs = Some x" and "y \<in> set xs" and "P y"
  shows "f x \<le> f y"
  using assms by (induction xs) (auto split: if_splits)

definition rule_answer :: "string \<Rightarrow> answer" where
  "rule_answer action = (if action = ''block'' then Blocked_Page else if action = ''challenge'' then Challenge_Page else Proxied)"


section \<open>Samples\<close>

definition sample_compiled :: "int \<Rightarrow> string \<Rightarrow> string list \<Rightarrow> int \<Rightarrow> compiled_rule" where
  "sample_compiled ident action modules p = \<lparr>gr_ID = ident, gr_Name = ''r'', gr_Scope = ''app'', gr_Action = action, gr_SkipModules = modules,
     gr_Priority = p, gr_Enabled = True\<rparr>"

definition sample_env :: "int \<Rightarrow> compiled_rule list \<Rightarrow> pipeline_env" where
  "sample_env limit rs = \<lparr>pe_cookie = No_Cookie, pe_ip_rule = Some None, pe_ip = ''1.1.1.1'', pe_path = ''/'', pe_key = ''k'', pe_now = 10 ^ 12,
     pe_flood_cfg = \<lparr>fc_BasicLimit = limit, fc_BasicWindow = 10 ^ 9, fc_AttackLimit = 9, fc_AttackWindow = 10 ^ 9, fc_ErrorLimit = 9,
       fc_ErrorWindow = 10 ^ 9\<rparr>,
     pe_limits = DefaultRateLimitConfig, pe_cached = None, pe_rules = Some rs, pe_matches = (\<lambda>_. Some True),
     pe_reputation = \<lparr>rf_ip_entry = Some 25, rf_asn_entry = None, rf_dc = False, rf_cloud = False, rf_dc_score = 0, rf_asn_score = 0\<rparr>,
     pe_bot_score = 30, pe_waf = (''920100'', 20), pe_protocol = smuggling_request, pe_anomaly = DefaultProtocolAnomalyRules,
     pe_history = [], pe_trust = default_trust_levels, pe_scoring = sample_scoring\<rparr>"

definition sample_limiters :: limiters where
  "sample_limiters = \<lparr>lm_flood = NewFloodProtector, lm_service = \<lparr>sv_cfg = DefaultRateLimitConfig, sv_limiter = []\<rparr>\<rparr>"

definition skip_limits :: compiled_rule where
  "skip_limits = sample_compiled 1 ''skip'' [''flood'', ''rate_limit'', ''waf''] 10"


theorem skip_modules_reach_witness:
  "list_all (\<lambda>(cat, _). Cat_Waf_Anomaly \<noteq> cat) (px_Entries (phase2 (sample_env 9 [skip_limits]) (fst (snd (phase1 (sample_env 9 [skip_limits]) sample_limiters)))))"
proof -
  let ?env = "sample_env 9 [skip_limits]"
  have h: "case pe_cookie ?env of Valid_Cookie _ \<Rightarrow> False | _ \<Rightarrow> True" "pe_ip_rule ?env = Some None" "pe_rules ?env = Some [skip_limits]"
    "list_all (\<lambda>r. \<not> (rule_applies (pe_matches ?env) r \<and> rule_decides r)) [skip_limits]" "entries_in {Cat_Trust} (pe_history ?env)"
    by (simp_all add: sample_env_def skip_limits_def sample_compiled_def rule_decides_def entries_in_def)
  have s: "skips (pe_matches ?env) ''waf'' skip_limits"
    by (simp add: skips_def rule_applies_def sample_env_def skip_limits_def sample_compiled_def)
  show ?thesis
    using skip_modules_reach [OF h, of sample_limiters] s
    by (simp add: skip_module_options_def module_category_def split: prod.splits)
qed

definition limits_off :: limit_store where
  "limits_off = DefaultRateLimitConfig\<lparr>ls_Basic := (ls_Basic DefaultRateLimitConfig)\<lparr>lp_Enabled := False\<rparr>,
     ls_Attack := (ls_Attack DefaultRateLimitConfig)\<lparr>lp_Enabled := False\<rparr>\<rparr>"

lemma limits_off_stages:
  "snd (flood_Handle fc limits_off now rq NewFloodProtector) \<in> {Stage_Skip, Stage_Pass}"
  "snd (rate_limit_Handle now rq \<lparr>sv_cfg = limits_off, sv_limiter = []\<rparr>) \<in> {Stage_Skip, Stage_Pass}"
  by (simp_all add: flood_Handle_def IsChallenged_def NewFloodProtector_def newFloodShard_def rate_limit_Handle_def service_Allow_def
      limits_off_def DefaultRateLimitConfig_def Let_def)

lemma limits_off_pass:
  assumes "pe_limits env = limits_off" and "\<not> px_Hard ctx"
  shows "\<not> px_Hard (snd (limit_stages env \<lparr>lm_flood = NewFloodProtector, lm_service = \<lparr>sv_cfg = limits_off, sv_limiter = []\<rparr>\<rparr> ctx))"
proof -
  have keep: "\<not> px_Hard (limit_result stage r c)" if "r \<in> {Stage_Skip, Stage_Pass}" "\<not> px_Hard c" for stage r c
    using that by (auto simp: limit_result_def add_trace_def)
  have snd_stages: "snd (limit_stages env lm ctx) = limit_result ''rate_limit'' (snd (rate_limit_Handle (pe_now env) (limited_of env (limit_result ''flood''
      (snd (flood_Handle (pe_flood_cfg env) (pe_limits env) (pe_now env) (limited_of env ctx) (lm_flood lm))) ctx)) (lm_service lm)))
      (limit_result ''flood'' (snd (flood_Handle (pe_flood_cfg env) (pe_limits env) (pe_now env) (limited_of env ctx) (lm_flood lm))) ctx)" for lm
    by (simp add: limit_stages_def Let_def case_prod_unfold)
  show ?thesis unfolding snd_stages assms(1) limiters.simps
    by (intro keep limits_off_stages assms(2))
qed


end
