(* ===== verification/Rule_Views.thy ===== *)
theory Rule_Views
  imports Pipeline Ip_Access Views
begin

text \<open>
  What the screens for rules show and let the user do: the list of global rules and its rows
  (\<open>src/frontend/src/pages/security/RulesEngine.tsx\<close>, \<open>components/rules/SortableRuleRow.tsx\<close>), the form of a rule
  (\<open>RuleForm.tsx\<close>), the rules of an application (\<open>components/rules/AppRulesSection.tsx\<close>, \<open>AppRuleRow.tsx\<close>,
  \<open>RuleDeleteDialog.tsx\<close>) and its access rules (\<open>components/ip-access/IPAccessSection.tsx\<close>), as machines over the states and
  handlers of \<open>Rules_Page\<close> and \<open>Ip_Access\<close>.  A control that is not there, or is disabled, gives \<open>None\<close>; dragging is in
  \<open>Rules_Page\<close>.
\<close>

section \<open>Rows of rules\<close>

definition rule_badge :: "rule_action \<Rightarrow> string" where
  "rule_badge a =
     (case a of Act_Block \<Rightarrow> ''action-block'' | Act_Challenge \<Rightarrow> ''action-challenge'' | Act_Allow \<Rightarrow> ''action-allow''
      | Act_Skip \<Rightarrow> ''action-skip'' | Act_Log \<Rightarrow> ''bg-muted text-muted-foreground'')"

record security_rule_row =
  rrw_reordering :: bool
  rrw_priority   :: string
  rrw_name       :: string
  rrw_expression :: string
  rrw_events     :: string
  rrw_badge      :: "string \<times> string"
  rrw_status     :: string
  rrw_toggle     :: string

definition rule_row_of :: "string \<Rightarrow> string \<Rightarrow> bool \<Rightarrow> nat \<Rightarrow> rule \<Rightarrow> security_rule_row" where
  "rule_row_of pause start isReordering triggerCount rl = \<lparr>
     rrw_reordering = isReordering, rrw_priority = CHR ''#'' # int_to_string (rule_priority rl), rrw_name = rule_name rl,
     rrw_expression = rule_expression_raw rl, rrw_events = nat_to_string triggerCount,
     rrw_badge = (rule_badge (rule_action rl), rule_action_str (rule_action rl)),
     rrw_status = (if rule_enabled rl then ''Active'' else ''Disabled''),
     rrw_toggle = (if rule_enabled rl then pause else start)\<rparr>"

definition SortableRuleRow :: "bool \<Rightarrow> nat \<Rightarrow> rule \<Rightarrow> security_rule_row" where
  "SortableRuleRow = rule_row_of ''Pause'' ''Start''"

definition AppRuleRow :: "bool \<Rightarrow> nat \<Rightarrow> rule \<Rightarrow> security_rule_row" where
  "AppRuleRow = rule_row_of ''Disable'' ''Enable''"

text \<open>\<open>ruleEvents?.[rule.id] ?? 0\<close>, and whether the pending reordering is about the rule.\<close>

definition trigger_count :: "(int \<times> nat) list option \<Rightarrow> rule \<Rightarrow> nat" where
  "trigger_count ruleEvents rl =
     (case Option.bind ruleEvents (\<lambda>m. map_of m (rule_id rl)) of None \<Rightarrow> 0 | Some n \<Rightarrow> n)"

definition is_reordering :: "int list option \<Rightarrow> rule \<Rightarrow> bool" where
  "is_reordering pending rl = (case pending of None \<Rightarrow> False | Some ids \<Rightarrow> rule_id rl \<in> set ids)"

definition rule_columns :: "string \<Rightarrow> string list" where
  "rule_columns action_title = [[], ''Priority'', ''Rule Name'', ''Expression'', ''Events'', action_title, ''Status'', ''Actions'']"

definition rule_delete_dialog :: "rule option \<Rightarrow> dialog_view" where
  "rule_delete_dialog rl = \<lparr>dlg_title = ''Delete Security Rule'',
     dlg_description = ''Are you sure you want to delete '' @ (case rl of None \<Rightarrow> [] | Some r \<Rightarrow> rule_name r) @
       ''? This rule will be immediately removed from the request processing pipeline.'',
     dlg_inputs = [], dlg_submit = ''Confirm Delete'', dlg_disabled = False\<rparr>"

section \<open>The list of global rules\<close>

definition re_cards :: "rule list option \<Rightarrow> (string \<times> int) list" where
  "re_cards rules =
     (let rs = or_empty rules
      in [(''Total Rules'', int (length rs)), (''Active Rules'', int (length (filter rule_enabled rs))),
          (''Hard Blocks'', int (length (filter (\<lambda>r. rule_action r = Act_Block) rs))), (''Next Priority'', next_priority rules)])"

definition re_action_options :: "(rule_action option \<times> string) list" where
  "re_action_options = [(None, ''All Actions''), (Some Act_Allow, ''Allow''), (Some Act_Block, ''Block''),
     (Some Act_Challenge, ''Challenge''), (Some Act_Log, ''Log Only''), (Some Act_Skip, ''Skip Modules'')]"

definition re_status_options :: "(status_filter \<times> string) list" where
  "re_status_options = [(Status_All, ''All Status''), (Status_Active, ''Active''), (Status_Disabled, ''Disabled'')]"

definition re_table ::
  "rules_engine \<Rightarrow> int list option \<Rightarrow> (int \<times> nat) list option \<Rightarrow> rule list option \<Rightarrow> string + security_rule_row list" where
  "re_table st pending ruleEvents rules =
     (let shown = filteredRules st rules
      in if shown = [] then Inl ''No rules found''
         else Inr (map (\<lambda>r. SortableRuleRow (is_reordering pending r) (trigger_count ruleEvents r) r) shown))"

datatype re_event =
    Re_Search string | Re_Action "rule_action option" | Re_Status status_filter | Re_Create | Re_Edit rule | Re_Toggle rule
  | Re_Delete rule | Re_Close | Re_Confirm

text \<open>While the dialog is open it covers the page.\<close>

fun re_act :: "server \<Rightarrow> rule list option \<Rightarrow> re_event \<Rightarrow> rules_engine \<Rightarrow> (rules_engine \<times> ui_effect list) option" where
  "re_act server rules (Re_Search s) st = (if re_isDeleteOpen st then None else Some (st\<lparr>re_searchQuery := s\<rparr>, []))"
| "re_act server rules (Re_Action a) st = (if re_isDeleteOpen st then None else Some (st\<lparr>re_actionFilter := a\<rparr>, []))"
| "re_act server rules (Re_Status f) st = (if re_isDeleteOpen st then None else Some (st\<lparr>re_statusFilter := f\<rparr>, []))"
| "re_act server rules Re_Create st = (if re_isDeleteOpen st then None else Some (st, [Navigate ''/rules-engine/create'']))"
| "re_act server rules (Re_Edit r) st =
     (if re_isDeleteOpen st \<or> r \<notin> set (filteredRules st rules) then None
      else Some (st, [Navigate (''/rules-engine/edit/'' @ int_to_string (rule_id r))]))"
| "re_act server rules (Re_Toggle r) st =
     (if re_isDeleteOpen st \<or> r \<notin> set (filteredRules st rules) then None else Some (st, re_handleToggleEnabled server r))"
| "re_act server rules (Re_Delete r) st =
     (if re_isDeleteOpen st \<or> r \<notin> set (filteredRules st rules) then None
      else Some (st\<lparr>re_selectedRule := Some r, re_isDeleteOpen := True\<rparr>, []))"
| "re_act server rules Re_Close st =
     (if re_isDeleteOpen st then Some (st\<lparr>re_isDeleteOpen := False, re_selectedRule := None\<rparr>, []) else None)"
| "re_act server rules Re_Confirm st = (if re_isDeleteOpen st then Some (re_handleDeleteConfirm server st) else None)"

section \<open>The inputs of a rule\<close>

definition rule_action_options :: "(string \<times> string) list" where
  "rule_action_options = [(''allow'', ''Allow''), (''block'', ''Block''), (''challenge'', ''Challenge''), (''log'', ''Log''), (''skip'', ''Skip'')]"

definition module_ticked :: "rule_request \<Rightarrow> string \<Rightarrow> bool" where
  "module_ticked f m \<longleftrightarrow> m \<in> set (or_empty (rr_skip_modules f))"

definition module_inputs :: "rule_request \<Rightarrow> input_view list" where
  "module_inputs f =
     (if rr_action f = Act_Skip then map (\<lambda>(m, label). input_of label (Switch_In (module_ticked f m)) []) skip_module_options else [])"

definition rule_inputs :: "string \<Rightarrow> rule_request \<Rightarrow> input_view list" where
  "rule_inputs enabled_hint f =
     [input_of ''Rule Name *'' (Text_In (rr_name f)) [], input_of ''Description'' (Lines_In (rr_description f)) [],
      input_of ''Action *'' (Choice_In (rule_action_str (rr_action f)) rule_action_options) [],
      input_of ''Priority *'' (Number_In (rr_priority f)) ''Lower priority rules are evaluated first in the pipeline''] @
     module_inputs f @ [input_of ''Enable Rule'' (Switch_In (rr_enabled f)) enabled_hint]"

text \<open>A change of an input; the two forms differ in how they read the priority.\<close>

datatype rule_input =
    Rule_Name string | Rule_Description string | Rule_Action rule_action | Rule_Priority string | Tick_Module string | Rule_Enabled bool

definition tick_module :: "string \<Rightarrow> rule_request \<Rightarrow> rule_request" where
  "tick_module m f =
     (let modules = or_empty (rr_skip_modules f)
      in f\<lparr>rr_skip_modules := Some (if m \<in> set modules then filter (\<lambda>x. x \<noteq> m) modules else modules @ [m])\<rparr>)"

fun rule_edit :: "(string \<Rightarrow> int option) \<Rightarrow> rule_input \<Rightarrow> rule_request \<Rightarrow> rule_request option" where
  "rule_edit num (Rule_Name s) f = Some (f\<lparr>rr_name := s\<rparr>)"
| "rule_edit num (Rule_Description s) f = Some (f\<lparr>rr_description := s\<rparr>)"
| "rule_edit num (Rule_Action a) f =
     Some (f\<lparr>rr_action := a, rr_skip_modules := (if a = Act_Skip then rr_skip_modules f else Some [])\<rparr>)"
| "rule_edit num (Rule_Priority s) f = map_option (\<lambda>n. f\<lparr>rr_priority := n\<rparr>) (num s)"
| "rule_edit num (Tick_Module m) f =
     (if rr_action f = Act_Skip \<and> m \<in> set (map fst skip_module_options) then Some (tick_module m f) else None)"
| "rule_edit num (Rule_Enabled b) f = Some (f\<lparr>rr_enabled := b\<rparr>)"

text \<open>The preview of the builder, the line of the last validation, and the two buttons.\<close>

definition expression_preview :: "builder_mode \<Rightarrow> string \<Rightarrow> string option" where
  "expression_preview mode expression = (if mode = Visual \<and> expression \<noteq> [] then Some expression else None)"

definition validation_line :: "validate_response option \<Rightarrow> (bool \<times> string) option" where
  "validation_line v =
     (case v of
        None \<Rightarrow> None
      | Some r \<Rightarrow> Some (vr_valid r, if vr_valid r then ''Expression is valid'' else str_or (vr_error r) ''Invalid expression''))"

definition validate_button :: "bool \<Rightarrow> string \<Rightarrow> string \<times> bool" where
  "validate_button pending expression = (if pending then ''Validating...'' else ''Validate'', expression = [] \<or> pending)"

definition submit_button :: "bool \<Rightarrow> bool \<Rightarrow> bool \<Rightarrow> string \<times> bool" where
  "submit_button isEdit isPending missing =
     (if isPending then ''Saving...'' else if isEdit then ''Save'' else ''Create'', missing \<or> isPending)"

section \<open>The form of a global rule\<close>

definition rf_header :: "bool \<Rightarrow> string \<times> string" where
  "rf_header isEdit =
     (if isEdit then (''Edit Rule'', ''Update rule configuration'')
      else (''Create Rule'', ''Add a new security rule with visual expression builder''))"

definition rf_submit :: "bool \<Rightarrow> bool \<Rightarrow> rule_form \<Rightarrow> string \<times> bool" where
  "rf_submit isEdit pending st = submit_button isEdit pending (rr_name (rf_formData st) = [] \<or> rf_getCurrentExpression st = [])"

datatype rule_form_event = Form_Rule rule_input | Form_Mode builder_mode | Form_Group condition_group | Form_Raw string
  | Form_Validate | Form_Submit | Form_Cancel

text \<open>The priority is what \<open>parseInt\<close> gives; text that gives no number is left out, since the state then is not a number.\<close>

fun rf_act :: "server \<Rightarrow> int option \<Rightarrow> rule_form_event \<Rightarrow> rule_form \<Rightarrow> (rule_form \<times> ui_effect list) option" where
  "rf_act server ident (Form_Rule e) st = map_option (\<lambda>f. (st\<lparr>rf_formData := f\<rparr>, [])) (rule_edit parseInt e (rf_formData st))"
| "rf_act server ident (Form_Mode b) st = Some (st\<lparr>rf_builderMode := b\<rparr>, [])"
| "rf_act server ident (Form_Group g) st =
     (if rf_builderMode st = Visual then Some (st\<lparr>rf_expressionGroup := g\<rparr>, []) else None)"
| "rf_act server ident (Form_Raw s) st =
     (if rf_builderMode st = Raw then Some (st\<lparr>rf_rawExpression := s, rf_validationResult := None\<rparr>, []) else None)"
| "rf_act server ident Form_Validate st =
     (if snd (validate_button False (rf_getCurrentExpression st)) then None else Some (rf_handleValidate server st))"
| "rf_act server ident Form_Submit st =
     (if snd (rf_submit (ident \<noteq> None) False st) then None else Some (st, rf_handleSubmit server ident st))"
| "rf_act server ident Form_Cancel st = Some (st, [Navigate ''/rules-engine''])"

section \<open>The rules of an application\<close>

definition ars_initial :: app_rules_section where
  "ars_initial = \<lparr>ars_view = View_List, ars_editingRule = None, ars_isDeleteOpen = False, ars_ruleToDelete = None,
     ars_formData = DEFAULT_FORM, ars_builderMode = Visual, ars_expressionGroup = DEFAULT_GROUP, ars_rawExpression = [],
     ars_validationResult = None, ars_fields = []\<rparr>"

definition ars_header :: "app_rules_section \<Rightarrow> string \<times> string" where
  "ars_header st =
     (if ars_editingRule st \<noteq> None then (''Edit Rule'', ''Update rule configuration'') else (''Create Rule'', ''Add a new security rule''))"

definition ars_submit :: "bool \<Rightarrow> app_rules_section \<Rightarrow> string \<times> bool" where
  "ars_submit pending st =
     submit_button (ars_editingRule st \<noteq> None) pending (rr_name (ars_formData st) = [] \<or> ars_getCurrentExpression st = [])"

definition ars_table :: "int list option \<Rightarrow> (int \<times> nat) list option \<Rightarrow> rule list option \<Rightarrow> string + security_rule_row list" where
  "ars_table pending ruleEvents rules =
     (if sortedRules rules = [] then Inl ''No rules yet''
      else Inr (map (\<lambda>r. AppRuleRow (is_reordering pending r) (trigger_count ruleEvents r) r) (sortedRules rules)))"

datatype ars_event = Ars_Form rule_form_event | Ars_Create | Ars_Edit rule | Ars_Toggle rule | Ars_Delete rule | Ars_Close | Ars_Confirm
  | Ars_Fields fields

fun ars_form_act :: "server \<Rightarrow> string \<Rightarrow> rule_form_event \<Rightarrow> app_rules_section \<Rightarrow> (app_rules_section \<times> ui_effect list) option" where
  "ars_form_act server appId (Form_Rule e) st =
     map_option (\<lambda>f. (st\<lparr>ars_formData := f\<rparr>, [])) (rule_edit (\<lambda>s. Some (parseInt_or 0 s)) e (ars_formData st))"
| "ars_form_act server appId (Form_Mode b) st = Some (st\<lparr>ars_builderMode := b\<rparr>, [])"
| "ars_form_act server appId (Form_Group g) st =
     (if ars_builderMode st = Visual then Some (st\<lparr>ars_expressionGroup := g\<rparr>, []) else None)"
| "ars_form_act server appId (Form_Raw s) st =
     (if ars_builderMode st = Raw then Some (st\<lparr>ars_rawExpression := s, ars_validationResult := None\<rparr>, []) else None)"
| "ars_form_act server appId Form_Validate st =
     (if snd (validate_button False (ars_getCurrentExpression st)) then None else Some (ars_handleValidate server st))"
| "ars_form_act server appId Form_Submit st =
     (if snd (ars_submit False st) then None else Some (ars_handleSubmit server appId st))"
| "ars_form_act server appId Form_Cancel st = Some (st\<lparr>ars_view := View_List, ars_editingRule := None\<rparr>, [])"

fun ars_act ::
  "server \<Rightarrow> string \<Rightarrow> (nat \<Rightarrow> string) \<Rightarrow> rule list option \<Rightarrow> ars_event \<Rightarrow> app_rules_section \<Rightarrow> (app_rules_section \<times> ui_effect list) option" where
  "ars_act server appId fresh rules (Ars_Fields fs) st = Some (st\<lparr>ars_fields := fs\<rparr>, [])"
| "ars_act server appId fresh rules (Ars_Form e) st = (if ars_view st = View_Form then ars_form_act server appId e st else None)"
| "ars_act server appId fresh rules Ars_Create st =
     (if ars_view st = View_List \<and> \<not> ars_isDeleteOpen st then Some (ars_openCreate rules st, []) else None)"
| "ars_act server appId fresh rules (Ars_Edit r) st =
     (if ars_view st = View_List \<and> \<not> ars_isDeleteOpen st \<and> r \<in> set (sortedRules rules) then Some (ars_openEdit fresh r st, []) else None)"
| "ars_act server appId fresh rules (Ars_Toggle r) st =
     (if ars_view st = View_List \<and> \<not> ars_isDeleteOpen st \<and> r \<in> set (sortedRules rules) then Some (st, ars_handleToggle server appId r) else None)"
| "ars_act server appId fresh rules (Ars_Delete r) st =
     (if ars_view st = View_List \<and> \<not> ars_isDeleteOpen st \<and> r \<in> set (sortedRules rules)
      then Some (st\<lparr>ars_ruleToDelete := Some r, ars_isDeleteOpen := True\<rparr>, []) else None)"
| "ars_act server appId fresh rules Ars_Close st =
     (if ars_view st = View_List \<and> ars_isDeleteOpen st then Some (st\<lparr>ars_isDeleteOpen := False, ars_ruleToDelete := None\<rparr>, []) else None)"
| "ars_act server appId fresh rules Ars_Confirm st =
     (if ars_view st = View_List \<and> ars_isDeleteOpen st then Some (ars_handleDeleteConfirm server appId st) else None)"

section \<open>Access rules\<close>

definition ips_header :: "ip_section \<Rightarrow> string \<times> string" where
  "ips_header st =
     (if ips_editingRule st \<noteq> None then (''Edit IP Access Rule'', ''Update the IP access rule configuration'')
      else (''Create IP Access Rule'', ''Add a new IP address or CIDR block to control access''))"

definition ips_action_options :: "(string \<times> string) list" where
  "ips_action_options = [(''allow'', ''Allow''), (''block'', ''Block''), (''challenge'', ''Challenge'')]"

definition ips_inputs :: "ip_section \<Rightarrow> input_view list" where
  "ips_inputs st =
     (let f = ips_formData st
      in [input_of ''IP Address / CIDR'' (Text_In (ipc_ip_range f)) (ips_ipRangeError st),
          input_of ''Description'' (Lines_In (ipc_description f)) [],
          input_of ''Action'' (Choice_In (access_action_str (ipc_action f)) ips_action_options)
            ''Allow: Bypass all checks | Block: Deny access | Challenge: Show CAPTCHA'',
          input_of ''Enabled'' (Switch_In (ipc_enabled f)) ''Activate this rule''])"

definition ips_submit :: "bool \<Rightarrow> ip_section \<Rightarrow> string \<times> bool" where
  "ips_submit pending st = submit_button (ips_editingRule st \<noteq> None) pending (ipc_ip_range (ips_formData st) = [])"

record access_row =
  acr_order  :: string
  acr_range  :: string
  acr_notes  :: string
  acr_badge  :: "string \<times> string"
  acr_status :: string
  acr_toggle :: string

definition access_row_view :: "ip_access_rule \<Rightarrow> access_row" where
  "access_row_view r = \<lparr>
     acr_order = CHR ''#'' # int_to_string (ipa_id r), acr_range = ipa_ip_range r,
     acr_notes = text_or (ipa_description r) ''No description'',
     acr_badge = ((case ipa_action r of Acc_Block \<Rightarrow> ''action-block'' | Acc_Challenge \<Rightarrow> ''action-challenge'' | Acc_Allow \<Rightarrow> ''action-allow''),
       access_action_str (ipa_action r)),
     acr_status = (if ipa_enabled r then ''Active'' else ''Disabled''), acr_toggle = (if ipa_enabled r then ''Disable'' else ''Enable'')\<rparr>"

definition access_table :: "ip_access_rule list option \<Rightarrow> string + access_row list" where
  "access_table rules =
     (case rules of None \<Rightarrow> Inl ''No IP access rules yet''
      | Some rs \<Rightarrow> if rs = [] then Inl ''No IP access rules yet'' else Inr (map access_row_view rs))"

definition access_delete_dialog :: dialog_view where
  "access_delete_dialog = \<lparr>dlg_title = ''Delete IP Access Rule'',
     dlg_description = ''Are you sure you want to delete this IP access rule? This will immediately affect request processing.'',
     dlg_inputs = [], dlg_submit = ''Confirm Delete'', dlg_disabled = False\<rparr>"

datatype ips_event =
    Ips_Create | Ips_Edit ip_access_rule | Ips_Toggle ip_access_rule | Ips_Delete ip_access_rule | Ips_Dismiss | Ips_Cancel_Delete
  | Ips_Confirm | Ips_Back | Ips_Range string | Ips_Blur | Ips_Description string | Ips_Action access_action | Ips_Enabled bool | Ips_Submit

definition set_ip_form :: "(ip_access_create \<Rightarrow> ip_access_create) \<Rightarrow> ip_section \<Rightarrow> ip_section" where
  "set_ip_form f st = st\<lparr>ips_formData := f (ips_formData st)\<rparr>"

definition check_range :: "string \<Rightarrow> ip_section \<Rightarrow> ip_section" where
  "check_range v st = st\<lparr>ips_ipRangeError := snd (validateIPRange v)\<rparr>"

text \<open>Typing checks the range again only while a message is shown; leaving the field always checks.  Dismissing the dialog, other than
  by its button, keeps the rule to delete.\<close>

fun ips_act ::
  "server \<Rightarrow> string \<Rightarrow> ip_access_rule list option \<Rightarrow> ips_event \<Rightarrow> ip_section \<Rightarrow> (ip_section \<times> ui_effect list) option" where
  "ips_act server appId rules (Ips_Range v) st =
     (if ips_view st = View_Form
      then (let st' = set_ip_form (\<lambda>f. f\<lparr>ipc_ip_range := v\<rparr>) st
            in Some (if ips_ipRangeError st \<noteq> [] then check_range v st' else st', [])) else None)"
| "ips_act server appId rules Ips_Blur st =
     (if ips_view st = View_Form then Some (check_range (ipc_ip_range (ips_formData st)) st, []) else None)"
| "ips_act server appId rules (Ips_Description s) st =
     (if ips_view st = View_Form then Some (set_ip_form (\<lambda>f. f\<lparr>ipc_description := s\<rparr>) st, []) else None)"
| "ips_act server appId rules (Ips_Action a) st =
     (if ips_view st = View_Form then Some (set_ip_form (\<lambda>f. f\<lparr>ipc_action := a\<rparr>) st, []) else None)"
| "ips_act server appId rules (Ips_Enabled b) st =
     (if ips_view st = View_Form then Some (set_ip_form (\<lambda>f. f\<lparr>ipc_enabled := b\<rparr>) st, []) else None)"
| "ips_act server appId rules Ips_Back st =
     (if ips_view st = View_Form then Some (st\<lparr>ips_view := View_List, ips_editingRule := None\<rparr>, []) else None)"
| "ips_act server appId rules Ips_Submit st =
     (if ips_view st = View_Form \<and> \<not> snd (ips_submit False st) then Some (ips_handleSubmit server appId st) else None)"
| "ips_act server appId rules Ips_Create st =
     (if ips_view st = View_List \<and> \<not> ips_isDeleteOpen st then Some (ips_openCreate st, []) else None)"
| "ips_act server appId rules (Ips_Edit r) st =
     (if ips_view st = View_List \<and> \<not> ips_isDeleteOpen st \<and> r \<in> set (or_empty rules) then Some (ips_openEdit r st, []) else None)"
| "ips_act server appId rules (Ips_Toggle r) st =
     (if ips_view st = View_List \<and> \<not> ips_isDeleteOpen st \<and> r \<in> set (or_empty rules)
      then Some (st, ips_handleToggle server appId (ipa_id r) (\<not> ipa_enabled r)) else None)"
| "ips_act server appId rules (Ips_Delete r) st =
     (if ips_view st = View_List \<and> \<not> ips_isDeleteOpen st \<and> r \<in> set (or_empty rules)
      then Some (st\<lparr>ips_ruleToDelete := Some (ipa_id r), ips_isDeleteOpen := True\<rparr>, []) else None)"
| "ips_act server appId rules Ips_Dismiss st =
     (if ips_view st = View_List \<and> ips_isDeleteOpen st then Some (st\<lparr>ips_isDeleteOpen := False\<rparr>, []) else None)"
| "ips_act server appId rules Ips_Cancel_Delete st =
     (if ips_view st = View_List \<and> ips_isDeleteOpen st then Some (st\<lparr>ips_isDeleteOpen := False, ips_ruleToDelete := None\<rparr>, []) else None)"
| "ips_act server appId rules Ips_Confirm st =
     (if ips_view st = View_List \<and> ips_isDeleteOpen st then Some (ips_handleDeleteConfirm server appId st) else None)"

section \<open>What the section for rules keeps\<close>

text \<open>Skip modules are offered ones, listed once, and only there for the action that uses them.\<close>

definition modules_ok :: "rule_action \<Rightarrow> string list option \<Rightarrow> bool" where
  "modules_ok a ms \<longleftrightarrow> distinct (or_empty ms) \<and> set (or_empty ms) \<subseteq> set (map fst skip_module_options) \<and>
     (a = Act_Skip \<or> or_empty ms = [])"

definition listed_ok :: "rule list option \<Rightarrow> bool" where
  "listed_ok rules \<longleftrightarrow> list_all (\<lambda>r. modules_ok (rule_action r) (rule_skip_modules r)) (or_empty rules)"

definition ars_inv :: "app_rules_section \<Rightarrow> bool" where
  "ars_inv st \<longleftrightarrow> modules_ok (rr_action (ars_formData st)) (rr_skip_modules (ars_formData st)) \<and>
     (ars_isDeleteOpen st \<longrightarrow> ars_ruleToDelete st \<noteq> None \<and> ars_view st = View_List) \<and>
     (ars_editingRule st \<noteq> None \<longrightarrow> ars_view st = View_Form)"

text \<open>The states of the section, with whatever well-formed rules the server lists at each step.\<close>

inductive ars_reachable :: "server \<Rightarrow> string \<Rightarrow> (nat \<Rightarrow> string) \<Rightarrow> app_rules_section \<Rightarrow> bool" for server appId fresh where
  ars_start: "ars_reachable server appId fresh ars_initial"
| ars_event: "ars_reachable server appId fresh st \<Longrightarrow> listed_ok rules \<Longrightarrow> ars_act server appId fresh rules e st = Some (st', es) \<Longrightarrow>
    ars_reachable server appId fresh st'"

lemma or_empty_simps [simp]: "or_empty None = []" "or_empty (Some xs) = xs"
  by (simp_all add: or_empty_def)

lemma modules_tick:
  "modules_ok Act_Skip ms \<Longrightarrow> m \<in> set (map fst skip_module_options) \<Longrightarrow>
   modules_ok Act_Skip (Some (if m \<in> set (or_empty ms) then filter (\<lambda>x. x \<noteq> m) (or_empty ms) else or_empty ms @ [m]))"
  by (auto simp: modules_ok_def)

lemma rule_edit_modules:
  assumes "rule_edit num e f = Some f'" and "modules_ok (rr_action f) (rr_skip_modules f)"
  shows "modules_ok (rr_action f') (rr_skip_modules f')"
proof (cases e)
  case (Tick_Module m)
  with assms(1) have a: "rr_action f = Act_Skip" "m \<in> set (map fst skip_module_options)" and f: "f' = tick_module m f"
    by (auto split: if_splits)
  show ?thesis using modules_tick [of "rr_skip_modules f" m] assms(2) a by (simp add: f tick_module_def Let_def)
qed (use assms in \<open>auto simp: modules_ok_def split: if_splits\<close>)

lemma listed_rule: "listed_ok rules \<Longrightarrow> r \<in> set (sortedRules rules) \<Longrightarrow> modules_ok (rule_action r) (rule_skip_modules r)"
  by (cases rules) (auto simp: listed_ok_def sortedRules_def list_all_iff)

lemma ars_form_inv:
  assumes "ars_form_act server appId e st = Some (st', es)" and "ars_inv st" and "ars_view st = View_Form"
  shows "ars_inv st'"
proof (cases e)
  case (Form_Rule i)
  with assms show ?thesis by (auto simp: ars_inv_def intro: rule_edit_modules)
next
  case Form_Validate
  with assms show ?thesis
    by (auto simp: ars_inv_def ars_handleValidate_def Let_def split: if_splits sum.splits)
next
  case Form_Submit
  with assms show ?thesis by (auto simp: ars_inv_def ars_handleSubmit_def Let_def split: if_splits sum.splits)
qed (use assms in \<open>auto simp: ars_inv_def split: if_splits\<close>)

lemma ars_act_inv:
  assumes "ars_act server appId fresh rules e st = Some (st', es)" and "ars_inv st" and "listed_ok rules"
  shows "ars_inv st'"
proof (cases e)
  case (Ars_Form i)
  with assms show ?thesis by (auto intro: ars_form_inv split: if_splits)
next
  case (Ars_Edit r)
  with assms listed_rule [OF assms(3), of r] show ?thesis
    by (auto simp: ars_inv_def ars_openEdit_def modules_ok_def split: if_splits)
next
  case Ars_Create
  with assms show ?thesis by (auto simp: ars_inv_def ars_openCreate_def DEFAULT_FORM_def modules_ok_def split: if_splits)
next
  case Ars_Confirm
  with assms show ?thesis by (auto simp: ars_inv_def ars_handleDeleteConfirm_def Let_def split: if_splits option.splits sum.splits)
qed (use assms in \<open>auto simp: ars_inv_def split: if_splits\<close>)

lemma ars_initial_inv: "ars_inv ars_initial"
  by (simp add: ars_inv_def ars_initial_def DEFAULT_FORM_def modules_ok_def)

lemma ars_reachable_inv: "ars_reachable server appId fresh st \<Longrightarrow> ars_inv st"
  by (induction rule: ars_reachable.induct) (auto intro: ars_initial_inv ars_act_inv)

text \<open>What one event of the section sends.\<close>

definition rule_saved :: "string \<Rightarrow> app_rules_section \<Rightarrow> mutation_options" where
  "rule_saved appId st =
     (let payload = rule_request_json (ars_payload appId st (ars_getCurrentExpression st))
      in case ars_editingRule st of Some rl \<Rightarrow> useUpdateAppRule appId (rule_id rl) payload | None \<Rightarrow> useCreateAppRule appId payload)"

text \<open>C8: the rules of an application.  In every state the section can reach, Submit is enabled exactly when the handler accepts the
  form, and then sends the one request for it, with a name, an expression, and skip modules that are offered, listed once and only
  there for the action Skip; and while the dialog is open, Confirm sends the deletion of the rule it names.\<close>

theorem rule_section_sound:
  assumes "ars_reachable server appId fresh st"
  shows "(if ars_view st = View_Form then
       (case ars_form_act server appId Form_Submit st of
          None \<Rightarrow> snd (ars_handleSubmit server appId st) = [Toast ''Name and expression are required'' Toast_Error]
        | Some (_, es) \<Rightarrow> mutations es = [rule_saved appId st] \<and> rr_name (ars_formData st) \<noteq> [] \<and> ars_getCurrentExpression st \<noteq> [])
     else ars_editingRule st = None) \<and>
     modules_ok (rr_action (ars_formData st)) (rr_skip_modules (ars_formData st)) \<and>
     (if ars_isDeleteOpen st then
        (case (ars_ruleToDelete st, ars_act server appId fresh rules Ars_Confirm st) of
           (Some r, Some (_, es)) \<Rightarrow> mutations es = [useDeleteAppRule appId (rule_id r)]
         | _ \<Rightarrow> False)
      else ars_act server appId fresh rules Ars_Confirm st = None)"
proof -
  have i: "ars_inv st" using assms by (rule ars_reachable_inv)
  have "if ars_isDeleteOpen st then
        (case (ars_ruleToDelete st, ars_act server appId fresh rules Ars_Confirm st) of
           (Some r, Some (_, es)) \<Rightarrow> mutations es = [useDeleteAppRule appId (rule_id r)]
         | _ \<Rightarrow> False)
      else ars_act server appId fresh rules Ars_Confirm st = None"
    using i by (auto simp: ars_inv_def ars_handleDeleteConfirm_def Let_def)
  moreover have "case ars_form_act server appId Form_Submit st of
          None \<Rightarrow> snd (ars_handleSubmit server appId st) = [Toast ''Name and expression are required'' Toast_Error]
        | Some (_, es) \<Rightarrow> mutations es = [rule_saved appId st] \<and> rr_name (ars_formData st) \<noteq> [] \<and> ars_getCurrentExpression st \<noteq> []"
    by (auto simp: ars_submit_def submit_button_def ars_handleSubmit_def rule_saved_def Let_def split: option.split)
  ultimately show ?thesis using i by (auto simp: ars_inv_def)
qed

lemma stale_validation:
  "ars_validationResult st = Some v \<Longrightarrow> ars_builderMode st = Visual \<Longrightarrow>
   \<exists>st'. ars_form_act server appId (Form_Group g) st = Some (st', []) \<and> ars_getCurrentExpression st' = generateExpression g (ars_fields st) \<and>
     validation_line (ars_validationResult st') = validation_line (Some v)"
  by (simp add: ars_getCurrentExpression_def current_expression_def)


lemma ars_steps:
  "ars_reachable server appId fresh st \<Longrightarrow> listed_ok rules \<Longrightarrow>
   list_all2 (\<lambda>(st, e) st'. ars_act server appId fresh rules e st = Some (st', [])) (zip (st # sts) es) sts \<Longrightarrow> length es = length sts \<Longrightarrow>
   ars_reachable server appId fresh (last (st # sts))"
proof (induction sts arbitrary: st es)
  case (Cons st1 sts)
  then obtain e es' where es: "es = e # es'" by (cases es) auto
  with Cons.prems have "ars_reachable server appId fresh st1" by (auto intro: ars_event)
  from Cons.IH [OF this Cons.prems(2), of es'] Cons.prems es show ?case by simp
qed simp

definition sample_rules_state :: app_rules_section where
  "sample_rules_state = ars_initial\<lparr>ars_view := View_Form, ars_builderMode := Raw, ars_rawExpression := ''ip.src == 1'',
     ars_formData := DEFAULT_FORM\<lparr>rr_priority := 10, rr_name := ''r'', rr_action := Act_Skip, rr_skip_modules := Some [''waf'']\<rparr>\<rparr>"

lemma sample_section_reached: "ars_reachable server appId fresh sample_rules_state"
proof -
  let ?act = "ars_act server appId fresh None"
  let ?f = "DEFAULT_FORM\<lparr>rr_priority := 10\<rparr>"
  let ?s1 = "ars_initial\<lparr>ars_view := View_Form, ars_formData := ?f\<rparr>"
  let ?s2 = "?s1\<lparr>ars_formData := ?f\<lparr>rr_name := ''r''\<rparr>\<rparr>"
  let ?s3 = "?s1\<lparr>ars_formData := ?f\<lparr>rr_name := ''r'', rr_action := Act_Skip\<rparr>\<rparr>"
  let ?s4 = "?s1\<lparr>ars_formData := ?f\<lparr>rr_name := ''r'', rr_action := Act_Skip, rr_skip_modules := Some [''waf'']\<rparr>\<rparr>"
  let ?s5 = "?s4\<lparr>ars_builderMode := Raw\<rparr>"
  have l: "listed_ok None" by (simp add: listed_ok_def)
  note step = ars_event [OF _ l]
  note defs = ars_initial_def ars_openCreate_def DEFAULT_FORM_def next_priority_def tick_module_def skip_module_options_def
  have "?act Ars_Create ars_initial = Some (?s1, [])" by (simp add: defs)
  then have "ars_reachable server appId fresh ?s1" by (rule step [OF ars_start])
  moreover have "?act (Ars_Form (Form_Rule (Rule_Name ''r''))) ?s1 = Some (?s2, [])" by (simp add: defs)
  ultimately have "ars_reachable server appId fresh ?s2" by (rule step)
  moreover have "?act (Ars_Form (Form_Rule (Rule_Action Act_Skip))) ?s2 = Some (?s3, [])" by (simp add: defs)
  ultimately have "ars_reachable server appId fresh ?s3" by (rule step)
  moreover have "?act (Ars_Form (Form_Rule (Tick_Module ''waf''))) ?s3 = Some (?s4, [])" by (simp add: defs)
  ultimately have "ars_reachable server appId fresh ?s4" by (rule step)
  moreover have "?act (Ars_Form (Form_Mode Raw)) ?s4 = Some (?s5, [])" by (simp add: defs)
  ultimately have "ars_reachable server appId fresh ?s5" by (rule step)
  moreover have "?act (Ars_Form (Form_Raw ''ip.src == 1'')) ?s5 = Some (sample_rules_state, [])" by (simp add: defs sample_rules_state_def)
  ultimately show ?thesis by (rule step)
qed

theorem rule_section_sound_witness:
  "mutations (snd (the (ars_form_act accepting ''shop'' Form_Submit sample_rules_state))) = [rule_saved ''shop'' sample_rules_state]"
proof -
  have "ars_form_act accepting ''shop'' Form_Submit sample_rules_state \<noteq> None" "ars_view sample_rules_state = View_Form"
    by (simp_all add: sample_rules_state_def ars_submit_def submit_button_def ars_getCurrentExpression_def current_expression_def DEFAULT_FORM_def)
  then show ?thesis
    using rule_section_sound [OF sample_section_reached, of accepting "''shop''" nat_to_string None]
    by (auto split: option.splits)
qed

section \<open>What the section for access rules keeps\<close>

definition ips_inv :: "ip_section \<Rightarrow> bool" where
  "ips_inv st \<longleftrightarrow> (ips_ipRangeError st = [] \<or> ips_ipRangeError st = snd (validateIPRange (ipc_ip_range (ips_formData st)))) \<and>
     (ips_isDeleteOpen st \<longrightarrow> ips_ruleToDelete st \<noteq> None \<and> ips_view st = View_List) \<and>
     (ips_editingRule st \<noteq> None \<longrightarrow> ips_view st = View_Form)"

inductive ips_reachable :: "server \<Rightarrow> string \<Rightarrow> ip_section \<Rightarrow> bool" for server appId where
  ips_start: "ips_reachable server appId ip_section_initial"
| ips_event: "ips_reachable server appId st \<Longrightarrow> ips_act server appId rules e st = Some (st', es) \<Longrightarrow> ips_reachable server appId st'"

lemma ips_act_inv:
  assumes "ips_act server appId rules e st = Some (st', es)" and "ips_inv st"
  shows "ips_inv st'"
proof (cases e)
  case Ips_Submit
  with assms show ?thesis
    by (auto simp: ips_inv_def ips_handleSubmit_def Let_def split: if_splits prod.splits sum.splits)
next
  case Ips_Confirm
  with assms show ?thesis by (auto simp: ips_inv_def ips_handleDeleteConfirm_def Let_def split: if_splits option.splits sum.splits)
qed (use assms in \<open>auto simp: ips_inv_def check_range_def set_ip_form_def ips_openEdit_def ips_openCreate_def Let_def split: if_splits\<close>)

lemma ips_reachable_inv: "ips_reachable server appId st \<Longrightarrow> ips_inv st"
proof (induction rule: ips_reachable.induct)
  case ips_start
  then show ?case by (simp add: ips_inv_def ip_section_initial_def)
next
  case (ips_event st rules e st' es)
  from ips_act_inv [OF ips_event.hyps(2) ips_event.IH] show ?case .
qed

definition range_saved :: "string \<Rightarrow> ip_section \<Rightarrow> mutation_options" where
  "range_saved appId st =
     (case ips_editingRule st of
        Some rl \<Rightarrow> useUpdateIPAccessRule appId (ipa_id rl) (ip_access_create_json (ips_formData st))
      | None \<Rightarrow> useCreateIPAccessRule appId (ip_access_create_json (ips_formData st)))"

text \<open>C11: the access rules of an application.  In every state the section can reach, a message under the range is the one its
  check gives for the range as it stands; an enabled Submit sends the one request for the form exactly when the range is accepted, and a
  disabled one would send nothing; and while the dialog is open, Confirm sends the deletion of the rule it was opened for.\<close>

theorem access_section_sound:
  assumes "ips_reachable server appId st"
  shows "(ips_ipRangeError st = [] \<or> ips_ipRangeError st = snd (validateIPRange (ipc_ip_range (ips_formData st)))) \<and>
     (if ips_view st = View_Form then
       (case ips_act server appId rules Ips_Submit st of
          None \<Rightarrow> snd (ips_handleSubmit server appId st) = []
        | Some (st', es) \<Rightarrow> ips_ipRangeError st' = snd (validateIPRange (ipc_ip_range (ips_formData st))) \<and>
            mutations es = (if fst (validateIPRange (ipc_ip_range (ips_formData st))) then [range_saved appId st] else []))
     else ips_editingRule st = None) \<and>
     (if ips_isDeleteOpen st then
        (case (ips_ruleToDelete st, ips_act server appId rules Ips_Confirm st) of
           (Some r, Some (_, es)) \<Rightarrow> mutations es = (if r = 0 then [] else [useDeleteIPAccessRule appId r])
         | _ \<Rightarrow> False)
      else ips_act server appId rules Ips_Confirm st = None)"
proof -
  have i: "ips_inv st" using assms by (rule ips_reachable_inv)
  have "if ips_isDeleteOpen st then
        (case (ips_ruleToDelete st, ips_act server appId rules Ips_Confirm st) of
           (Some r, Some (_, es)) \<Rightarrow> mutations es = (if r = 0 then [] else [useDeleteIPAccessRule appId r])
         | _ \<Rightarrow> False)
      else ips_act server appId rules Ips_Confirm st = None"
    using i by (auto simp: ips_inv_def ips_handleDeleteConfirm_def Let_def)
  moreover have "case ips_act server appId rules Ips_Submit st of
          None \<Rightarrow> snd (ips_handleSubmit server appId st) = []
        | Some (st', es) \<Rightarrow> ips_ipRangeError st' = snd (validateIPRange (ipc_ip_range (ips_formData st))) \<and>
            mutations es = (if fst (validateIPRange (ipc_ip_range (ips_formData st))) then [range_saved appId st] else [])"
    if "ips_view st = View_Form"
  proof -
    have t: "trim [] = []" by code_simp
    show ?thesis
    proof (cases "ipc_ip_range (ips_formData st) = []")
      case True
      with that t show ?thesis by (simp add: ips_submit_def submit_button_def ips_handleSubmit_def validateIPRange_def)
    next
      case False
      obtain ok msg where v: "validateIPRange (ipc_ip_range (ips_formData st)) = (ok, msg)" by fastforce
      with that False show ?thesis
        by (auto simp: ips_submit_def submit_button_def ips_handleSubmit_def range_saved_def v Let_def split: option.split sum.split)
    qed
  qed
  ultimately show ?thesis using i by (auto simp: ips_inv_def)
qed

theorem access_section_sound_witness:
  "mutations (snd (the (ips_act accepting ''shop'' None Ips_Submit
     (set_ip_form (\<lambda>f. f\<lparr>ipc_ip_range := ''10.0.0.0/8''\<rparr>) (ips_openCreate ip_section_initial))))) =
   [range_saved ''shop'' (set_ip_form (\<lambda>f. f\<lparr>ipc_ip_range := ''10.0.0.0/8''\<rparr>) (ips_openCreate ip_section_initial))]"
proof -
  let ?s1 = "ips_openCreate ip_section_initial" and ?s2 = "set_ip_form (\<lambda>f. f\<lparr>ipc_ip_range := ''10.0.0.0/8''\<rparr>) (ips_openCreate ip_section_initial)"
  have "ips_act accepting ''shop'' None Ips_Create ip_section_initial = Some (?s1, [])" by (simp add: ip_section_initial_def)
  then have r1: "ips_reachable accepting ''shop'' ?s1" by (rule ips_event [OF ips_start])
  have "ips_act accepting ''shop'' None (Ips_Range ''10.0.0.0/8'') ?s1 = Some (?s2, [])"
    by (simp add: ips_openCreate_def ip_section_initial_def Let_def)
  then have "ips_reachable accepting ''shop'' ?s2" by (rule ips_event [OF r1])
  moreover have "fst (validateIPRange (ipc_ip_range (ips_formData ?s2)))" by code_simp
  moreover have "ips_view ?s2 = View_Form" "ips_act accepting ''shop'' None Ips_Submit ?s2 \<noteq> None"
    by (simp_all add: set_ip_form_def ips_openCreate_def ips_submit_def submit_button_def)
  ultimately show ?thesis using access_section_sound [of accepting "''shop''" ?s2 None] by (auto split: option.splits)
qed

section \<open>What the list of global rules keeps\<close>

inductive re_reachable :: "server \<Rightarrow> rules_engine \<Rightarrow> bool" for server where
  re_start: "re_isDeleteOpen st = False \<Longrightarrow> re_selectedRule st = None \<Longrightarrow> re_reachable server st"
| re_step: "re_reachable server st \<Longrightarrow> re_act server rules e st = Some (st', es) \<Longrightarrow> re_reachable server st'"

lemma re_dialog:
  "re_reachable server st \<Longrightarrow> re_isDeleteOpen st \<longleftrightarrow> re_selectedRule st \<noteq> None"
proof (induction rule: re_reachable.induct)
  case (re_step st rules e st' es)
  then show ?case by (cases e) (auto simp: re_handleDeleteConfirm_def Let_def split: if_splits option.splits sum.splits)
qed simp

end
