(* ===== verification/Spec2Isabelle.thy ===== *)
theory Spec2Isabelle
  imports Auth Ip_Access App_Pages Settings_Pages Widgets Bot_Scoring Reputation_Dialogs Charts Rate_Dialogs Rule_Views
begin

text \<open>
  \<^bold>\<open>A verification library for the dashboard of VibesWAF.\<close>

  VibesWAF is a web application firewall.  Its dashboard, the TypeScript program under \<open>src/frontend/src\<close>, edits rules,
  applications, certificates and settings, which a Go server stores and enforces.  The library models the dashboard's own logic
  and, of the server, the parts that decide whether what the dashboard sends means what the user entered: the router
  (\<open>src/internal/api/v1/router.go\<close>), the rule language (\<open>src/internal/domain/rule\<close>), the checks of the handlers the security
  pages call (\<open>src/internal/api/v1/handler\<close>), the scoring of bots (\<open>src/internal/scoring\<close>), the limits and the flood protector
  (\<open>src/internal/ratelimit\<close>), the request pipeline with its stages, decisions, scores and trace (\<open>src/internal/pipeline\<close>), the trust of
  a solved challenge (\<open>src/internal/challenge\<close>) and the categories of threats.

  \<^bold>\<open>How the code is modelled.\<close>  Interfaces are records with the field names prefixed, string unions are datatypes,
  dictionaries are association lists in insertion order, a JavaScript number is \<open>int\<close> where the code uses it as an integer and
  a decimal (\<open>int \<times> nat\<close>) or a real (shares and printed percentages, without the rounding of
  binary fractions) where it has a fraction.  The \<open>useState\<close> variables of a component are the fields of one record; a
  handler takes the record and returns the new one with the list of its effects (requests, toasts, navigation).  A server is a
  function from calls to an error or a JSON value and an argument of every handler; where answers can be overtaken by the user
  (\<open>Ssl_Hooks\<close>, \<open>Ssl_Pages\<close>, \<open>Auth\<close>, \<open>Monitoring\<close>) the component is a step relation instead.  Third-party code is an argument with
  its documented laws as hypotheses: \<open>query_client_laws\<close> for the cache of react-query, \<open>array_move_laws\<close> for dnd-kit.

  \<^bold>\<open>Theories and the code they model.\<close>
  \<^item> \<open>Js_Prelude\<close>, \<open>Js_Regex\<close>, \<open>Url\<close>: the JavaScript, regular expressions and URL encoding the code uses.
  \<^item> \<open>Field_Metadata\<close>, \<open>Expression\<close>: \<open>lib/fields.ts\<close>, \<open>lib/field-metadata.ts\<close>, \<open>components/rules/ExpressionBuilder.tsx\<close>.
  \<^item> \<open>Rule_Language\<close>, \<open>Rule_Roundtrip\<close>, \<open>Builder_Reload\<close>: lexer and parser of the backend, \<open>lib/ast-converter.ts\<close>, and the way
    from the builder to a stored rule and back.
  \<^item> \<open>Api_Types\<close>, \<open>Api_Client\<close>, \<open>Api_Router\<close>: \<open>lib/api/types.ts\<close>, \<open>lib/api/client.ts\<close> and the router.
  \<^item> \<open>Query_Hooks\<close>, \<open>Rule_Reorder\<close>, \<open>Ssl_Hooks\<close>: \<open>hooks/**\<close>, with the optimistic reordering and the polling of certificates.
  \<^item> \<open>Rules_Page\<close>: \<open>RulesEngine.tsx\<close>, \<open>RuleForm.tsx\<close>, \<open>components/rules/AppRulesSection.tsx\<close>.
  \<^item> \<open>Auth\<close>: \<open>contexts/AuthContext.tsx\<close>, \<open>ProtectedRoute.tsx\<close>, \<open>App.tsx\<close>, \<open>Login.tsx\<close>, \<open>Setup.tsx\<close>.
  \<^item> \<open>Form_Input\<close>, \<open>Paged_List\<close>: what forms and tables share (\<open>TagInput\<close> of \<open>BasicTab.tsx\<close>, paging, selection).
  \<^item> \<open>Ip_Access\<close>, \<open>App_Form\<close>, \<open>App_Pages\<close>: \<open>IPAccessSection.tsx\<close> and \<open>pages/applications\<close>.
  \<^item> \<open>Rate_Limit\<close>, \<open>Bot_Detector\<close>, \<open>Ip_Reputation\<close>, \<open>Settings_Pages\<close>, \<open>Ssl_Pages\<close>: \<open>pages/security\<close> and
    \<open>components/ssl/CertificateTable.tsx\<close>.
  \<^item> \<open>Views\<close>, \<open>Bot_Dialogs\<close>, \<open>Reputation_Dialogs\<close>: what the bot and the reputation page show and let the user do: tables with
    their pagers and captions, cards, dialogs, the text and the state of every control, and the page as a step relation over its
    controls and the answers of the server.
  \<^item> \<open>Server_Checks\<close>, \<open>Bot_Scoring\<close>: the checks of \<open>bot_pattern_handler.go\<close>, \<open>bot_ip_range_handler.go\<close>,
    \<open>ip_reputation_handler.go\<close> and \<open>validation.go\<close>, the bulk update of \<open>bot_pattern_repository.go\<close>, and \<open>scorer.go\<close>.
  \<^item> \<open>Flood\<close>, \<open>Limit_Server\<close>, \<open>Rate_Dialogs\<close>: \<open>flood.go\<close> and \<open>token_bucket.go\<close>, the handler, the service and the pipeline stages
    that store and enforce limits, and the rate-limit page as a machine together with them.
  \<^item> \<open>Scoring_Pages\<close>: what \<open>ScoringEngine.tsx\<close> and \<open>AnomalyBehavior.tsx\<close> show, with \<open>risk_score.go\<close>, \<open>decision_engine.go\<close> and
    \<open>protocol_anomaly_handler.go\<close>, which use the numbers.
  \<^item> \<open>Engine_Pages\<close>: the tabs, inputs and tables of \<open>WAFEngine.tsx\<close> and \<open>Challenged.tsx\<close>, with the levels of trust of
    \<open>trajectory.go\<close> and \<open>trust_scorer.go\<close>.
  \<^item> \<open>Trace_Pages\<close>: the event log with its drawer, and the fingerprints (\<open>pages/monitoring\<close>), with \<open>trace.go\<close>, which writes what the
    drawer reads.
  \<^item> \<open>Pipeline\<close>: \<open>pipeline.go\<close>, \<open>context.go\<close>, \<open>decision.go\<close>, \<open>decision_engine.go\<close> and the handlers of \<open>pipeline/handlers\<close>, in the order
    of \<open>main.go\<close>.
  \<^item> \<open>Rule_Views\<close>: the rows, forms, lists and dialogs of \<open>RulesEngine.tsx\<close>, \<open>RuleForm.tsx\<close>, \<open>AppRulesSection.tsx\<close> and
    \<open>IPAccessSection.tsx\<close>, as machines over the handlers of \<open>Rules_Page\<close> and \<open>Ip_Access\<close>.
  \<^item> \<open>Charts\<close>: figures, rows, shares, labels, colours and data sets of \<open>Dashboard.tsx\<close> and \<open>ThreatIntelligence.tsx\<close>, with the
    categories and the score bands of \<open>analytics_handler.go\<close>.
  \<^item> \<open>Monitoring\<close>: \<open>pages/monitoring\<close>, the time range of \<open>Dashboard.tsx\<close>, \<open>lib/countries.ts\<close>.
  \<^item> \<open>Widgets\<close>: toasts, the value list, the world map, the rows of the pipeline trace, the certificate details
    (\<open>components/ui\<close>, \<open>components/shared/WorldMap.tsx\<close>, \<open>CertificateDetailsDialog.tsx\<close>).
  \<^item> this theory: requests of the pages, through hooks and client, at the handlers of the router.

  \<^bold>\<open>Interfaces\<close> are locales, interpreted on the definitions of the model: \<open>resource_hooks\<close> (mutations refresh the queries below
  their root key), \<open>optimistic_reorder\<close> (cache after success and failure), \<open>ssl_operation\<close> (the actions of the certificate hook),
  \<open>item_list\<close> (a list edited like a set), \<open>paged_view\<close> (pages of a list), \<open>stored_choice\<close> (a remembered choice),
  \<open>paged_nav\<close> (a page number moved by a pager).

  \<^bold>\<open>What is shown.\<close>
  \<^item> Rules: the text of a builder group means, to the backend, what the group says; saving and opening again gives the same rule
    for printable groups of the stated shape, and which groups are changed on the way; identifiers of conditions are distinct.
  \<^item> Requests: when an operation of the client resolves or throws, with which status; every operation reaches its handler; the
    query string of the event log is read back as written; equal cache keys mean equal requests; mutations refresh their lists.
  \<^item> Pages: dragging refines a move in the list and is undone when refused; the application form keeps its invariant over every
    sequence of inputs; lists of exclusions refine sets; tables show every row on exactly one page; saving sends the form and nothing
    else; forms reloaded from what they have saved.
  \<^item> Dialogs against the server: buttons are enabled exactly when the server accepts what they send, suggested scores are accepted,
    and the two bulk actions that store a score the server's own rule refuses; the score of a request stays between 0 and 100.
  \<^item> Bounds: page numbers stay within their tables unless an answer shrinks one, and the caption counts the rows shown; shares
    are between 0 and 100 and their bars between the least width and 100; the names of categories agree between page and server.
  \<^item> Limits: saving a limit is a function update of the stored limits; a saved limit bounds how often an address passes in any
    window; an emptied limit stops everything; a bucket passes at most its capacity and its refill.
  \<^item> Scores: the page's bar shows the decisions of the engine and its figure bounds every score; a rule switched off adds
    nothing; more confidence in a solved challenge never raises the score; which forms of the firewall page the server accepts.
  \<^item> Requests through the pipeline: what a limit stops stays stopped; which modules a rule really skips; the first rule that decides
    gives the answer; decisions only harden; and what the drawer shows of the trace, with the fields its encoding leaves out.
  \<^item> Sections of rules: in every reachable state Submit is enabled exactly when its handler accepts, what it sends is well formed, and
    the dialog deletes what it names.
  \<^item> Sessions and certificates: no page without a grant of the server; one poll timer at most, while a certificate is pending; no
    wildcard certificate without a confirmed record; the search of the event log settles on the text typed.

  \<^bold>\<open>Bounds and fuel.\<close>  The parser of the rule language runs on fuel, \<open>parse_fuel\<close> = four units per token and four more; \<open>parser_terminates\<close>
  shows that this and every larger amount suffices, so \<open>Parse\<close> has no fuel error.  Every other function is total by structural or
  measured recursion.  Runs of step relations are unbounded.  Hashes are 32-bit words and durations in nanoseconds 64-bit words, as in
  Go; the bound on a window assumes fewer addresses in a shard than it has room for, and a duration without overflow.

  \<^bold>\<open>Not modelled.\<close>  Layout and styling; the drawing of charts, and placeholders while data is loaded; the markup of the tables and
  dialogs of certificates and of the tabs of the application form, whose handlers are modelled; the primitives of
  \<open>components/ui\<close>, which wrap third-party widgets; components no page imports (\<open>IPRuleDialog.tsx\<close>, \<open>IPAccessRulesTable.tsx\<close>,
  \<open>CacheMetrics.tsx\<close>); rendering and effect scheduling of React beyond the order stated at a definition; characters outside ASCII
  in the case maps.  Of the Go server: the remaining handlers, the database and its caches, the signature of the challenge cookie, the
  search for addresses and networks, the firewall library, and the two scorers that read Redis; in \<open>Pipeline\<close> their results are fields
  of the environment of a request.
\<close>

section \<open>From the pages to the handlers of the server\<close>

text \<open>At most one request, and the router hands it to one of the given handlers behind authentication.\<close>

definition reaches :: "handler list \<Rightarrow> ui_effect list \<Rightarrow> bool" where
  "reaches hs es =
     (case mutations es of
        [] \<Rightarrow> True
      | [mu] \<Rightarrow> list_ex (\<lambda>h. route_call (mu_call mu) = Some (Authenticated h)) hs
      | _ \<Rightarrow> False)"

lemma reaches_simps:
  "reaches hs [] = True" "reaches hs (Toast t k # es) = reaches hs es"
  "reaches hs (mutate_toast server mu a b) = list_ex (\<lambda>h. route_call (mu_call mu) = Some (Authenticated h)) hs"
  "reaches hs (mutate_message server mu a) = list_ex (\<lambda>h. route_call (mu_call mu) = Some (Authenticated h)) hs"
  "reaches hs (mutate_callbacks server mu f) = list_ex (\<lambda>h. route_call (mu_call mu) = Some (Authenticated h)) hs"
  by (simp_all add: reaches_def)

lemmas resource_routes =
  fixed_endpoints_routed [unfolded fixed_endpoints_def list.pred_inject prod.case]
  numbered_endpoints_routed [unfolded numbered_endpoints_def list.pred_inject prod.case]

lemma settings_reach:
  "reaches [SettingsHandler Settings_UpdateWAFConfig] (waf_handleSave server p)"
  "reaches [SettingsHandler Settings_UpdateBotConfig] (challenge_handleSave server c f)"
  "reaches [SettingsHandler Settings_UpdateScoringConfig] (scoring_handleSave server sc)"
  "reaches [SettingsHandler Settings_UpdateProtocolAnomalyConfig] (anomaly_handleSave server ac)"
  by (simp_all add: waf_handleSave_def challenge_handleSave_def scoring_handleSave_def anomaly_handleSave_def Let_def
      reaches_simps mutation_defs resource_routes split: option.splits)

lemma rate_limit_reach:
  "reaches [RateLimitHandler RateLimit_UpdateRateLimitConfig] (rlm_handleToggle server d t)"
  "reaches [RateLimitHandler RateLimit_UpdateRateLimitConfig] (snd (rlm_saveEdit server d t rl))"
  "reaches [RateLimitHandler RateLimit_UpdateRateLimitConfig] (snd (addExtension server d rl))"
  "reaches [RateLimitHandler RateLimit_UpdateRateLimitConfig] (removeExtension server d x)"
  "reaches [RateLimitHandler RateLimit_UpdateRateLimitConfig] (snd (addPath server d rl))"
  "reaches [RateLimitHandler RateLimit_UpdateRateLimitConfig] (removePath server d x)"
  by (simp_all add: rlm_handleToggle_def rlm_saveEdit_def addExtension_def removeExtension_def addPath_def removePath_def Let_def
      reaches_simps mutation_defs resource_routes split: option.splits)

lemma bot_reach:
  "reaches [BotPatternHandler BotPattern_Update, BotPatternHandler BotPattern_BulkCreate] (snd (handleSavePattern server b))"
  "reaches [BotPatternHandler BotPattern_Delete] (handleDeletePattern server ok i)"
  "reaches [BotPatternHandler BotPattern_BulkDelete] (snd (handleBulkDeletePatterns server b))"
  "reaches [BotPatternHandler BotPattern_BulkUpdate] (snd (handleBulkEdit server b))"
  "reaches [SettingsHandler Settings_UpdateBotConfig] (snd (handleSaveConfig server b))"
  "reaches [BotIPRangeHandler BotIPRange_Update, BotIPRangeHandler BotIPRange_Create] (snd (handleSaveIPRange server b))"
  "reaches [BotIPRangeHandler BotIPRange_Delete] (handleDeleteIPRange server ok i)"
  "reaches [BotIPRangeHandler BotIPRange_Sync] (handleSyncIPRange server i)"
  by (simp_all add: handleSavePattern_def handleDeletePattern_def handleBulkDeletePatterns_def handleBulkEdit_def
      handleSaveConfig_def handleSaveIPRange_def handleDeleteIPRange_def handleSyncIPRange_def Let_def
      reaches_simps mutation_defs resource_routes split: option.splits)

lemma reputation_reach:
  "reaches [IpReputationHandler IpReputation_Update, IpReputationHandler IpReputation_Create] (snd (rp_handleSubmit server r))"
  "reaches [IpReputationHandler IpReputation_Delete] (rp_handleDelete server i)"
  "reaches [IpReputationHandler IpReputation_BulkDelete] (snd (rp_handleBulkDelete server r))"
  "reaches [IpReputationHandler IpReputation_BulkUpdateScore] (snd (rp_handleBulkUpdateScore server r))"
  "reaches [IpReputationHandler IpReputation_UpdateConfig] (snd (handleSaveMaxmind server r))"
  "reaches [IpReputationHandler IpReputation_UpdateConfig] (snd (handleSaveSpamhaus server r))"
  by (simp_all add: rp_handleSubmit_def rp_handleDelete_def rp_handleBulkDelete_def rp_handleBulkUpdateScore_def
      handleSaveMaxmind_def handleSaveSpamhaus_def Let_def reaches_simps mutation_defs resource_routes split: option.splits)


end
